(* ===== verification/Prelude.thy ===== *)
theory Prelude
  imports Main "HOL-Library.Char_ord" "HOL-Library.List_Lexorder" "HOL-Library.Sublist"
    "HOL-Library.Multiset"
begin

text \<open>
  What every component of the kernel model shares: early returns as values, the
  \<open>for i, item := range items\<close> loop that stops at the first error, and the interface of
  a loop that rejects a repeated key. A Go function that returns only an \<open>error\<close> is modelled
  by an \<open>'e option\<close> (\<open>None\<close> is \<open>nil\<close>); one that returns a value and an \<open>error\<close> by a sum
  (\<open>Inl\<close> the error, \<open>Inr\<close> the value).
\<close>

named_theorems go_string \<open>facts about the byte string operations of package strings\<close>
named_theorems go_path \<open>facts about the lexical operations of package filepath\<close>
named_theorems check_eq \<open>characterisations of the checks of the contract validator\<close>

type_synonym 'e err = "'e option"

subsection \<open>Early returns\<close>

text \<open>\<open>if !b { return e }\<close>, and a sequence of checks each of which returns its error.\<close>

definition require :: "bool \<Rightarrow> 'e \<Rightarrow> 'e err" where
  "require b e = (if b then None else Some e)"

fun first_err :: "'e err list \<Rightarrow> 'e err" where
  "first_err [] = None"
| "first_err (c # cs) = (case c of Some e \<Rightarrow> Some e | None \<Rightarrow> first_err cs)"

text \<open>\<open>if err != nil { return err }\<close> before a step that uses the value.\<close>

definition and_then :: "'e + 'a \<Rightarrow> ('a \<Rightarrow> 'e + 'b) \<Rightarrow> 'e + 'b" where
  "and_then r f = (case r of Inl e \<Rightarrow> Inl e | Inr x \<Rightarrow> f x)"

definition guard_err :: "'e err \<Rightarrow> 'e + 'b \<Rightarrow> 'e + 'b" where
  "guard_err c r = (case c of Some e \<Rightarrow> Inl e | None \<Rightarrow> r)"

definition err_of :: "'e + 'a \<Rightarrow> 'e err" where
  "err_of r = (case r of Inl e \<Rightarrow> Some e | Inr _ \<Rightarrow> None)"

text \<open>
  Evaluation in the kernel unfolds the chains of steps into case distinctions, so that a step is
  evaluated only once the value it uses is known.
\<close>

lemma map_sum_case [code_unfold]:
  "map_sum id f r = (case r of Inl e \<Rightarrow> Inl e | Inr x \<Rightarrow> Inr (f x))"
  by (cases r) simp_all

lemma bind_case [code_unfold]: "Option.bind r f = (case r of None \<Rightarrow> None | Some x \<Rightarrow> f x)"
  by (cases r) simp_all

declare and_then_def [code_unfold] guard_err_def [code_unfold]

lemma require_None [simp]: "require b e = None \<longleftrightarrow> b"
  by (simp add: require_def)

lemma require_Some [simp]: "require b e = Some e' \<longleftrightarrow> \<not> b \<and> e' = e"
  by (auto simp: require_def)

lemma require_simps [simp]: "require True e = None" "require False e = Some e"
  by (simp_all add: require_def)

lemma first_err_Cons [simp]:
  "first_err (None # cs) = first_err cs"
  "first_err (Some e # cs) = Some e"
  "first_err (c # cs) = None \<longleftrightarrow> c = None \<and> first_err cs = None"
  by (simp_all split: option.splits)

lemma first_err_None: "first_err cs = None \<longleftrightarrow> (\<forall>c\<in>set cs. c = None)"
  by (induction cs) (auto split: option.splits)

lemma first_err_append:
  "first_err (cs @ ds) = (case first_err cs of Some e \<Rightarrow> Some e | None \<Rightarrow> first_err ds)"
  by (induction cs) (simp_all split: option.split)

lemma first_err_in: "first_err cs = Some e \<Longrightarrow> Some e \<in> set cs"
  by (induction cs) (auto split: option.splits)

declare first_err.simps(2) [simp del]

lemma and_then_Inr [simp]: "and_then r f = Inr y \<longleftrightarrow> (\<exists>x. r = Inr x \<and> f x = Inr y)"
  by (auto simp: and_then_def split: sum.splits)

lemma and_then_Inl: "and_then r f = Inl e \<longleftrightarrow> r = Inl e \<or> (\<exists>x. r = Inr x \<and> f x = Inl e)"
  by (auto simp: and_then_def split: sum.splits)

lemma map_sum_Inr: "map_sum f g r = Inr y \<longleftrightarrow> (\<exists>x. r = Inr x \<and> y = g x)"
  by (cases r) auto

lemma guard_err_Inr [simp]: "guard_err c r = Inr y \<longleftrightarrow> c = None \<and> r = Inr y"
  by (auto simp: guard_err_def split: option.splits)

lemma err_of_None: "err_of r = None \<longleftrightarrow> (\<exists>x. r = Inr x)"
  by (auto simp: err_of_def split: sum.splits)

lemma err_of_simps [simp]: "err_of (Inl e) = Some e" "err_of (Inr x) = None"
  by (simp_all add: err_of_def)

subsection \<open>The range loop that returns at the first error\<close>

text \<open>
  \<open>for i, item := range items { if err := ...; err != nil { return err }; st = ... }\<close>:
  \<open>chk\<close> is the sequence of early returns of the body, \<open>upd\<close> what the body leaves behind.
\<close>

fun range_check ::
  "(nat \<Rightarrow> 's \<Rightarrow> 'a \<Rightarrow> 'e err) \<Rightarrow> ('s \<Rightarrow> 'a \<Rightarrow> 's) \<Rightarrow> nat \<Rightarrow> 's \<Rightarrow> 'a list \<Rightarrow> 'e + 's" where
  "range_check chk upd i st [] = Inr st"
| "range_check chk upd i st (x # xs) =
     (case chk i st x of
        Some e \<Rightarrow> Inl e
      | None \<Rightarrow> range_check chk upd (Suc i) (upd st x) xs)"

text \<open>The set of keys seen so far: \<open>out[key] = struct{}{}\<close> at the end of the body.\<close>

definition add_key :: "('a \<Rightarrow> string) \<Rightarrow> string set \<Rightarrow> 'a \<Rightarrow> string set" where
  "add_key key seen x = insert (key x) seen"

text \<open>And with two sets, names and paths.\<close>

definition add_keys2 ::
  "('a \<Rightarrow> string) \<Rightarrow> ('a \<Rightarrow> string) \<Rightarrow> string set \<times> string set \<Rightarrow> 'a \<Rightarrow> string set \<times> string set"
where
  "add_keys2 k1 k2 seen x = (insert (k1 x) (fst seen), insert (k2 x) (snd seen))"

text \<open>
  The interface of the validator's loops: an item passes exactly if it is good on its own
  and its key has not been seen. Its clients are the loops of the contract validator.
\<close>

locale keyed_check =
  fixes chk :: "nat \<Rightarrow> string set \<Rightarrow> 'a \<Rightarrow> 'e err"
    and key :: "'a \<Rightarrow> string"
    and good :: "'a \<Rightarrow> bool"
  assumes pass: "chk i seen x = None \<longleftrightarrow> good x \<and> key x \<notin> seen"
begin

lemma loop_Inr:
  "range_check chk (add_key key) i seen xs = Inr out \<longleftrightarrow>
     (\<forall>x\<in>set xs. good x) \<and> distinct (map key xs) \<and> key ` set xs \<inter> seen = {} \<and>
     out = seen \<union> key ` set xs"
proof (induction xs arbitrary: i seen)
  case Nil
  then show ?case by auto
next
  case (Cons x xs)
  show ?case
  proof (cases "chk i seen x")
    case None
    then have "good x" "key x \<notin> seen" by (auto simp: pass)
    moreover have "add_key key seen x = insert (key x) seen" by (simp add: add_key_def)
    ultimately show ?thesis using None by (auto simp: Cons.IH)
  next
    case (Some e)
    then have "\<not> (good x \<and> key x \<notin> seen)" by (metis pass option.distinct(1))
    with Some show ?thesis by auto
  qed
qed

lemma loop_ok:
  "err_of (range_check chk (add_key key) i {} xs) = None \<longleftrightarrow>
     (\<forall>x\<in>set xs. good x) \<and> distinct (map key xs)"
  by (auto simp: err_of_None loop_Inr)

lemma loop_keys:
  "range_check chk (add_key key) i {} xs = Inr out \<Longrightarrow> out = key ` set xs"
  by (simp add: loop_Inr)

end

text \<open>The same with two keys that must both be fresh.\<close>

locale keyed_check2 =
  fixes chk :: "nat \<Rightarrow> string set \<times> string set \<Rightarrow> 'a \<Rightarrow> 'e err"
    and key1 key2 :: "'a \<Rightarrow> string"
    and good :: "'a \<Rightarrow> bool"
  assumes pass: "chk i seen x = None \<longleftrightarrow> good x \<and> key1 x \<notin> fst seen \<and> key2 x \<notin> snd seen"
begin

lemma loop_Inr:
  "range_check chk (add_keys2 key1 key2) i seen xs = Inr out \<longleftrightarrow>
     (\<forall>x\<in>set xs. good x) \<and> distinct (map key1 xs) \<and> distinct (map key2 xs) \<and>
     key1 ` set xs \<inter> fst seen = {} \<and> key2 ` set xs \<inter> snd seen = {} \<and>
     out = (fst seen \<union> key1 ` set xs, snd seen \<union> key2 ` set xs)"
proof (induction xs arbitrary: i seen)
  case Nil
  then show ?case by auto
next
  case (Cons x xs)
  show ?case
  proof (cases "chk i seen x")
    case None
    then have "good x" "key1 x \<notin> fst seen" "key2 x \<notin> snd seen" by (auto simp: pass)
    moreover have "add_keys2 key1 key2 seen x = (insert (key1 x) (fst seen), insert (key2 x) (snd seen))"
      by (simp add: add_keys2_def)
    ultimately show ?thesis using None by (auto simp: Cons.IH)
  next
    case (Some e)
    then have "\<not> (good x \<and> key1 x \<notin> fst seen \<and> key2 x \<notin> snd seen)"
      by (metis pass option.distinct(1))
    with Some show ?thesis by auto
  qed
qed

end

subsection \<open>Association lists as Go maps with insertion order\<close>

text \<open>
  A map whose values are mutated in place through a pointer is an association list here:
  \<open>upsert k mk f\<close> applies \<open>f\<close> to the entry of \<open>k\<close>, which is created as \<open>mk\<close> if it is absent.
\<close>

fun upsert :: "'k \<Rightarrow> 'v \<Rightarrow> ('v \<Rightarrow> 'v) \<Rightarrow> ('k \<times> 'v) list \<Rightarrow> ('k \<times> 'v) list" where
  "upsert k mk f [] = [(k, f mk)]"
| "upsert k mk f ((k', v) # m) =
     (if k' = k then (k', f v) # m else (k', v) # upsert k mk f m)"

lemma map_of_upsert:
  "map_of (upsert k mk f m) =
     (map_of m)(k \<mapsto> f (case map_of m k of None \<Rightarrow> mk | Some v \<Rightarrow> v))"
  by (induction m) (auto simp: fun_eq_iff)

lemma keys_upsert: "fst ` set (upsert k mk f m) = insert k (fst ` set m)"
  by (induction k mk f m rule: upsert.induct) auto

lemma distinct_upsert:
  "distinct (map fst m) \<Longrightarrow> distinct (map fst (upsert k mk f m))"
proof (induction m)
  case (Cons p m)
  obtain k' v where p: "p = (k', v)" by (cases p)
  have "fst ` set (upsert k mk f m) = insert k (fst ` set m)" by (rule keys_upsert)
  with Cons p show ?case by auto
qed simp

text \<open>
  An invariant of the entries survives an \<open>upsert\<close> whose update keeps it, when the new entry has
  it or the key is already there.
\<close>

lemma upsert_inv:
  assumes "\<forall>e\<in>set m. P (fst e) (snd e)" "k \<notin> fst ` set m \<Longrightarrow> P k (f mk)"
    and "\<And>v. P k v \<Longrightarrow> P k (f v)"
  shows "\<forall>e\<in>set (upsert k mk f m). P (fst e) (snd e)"
  using assms by (induction k mk f m rule: upsert.induct) auto

lemma foldl_inv:
  assumes "I st" "\<And>st x. x \<in> set xs \<Longrightarrow> I st \<Longrightarrow> I (step st x)"
  shows "I (foldl step st xs)"
  using assms by (induction xs arbitrary: st) auto

text \<open>A loop that appends to a field, or adds to a counter, of the state it threads.\<close>

lemma foldl_field_id:
  "(\<And>st x. g (step st x) = g st) \<Longrightarrow> g (foldl step st xs) = g st"
  by (induction xs arbitrary: st) auto

lemma foldl_field_append:
  "(\<And>st x. g (step st x) = g st @ h x) \<Longrightarrow> g (foldl step st xs) = g st @ concat (map h xs)"
  by (induction xs arbitrary: st) auto

lemma foldl_field_add:
  fixes g :: "'s \<Rightarrow> nat"
  shows "(\<And>st x. g (step st x) = g st + h x) \<Longrightarrow>
         g (foldl step st xs) = g st + sum_list (map h xs)"
  by (induction xs arbitrary: st) auto

lemma foldl_field_union:
  "(\<And>st x. g (step st x) = g st \<union> h x) \<Longrightarrow> g (foldl step st xs) = g st \<union> \<Union> (h ` set xs)"
  by (induction xs arbitrary: st) auto

text \<open>Sorting keeps what does not depend on the order.\<close>

lemma distinct_map_sort_key [simp]: "distinct (map g (sort_key k xs)) = distinct (map g xs)"
  by (rule mset_eq_imp_distinct_iff) simp

lemma sum_list_sort_key:
  fixes f :: "'a \<Rightarrow> nat"
  shows "sum_list (map f (sort_key k xs)) = sum_list (map f xs)"
  by (simp flip: sum_mset_sum_list)

lemma find_unique:
  assumes "x \<in> set xs" "P x" "\<And>y. y \<in> set xs \<Longrightarrow> P y \<Longrightarrow> y = x"
  shows "find P xs = Some x"
proof (cases "find P xs")
  case None
  with assms(1,2) show ?thesis by (auto simp: find_None_iff)
next
  case (Some y)
  then have "y \<in> set xs \<and> P y" by (auto simp: find_Some_iff)
  with Some assms(3) show ?thesis by simp
qed

end
