(* ===== verification/Go_Strings.thy ===== *)
theory Go_Strings
  imports Prelude
begin

text \<open>
  The operations of Go's package \<open>strings\<close> (and \<open>sort.Strings\<close>) that the kernel uses. A Go
  string is its list of bytes: a \<open>char\<close> is one byte, so \<open>length\<close> is Go's \<open>len\<close>. \<open>TrimSpace\<close>
  removes the code points of \<open>unicode.IsSpace\<close> in their UTF-8 encoding; \<open>ToLower\<close> maps the
  ASCII letters and keeps every other byte, which is Go's result on ASCII text.
\<close>

subsection \<open>TrimSpace\<close>

definition space_runes :: "string list" where
  "space_runes =
     [[CHR 0x20], [CHR 0x09], [CHR 0x0A], [CHR 0x0B], [CHR 0x0C], [CHR 0x0D],
      [CHR 0xC2, CHR 0x85], [CHR 0xC2, CHR 0xA0], [CHR 0xE1, CHR 0x9A, CHR 0x80],
      [CHR 0xE2, CHR 0x80, CHR 0x80], [CHR 0xE2, CHR 0x80, CHR 0x81],
      [CHR 0xE2, CHR 0x80, CHR 0x82], [CHR 0xE2, CHR 0x80, CHR 0x83],
      [CHR 0xE2, CHR 0x80, CHR 0x84], [CHR 0xE2, CHR 0x80, CHR 0x85],
      [CHR 0xE2, CHR 0x80, CHR 0x86], [CHR 0xE2, CHR 0x80, CHR 0x87],
      [CHR 0xE2, CHR 0x80, CHR 0x88], [CHR 0xE2, CHR 0x80, CHR 0x89],
      [CHR 0xE2, CHR 0x80, CHR 0x8A], [CHR 0xE2, CHR 0x80, CHR 0xA8],
      [CHR 0xE2, CHR 0x80, CHR 0xA9], [CHR 0xE2, CHR 0x80, CHR 0xAF],
      [CHR 0xE2, CHR 0x81, CHR 0x9F], [CHR 0xE3, CHR 0x80, CHR 0x80]]"

text \<open>How many bytes of white space the string starts with (0: none).\<close>

fun head_run :: "string list \<Rightarrow> string \<Rightarrow> nat" where
  "head_run [] s = 0"
| "head_run (w # ws) s = (if prefix w s then length w else head_run ws s)"

function strip_runs :: "string list \<Rightarrow> string \<Rightarrow> string" where
  "strip_runs ws s =
     (if head_run ws s = 0 \<or> s = [] then s else strip_runs ws (drop (head_run ws s) s))"
  by pat_completeness auto
termination
  by (relation "measure (\<lambda>(ws, s). length s)") auto

declare strip_runs.simps [simp del]

definition trim_left :: "string \<Rightarrow> string" where
  "trim_left s = strip_runs space_runes s"

definition trim_right :: "string \<Rightarrow> string" where
  "trim_right s = rev (strip_runs (map rev space_runes) (rev s))"

definition trim_space :: "string \<Rightarrow> string" where
  "trim_space s = trim_right (trim_left s)"

text \<open>\<open>strings.TrimSpace(s) == ""\<close>, the test every validator starts with.\<close>

abbreviation blank :: "string \<Rightarrow> bool" where
  "blank s \<equiv> trim_space s = []"

lemma head_run_le: "head_run ws s \<le> length s"
  by (induction ws) (auto dest: prefix_length_le)

lemma head_run_0:
  "[] \<notin> set ws \<Longrightarrow> head_run ws s = 0 \<longleftrightarrow> (\<forall>w\<in>set ws. \<not> prefix w s)"
  by (induction ws) (auto split: if_splits)

lemma strip_runs_suffix: "suffix (strip_runs ws s) s"
proof (induction ws s rule: strip_runs.induct)
  case (1 ws s)
  show ?case
  proof (cases "head_run ws s = 0 \<or> s = []")
    case True
    then show ?thesis by (simp add: strip_runs.simps [of ws s])
  next
    case False
    with 1 have "suffix (strip_runs ws (drop (head_run ws s) s)) (drop (head_run ws s) s)"
      by simp
    then have "suffix (strip_runs ws (drop (head_run ws s) s)) s"
      by (rule suffix_order.trans [OF _ suffix_drop])
    with False show ?thesis by (simp add: strip_runs.simps [of ws s])
  qed
qed

lemma head_run_strip: "head_run ws (strip_runs ws s) = 0"
proof (induction ws s rule: strip_runs.induct)
  case (1 ws s)
  show ?case
  proof (cases "head_run ws s = 0 \<or> s = []")
    case True
    moreover have "head_run ws [] = 0" using head_run_le [of ws "[]"] by simp
    ultimately show ?thesis by (auto simp: strip_runs.simps [of ws s])
  next
    case False
    with 1 show ?thesis by (simp add: strip_runs.simps [of ws s])
  qed
qed

lemma strip_runs_fix: "head_run ws s = 0 \<Longrightarrow> strip_runs ws s = s"
  by (simp add: strip_runs.simps)

lemma head_run_prefix:
  "[] \<notin> set ws \<Longrightarrow> head_run ws s = 0 \<Longrightarrow> prefix t s \<Longrightarrow> head_run ws t = 0"
  by (auto simp: head_run_0 intro: prefix_order.trans)

lemma Nil_notin_space_runes [simp]: "[] \<notin> set space_runes"
  by (simp add: space_runes_def)

lemma trim_right_prefix: "prefix (trim_right s) s"
  using strip_runs_suffix [of "map rev space_runes" "rev s"]
  by (simp add: trim_right_def suffix_to_prefix)

lemma trim_left_idem [simp]: "trim_left (trim_left s) = trim_left s"
  by (simp add: trim_left_def strip_runs_fix head_run_strip)

lemma trim_right_idem [simp]: "trim_right (trim_right s) = trim_right s"
  by (simp add: trim_right_def strip_runs_fix head_run_strip)

lemma trim_left_trim_space: "trim_left (trim_space s) = trim_space s"
proof -
  have "head_run space_runes (trim_left s) = 0"
    by (simp add: trim_left_def head_run_strip)
  then have "head_run space_runes (trim_right (trim_left s)) = 0"
    by (rule head_run_prefix [OF Nil_notin_space_runes _ trim_right_prefix])
  then show ?thesis by (simp add: trim_left_def trim_space_def strip_runs_fix)
qed

lemma trim_space_idem [simp, go_string]: "trim_space (trim_space s) = trim_space s"
  using trim_left_trim_space [of s] by (simp add: trim_space_def)

lemma trim_space_sublist: "sublist (trim_space s) s"
proof -
  have "prefix (trim_space s) (trim_left s)" unfolding trim_space_def by (rule trim_right_prefix)
  moreover have "suffix (trim_left s) s" unfolding trim_left_def by (rule strip_runs_suffix)
  ultimately show ?thesis
    by (meson prefix_imp_sublist suffix_imp_sublist sublist_order.order.trans)
qed

lemma length_trim_space: "length (trim_space s) \<le> length s"
  by (rule sublist_length_le [OF trim_space_sublist])

lemma set_trim_space: "set (trim_space s) \<subseteq> set s"
  by (rule set_mono_sublist [OF trim_space_sublist])

lemma trim_left_Nil [simp]: "trim_left [] = []"
  by (simp add: trim_left_def strip_runs.simps)

lemma trim_space_Nil [simp]: "trim_space [] = []"
  by (simp add: trim_space_def trim_right_def strip_runs.simps)

text \<open>
  A string whose first and last byte are printable ASCII other than the blank is its own
  trimmed form, which the evaluation of closed instances uses.
\<close>

definition plain_char :: "char \<Rightarrow> bool" where
  "plain_char c \<longleftrightarrow> 33 \<le> (of_char c :: nat) \<and> (of_char c :: nat) \<le> 126"

definition plain_ends :: "string \<Rightarrow> bool" where
  "plain_ends s \<longleftrightarrow> s = [] \<or> plain_char (hd s) \<and> plain_char (last s)"

lemma head_run_plain:
  assumes "\<forall>w\<in>set ws. w \<noteq> [] \<and> \<not> plain_char (hd w)" "plain_char c"
  shows "head_run ws (c # s) = 0"
  using assms by (induction ws) (auto simp: prefix_Cons neq_Nil_conv)

lemma space_runes_ends:
  "\<forall>w\<in>set space_runes. w \<noteq> [] \<and> \<not> plain_char (hd w)"
  "\<forall>w\<in>set (map rev space_runes). w \<noteq> [] \<and> \<not> plain_char (hd w)"
  by (simp_all add: space_runes_def plain_char_def)

lemma trim_space_plain: "plain_ends s \<Longrightarrow> trim_space s = s"
proof (cases s)
  case (Cons c r)
  assume "plain_ends s"
  with Cons have c: "plain_char c" and l: "plain_char (last s)"
    by (simp_all add: plain_ends_def)
  from c Cons have left: "trim_left s = s"
    by (simp add: trim_left_def strip_runs_fix head_run_plain space_runes_ends)
  from Cons obtain r' where r': "rev s = last s # r'"
    by (metis append_butlast_last_id list.simps(3) rev.simps(2) rev_append append_Cons append_Nil
        rev_singleton_conv)
  have "head_run (map rev space_runes) (rev s) = 0"
    unfolding r' by (rule head_run_plain [OF space_runes_ends(2) l])
  with left show ?thesis
    by (simp add: trim_space_def trim_right_def strip_runs_fix)
qed simp

subsection \<open>Prefixes, suffixes, search\<close>

abbreviation has_prefix :: "string \<Rightarrow> string \<Rightarrow> bool" where
  "has_prefix s p \<equiv> prefix p s"

abbreviation has_suffix :: "string \<Rightarrow> string \<Rightarrow> bool" where
  "has_suffix s p \<equiv> suffix p s"

fun str_contains :: "string \<Rightarrow> string \<Rightarrow> bool" where
  "str_contains [] p = (p = [])"
| "str_contains (c # s) p = (prefix p (c # s) \<or> str_contains s p)"

lemma str_contains_iff: "str_contains s p \<longleftrightarrow> sublist p s"
  by (induction s) (auto simp: sublist_Cons_right)

definition trim_prefix :: "string \<Rightarrow> string \<Rightarrow> string" where
  "trim_prefix s p = (if prefix p s then drop (length p) s else s)"

definition trim_suffix :: "string \<Rightarrow> string \<Rightarrow> string" where
  "trim_suffix s p = (if suffix p s then take (length s - length p) s else s)"

text \<open>\<open>strings.Trim(s, cutset)\<close>, \<open>TrimRight\<close> for ASCII cutsets.\<close>

definition trim_right_set :: "string \<Rightarrow> string \<Rightarrow> string" where
  "trim_right_set s cset = rev (dropWhile (\<lambda>c. c \<in> set cset) (rev s))"

definition trim_set :: "string \<Rightarrow> string \<Rightarrow> string" where
  "trim_set s cset = trim_right_set (dropWhile (\<lambda>c. c \<in> set cset) s) cset"

definition lower_char :: "char \<Rightarrow> char" where
  "lower_char c =
     (if 65 \<le> (of_char c :: nat) \<and> (of_char c :: nat) \<le> 90
      then char_of ((of_char c :: nat) + 32) else c)"

definition to_lower :: "string \<Rightarrow> string" where
  "to_lower s = map lower_char s"

lemma lower_char_idem [simp]: "lower_char (lower_char c) = lower_char c"
proof (cases "65 \<le> (of_char c :: nat) \<and> (of_char c :: nat) \<le> 90")
  case True
  then have "of_char (char_of ((of_char c :: nat) + 32)) = (of_char c :: nat) + 32"
    by (simp add: of_char_of)
  with True show ?thesis by (simp add: lower_char_def)
next
  case False
  then have "lower_char c = c" unfolding lower_char_def by (rule if_not_P)
  then show ?thesis by simp
qed

lemma to_lower_idem [simp, go_string]: "to_lower (to_lower s) = to_lower s"
  by (simp add: to_lower_def)

lemma length_to_lower [simp]: "length (to_lower s) = length s"
  by (simp add: to_lower_def)

lemma to_lower_Nil [simp]: "to_lower s = [] \<longleftrightarrow> s = []" "to_lower [] = []"
  by (simp_all add: to_lower_def)

subsection \<open>Split, Join, Cut\<close>

fun split_on :: "char \<Rightarrow> string \<Rightarrow> string list" where
  "split_on c [] = [[]]"
| "split_on c (x # xs) =
     (if x = c then [] # split_on c xs
      else case split_on c xs of [] \<Rightarrow> [[x]] | y # ys \<Rightarrow> (x # y) # ys)"

fun join_with :: "string \<Rightarrow> string list \<Rightarrow> string" where
  "join_with sep [] = []"
| "join_with sep [x] = x"
| "join_with sep (x # y # ys) = x @ sep @ join_with sep (y # ys)"

text \<open>\<open>strings.Cut(s, c)\<close> for a one-byte separator: before, after, found.\<close>

definition cut_at :: "char \<Rightarrow> string \<Rightarrow> string \<times> string \<times> bool" where
  "cut_at c s =
     (takeWhile (\<lambda>x. x \<noteq> c) s, tl (dropWhile (\<lambda>x. x \<noteq> c) s), c \<in> set s)"

lemma split_on_not_Nil [simp]: "split_on c s \<noteq> []"
  by (induction s) (auto split: list.splits)

lemma join_split [simp, go_string]: "join_with [c] (split_on c s) = s"
proof (induction s)
  case (Cons x xs)
  show ?case
  proof (cases "split_on c xs")
    case (Cons y ys)
    with Cons.IH show ?thesis by (cases ys) auto
  qed simp
qed simp

lemma split_on_no_sep: "p \<in> set (split_on c s) \<Longrightarrow> c \<notin> set p"
  by (induction s arbitrary: p) (auto split: if_splits list.splits)

lemma split_on_single: "c \<notin> set s \<Longrightarrow> split_on c s = [s]"
  by (induction s) auto

lemma split_on_append: "c \<notin> set a \<Longrightarrow> split_on c (a @ c # b) = a # split_on c b"
  by (induction a) auto

lemma split_join [go_string]:
  "xs \<noteq> [] \<Longrightarrow> \<forall>x\<in>set xs. c \<notin> set x \<Longrightarrow> split_on c (join_with [c] xs) = xs"
  by (induction "[c]" xs rule: join_with.induct) (auto simp: split_on_single split_on_append)

lemma split_on_append_gen:
  "split_on c (a @ c # b) = split_on c a @ split_on c b"
proof (induction a)
  case (Cons x xs)
  show ?case
  proof (cases "split_on c xs")
    case (Cons y ys)
    with Cons.IH show ?thesis by simp
  qed simp
qed simp

lemma hd_split_on: "hd (split_on c s) = takeWhile (\<lambda>x. x \<noteq> c) s"
proof (induction s)
  case (Cons x xs)
  then show ?case by (cases "split_on c xs") auto
qed simp

lemma set_split_on: "p \<in> set (split_on c s) \<Longrightarrow> set p \<subseteq> set s"
  by (induction s arbitrary: p) (fastforce split: if_splits list.splits)+

lemma cut_at_found: "c \<in> set s \<Longrightarrow> fst (cut_at c s) @ c # fst (snd (cut_at c s)) = s"
  by (induction s) (auto simp: cut_at_def)

lemma cut_at_absent: "c \<notin> set s \<Longrightarrow> cut_at c s = (s, [], False)"
proof -
  assume c: "c \<notin> set s"
  then have d: "dropWhile (\<lambda>x. x \<noteq> c) s = []" by (auto simp: dropWhile_eq_Nil_conv)
  from c have "takeWhile (\<lambda>x. x \<noteq> c) s = s" by (auto simp: takeWhile_eq_all_conv)
  with c show ?thesis unfolding cut_at_def d by simp
qed

subsection \<open>Byte order and sort.Strings\<close>

text \<open>
  Go compares strings byte by byte, the shorter first where one is a prefix of the other:
  the order of \<open>List_Lexorder\<close> over \<open>Char_ord\<close>. \<open>sort.Strings\<close> is \<open>sort\<close> for it; on equal
  strings no order can be told from another. Where \<open>sort.Slice\<close> is given a comparison on
  keys, the key gets the comparison as its linear order (below) and the model is \<open>sort_key\<close>:
  a result of \<open>sort.Slice\<close> differs from it at most in the order of items with equal keys.
\<close>

abbreviation sort_strings :: "string list \<Rightarrow> string list" where
  "sort_strings \<equiv> sort"

text \<open>
  The comparison by which the catalog sorts items of several realizations:
  \<open>if x.Reference == y.Reference { return x.Name < y.Name }; return x.Reference > y.Reference\<close>,
  references descending and names ascending within one reference.
\<close>

datatype desc_asc = DescAsc (da_major: string) (da_minor: string)

instantiation desc_asc :: linorder
begin

definition less_desc_asc :: "desc_asc \<Rightarrow> desc_asc \<Rightarrow> bool" where
  "less_desc_asc x y =
     (if da_major x = da_major y then da_minor x < da_minor y else da_major x > da_major y)"

definition less_eq_desc_asc :: "desc_asc \<Rightarrow> desc_asc \<Rightarrow> bool" where
  "less_eq_desc_asc x y =
     (if da_major x = da_major y then da_minor x \<le> da_minor y else da_major x > da_major y)"

instance
  by standard (auto simp: less_desc_asc_def less_eq_desc_asc_def desc_asc.expand split: if_splits)

end

text \<open>And the one with both keys ascending, for the discovered realizations.\<close>

datatype asc_asc = AscAsc (aa_major: string) (aa_minor: string)

instantiation asc_asc :: linorder
begin

definition less_asc_asc :: "asc_asc \<Rightarrow> asc_asc \<Rightarrow> bool" where
  "less_asc_asc x y =
     (if aa_major x = aa_major y then aa_minor x < aa_minor y else aa_major x < aa_major y)"

definition less_eq_asc_asc :: "asc_asc \<Rightarrow> asc_asc \<Rightarrow> bool" where
  "less_eq_asc_asc x y =
     (if aa_major x = aa_major y then aa_minor x \<le> aa_minor y else aa_major x < aa_major y)"

instance
  by standard (auto simp: less_asc_asc_def less_eq_asc_asc_def asc_asc.expand split: if_splits)

end

text \<open>
  Sorting by a key that tells the items apart does not depend on the order in which they
  come: what makes a listing built from an unordered map deterministic.
\<close>

lemma sort_key_perm_unique:
  assumes "mset xs = mset ys" and "inj_on k (set xs)"
  shows "sort_key k xs = sort_key k ys"
proof (rule map_inj_on)
  have set_eq: "set xs = set ys" by (rule mset_eq_setD [OF assms(1)])
  have "sort (map k zs) = map k (sort_key k zs)" for zs
    by (rule properties_for_sort) simp_all
  then show "map k (sort_key k xs) = map k (sort_key k ys)"
    using assms(1) by (metis mset_map properties_for_sort sorted_sort mset_sort)
  show "inj_on k (set (sort_key k xs) \<union> set (sort_key k ys))"
    using assms(2) set_eq by simp
qed

end
