(* ===== verification/Go_Paths.thy ===== *)
theory Go_Paths
  imports Go_Strings
begin

text \<open>
  The lexical operations of Go's package \<open>filepath\<close> on Unix: \<open>Clean\<close>, \<open>Join\<close>, \<open>Dir\<close>, \<open>Base\<close>,
  \<open>IsAbs\<close>, \<open>Abs\<close> (relative to a working directory) and \<open>Rel\<close>. \<open>Clean\<close> is Go's loop over the
  components with the output as a stack, \<open>ToSlash\<close> and \<open>FromSlash\<close> are the identity.
\<close>

abbreviation slash :: string where
  "slash \<equiv> [CHR ''/'']"

subsection \<open>Clean\<close>

text \<open>One component of the input, the output components on a stack (last first).\<close>

fun clean_step :: "bool \<Rightarrow> string list \<Rightarrow> string \<Rightarrow> string list" where
  "clean_step rooted out c =
     (if c = [] \<or> c = ''.'' then out
      else if c = ''..'' then
        (case out of
           [] \<Rightarrow> if rooted then [] else [''..'']
         | t # r \<Rightarrow> if t = ''..'' then ''..'' # out else r)
      else c # out)"

definition clean_comps :: "bool \<Rightarrow> string \<Rightarrow> string list" where
  "clean_comps rooted s = rev (foldl (clean_step rooted) [] (split_on (CHR ''/'') s))"

definition is_abs :: "string \<Rightarrow> bool" where
  "is_abs s \<longleftrightarrow> prefix slash s"

definition clean :: "string \<Rightarrow> string" where
  "clean s =
     (if is_abs s then slash @ join_with slash (clean_comps True s)
      else if clean_comps False s = [] then ''.''
      else join_with slash (clean_comps False s))"

subsection \<open>Join, Dir, Base, Abs, Rel\<close>

definition join_paths :: "string list \<Rightarrow> string" where
  "join_paths elems =
     (case dropWhile (\<lambda>e. e = []) elems of [] \<Rightarrow> [] | es \<Rightarrow> clean (join_with slash es))"

definition dir_of :: "string \<Rightarrow> string" where
  "dir_of s = clean (rev (dropWhile (\<lambda>c. c \<noteq> CHR ''/'') (rev s)))"

definition base_of :: "string \<Rightarrow> string" where
  "base_of s =
     (if s = [] then ''.''
      else let t = dropWhile (\<lambda>c. c = CHR ''/'') (rev s);
               b = rev (takeWhile (\<lambda>c. c \<noteq> CHR ''/'') t)
           in if b = [] then slash else b)"

text \<open>\<open>Abs\<close> fails when the working directory is unknown (\<open>os.Getwd\<close> returned an error).\<close>

definition abs_path :: "string option \<Rightarrow> string \<Rightarrow> string option" where
  "abs_path wd s =
     (if is_abs s then Some (clean s) else map_option (\<lambda>w. join_paths [w, s]) wd)"

fun strip_common :: "'a list \<Rightarrow> 'a list \<Rightarrow> 'a list \<times> 'a list" where
  "strip_common (x # xs) (y # ys) = (if x = y then strip_common xs ys else (x # xs, y # ys))"
| "strip_common xs ys = (xs, ys)"

definition rel_path :: "string \<Rightarrow> string \<Rightarrow> string option" where
  "rel_path base targ =
     (let b = clean base; t = clean targ in
      if t = b then Some ''.''
      else let b' = (if b = ''.'' then [] else b) in
        if is_abs b' \<noteq> is_abs t then None
        else let comps = (\<lambda>p. filter (\<lambda>c. c \<noteq> []) (split_on (CHR ''/'') p));
                 r = strip_common (comps b') (comps t)
             in if fst r \<noteq> [] \<and> hd (fst r) = ''..'' then None
                else Some (join_with slash (replicate (length (fst r)) ''..'' @ snd r)))"

subsection \<open>Components of a cleaned absolute path\<close>

definition proper_comp :: "string \<Rightarrow> bool" where
  "proper_comp c \<longleftrightarrow> c \<noteq> [] \<and> c \<noteq> ''.'' \<and> c \<noteq> ''..'' \<and> CHR ''/'' \<notin> set c"

declare clean_step.simps [simp del]

lemma clean_step_True:
  "\<forall>d\<in>set out. proper_comp d \<Longrightarrow>
   clean_step True out c =
     (if c = [] \<or> c = ''.'' then out else if c = ''..'' then tl out else c # out)"
  by (cases out) (simp_all add: clean_step.simps proper_comp_def)

lemma clean_step_proper:
  assumes "\<forall>d\<in>set out. proper_comp d" "CHR ''/'' \<notin> set c"
  shows "\<forall>d\<in>set (clean_step True out c). proper_comp d"
proof -
  have "set (tl out) \<subseteq> set out" by (cases out) auto
  with assms show ?thesis by (auto simp: clean_step_True [OF assms(1)] proper_comp_def)
qed

lemma foldl_clean_proper:
  "\<forall>c\<in>set out. proper_comp c \<Longrightarrow> \<forall>c\<in>set cs. CHR ''/'' \<notin> set c \<Longrightarrow>
   \<forall>d\<in>set (foldl (clean_step True) out cs). proper_comp d"
proof (induction cs arbitrary: out)
  case (Cons c cs)
  have "\<forall>d\<in>set (clean_step True out c). proper_comp d"
    using Cons.prems by (intro clean_step_proper) auto
  with Cons show ?case by simp
qed simp

lemma clean_comps_proper [go_path]: "c \<in> set (clean_comps True s) \<Longrightarrow> proper_comp c"
  unfolding clean_comps_def
  using foldl_clean_proper [of "[]" "split_on (CHR ''/'') s"]
  by (auto dest: split_on_no_sep)

lemma foldl_clean_id:
  "\<forall>c\<in>set cs. proper_comp c \<Longrightarrow> foldl (clean_step True) out cs = rev cs @ out"
  by (induction cs arbitrary: out) (simp_all add: clean_step.simps proper_comp_def)

lemma is_abs_slash [simp]: "is_abs (CHR ''/'' # s)"
  by (simp add: is_abs_def)

lemma is_abs_clean [simp]: "is_abs s \<Longrightarrow> is_abs (clean s)"
  by (simp add: clean_def)

lemma clean_comps_slash:
  "clean_comps rooted (CHR ''/'' # s) = rev (foldl (clean_step rooted) [] (split_on (CHR ''/'') s))"
  by (simp add: clean_comps_def clean_step.simps)

lemma split_join_proper:
  "\<forall>c\<in>set cs. proper_comp c \<Longrightarrow>
   split_on (CHR ''/'') (join_with slash cs) = (if cs = [] then [[]] else cs)"
  by (auto simp: proper_comp_def intro: split_join)

lemma clean_comps_join:
  assumes "\<forall>c\<in>set cs. proper_comp c"
  shows "clean_comps True (slash @ join_with slash cs) = cs"
  using foldl_clean_id [OF assms] assms
  by (simp add: clean_comps_slash split_join_proper clean_step.simps)

text \<open>Cleaning an absolute path again changes nothing.\<close>

lemma clean_comps_clean: "is_abs s \<Longrightarrow> clean_comps True (clean s) = clean_comps True s"
  using clean_comps_join [of "clean_comps True s"] clean_comps_proper [of _ s]
  by (simp add: clean_def)

lemma clean_idem_abs: "is_abs s \<Longrightarrow> clean (clean s) = clean s"
  using clean_comps_clean [of s] by (simp add: clean_def)

lemma clean_eq_iff:
  "is_abs s \<Longrightarrow> is_abs t \<Longrightarrow> clean s = clean t \<longleftrightarrow> clean_comps True s = clean_comps True t"
  by (metis clean_comps_clean clean_def)

subsection \<open>Joining below an absolute directory\<close>

lemma foldl_clean_rev:
  "foldl (clean_step True) [] (split_on (CHR ''/'') s) = rev (clean_comps True s)"
  by (simp add: clean_comps_def)

lemma clean_comps_append:
  "clean_comps True (s @ CHR ''/'' # t) =
     rev (foldl (clean_step True) (rev (clean_comps True s)) (split_on (CHR ''/'') t))"
  by (simp add: clean_comps_def split_on_append_gen)

lemma join_paths_abs:
  "is_abs d \<Longrightarrow> e \<noteq> [] \<Longrightarrow> is_abs (join_paths [d, e])"
  "is_abs d \<Longrightarrow> e \<noteq> [] \<Longrightarrow>
     clean_comps True (join_paths [d, e]) =
       rev (foldl (clean_step True) (rev (clean_comps True d)) (split_on (CHR ''/'') e))"
proof -
  assume d: "is_abs d" and e: "e \<noteq> []"
  then obtain d' where d': "d = CHR ''/'' # d'" by (auto simp: is_abs_def prefix_def)
  have j: "join_paths [d, e] = clean (d @ CHR ''/'' # e)"
    by (simp add: join_paths_def d')
  have a: "is_abs (d @ CHR ''/'' # e)" by (simp add: d')
  then show "is_abs (join_paths [d, e])" unfolding j by (rule is_abs_clean)
  show "clean_comps True (join_paths [d, e]) =
      rev (foldl (clean_step True) (rev (clean_comps True d)) (split_on (CHR ''/'') e))"
    unfolding j by (simp add: clean_comps_clean [OF a] clean_comps_append)
qed

text \<open>Components that never go up only add below.\<close>

lemma foldl_clean_down:
  "''..'' \<notin> set cs \<Longrightarrow> \<exists>more. foldl (clean_step True) out cs = more @ out"
proof (induction cs arbitrary: out)
  case (Cons c cs)
  then have "''..'' \<notin> set cs" by simp
  moreover have "\<exists>m. clean_step True out c = m @ out"
    using Cons.prems by (auto simp: clean_step.simps)
  then obtain m where m: "clean_step True out c = m @ out" by blast
  moreover obtain more where
    "foldl (clean_step True) (clean_step True out c) cs = more @ clean_step True out c"
    using Cons.IH Cons.prems by auto
  ultimately have "foldl (clean_step True) out (c # cs) = (more @ m) @ out" by simp
  then show ?case by blast
qed simp

lemma join_proper_append:
  "xs \<noteq> [] \<Longrightarrow> ys \<noteq> [] \<Longrightarrow>
   join_with sep (xs @ ys) = join_with sep xs @ sep @ join_with sep ys"
proof (induction xs)
  case (Cons x xs)
  then show ?case by (cases xs; cases ys) auto
qed simp

lemma prefix_join_iff:
  assumes "\<forall>c\<in>set cs. proper_comp c" "\<forall>c\<in>set ds. proper_comp c" "cs \<noteq> []"
  shows "prefix (join_with slash cs @ slash) (join_with slash ds) \<longleftrightarrow> strict_prefix cs ds"
proof
  assume "prefix (join_with slash cs @ slash) (join_with slash ds)"
  then obtain w where w: "join_with slash ds = join_with slash cs @ CHR ''/'' # w"
    by (auto simp: prefix_def)
  then have "ds \<noteq> []" by auto
  with w assms have "ds = cs @ split_on (CHR ''/'') w"
    by (metis split_join_proper split_on_append_gen)
  then show "strict_prefix cs ds" by (auto simp: strict_prefix_def prefix_def)
next
  assume "strict_prefix cs ds"
  then obtain es where "ds = cs @ es" "es \<noteq> []"
    by (auto simp: strict_prefix_def prefix_def)
  then show "prefix (join_with slash cs @ slash) (join_with slash ds)"
    using assms(3) by (simp add: join_proper_append)
qed

end
