(* ===== verification/Path_Containment.thy ===== *)
theory Path_Containment
  imports Go_Paths
begin

text \<open>
  The check that keeps file references, artifacts and materialized output below a directory:
  \<open>PathContained\<close> of internal/realizations/catalog.go and its copy \<open>pathContained\<close> of
  internal/materializer/service.go, with the relative paths the kernel reports. The working
  directory that \<open>filepath.Abs\<close> consults is the parameter \<open>wd\<close> (\<open>None\<close>: \<open>os.Getwd\<close> failed).
\<close>

definition PathContained :: "string option \<Rightarrow> string \<Rightarrow> string \<Rightarrow> bool" where
  "PathContained wd root target =
     (case abs_path wd root of
        None \<Rightarrow> False
      | Some absRoot \<Rightarrow>
          (case abs_path wd target of
             None \<Rightarrow> False
           | Some absTarget \<Rightarrow>
               absTarget = absRoot \<or> has_prefix absTarget (absRoot @ slash)))"

definition pathContained :: "string option \<Rightarrow> string \<Rightarrow> string \<Rightarrow> bool" where
  "pathContained wd root target =
     (case abs_path wd root of
        None \<Rightarrow> False
      | Some absRoot \<Rightarrow>
          (case abs_path wd target of
             None \<Rightarrow> False
           | Some absTarget \<Rightarrow>
               absTarget = absRoot \<or> has_prefix absTarget (absRoot @ slash)))"

text \<open>\<open>relativeOrOriginal\<close> (materializer) and \<open>candidateRelativePath\<close> (registry): a failed \<open>Rel\<close>
  leaves the path.\<close>

definition relativeOrOriginal :: "string \<Rightarrow> string \<Rightarrow> string" where
  "relativeOrOriginal root path = (case rel_path root path of None \<Rightarrow> path | Some r \<Rightarrow> r)"

definition registry_candidateRelativePath :: "string \<Rightarrow> string \<Rightarrow> string" where
  "registry_candidateRelativePath repoRoot path =
     (case rel_path repoRoot path of None \<Rightarrow> path | Some r \<Rightarrow> r)"

text \<open>\<open>candidateRelativePath\<close> of package realizations first asks whether the file exists.\<close>

definition candidateRelativePath :: "(string \<Rightarrow> bool) \<Rightarrow> string \<Rightarrow> string \<Rightarrow> string" where
  "candidateRelativePath stat_ok repoRoot path =
     (if \<not> stat_ok path then []
      else case rel_path repoRoot path of None \<Rightarrow> path | Some r \<Rightarrow> r)"

subsection \<open>Containment is a prefix of components\<close>

lemma abs_path_abs [simp]: "is_abs s \<Longrightarrow> abs_path wd s = Some (clean s)"
  by (simp add: abs_path_def)

lemma abs_path_relative: "\<not> is_abs s \<Longrightarrow> abs_path wd s = map_option (\<lambda>w. join_paths [w, s]) wd"
  by (simp add: abs_path_def)

text \<open>The abstract meaning of containment, on the components of the cleaned paths.\<close>

definition below :: "string list \<Rightarrow> string list \<Rightarrow> bool" where
  "below r t \<longleftrightarrow> (if r = [] then t = [] else prefix r t)"

lemma below_refl [simp]: "below r r"
  by (simp add: below_def)

lemma below_trans: "below r s \<Longrightarrow> below s t \<Longrightarrow> below r t"
  by (auto simp: below_def split: if_splits)

lemma clean_abs: "is_abs s \<Longrightarrow> clean s = CHR ''/'' # join_with slash (clean_comps True s)"
  by (simp add: clean_def)

lemma join_no_leading_slash:
  "\<forall>c\<in>set cs. proper_comp c \<Longrightarrow> \<not> prefix slash (join_with slash cs)"
proof (cases cs)
  case (Cons c ds)
  assume "\<forall>c\<in>set cs. proper_comp c"
  with Cons have "proper_comp c" by simp
  moreover have "\<exists>w. join_with slash cs = c @ w" using Cons by (cases ds) auto
  ultimately show ?thesis by (cases c) (auto simp: proper_comp_def)
qed simp

lemma prefix_clean_iff:
  assumes "is_abs r" "is_abs t"
  shows "clean t = clean r \<or> prefix (clean r @ slash) (clean t) \<longleftrightarrow>
         below (clean_comps True r) (clean_comps True t)"
proof -
  let ?r = "clean_comps True r" and ?t = "clean_comps True t"
  have pr: "\<forall>c\<in>set ?r. proper_comp c" and pt: "\<forall>c\<in>set ?t. proper_comp c"
    by (simp_all add: clean_comps_proper)
  have eq: "clean t = clean r \<longleftrightarrow> ?t = ?r" by (rule clean_eq_iff [OF assms(2,1)])
  have pre: "prefix (clean r @ slash) (clean t) \<longleftrightarrow>
      prefix (join_with slash ?r @ slash) (join_with slash ?t)"
    by (simp only: clean_abs [OF assms(1)] clean_abs [OF assms(2)] append_Cons Cons_prefix_Cons
        simp_thms)
  show ?thesis
  proof (cases "?r = []")
    case True
    then have "\<not> prefix (join_with slash ?r @ slash) (join_with slash ?t)"
      using join_no_leading_slash [OF pt] by (simp only: join_with.simps append_Nil simp_thms)
    then show ?thesis using eq pre True by (simp only: below_def simp_thms if_True)
  next
    case False
    then have "prefix (join_with slash ?r @ slash) (join_with slash ?t) \<longleftrightarrow> strict_prefix ?r ?t"
      by (rule prefix_join_iff [OF pr pt])
    moreover have "below ?r ?t \<longleftrightarrow> prefix ?r ?t" using False by (simp only: below_def if_False)
    moreover have "?t = ?r \<Longrightarrow> prefix ?r ?t" by simp
    ultimately show ?thesis using eq pre unfolding strict_prefix_def by argo
  qed
qed

lemma PathContained_iff:
  assumes "is_abs root" "is_abs target"
  shows "PathContained wd root target \<longleftrightarrow>
         below (clean_comps True root) (clean_comps True target)"
  using prefix_clean_iff [OF assms] assms by (simp add: PathContained_def)

lemma pathContained_eq: "pathContained = PathContained"
  by (simp add: fun_eq_iff pathContained_def PathContained_def)

lemma PathContained_join:
  assumes "is_abs root" "clean_comps True root \<noteq> []" "e \<noteq> []"
    and "''..'' \<notin> set (split_on (CHR ''/'') e)"
  shows "PathContained wd root (join_paths [root, e])"
proof -
  obtain more where
    "foldl (clean_step True) (rev (clean_comps True root)) (split_on (CHR ''/'') e) =
       more @ rev (clean_comps True root)"
    using foldl_clean_down [OF assms(4)] by blast
  then have "clean_comps True (join_paths [root, e]) = clean_comps True root @ rev more"
    by (simp add: join_paths_abs(2) [OF assms(1,3)])
  then have "below (clean_comps True root) (clean_comps True (join_paths [root, e]))"
    using assms(2) by (simp add: below_def)
  then show ?thesis
    using assms by (simp add: PathContained_iff join_paths_abs(1))
qed

lemma PathContained_trans:
  assumes "is_abs a" "is_abs b" "is_abs c" "PathContained wd a b" "PathContained wd b c"
  shows "PathContained wd a c"
  using assms by (auto simp: PathContained_iff intro: below_trans)

subsection \<open>A relative path joined back\<close>

lemma comps_nonempty: "is_abs p \<Longrightarrow> filter (\<lambda>c. c \<noteq> []) (split_on (CHR ''/'') (clean p)) = clean_comps True p"
proof -
  assume "is_abs p"
  then have "clean p = CHR ''/'' # join_with slash (clean_comps True p)" by (rule clean_abs)
  moreover have pr: "\<forall>c\<in>set (clean_comps True p). proper_comp c" by (simp add: clean_comps_proper)
  moreover have "filter (\<lambda>c. c \<noteq> []) (clean_comps True p) = clean_comps True p"
    by (rule filter_True) (use pr in \<open>auto simp: proper_comp_def\<close>)
  ultimately show ?thesis by (simp add: split_join_proper)
qed

lemma strip_common_prefix: "strip_common xs (xs @ ys) = ([], ys)"
  by (induction xs) (cases ys; simp)+

lemma join_paths_clean:
  "is_abs d \<Longrightarrow> e \<noteq> [] \<Longrightarrow>
   join_paths [d, e] = CHR ''/'' # join_with slash (clean_comps True (join_paths [d, e]))"
proof -
  assume d: "is_abs d" and e: "e \<noteq> []"
  then obtain d' where d': "d = CHR ''/'' # d'" by (auto simp: is_abs_def prefix_def)
  have a: "is_abs (d @ CHR ''/'' # e)" by (simp add: d')
  have "join_paths [d, e] = clean (d @ CHR ''/'' # e)" by (simp add: join_paths_def d')
  then show ?thesis by (simp only: clean_comps_clean [OF a]) (rule clean_abs [OF a])
qed

lemma join_comps:
  assumes "is_abs d" "\<forall>c\<in>set ds. proper_comp c" "ds \<noteq> []"
  shows "clean_comps True (join_paths [d, join_with slash ds]) = clean_comps True d @ ds"
proof -
  have "join_with slash ds \<noteq> []"
    using assms(2,3) by (cases ds rule: list.exhaust; cases "tl ds") (auto simp: proper_comp_def)
  then show ?thesis
    using assms by (simp add: join_paths_abs(2) split_join_proper foldl_clean_id)
qed

text \<open>Below the base, \<open>Rel\<close> succeeds and joining its result to the base gives the target back.\<close>

lemma rel_path_below:
  assumes "is_abs base" "is_abs t" "clean_comps True base \<noteq> []"
    and "below (clean_comps True base) (clean_comps True t)"
  shows "\<exists>r. rel_path base t = Some r \<and> join_paths [base, r] = clean t"
proof -
  obtain ds where ds: "clean_comps True t = clean_comps True base @ ds"
    using assms(3,4) by (auto simp: below_def prefix_def)
  have pr: "\<forall>c\<in>set ds. proper_comp c" using clean_comps_proper [of _ t] ds by simp
  have ct: "clean t = CHR ''/'' # join_with slash (clean_comps True t)" by (rule clean_abs [OF assms(2)])
  show ?thesis
  proof (cases "ds = []")
    case True
    then have "rel_path base t = Some ''.''"
      using clean_eq_iff [OF assms(2,1)] ds by (simp add: rel_path_def)
    moreover have "clean_comps True (join_paths [base, ''.'']) = clean_comps True t"
      using True ds assms(1) by (simp add: join_paths_abs(2) clean_step.simps)
    ultimately show ?thesis
      using join_paths_clean [OF assms(1), of "''.''"] ct by simp
  next
    case False
    then have "clean t \<noteq> clean base" using clean_eq_iff [OF assms(2,1)] ds by simp
    moreover have "clean base \<noteq> ''.''" by (simp add: clean_abs [OF assms(1)])
    ultimately have "rel_path base t = Some (join_with slash ds)"
      unfolding rel_path_def Let_def
      by (simp add: assms(1,2) comps_nonempty ds strip_common_prefix)
    moreover have "join_with slash ds \<noteq> []"
      using pr False by (cases ds; cases "tl ds") (auto simp: proper_comp_def)
    moreover have "clean_comps True (join_paths [base, join_with slash ds]) = clean_comps True t"
      using join_comps [OF assms(1) pr False] ds by simp
    ultimately show ?thesis using join_paths_clean [OF assms(1)] ct by metis
  qed
qed

lemma is_abs_dir_of: "is_abs s \<Longrightarrow> is_abs (dir_of s)"
proof -
  assume "is_abs s"
  then obtain r where s: "s = CHR ''/'' # r" by (auto simp: is_abs_def prefix_def)
  have "\<exists>t. dropWhile (\<lambda>c. c \<noteq> CHR ''/'') (rev r @ slash) = t @ slash"
    by (induction "rev r" arbitrary: r rule: list.induct) (auto simp: dropWhile_append)
  then show ?thesis by (auto simp: dir_of_def s)
qed

text \<open>C1: On absolute paths \<open>PathContained\<close> decides exactly whether the components of the cleaned
  root are an initial segment of those of the cleaned target, so no sequence of \<open>..\<close>, \<open>.\<close> or
  doubled slashes and no sibling that shares a textual prefix (\<open>/repo-evil\<close> for \<open>/repo\<close>) gets
  through; with the file system root as root it accepts the file system root alone.\<close>

theorem path_containment_is_component_prefix:
  assumes "is_abs root" "is_abs target"
  shows "PathContained wd root target \<longleftrightarrow>
           (if clean_comps True root = [] then clean_comps True target = []
            else \<exists>rest. clean_comps True target = clean_comps True root @ rest)"
  using PathContained_iff [OF assms] by (auto simp: below_def prefix_def)

theorem path_containment_is_component_prefix_witness:
  "PathContained None ''/repo'' ''/repo/a/../seeds'' \<and>
   \<not> PathContained None ''/repo'' ''/repo-evil/x'' \<and>
   \<not> PathContained None ''/repo'' ''/repo/../etc''"
proof -
  have a: "is_abs ''/repo''" "is_abs ''/repo/a/../seeds''" "is_abs ''/repo-evil/x''"
    "is_abs ''/repo/../etc''" by simp_all
  have c: "clean_comps True ''/repo'' = [''repo'']"
    "clean_comps True ''/repo/a/../seeds'' = [''repo'', ''seeds'']"
    "clean_comps True ''/repo-evil/x'' = [''repo-evil'', ''x'']"
    "clean_comps True ''/repo/../etc'' = [''etc'']"
    by (simp_all add: clean_comps_def clean_step.simps)
  show ?thesis
    unfolding path_containment_is_component_prefix [OF a(1,2)]
      path_containment_is_component_prefix [OF a(1,3)]
      path_containment_is_component_prefix [OF a(1,4)] c
    by simp
qed

end
