(* ===== verification/Contract_Types.thy ===== *)
theory Contract_Types
  imports Path_Containment
begin

text \<open>
  The data of internal/realizations/contracts.go: an interaction contract as \<open>yaml.Unmarshal\<close>
  delivers it (the YAML decoder is the third-party parser; a contract is what it returned), the
  errors the validator reports, and the closed vocabularies it checks against.
\<close>

record InteractionLinks =
  SeedDesign :: string
  SeedBrief :: string
  SeedAcceptance :: string
  RealizationReadme :: string
  KernelAgentPrinciples :: string
  SeedAgentPrinciples :: string

record InteractionCapability =
  cap_Name :: string
  cap_Summary :: string

record InteractionDataField =
  fld_Name :: string
  fld_Type :: string
  fld_Summary :: string

record InteractionDataSection =
  sec_Summary :: string
  sec_Fields :: "InteractionDataField list"

record InteractionDataLayout =
  SharedMetadata :: InteractionDataSection
  PublicPayload :: InteractionDataSection
  PrivatePayload :: InteractionDataSection
  RuntimeOnly :: InteractionDataSection

record InteractionObject =
  obj_Kind :: string
  obj_Summary :: string
  obj_SchemaRef :: string
  obj_Capabilities :: "string list"
  obj_DataLayout :: InteractionDataLayout

record InteractionRelation =
  rel_Kind :: string
  rel_Summary :: string
  rel_FromKinds :: "string list"
  rel_ToKinds :: "string list"
  rel_Cardinality :: string
  rel_Visibility :: string
  rel_SchemaRef :: string
  rel_Capabilities :: "string list"
  rel_Attributes :: "InteractionDataField list"

record InteractionErrorCode =
  ec_Code :: string
  ec_Summary :: string
  ec_AuthModes :: "string list"

record InteractionCommand =
  cmd_Name :: string
  cmd_Summary :: string
  cmd_Path :: string
  cmd_ObjectKinds :: "string list"
  cmd_AuthModes :: "string list"
  cmd_Idempotency :: string
  cmd_InputSchemaRef :: string
  cmd_ResultSchemaRef :: string
  cmd_Capabilities :: "string list"
  cmd_Projection :: string
  cmd_Consistency :: string
  cmd_RuntimeContext :: InteractionDataSection
  cmd_ErrorCodes :: "InteractionErrorCode list"

record InteractionDataView =
  dv_AuthModes :: "string list"
  dv_Sections :: "string list"
  dv_Summary :: string

record InteractionProjection =
  prj_Name :: string
  prj_Summary :: string
  prj_Path :: string
  prj_ObjectKinds :: "string list"
  prj_AuthModes :: "string list"
  prj_Capabilities :: "string list"
  prj_Freshness :: string
  prj_DataViews :: "InteractionDataView list"

record InteractionUISurface =
  ui_Name :: string
  ui_Summary :: string
  ui_Path :: string
  ui_AuthModes :: "string list"
  ui_UsesProjections :: "string list"
  ui_MutatesCommands :: "string list"

record InteractionConsistency =
  WriteVisibility :: string
  ProjectionFreshness :: string

record InteractionContract =
  ContractVersion :: string
  SurfaceKind :: string
  ct_SeedID :: string
  ct_RealizationID :: string
  ct_Summary :: string
  Links :: InteractionLinks
  AuthModes :: "string list"
  Capabilities :: "InteractionCapability list"
  DomainObjects :: "InteractionObject list"
  DomainRelations :: "InteractionRelation list"
  Commands :: "InteractionCommand list"
  Projections :: "InteractionProjection list"
  UISurfaces :: "InteractionUISurface list"
  Consistency :: InteractionConsistency

text \<open>The manifest of a realization and where it was found (internal/realizations/catalog.go).\<close>

record Manifest =
  mf_RealizationID :: string
  mf_SeedID :: string
  mf_ApproachID :: string
  mf_Summary :: string
  mf_Status :: string
  mf_Artifacts :: "string list"
  mf_Subdomain :: string
  mf_PathPrefix :: string

record LocalRealization =
  lr_Manifest :: Manifest
  lr_Reference :: string
  lr_RootDir :: string
  lr_Readme :: string
  lr_Notes :: string

record LoadedInteractionContract =
  lc_Realization :: LocalRealization
  lc_Contract :: InteractionContract
  lc_ContractFile :: string

subsection \<open>Errors\<close>

text \<open>
  One constructor per message of the validator; the first argument is the field the message
  names, built as the code builds it. \<open>EWrap f e\<close> is \<open>fmt.Errorf("%s: %w", f, e)\<close>. The text of a
  message that lists a vocabulary lists it sorted (\<open>formatAllowedKeys\<close>), so the set determines it.
\<close>

datatype contract_error =
    EVersion
  | ERequired string
  | EAtLeastOne string
  | EOneOf string "string set"
  | EValueOneOf string string "string set"
  | EMismatch string string string
  | EDuplicated string string
  | EUndeclared string string
  | EMustStartWith string string string
  | ECovered string string
  | EMustCover string string
  | ERefNoPath
  | ERefEscapes string
  | ERefResolve string
  | EInteractive
  | EContractMissing string
  | ERead string
  | EParse string
  | EWrap string contract_error

text \<open>\<open>fmt.Sprintf("%s[%d]", field, i)\<close>.\<close>

fun digits_of :: "nat \<Rightarrow> string" where
  "digits_of n =
     (if n < 10 then [char_of (48 + n)] else digits_of (n div 10) @ [char_of (48 + n mod 10)])"

declare digits_of.simps [simp del]

definition indexed :: "string \<Rightarrow> nat \<Rightarrow> string" where
  "indexed field i = field @ ''['' @ digits_of i @ '']''"

definition formatAllowedKeys :: "string set \<Rightarrow> string" where
  "formatAllowedKeys items = join_with '', '' (sorted_list_of_set items)"

subsection \<open>Vocabularies\<close>

definition allowedSurfaceKinds :: "string set" where
  "allowedSurfaceKinds = {''bootstrap_only'', ''interactive'', ''read_only''}"

definition allowedAuthModes :: "string set" where
  "allowedAuthModes = {''access_link'', ''anonymous'', ''service_token'', ''session''}"

definition allowedDataLayoutSections :: "string set" where
  "allowedDataLayoutSections =
     {''private_payload'', ''public_payload'', ''runtime_only'', ''shared_metadata''}"

definition allowedRelationCardinality :: "string set" where
  "allowedRelationCardinality =
     {''many_to_many'', ''many_to_one'', ''one_to_many'', ''one_to_one''}"

definition allowedRelationVisibility :: "string set" where
  "allowedRelationVisibility = {''mixed'', ''private'', ''public'', ''runtime_only''}"

definition allowedCapabilities :: "string set" where
  "allowedCapabilities =
     {''access_links'', ''activity_events'', ''assignments'', ''auth_challenges'', ''consent'',
      ''guard_decisions'', ''handles'', ''jobs'', ''memberships'', ''messages'',
      ''notification_preferences'', ''outbox'', ''principal_identifiers'', ''principals'',
      ''publications'', ''risk_events'', ''search_documents'', ''search_facets'', ''sessions'',
      ''state_transitions'', ''subscriptions'', ''threads'', ''uploads''}"

definition allowedIdempotency :: "string set" where
  "allowedIdempotency = {''none'', ''recommended'', ''required''}"

definition allowedWriteVisibility :: "string set" where
  "allowedWriteVisibility = {''async_job'', ''eventual'', ''read_your_writes''}"

definition allowedProjectionFreshness :: "string set" where
  "allowedProjectionFreshness = {''direct'', ''eventual'', ''materialized''}"

end
