(* ===== verification/Contract_Checks.thy ===== *)
theory Contract_Checks
  imports Contract_Types
begin

text \<open>
  The list-shaped checks of internal/realizations/contracts.go: subsets, named lists, field
  lists, data sections and layouts, data views, error codes and file references. Each validator
  is the code's loop with its early returns in order; next to it stands the declarative
  condition it decides, and the lemma (collected in \<open>check_eq\<close>) that it returns no error exactly
  when the condition holds. The loops meet through the interface \<open>keyed_check\<close>.
\<close>

subsection \<open>validateSubset, validateNamedList\<close>

definition subset_item ::
  "string \<Rightarrow> string set \<Rightarrow> nat \<Rightarrow> string set \<Rightarrow> string \<Rightarrow> contract_error err" where
  "subset_item field allowed i seen item =
     (let v = trim_space item in
      first_err
        [require (v \<noteq> []) (ERequired (indexed field i)),
         require (v \<in> allowed) (EUndeclared (indexed field i) v),
         require (v \<notin> seen) (EDuplicated (indexed field i) v)])"

definition validateSubset ::
  "string \<Rightarrow> string list \<Rightarrow> string set \<Rightarrow> contract_error err" where
  "validateSubset field items allowed =
     (if items = [] then Some (EAtLeastOne field)
      else err_of (range_check (subset_item field allowed) (add_key trim_space) 0 {} items))"

definition named_item ::
  "string \<Rightarrow> string set \<Rightarrow> nat \<Rightarrow> string set \<Rightarrow> string \<Rightarrow> contract_error err" where
  "named_item field allowed i seen item =
     (let v = trim_space item in
      first_err
        [require (v \<noteq> []) (ERequired (indexed field i)),
         require (v \<in> allowed) (EValueOneOf (indexed field i) v allowed),
         require (v \<notin> seen) (EDuplicated (indexed field i) v)])"

definition validateNamedList ::
  "string list \<Rightarrow> string set \<Rightarrow> string \<Rightarrow> contract_error + string set" where
  "validateNamedList items allowed field =
     (if items = [] then Inl (EAtLeastOne field)
      else range_check (named_item field allowed) (add_key trim_space) 0 {} items)"

text \<open>What both decide: a non-empty list without repetition from the allowed values.\<close>

definition subset_ok :: "string list \<Rightarrow> string set \<Rightarrow> bool" where
  "subset_ok items allowed \<longleftrightarrow>
     items \<noteq> [] \<and> (\<forall>v\<in>set items. \<not> blank v \<and> trim_space v \<in> allowed) \<and>
     distinct (map trim_space items)"

interpretation subset_loop:
  keyed_check "subset_item field allowed" trim_space "\<lambda>v. \<not> blank v \<and> trim_space v \<in> allowed"
  for field allowed
  by unfold_locales (auto simp: subset_item_def Let_def)

interpretation named_loop:
  keyed_check "named_item field allowed" trim_space "\<lambda>v. \<not> blank v \<and> trim_space v \<in> allowed"
  for field allowed
  by unfold_locales (auto simp: named_item_def Let_def)

lemma validateSubset_ok [check_eq]: "validateSubset field items allowed = None \<longleftrightarrow> subset_ok items allowed"
  by (simp add: validateSubset_def subset_ok_def subset_loop.loop_ok)

lemma validateNamedList_ok [check_eq]:
  "validateNamedList items allowed field = Inr out \<longleftrightarrow>
     subset_ok items allowed \<and> out = trim_space ` set items"
  by (auto simp: validateNamedList_def subset_ok_def named_loop.loop_Inr)

lemma subset_ok_sub: "subset_ok items allowed \<Longrightarrow> trim_space ` set items \<subseteq> allowed"
  by (auto simp: subset_ok_def)

subsection \<open>validateFieldList, validateDataSection, validateDataLayout\<close>

definition field_item ::
  "string \<Rightarrow> nat \<Rightarrow> string set \<Rightarrow> InteractionDataField \<Rightarrow> contract_error err" where
  "field_item field i seen item =
     (let name = trim_space (fld_Name item) in
      first_err
        [require (name \<noteq> []) (ERequired (indexed field i @ ''.name'')),
         require (name \<notin> seen) (EDuplicated (indexed field i @ ''.name'') name),
         require (\<not> blank (fld_Type item)) (ERequired (indexed field i @ ''.type'')),
         require (\<not> blank (fld_Summary item)) (ERequired (indexed field i @ ''.summary''))])"

definition validateFieldList :: "string \<Rightarrow> InteractionDataField list \<Rightarrow> contract_error err" where
  "validateFieldList field items =
     err_of (range_check (field_item field) (add_key (\<lambda>f. trim_space (fld_Name f))) 0 {} items)"

definition fields_ok :: "InteractionDataField list \<Rightarrow> bool" where
  "fields_ok items \<longleftrightarrow>
     (\<forall>f\<in>set items. \<not> blank (fld_Name f) \<and> \<not> blank (fld_Type f) \<and> \<not> blank (fld_Summary f)) \<and>
     distinct (map (\<lambda>f. trim_space (fld_Name f)) items)"

interpretation field_loop:
  keyed_check "field_item field" "\<lambda>f. trim_space (fld_Name f)"
    "\<lambda>f. \<not> blank (fld_Name f) \<and> \<not> blank (fld_Type f) \<and> \<not> blank (fld_Summary f)"
  for field
  by unfold_locales (auto simp: field_item_def Let_def)

lemma validateFieldList_ok [check_eq]: "validateFieldList field items = None \<longleftrightarrow> fields_ok items"
  by (simp add: validateFieldList_def fields_ok_def field_loop.loop_ok)

definition section_hasContent :: "InteractionDataSection \<Rightarrow> bool" where
  "section_hasContent section \<longleftrightarrow> \<not> blank (sec_Summary section) \<or> sec_Fields section \<noteq> []"

definition layout_hasContent :: "InteractionDataLayout \<Rightarrow> bool" where
  "layout_hasContent layout \<longleftrightarrow>
     section_hasContent (SharedMetadata layout) \<or> section_hasContent (PublicPayload layout) \<or>
     section_hasContent (PrivatePayload layout) \<or> section_hasContent (RuntimeOnly layout)"

definition validateDataSection :: "string \<Rightarrow> InteractionDataSection \<Rightarrow> contract_error err" where
  "validateDataSection field section =
     first_err
       [require (\<not> blank (sec_Summary section)) (ERequired (field @ ''.summary'')),
        require (sec_Fields section \<noteq> []) (EAtLeastOne (field @ ''.fields'')),
        validateFieldList (field @ ''.fields'') (sec_Fields section)]"

definition validateOptionalDataSection ::
  "string \<Rightarrow> InteractionDataSection \<Rightarrow> contract_error err" where
  "validateOptionalDataSection field section =
     (if \<not> section_hasContent section then None else validateDataSection field section)"

definition validateDataLayout :: "string \<Rightarrow> InteractionDataLayout \<Rightarrow> contract_error err" where
  "validateDataLayout field layout =
     (if \<not> layout_hasContent layout then None
      else first_err
        [validateDataSection (field @ ''.shared_metadata'') (SharedMetadata layout),
         validateOptionalDataSection (field @ ''.public_payload'') (PublicPayload layout),
         validateOptionalDataSection (field @ ''.private_payload'') (PrivatePayload layout),
         validateOptionalDataSection (field @ ''.runtime_only'') (RuntimeOnly layout)])"

definition section_ok :: "InteractionDataSection \<Rightarrow> bool" where
  "section_ok section \<longleftrightarrow>
     \<not> blank (sec_Summary section) \<and> sec_Fields section \<noteq> [] \<and> fields_ok (sec_Fields section)"

definition layout_ok :: "InteractionDataLayout \<Rightarrow> bool" where
  "layout_ok layout \<longleftrightarrow>
     (layout_hasContent layout \<longrightarrow>
        section_ok (SharedMetadata layout) \<and>
        (\<forall>section\<in>{PublicPayload layout, PrivatePayload layout, RuntimeOnly layout}.
           section_hasContent section \<longrightarrow> section_ok section))"

lemma validateDataSection_ok [check_eq]: "validateDataSection field s = None \<longleftrightarrow> section_ok s"
  by (auto simp: validateDataSection_def section_ok_def check_eq)

lemma validateOptionalDataSection_ok [check_eq]:
  "validateOptionalDataSection field s = None \<longleftrightarrow> (section_hasContent s \<longrightarrow> section_ok s)"
  by (simp add: validateOptionalDataSection_def check_eq)

lemma validateDataLayout_ok [check_eq]: "validateDataLayout field l = None \<longleftrightarrow> layout_ok l"
  by (simp add: validateDataLayout_def layout_ok_def check_eq)

subsection \<open>validateDataViews\<close>

text \<open>
  The inner loop over the modes of one view marks them covered and stops at one that another
  view covers; the outer loop carries the covered set.
\<close>

fun cover_modes ::
  "string \<Rightarrow> string set \<Rightarrow> string list \<Rightarrow> contract_error + string set" where
  "cover_modes field covered [] = Inr covered"
| "cover_modes field covered (m # ms) =
     (if trim_space m \<in> covered then Inl (ECovered field (trim_space m))
      else cover_modes field (insert (trim_space m) covered) ms)"

fun view_loop ::
  "string \<Rightarrow> string set \<Rightarrow> nat \<Rightarrow> string set \<Rightarrow> InteractionDataView list \<Rightarrow>
   contract_error + string set" where
  "view_loop field modes i covered [] = Inr covered"
| "view_loop field modes i covered (view # views) =
     guard_err
       (first_err
          [validateSubset (indexed field i @ ''.auth_modes'') (dv_AuthModes view) modes,
           validateSubset (indexed field i @ ''.sections'') (dv_Sections view)
             allowedDataLayoutSections,
           require (\<not> blank (dv_Summary view)) (ERequired (indexed field i @ ''.summary''))])
       (and_then (cover_modes (indexed field i @ ''.auth_modes'') covered (dv_AuthModes view))
          (\<lambda>covered'. view_loop field modes (Suc i) covered' views))"

fun all_covered :: "string \<Rightarrow> string set \<Rightarrow> string list \<Rightarrow> contract_error err" where
  "all_covered field covered [] = None"
| "all_covered field covered (m # ms) =
     (if trim_space m \<notin> covered then Some (EMustCover field (trim_space m))
      else all_covered field covered ms)"

definition validateDataViews ::
  "string \<Rightarrow> InteractionDataView list \<Rightarrow> string list \<Rightarrow> string set \<Rightarrow> contract_error err" where
  "validateDataViews field views projectionModes authModes =
     (if views = [] then None
      else err_of
        (and_then (validateNamedList projectionModes authModes (field @ ''.projection_auth_modes''))
           (\<lambda>modes. and_then (view_loop field modes 0 {} views)
              (\<lambda>covered. guard_err (all_covered field covered projectionModes) (Inr ())))))"

definition view_ok :: "string set \<Rightarrow> InteractionDataView \<Rightarrow> bool" where
  "view_ok modes view \<longleftrightarrow>
     subset_ok (dv_AuthModes view) modes \<and>
     subset_ok (dv_Sections view) allowedDataLayoutSections \<and> \<not> blank (dv_Summary view)"

text \<open>
  Accepted views partition the modes of the projection: each view has some of them, every mode
  is in exactly one view.
\<close>

definition views_ok ::
  "InteractionDataView list \<Rightarrow> string list \<Rightarrow> string set \<Rightarrow> bool" where
  "views_ok views projectionModes authModes \<longleftrightarrow>
     (views \<noteq> [] \<longrightarrow>
        subset_ok projectionModes authModes \<and>
        (\<forall>view\<in>set views. view_ok (trim_space ` set projectionModes) view) \<and>
        distinct (map trim_space (concat (map dv_AuthModes views))) \<and>
        trim_space ` set projectionModes \<subseteq> trim_space ` set (concat (map dv_AuthModes views)))"

lemma cover_modes_Inr:
  "cover_modes field covered ms = Inr out \<longleftrightarrow>
     distinct (map trim_space ms) \<and> trim_space ` set ms \<inter> covered = {} \<and>
     out = covered \<union> trim_space ` set ms"
  by (induction ms arbitrary: covered) auto

lemma view_loop_Inr:
  "view_loop field modes i covered views = Inr out \<longleftrightarrow>
     (\<forall>view\<in>set views. view_ok modes view) \<and>
     distinct (map trim_space (concat (map dv_AuthModes views))) \<and>
     trim_space ` set (concat (map dv_AuthModes views)) \<inter> covered = {} \<and>
     out = covered \<union> trim_space ` set (concat (map dv_AuthModes views))"
proof (induction views arbitrary: i covered)
  case (Cons view views)
  show ?case
    unfolding view_loop.simps guard_err_Inr and_then_Inr Cons.IH cover_modes_Inr
      list.map concat.simps map_append distinct_append set_append image_Un set_map
    by (simp add: check_eq view_ok_def del: set_concat) blast
qed auto

lemma all_covered_None:
  "all_covered field covered ms = None \<longleftrightarrow> trim_space ` set ms \<subseteq> covered"
  by (induction ms) auto

lemma validateDataViews_ok [check_eq]:
  "validateDataViews field views pm am = None \<longleftrightarrow> views_ok views pm am"
  by (auto simp: validateDataViews_def views_ok_def err_of_None check_eq view_loop_Inr
      all_covered_None)

subsection \<open>validateErrorCodes\<close>

definition error_code_item ::
  "string \<Rightarrow> string set \<Rightarrow> nat \<Rightarrow> string set \<Rightarrow> InteractionErrorCode \<Rightarrow> contract_error err" where
  "error_code_item field allowedModes i seen item =
     (let code = trim_space (ec_Code item) in
      first_err
        [require (code \<noteq> []) (ERequired (indexed field i @ ''.code'')),
         require (code \<notin> seen) (EDuplicated (indexed field i @ ''.code'') code),
         require (\<not> blank (ec_Summary item)) (ERequired (indexed field i @ ''.summary'')),
         (if ec_AuthModes item \<noteq> []
          then validateSubset (indexed field i @ ''.auth_modes'') (ec_AuthModes item) allowedModes
          else None)])"

definition validateErrorCodes ::
  "string \<Rightarrow> InteractionErrorCode list \<Rightarrow> string list \<Rightarrow> string set \<Rightarrow> contract_error err" where
  "validateErrorCodes field items projectionModes authModes =
     (if items = [] then None
      else err_of
        (and_then
           (if projectionModes \<noteq> []
            then validateNamedList projectionModes authModes (field @ ''.command_auth_modes'')
            else Inr authModes)
           (\<lambda>allowedModes.
              range_check (error_code_item field allowedModes)
                (add_key (\<lambda>c. trim_space (ec_Code c))) 0 {} items)))"

definition error_code_ok :: "string set \<Rightarrow> InteractionErrorCode \<Rightarrow> bool" where
  "error_code_ok modes c \<longleftrightarrow>
     \<not> blank (ec_Code c) \<and> \<not> blank (ec_Summary c) \<and>
     (ec_AuthModes c \<noteq> [] \<longrightarrow> subset_ok (ec_AuthModes c) modes)"

definition error_codes_ok ::
  "InteractionErrorCode list \<Rightarrow> string list \<Rightarrow> string set \<Rightarrow> bool" where
  "error_codes_ok items modes authModes \<longleftrightarrow>
     (items \<noteq> [] \<longrightarrow>
        (modes \<noteq> [] \<longrightarrow> subset_ok modes authModes) \<and>
        (\<forall>c\<in>set items.
           error_code_ok (if modes = [] then authModes else trim_space ` set modes) c) \<and>
        distinct (map (\<lambda>c. trim_space (ec_Code c)) items))"

interpretation error_code_loop:
  keyed_check "error_code_item field modes" "\<lambda>c. trim_space (ec_Code c)" "error_code_ok modes"
  for field modes
  by unfold_locales (auto simp: error_code_item_def error_code_ok_def Let_def check_eq)

lemma validateErrorCodes_ok [check_eq]:
  "validateErrorCodes field items modes am = None \<longleftrightarrow> error_codes_ok items modes am"
  by (auto simp: validateErrorCodes_def error_codes_ok_def err_of_None check_eq
      error_code_loop.loop_Inr)

subsection \<open>validateContractRef\<close>

text \<open>
  What a file reference is resolved against: the repository root, the process's working
  directory and whether \<open>os.Stat\<close> of a path succeeds.
\<close>

record ref_env =
  re_RepoRoot :: string
  re_Wd :: "string option"
  re_Stat :: "string \<Rightarrow> bool"

definition ref_path :: "string \<Rightarrow> string" where
  "ref_path ref = trim_space (hd (split_on (CHR ''#'') ref))"

definition ref_target :: "string \<Rightarrow> string \<Rightarrow> string" where
  "ref_target contractPath ref =
     (if is_abs (ref_path ref) then ref_path ref
      else join_paths [dir_of contractPath, ref_path ref])"

definition validateContractRef :: "ref_env \<Rightarrow> string \<Rightarrow> string \<Rightarrow> contract_error err" where
  "validateContractRef env contractPath ref =
     first_err
       [require (ref_path ref \<noteq> []) ERefNoPath,
        require (PathContained (re_Wd env) (re_RepoRoot env) (ref_target contractPath ref))
          (ERefEscapes ref),
        require (re_Stat env (ref_target contractPath ref)) (ERefResolve ref)]"

definition ref_ok :: "ref_env \<Rightarrow> string \<Rightarrow> string \<Rightarrow> bool" where
  "ref_ok env contractPath ref \<longleftrightarrow>
     ref_path ref \<noteq> [] \<and>
     PathContained (re_Wd env) (re_RepoRoot env) (ref_target contractPath ref) \<and>
     re_Stat env (ref_target contractPath ref)"

text \<open>\<open>fmt.Errorf("field: %w", err)\<close> around the check of a reference.\<close>

definition wrap_err :: "string \<Rightarrow> contract_error err \<Rightarrow> contract_error err" where
  "wrap_err field e = map_option (EWrap field) e"

lemma wrap_err_None [simp]: "wrap_err field e = None \<longleftrightarrow> e = None"
  by (simp add: wrap_err_def)

lemma validateContractRef_ok [check_eq]:
  "validateContractRef env contractPath ref = None \<longleftrightarrow> ref_ok env contractPath ref"
  by (simp add: validateContractRef_def ref_ok_def)

end
