(* ===== verification/Contract_Validation.thy ===== *)
theory Contract_Validation
  imports Contract_Checks
begin

text \<open>
  The contract validator of internal/realizations/contracts.go: the checks of each part of a
  contract in the code's order, \<open>validateInteractionContract\<close> that chains them, and loading and
  discovery on top of it. Next to every validator stands the declarative condition it decides;
  \<open>contract_ok\<close> is the abstract specification of the whole.
\<close>

subsection \<open>Capabilities, objects, relations\<close>

definition capability_item ::
  "nat \<Rightarrow> string set \<Rightarrow> InteractionCapability \<Rightarrow> contract_error err" where
  "capability_item i seen item =
     (let name = trim_space (cap_Name item); f = indexed ''capabilities'' i in
      first_err
        [require (name \<noteq> []) (ERequired (f @ ''.name'')),
         require (name \<in> allowedCapabilities) (EValueOneOf (f @ ''.name'') name allowedCapabilities),
         require (name \<notin> seen) (EDuplicated (f @ ''.name'') name),
         require (\<not> blank (cap_Summary item)) (ERequired (f @ ''.summary''))])"

definition validateCapabilities ::
  "InteractionCapability list \<Rightarrow> contract_error + string set" where
  "validateCapabilities items =
     (if items = [] then Inl (EAtLeastOne ''capabilities'')
      else range_check capability_item (add_key (\<lambda>c. trim_space (cap_Name c))) 0 {} items)"

definition object_item ::
  "ref_env \<Rightarrow> string \<Rightarrow> string set \<Rightarrow> nat \<Rightarrow> string set \<Rightarrow> InteractionObject \<Rightarrow> contract_error err"
where
  "object_item env contractPath capabilities i seen item =
     (let kind = trim_space (obj_Kind item); f = indexed ''domain_objects'' i in
      first_err
        [require (kind \<noteq> []) (ERequired (f @ ''.kind'')),
         require (kind \<notin> seen) (EDuplicated (f @ ''.kind'') kind),
         require (\<not> blank (obj_Summary item)) (ERequired (f @ ''.summary'')),
         require (\<not> blank (obj_SchemaRef item)) (ERequired (f @ ''.schema_ref'')),
         wrap_err (f @ ''.schema_ref'') (validateContractRef env contractPath (obj_SchemaRef item)),
         validateSubset (f @ ''.capabilities'') (obj_Capabilities item) capabilities,
         validateDataLayout (f @ ''.data_layout'') (obj_DataLayout item)])"

definition validateObjects ::
  "ref_env \<Rightarrow> string \<Rightarrow> InteractionObject list \<Rightarrow> string set \<Rightarrow> contract_error + string set" where
  "validateObjects env contractPath items capabilities =
     (if items = [] then Inl (EAtLeastOne ''domain_objects'')
      else range_check (object_item env contractPath capabilities)
             (add_key (\<lambda>x. trim_space (obj_Kind x))) 0 {} items)"

definition relation_item ::
  "ref_env \<Rightarrow> string \<Rightarrow> string set \<Rightarrow> string set \<Rightarrow> nat \<Rightarrow> string set \<Rightarrow>
   InteractionRelation \<Rightarrow> contract_error err" where
  "relation_item env contractPath objectKinds capabilities i seen item =
     (let kind = trim_space (rel_Kind item); f = indexed ''domain_relations'' i in
      first_err
        [require (kind \<noteq> []) (ERequired (f @ ''.kind'')),
         require (kind \<notin> seen) (EDuplicated (f @ ''.kind'') kind),
         require (\<not> blank (rel_Summary item)) (ERequired (f @ ''.summary'')),
         validateSubset (f @ ''.from_kinds'') (rel_FromKinds item) objectKinds,
         validateSubset (f @ ''.to_kinds'') (rel_ToKinds item) objectKinds,
         require (trim_space (rel_Cardinality item) \<in> allowedRelationCardinality)
           (EOneOf (f @ ''.cardinality'') allowedRelationCardinality),
         require (trim_space (rel_Visibility item) \<in> allowedRelationVisibility)
           (EOneOf (f @ ''.visibility'') allowedRelationVisibility),
         require (\<not> blank (rel_SchemaRef item)) (ERequired (f @ ''.schema_ref'')),
         wrap_err (f @ ''.schema_ref'') (validateContractRef env contractPath (rel_SchemaRef item)),
         validateSubset (f @ ''.capabilities'') (rel_Capabilities item) capabilities,
         validateFieldList (f @ ''.attributes'') (rel_Attributes item)])"

definition validateRelations ::
  "ref_env \<Rightarrow> string \<Rightarrow> InteractionRelation list \<Rightarrow> string set \<Rightarrow> string set \<Rightarrow> contract_error err"
where
  "validateRelations env contractPath items objectKinds capabilities =
     err_of (range_check (relation_item env contractPath objectKinds capabilities)
               (add_key (\<lambda>x. trim_space (rel_Kind x))) 0 {} items)"

definition validateConsistencyDefaults :: "InteractionConsistency \<Rightarrow> contract_error err" where
  "validateConsistencyDefaults item =
     first_err
       [require (trim_space (WriteVisibility item) \<in> allowedWriteVisibility)
          (EOneOf ''consistency.write_visibility'' allowedWriteVisibility),
        require (trim_space (ProjectionFreshness item) \<in> allowedProjectionFreshness)
          (EOneOf ''consistency.projection_freshness'' allowedProjectionFreshness)]"

definition capability_ok :: "InteractionCapability \<Rightarrow> bool" where
  "capability_ok c \<longleftrightarrow>
     \<not> blank (cap_Name c) \<and> trim_space (cap_Name c) \<in> allowedCapabilities \<and> \<not> blank (cap_Summary c)"

definition object_ok ::
  "ref_env \<Rightarrow> string \<Rightarrow> string set \<Rightarrow> InteractionObject \<Rightarrow> bool" where
  "object_ok env contractPath capabilities x \<longleftrightarrow>
     \<not> blank (obj_Kind x) \<and> \<not> blank (obj_Summary x) \<and> \<not> blank (obj_SchemaRef x) \<and>
     ref_ok env contractPath (obj_SchemaRef x) \<and>
     subset_ok (obj_Capabilities x) capabilities \<and> layout_ok (obj_DataLayout x)"

definition relation_ok ::
  "ref_env \<Rightarrow> string \<Rightarrow> string set \<Rightarrow> string set \<Rightarrow> InteractionRelation \<Rightarrow> bool" where
  "relation_ok env contractPath objectKinds capabilities x \<longleftrightarrow>
     \<not> blank (rel_Kind x) \<and> \<not> blank (rel_Summary x) \<and>
     subset_ok (rel_FromKinds x) objectKinds \<and> subset_ok (rel_ToKinds x) objectKinds \<and>
     trim_space (rel_Cardinality x) \<in> allowedRelationCardinality \<and>
     trim_space (rel_Visibility x) \<in> allowedRelationVisibility \<and>
     \<not> blank (rel_SchemaRef x) \<and> ref_ok env contractPath (rel_SchemaRef x) \<and>
     subset_ok (rel_Capabilities x) capabilities \<and> fields_ok (rel_Attributes x)"

interpretation capability_loop:
  keyed_check capability_item "\<lambda>c. trim_space (cap_Name c)" capability_ok
  by unfold_locales (auto simp: capability_item_def capability_ok_def Let_def)

interpretation object_loop:
  keyed_check "object_item env path caps" "\<lambda>x. trim_space (obj_Kind x)" "object_ok env path caps"
  for env path caps
  by unfold_locales (auto simp: object_item_def object_ok_def Let_def check_eq)

interpretation relation_loop:
  keyed_check "relation_item env path kinds caps" "\<lambda>x. trim_space (rel_Kind x)"
    "relation_ok env path kinds caps"
  for env path kinds caps
  by unfold_locales (auto simp: relation_item_def relation_ok_def Let_def check_eq)

lemma validateCapabilities_ok [check_eq]:
  "validateCapabilities items = Inr out \<longleftrightarrow>
     items \<noteq> [] \<and> (\<forall>c\<in>set items. capability_ok c) \<and>
     distinct (map (\<lambda>c. trim_space (cap_Name c)) items) \<and>
     out = (\<lambda>c. trim_space (cap_Name c)) ` set items"
  by (auto simp: validateCapabilities_def capability_loop.loop_Inr)

lemma validateObjects_ok [check_eq]:
  "validateObjects env path items caps = Inr out \<longleftrightarrow>
     items \<noteq> [] \<and> (\<forall>x\<in>set items. object_ok env path caps x) \<and>
     distinct (map (\<lambda>x. trim_space (obj_Kind x)) items) \<and>
     out = (\<lambda>x. trim_space (obj_Kind x)) ` set items"
  by (auto simp: validateObjects_def object_loop.loop_Inr)

lemma validateRelations_ok [check_eq]:
  "validateRelations env path items kinds caps = None \<longleftrightarrow>
     (\<forall>x\<in>set items. relation_ok env path kinds caps x) \<and>
     distinct (map (\<lambda>x. trim_space (rel_Kind x)) items)"
  by (simp add: validateRelations_def relation_loop.loop_ok)

lemma validateConsistencyDefaults_ok [check_eq]:
  "validateConsistencyDefaults c = None \<longleftrightarrow>
     trim_space (WriteVisibility c) \<in> allowedWriteVisibility \<and>
     trim_space (ProjectionFreshness c) \<in> allowedProjectionFreshness"
  by (simp add: validateConsistencyDefaults_def)

subsection \<open>Projections and commands\<close>

definition projection_prefix :: "string \<Rightarrow> string" where
  "projection_prefix seedID = ''/v1/projections/'' @ seedID @ slash"

definition command_prefix :: "string \<Rightarrow> string" where
  "command_prefix seedID = ''/v1/commands/'' @ seedID @ slash"

definition projection_item ::
  "string \<Rightarrow> string set \<Rightarrow> string set \<Rightarrow> string set \<Rightarrow> nat \<Rightarrow> string set \<times> string set \<Rightarrow>
   InteractionProjection \<Rightarrow> contract_error err" where
  "projection_item seedID objectKinds capabilities authModes i seen item =
     (let name = trim_space (prj_Name item); path = trim_space (prj_Path item);
          f = indexed ''projections'' i in
      first_err
        [require (name \<noteq> []) (ERequired (f @ ''.name'')),
         require (name \<notin> fst seen) (EDuplicated (f @ ''.name'') name),
         require (\<not> blank (prj_Summary item)) (ERequired (f @ ''.summary'')),
         require (path \<noteq> []) (ERequired (f @ ''.path'')),
         require (has_prefix path (projection_prefix seedID))
           (EMustStartWith (f @ ''.path'') path (projection_prefix seedID)),
         require (path \<notin> snd seen) (EDuplicated (f @ ''.path'') path),
         validateSubset (f @ ''.object_kinds'') (prj_ObjectKinds item) objectKinds,
         validateSubset (f @ ''.auth_modes'') (prj_AuthModes item) authModes,
         validateSubset (f @ ''.capabilities'') (prj_Capabilities item) capabilities,
         require (trim_space (prj_Freshness item) \<in> allowedProjectionFreshness)
           (EOneOf (f @ ''.freshness'') allowedProjectionFreshness),
         validateDataViews (f @ ''.data_views'') (prj_DataViews item) (prj_AuthModes item)
           authModes])"

definition validateProjections ::
  "string \<Rightarrow> InteractionProjection list \<Rightarrow> string set \<Rightarrow> string set \<Rightarrow> string set \<Rightarrow>
   contract_error + string set" where
  "validateProjections seedID items objectKinds capabilities authModes =
     (if items = [] then Inl (EAtLeastOne ''projections'')
      else and_then
        (range_check (projection_item seedID objectKinds capabilities authModes)
           (add_keys2 (\<lambda>p. trim_space (prj_Name p)) (\<lambda>p. trim_space (prj_Path p))) 0 ({}, {}) items)
        (\<lambda>out. Inr (fst out)))"

definition command_item ::
  "string \<Rightarrow> ref_env \<Rightarrow> string \<Rightarrow> string set \<Rightarrow> string set \<Rightarrow> string set \<Rightarrow> string set \<Rightarrow> nat \<Rightarrow>
   string set \<times> string set \<Rightarrow> InteractionCommand \<Rightarrow> contract_error err" where
  "command_item seedID env contractPath objectKinds projections capabilities authModes i seen item =
     (let name = trim_space (cmd_Name item); path = trim_space (cmd_Path item);
          f = indexed ''commands'' i in
      first_err
        [require (name \<noteq> []) (ERequired (f @ ''.name'')),
         require (name \<notin> fst seen) (EDuplicated (f @ ''.name'') name),
         require (\<not> blank (cmd_Summary item)) (ERequired (f @ ''.summary'')),
         require (path \<noteq> []) (ERequired (f @ ''.path'')),
         require (has_prefix path (command_prefix seedID))
           (EMustStartWith (f @ ''.path'') path (command_prefix seedID)),
         require (path \<notin> snd seen) (EDuplicated (f @ ''.path'') path),
         validateSubset (f @ ''.object_kinds'') (cmd_ObjectKinds item) objectKinds,
         validateSubset (f @ ''.auth_modes'') (cmd_AuthModes item) authModes,
         require (trim_space (cmd_Idempotency item) \<in> allowedIdempotency)
           (EOneOf (f @ ''.idempotency'') allowedIdempotency),
         require (\<not> blank (cmd_InputSchemaRef item)) (ERequired (f @ ''.input_schema_ref'')),
         wrap_err (f @ ''.input_schema_ref'')
           (validateContractRef env contractPath (cmd_InputSchemaRef item)),
         require (\<not> blank (cmd_ResultSchemaRef item)) (ERequired (f @ ''.result_schema_ref'')),
         wrap_err (f @ ''.result_schema_ref'')
           (validateContractRef env contractPath (cmd_ResultSchemaRef item)),
         validateSubset (f @ ''.capabilities'') (cmd_Capabilities item) capabilities,
         require (trim_space (cmd_Projection item) \<in> projections)
           (EUndeclared (f @ ''.projection'') (cmd_Projection item)),
         require (trim_space (cmd_Consistency item) \<in> allowedWriteVisibility)
           (EOneOf (f @ ''.consistency'') allowedWriteVisibility),
         validateOptionalDataSection (f @ ''.runtime_context'') (cmd_RuntimeContext item),
         validateErrorCodes (f @ ''.error_codes'') (cmd_ErrorCodes item) (cmd_AuthModes item)
           authModes])"

definition validateCommands ::
  "string \<Rightarrow> ref_env \<Rightarrow> string \<Rightarrow> InteractionCommand list \<Rightarrow> string set \<Rightarrow> string set \<Rightarrow> string set \<Rightarrow>
   string set \<Rightarrow> contract_error + string set" where
  "validateCommands seedID env contractPath items objectKinds projections capabilities authModes =
     and_then
       (range_check
          (command_item seedID env contractPath objectKinds projections capabilities authModes)
          (add_keys2 (\<lambda>c. trim_space (cmd_Name c)) (\<lambda>c. trim_space (cmd_Path c))) 0 ({}, {}) items)
       (\<lambda>out. Inr (fst out))"

definition surface_item ::
  "string \<Rightarrow> string set \<Rightarrow> string set \<Rightarrow> string set \<Rightarrow> nat \<Rightarrow> string set \<times> string set \<Rightarrow>
   InteractionUISurface \<Rightarrow> contract_error err" where
  "surface_item field projections commands authModes i seen item =
     (let name = trim_space (ui_Name item); path = trim_space (ui_Path item);
          f = indexed field i in
      first_err
        [require (name \<noteq> []) (ERequired (f @ ''.name'')),
         require (name \<notin> fst seen) (EDuplicated (f @ ''.name'') name),
         require (\<not> blank (ui_Summary item)) (ERequired (f @ ''.summary'')),
         require (path \<noteq> []) (ERequired (f @ ''.path'')),
         require (has_prefix path slash) (EMustStartWith (f @ ''.path'') path slash),
         require (path \<notin> snd seen) (EDuplicated (f @ ''.path'') path),
         validateSubset (f @ ''.auth_modes'') (ui_AuthModes item) authModes,
         require (ui_UsesProjections item \<noteq> [] \<or> ui_MutatesCommands item \<noteq> []) (EAtLeastOne f),
         (if ui_UsesProjections item \<noteq> []
          then validateSubset (f @ ''.uses_projections'') (ui_UsesProjections item) projections
          else None),
         (if ui_MutatesCommands item \<noteq> []
          then validateSubset (f @ ''.mutates_commands'') (ui_MutatesCommands item) commands
          else None)])"

definition validateUISurfaces ::
  "string \<Rightarrow> InteractionUISurface list \<Rightarrow> string set \<Rightarrow> string set \<Rightarrow> string set \<Rightarrow>
   contract_error err" where
  "validateUISurfaces field items projections commands authModes =
     err_of
       (range_check (surface_item field projections commands authModes)
          (add_keys2 (\<lambda>u. trim_space (ui_Name u)) (\<lambda>u. trim_space (ui_Path u))) 0 ({}, {}) items)"

definition projection_ok ::
  "string \<Rightarrow> string set \<Rightarrow> string set \<Rightarrow> string set \<Rightarrow> InteractionProjection \<Rightarrow> bool" where
  "projection_ok seedID objectKinds capabilities authModes p \<longleftrightarrow>
     \<not> blank (prj_Name p) \<and> \<not> blank (prj_Summary p) \<and>
     has_prefix (trim_space (prj_Path p)) (projection_prefix seedID) \<and>
     subset_ok (prj_ObjectKinds p) objectKinds \<and> subset_ok (prj_AuthModes p) authModes \<and>
     subset_ok (prj_Capabilities p) capabilities \<and>
     trim_space (prj_Freshness p) \<in> allowedProjectionFreshness \<and>
     views_ok (prj_DataViews p) (prj_AuthModes p) authModes"

definition command_ok ::
  "string \<Rightarrow> ref_env \<Rightarrow> string \<Rightarrow> string set \<Rightarrow> string set \<Rightarrow> string set \<Rightarrow> string set \<Rightarrow>
   InteractionCommand \<Rightarrow> bool" where
  "command_ok seedID env contractPath objectKinds projections capabilities authModes c \<longleftrightarrow>
     \<not> blank (cmd_Name c) \<and> \<not> blank (cmd_Summary c) \<and>
     has_prefix (trim_space (cmd_Path c)) (command_prefix seedID) \<and>
     subset_ok (cmd_ObjectKinds c) objectKinds \<and> subset_ok (cmd_AuthModes c) authModes \<and>
     trim_space (cmd_Idempotency c) \<in> allowedIdempotency \<and>
     \<not> blank (cmd_InputSchemaRef c) \<and> ref_ok env contractPath (cmd_InputSchemaRef c) \<and>
     \<not> blank (cmd_ResultSchemaRef c) \<and> ref_ok env contractPath (cmd_ResultSchemaRef c) \<and>
     subset_ok (cmd_Capabilities c) capabilities \<and>
     trim_space (cmd_Projection c) \<in> projections \<and>
     trim_space (cmd_Consistency c) \<in> allowedWriteVisibility \<and>
     (section_hasContent (cmd_RuntimeContext c) \<longrightarrow> section_ok (cmd_RuntimeContext c)) \<and>
     error_codes_ok (cmd_ErrorCodes c) (cmd_AuthModes c) authModes"

definition surface_ok ::
  "string set \<Rightarrow> string set \<Rightarrow> string set \<Rightarrow> InteractionUISurface \<Rightarrow> bool" where
  "surface_ok projections commands authModes u \<longleftrightarrow>
     \<not> blank (ui_Name u) \<and> \<not> blank (ui_Summary u) \<and> has_prefix (trim_space (ui_Path u)) slash \<and>
     subset_ok (ui_AuthModes u) authModes \<and>
     (ui_UsesProjections u \<noteq> [] \<or> ui_MutatesCommands u \<noteq> []) \<and>
     (ui_UsesProjections u \<noteq> [] \<longrightarrow> subset_ok (ui_UsesProjections u) projections) \<and>
     (ui_MutatesCommands u \<noteq> [] \<longrightarrow> subset_ok (ui_MutatesCommands u) commands)"

lemma seed_prefix_not_Nil [simp]: "projection_prefix seedID \<noteq> []" "command_prefix seedID \<noteq> []"
  by (simp_all add: projection_prefix_def command_prefix_def)

interpretation projection_loop:
  keyed_check2 "projection_item seedID kinds caps modes" "\<lambda>p. trim_space (prj_Name p)"
    "\<lambda>p. trim_space (prj_Path p)" "projection_ok seedID kinds caps modes"
  for seedID kinds caps modes
  by unfold_locales (auto simp: projection_item_def projection_ok_def Let_def check_eq)

interpretation command_loop:
  keyed_check2 "command_item seedID env path kinds projections caps modes"
    "\<lambda>c. trim_space (cmd_Name c)" "\<lambda>c. trim_space (cmd_Path c)"
    "command_ok seedID env path kinds projections caps modes"
  for seedID env path kinds projections caps modes
  by unfold_locales (auto simp: command_item_def command_ok_def Let_def check_eq)

interpretation surface_loop:
  keyed_check2 "surface_item field projections commands modes" "\<lambda>u. trim_space (ui_Name u)"
    "\<lambda>u. trim_space (ui_Path u)" "surface_ok projections commands modes"
  for field projections commands modes
  by unfold_locales (auto simp: surface_item_def surface_ok_def Let_def check_eq)

lemma validateProjections_ok [check_eq]:
  "validateProjections seedID items kinds caps modes = Inr out \<longleftrightarrow>
     items \<noteq> [] \<and> (\<forall>p\<in>set items. projection_ok seedID kinds caps modes p) \<and>
     distinct (map (\<lambda>p. trim_space (prj_Name p)) items) \<and>
     distinct (map (\<lambda>p. trim_space (prj_Path p)) items) \<and>
     out = (\<lambda>p. trim_space (prj_Name p)) ` set items"
  by (auto simp: validateProjections_def projection_loop.loop_Inr)

lemma validateCommands_ok [check_eq]:
  "validateCommands seedID env path items kinds projections caps modes = Inr out \<longleftrightarrow>
     (\<forall>c\<in>set items. command_ok seedID env path kinds projections caps modes c) \<and>
     distinct (map (\<lambda>c. trim_space (cmd_Name c)) items) \<and>
     distinct (map (\<lambda>c. trim_space (cmd_Path c)) items) \<and>
     out = (\<lambda>c. trim_space (cmd_Name c)) ` set items"
  by (auto simp: validateCommands_def command_loop.loop_Inr)

lemma validateUISurfaces_ok [check_eq]:
  "validateUISurfaces field items projections commands modes = None \<longleftrightarrow>
     (\<forall>u\<in>set items. surface_ok projections commands modes u) \<and>
     distinct (map (\<lambda>u. trim_space (ui_Name u)) items) \<and>
     distinct (map (\<lambda>u. trim_space (ui_Path u)) items)"
  by (auto simp: validateUISurfaces_def err_of_None surface_loop.loop_Inr)

subsection \<open>validateInteractionContract\<close>

definition optional_ref ::
  "ref_env \<Rightarrow> string \<Rightarrow> string \<Rightarrow> string \<Rightarrow> contract_error err" where
  "optional_ref env contractPath field ref =
     (if blank ref then None else wrap_err field (validateContractRef env contractPath ref))"

text \<open>The checks of the scalar fields and of the links, up to the first list.\<close>

definition contract_header ::
  "ref_env \<Rightarrow> LocalRealization \<Rightarrow> string \<Rightarrow> InteractionContract \<Rightarrow> contract_error err" where
  "contract_header env entry contractPath c =
     first_err
       [require (trim_space (ContractVersion c) = ''v1'') EVersion,
        require (trim_space (SurfaceKind c) \<in> allowedSurfaceKinds)
          (EOneOf ''surface_kind'' allowedSurfaceKinds),
        require (trim_space (ct_SeedID c) = mf_SeedID (lr_Manifest entry))
          (EMismatch ''seed_id'' (ct_SeedID c) (mf_SeedID (lr_Manifest entry))),
        require (trim_space (ct_RealizationID c) = mf_RealizationID (lr_Manifest entry))
          (EMismatch ''realization_id'' (ct_RealizationID c) (mf_RealizationID (lr_Manifest entry))),
        require (\<not> blank (ct_Summary c)) (ERequired ''summary''),
        require (\<not> blank (SeedDesign (Links c))) (ERequired ''links.seed_design''),
        wrap_err ''links.seed_design'' (validateContractRef env contractPath (SeedDesign (Links c))),
        require (\<not> blank (RealizationReadme (Links c))) (ERequired ''links.realization_readme''),
        wrap_err ''links.realization_readme''
          (validateContractRef env contractPath (RealizationReadme (Links c))),
        optional_ref env contractPath ''links.seed_brief'' (SeedBrief (Links c)),
        optional_ref env contractPath ''links.seed_acceptance'' (SeedAcceptance (Links c)),
        optional_ref env contractPath ''links.kernel_agent_principles''
          (KernelAgentPrinciples (Links c)),
        optional_ref env contractPath ''links.seed_agent_principles''
          (SeedAgentPrinciples (Links c))]"

definition validateInteractionContract ::
  "ref_env \<Rightarrow> LocalRealization \<Rightarrow> string \<Rightarrow> InteractionContract \<Rightarrow> contract_error err" where
  "validateInteractionContract env entry contractPath c =
     err_of
       (guard_err (contract_header env entry contractPath c)
       (and_then (validateNamedList (AuthModes c) allowedAuthModes ''auth_modes'') (\<lambda>authModes.
        and_then (validateCapabilities (Capabilities c)) (\<lambda>capabilities.
        and_then (validateObjects env contractPath (DomainObjects c) capabilities) (\<lambda>objectKinds.
        guard_err
          (validateRelations env contractPath (DomainRelations c) objectKinds capabilities)
       (guard_err (validateConsistencyDefaults (Consistency c))
       (and_then
          (validateProjections (mf_SeedID (lr_Manifest entry)) (Projections c) objectKinds
             capabilities authModes) (\<lambda>projections.
        guard_err
          (require (\<not> (SurfaceKind c = ''interactive'' \<and> Commands c = [])) EInteractive)
       (and_then
          (validateCommands (mf_SeedID (lr_Manifest entry)) env contractPath (Commands c)
             objectKinds projections capabilities authModes) (\<lambda>commandNames.
        guard_err
          (validateUISurfaces ''ui_surfaces'' (UISurfaces c) projections commandNames authModes)
          (Inr ())))))))))))"

text \<open>
  The abstract specification: what a valid contract is, over the sets of names it declares
  (with the white space around every name dropped).
\<close>

definition mode_names :: "InteractionContract \<Rightarrow> string set" where
  "mode_names c = trim_space ` set (AuthModes c)"

definition capability_names :: "InteractionContract \<Rightarrow> string set" where
  "capability_names c = (\<lambda>x. trim_space (cap_Name x)) ` set (Capabilities c)"

definition kind_names :: "InteractionContract \<Rightarrow> string set" where
  "kind_names c = (\<lambda>x. trim_space (obj_Kind x)) ` set (DomainObjects c)"

definition projection_names :: "InteractionContract \<Rightarrow> string set" where
  "projection_names c = (\<lambda>p. trim_space (prj_Name p)) ` set (Projections c)"

definition command_names :: "InteractionContract \<Rightarrow> string set" where
  "command_names c = (\<lambda>x. trim_space (cmd_Name x)) ` set (Commands c)"

definition header_ok ::
  "ref_env \<Rightarrow> LocalRealization \<Rightarrow> string \<Rightarrow> InteractionContract \<Rightarrow> bool" where
  "header_ok env entry contractPath c \<longleftrightarrow>
     trim_space (ContractVersion c) = ''v1'' \<and>
     trim_space (SurfaceKind c) \<in> allowedSurfaceKinds \<and>
     trim_space (ct_SeedID c) = mf_SeedID (lr_Manifest entry) \<and>
     trim_space (ct_RealizationID c) = mf_RealizationID (lr_Manifest entry) \<and>
     \<not> blank (ct_Summary c) \<and>
     (\<forall>ref\<in>{SeedDesign (Links c), RealizationReadme (Links c)}.
        \<not> blank ref \<and> ref_ok env contractPath ref) \<and>
     (\<forall>ref\<in>{SeedBrief (Links c), SeedAcceptance (Links c), KernelAgentPrinciples (Links c),
        SeedAgentPrinciples (Links c)}. blank ref \<or> ref_ok env contractPath ref)"

definition contract_ok ::
  "ref_env \<Rightarrow> LocalRealization \<Rightarrow> string \<Rightarrow> InteractionContract \<Rightarrow> bool" where
  "contract_ok env entry contractPath c \<longleftrightarrow>
     header_ok env entry contractPath c \<and>
     subset_ok (AuthModes c) allowedAuthModes \<and>
     Capabilities c \<noteq> [] \<and> (\<forall>x\<in>set (Capabilities c). capability_ok x) \<and>
     distinct (map (\<lambda>x. trim_space (cap_Name x)) (Capabilities c)) \<and>
     DomainObjects c \<noteq> [] \<and>
     (\<forall>x\<in>set (DomainObjects c). object_ok env contractPath (capability_names c) x) \<and>
     distinct (map (\<lambda>x. trim_space (obj_Kind x)) (DomainObjects c)) \<and>
     (\<forall>x\<in>set (DomainRelations c).
        relation_ok env contractPath (kind_names c) (capability_names c) x) \<and>
     distinct (map (\<lambda>x. trim_space (rel_Kind x)) (DomainRelations c)) \<and>
     trim_space (WriteVisibility (Consistency c)) \<in> allowedWriteVisibility \<and>
     trim_space (ProjectionFreshness (Consistency c)) \<in> allowedProjectionFreshness \<and>
     Projections c \<noteq> [] \<and>
     (\<forall>p\<in>set (Projections c).
        projection_ok (mf_SeedID (lr_Manifest entry)) (kind_names c) (capability_names c)
          (mode_names c) p) \<and>
     distinct (map (\<lambda>p. trim_space (prj_Name p)) (Projections c)) \<and>
     distinct (map (\<lambda>p. trim_space (prj_Path p)) (Projections c)) \<and>
     (SurfaceKind c = ''interactive'' \<longrightarrow> Commands c \<noteq> []) \<and>
     (\<forall>x\<in>set (Commands c).
        command_ok (mf_SeedID (lr_Manifest entry)) env contractPath (kind_names c)
          (projection_names c) (capability_names c) (mode_names c) x) \<and>
     distinct (map (\<lambda>x. trim_space (cmd_Name x)) (Commands c)) \<and>
     distinct (map (\<lambda>x. trim_space (cmd_Path x)) (Commands c)) \<and>
     (\<forall>u\<in>set (UISurfaces c).
        surface_ok (projection_names c) (command_names c) (mode_names c) u) \<and>
     distinct (map (\<lambda>u. trim_space (ui_Name u)) (UISurfaces c)) \<and>
     distinct (map (\<lambda>u. trim_space (ui_Path u)) (UISurfaces c))"

lemma optional_ref_ok [check_eq]:
  "optional_ref env path field ref = None \<longleftrightarrow> blank ref \<or> ref_ok env path ref"
  by (simp add: optional_ref_def check_eq)

lemma contract_header_ok [check_eq]:
  "contract_header env entry path c = None \<longleftrightarrow> header_ok env entry path c"
  unfolding contract_header_def header_ok_def by (simp add: check_eq)

lemma validateInteractionContract_iff:
  "validateInteractionContract env entry path c = None \<longleftrightarrow> contract_ok env entry path c"
  unfolding validateInteractionContract_def err_of_None guard_err_Inr and_then_Inr check_eq
    contract_ok_def mode_names_def capability_names_def kind_names_def projection_names_def
    command_names_def
  by auto

end
