(* ===== verification/Realizations.thy ===== *)
theory Realizations
  imports Contract_Validation
begin

text \<open>
  internal/realizations/catalog.go: finding the repository root, discovering the realizations
  below it, and references (\<open>seed/realization\<close>): building, splitting, normalising, resolving.
  The file system is a parameter: which directories exist, what \<open>os.ReadFile\<close> returns, which
  entries \<open>filepath.WalkDir\<close> visits in which order; the YAML decoder is a parameter too.
\<close>

subsection \<open>FindRepoRoot\<close>

datatype root_error = ResolveFailed | ErrRepoRootNotFound

definition isRepoRoot :: "(string \<Rightarrow> bool) \<Rightarrow> string \<Rightarrow> bool" where
  "isRepoRoot is_dir path \<longleftrightarrow>
     (\<forall>name\<in>set [''genesis'', ''kernel'', ''seeds'']. is_dir (join_paths [path, name]))"

text \<open>The loop upwards; \<open>None\<close> would be running out of fuel, which \<open>find_root_total\<close> excludes.\<close>

fun find_root :: "nat \<Rightarrow> (string \<Rightarrow> bool) \<Rightarrow> string \<Rightarrow> (root_error + string) option" where
  "find_root 0 is_dir current = None"
| "find_root (Suc fuel) is_dir current =
     (if isRepoRoot is_dir current then Some (Inr current)
      else if dir_of current = current then Some (Inl ErrRepoRootNotFound)
      else find_root fuel is_dir (dir_of current))"

definition FindRepoRoot ::
  "string option \<Rightarrow> (string \<Rightarrow> bool) \<Rightarrow> string \<Rightarrow> (root_error + string) option" where
  "FindRepoRoot wd is_dir start =
     (case abs_path wd (if start = [] then ''.'' else start) of
        None \<Rightarrow> Some (Inl ResolveFailed)
      | Some current \<Rightarrow> find_root (Suc (length current)) is_dir current)"

definition abs_of :: "string list \<Rightarrow> string" where
  "abs_of cs = slash @ join_with slash cs"

lemma clean_abs_of: "is_abs s \<Longrightarrow> clean s = abs_of (clean_comps True s)"
  by (simp add: clean_def abs_of_def)

lemma is_abs_abs_of [simp]: "is_abs (abs_of cs)"
  by (simp add: abs_of_def)

lemma comps_abs_of: "\<forall>c\<in>set cs. proper_comp c \<Longrightarrow> clean_comps True (abs_of cs) = cs"
  unfolding abs_of_def by (rule clean_comps_join)

lemma abs_of_inj:
  "\<forall>c\<in>set cs. proper_comp c \<Longrightarrow> \<forall>c\<in>set ds. proper_comp c \<Longrightarrow> abs_of cs = abs_of ds \<longleftrightarrow> cs = ds"
  by (metis comps_abs_of)

lemma dropWhile_no_slash:
  "CHR ''/'' \<notin> set c \<Longrightarrow>
   rev (dropWhile (\<lambda>x. x \<noteq> CHR ''/'') (rev (p @ CHR ''/'' # c))) = p @ slash"
proof -
  assume "CHR ''/'' \<notin> set c"
  then have "dropWhile (\<lambda>x. x \<noteq> CHR ''/'') (rev c @ CHR ''/'' # rev p) = CHR ''/'' # rev p"
    by (subst dropWhile_append2) auto
  then show ?thesis by simp
qed

lemma join_snoc: "cs \<noteq> [] \<Longrightarrow> join_with sep (cs @ [c]) = join_with sep cs @ sep @ c"
  by (simp add: join_proper_append)

lemma abs_of_snoc: "abs_of (cs @ [c]) = (if cs = [] then [] else abs_of cs) @ CHR ''/'' # c"
  by (simp add: abs_of_def join_snoc)

lemma dir_abs_of:
  assumes "\<forall>c\<in>set cs. proper_comp c"
  shows "dir_of (abs_of cs) = abs_of (butlast cs)"
proof (cases cs rule: rev_cases)
  case Nil
  then show ?thesis
    by (simp add: abs_of_def dir_of_def clean_def clean_comps_def clean_step.simps)
next
  case (snoc bs c)
  with assms have c: "CHR ''/'' \<notin> set c" and bs: "\<forall>c\<in>set bs. proper_comp c"
    by (auto simp: proper_comp_def)
  have "dir_of (abs_of cs) = clean ((if bs = [] then [] else abs_of bs) @ slash)"
    unfolding dir_of_def snoc abs_of_snoc dropWhile_no_slash [OF c] ..
  also have "\<dots> = abs_of bs"
  proof (cases "bs = []")
    case True
    then show ?thesis by (simp add: abs_of_def clean_def clean_comps_def clean_step.simps)
  next
    case False
    have "clean_comps True (abs_of bs @ CHR ''/'' # []) = bs"
      unfolding clean_comps_append comps_abs_of [OF bs] by (simp add: clean_step.simps)
    with False show ?thesis by (simp add: clean_def abs_of_def)
  qed
  finally show ?thesis by (simp add: snoc)
qed

text \<open>
  The loop returns the nearest directory on the way up that looks like the repository root.
\<close>

fun nearest_root :: "(string \<Rightarrow> bool) \<Rightarrow> string list list \<Rightarrow> root_error + string" where
  "nearest_root is_dir [] = Inl ErrRepoRootNotFound"
| "nearest_root is_dir (cs # css) =
     (if isRepoRoot is_dir (abs_of cs) then Inr (abs_of cs) else nearest_root is_dir css)"

lemma find_root_nearest:
  "\<forall>c\<in>set cs. proper_comp c \<Longrightarrow> length cs < fuel \<Longrightarrow>
   find_root fuel is_dir (abs_of cs) = Some (nearest_root is_dir (rev (prefixes cs)))"
proof (induction cs arbitrary: fuel rule: rev_induct)
  case Nil
  then obtain n where "fuel = Suc n" by (cases fuel) auto
  with dir_abs_of [of "[]"] show ?case by simp
next
  case (snoc c cs)
  then obtain n where n: "fuel = Suc n" "length cs < n" by (cases fuel) auto
  have bs: "\<forall>c\<in>set cs. proper_comp c" using snoc.prems by simp
  have d: "dir_of (abs_of (cs @ [c])) = abs_of cs"
    using dir_abs_of [OF snoc.prems(1)] by simp
  have "abs_of cs \<noteq> abs_of (cs @ [c])"
    using abs_of_inj [OF bs snoc.prems(1)] by simp
  with d n snoc.IH [OF bs n(2)] show ?case by (simp add: prefixes_snoc)
qed

lemma length_proper_comps:
  "\<forall>c\<in>set cs. proper_comp c \<Longrightarrow> length cs \<le> length (join_with slash cs)"
proof (induction cs)
  case (Cons c cs)
  then have "c \<noteq> []" by (simp add: proper_comp_def)
  then have "1 \<le> length c" by (cases c) auto
  with Cons show ?case by (cases cs) auto
qed simp

lemma find_root_total:
  assumes "\<forall>c\<in>set cs. proper_comp c"
  shows "find_root (Suc (length (abs_of cs))) is_dir (abs_of cs) =
         Some (nearest_root is_dir (rev (prefixes cs)))"
proof (rule find_root_nearest [OF assms])
  show "length cs < Suc (length (abs_of cs))"
    using length_proper_comps [OF assms] by (simp add: abs_of_def)
qed

lemma FindRepoRoot_abs:
  "is_abs start \<Longrightarrow>
   FindRepoRoot wd is_dir start =
     Some (nearest_root is_dir (rev (prefixes (clean_comps True start))))"
proof -
  assume a: "is_abs start"
  then have "start \<noteq> []" by (auto simp: is_abs_def)
  then show ?thesis
    using find_root_total [of "clean_comps True start" is_dir] clean_comps_proper [of _ start]
    by (simp add: FindRepoRoot_def a clean_abs_of)
qed

subsection \<open>References\<close>

definition NormalizeReference :: "string \<Rightarrow> string" where
  "NormalizeReference reference = trim_set (trim_space reference) slash"

definition BuildReference :: "string \<Rightarrow> string \<Rightarrow> string" where
  "BuildReference seedID realizationID =
     (let s = trim_space seedID; r = trim_space realizationID in
      if s = [] then r else if r = [] then s else s @ slash @ r)"

definition SplitReference :: "string \<Rightarrow> string \<times> string" where
  "SplitReference reference =
     (let ref = NormalizeReference reference; parts = split_on (CHR ''/'') ref in
      if ref = [] then ([], [])
      else if length parts = 1 then ([], hd parts)
      else (join_with slash (butlast parts), last parts))"

text \<open>\<open>ResolveByReference\<close>: an exact reference wins; otherwise a realization id that is unique.\<close>

definition ResolveByReference :: "LocalRealization list \<Rightarrow> string \<Rightarrow> LocalRealization option" where
  "ResolveByReference entries reference =
     (let ref = NormalizeReference reference in
      if ref = [] then None
      else case find (\<lambda>e. lr_Reference e = ref) entries of
        Some e \<Rightarrow> Some e
      | None \<Rightarrow>
          (let ms = filter (\<lambda>e. mf_RealizationID (lr_Manifest e) = ref) entries in
           if length ms = 1 then Some (last ms) else None))"

lemma trim_set_id:
  "s = [] \<or> hd s \<notin> set cset \<and> last s \<notin> set cset \<Longrightarrow> trim_set s cset = s"
proof (cases s)
  case (Cons c r)
  assume "s = [] \<or> hd s \<notin> set cset \<and> last s \<notin> set cset"
  with Cons have c: "c \<notin> set cset" and l: "last s \<notin> set cset" by auto
  have "dropWhile (\<lambda>c. c \<in> set cset) (rev s) = rev s"
  proof (cases "rev s")
    case (Cons d t)
    then have "d = last s" by (metis hd_rev list.sel(1))
    with l show ?thesis unfolding Cons by simp
  qed simp
  moreover have "dropWhile (\<lambda>c. c \<in> set cset) s = s" using c Cons by simp
  ultimately show ?thesis by (simp add: trim_set_def trim_right_set_def)
qed (simp add: trim_set_def trim_right_set_def)

lemma SplitReference_join:
  assumes "s \<noteq> []" "r \<noteq> []" "hd s \<noteq> CHR ''/''" "CHR ''/'' \<notin> set r"
    and "trim_space (s @ slash @ r) = s @ slash @ r"
  shows "SplitReference (s @ slash @ r) = (s, r)"
proof -
  have l: "last r \<noteq> CHR ''/''" using assms by (metis last_in_set)
  have n: "NormalizeReference (s @ slash @ r) = s @ slash @ r"
    unfolding NormalizeReference_def assms(5)
    by (rule trim_set_id) (use assms l in auto)
  have sp: "split_on (CHR ''/'') (s @ slash @ r) = split_on (CHR ''/'') s @ [r]"
    using split_on_append_gen [of "CHR ''/''" s r] split_on_single [OF assms(4)] by simp
  have len: "length (split_on (CHR ''/'') s @ [r]) \<noteq> 1"
    by (simp add: length_0_conv)
  show ?thesis
    unfolding SplitReference_def n Let_def sp using assms len by simp
qed

lemma find_Some_iff_in: "find P xs = Some x \<Longrightarrow> x \<in> set xs \<and> P x"
  by (auto simp: find_Some_iff)

lemma find_None_all: "find P xs = None \<Longrightarrow> x \<in> set xs \<Longrightarrow> \<not> P x"
  by (auto simp: find_None_iff)

lemma length_1_last: "length ms = Suc 0 \<Longrightarrow> last ms \<in> set ms \<and> (\<forall>x\<in>set ms. x = last ms)"
  by (cases ms) auto

lemma ResolveByReference_Some:
  assumes "ResolveByReference entries reference = Some e"
  shows "e \<in> set entries \<and>
         (lr_Reference e = NormalizeReference reference \<or>
          mf_RealizationID (lr_Manifest e) = NormalizeReference reference \<and>
          (\<forall>x\<in>set entries. lr_Reference x \<noteq> NormalizeReference reference) \<and>
          (\<forall>x\<in>set entries. mf_RealizationID (lr_Manifest x) = NormalizeReference reference \<longrightarrow> x = e))"
proof (cases "find (\<lambda>e. lr_Reference e = NormalizeReference reference) entries")
  case (Some x)
  then show ?thesis
    using assms find_Some_iff_in [OF Some] by (auto simp: ResolveByReference_def Let_def split: if_splits)
next
  case None
  let ?ms = "filter (\<lambda>e. mf_RealizationID (lr_Manifest e) = NormalizeReference reference) entries"
  from None assms have "length ?ms = Suc 0" "e = last ?ms"
    by (auto simp: ResolveByReference_def Let_def split: if_splits)
  with length_1_last [of ?ms] find_None_all [OF None] show ?thesis by auto
qed

subsection \<open>Discover\<close>

datatype io_error = NotExist | OtherIO string

datatype load_error = LRead string io_error | LParse string | LWalk io_error

text \<open>\<open>errors.Is(err, fs.ErrNotExist)\<close>: the wrapped error counts.\<close>

fun is_not_exist :: "load_error \<Rightarrow> bool" where
  "is_not_exist (LRead _ e) = (e = NotExist)"
| "is_not_exist (LWalk e) = (e = NotExist)"
| "is_not_exist (LParse _) = False"

text \<open>What \<open>WalkDir\<close> hands to the callback: an error, or an entry (path, name, is it a
  directory).\<close>

datatype walk_event = WErr io_error | WEntry string string bool

record file_system =
  fs_Read :: "string \<Rightarrow> io_error + string"
  fs_Stat :: "string \<Rightarrow> bool"
  fs_Walk :: "string \<Rightarrow> walk_event list"

definition loadLocalRealization ::
  "file_system \<Rightarrow> (string \<Rightarrow> Manifest option) \<Rightarrow> string \<Rightarrow> string \<Rightarrow> load_error + LocalRealization"
where
  "loadLocalRealization fs parse repoRoot manifestPath =
     (case fs_Read fs manifestPath of
        Inl e \<Rightarrow> Inl (LRead manifestPath e)
      | Inr raw \<Rightarrow>
          (case parse raw of
             None \<Rightarrow> Inl (LParse manifestPath)
           | Some m \<Rightarrow>
               (let rootDir = dir_of manifestPath in
                Inr \<lparr>lr_Manifest = m,
                     lr_Reference = NormalizeReference (BuildReference (mf_SeedID m) (mf_RealizationID m)),
                     lr_RootDir = rootDir,
                     lr_Readme = candidateRelativePath (fs_Stat fs) repoRoot (join_paths [rootDir, ''README.md'']),
                     lr_Notes = candidateRelativePath (fs_Stat fs) repoRoot (join_paths [rootDir, ''notes.md''])\<rparr>)))"

text \<open>One walk: the entries loaded so far, and the error that stopped it.\<close>

fun walk_root ::
  "(string \<Rightarrow> load_error + LocalRealization) \<Rightarrow> LocalRealization list \<Rightarrow> walk_event list \<Rightarrow>
   LocalRealization list \<times> load_error option" where
  "walk_root load out [] = (out, None)"
| "walk_root load out (WErr e # evs) = (out, Some (LWalk e))"
| "walk_root load out (WEntry path name isDir # evs) =
     (if isDir \<or> name \<noteq> ''realization.yaml'' then walk_root load out evs
      else case load path of
        Inl e \<Rightarrow> (out, Some e)
      | Inr entry \<Rightarrow> walk_root load (out @ [entry]) evs)"

fun walk_roots ::
  "file_system \<Rightarrow> (string \<Rightarrow> load_error + LocalRealization) \<Rightarrow> LocalRealization list \<Rightarrow> string list \<Rightarrow>
   load_error + LocalRealization list" where
  "walk_roots fs load out [] = Inr out"
| "walk_roots fs load out (root # roots) =
     (case walk_root load out (fs_Walk fs root) of
        (out', None) \<Rightarrow> walk_roots fs load out' roots
      | (out', Some e) \<Rightarrow>
          if is_not_exist e then walk_roots fs load out' roots else Inl e)"

definition realization_key :: "LocalRealization \<Rightarrow> asc_asc" where
  "realization_key r = AscAsc (mf_SeedID (lr_Manifest r)) (mf_RealizationID (lr_Manifest r))"

definition Discover ::
  "file_system \<Rightarrow> (string \<Rightarrow> Manifest option) \<Rightarrow> string \<Rightarrow> load_error + LocalRealization list" where
  "Discover fs parse repoRoot =
     and_then
       (walk_roots fs (loadLocalRealization fs parse repoRoot) []
          [join_paths [repoRoot, ''genesis'', ''realizations''], join_paths [repoRoot, ''seeds'']])
       (\<lambda>out. Inr (sort_key realization_key out))"

definition loaded_ok :: "LocalRealization \<Rightarrow> bool" where
  "loaded_ok r \<longleftrightarrow>
     lr_Reference r =
       NormalizeReference (BuildReference (mf_SeedID (lr_Manifest r)) (mf_RealizationID (lr_Manifest r)))"

lemma loadLocalRealization_ok:
  "loadLocalRealization fs parse root path = Inr r \<Longrightarrow> loaded_ok r \<and> lr_RootDir r = dir_of path"
  by (auto simp: loadLocalRealization_def loaded_ok_def Let_def split: sum.splits option.splits)

lemma walk_root_all:
  "\<forall>x\<in>set out. P x \<Longrightarrow> (\<And>p r. load p = Inr r \<Longrightarrow> P r) \<Longrightarrow>
   \<forall>x\<in>set (fst (walk_root load out evs)). P x"
  by (induction load out evs rule: walk_root.induct) (auto split: sum.splits)

lemma walk_roots_all:
  "\<forall>x\<in>set out. P x \<Longrightarrow> (\<And>p r. load p = Inr r \<Longrightarrow> P r) \<Longrightarrow>
   walk_roots fs load out roots = Inr out' \<Longrightarrow> \<forall>x\<in>set out'. P x"
proof (induction roots arbitrary: out)
  case (Cons root roots)
  obtain out1 e where w: "walk_root load out (fs_Walk fs root) = (out1, e)" by force
  have "\<forall>x\<in>set out1. P x"
    using walk_root_all [of out P load "fs_Walk fs root"] Cons.prems(1,2) w by simp
  with Cons w show ?case by (auto split: option.splits if_splits)
qed simp

lemma Discover_ok:
  assumes "Discover fs parse root = Inr rs"
  shows "(\<forall>r\<in>set rs. loaded_ok r) \<and> sorted (map realization_key rs)"
proof -
  from assms obtain out where
    out: "walk_roots fs (loadLocalRealization fs parse root) []
        [join_paths [root, ''genesis'', ''realizations''], join_paths [root, ''seeds'']] = Inr out"
    and rs: "rs = sort_key realization_key out"
    by (auto simp: Discover_def)
  have "\<forall>x\<in>set out. loaded_ok x"
    using walk_roots_all [OF _ _ out, of loaded_ok] loadLocalRealization_ok by auto
  with rs show ?thesis by simp
qed

end
