(* ===== verification/Contract_Loading.thy ===== *)
theory Contract_Loading
  imports Realizations
begin

text \<open>
  Loading and discovering contracts (internal/realizations/contracts.go), and what an accepted
  contract guarantees to the kernel that routes by it: closed references, references inside the
  repository, data views that split the modes of a projection.
\<close>

definition fs_env :: "file_system \<Rightarrow> string option \<Rightarrow> string \<Rightarrow> ref_env" where
  "fs_env fs wd repoRoot = \<lparr>re_RepoRoot = repoRoot, re_Wd = wd, re_Stat = fs_Stat fs\<rparr>"

definition contract_path :: "LocalRealization \<Rightarrow> string" where
  "contract_path entry = join_paths [lr_RootDir entry, ''interaction_contract.yaml'']"

definition LoadInteractionContract ::
  "file_system \<Rightarrow> string option \<Rightarrow> (string \<Rightarrow> InteractionContract option) \<Rightarrow> string \<Rightarrow>
   LocalRealization \<Rightarrow> contract_error + LoadedInteractionContract" where
  "LoadInteractionContract fs wd parse repoRoot entry =
     (let path = contract_path entry in
      case fs_Read fs path of
        Inl NotExist \<Rightarrow> Inl (EContractMissing path)
      | Inl (OtherIO e) \<Rightarrow> Inl (ERead path)
      | Inr raw \<Rightarrow>
          (case parse raw of
             None \<Rightarrow> Inl (EParse path)
           | Some c \<Rightarrow>
               guard_err
                 (map_option (EWrap path)
                    (validateInteractionContract (fs_env fs wd repoRoot) entry path c))
                 (Inr \<lparr>lc_Realization = entry, lc_Contract = c,
                       lc_ContractFile = candidateRelativePath (fs_Stat fs) repoRoot path\<rparr>)))"

datatype discover_error = DiscoverFailed load_error | ContractFailed contract_error

fun load_all ::
  "(LocalRealization \<Rightarrow> contract_error + LoadedInteractionContract) \<Rightarrow> LocalRealization list \<Rightarrow>
   discover_error + LoadedInteractionContract list" where
  "load_all load [] = Inr []"
| "load_all load (e # es) =
     (case load e of
        Inl err \<Rightarrow> Inl (ContractFailed err)
      | Inr c \<Rightarrow> and_then (load_all load es) (\<lambda>cs. Inr (c # cs)))"

definition loaded_reference :: "LoadedInteractionContract \<Rightarrow> string" where
  "loaded_reference c = lr_Reference (lc_Realization c)"

definition DiscoverContracts ::
  "file_system \<Rightarrow> string option \<Rightarrow> (string \<Rightarrow> Manifest option) \<Rightarrow>
   (string \<Rightarrow> InteractionContract option) \<Rightarrow> string \<Rightarrow>
   discover_error + LoadedInteractionContract list" where
  "DiscoverContracts fs wd parseManifest parse repoRoot =
     (case Discover fs parseManifest repoRoot of
        Inl e \<Rightarrow> Inl (DiscoverFailed e)
      | Inr entries \<Rightarrow>
          and_then (load_all (LoadInteractionContract fs wd parse repoRoot) entries)
            (\<lambda>out. Inr (sort_key loaded_reference out)))"

definition valid_loaded :: "file_system \<Rightarrow> string option \<Rightarrow> string \<Rightarrow> LoadedInteractionContract \<Rightarrow> bool"
where
  "valid_loaded fs wd repoRoot lc \<longleftrightarrow>
     contract_ok (fs_env fs wd repoRoot) (lc_Realization lc) (contract_path (lc_Realization lc))
       (lc_Contract lc)"

lemma LoadInteractionContract_Inr:
  "LoadInteractionContract fs wd parse root entry = Inr lc \<Longrightarrow>
   lc_Realization lc = entry \<and> valid_loaded fs wd root lc"
  by (auto simp: LoadInteractionContract_def Let_def valid_loaded_def
      validateInteractionContract_iff split: sum.splits io_error.splits option.splits)

lemma load_all_Inr:
  "load_all load es = Inr cs \<longleftrightarrow> list_all2 (\<lambda>e c. load e = Inr c) es cs"
  by (induction es arbitrary: cs) (auto simp: list_all2_Cons1 split: sum.splits)

lemma list_all2_map_eq:
  "list_all2 R es cs \<Longrightarrow> (\<And>e c. R e c \<Longrightarrow> f c = e) \<Longrightarrow> map f cs = es"
  by (induction rule: list_all2_induct) auto

lemma list_all2_set2:
  "list_all2 R es cs \<Longrightarrow> c \<in> set cs \<Longrightarrow> \<exists>e\<in>set es. R e c"
  by (induction rule: list_all2_induct) auto

text \<open>Every reference of a contract: the required links, the optional links that are given, and the schemas
  of objects, relations and commands.\<close>

definition contract_refs :: "InteractionContract \<Rightarrow> string set" where
  "contract_refs c =
     {SeedDesign (Links c), RealizationReadme (Links c)} \<union>
     Set.filter (\<lambda>ref. \<not> blank ref)
       {SeedBrief (Links c), SeedAcceptance (Links c), KernelAgentPrinciples (Links c), SeedAgentPrinciples (Links c)} \<union>
     obj_SchemaRef ` set (DomainObjects c) \<union>
     rel_SchemaRef ` set (DomainRelations c) \<union> cmd_InputSchemaRef ` set (Commands c) \<union>
     cmd_ResultSchemaRef ` set (Commands c)"

subsection \<open>A sample contract\<close>

definition sample_manifest :: Manifest where
  "sample_manifest =
     \<lparr>mf_RealizationID = ''x'', mf_SeedID = ''s'', mf_ApproachID = ''a'', mf_Summary = ''m'',
      mf_Status = ''accepted'', mf_Artifacts = [], mf_Subdomain = [], mf_PathPrefix = []\<rparr>"

definition sample_entry :: LocalRealization where
  "sample_entry =
     \<lparr>lr_Manifest = sample_manifest, lr_Reference = ''s/x'', lr_RootDir = ''/r/s/x'',
      lr_Readme = [], lr_Notes = []\<rparr>"

definition sample_env :: ref_env where
  "sample_env = \<lparr>re_RepoRoot = ''/r'', re_Wd = None, re_Stat = (\<lambda>_. True)\<rparr>"

definition empty_section :: InteractionDataSection where
  "empty_section = \<lparr>sec_Summary = [], sec_Fields = []\<rparr>"

definition empty_layout :: InteractionDataLayout where
  "empty_layout =
     \<lparr>SharedMetadata = empty_section, PublicPayload = empty_section,
      PrivatePayload = empty_section, RuntimeOnly = empty_section\<rparr>"

definition sample_object :: InteractionObject where
  "sample_object =
     \<lparr>obj_Kind = ''ticket'', obj_Summary = ''t'', obj_SchemaRef = ''d'',
      obj_Capabilities = [''search_documents''], obj_DataLayout = empty_layout\<rparr>"

definition sample_relation :: InteractionRelation where
  "sample_relation =
     \<lparr>rel_Kind = ''blocks'', rel_Summary = ''b'', rel_FromKinds = [''ticket''],
      rel_ToKinds = [''ticket''], rel_Cardinality = ''many_to_many'', rel_Visibility = ''public'',
      rel_SchemaRef = ''d'', rel_Capabilities = [''search_documents''], rel_Attributes = []\<rparr>"

definition sample_view :: "string \<Rightarrow> InteractionDataView" where
  "sample_view mode =
     \<lparr>dv_AuthModes = [mode], dv_Sections = [''public_payload''], dv_Summary = ''v''\<rparr>"

definition sample_projection :: InteractionProjection where
  "sample_projection =
     \<lparr>prj_Name = ''board'', prj_Summary = ''p'', prj_Path = ''/v1/projections/s/board'',
      prj_ObjectKinds = [''ticket''], prj_AuthModes = [''anonymous'', ''session''],
      prj_Capabilities = [''search_documents''], prj_Freshness = ''direct'',
      prj_DataViews = [sample_view ''anonymous'', sample_view ''session'']\<rparr>"

definition sample_command :: InteractionCommand where
  "sample_command =
     \<lparr>cmd_Name = ''open'', cmd_Summary = ''o'', cmd_Path = ''/v1/commands/s/open'',
      cmd_ObjectKinds = [''ticket''], cmd_AuthModes = [''session''], cmd_Idempotency = ''none'',
      cmd_InputSchemaRef = ''d'', cmd_ResultSchemaRef = ''d'',
      cmd_Capabilities = [''search_documents''], cmd_Projection = ''board'',
      cmd_Consistency = ''eventual'', cmd_RuntimeContext = empty_section, cmd_ErrorCodes = []\<rparr>"

definition sample_contract :: InteractionContract where
  "sample_contract =
     \<lparr>ContractVersion = ''v1'', SurfaceKind = ''interactive'', ct_SeedID = ''s'',
      ct_RealizationID = ''x'', ct_Summary = ''c'',
      Links = \<lparr>SeedDesign = ''d'', SeedBrief = [], SeedAcceptance = [], RealizationReadme = ''d'',
               KernelAgentPrinciples = [], SeedAgentPrinciples = []\<rparr>,
      AuthModes = [''anonymous'', ''session''],
      Capabilities = [\<lparr>cap_Name = ''search_documents'', cap_Summary = ''c''\<rparr>],
      DomainObjects = [sample_object], DomainRelations = [sample_relation],
      Commands = [sample_command], Projections = [sample_projection], UISurfaces = [],
      Consistency = \<lparr>WriteVisibility = ''eventual'', ProjectionFreshness = ''direct''\<rparr>\<rparr>"

lemmas sample_defs =
  sample_manifest_def sample_entry_def sample_env_def empty_section_def empty_layout_def
  sample_object_def sample_relation_def sample_view_def sample_projection_def sample_command_def
  sample_contract_def

lemmas plain_eval = trim_space_plain plain_ends_def plain_char_def

lemmas vocabulary_defs =
  allowedSurfaceKinds_def allowedAuthModes_def allowedDataLayoutSections_def
  allowedRelationCardinality_def allowedRelationVisibility_def allowedCapabilities_def
  allowedIdempotency_def allowedWriteVisibility_def allowedProjectionFreshness_def

lemma sample_ref_ok: "ref_ok sample_env ''/r/s/x/interaction_contract.yaml'' ''d''"
proof -
  have p: "ref_path ''d'' = ''d''" by (simp add: ref_path_def plain_eval)
  have d: "dir_of ''/r/s/x/interaction_contract.yaml'' = ''/r/s/x''"
    by (simp add: dir_of_def clean_def clean_comps_def clean_step.simps)
  have t: "ref_target ''/r/s/x/interaction_contract.yaml'' ''d'' = ''/r/s/x/d''"
    unfolding ref_target_def p d
    by (simp add: is_abs_def join_paths_def clean_def clean_comps_def clean_step.simps)
  have "PathContained None ''/r'' ''/r/s/x/d''"
    unfolding PathContained_def
    by (simp add: clean_def clean_comps_def clean_step.simps)
  with p t show ?thesis by (simp add: ref_ok_def sample_env_def)
qed

lemmas sample_eval =
  contract_ok_def header_ok_def capability_ok_def object_ok_def relation_ok_def projection_ok_def
  command_ok_def surface_ok_def subset_ok_def fields_ok_def views_ok_def view_ok_def
  error_codes_ok_def layout_ok_def layout_hasContent_def section_hasContent_def
  mode_names_def capability_names_def kind_names_def projection_names_def command_names_def
  projection_prefix_def command_prefix_def sample_ref_ok [unfolded sample_env_def]

lemma sample_contract_ok:
  "contract_ok sample_env sample_entry ''/r/s/x/interaction_contract.yaml'' sample_contract"
  unfolding sample_eval sample_defs vocabulary_defs
  by (simp add: plain_eval sample_ref_ok [unfolded sample_env_def])

lemma sample_contract_accepted:
  "validateInteractionContract sample_env sample_entry ''/r/s/x/interaction_contract.yaml''
     sample_contract = None"
  by (simp add: validateInteractionContract_iff sample_contract_ok)

text \<open>A file system with one realization, under seeds.\<close>

definition sample_fs :: file_system where
  "sample_fs =
     \<lparr>fs_Read = (\<lambda>_. Inr []), fs_Stat = (\<lambda>_. True),
      fs_Walk = (\<lambda>root. if root = ''/r/seeds''
                        then [WEntry ''/r/s/x/realization.yaml'' ''realization.yaml'' False] else [])\<rparr>"

lemma sample_discover:
  "\<exists>e. Discover sample_fs (\<lambda>_. Some sample_manifest) ''/r'' = Inr [e] \<and>
       contract_path e = ''/r/s/x/interaction_contract.yaml'' \<and> lr_Manifest e = sample_manifest"
proof -
  have j: "join_paths [''/r'', ''genesis'', ''realizations''] = ''/r/genesis/realizations''"
    "join_paths [''/r'', ''seeds''] = ''/r/seeds''"
    "join_paths [''/r/s/x'', ''interaction_contract.yaml''] = ''/r/s/x/interaction_contract.yaml''"
    by (simp_all add: join_paths_def clean_def clean_comps_def clean_step.simps)
  have "dir_of ''/r/s/x/realization.yaml'' = ''/r/s/x''"
    by (simp add: dir_of_def clean_def clean_comps_def clean_step.simps)
  then show ?thesis
    by (simp add: Discover_def j sample_fs_def loadLocalRealization_def and_then_def
        contract_path_def Let_def)
qed

text \<open>Any contract that is valid for the sample realization can be discovered there.\<close>

lemma sample_discovered:
  assumes "contract_ok sample_env sample_entry ''/r/s/x/interaction_contract.yaml'' c"
  shows "\<exists>lc. DiscoverContracts sample_fs None (\<lambda>_. Some sample_manifest) (\<lambda>_. Some c) ''/r'' = Inr [lc] \<and>
           lc_Contract lc = c \<and> lr_Manifest (lc_Realization lc) = sample_manifest"
proof -
  obtain e where e: "Discover sample_fs (\<lambda>_. Some sample_manifest) ''/r'' = Inr [e]"
    and p: "contract_path e = ''/r/s/x/interaction_contract.yaml''"
    and m: "lr_Manifest e = sample_manifest"
    using sample_discover by blast
  have "contract_ok (fs_env sample_fs None ''/r'') e (contract_path e) c"
    using assms m
    by (simp add: p contract_ok_def header_ok_def fs_env_def sample_env_def sample_fs_def
        sample_entry_def)
  then obtain lc where "LoadInteractionContract sample_fs None (\<lambda>_. Some c) ''/r'' e = Inr lc"
    and "lc_Contract lc = c" "lc_Realization lc = e"
    by (auto simp: LoadInteractionContract_def sample_fs_def guard_err_def
        validateInteractionContract_iff [symmetric])
  with e m show ?thesis by (simp add: DiscoverContracts_def and_then_def)
qed

lemma sample_discovered_reference:
  "\<exists>lc. DiscoverContracts sample_fs None (\<lambda>_. Some sample_manifest) (\<lambda>_. Some sample_contract) ''/r'' = Inr [lc] \<and>
     lc_Contract lc = sample_contract \<and> lr_Manifest (lc_Realization lc) = sample_manifest \<and>
     lr_Reference (lc_Realization lc) = ''s/x''"
proof -
  obtain lc where lc: "DiscoverContracts sample_fs None (\<lambda>_. Some sample_manifest) (\<lambda>_. Some sample_contract) ''/r'' = Inr [lc]"
    "lc_Contract lc = sample_contract" "lr_Manifest (lc_Realization lc) = sample_manifest"
    using sample_discovered [OF sample_contract_ok] by blast
  then obtain entries where "Discover sample_fs (\<lambda>_. Some sample_manifest) ''/r'' = Inr entries"
    "load_all (LoadInteractionContract sample_fs None (\<lambda>_. Some sample_contract) ''/r'') entries = Inr [lc]"
    by (auto simp: DiscoverContracts_def split: sum.splits)
       (metis length_sort mset_sort mset_single_iff_right mset.simps)
  then have "loaded_ok (lc_Realization lc)"
    using Discover_ok LoadInteractionContract_Inr
    by (fastforce simp: load_all_Inr list_all2_Cons2)
  then show ?thesis
    using lc by (simp add: loaded_ok_def sample_manifest_def NormalizeReference_def BuildReference_def
        plain_eval trim_set_def trim_right_set_def)
qed

end
