(* ===== verification/Contract_Properties.thy ===== *)
theory Contract_Properties
  imports Contract_Loading
begin

text \<open>
  What the kernel may rely on once a contract has been accepted, each property of
  \<open>validateInteractionContract\<close>, \<open>LoadInteractionContract\<close> or \<open>DiscoverContracts\<close> stated over the
  models of the code, with a witness on the sample contract where it has hypotheses.
\<close>

subsection \<open>The main correctness of the validator\<close>

text \<open>C2: \<open>validateInteractionContract\<close> reports no error for exactly the contracts that satisfy the
  declarative specification \<open>contract_ok\<close>: version, surface kind and identity of the header,
  closed vocabularies, unique names and paths, references that resolve inside the repository,
  every mentioned kind, capability, mode, projection and command declared. The early returns of
  the dozen loops neither let a violation pass nor reject a contract that has none.\<close>

theorem contract_validation_exact:
  "validateInteractionContract env entry path c = None \<longleftrightarrow> contract_ok env entry path c"
  by (rule validateInteractionContract_iff)

subsection \<open>What accepted data views and references are\<close>

lemma distinct_concat_unique:
  "distinct (map f (concat xss)) \<Longrightarrow> x \<in> set (concat xss) \<Longrightarrow>
   \<exists>!i. i < length xss \<and> f x \<in> f ` set (xss ! i)"
proof (induction xss)
  case (Cons xs xss)
  have disj: "f ` set xs \<inter> f ` set (concat xss) = {}" using Cons.prems(1) by simp
  show ?case
  proof (cases "f x \<in> f ` set xs")
    case True
    have no: "f x \<notin> f ` set (xss ! i)" if "i < length xss" for i
    proof -
      have "set (xss ! i) \<subseteq> set (concat xss)" using nth_mem [OF that] by auto
      with disj True show ?thesis by blast
    qed
    show ?thesis
    proof (rule ex1I [of _ 0])
      fix i assume i: "i < length (xs # xss) \<and> f x \<in> f ` set ((xs # xss) ! i)"
      show "i = 0"
      proof (rule ccontr)
        assume "i \<noteq> 0"
        then obtain j where "i = Suc j" by (cases i) auto
        with i no [of j] show False by simp
      qed
    qed (use True in simp)
  next
    case False
    then have x: "x \<in> set (concat xss)" using Cons.prems(2) by auto
    have "distinct (map f (concat xss))" using Cons.prems(1) by simp
    then obtain i where i: "i < length xss \<and> f x \<in> f ` set (xss ! i)"
      and uni: "\<And>j. j < length xss \<and> f x \<in> f ` set (xss ! j) \<Longrightarrow> j = i"
      using Cons.IH x by (metis (no_types, lifting))
    show ?thesis
    proof (rule ex1I [of _ "Suc i"])
      fix j assume j: "j < length (xs # xss) \<and> f x \<in> f ` set ((xs # xss) ! j)"
      with False obtain k where "j = Suc k" by (cases j) auto
      with j uni [of k] show "j = Suc i" by simp
    qed (use i in simp)
  qed
qed simp

lemma views_ok_unique:
  assumes "views_ok views pm am" "views \<noteq> []"
  shows "\<forall>m\<in>set pm. \<exists>!i. i < length views \<and> trim_space m \<in> trim_space ` set (dv_AuthModes (views ! i))"
proof
  fix m assume "m \<in> set pm"
  with assms have "trim_space m \<in> trim_space ` set (concat (map dv_AuthModes views))"
    by (auto simp only: views_ok_def)
  then obtain x where x: "x \<in> set (concat (map dv_AuthModes views))" "trim_space m = trim_space x"
    by auto
  have d: "distinct (map trim_space (concat (map dv_AuthModes views)))"
    using assms by (simp add: views_ok_def)
  from distinct_concat_unique [OF d x(1)]
  show "\<exists>!i. i < length views \<and> trim_space m \<in> trim_space ` set (dv_AuthModes (views ! i))"
    unfolding x(2) by (simp cong: conj_cong)
qed

lemma views_ok_modes:
  "views_ok views pm am \<Longrightarrow> views \<noteq> [] \<Longrightarrow>
   \<forall>view\<in>set views. trim_space ` set (dv_AuthModes view) \<subseteq> trim_space ` set pm"
  unfolding views_ok_def view_ok_def by (intro ballI subset_ok_sub) blast

lemma trim_padded_interactive: "trim_space '' interactive'' = ''interactive''"
proof -
  have "trim_left '' interactive'' = ''interactive''"
    by (simp add: trim_left_def strip_runs.simps space_runes_def)
  moreover have "trim_right ''interactive'' = ''interactive''"
    by (simp add: trim_right_def strip_runs.simps space_runes_def)
  ultimately show ?thesis by (simp add: trim_space_def)
qed

subsection \<open>Closed references\<close>

text \<open>In an accepted contract every command names a declared projection, declared object
  kinds and accepted authentication modes, its path lies under the prefix of the seed, and the
  capabilities it binds are among the kernel's: a route built from it never points to something
  that does not exist.\<close>

theorem accepted_commands_are_closed:
  assumes "validateInteractionContract env entry path c = None" and "cmd \<in> set (Commands c)"
  shows "(\<exists>p\<in>set (Projections c). trim_space (prj_Name p) = trim_space (cmd_Projection cmd)) \<and>
    trim_space ` set (cmd_ObjectKinds cmd) \<subseteq> kind_names c \<and>
    trim_space ` set (cmd_AuthModes cmd) \<subseteq> mode_names c \<inter> allowedAuthModes \<and>
    trim_space ` set (cmd_Capabilities cmd) \<subseteq> allowedCapabilities \<and>
    has_prefix (trim_space (cmd_Path cmd)) (''/v1/commands/'' @ trim_space (ct_SeedID c) @ ''/'')"
proof -
  have ok: "contract_ok env entry path c"
    using assms(1) by (simp add: validateInteractionContract_iff)
  then have cmd: "command_ok (mf_SeedID (lr_Manifest entry)) env path (kind_names c)
      (projection_names c) (capability_names c) (mode_names c) cmd"
    using assms(2) by (simp add: contract_ok_def)
  have proj: "\<exists>p\<in>set (Projections c). trim_space (prj_Name p) = trim_space (cmd_Projection cmd)"
    using cmd by (auto simp: command_ok_def projection_names_def)
  have kinds: "trim_space ` set (cmd_ObjectKinds cmd) \<subseteq> kind_names c"
    using cmd subset_ok_sub [of _ "kind_names c"] by (simp add: command_ok_def)
  have modes: "trim_space ` set (cmd_AuthModes cmd) \<subseteq> mode_names c" "mode_names c \<subseteq> allowedAuthModes"
    using cmd ok subset_ok_sub [of _ "mode_names c"] subset_ok_sub [of _ allowedAuthModes]
    by (simp_all add: command_ok_def contract_ok_def mode_names_def)
  have caps: "trim_space ` set (cmd_Capabilities cmd) \<subseteq> capability_names c"
    "capability_names c \<subseteq> allowedCapabilities"
    using cmd ok subset_ok_sub [of _ "capability_names c"]
    by (auto simp: command_ok_def contract_ok_def capability_names_def capability_ok_def)
  have "has_prefix (trim_space (cmd_Path cmd)) (''/v1/commands/'' @ trim_space (ct_SeedID c) @ ''/'')"
    using cmd ok by (simp add: command_ok_def contract_ok_def header_ok_def command_prefix_def)
  with proj kinds modes caps show ?thesis by auto
qed

theorem accepted_commands_are_closed_witness:
  "\<exists>p\<in>set (Projections sample_contract).
     trim_space (prj_Name p) = trim_space (cmd_Projection sample_command)"
proof -
  have "sample_command \<in> set (Commands sample_contract)" by (simp add: sample_contract_def)
  from accepted_commands_are_closed [OF sample_contract_accepted this] show ?thesis by simp
qed

text \<open>When a projection of an accepted contract declares data views, they split its
  authentication modes: every mode of the projection is served by exactly one view, and no view
  serves a mode the projection does not have. A reader in a mode gets one view, never a choice.\<close>

theorem accepted_views_split_the_modes:
  assumes "validateInteractionContract env entry path c = None" and "p \<in> set (Projections c)"
    and "prj_DataViews p \<noteq> []"
  shows "(\<forall>m\<in>set (prj_AuthModes p). \<exists>!i. i < length (prj_DataViews p) \<and>
            trim_space m \<in> trim_space ` set (dv_AuthModes (prj_DataViews p ! i))) \<and>
         (\<forall>view\<in>set (prj_DataViews p).
            trim_space ` set (dv_AuthModes view) \<subseteq> trim_space ` set (prj_AuthModes p))"
proof -
  have "projection_ok (mf_SeedID (lr_Manifest entry)) (kind_names c) (capability_names c)
      (mode_names c) p"
    using assms(1,2) by (simp add: validateInteractionContract_iff contract_ok_def)
  then have ok: "views_ok (prj_DataViews p) (prj_AuthModes p) (mode_names c)"
    by (simp add: projection_ok_def)
  show ?thesis
    using views_ok_unique [OF ok assms(3)] views_ok_modes [OF ok assms(3)] by blast
qed

theorem accepted_views_split_the_modes_witness:
  "\<exists>!i. i < length (prj_DataViews sample_projection) \<and>
     trim_space ''anonymous'' \<in> trim_space ` set (dv_AuthModes (prj_DataViews sample_projection ! i))"
proof -
  have p: "sample_projection \<in> set (Projections sample_contract)"
    by (simp add: sample_contract_def)
  have v: "prj_DataViews sample_projection \<noteq> []" "''anonymous'' \<in> set (prj_AuthModes sample_projection)"
    by (simp_all add: sample_projection_def)
  from accepted_views_split_the_modes [OF sample_contract_accepted p v(1)] v(2) show ?thesis by blast
qed

text \<open>C3: Every reference of an accepted contract, that is each of the two required links, each optional
  link that is not blank, and each schema of an object, a relation, or the input or result of a command, resolves
  to a path inside the repository that exists.\<close>

theorem accepted_references_stay_inside:
  assumes "validateInteractionContract env entry path c = None"
    and "ref \<in> contract_refs c"
  shows "PathContained (re_Wd env) (re_RepoRoot env) (ref_target path ref) \<and>
         re_Stat env (ref_target path ref) \<and> ref_path ref \<noteq> []"
proof -
  have "contract_ok env entry path c"
    using assms(1) by (simp add: validateInteractionContract_iff)
  then have "ref_ok env path ref"
    using assms(2)
    by (auto simp: contract_refs_def contract_ok_def header_ok_def object_ok_def relation_ok_def
        command_ok_def)
  then show ?thesis by (simp add: ref_ok_def)
qed

theorem accepted_references_stay_inside_witness:
  "PathContained None ''/r'' (ref_target ''/r/s/x/interaction_contract.yaml'' ''d'')"
proof -
  have "''d'' \<in> contract_refs sample_contract"
    by (simp add: contract_refs_def sample_contract_def sample_object_def)
  from accepted_references_stay_inside [OF sample_contract_accepted this] show ?thesis
    by (simp add: sample_env_def)
qed

text \<open>The rule that an interactive contract has at least one command looks at the surface kind
  as written, while the vocabulary check trims it: with a blank in front, an interactive contract
  without commands is accepted; without the blank the same contract is rejected.\<close>

theorem padded_interactive_needs_no_command:
  "validateInteractionContract sample_env sample_entry ''/r/s/x/interaction_contract.yaml''
     (sample_contract\<lparr>SurfaceKind := '' interactive'', Commands := []\<rparr>) = None \<and>
   validateInteractionContract sample_env sample_entry ''/r/s/x/interaction_contract.yaml''
     (sample_contract\<lparr>Commands := []\<rparr>) \<noteq> None"
  unfolding validateInteractionContract_iff
proof
  show "contract_ok sample_env sample_entry ''/r/s/x/interaction_contract.yaml''
      (sample_contract\<lparr>SurfaceKind := '' interactive'', Commands := []\<rparr>)"
    using sample_contract_ok trim_padded_interactive
    by (simp add: contract_ok_def header_ok_def mode_names_def capability_names_def kind_names_def
        projection_names_def command_names_def sample_contract_def allowedSurfaceKinds_def)
  show "\<not> contract_ok sample_env sample_entry ''/r/s/x/interaction_contract.yaml''
      (sample_contract\<lparr>Commands := []\<rparr>)"
    by (simp add: contract_ok_def sample_contract_def)
qed

subsection \<open>Discovery\<close>

text \<open>\<open>DiscoverContracts\<close> is all or nothing: when it returns a list, that list holds exactly
  the discovered realizations, each once, sorted by reference, and the contract of each one
  satisfies the specification against its own manifest; otherwise it returns an error.\<close>

theorem discovered_contracts_are_valid:
  assumes "DiscoverContracts fs wd parseManifest parse root = Inr cs"
  shows "\<exists>entries. Discover fs parseManifest root = Inr entries \<and>
           mset (map lc_Realization cs) = mset entries \<and>
           sorted (map (\<lambda>lc. lr_Reference (lc_Realization lc)) cs) \<and>
           (\<forall>lc\<in>set cs. contract_ok (fs_env fs wd root) (lc_Realization lc)
              (contract_path (lc_Realization lc)) (lc_Contract lc))"
proof -
  from assms obtain entries out where d: "Discover fs parseManifest root = Inr entries"
    and l: "load_all (LoadInteractionContract fs wd parse root) entries = Inr out"
    and cs: "cs = sort_key loaded_reference out"
    by (auto simp: DiscoverContracts_def split: sum.splits)
  from l have all2: "list_all2 (\<lambda>e lc. LoadInteractionContract fs wd parse root e = Inr lc) entries out"
    by (simp add: load_all_Inr)
  have "map lc_Realization out = entries"
    by (rule list_all2_map_eq [OF all2]) (auto dest: LoadInteractionContract_Inr)
  then have "mset (map lc_Realization cs) = mset entries"
    unfolding cs by (metis mset_map mset_sort)
  moreover have "\<forall>lc\<in>set cs. valid_loaded fs wd root lc"
    unfolding cs using list_all2_set2 [OF all2] LoadInteractionContract_Inr by fastforce
  moreover have "sorted (map (\<lambda>lc. lr_Reference (lc_Realization lc)) cs)"
    unfolding cs loaded_reference_def [abs_def] by (rule sorted_sort_key)
  ultimately show ?thesis using d by (auto simp: valid_loaded_def)
qed

theorem discovered_contracts_are_valid_witness:
  "\<exists>entries cs.
     DiscoverContracts sample_fs None (\<lambda>_. Some sample_manifest) (\<lambda>_. Some sample_contract) ''/r'' =
       Inr cs \<and> length entries = 1 \<and> mset (map lc_Realization cs) = mset entries"
proof -
  obtain lc e where e: "Discover sample_fs (\<lambda>_. Some sample_manifest) ''/r'' = Inr [e]"
    and d: "DiscoverContracts sample_fs None (\<lambda>_. Some sample_manifest) (\<lambda>_. Some sample_contract) ''/r'' = Inr [lc]"
    using sample_discovered [OF sample_contract_ok] sample_discover by blast
  from discovered_contracts_are_valid [OF d] e show ?thesis unfolding d by auto
qed

end
