(* ===== verification/Realization_Properties.thy ===== *)
theory Realization_Properties
  imports Contract_Loading
begin

text \<open>
  What internal/realizations/catalog.go promises: the repository root found is the nearest one,
  references split and join without loss, and a reference never resolves to an arbitrary one of
  several realizations.
\<close>

lemma nearest_root_Inr:
  "nearest_root is_dir (rev (prefixes cs)) = Inr root \<Longrightarrow>
   \<exists>ds. prefix ds cs \<and> root = abs_of ds \<and> isRepoRoot is_dir root \<and>
        (\<forall>es. prefix es cs \<and> length ds < length es \<longrightarrow> \<not> isRepoRoot is_dir (abs_of es))"
proof (induction cs rule: rev_induct)
  case Nil
  then show ?case by (auto split: if_splits)
next
  case (snoc c cs)
  show ?case
  proof (cases "isRepoRoot is_dir (abs_of (cs @ [c]))")
    case True
    then have "root = abs_of (cs @ [c])" using snoc.prems by (simp add: prefixes_snoc)
    moreover have "\<not> length (cs @ [c]) < length es" if "prefix es (cs @ [c])" for es
      using prefix_length_le [OF that] by simp
    ultimately show ?thesis using True by blast
  next
    case False
    then have "nearest_root is_dir (rev (prefixes cs)) = Inr root"
      using snoc.prems by (simp add: prefixes_snoc)
    from snoc.IH [OF this] obtain ds where ds: "prefix ds cs" "root = abs_of ds"
      "isRepoRoot is_dir root"
      "\<forall>es. prefix es cs \<and> length ds < length es \<longrightarrow> \<not> isRepoRoot is_dir (abs_of es)" by blast
    have "\<forall>es. prefix es (cs @ [c]) \<and> length ds < length es \<longrightarrow> \<not> isRepoRoot is_dir (abs_of es)"
      using ds(4) False by (auto simp: prefix_snoc)
    with ds show ?thesis by (metis prefix_snoc)
  qed
qed

lemma nearest_root_Inl:
  "nearest_root is_dir css = Inl e \<longleftrightarrow>
   e = ErrRepoRootNotFound \<and> (\<forall>cs\<in>set css. \<not> isRepoRoot is_dir (abs_of cs))"
  by (induction css) auto

text \<open>C4: From an absolute start \<open>FindRepoRoot\<close> always terminates with a result. If that is a
  directory, it has the genesis, kernel and seeds directories, is an ancestor of (or equal to) the
  cleaned start, and no ancestor nearer to the start qualifies; if it is the error, no ancestor
  qualifies.\<close>

theorem repo_root_is_nearest_ancestor:
  assumes "is_abs start"
  shows "\<exists>r. FindRepoRoot wd is_dir start = Some r \<and>
    (case r of
       Inr root \<Rightarrow> \<exists>ds. prefix ds (clean_comps True start) \<and> root = abs_of ds \<and>
         isRepoRoot is_dir root \<and>
         (\<forall>es. prefix es (clean_comps True start) \<and> length ds < length es \<longrightarrow>
            \<not> isRepoRoot is_dir (abs_of es))
     | Inl e \<Rightarrow> e = ErrRepoRootNotFound \<and>
         (\<forall>es. prefix es (clean_comps True start) \<longrightarrow> \<not> isRepoRoot is_dir (abs_of es)))"
proof -
  let ?n = "nearest_root is_dir (rev (prefixes (clean_comps True start)))"
  have f: "FindRepoRoot wd is_dir start = Some ?n" by (rule FindRepoRoot_abs [OF assms])
  show ?thesis
  proof (cases ?n)
    case (Inl e)
    from iffD1 [OF nearest_root_Inl this]
    have "e = ErrRepoRootNotFound \<and>
        (\<forall>es. prefix es (clean_comps True start) \<longrightarrow> \<not> isRepoRoot is_dir (abs_of es))" by simp
    with Inl show ?thesis unfolding f by simp
  next
    case (Inr root)
    from nearest_root_Inr [OF this] Inr show ?thesis unfolding f by auto
  qed
qed

theorem repo_root_is_nearest_ancestor_witness:
  "\<exists>r. FindRepoRoot None (\<lambda>p. p \<in> {''/r/genesis'', ''/r/kernel'', ''/r/seeds''}) ''/r/seeds/x'' = Some r"
proof -
  have "is_abs ''/r/seeds/x''" by simp
  from repo_root_is_nearest_ancestor
    [OF this, of None "\<lambda>p. p \<in> {''/r/genesis'', ''/r/kernel'', ''/r/seeds''}"]
  show ?thesis by blast
qed

text \<open>A reference built from a seed id and a realization id splits back into the two, for
  non-empty ids without white space at their ends where the seed id does not start with a slash
  and the realization id contains none (the seed id may contain slashes).\<close>

theorem reference_roundtrip:
  assumes "trim_space s = s" "trim_space r = r" "s \<noteq> []" "r \<noteq> []" "hd s \<noteq> CHR ''/''"
    and "CHR ''/'' \<notin> set r" "trim_space (s @ ''/'' @ r) = s @ ''/'' @ r"
  shows "SplitReference (BuildReference s r) = (s, r)"
  using SplitReference_join [of s r] assms by (simp add: BuildReference_def)

theorem reference_roundtrip_witness:
  "SplitReference (BuildReference ''a/b'' ''web'') = (''a/b'', ''web'')"
  by (rule reference_roundtrip) (simp_all add: trim_space_plain plain_ends_def plain_char_def)

text \<open>C5: \<open>ResolveByReference\<close> never guesses. A result either has the normalised reference as its
  own, or the reference is a bare realization id that matches no reference and exactly one
  realization. When an entry has the reference, some entry with that reference is the result.\<close>

theorem resolve_never_guesses:
  "(case ResolveByReference entries reference of
      Some e \<Rightarrow> e \<in> set entries \<and>
        (lr_Reference e = NormalizeReference reference \<or>
         mf_RealizationID (lr_Manifest e) = NormalizeReference reference \<and>
         filter (\<lambda>x. lr_Reference x = NormalizeReference reference) entries = [] \<and>
         length (filter (\<lambda>x. mf_RealizationID (lr_Manifest x) = NormalizeReference reference)
                   entries) = 1)
    | None \<Rightarrow> NormalizeReference reference = [] \<or>
        filter (\<lambda>x. lr_Reference x = NormalizeReference reference) entries = [] \<and>
        length (filter (\<lambda>x. mf_RealizationID (lr_Manifest x) = NormalizeReference reference)
                  entries) \<noteq> 1)"
proof (cases "NormalizeReference reference = []")
  case True
  then show ?thesis by (simp add: ResolveByReference_def)
next
  case ne: False
  let ?ref = "NormalizeReference reference"
  let ?ms = "filter (\<lambda>e. mf_RealizationID (lr_Manifest e) = ?ref) entries"
  show ?thesis
  proof (cases "find (\<lambda>e. lr_Reference e = ?ref) entries")
    case None
    then have no: "filter (\<lambda>x. lr_Reference x = ?ref) entries = []"
      by (auto simp: filter_empty_conv find_None_iff)
    have last: "last ?ms \<in> set ?ms" if "length ?ms = 1" using length_1_last [of ?ms] that by simp
    have "ResolveByReference entries reference = (if length ?ms = 1 then Some (last ?ms) else None)"
      using None ne by (simp add: ResolveByReference_def Let_def)
    with no last show ?thesis by auto
  next
    case (Some e)
    then have "ResolveByReference entries reference = Some e"
      using ne by (simp add: ResolveByReference_def Let_def)
    with find_Some_iff_in [OF Some] show ?thesis by simp
  qed
qed

text \<open>Every realization \<open>Discover\<close> returns carries the normalised reference of its own
  manifest, and the list is sorted by seed id, then realization id.\<close>

theorem discovered_realizations_sorted:
  assumes "Discover fs parse root = Inr rs"
  shows "sorted (map realization_key rs) \<and>
    (\<forall>r\<in>set rs. lr_Reference r =
       NormalizeReference (BuildReference (mf_SeedID (lr_Manifest r)) (mf_RealizationID (lr_Manifest r))))"
  using Discover_ok [OF assms] by (simp add: loaded_ok_def)

theorem discovered_realizations_sorted_witness:
  "\<exists>e. Discover \<lparr>fs_Read = (\<lambda>_. Inr []), fs_Stat = (\<lambda>_. True),
          fs_Walk = (\<lambda>root. [WEntry ''/r/x/realization.yaml'' ''realization.yaml'' False])\<rparr>
          (\<lambda>_. Some sample_manifest) ''/r'' = Inr [e, e] \<and> sorted (map realization_key [e, e])"
proof -
  let ?fs = "\<lparr>fs_Read = (\<lambda>_. Inr []), fs_Stat = (\<lambda>_. True),
          fs_Walk = (\<lambda>root. [WEntry ''/r/x/realization.yaml'' ''realization.yaml'' False])\<rparr>"
  obtain e where e: "Discover ?fs (\<lambda>_. Some sample_manifest) ''/r'' = Inr [e, e]"
    by (simp add: Discover_def loadLocalRealization_def and_then_def Let_def)
  from discovered_realizations_sorted [OF e] e show ?thesis by auto
qed

end
