(* ===== verification/Runtime_Launch.thy ===== *)
theory Runtime_Launch
  imports Contract_Loading
begin

text \<open>
  internal/realizations/runtime_launch.go and meta.go: which runtime manifest may be launched
  locally, and how a realization is classified from what is found on disk. The YAML decoders
  of the seed and runtime manifests are parameters.
\<close>

record RuntimeManifestRun =
  run_Command :: string
  run_Args :: "string list"

text \<open>The environment is a Go map: the list of its entries in the order the loop visits them.\<close>

record RuntimeManifest =
  rt_Kind :: string
  rt_Version :: int
  rt_Runtime :: string
  rt_Entrypoint :: string
  rt_WorkingDirectory :: string
  rt_Run :: RuntimeManifestRun
  rt_Environment :: "(string \<times> string) list"
  rt_Notes :: "string list"

record SeedManifest =
  sm_SeedID :: string
  sm_Version :: int
  sm_Summary :: string
  sm_Status :: string

subsection \<open>ValidateLocalRuntimeManifest\<close>

datatype launch_error =
    RuntimeRequired
  | GoCommand | NodeCommand | PythonCommand
  | RuntimeNotAllowed string
  | PathRequired string
  | OutsideRepo string
  | OutsideRealization string
  | EnvInvalid string
  | EnvReserved string

definition upper_char :: "char \<Rightarrow> bool" where
  "upper_char c \<longleftrightarrow> CHR ''A'' \<le> c \<and> c \<le> CHR ''Z''"

definition digit_char :: "char \<Rightarrow> bool" where
  "digit_char c \<longleftrightarrow> CHR ''0'' \<le> c \<and> c \<le> CHR ''9''"

text \<open>\<open>^[A-Z][A-Z0-9_]*$\<close>.\<close>

definition envKeyPattern :: "string \<Rightarrow> bool" where
  "envKeyPattern s \<longleftrightarrow>
     (case s of [] \<Rightarrow> False
      | c # cs \<Rightarrow> upper_char c \<and> (\<forall>d\<in>set cs. upper_char d \<or> digit_char d \<or> d = CHR ''_''))"

definition reservedRuntimeEnv :: "string set" where
  "reservedRuntimeEnv =
     {''AS_ADDR'', ''AS_REGISTRY_URL'', ''AS_PUBLIC_API_URL'', ''AS_RUNTIME_DATABASE_URL'',
      ''AS_RUNTIME_AUTO_MIGRATE'', ''AS_INTERNAL_API_URL'', ''AS_INTERNAL_API_TOKEN'',
      ''AS_EXECUTION_ID'', ''AS_SEED_ID'', ''AS_REALIZATION_ID''}"

definition requireContainedPath ::
  "string option \<Rightarrow> string \<Rightarrow> string \<Rightarrow> string \<Rightarrow> string \<Rightarrow> launch_error err" where
  "requireContainedPath wd repoRoot realizationRoot candidate field =
     (let trimmed = trim_space candidate; target = join_paths [realizationRoot, trimmed] in
      first_err
        [require (trimmed \<noteq> []) (PathRequired field),
         require (PathContained wd repoRoot target) (OutsideRepo field),
         require (PathContained wd realizationRoot target) (OutsideRealization field)])"

definition check_family :: "string \<Rightarrow> string \<Rightarrow> launch_error err" where
  "check_family runtimeFamily command =
     (if runtimeFamily = ''go'' then require (command = ''prebuilt'') GoCommand
      else if runtimeFamily = ''node'' then require (command = ''node'') NodeCommand
      else if runtimeFamily = ''python''
        then require (command = ''python'' \<or> command = ''python3'') PythonCommand
      else Some (RuntimeNotAllowed runtimeFamily))"

definition check_env_key :: "string \<Rightarrow> launch_error err" where
  "check_env_key key =
     first_err
       [require (envKeyPattern (trim_space key)) (EnvInvalid key),
        require (trim_space key \<notin> reservedRuntimeEnv) (EnvReserved key)]"

definition ValidateLocalRuntimeManifest ::
  "string option \<Rightarrow> string \<Rightarrow> string \<Rightarrow> RuntimeManifest \<Rightarrow> launch_error err" where
  "ValidateLocalRuntimeManifest wd repoRoot realizationRoot m =
     (let runtimeFamily = trim_space (rt_Runtime m); command = trim_space (run_Command (rt_Run m)) in
      first_err
        [require (\<not> (runtimeFamily = [] \<or> command = [])) RuntimeRequired,
         check_family runtimeFamily command,
         requireContainedPath wd repoRoot realizationRoot (rt_WorkingDirectory m) ''working_directory'',
         requireContainedPath wd repoRoot realizationRoot (rt_Entrypoint m) ''entrypoint'',
         first_err (map (\<lambda>kv. check_env_key (fst kv)) (rt_Environment m))])"

definition CanLaunchLocally ::
  "string option \<Rightarrow> string \<Rightarrow> string \<Rightarrow> RuntimeManifest option \<Rightarrow> bool" where
  "CanLaunchLocally wd repoRoot realizationRoot manifest =
     (case manifest of None \<Rightarrow> False
      | Some m \<Rightarrow> ValidateLocalRuntimeManifest wd repoRoot realizationRoot m = None)"

text \<open>The specification: the command fits the family, both paths stay inside, the environment
  sets no reserved name.\<close>

definition family_commands :: "string \<Rightarrow> string set" where
  "family_commands family =
     (if family = ''go'' then {''prebuilt''}
      else if family = ''node'' then {''node''}
      else if family = ''python'' then {''python'', ''python3''} else {})"

definition inside :: "string option \<Rightarrow> string \<Rightarrow> string \<Rightarrow> string \<Rightarrow> bool" where
  "inside wd repoRoot realizationRoot candidate \<longleftrightarrow>
     \<not> blank candidate \<and>
     PathContained wd repoRoot (join_paths [realizationRoot, trim_space candidate]) \<and>
     PathContained wd realizationRoot (join_paths [realizationRoot, trim_space candidate])"

lemma requireContainedPath_None [simp]:
  "requireContainedPath wd repo root c field = None \<longleftrightarrow> inside wd repo root c"
  by (simp add: requireContainedPath_def inside_def Let_def)

lemma check_family_None:
  "check_family family command = None \<longleftrightarrow> command \<in> family_commands family"
  by (auto simp: check_family_def family_commands_def)

lemma check_env_key_None [simp]:
  "check_env_key key = None \<longleftrightarrow>
     envKeyPattern (trim_space key) \<and> trim_space key \<notin> reservedRuntimeEnv"
  by (simp add: check_env_key_def)

lemma family_commands_nonblank: "c \<in> family_commands f \<Longrightarrow> c \<noteq> [] \<and> f \<noteq> []"
  by (auto simp: family_commands_def split: if_splits)

lemma ValidateLocalRuntimeManifest_None:
  "ValidateLocalRuntimeManifest wd repo root m = None \<longleftrightarrow>
     trim_space (run_Command (rt_Run m)) \<in> family_commands (trim_space (rt_Runtime m)) \<and>
     inside wd repo root (rt_WorkingDirectory m) \<and> inside wd repo root (rt_Entrypoint m) \<and>
     (\<forall>kv\<in>set (rt_Environment m). envKeyPattern (trim_space (fst kv)) \<and>
        trim_space (fst kv) \<notin> reservedRuntimeEnv)"
  using family_commands_nonblank [of "trim_space (run_Command (rt_Run m))" "trim_space (rt_Runtime m)"]
  by (auto simp: ValidateLocalRuntimeManifest_def Let_def check_family_None first_err_None)

subsection \<open>Readiness\<close>

record ReadinessInfo =
  ri_Stage :: string
  ri_Label :: string
  ri_Summary :: string
  ri_HasContract :: bool
  ri_HasRuntime :: bool
  ri_CanInspect :: bool
  ri_CanGrow :: bool
  ri_CanRun :: bool
  ri_CanLaunchLocal :: bool
  ri_CanLaunchShared :: bool
  ri_SurfaceKind :: string
  ri_ContractFile :: string
  ri_RuntimeFile :: string

record RealizationMeta =
  rm_SeedSummary :: string
  rm_SeedStatus :: string
  rm_ContractSummary :: string
  rm_ContractFile :: string
  rm_SurfaceKind :: string
  rm_RuntimeArtifact :: string
  rm_RuntimeManifest :: "RuntimeManifest option"
  rm_Readiness :: ReadinessInfo

fun find_runtime :: "string list \<Rightarrow> string" where
  "find_runtime [] = []"
| "find_runtime (artifact # artifacts) =
     (let candidate = trim_space artifact; base = to_lower (base_of candidate) in
      if candidate = [] then find_runtime artifacts
      else if base = ''runtime.yaml'' \<or> base = ''runtime.yml'' then candidate
      else find_runtime artifacts)"

definition findRuntimeArtifact :: "LocalRealization \<Rightarrow> string" where
  "findRuntimeArtifact entry = find_runtime (mf_Artifacts (lr_Manifest entry))"

definition classifyReadiness ::
  "string \<Rightarrow> bool \<Rightarrow> bool \<Rightarrow> string \<Rightarrow> string \<Rightarrow> string \<Rightarrow> ReadinessInfo" where
  "classifyReadiness status hasContract hasRuntime surfaceKind contractFile runtimeFile =
     (let lifecycle = trim_space status;
          (stage, label, summary) =
            (if trim_space surfaceKind = ''bootstrap_only'' then
               (''bootstrap'', ''Bootstrap'',
                ''Bootstrap-only realization for inspecting or replaying foundational system state.'')
             else if hasRuntime \<and> lifecycle = ''accepted'' then
               (''accepted'', ''Accepted'', ''Runnable realization with accepted status.'')
             else if hasRuntime then
               (''runnable'', ''Runnable'',
                ''Runtime artifacts exist. This realization may be launchable depending on the available execution backend.'')
             else if hasContract then
               (''defined'', ''Defined'',
                ''Docs and interaction contract are in place. This realization is ready to grow but not yet runnable.'')
             else
               (''designed'', ''Designed'',
                ''Seed docs exist, but this realization is not yet normalized for growth.''))
      in \<lparr>ri_Stage = stage, ri_Label = label, ri_Summary = summary,
          ri_HasContract = hasContract, ri_HasRuntime = hasRuntime,
          ri_CanInspect = True, ri_CanGrow = True, ri_CanRun = False,
          ri_CanLaunchLocal = False, ri_CanLaunchShared = False,
          ri_SurfaceKind = trim_space surfaceKind, ri_ContractFile = trim_space contractFile,
          ri_RuntimeFile = trim_space runtimeFile\<rparr>)"

definition seedDirForRealization :: "string \<Rightarrow> string" where
  "seedDirForRealization rootDir = dir_of (dir_of rootDir)"

definition loadSeedManifest ::
  "file_system \<Rightarrow> (string \<Rightarrow> SeedManifest option) \<Rightarrow> string \<Rightarrow> load_error + SeedManifest" where
  "loadSeedManifest fs parse seedDir =
     (let path = join_paths [seedDir, ''seed.yaml''] in
      case fs_Read fs path of
        Inl e \<Rightarrow> Inl (LRead path e)
      | Inr raw \<Rightarrow> (case parse raw of None \<Rightarrow> Inl (LParse path) | Some m \<Rightarrow> Inr m))"

definition loadRuntimeManifest ::
  "file_system \<Rightarrow> (string \<Rightarrow> RuntimeManifest option) \<Rightarrow> string \<Rightarrow> load_error + RuntimeManifest" where
  "loadRuntimeManifest fs parse path =
     (case fs_Read fs path of
        Inl e \<Rightarrow> Inl (LRead path e)
      | Inr raw \<Rightarrow> (case parse raw of None \<Rightarrow> Inl (LParse path) | Some m \<Rightarrow> Inr m))"

text \<open>The decoders of the three YAML files.\<close>

record decoders =
  dec_Seed :: "string \<Rightarrow> SeedManifest option"
  dec_Contract :: "string \<Rightarrow> InteractionContract option"
  dec_Runtime :: "string \<Rightarrow> RuntimeManifest option"
  dec_Manifest :: "string \<Rightarrow> Manifest option"

text \<open>The four stages of \<open>LoadRealizationMeta\<close>: the initial value, what the seed, the contract
  and the runtime manifest add (only an unreadable runtime manifest is an error), and the final
  classification, which keeps the launch flags found before.\<close>

definition initial_meta :: RealizationMeta where
  "initial_meta =
     \<lparr>rm_SeedSummary = [], rm_SeedStatus = [], rm_ContractSummary = [], rm_ContractFile = [],
      rm_SurfaceKind = [], rm_RuntimeArtifact = [], rm_RuntimeManifest = None,
      rm_Readiness =
        \<lparr>ri_Stage = ''designed'', ri_Label = ''Designed'',
         ri_Summary = ''Seed docs exist, but this realization is not yet normalized for growth.'',
         ri_HasContract = False, ri_HasRuntime = False, ri_CanInspect = True, ri_CanGrow = True,
         ri_CanRun = False, ri_CanLaunchLocal = False, ri_CanLaunchShared = False,
         ri_SurfaceKind = [], ri_ContractFile = [], ri_RuntimeFile = []\<rparr>\<rparr>"

definition with_seed :: "load_error + SeedManifest \<Rightarrow> RealizationMeta \<Rightarrow> RealizationMeta" where
  "with_seed seed meta =
     (case seed of Inl _ \<Rightarrow> meta
      | Inr s \<Rightarrow> meta\<lparr>rm_SeedSummary := trim_space (sm_Summary s),
                    rm_SeedStatus := trim_space (sm_Status s)\<rparr>)"

definition with_contract ::
  "contract_error + LoadedInteractionContract \<Rightarrow> RealizationMeta \<Rightarrow> RealizationMeta" where
  "with_contract contract meta =
     (case contract of Inl _ \<Rightarrow> meta
      | Inr lc \<Rightarrow>
          (let kind = trim_space (SurfaceKind (lc_Contract lc)) in
           meta\<lparr>rm_ContractSummary := trim_space (ct_Summary (lc_Contract lc)),
                rm_ContractFile := lc_ContractFile lc, rm_SurfaceKind := kind,
                rm_Readiness := (rm_Readiness meta)
                  \<lparr>ri_HasContract := True, ri_SurfaceKind := kind,
                   ri_ContractFile := lc_ContractFile lc\<rparr>\<rparr>))"

definition with_runtime ::
  "file_system \<Rightarrow> string option \<Rightarrow> (string \<Rightarrow> RuntimeManifest option) \<Rightarrow> string \<Rightarrow> LocalRealization \<Rightarrow>
   RealizationMeta \<Rightarrow> load_error + RealizationMeta" where
  "with_runtime fs wd parse repoRoot entry meta =
     (let artifact = findRuntimeArtifact entry; path = join_paths [lr_RootDir entry, artifact] in
      if artifact = [] then Inr meta
      else and_then (loadRuntimeManifest fs parse path)
        (\<lambda>m. let file = candidateRelativePath (fs_Stat fs) repoRoot path in
           Inr (meta\<lparr>rm_RuntimeArtifact := file, rm_RuntimeManifest := Some m,
                     rm_Readiness := (rm_Readiness meta)
                       \<lparr>ri_HasRuntime := True, ri_RuntimeFile := file,
                        ri_CanLaunchLocal :=
                          (CanLaunchLocally wd repoRoot (lr_RootDir entry) (Some m) \<or>
                           ri_CanLaunchLocal (rm_Readiness meta))\<rparr>\<rparr>)))"

definition finish_meta :: "LocalRealization \<Rightarrow> RealizationMeta \<Rightarrow> RealizationMeta" where
  "finish_meta entry meta =
     (let r = rm_Readiness meta;
          c = classifyReadiness (mf_Status (lr_Manifest entry)) (ri_HasContract r) (ri_HasRuntime r)
                (rm_SurfaceKind meta) (rm_ContractFile meta) (rm_RuntimeArtifact meta);
          launchLocal = (ri_CanLaunchLocal r \<and> ri_HasRuntime c);
          launchShared = (ri_CanLaunchShared r \<and> ri_HasRuntime c)
      in meta\<lparr>rm_Readiness := c\<lparr>ri_CanLaunchLocal := launchLocal, ri_CanLaunchShared := launchShared,
                                ri_CanRun := (launchLocal \<or> launchShared)\<rparr>\<rparr>)"

definition LoadRealizationMeta ::
  "file_system \<Rightarrow> string option \<Rightarrow> decoders \<Rightarrow> string \<Rightarrow> LocalRealization \<Rightarrow>
   load_error + RealizationMeta" where
  "LoadRealizationMeta fs wd dec repoRoot entry =
     (let seeded = with_seed (loadSeedManifest fs (dec_Seed dec) (seedDirForRealization (lr_RootDir entry)))
                     initial_meta;
          contracted = with_contract
            (LoadInteractionContract fs wd (dec_Contract dec) repoRoot entry) seeded
      in and_then (with_runtime fs wd (dec_Runtime dec) repoRoot entry contracted)
           (\<lambda>meta. Inr (finish_meta entry meta)))"

lemma find_runtime_trimmed: "find_runtime xs \<noteq> [] \<Longrightarrow> trim_space (find_runtime xs) = find_runtime xs"
  by (induction xs) (auto simp: Let_def split: if_splits)

lemma classifyReadiness_flags [simp]:
  "ri_HasContract (classifyReadiness st hc hr sk cf rf) = hc"
  "ri_HasRuntime (classifyReadiness st hc hr sk cf rf) = hr"
  "ri_CanGrow (classifyReadiness st hc hr sk cf rf)"
  "ri_CanInspect (classifyReadiness st hc hr sk cf rf)"
  "ri_SurfaceKind (classifyReadiness st hc hr sk cf rf) = trim_space sk"
  by (simp_all add: classifyReadiness_def Let_def)

lemma finish_meta_flags [simp]:
  "ri_CanLaunchLocal (rm_Readiness (finish_meta e m)) =
     (ri_CanLaunchLocal (rm_Readiness m) \<and> ri_HasRuntime (rm_Readiness m))"
  "ri_CanRun (rm_Readiness (finish_meta e m)) =
     ((ri_CanLaunchLocal (rm_Readiness m) \<or> ri_CanLaunchShared (rm_Readiness m)) \<and>
      ri_HasRuntime (rm_Readiness m))"
  "ri_HasRuntime (rm_Readiness (finish_meta e m)) = ri_HasRuntime (rm_Readiness m)"
  "ri_HasContract (rm_Readiness (finish_meta e m)) = ri_HasContract (rm_Readiness m)"
  "rm_RuntimeManifest (finish_meta e m) = rm_RuntimeManifest m"
  "rm_RuntimeArtifact (finish_meta e m) = rm_RuntimeArtifact m"
  by (auto simp: finish_meta_def Let_def)

text \<open>Before the runtime manifest is looked at no flag is set.\<close>

lemma before_runtime [simp]:
  "ri_CanLaunchLocal (rm_Readiness (with_contract c (with_seed s initial_meta))) = False"
  "ri_CanLaunchShared (rm_Readiness (with_contract c (with_seed s initial_meta))) = False"
  "ri_HasRuntime (rm_Readiness (with_contract c (with_seed s initial_meta))) = False"
  "ri_HasContract (rm_Readiness (with_contract c (with_seed s initial_meta))) = (\<exists>lc. c = Inr lc)"
  "rm_RuntimeManifest (with_contract c (with_seed s initial_meta)) = None"
  by (simp_all add: with_contract_def with_seed_def initial_meta_def Let_def split: sum.split)

subsection \<open>What a launchable or runnable realization is\<close>

text \<open>C6: A runtime manifest is accepted for a local launch exactly if the command is one of the
  few its runtime family allows, working directory and entrypoint stay inside both the repository
  and the realization, and every environment name (trimmed) has the shape of a variable and is
  none of the names the kernel sets itself, whatever the order of the environment.\<close>

theorem local_launch_exact:
  "ValidateLocalRuntimeManifest wd repo root m = None \<longleftrightarrow>
     trim_space (run_Command (rt_Run m)) \<in> family_commands (trim_space (rt_Runtime m)) \<and>
     inside wd repo root (rt_WorkingDirectory m) \<and> inside wd repo root (rt_Entrypoint m) \<and>
     trim_space ` fst ` set (rt_Environment m) \<subseteq> {k. envKeyPattern k} - reservedRuntimeEnv"
  unfolding ValidateLocalRuntimeManifest_None by auto

text \<open>What a local launch executes lies inside the realization: for an absolute realization
  root below the file system root, the components of the resolved entrypoint and working directory
  start with those of the root, whatever \<open>..\<close> the manifest contains.\<close>

theorem launched_paths_are_inside:
  assumes "CanLaunchLocally wd repo root (Some m)" "is_abs root" "clean_comps True root \<noteq> []"
    and "path = rt_Entrypoint m \<or> path = rt_WorkingDirectory m"
  shows "prefix (clean_comps True root) (clean_comps True (join_paths [root, trim_space path]))"
proof -
  have i: "inside wd repo root path"
    using assms(1,4) by (auto simp: CanLaunchLocally_def ValidateLocalRuntimeManifest_None)
  then have "PathContained wd root (join_paths [root, trim_space path])" "\<not> blank path"
    by (simp_all add: inside_def)
  with assms(2,3) show ?thesis
    by (simp add: PathContained_iff join_paths_abs(1) below_def)
qed

definition sample_runtime :: RuntimeManifest where
  "sample_runtime =
     \<lparr>rt_Kind = ''runtime'', rt_Version = 1, rt_Runtime = ''node'', rt_Entrypoint = ''main.js'',
      rt_WorkingDirectory = ''.'', rt_Run = \<lparr>run_Command = ''node'', run_Args = []\<rparr>,
      rt_Environment = [(''PORT'', ''80'')], rt_Notes = []\<rparr>"

lemma sample_launch: "CanLaunchLocally None ''/r'' ''/r/s/x'' (Some sample_runtime)"
  unfolding CanLaunchLocally_def option.case ValidateLocalRuntimeManifest_None
  by (simp add: sample_runtime_def plain_eval inside_def family_commands_def envKeyPattern_def
      upper_char_def digit_char_def reservedRuntimeEnv_def PathContained_def join_paths_def
      clean_def clean_comps_def clean_step.simps less_eq_char_def)

theorem launched_paths_are_inside_witness:
  "prefix (clean_comps True ''/r/s/x'') (clean_comps True (join_paths [''/r/s/x'', trim_space ''main.js'']))"
  by (rule launched_paths_are_inside [OF sample_launch])
     (simp_all add: sample_runtime_def clean_comps_def clean_step.simps)

text \<open>The readiness shown for a realization is consistent: it can be run exactly if it has a
  runtime manifest that the local launch check accepts (shared launch is never on), a runtime is
  reported exactly if a manifest was read, a contract exactly if it loads and validates, and the
  stages accepted and runnable appear only with a runtime.\<close>

theorem readiness_is_consistent:
  assumes "LoadRealizationMeta fs wd dec repo entry = Inr meta"
  shows "ri_CanRun (rm_Readiness meta) = ri_CanLaunchLocal (rm_Readiness meta) \<and>
    ri_CanRun (rm_Readiness meta) =
      CanLaunchLocally wd repo (lr_RootDir entry) (rm_RuntimeManifest meta) \<and>
    ri_HasRuntime (rm_Readiness meta) = (rm_RuntimeManifest meta \<noteq> None) \<and>
    ri_HasContract (rm_Readiness meta) =
      (\<exists>lc. LoadInteractionContract fs wd (dec_Contract dec) repo entry = Inr lc) \<and>
    (ri_Stage (rm_Readiness meta) \<in> {''accepted'', ''runnable''} \<longrightarrow> ri_HasRuntime (rm_Readiness meta))"
proof -
  let ?m = "with_contract (LoadInteractionContract fs wd (dec_Contract dec) repo entry)
      (with_seed (loadSeedManifest fs (dec_Seed dec) (seedDirForRealization (lr_RootDir entry)))
         initial_meta)"
  obtain rt where rt: "with_runtime fs wd (dec_Runtime dec) repo entry ?m = Inr rt"
    and meta: "meta = finish_meta entry rt"
    using assms by (auto simp: LoadRealizationMeta_def Let_def)
  have stage: "ri_Stage (rm_Readiness (finish_meta entry rt)) \<in> {''accepted'', ''runnable''} \<Longrightarrow>
      ri_HasRuntime (rm_Readiness rt)"
    by (auto simp: finish_meta_def classifyReadiness_def Let_def split: if_splits)
  show ?thesis
  proof (cases "findRuntimeArtifact entry = []")
    case True
    then have "rt = ?m" using rt by (simp add: with_runtime_def Let_def)
    with stage show ?thesis by (auto simp: meta CanLaunchLocally_def)
  next
    case False
    then obtain m rel where "rt = ?m\<lparr>rm_RuntimeArtifact := rel, rm_RuntimeManifest := Some m,
        rm_Readiness := (rm_Readiness ?m)\<lparr>ri_HasRuntime := True, ri_RuntimeFile := rel,
          ri_CanLaunchLocal := CanLaunchLocally wd repo (lr_RootDir entry) (Some m)\<rparr>\<rparr>"
      using rt by (auto simp: with_runtime_def Let_def)
    then show ?thesis by (simp add: meta)
  qed
qed

definition runtime_fs :: file_system where
  "runtime_fs = \<lparr>fs_Read = (\<lambda>_. Inr []), fs_Stat = (\<lambda>_. True), fs_Walk = (\<lambda>_. [])\<rparr>"

definition runtime_decoders :: decoders where
  "runtime_decoders =
     \<lparr>dec_Seed = (\<lambda>_. None), dec_Contract = (\<lambda>_. None), dec_Runtime = (\<lambda>_. Some sample_runtime),
      dec_Manifest = (\<lambda>_. None)\<rparr>"

definition runtime_entry :: LocalRealization where
  "runtime_entry =
     sample_entry\<lparr>lr_Manifest := sample_manifest\<lparr>mf_Artifacts := [''Runtime.yaml'']\<rparr>\<rparr>"

theorem readiness_is_consistent_witness:
  "\<exists>meta. LoadRealizationMeta runtime_fs None runtime_decoders ''/r'' runtime_entry = Inr meta \<and>
     ri_CanRun (rm_Readiness meta) = ri_CanLaunchLocal (rm_Readiness meta) \<and>
     ri_CanRun (rm_Readiness meta)"
proof -
  have b: "findRuntimeArtifact runtime_entry = ''Runtime.yaml''"
  proof -
    have "to_lower ''Runtime.yaml'' = ''runtime.yaml''" by code_simp
    then show ?thesis
      by (simp add: findRuntimeArtifact_def runtime_entry_def Let_def plain_eval base_of_def)
  qed
  obtain meta where meta:
    "LoadRealizationMeta runtime_fs None runtime_decoders ''/r'' runtime_entry = Inr meta"
    and rt: "rm_RuntimeManifest meta = Some sample_runtime"
    by (simp add: LoadRealizationMeta_def with_runtime_def b loadRuntimeManifest_def Let_def
        runtime_fs_def runtime_decoders_def and_then_def)
  have root: "lr_RootDir runtime_entry = ''/r/s/x''"
    by (simp add: runtime_entry_def sample_entry_def)
  from readiness_is_consistent [OF meta] meta sample_launch show ?thesis
    unfolding rt root by blast
qed

end
