(* ===== verification/Growth_Context.thy ===== *)
theory Growth_Context
  imports Runtime_Launch
begin

text \<open>
  internal/realizations/growth.go: the packet of documents handed to whoever grows a
  realization. Every document is previewed from a path that the containment check lets through;
  an unreadable or outside path gives the empty record, which \<open>compactContextFiles\<close> drops.
\<close>

record ContextFile =
  cf_Path :: string
  cf_Kind :: string
  cf_Preview :: string
  cf_Truncated :: bool
  cf_ByteLength :: nat

record GrowthContext =
  gc_Reference :: string
  gc_SeedID :: string
  gc_SeedSummary :: string
  gc_SeedStatus :: string
  gc_RealizationID :: string
  gc_ApproachID :: string
  gc_Summary :: string
  gc_Status :: string
  gc_SurfaceKind :: string
  gc_ContractSummary :: string
  gc_Subdomain :: string
  gc_PathPrefix :: string
  gc_Readiness :: ReadinessInfo
  gc_SeedDocs :: "ContextFile list"
  gc_ApproachDocs :: "ContextFile list"
  gc_RealizationDocs :: "ContextFile list"
  gc_RuntimeDocs :: "ContextFile list"

definition no_file :: ContextFile where
  "no_file = \<lparr>cf_Path = [], cf_Kind = [], cf_Preview = [], cf_Truncated = False, cf_ByteLength = 0\<rparr>"

definition preview_text :: "string \<Rightarrow> string \<times> bool" where
  "preview_text raw =
     (let preview = trim_space raw in
      if length preview > 900 then (trim_space (take 900 preview) @ [CHR 0x0A] @ ''...'', True)
      else (preview, False))"

definition previewContextFile ::
  "file_system \<Rightarrow> string option \<Rightarrow> string \<Rightarrow> string \<Rightarrow> string \<Rightarrow> ContextFile" where
  "previewContextFile fs wd repoRoot path kind =
     (if \<not> PathContained wd repoRoot path then no_file
      else case fs_Read fs path of
        Inl _ \<Rightarrow> no_file
      | Inr raw \<Rightarrow>
          \<lparr>cf_Path = candidateRelativePath (fs_Stat fs) repoRoot path, cf_Kind = kind,
           cf_Preview = fst (preview_text raw), cf_Truncated = snd (preview_text raw),
           cf_ByteLength = length raw\<rparr>)"

definition compactContextFiles :: "ContextFile list \<Rightarrow> ContextFile list" where
  "compactContextFiles files = filter (\<lambda>f. \<not> blank (cf_Path f)) files"

text \<open>The loop over the artifacts of the manifest.\<close>

fun artifact_docs ::
  "file_system \<Rightarrow> string option \<Rightarrow> string \<Rightarrow> string \<Rightarrow> string list \<Rightarrow> ContextFile list" where
  "artifact_docs fs wd repoRoot dir [] = []"
| "artifact_docs fs wd repoRoot dir (artifact # artifacts) =
     (let fullPath = join_paths [dir, artifact] in
      if blank artifact \<or> \<not> PathContained wd repoRoot fullPath
         \<or> base_of fullPath = ''runtime.yaml'' \<or> base_of fullPath = ''runtime.yml''
      then artifact_docs fs wd repoRoot dir artifacts
      else previewContextFile fs wd repoRoot fullPath ''artifact'' #
           artifact_docs fs wd repoRoot dir artifacts)"

definition seed_doc_names :: "(string \<times> string) list" where
  "seed_doc_names =
     [(''README.md'', ''seed_readme''), (''brief.md'', ''seed_brief''), (''design.md'', ''seed_design''),
      (''acceptance.md'', ''seed_acceptance''), (''decision_log.md'', ''seed_decision_log''),
      (''notes.md'', ''seed_notes''), (''seed.yaml'', ''seed_manifest'')]"

definition realization_doc_names :: "(string \<times> string) list" where
  "realization_doc_names =
     [(''README.md'', ''realization_readme''), (''notes.md'', ''realization_notes''),
      (''realization.yaml'', ''realization_manifest''),
      (''interaction_contract.yaml'', ''interaction_contract'')]"

definition docs_of ::
  "(string \<Rightarrow> string \<Rightarrow> ContextFile) \<Rightarrow> string \<Rightarrow> (string \<times> string) list \<Rightarrow> ContextFile list" where
  "docs_of preview dir names =
     compactContextFiles (map (\<lambda>nk. preview (join_paths [dir, fst nk]) (snd nk)) names)"

definition growth_of ::
  "file_system \<Rightarrow> string option \<Rightarrow> string \<Rightarrow> LocalRealization \<Rightarrow> RealizationMeta \<Rightarrow> GrowthContext" where
  "growth_of fs wd repoRoot entry meta =
     (let m = lr_Manifest entry; dir = lr_RootDir entry; seedDir = seedDirForRealization dir;
          preview = previewContextFile fs wd repoRoot
      in \<lparr>gc_Reference = lr_Reference entry, gc_SeedID = mf_SeedID m,
          gc_SeedSummary = rm_SeedSummary meta, gc_SeedStatus = rm_SeedStatus meta,
          gc_RealizationID = mf_RealizationID m, gc_ApproachID = mf_ApproachID m,
          gc_Summary = mf_Summary m, gc_Status = mf_Status m,
          gc_SurfaceKind = rm_SurfaceKind meta, gc_ContractSummary = rm_ContractSummary meta,
          gc_Subdomain = mf_Subdomain m, gc_PathPrefix = mf_PathPrefix m,
          gc_Readiness = rm_Readiness meta,
          gc_SeedDocs = docs_of preview seedDir seed_doc_names,
          gc_ApproachDocs =
            (if blank (mf_ApproachID m) then []
             else compactContextFiles
               [preview (join_paths [seedDir, ''approaches'', mf_ApproachID m @ ''.yaml'']) ''approach_manifest'',
                preview (join_paths [seedDir, ''approaches'', ''README.md'']) ''approach_readme'']),
          gc_RealizationDocs = docs_of preview dir realization_doc_names,
          gc_RuntimeDocs =
            compactContextFiles
              ((if rm_RuntimeArtifact meta = [] then []
                else [preview (join_paths [repoRoot, rm_RuntimeArtifact meta]) ''runtime_manifest'']) @
               artifact_docs fs wd repoRoot dir (mf_Artifacts m))\<rparr>)"

datatype growth_error = GrowthDiscover load_error | GrowthNotFound string | GrowthMeta load_error

definition LoadGrowthContext ::
  "file_system \<Rightarrow> string option \<Rightarrow> decoders \<Rightarrow> string \<Rightarrow> string \<Rightarrow> growth_error + GrowthContext" where
  "LoadGrowthContext fs wd dec repoRoot reference =
     (case Discover fs (dec_Manifest dec) repoRoot of
        Inl e \<Rightarrow> Inl (GrowthDiscover e)
      | Inr entries \<Rightarrow>
          (case ResolveByReference entries reference of
             None \<Rightarrow> Inl (GrowthNotFound reference)
           | Some entry \<Rightarrow>
               (case LoadRealizationMeta fs wd dec repoRoot entry of
                  Inl e \<Rightarrow> Inl (GrowthMeta e)
                | Inr meta \<Rightarrow> Inr (growth_of fs wd repoRoot entry meta))))"

subsection \<open>Nothing outside the repository\<close>

text \<open>A document that was previewed from a readable path inside the repository.\<close>

definition from_inside ::
  "file_system \<Rightarrow> string option \<Rightarrow> string \<Rightarrow> ContextFile \<Rightarrow> bool" where
  "from_inside fs wd repoRoot f \<longleftrightarrow>
     (\<exists>path raw. PathContained wd repoRoot path \<and> fs_Read fs path = Inr raw \<and>
        cf_Preview f = fst (preview_text raw) \<and> cf_ByteLength f = length raw \<and>
        cf_Truncated f = (900 < length (trim_space raw)))"

lemma preview_text_truncated: "snd (preview_text raw) = (900 < length (trim_space raw))"
  by (simp add: preview_text_def Let_def)

lemma preview_text_length: "length (fst (preview_text raw)) \<le> 904"
  using length_trim_space [of "take 900 (trim_space raw)"]
  by (auto simp: preview_text_def Let_def)

lemma previewContextFile_inside:
  "previewContextFile fs wd repo path kind = no_file \<or>
   from_inside fs wd repo (previewContextFile fs wd repo path kind)"
  by (auto simp: previewContextFile_def from_inside_def preview_text_truncated split: sum.split)

lemma no_file_dropped [simp]: "blank (cf_Path no_file)"
  by (simp add: no_file_def)

text \<open>The predicate the four lists share: after compaction only inside documents are left.\<close>

definition inside_or_none ::
  "file_system \<Rightarrow> string option \<Rightarrow> string \<Rightarrow> ContextFile list \<Rightarrow> bool" where
  "inside_or_none fs wd repo files \<longleftrightarrow> (\<forall>f\<in>set files. f = no_file \<or> from_inside fs wd repo f)"

lemma inside_or_none_simps [simp]:
  "inside_or_none fs wd repo []"
  "inside_or_none fs wd repo (previewContextFile fs wd repo p k # files) =
     inside_or_none fs wd repo files"
  "inside_or_none fs wd repo (xs @ ys) =
     (inside_or_none fs wd repo xs \<and> inside_or_none fs wd repo ys)"
  using previewContextFile_inside by (auto simp: inside_or_none_def)

lemma inside_or_none_map:
  "inside_or_none fs wd repo (map (\<lambda>nk. previewContextFile fs wd repo (p nk) (k nk)) names)"
  by (induction names) simp_all

lemma inside_or_none_artifacts: "inside_or_none fs wd repo (artifact_docs fs wd repo dir as)"
  by (induction as) (simp_all add: Let_def)

lemma compact_inside:
  "inside_or_none fs wd repo files \<Longrightarrow> f \<in> set (compactContextFiles files) \<Longrightarrow>
   from_inside fs wd repo f \<and> \<not> blank (cf_Path f)"
  by (auto simp: compactContextFiles_def inside_or_none_def)

text \<open>C7: Every document in a growth context was read from a path inside the repository and is
  named by a path; its preview has at most 904 bytes, and it is marked truncated exactly if the
  trimmed content has more than 900. Artifacts that point outside, and documents that cannot be
  read, are left out and never make the call fail.\<close>

theorem growth_context_stays_inside:
  assumes "LoadGrowthContext fs wd dec repo reference = Inr ctx"
    and "f \<in> set (gc_SeedDocs ctx @ gc_ApproachDocs ctx @ gc_RealizationDocs ctx @ gc_RuntimeDocs ctx)"
  shows "(\<exists>path raw. PathContained wd repo path \<and> fs_Read fs path = Inr raw \<and>
            cf_Preview f = fst (preview_text raw) \<and> cf_ByteLength f = length raw \<and>
            cf_Truncated f = (900 < length (trim_space raw))) \<and>
         length (cf_Preview f) \<le> 904 \<and> \<not> blank (cf_Path f)"
proof -
  obtain entry meta where ctx: "ctx = growth_of fs wd repo entry meta"
    using assms(1) by (auto simp: LoadGrowthContext_def split: sum.splits option.splits)
  have "from_inside fs wd repo f \<and> \<not> blank (cf_Path f)"
    using assms(2) unfolding ctx growth_of_def Let_def docs_of_def
    by (auto split: if_splits
        dest!: compact_inside [rotated] simp: inside_or_none_map inside_or_none_artifacts)
  then show ?thesis
    using preview_text_length by (auto simp: from_inside_def)
qed

definition growth_fs :: file_system where
  "growth_fs =
     \<lparr>fs_Read = (\<lambda>_. Inr ''text''), fs_Stat = (\<lambda>_. True),
      fs_Walk = (\<lambda>root. if root = ''/r/seeds''
                        then [WEntry ''/r/s/x/realization.yaml'' ''realization.yaml'' False] else [])\<rparr>"

definition growth_decoders :: decoders where
  "growth_decoders =
     \<lparr>dec_Seed = (\<lambda>_. None), dec_Contract = (\<lambda>_. None), dec_Runtime = (\<lambda>_. None),
      dec_Manifest = (\<lambda>_. Some sample_manifest)\<rparr>"

lemma growth_discover:
  "\<exists>e. Discover growth_fs (\<lambda>_. Some sample_manifest) ''/r'' = Inr [e] \<and>
       lr_RootDir e = ''/r/s/x'' \<and> lr_Manifest e = sample_manifest \<and> lr_Reference e = ''s/x''"
proof -
  have j: "join_paths [''/r'', ''genesis'', ''realizations''] = ''/r/genesis/realizations''"
    "join_paths [''/r'', ''seeds''] = ''/r/seeds''"
    by (simp_all add: join_paths_def clean_def clean_comps_def clean_step.simps)
  have d: "dir_of ''/r/s/x/realization.yaml'' = ''/r/s/x''"
    by (simp add: dir_of_def clean_def clean_comps_def clean_step.simps)
  have n: "NormalizeReference (BuildReference ''s'' ''x'') = ''s/x''"
    by (simp add: NormalizeReference_def BuildReference_def plain_eval trim_set_def trim_right_set_def)
  show ?thesis
    by (simp add: Discover_def j d n growth_fs_def loadLocalRealization_def and_then_def Let_def)
       (simp add: sample_manifest_def n)
qed

theorem growth_context_stays_inside_witness:
  "\<exists>ctx f. LoadGrowthContext growth_fs None growth_decoders ''/r'' ''s/x'' = Inr ctx \<and>
     f \<in> set (gc_SeedDocs ctx) \<and> length (cf_Preview f) \<le> 904"
proof -
  obtain e where e: "Discover growth_fs (\<lambda>_. Some sample_manifest) ''/r'' = Inr [e]"
    "lr_RootDir e = ''/r/s/x''" "lr_Manifest e = sample_manifest" "lr_Reference e = ''s/x''"
    using growth_discover by blast
  have n: "NormalizeReference ''s/x'' = ''s/x''"
    by (simp add: NormalizeReference_def plain_eval trim_set_def trim_right_set_def)
  have r: "ResolveByReference [e] ''s/x'' = Some e"
    by (simp add: ResolveByReference_def n e)
  have "findRuntimeArtifact e = []" by (simp add: findRuntimeArtifact_def e sample_manifest_def)
  then obtain meta where m: "LoadRealizationMeta growth_fs None growth_decoders ''/r'' e = Inr meta"
    by (simp add: LoadRealizationMeta_def with_runtime_def and_then_def Let_def)
  let ?ctx = "growth_of growth_fs None ''/r'' e meta"
  have ctx: "LoadGrowthContext growth_fs None growth_decoders ''/r'' ''s/x'' = Inr ?ctx"
    by (simp add: LoadGrowthContext_def growth_decoders_def e r m [unfolded growth_decoders_def])
  let ?f = "previewContextFile growth_fs None ''/r'' ''/r/README.md'' ''seed_readme''"
  have sd: "seedDirForRealization ''/r/s/x'' = ''/r''"
    by (simp add: seedDirForRealization_def dir_of_def clean_def clean_comps_def clean_step.simps)
  have jp: "join_paths [''/r'', ''README.md''] = ''/r/README.md''"
    by (simp add: join_paths_def clean_def clean_comps_def clean_step.simps)
  have "\<not> blank (cf_Path ?f)"
    by (simp add: previewContextFile_def PathContained_def candidateRelativePath_def growth_fs_def
        rel_path_def clean_def clean_comps_def clean_step.simps plain_eval)
  then have "?f \<in> set (gc_SeedDocs ?ctx)"
    by (simp add: growth_of_def docs_of_def compactContextFiles_def seed_doc_names_def e sd Let_def jp)
  with growth_context_stays_inside [OF ctx, of ?f] ctx show ?thesis by auto
qed

end
