(* ===== verification/Registry_Types.thy ===== *)
theory Registry_Types
  imports Contract_Loading
begin

text \<open>
  The types of internal/registry/catalog.go: what the registry shows of the accepted contracts,
  by realization, object, command, projection and schema.
\<close>

record CatalogSummary =
  su_Realizations :: nat
  su_Contracts :: nat
  su_Objects :: nat
  su_Relations :: nat
  su_Schemas :: nat
  su_Commands :: nat
  su_Projections :: nat

record CatalogDataField =
  cdf_Name :: string
  cdf_Type :: string
  cdf_Summary :: string

record CatalogDataSection =
  cds_Summary :: string
  cds_Fields :: "CatalogDataField list"

record CatalogDataLayout =
  cdl_SharedMetadata :: CatalogDataSection
  cdl_PublicPayload :: CatalogDataSection
  cdl_PrivatePayload :: CatalogDataSection
  cdl_RuntimeOnly :: CatalogDataSection

record CatalogRelation =
  crel_Reference :: string
  crel_SeedID :: string
  crel_RealizationID :: string
  crel_Kind :: string
  crel_Summary :: string
  crel_FromKinds :: "string list"
  crel_ToKinds :: "string list"
  crel_Cardinality :: string
  crel_Visibility :: string
  crel_SchemaRef :: string
  crel_Capabilities :: "string list"
  crel_Attributes :: "CatalogDataField list"
  crel_ContractFile :: string

record CatalogObjectRealization =
  cor_Reference :: string
  cor_SeedID :: string
  cor_RealizationID :: string
  cor_ApproachID :: string
  cor_Summary :: string
  cor_Status :: string
  cor_SurfaceKind :: string
  cor_ContractFile :: string
  cor_SchemaRef :: string
  cor_Capabilities :: "string list"

record CatalogCommand =
  cc_Reference :: string
  cc_SeedID :: string
  cc_RealizationID :: string
  cc_Name :: string
  cc_Summary :: string
  cc_Path :: string
  cc_AuthModes :: "string list"
  cc_Capabilities :: "string list"
  cc_Idempotency :: string
  cc_InputSchemaRef :: string
  cc_ResultSchemaRef :: string
  cc_Projection :: string
  cc_Consistency :: string
  cc_ContractFile :: string

record CatalogDataView =
  cdv_AuthModes :: "string list"
  cdv_Sections :: "string list"
  cdv_Summary :: string

record CatalogProjection =
  cp_Reference :: string
  cp_SeedID :: string
  cp_RealizationID :: string
  cp_Name :: string
  cp_Summary :: string
  cp_Path :: string
  cp_AuthModes :: "string list"
  cp_Capabilities :: "string list"
  cp_Freshness :: string
  cp_DataViews :: "CatalogDataView list"
  cp_ContractFile :: string

record CatalogObject =
  co_SeedID :: string
  co_Kind :: string
  co_Summary :: string
  co_Capabilities :: "string list"
  co_SchemaRefs :: "string list"
  co_DataLayout :: CatalogDataLayout
  co_OutgoingRelations :: "CatalogRelation list"
  co_IncomingRelations :: "CatalogRelation list"
  co_Realizations :: "CatalogObjectRealization list"
  co_Commands :: "CatalogCommand list"
  co_Projections :: "CatalogProjection list"

record CatalogRealization =
  cr_Reference :: string
  cr_SeedID :: string
  cr_RealizationID :: string
  cr_ApproachID :: string
  cr_Summary :: string
  cr_Status :: string
  cr_SurfaceKind :: string
  cr_ContractFile :: string
  cr_AuthModes :: "string list"
  cr_Capabilities :: "string list"
  cr_ObjectKinds :: "string list"
  cr_Relations :: "CatalogRelation list"
  cr_CommandNames :: "string list"
  cr_Projections :: "string list"

record CatalogSchemaObjectUse =
  sou_Reference :: string
  sou_SeedID :: string
  sou_RealizationID :: string
  sou_Kind :: string
  sou_Summary :: string
  sou_ContractFile :: string

record CatalogSchemaCommandUse =
  scu_Reference :: string
  scu_SeedID :: string
  scu_RealizationID :: string
  scu_Name :: string
  scu_Summary :: string
  scu_Path :: string
  scu_ContractFile :: string

record CatalogSchema =
  csc_Ref :: string
  csc_Path :: string
  csc_Anchor :: string
  csc_ObjectUses :: "CatalogSchemaObjectUse list"
  csc_CommandInputs :: "CatalogSchemaCommandUse list"
  csc_CommandResults :: "CatalogSchemaCommandUse list"

record Catalog =
  cat_Summary :: CatalogSummary
  cat_Realizations :: "CatalogRealization list"
  cat_Commands :: "CatalogCommand list"
  cat_Projections :: "CatalogProjection list"
  cat_Objects :: "CatalogObject list"
  cat_Schemas :: "CatalogSchema list"

record resolvedRef =
  rr_Canonical :: string
  rr_Path :: string
  rr_Anchor :: string

subsection \<open>Copies\<close>

definition copyDataSection :: "InteractionDataSection \<Rightarrow> CatalogDataSection" where
  "copyDataSection section =
     \<lparr>cds_Summary = trim_space (sec_Summary section),
      cds_Fields = map (\<lambda>f. \<lparr>cdf_Name = trim_space (fld_Name f), cdf_Type = trim_space (fld_Type f),
                             cdf_Summary = trim_space (fld_Summary f)\<rparr>) (sec_Fields section)\<rparr>"

definition copyDataLayout :: "InteractionDataLayout \<Rightarrow> CatalogDataLayout" where
  "copyDataLayout layout =
     \<lparr>cdl_SharedMetadata = copyDataSection (SharedMetadata layout),
      cdl_PublicPayload = copyDataSection (PublicPayload layout),
      cdl_PrivatePayload = copyDataSection (PrivatePayload layout),
      cdl_RuntimeOnly = copyDataSection (RuntimeOnly layout)\<rparr>"

definition copyDataViews :: "InteractionDataView list \<Rightarrow> CatalogDataView list" where
  "copyDataViews items =
     map (\<lambda>v. \<lparr>cdv_AuthModes = dv_AuthModes v, cdv_Sections = dv_Sections v,
               cdv_Summary = trim_space (dv_Summary v)\<rparr>) items"

definition copyRelationAttributes :: "InteractionDataField list \<Rightarrow> CatalogDataField list" where
  "copyRelationAttributes items =
     map (\<lambda>f. \<lparr>cdf_Name = fld_Name f, cdf_Type = fld_Type f, cdf_Summary = fld_Summary f\<rparr>) items"

definition section_empty :: "CatalogDataSection \<Rightarrow> bool" where
  "section_empty s \<longleftrightarrow> cds_Fields s = [] \<and> blank (cds_Summary s)"

definition catalogDataLayoutIsEmpty :: "CatalogDataLayout \<Rightarrow> bool" where
  "catalogDataLayoutIsEmpty layout \<longleftrightarrow>
     section_empty (cdl_SharedMetadata layout) \<and> section_empty (cdl_PublicPayload layout) \<and>
     section_empty (cdl_PrivatePayload layout) \<and> section_empty (cdl_RuntimeOnly layout)"

subsection \<open>addUnique, firstNonEmpty\<close>

text \<open>The map \<open>seen\<close> of the code holds the elements of \<open>dest\<close> at every step.\<close>

fun addUnique :: "string list \<Rightarrow> string list \<Rightarrow> string list" where
  "addUnique dest [] = dest"
| "addUnique dest (v # vs) =
     (let t = trim_space v in
      if t = [] \<or> t \<in> set dest then addUnique dest vs else addUnique (dest @ [t]) vs)"

fun firstNonEmpty :: "string list \<Rightarrow> string" where
  "firstNonEmpty [] = []"
| "firstNonEmpty (v # vs) = (if trim_space v \<noteq> [] then trim_space v else firstNonEmpty vs)"

lemma set_addUnique: "set (addUnique dest vs) = set dest \<union> (trim_space ` set vs - {[]})"
  by (induction vs arbitrary: dest) (auto simp: Let_def)

lemma distinct_addUnique: "distinct dest \<Longrightarrow> distinct (addUnique dest vs)"
  by (induction vs arbitrary: dest) (auto simp: Let_def)

lemma addUnique_loop: "foldl (\<lambda>d x. addUnique d [f x]) dest xs = addUnique dest (map f xs)"
  by (induction xs arbitrary: dest) (auto simp: Let_def)

subsection \<open>resolveContractRef\<close>

definition resolveContractRef :: "string \<Rightarrow> string \<Rightarrow> string \<Rightarrow> resolvedRef" where
  "resolveContractRef repoRoot contractPath ref =
     (let raw = trim_space ref in
      if raw = [] then \<lparr>rr_Canonical = [], rr_Path = [], rr_Anchor = []\<rparr>
      else
        (let target = trim_space (fst (cut_at (CHR ''#'') raw));
             anchor = trim_space (fst (snd (cut_at (CHR ''#'') raw)));
             absTarget =
               (if target = [] then contractPath
                else if is_abs target then clean target
                else join_paths [dir_of contractPath, target]);
             rel = (case rel_path repoRoot absTarget of None \<Rightarrow> absTarget | Some r \<Rightarrow> r);
             canonical = (if anchor = [] then rel else rel @ ''#'' @ anchor)
         in \<lparr>rr_Canonical = canonical, rr_Path = rel, rr_Anchor = anchor\<rparr>))"

end
