(* ===== verification/Registry_Catalog.thy ===== *)
theory Registry_Catalog
  imports Registry_Types
begin

text \<open>
  \<open>LoadCatalog\<close> of internal/registry/catalog.go: the loop over the accepted contracts that fills
  the listings and the two indices, one definition per inner loop, and the \<open>flatten\<close> functions.
  An index (a Go map to pointers that the loop mutates) is an association list updated by
  \<open>upsert\<close>; \<open>sort.Slice\<close> over what it holds is \<open>sort_key\<close>.
\<close>

record catalog_build =
  cb_Objects :: "(string \<times> CatalogObject) list"
  cb_Schemas :: "(string \<times> CatalogSchema) list"
  cb_Realizations :: "CatalogRealization list"
  cb_Commands :: "CatalogCommand list"
  cb_Projections :: "CatalogProjection list"
  cb_CommandCount :: nat
  cb_ProjectionCount :: nat
  cb_RelationCount :: nat

subsection \<open>ensureObject, ensureSchema\<close>

definition object_key :: "string \<Rightarrow> string \<Rightarrow> string" where
  "object_key seedID kind = seedID @ [CHR 0x00] @ kind"

definition no_layout :: CatalogDataLayout where
  "no_layout =
     (let s = \<lparr>cds_Summary = [], cds_Fields = []\<rparr> in
      \<lparr>cdl_SharedMetadata = s, cdl_PublicPayload = s, cdl_PrivatePayload = s, cdl_RuntimeOnly = s\<rparr>)"

definition new_object :: "string \<Rightarrow> string \<Rightarrow> CatalogObject" where
  "new_object seedID kind =
     \<lparr>co_SeedID = trim_space seedID, co_Kind = trim_space kind, co_Summary = [], co_Capabilities = [],
      co_SchemaRefs = [], co_DataLayout = no_layout, co_OutgoingRelations = [],
      co_IncomingRelations = [], co_Realizations = [], co_Commands = [], co_Projections = []\<rparr>"

text \<open>\<open>detail := ensureObject(index, seedID, kind)\<close> followed by the mutation \<open>f\<close> of \<open>detail\<close>.\<close>

definition ensureObject ::
  "string \<Rightarrow> string \<Rightarrow> (CatalogObject \<Rightarrow> CatalogObject) \<Rightarrow> catalog_build \<Rightarrow> catalog_build" where
  "ensureObject seedID kind f st =
     st\<lparr>cb_Objects := upsert (object_key seedID kind) (new_object seedID kind) f (cb_Objects st)\<rparr>"

definition ensureSchema ::
  "resolvedRef \<Rightarrow> (CatalogSchema \<Rightarrow> CatalogSchema) \<Rightarrow> catalog_build \<Rightarrow> catalog_build" where
  "ensureSchema ref f st =
     st\<lparr>cb_Schemas :=
          upsert (rr_Canonical ref)
            \<lparr>csc_Ref = rr_Canonical ref, csc_Path = rr_Path ref, csc_Anchor = rr_Anchor ref,
             csc_ObjectUses = [], csc_CommandInputs = [], csc_CommandResults = []\<rparr>
            f (cb_Schemas st)\<rparr>"

text \<open>\<open>if ref.Canonical != "" { ... ensureSchema ... }\<close>.\<close>

definition use_schema ::
  "resolvedRef \<Rightarrow> (CatalogSchema \<Rightarrow> CatalogSchema) \<Rightarrow> catalog_build \<Rightarrow> catalog_build" where
  "use_schema ref f st = (if rr_Canonical ref \<noteq> [] then ensureSchema ref f st else st)"

subsection \<open>What the loop reads of a contract\<close>

abbreviation item_manifest :: "LoadedInteractionContract \<Rightarrow> Manifest" where
  "item_manifest item \<equiv> lr_Manifest (lc_Realization item)"

abbreviation item_seed :: "LoadedInteractionContract \<Rightarrow> string" where
  "item_seed item \<equiv> mf_SeedID (item_manifest item)"

abbreviation item_path :: "LoadedInteractionContract \<Rightarrow> string" where
  "item_path item \<equiv> contract_path (lc_Realization item)"

definition item_contract_file :: "string \<Rightarrow> LoadedInteractionContract \<Rightarrow> string" where
  "item_contract_file repoRoot item =
     firstNonEmpty [lc_ContractFile item, registry_candidateRelativePath repoRoot (item_path item)]"

definition item_summary :: "LoadedInteractionContract \<Rightarrow> string" where
  "item_summary item =
     firstNonEmpty [trim_space (ct_Summary (lc_Contract item)), trim_space (mf_Summary (item_manifest item)),
                    mf_RealizationID (item_manifest item)]"

definition item_ref :: "string \<Rightarrow> LoadedInteractionContract \<Rightarrow> string \<Rightarrow> resolvedRef" where
  "item_ref repoRoot item ref = resolveContractRef repoRoot (item_path item) ref"

definition relation_entry ::
  "string \<Rightarrow> LoadedInteractionContract \<Rightarrow> InteractionRelation \<Rightarrow> CatalogRelation" where
  "relation_entry repoRoot item r =
     \<lparr>crel_Reference = loaded_reference item, crel_SeedID = item_seed item,
      crel_RealizationID = mf_RealizationID (item_manifest item),
      crel_Kind = trim_space (rel_Kind r), crel_Summary = trim_space (rel_Summary r),
      crel_FromKinds = rel_FromKinds r, crel_ToKinds = rel_ToKinds r,
      crel_Cardinality = trim_space (rel_Cardinality r),
      crel_Visibility = trim_space (rel_Visibility r),
      crel_SchemaRef = rr_Canonical (item_ref repoRoot item (rel_SchemaRef r)),
      crel_Capabilities = rel_Capabilities r,
      crel_Attributes = copyRelationAttributes (rel_Attributes r),
      crel_ContractFile = item_contract_file repoRoot item\<rparr>"

definition command_entry ::
  "string \<Rightarrow> LoadedInteractionContract \<Rightarrow> InteractionCommand \<Rightarrow> CatalogCommand" where
  "command_entry repoRoot item c =
     \<lparr>cc_Reference = loaded_reference item, cc_SeedID = item_seed item,
      cc_RealizationID = mf_RealizationID (item_manifest item),
      cc_Name = trim_space (cmd_Name c), cc_Summary = trim_space (cmd_Summary c),
      cc_Path = trim_space (cmd_Path c), cc_AuthModes = cmd_AuthModes c,
      cc_Capabilities = cmd_Capabilities c, cc_Idempotency = trim_space (cmd_Idempotency c),
      cc_InputSchemaRef = rr_Canonical (item_ref repoRoot item (cmd_InputSchemaRef c)),
      cc_ResultSchemaRef = rr_Canonical (item_ref repoRoot item (cmd_ResultSchemaRef c)),
      cc_Projection = trim_space (cmd_Projection c), cc_Consistency = trim_space (cmd_Consistency c),
      cc_ContractFile = item_contract_file repoRoot item\<rparr>"

definition projection_entry ::
  "string \<Rightarrow> LoadedInteractionContract \<Rightarrow> InteractionProjection \<Rightarrow> CatalogProjection" where
  "projection_entry repoRoot item p =
     \<lparr>cp_Reference = loaded_reference item, cp_SeedID = item_seed item,
      cp_RealizationID = mf_RealizationID (item_manifest item),
      cp_Name = trim_space (prj_Name p), cp_Summary = trim_space (prj_Summary p),
      cp_Path = trim_space (prj_Path p), cp_AuthModes = prj_AuthModes p,
      cp_Capabilities = prj_Capabilities p, cp_Freshness = trim_space (prj_Freshness p),
      cp_DataViews = copyDataViews (prj_DataViews p),
      cp_ContractFile = item_contract_file repoRoot item\<rparr>"

subsection \<open>The inner loops\<close>

definition object_step ::
  "string \<Rightarrow> LoadedInteractionContract \<Rightarrow> catalog_build \<Rightarrow> InteractionObject \<Rightarrow> catalog_build" where
  "object_step repoRoot item st object =
     (let ref = item_ref repoRoot item (obj_SchemaRef object);
          layout = copyDataLayout (obj_DataLayout object);
          realization =
            \<lparr>cor_Reference = loaded_reference item, cor_SeedID = item_seed item,
             cor_RealizationID = mf_RealizationID (item_manifest item),
             cor_ApproachID = mf_ApproachID (item_manifest item),
             cor_Summary = item_summary item, cor_Status = trim_space (mf_Status (item_manifest item)),
             cor_SurfaceKind = trim_space (SurfaceKind (lc_Contract item)),
             cor_ContractFile = item_contract_file repoRoot item,
             cor_SchemaRef = rr_Canonical ref, cor_Capabilities = obj_Capabilities object\<rparr>;
          schema_use =
            \<lparr>sou_Reference = loaded_reference item, sou_SeedID = item_seed item,
             sou_RealizationID = mf_RealizationID (item_manifest item),
             sou_Kind = obj_Kind object, sou_Summary = trim_space (obj_Summary object),
             sou_ContractFile = item_contract_file repoRoot item\<rparr>
      in use_schema ref (\<lambda>s. s\<lparr>csc_ObjectUses := csc_ObjectUses s @ [schema_use]\<rparr>)
           (ensureObject (item_seed item) (obj_Kind object)
              (\<lambda>d. d\<lparr>co_Summary :=
                      (if co_Summary d = [] then trim_space (obj_Summary object) else co_Summary d),
                    co_DataLayout :=
                      (if catalogDataLayoutIsEmpty (co_DataLayout d) \<and> \<not> catalogDataLayoutIsEmpty layout
                       then layout else co_DataLayout d),
                    co_Capabilities := addUnique (co_Capabilities d) (obj_Capabilities object),
                    co_SchemaRefs :=
                      (if rr_Canonical ref \<noteq> [] then addUnique (co_SchemaRefs d) [rr_Canonical ref]
                       else co_SchemaRefs d),
                    co_Realizations := co_Realizations d @ [realization]\<rparr>) st))"

definition on_kinds ::
  "string \<Rightarrow> (CatalogObject \<Rightarrow> CatalogObject) \<Rightarrow> string list \<Rightarrow> catalog_build \<Rightarrow> catalog_build" where
  "on_kinds seedID f kinds st = foldl (\<lambda>s kind. ensureObject seedID kind f s) st kinds"

definition relation_step ::
  "string \<Rightarrow> LoadedInteractionContract \<Rightarrow> catalog_build \<Rightarrow> InteractionRelation \<Rightarrow> catalog_build" where
  "relation_step repoRoot item st r =
     (let entry = relation_entry repoRoot item r in
      on_kinds (item_seed item)
        (\<lambda>d. d\<lparr>co_IncomingRelations := co_IncomingRelations d @ [entry]\<rparr>) (rel_ToKinds r)
        (on_kinds (item_seed item)
           (\<lambda>d. d\<lparr>co_OutgoingRelations := co_OutgoingRelations d @ [entry]\<rparr>) (rel_FromKinds r)
           (st\<lparr>cb_RelationCount := Suc (cb_RelationCount st)\<rparr>)))"

definition command_step ::
  "string \<Rightarrow> LoadedInteractionContract \<Rightarrow> catalog_build \<Rightarrow> InteractionCommand \<Rightarrow> catalog_build" where
  "command_step repoRoot item st c =
     (let inputRef = item_ref repoRoot item (cmd_InputSchemaRef c);
          resultRef = item_ref repoRoot item (cmd_ResultSchemaRef c);
          entry = command_entry repoRoot item c;
          schema_use =
            \<lparr>scu_Reference = loaded_reference item, scu_SeedID = item_seed item,
             scu_RealizationID = mf_RealizationID (item_manifest item),
             scu_Name = trim_space (cmd_Name c), scu_Summary = trim_space (cmd_Summary c),
             scu_Path = trim_space (cmd_Path c),
             scu_ContractFile = item_contract_file repoRoot item\<rparr>;
          st1 = on_kinds (item_seed item) (\<lambda>d. d\<lparr>co_Commands := co_Commands d @ [entry]\<rparr>)
                  (cmd_ObjectKinds c) st;
          st2 = st1\<lparr>cb_Commands := cb_Commands st1 @ [entry]\<rparr>
      in use_schema resultRef (\<lambda>s. s\<lparr>csc_CommandResults := csc_CommandResults s @ [schema_use]\<rparr>)
           (use_schema inputRef (\<lambda>s. s\<lparr>csc_CommandInputs := csc_CommandInputs s @ [schema_use]\<rparr>) st2))"

definition projection_step ::
  "string \<Rightarrow> LoadedInteractionContract \<Rightarrow> catalog_build \<Rightarrow> InteractionProjection \<Rightarrow> catalog_build"
where
  "projection_step repoRoot item st p =
     (let entry = projection_entry repoRoot item p;
          st1 = on_kinds (item_seed item) (\<lambda>d. d\<lparr>co_Projections := co_Projections d @ [entry]\<rparr>)
                  (prj_ObjectKinds p) st
      in st1\<lparr>cb_Projections := cb_Projections st1 @ [entry]\<rparr>)"

text \<open>The entry of the realization itself, with what the inner loops add to it.\<close>

definition realization_entry :: "string \<Rightarrow> LoadedInteractionContract \<Rightarrow> CatalogRealization" where
  "realization_entry repoRoot item =
     (let c = lc_Contract item; m = item_manifest item in
      \<lparr>cr_Reference = loaded_reference item, cr_SeedID = mf_SeedID m,
       cr_RealizationID = mf_RealizationID m, cr_ApproachID = mf_ApproachID m,
       cr_Summary = item_summary item, cr_Status = trim_space (mf_Status m),
       cr_SurfaceKind = trim_space (SurfaceKind c),
       cr_ContractFile = item_contract_file repoRoot item,
       cr_AuthModes = sort_strings (AuthModes c),
       cr_Capabilities = sort_strings (foldl (\<lambda>d x. addUnique d [cap_Name x]) [] (Capabilities c)),
       cr_ObjectKinds = sort_strings (foldl (\<lambda>d x. addUnique d [obj_Kind x]) [] (DomainObjects c)),
       cr_Relations = map (relation_entry repoRoot item) (DomainRelations c),
       cr_CommandNames =
         sort_strings (foldl (\<lambda>d x. addUnique d [trim_space (cmd_Name x)]) [] (Commands c)),
       cr_Projections =
         sort_strings (foldl (\<lambda>d x. addUnique d [trim_space (prj_Name x)]) [] (Projections c))\<rparr>)"

definition contract_step ::
  "string \<Rightarrow> catalog_build \<Rightarrow> LoadedInteractionContract \<Rightarrow> catalog_build" where
  "contract_step repoRoot st item =
     (let c = lc_Contract item;
          st0 = st\<lparr>cb_CommandCount := cb_CommandCount st + length (Commands c),
                   cb_ProjectionCount := cb_ProjectionCount st + length (Projections c)\<rparr>;
          st1 = foldl (object_step repoRoot item) st0 (DomainObjects c);
          st2 = foldl (relation_step repoRoot item) st1 (DomainRelations c);
          st3 = foldl (command_step repoRoot item) st2 (Commands c);
          st4 = foldl (projection_step repoRoot item) st3 (Projections c)
      in st4\<lparr>cb_Realizations := cb_Realizations st4 @ [realization_entry repoRoot item]\<rparr>)"

definition empty_build :: catalog_build where
  "empty_build =
     \<lparr>cb_Objects = [], cb_Schemas = [], cb_Realizations = [], cb_Commands = [], cb_Projections = [],
      cb_CommandCount = 0, cb_ProjectionCount = 0, cb_RelationCount = 0\<rparr>"

subsection \<open>Flattening and LoadCatalog\<close>

text \<open>References descending is the order of \<open>DescAsc\<close> with an empty minor key.\<close>

definition flattenRealizations :: "CatalogRealization list \<Rightarrow> CatalogRealization list" where
  "flattenRealizations items = sort_key (\<lambda>r. DescAsc (cr_Reference r) []) items"

definition flattenCommands :: "CatalogCommand list \<Rightarrow> CatalogCommand list" where
  "flattenCommands items = sort_key (\<lambda>c. DescAsc (cc_Reference c) (cc_Name c)) items"

definition flattenProjections :: "CatalogProjection list \<Rightarrow> CatalogProjection list" where
  "flattenProjections items = sort_key (\<lambda>p. DescAsc (cp_Reference p) (cp_Name p)) items"

definition flatten_object :: "CatalogObject \<Rightarrow> CatalogObject" where
  "flatten_object d =
     d\<lparr>co_Capabilities := sort_strings (co_Capabilities d),
       co_SchemaRefs := sort_strings (co_SchemaRefs d),
       co_Realizations := sort_key (\<lambda>r. DescAsc (cor_Reference r) []) (co_Realizations d),
       co_Commands := sort_key (\<lambda>c. DescAsc (cc_Reference c) (cc_Name c)) (co_Commands d),
       co_Projections := sort_key (\<lambda>p. DescAsc (cp_Reference p) (cp_Name p)) (co_Projections d)\<rparr>"

definition flattenObjects :: "(string \<times> CatalogObject) list \<Rightarrow> CatalogObject list" where
  "flattenObjects index =
     sort_key (\<lambda>d. DescAsc (co_SeedID d) (co_Kind d)) (map (\<lambda>e. flatten_object (snd e)) index)"

definition flatten_schema :: "CatalogSchema \<Rightarrow> CatalogSchema" where
  "flatten_schema s =
     s\<lparr>csc_ObjectUses := sort_key (\<lambda>u. DescAsc (sou_Reference u) (sou_Kind u)) (csc_ObjectUses s),
       csc_CommandInputs := sort_key (\<lambda>u. DescAsc (scu_Reference u) (scu_Name u)) (csc_CommandInputs s),
       csc_CommandResults :=
         sort_key (\<lambda>u. DescAsc (scu_Reference u) (scu_Name u)) (csc_CommandResults s)\<rparr>"

definition flattenSchemas :: "(string \<times> CatalogSchema) list \<Rightarrow> CatalogSchema list" where
  "flattenSchemas index =
     sort_key (\<lambda>s. DescAsc (csc_Ref s) []) (map (\<lambda>e. flatten_schema (snd e)) index)"

definition finish_catalog :: "nat \<Rightarrow> catalog_build \<Rightarrow> Catalog" where
  "finish_catalog n st =
     (let objects = flattenObjects (cb_Objects st); schemas = flattenSchemas (cb_Schemas st) in
      \<lparr>cat_Summary =
         \<lparr>su_Realizations = n, su_Contracts = n, su_Objects = length objects,
          su_Relations = cb_RelationCount st, su_Schemas = length schemas,
          su_Commands = cb_CommandCount st, su_Projections = cb_ProjectionCount st\<rparr>,
       cat_Realizations = flattenRealizations (cb_Realizations st),
       cat_Commands = flattenCommands (cb_Commands st),
       cat_Projections = flattenProjections (cb_Projections st),
       cat_Objects = objects, cat_Schemas = schemas\<rparr>)"

definition build_catalog :: "string \<Rightarrow> LoadedInteractionContract list \<Rightarrow> Catalog" where
  "build_catalog repoRoot contracts =
     finish_catalog (length contracts) (foldl (contract_step repoRoot) empty_build contracts)"

definition LoadCatalog ::
  "file_system \<Rightarrow> string option \<Rightarrow> (string \<Rightarrow> Manifest option) \<Rightarrow>
   (string \<Rightarrow> InteractionContract option) \<Rightarrow> string \<Rightarrow> discover_error + Catalog" where
  "LoadCatalog fs wd parseManifest parse repoRoot =
     and_then (DiscoverContracts fs wd parseManifest parse repoRoot)
       (\<lambda>contracts. Inr (build_catalog repoRoot contracts))"

end
