(* ===== verification/Registry_Queries.thy ===== *)
theory Registry_Queries
  imports Registry_Catalog
begin

text \<open>
  The lookups and filters of internal/registry/catalog.go and the reader of catalog_reader.go,
  which loads the catalog afresh for every call.
\<close>

subsection \<open>Lookups\<close>

definition GetObject :: "Catalog \<Rightarrow> string \<Rightarrow> string \<Rightarrow> CatalogObject option" where
  "GetObject catalog seedID kind =
     find (\<lambda>x. co_SeedID x = trim_space seedID \<and> co_Kind x = trim_space kind) (cat_Objects catalog)"

definition GetSchema :: "Catalog \<Rightarrow> string \<Rightarrow> CatalogSchema option" where
  "GetSchema catalog ref = find (\<lambda>x. csc_Ref x = trim_space ref) (cat_Schemas catalog)"

definition GetRealization :: "Catalog \<Rightarrow> string \<Rightarrow> CatalogRealization option" where
  "GetRealization catalog reference =
     find (\<lambda>x. cr_Reference x = trim_space reference) (cat_Realizations catalog)"

definition GetCommand :: "Catalog \<Rightarrow> string \<Rightarrow> string \<Rightarrow> CatalogCommand option" where
  "GetCommand catalog reference name =
     find (\<lambda>x. cc_Reference x = trim_space reference \<and> cc_Name x = trim_space name)
       (cat_Commands catalog)"

definition GetProjection :: "Catalog \<Rightarrow> string \<Rightarrow> string \<Rightarrow> CatalogProjection option" where
  "GetProjection catalog reference name =
     find (\<lambda>x. cp_Reference x = trim_space reference \<and> cp_Name x = trim_space name)
       (cat_Projections catalog)"

subsection \<open>Queries\<close>

definition containsFold :: "string \<Rightarrow> string \<Rightarrow> bool" where
  "containsFold text query = str_contains (to_lower text) (to_lower query)"

definition any_fold :: "string \<Rightarrow> string list \<Rightarrow> bool" where
  "any_fold query candidates = list_ex (\<lambda>x. containsFold x query) candidates"

definition matchesObjectQuery :: "CatalogObject \<Rightarrow> string \<Rightarrow> bool" where
  "matchesObjectQuery item query \<longleftrightarrow>
     any_fold query [co_SeedID item, co_Kind item, co_Summary item] \<or>
     any_fold query (co_SchemaRefs item) \<or> any_fold query (co_Capabilities item) \<or>
     list_ex (\<lambda>r. any_fold query [crel_Kind r, crel_Summary r, crel_Cardinality r, crel_Visibility r,
                    crel_SchemaRef r] \<or> any_fold query (crel_FromKinds r @ crel_ToKinds r))
       (co_OutgoingRelations item @ co_IncomingRelations item)"

definition matchesSchemaQuery :: "CatalogSchema \<Rightarrow> string \<Rightarrow> bool" where
  "matchesSchemaQuery item query \<longleftrightarrow>
     any_fold query [csc_Ref item, csc_Path item, csc_Anchor item] \<or>
     list_ex (\<lambda>u. any_fold query [sou_SeedID u, sou_Kind u, sou_Summary u]) (csc_ObjectUses item) \<or>
     list_ex (\<lambda>u. any_fold query [scu_SeedID u, scu_Name u, scu_Path u, scu_Summary u])
       (csc_CommandInputs item @ csc_CommandResults item)"

definition matchesRealizationQuery :: "CatalogRealization \<Rightarrow> string \<Rightarrow> bool" where
  "matchesRealizationQuery item query \<longleftrightarrow>
     any_fold query [cr_Reference item, cr_SeedID item, cr_RealizationID item, cr_Summary item,
                     cr_SurfaceKind item, cr_Status item] \<or>
     any_fold query (cr_ObjectKinds item) \<or>
     list_ex (\<lambda>r. any_fold query [crel_Kind r, crel_Summary r, crel_Cardinality r, crel_Visibility r])
       (cr_Relations item) \<or>
     any_fold query (cr_CommandNames item) \<or> any_fold query (cr_Projections item)"

definition matchesCommandQuery :: "CatalogCommand \<Rightarrow> string \<Rightarrow> bool" where
  "matchesCommandQuery item query =
     any_fold query [cc_Reference item, cc_SeedID item, cc_Name item, cc_Summary item, cc_Path item,
                     cc_InputSchemaRef item, cc_ResultSchemaRef item, cc_Projection item,
                     cc_Consistency item]"

definition matchesProjectionQuery :: "CatalogProjection \<Rightarrow> string \<Rightarrow> bool" where
  "matchesProjectionQuery item query =
     any_fold query [cp_Reference item, cp_SeedID item, cp_Name item, cp_Summary item, cp_Path item,
                     cp_Freshness item]"

definition schemaHasSeed :: "CatalogSchema \<Rightarrow> string \<Rightarrow> bool" where
  "schemaHasSeed item seedID \<longleftrightarrow>
     list_ex (\<lambda>u. sou_SeedID u = seedID) (csc_ObjectUses item) \<or>
     list_ex (\<lambda>u. scu_SeedID u = seedID) (csc_CommandInputs item) \<or>
     list_ex (\<lambda>u. scu_SeedID u = seedID) (csc_CommandResults item)"

subsection \<open>Filters\<close>

text \<open>\<open>if q != "" && !test { continue }\<close>: an empty criterion lets everything through.\<close>

definition passes :: "string \<Rightarrow> (string \<Rightarrow> bool) \<Rightarrow> bool" where
  "passes q test \<longleftrightarrow> \<not> (q \<noteq> [] \<and> \<not> test q)"

definition FilterObjects ::
  "CatalogObject list \<Rightarrow> string \<Rightarrow> string \<Rightarrow> string \<Rightarrow> CatalogObject list" where
  "FilterObjects items seedID schemaRef query =
     filter (\<lambda>x. passes (trim_space seedID) (\<lambda>s. co_SeedID x = s) \<and>
                 passes (trim_space schemaRef) (\<lambda>r. r \<in> set (co_SchemaRefs x)) \<and>
                 passes (trim_space query) (matchesObjectQuery x)) items"

definition FilterSchemas :: "CatalogSchema list \<Rightarrow> string \<Rightarrow> string \<Rightarrow> CatalogSchema list" where
  "FilterSchemas items seedID query =
     filter (\<lambda>x. passes (trim_space seedID) (schemaHasSeed x) \<and>
                 passes (trim_space query) (matchesSchemaQuery x)) items"

definition FilterRealizations ::
  "CatalogRealization list \<Rightarrow> string \<Rightarrow> string \<Rightarrow> CatalogRealization list" where
  "FilterRealizations items seedID query =
     filter (\<lambda>x. passes (trim_space seedID) (\<lambda>s. cr_SeedID x = s) \<and>
                 passes (trim_space query) (matchesRealizationQuery x)) items"

definition FilterCommands ::
  "CatalogCommand list \<Rightarrow> string \<Rightarrow> string \<Rightarrow> string \<Rightarrow> CatalogCommand list" where
  "FilterCommands items seedID reference query =
     filter (\<lambda>x. passes (trim_space seedID) (\<lambda>s. cc_SeedID x = s) \<and>
                 passes (trim_space reference) (\<lambda>r. cc_Reference x = r) \<and>
                 passes (trim_space query) (matchesCommandQuery x)) items"

definition FilterProjections ::
  "CatalogProjection list \<Rightarrow> string \<Rightarrow> string \<Rightarrow> string \<Rightarrow> CatalogProjection list" where
  "FilterProjections items seedID reference query =
     filter (\<lambda>x. passes (trim_space seedID) (\<lambda>s. cp_SeedID x = s) \<and>
                 passes (trim_space reference) (\<lambda>r. cp_Reference x = r) \<and>
                 passes (trim_space query) (matchesProjectionQuery x)) items"

subsection \<open>CatalogReader\<close>

datatype reader_error =
    CatalogFailed discover_error
  | ErrCatalogObjectNotFound
  | ErrCatalogSchemaNotFound
  | ErrCatalogRealizationNotFound
  | ErrCatalogCommandNotFound
  | ErrCatalogProjectionNotFound

type_synonym catalog_loader = "string \<Rightarrow> discover_error + Catalog"

record CatalogReader = rd_RepoRoot :: string

definition NewCatalogReader :: "string \<Rightarrow> CatalogReader" where
  "NewCatalogReader repoRoot = \<lparr>rd_RepoRoot = trim_space repoRoot\<rparr>"

text \<open>Every read starts from \<open>r.Catalog()\<close>; a lookup that finds nothing is its own error.\<close>

definition read_list ::
  "catalog_loader \<Rightarrow> CatalogReader \<Rightarrow> (Catalog \<Rightarrow> 'a list) \<Rightarrow> reader_error + 'a list" where
  "read_list load r f =
     (case load (rd_RepoRoot r) of Inl e \<Rightarrow> Inl (CatalogFailed e) | Inr c \<Rightarrow> Inr (f c))"

definition read_one ::
  "catalog_loader \<Rightarrow> CatalogReader \<Rightarrow> reader_error \<Rightarrow> (Catalog \<Rightarrow> 'a option) \<Rightarrow> reader_error + 'a"
where
  "read_one load r missing f =
     (case load (rd_RepoRoot r) of
        Inl e \<Rightarrow> Inl (CatalogFailed e)
      | Inr c \<Rightarrow> (case f c of None \<Rightarrow> Inl missing | Some x \<Rightarrow> Inr x))"

definition Reader_ListObjects where
  "Reader_ListObjects load r seedID schemaRef query =
     read_list load r (\<lambda>c. FilterObjects (cat_Objects c) seedID schemaRef query)"

definition Reader_ListRealizations where
  "Reader_ListRealizations load r seedID query =
     read_list load r (\<lambda>c. FilterRealizations (cat_Realizations c) seedID query)"

definition Reader_ListSchemas where
  "Reader_ListSchemas load r seedID query =
     read_list load r (\<lambda>c. FilterSchemas (cat_Schemas c) seedID query)"

definition Reader_ListCommands where
  "Reader_ListCommands load r seedID reference query =
     read_list load r (\<lambda>c. FilterCommands (cat_Commands c) seedID reference query)"

definition Reader_ListProjections where
  "Reader_ListProjections load r seedID reference query =
     read_list load r (\<lambda>c. FilterProjections (cat_Projections c) seedID reference query)"

definition Reader_GetRealization where
  "Reader_GetRealization load r reference =
     read_one load r ErrCatalogRealizationNotFound (\<lambda>c. GetRealization c reference)"

definition Reader_GetObject where
  "Reader_GetObject load r seedID kind =
     read_one load r ErrCatalogObjectNotFound (\<lambda>c. GetObject c seedID kind)"

definition Reader_GetSchema where
  "Reader_GetSchema load r ref = read_one load r ErrCatalogSchemaNotFound (\<lambda>c. GetSchema c ref)"

definition Reader_GetCommand where
  "Reader_GetCommand load r reference name =
     read_one load r ErrCatalogCommandNotFound (\<lambda>c. GetCommand c reference name)"

definition Reader_GetProjection where
  "Reader_GetProjection load r reference name =
     read_one load r ErrCatalogProjectionNotFound (\<lambda>c. GetProjection c reference name)"

end
