(* ===== verification/Registry_Properties.thy ===== *)
theory Registry_Properties
  imports Registry_Queries
begin

text \<open>
  What the catalog promises about the accepted contracts: complete and sorted listings, counts
  that match them, objects that are declared, lookups that find what was declared, schema paths
  that name the file the validator resolved.
\<close>

named_theorems build_frame \<open>what a step of the catalog loop leaves alone or adds\<close>

subsection \<open>What the steps do to the listings\<close>

lemma ensureObject_frame [build_frame]:
  "cb_Schemas (ensureObject s k f st) = cb_Schemas st"
  "cb_Realizations (ensureObject s k f st) = cb_Realizations st"
  "cb_Commands (ensureObject s k f st) = cb_Commands st"
  "cb_Projections (ensureObject s k f st) = cb_Projections st"
  "cb_CommandCount (ensureObject s k f st) = cb_CommandCount st"
  "cb_ProjectionCount (ensureObject s k f st) = cb_ProjectionCount st"
  "cb_RelationCount (ensureObject s k f st) = cb_RelationCount st"
  by (simp_all add: ensureObject_def)

lemma use_schema_frame [build_frame]:
  "cb_Objects (use_schema r f st) = cb_Objects st"
  "cb_Realizations (use_schema r f st) = cb_Realizations st"
  "cb_Commands (use_schema r f st) = cb_Commands st"
  "cb_Projections (use_schema r f st) = cb_Projections st"
  "cb_CommandCount (use_schema r f st) = cb_CommandCount st"
  "cb_ProjectionCount (use_schema r f st) = cb_ProjectionCount st"
  "cb_RelationCount (use_schema r f st) = cb_RelationCount st"
  by (simp_all add: use_schema_def ensureSchema_def)

lemma on_kinds_frame [build_frame]:
  "cb_Schemas (on_kinds s f ks st) = cb_Schemas st"
  "cb_Realizations (on_kinds s f ks st) = cb_Realizations st"
  "cb_Commands (on_kinds s f ks st) = cb_Commands st"
  "cb_Projections (on_kinds s f ks st) = cb_Projections st"
  "cb_CommandCount (on_kinds s f ks st) = cb_CommandCount st"
  "cb_ProjectionCount (on_kinds s f ks st) = cb_ProjectionCount st"
  "cb_RelationCount (on_kinds s f ks st) = cb_RelationCount st"
  by (simp_all add: on_kinds_def foldl_field_id build_frame)

lemma steps_commands [build_frame]:
  "cb_Commands (object_step root item st x) = cb_Commands st"
  "cb_Commands (relation_step root item st r) = cb_Commands st"
  "cb_Commands (command_step root item st c) = cb_Commands st @ [command_entry root item c]"
  "cb_Commands (projection_step root item st p) = cb_Commands st"
  by (simp_all add: object_step_def relation_step_def command_step_def projection_step_def Let_def
      build_frame)

lemma steps_projections [build_frame]:
  "cb_Projections (object_step root item st x) = cb_Projections st"
  "cb_Projections (relation_step root item st r) = cb_Projections st"
  "cb_Projections (command_step root item st c) = cb_Projections st"
  "cb_Projections (projection_step root item st p) = cb_Projections st @ [projection_entry root item p]"
  by (simp_all add: object_step_def relation_step_def command_step_def projection_step_def Let_def
      build_frame)

lemma steps_realizations [build_frame]:
  "cb_Realizations (object_step root item st x) = cb_Realizations st"
  "cb_Realizations (relation_step root item st r) = cb_Realizations st"
  "cb_Realizations (command_step root item st c) = cb_Realizations st"
  "cb_Realizations (projection_step root item st p) = cb_Realizations st"
  by (simp_all add: object_step_def relation_step_def command_step_def projection_step_def Let_def
      build_frame)

lemma steps_counts [build_frame]:
  "cb_CommandCount (object_step root item st x) = cb_CommandCount st"
  "cb_CommandCount (relation_step root item st r) = cb_CommandCount st"
  "cb_CommandCount (command_step root item st c) = cb_CommandCount st"
  "cb_CommandCount (projection_step root item st p) = cb_CommandCount st"
  "cb_ProjectionCount (object_step root item st x) = cb_ProjectionCount st"
  "cb_ProjectionCount (relation_step root item st r) = cb_ProjectionCount st"
  "cb_ProjectionCount (command_step root item st c) = cb_ProjectionCount st"
  "cb_ProjectionCount (projection_step root item st p) = cb_ProjectionCount st"
  "cb_RelationCount (object_step root item st x) = cb_RelationCount st"
  "cb_RelationCount (relation_step root item st r) = cb_RelationCount st + 1"
  "cb_RelationCount (command_step root item st c) = cb_RelationCount st"
  "cb_RelationCount (projection_step root item st p) = cb_RelationCount st"
  by (simp_all add: object_step_def relation_step_def command_step_def projection_step_def Let_def
      build_frame)

lemma concat_singletons: "concat (map (\<lambda>x. [f x]) xs) = map f xs"
  by (induction xs) auto

lemma contract_step_fields:
  "cb_Commands (contract_step root st item) =
     cb_Commands st @ map (command_entry root item) (Commands (lc_Contract item))"
  "cb_Projections (contract_step root st item) =
     cb_Projections st @ map (projection_entry root item) (Projections (lc_Contract item))"
  "cb_Realizations (contract_step root st item) =
     cb_Realizations st @ [realization_entry root item]"
  "cb_CommandCount (contract_step root st item) =
     cb_CommandCount st + length (Commands (lc_Contract item))"
  "cb_ProjectionCount (contract_step root st item) =
     cb_ProjectionCount st + length (Projections (lc_Contract item))"
  "cb_RelationCount (contract_step root st item) =
     cb_RelationCount st + length (DomainRelations (lc_Contract item))"
  by (simp_all add: contract_step_def Let_def build_frame concat_singletons
      foldl_field_id [where g = cb_Commands] foldl_field_id [where g = cb_Projections]
      foldl_field_id [where g = cb_Realizations] foldl_field_id [where g = cb_CommandCount]
      foldl_field_id [where g = cb_ProjectionCount] foldl_field_id [where g = cb_RelationCount]
      foldl_field_append [where g = cb_Commands and h = "\<lambda>c. [command_entry root item c]"]
      foldl_field_append [where g = cb_Projections and h = "\<lambda>c. [projection_entry root item c]"]
      foldl_field_add [where g = cb_RelationCount and h = "\<lambda>_. 1"] sum_list_triv)

definition built :: "string \<Rightarrow> LoadedInteractionContract list \<Rightarrow> catalog_build" where
  "built root cs = foldl (contract_step root) empty_build cs"

lemma built_listings:
  "cb_Commands (built root cs) =
     concat (map (\<lambda>i. map (command_entry root i) (Commands (lc_Contract i))) cs)"
  "cb_Projections (built root cs) =
     concat (map (\<lambda>i. map (projection_entry root i) (Projections (lc_Contract i))) cs)"
  "cb_Realizations (built root cs) = map (realization_entry root) cs"
  "cb_CommandCount (built root cs) = sum_list (map (\<lambda>i. length (Commands (lc_Contract i))) cs)"
  "cb_ProjectionCount (built root cs) = sum_list (map (\<lambda>i. length (Projections (lc_Contract i))) cs)"
  "cb_RelationCount (built root cs) = sum_list (map (\<lambda>i. length (DomainRelations (lc_Contract i))) cs)"
  unfolding built_def
  by (simp_all add: empty_build_def concat_singletons
      foldl_field_append [where g = cb_Commands, OF contract_step_fields(1)]
      foldl_field_append [where g = cb_Projections, OF contract_step_fields(2)]
      foldl_field_append [where g = cb_Realizations, OF contract_step_fields(3)]
      foldl_field_add [where g = cb_CommandCount, OF contract_step_fields(4)]
      foldl_field_add [where g = cb_ProjectionCount, OF contract_step_fields(5)]
      foldl_field_add [where g = cb_RelationCount, OF contract_step_fields(6)])

lemma build_catalog_fields:
  "cat_Commands (build_catalog root cs) = flattenCommands (cb_Commands (built root cs))"
  "cat_Projections (build_catalog root cs) = flattenProjections (cb_Projections (built root cs))"
  "cat_Realizations (build_catalog root cs) = flattenRealizations (cb_Realizations (built root cs))"
  "cat_Objects (build_catalog root cs) = flattenObjects (cb_Objects (built root cs))"
  "cat_Schemas (build_catalog root cs) = flattenSchemas (cb_Schemas (built root cs))"
  by (simp_all add: build_catalog_def finish_catalog_def built_def Let_def)

lemma LoadCatalog_Inr:
  "LoadCatalog fs wd pm p root = Inr cat \<longleftrightarrow>
     (\<exists>cs. DiscoverContracts fs wd pm p root = Inr cs \<and> cat = build_catalog root cs)"
  by (auto simp: LoadCatalog_def)

subsection \<open>The object index\<close>

definition okeys :: "catalog_build \<Rightarrow> string set" where
  "okeys st = fst ` set (cb_Objects st)"

definition objects_inv :: "(string \<Rightarrow> CatalogObject \<Rightarrow> bool) \<Rightarrow> catalog_build \<Rightarrow> bool" where
  "objects_inv P st \<longleftrightarrow> (\<forall>e\<in>set (cb_Objects st). P (fst e) (snd e))"

text \<open>The kinds a contract mentions, as it writes them.\<close>

definition mentioned :: "LoadedInteractionContract \<Rightarrow> string set" where
  "mentioned item =
     (let c = lc_Contract item in
      obj_Kind ` set (DomainObjects c) \<union>
      (\<Union>r\<in>set (DomainRelations c). set (rel_FromKinds r) \<union> set (rel_ToKinds r)) \<union>
      (\<Union>x\<in>set (Commands c). set (cmd_ObjectKinds x)) \<union>
      (\<Union>p\<in>set (Projections c). set (prj_ObjectKinds p)))"

lemma okeys_ensureObject [simp]:
  "okeys (ensureObject s k f st) = insert (object_key s k) (okeys st)"
  by (simp add: okeys_def ensureObject_def keys_upsert)

lemma okeys_cong: "cb_Objects st' = cb_Objects st \<Longrightarrow> okeys st' = okeys st"
  by (simp add: okeys_def)

lemma objects_inv_cong: "cb_Objects st' = cb_Objects st \<Longrightarrow> objects_inv P st' = objects_inv P st"
  by (simp add: objects_inv_def)

lemma okeys_use_schema [simp]: "okeys (use_schema r f st) = okeys st"
  by (simp add: okeys_def build_frame)

lemma objects_inv_use_schema [simp]: "objects_inv P (use_schema r f st) = objects_inv P st"
  by (simp add: objects_inv_def build_frame)

lemma field_updates_frame [simp]:
  "okeys (st\<lparr>cb_Commands := x\<rparr>) = okeys st" "okeys (st\<lparr>cb_Projections := y\<rparr>) = okeys st"
  "okeys (st\<lparr>cb_Realizations := z\<rparr>) = okeys st" "okeys (st\<lparr>cb_RelationCount := n\<rparr>) = okeys st"
  "okeys (st\<lparr>cb_CommandCount := n, cb_ProjectionCount := m\<rparr>) = okeys st"
  "objects_inv P (st\<lparr>cb_Commands := x\<rparr>) = objects_inv P st"
  "objects_inv P (st\<lparr>cb_Projections := y\<rparr>) = objects_inv P st"
  "objects_inv P (st\<lparr>cb_Realizations := z\<rparr>) = objects_inv P st"
  "objects_inv P (st\<lparr>cb_RelationCount := n\<rparr>) = objects_inv P st"
  "objects_inv P (st\<lparr>cb_CommandCount := n, cb_ProjectionCount := m\<rparr>) = objects_inv P st"
  by (simp_all add: okeys_def objects_inv_def)

lemma okeys_on_kinds [simp]: "okeys (on_kinds s f ks st) = okeys st \<union> object_key s ` set ks"
  unfolding on_kinds_def
  using foldl_field_union [where g = okeys and step = "\<lambda>st k. ensureObject s k f st" and
      h = "\<lambda>k. {object_key s k}"] by auto

lemma okeys_steps:
  "okeys (object_step root item st x) = okeys st \<union> {object_key (item_seed item) (obj_Kind x)}"
  "okeys (relation_step root item st r) =
     okeys st \<union> object_key (item_seed item) ` (set (rel_FromKinds r) \<union> set (rel_ToKinds r))"
  "okeys (command_step root item st c) =
     okeys st \<union> object_key (item_seed item) ` set (cmd_ObjectKinds c)"
  "okeys (projection_step root item st p) =
     okeys st \<union> object_key (item_seed item) ` set (prj_ObjectKinds p)"
  by (auto simp: object_step_def relation_step_def command_step_def projection_step_def Let_def)

lemma okeys_contract_step:
  "okeys (contract_step root st item) = okeys st \<union> object_key (item_seed item) ` mentioned item"
  unfolding contract_step_def Let_def mentioned_def
  by (simp add: okeys_steps [THEN foldl_field_union [where g = okeys]] image_Un image_UN Un_assoc)
     auto

lemma okeys_built:
  "okeys (built root cs) = (\<Union>i\<in>set cs. object_key (item_seed i) ` mentioned i)"
  unfolding built_def
  by (simp add: foldl_field_union [where g = okeys, OF okeys_contract_step])
     (simp add: okeys_def empty_build_def)

lemma distinct_ensureObject:
  "distinct (map fst (cb_Objects st)) \<Longrightarrow> distinct (map fst (cb_Objects (ensureObject s k f st)))"
  by (simp add: ensureObject_def distinct_upsert)

lemma ensureObject_inv:
  assumes "objects_inv P st"
    and "object_key s k \<notin> okeys st \<Longrightarrow> P (object_key s k) (f (new_object s k))"
    and "\<And>d. P (object_key s k) d \<Longrightarrow> P (object_key s k) (f d)"
  shows "objects_inv P (ensureObject s k f st)"
proof -
  have "\<forall>e\<in>set (upsert (object_key s k) (new_object s k) f (cb_Objects st)). P (fst e) (snd e)"
    by (rule upsert_inv) (use assms in \<open>auto simp: objects_inv_def okeys_def\<close>)
  then show ?thesis by (simp add: objects_inv_def ensureObject_def)
qed

lemma on_kinds_inv:
  assumes "objects_inv P st"
    and "\<And>k. k \<in> set ks \<Longrightarrow> object_key s k \<notin> okeys st \<Longrightarrow> P (object_key s k) (f (new_object s k))"
    and "\<And>k d. k \<in> set ks \<Longrightarrow> P (object_key s k) d \<Longrightarrow> P (object_key s k) (f d)"
  shows "objects_inv P (on_kinds s f ks st)"
  unfolding on_kinds_def using assms
proof (induction ks arbitrary: st)
  case (Cons k ks)
  have "objects_inv P (ensureObject s k f st)"
    using Cons.prems by (intro ensureObject_inv) auto
  then have "objects_inv P (foldl (\<lambda>st k. ensureObject s k f st) (ensureObject s k f st) ks)"
    by (rule Cons.IH) (use Cons.prems in auto)
  then show ?case by simp
qed simp

text \<open>An invariant that looks only at the identity of an object holds throughout if it holds for
  every mentioned kind's fresh entry.\<close>

lemma contract_step_ident:
  assumes keep: "\<And>k d d'. P k d \<Longrightarrow> co_SeedID d' = co_SeedID d \<Longrightarrow> co_Kind d' = co_Kind d \<Longrightarrow> P k d'"
    and new: "\<And>kind. kind \<in> mentioned item \<Longrightarrow>
      P (object_key (item_seed item) kind) (new_object (item_seed item) kind)"
    and "objects_inv P st"
  shows "objects_inv P (contract_step root st item)"
proof -
  have new': "P (object_key (item_seed item) kind) (f (new_object (item_seed item) kind))"
    if "kind \<in> mentioned item" "\<And>d. co_SeedID (f d) = co_SeedID d \<and> co_Kind (f d) = co_Kind d" for kind f
    by (rule keep [OF new [OF that(1)]]) (simp_all add: that(2))
  have o: "objects_inv P (object_step root item st x)" if "objects_inv P st" "x \<in> set (DomainObjects (lc_Contract item))" for st x
    unfolding object_step_def Let_def objects_inv_use_schema
    by (rule ensureObject_inv [OF that(1) new'], use that(2) in \<open>force simp: mentioned_def Let_def\<close>, simp,
        erule keep, simp_all)
  have r: "objects_inv P (relation_step root item st x)" if "objects_inv P st" "x \<in> set (DomainRelations (lc_Contract item))" for st x
    unfolding relation_step_def Let_def
    by (rule on_kinds_inv [OF on_kinds_inv], simp add: that(1), rule new',
        use that(2) in \<open>force simp: mentioned_def Let_def\<close>, simp, erule keep, simp, simp, rule new',
        use that(2) in \<open>force simp: mentioned_def Let_def\<close>, simp, erule keep, simp, simp)
  have c: "objects_inv P (command_step root item st x)" if "objects_inv P st" "x \<in> set (Commands (lc_Contract item))" for st x
    unfolding command_step_def Let_def objects_inv_use_schema field_updates_frame
    by (rule on_kinds_inv, simp add: that(1), rule new',
        use that(2) in \<open>force simp: mentioned_def Let_def\<close>, simp, erule keep, simp, simp)
  have p: "objects_inv P (projection_step root item st x)" if "objects_inv P st" "x \<in> set (Projections (lc_Contract item))" for st x
    unfolding projection_step_def Let_def field_updates_frame
    by (rule on_kinds_inv, simp add: that(1), rule new',
        use that(2) in \<open>force simp: mentioned_def Let_def\<close>, simp, erule keep, simp, simp)
  show ?thesis
    unfolding contract_step_def Let_def field_updates_frame
    by (rule foldl_inv [where I = "objects_inv P", OF foldl_inv [where I = "objects_inv P", OF
          foldl_inv [where I = "objects_inv P", OF foldl_inv [where I = "objects_inv P", OF _ o] r] c] p])
       (simp_all add: assms(3))
qed

lemma built_ident:
  "e \<in> set (cb_Objects (built root cs)) \<Longrightarrow>
   \<exists>i\<in>set cs. \<exists>kind\<in>mentioned i. fst e = object_key (item_seed i) kind \<and>
     co_SeedID (snd e) = trim_space (item_seed i) \<and> co_Kind (snd e) = trim_space kind"
proof -
  let ?P = "\<lambda>k d. \<exists>i\<in>set cs. \<exists>kind\<in>mentioned i. k = object_key (item_seed i) kind \<and>
     co_SeedID d = trim_space (item_seed i) \<and> co_Kind d = trim_space kind"
  have "objects_inv ?P (built root cs)"
    unfolding built_def
  proof (rule foldl_inv)
    show "objects_inv ?P empty_build" by (simp add: objects_inv_def empty_build_def)
    show "objects_inv ?P (contract_step root st item)"
      if "item \<in> set cs" "objects_inv ?P st" for st item
      by (rule contract_step_ident [OF _ _ that(2)])
         (use that(1) in \<open>auto simp: new_object_def\<close>)
  qed
  then show "e \<in> set (cb_Objects (built root cs)) \<Longrightarrow> ?thesis" by (simp add: objects_inv_def)
qed

text \<open>A contract all of whose mentioned kinds are written without padding and declared gives
  every object at least one realization.\<close>

definition has_realization :: "string \<Rightarrow> CatalogObject \<Rightarrow> bool" where
  "has_realization k d \<longleftrightarrow> co_Realizations d \<noteq> []"

lemma object_step_realization:
  "objects_inv has_realization st \<Longrightarrow> objects_inv has_realization (object_step root item st x)"
  unfolding object_step_def Let_def objects_inv_use_schema
  by (erule ensureObject_inv) (simp_all add: has_realization_def)

definition declares :: "LoadedInteractionContract \<Rightarrow> catalog_build \<Rightarrow> bool" where
  "declares item st \<longleftrightarrow>
     objects_inv has_realization st \<and> object_key (item_seed item) ` mentioned item \<subseteq> okeys st"

lemma declares_steps:
  "r \<in> set (DomainRelations (lc_Contract item)) \<Longrightarrow> declares item st \<Longrightarrow>
     declares item (relation_step root item st r)"
  "c \<in> set (Commands (lc_Contract item)) \<Longrightarrow> declares item st \<Longrightarrow>
     declares item (command_step root item st c)"
  "p \<in> set (Projections (lc_Contract item)) \<Longrightarrow> declares item st \<Longrightarrow>
     declares item (projection_step root item st p)"
proof -
  have on: "objects_inv has_realization (on_kinds (item_seed item) f ks st)"
    if "objects_inv has_realization st" "set ks \<subseteq> mentioned item"
      "object_key (item_seed item) ` mentioned item \<subseteq> okeys st"
      "\<And>d. co_Realizations (f d) = co_Realizations d" for f ks st
    by (rule on_kinds_inv [OF that(1)]) (use that in \<open>auto simp: has_realization_def\<close>)
  show "declares item (relation_step root item st r)"
    if "r \<in> set (DomainRelations (lc_Contract item))" "declares item st"
  proof -
    have "set (rel_FromKinds r) \<subseteq> mentioned item" "set (rel_ToKinds r) \<subseteq> mentioned item"
      using that(1) by (auto simp: mentioned_def Let_def)
    with that(2) show ?thesis
      unfolding declares_def okeys_steps unfolding relation_step_def Let_def
      by (auto intro!: on)
  qed
  show "declares item (command_step root item st c)"
    if "c \<in> set (Commands (lc_Contract item))" "declares item st"
  proof -
    have "set (cmd_ObjectKinds c) \<subseteq> mentioned item"
      using that(1) by (auto simp: mentioned_def Let_def)
    with that(2) show ?thesis
      unfolding declares_def okeys_steps unfolding command_step_def Let_def
      by (auto intro!: on)
  qed
  show "declares item (projection_step root item st p)"
    if "p \<in> set (Projections (lc_Contract item))" "declares item st"
  proof -
    have "set (prj_ObjectKinds p) \<subseteq> mentioned item"
      using that(1) by (auto simp: mentioned_def Let_def)
    with that(2) show ?thesis
      unfolding declares_def okeys_steps unfolding projection_step_def Let_def
      by (auto intro!: on)
  qed
qed

lemma declares_foldl:
  "(\<And>st x. x \<in> set xs \<Longrightarrow> declares item st \<Longrightarrow> declares item (step st x)) \<Longrightarrow>
   declares item st \<Longrightarrow> declares item (foldl step st xs)"
  by (rule foldl_inv [where I = "declares item"])

lemma contract_step_realization:
  assumes "objects_inv has_realization st"
    and "mentioned item \<subseteq> obj_Kind ` set (DomainObjects (lc_Contract item))"
  shows "objects_inv has_realization (contract_step root st item)"
proof -
  let ?st = "foldl (object_step root item)
      (st\<lparr>cb_CommandCount := cb_CommandCount st + length (Commands (lc_Contract item)),
          cb_ProjectionCount := cb_ProjectionCount st + length (Projections (lc_Contract item))\<rparr>)
      (DomainObjects (lc_Contract item))"
  have "objects_inv has_realization ?st"
    by (rule foldl_inv [where I = "objects_inv has_realization"])
       (simp_all add: assms(1) object_step_realization)
  moreover have "object_key (item_seed item) ` mentioned item \<subseteq> okeys ?st"
    using assms(2) by (auto simp: okeys_steps(1) [THEN foldl_field_union [where g = okeys]])
  ultimately have "declares item ?st" by (simp add: declares_def)
  then have "declares item (contract_step root st item)"
    unfolding contract_step_def Let_def declares_def [of _ "_\<lparr>cb_Realizations := _\<rparr>"]
      field_updates_frame unfolding declares_def [symmetric]
    by (intro declares_foldl [OF declares_steps(3)] declares_foldl [OF declares_steps(2)]
        declares_foldl [OF declares_steps(1)])
  then show ?thesis by (simp add: declares_def)
qed

lemma built_realization:
  assumes "\<And>i. i \<in> set cs \<Longrightarrow> mentioned i \<subseteq> obj_Kind ` set (DomainObjects (lc_Contract i))"
  shows "objects_inv has_realization (built root cs)"
  unfolding built_def
  by (rule foldl_inv [where I = "objects_inv has_realization"])
     (simp_all add: contract_step_realization assms, simp add: objects_inv_def empty_build_def)

definition keys_distinct :: "catalog_build \<Rightarrow> bool" where
  "keys_distinct st \<longleftrightarrow> distinct (map fst (cb_Objects st))"

lemma keys_distinct_foldl:
  "keys_distinct st \<Longrightarrow> (\<And>st x. keys_distinct st \<Longrightarrow> keys_distinct (step st x)) \<Longrightarrow>
   keys_distinct (foldl step st xs)"
  by (rule foldl_inv [where I = keys_distinct])

lemma keys_distinct_frame [simp]:
  "keys_distinct (use_schema r f st) = keys_distinct st"
  "keys_distinct (st\<lparr>cb_Commands := x\<rparr>) = keys_distinct st"
  "keys_distinct (st\<lparr>cb_Projections := y\<rparr>) = keys_distinct st"
  "keys_distinct (st\<lparr>cb_Realizations := z\<rparr>) = keys_distinct st"
  "keys_distinct (st\<lparr>cb_RelationCount := n\<rparr>) = keys_distinct st"
  "keys_distinct (st\<lparr>cb_CommandCount := n, cb_ProjectionCount := m\<rparr>) = keys_distinct st"
  "keys_distinct empty_build"
  by (simp_all add: keys_distinct_def build_frame empty_build_def)

lemma keys_distinct_steps [simp]:
  "keys_distinct st \<Longrightarrow> keys_distinct (ensureObject s k f st)"
  "keys_distinct st \<Longrightarrow> keys_distinct (on_kinds s f ks st)"
  by (simp_all add: keys_distinct_def distinct_ensureObject)
     (use keys_distinct_foldl [of st "\<lambda>st k. ensureObject s k f st" ks] distinct_ensureObject
      in \<open>simp add: on_kinds_def keys_distinct_def\<close>)

lemma keys_distinct_contract_step: "keys_distinct st \<Longrightarrow> keys_distinct (contract_step root st item)"
  unfolding contract_step_def Let_def keys_distinct_frame
  by (intro keys_distinct_foldl)
     (simp_all add: object_step_def relation_step_def command_step_def projection_step_def Let_def)

lemma built_distinct: "distinct (map fst (cb_Objects (built root cs)))"
  unfolding built_def keys_distinct_def [symmetric]
  by (rule keys_distinct_foldl) (simp_all add: keys_distinct_contract_step)

lemma object_key_inj:
  assumes "object_key s k = object_key s' k'" "CHR 0x00 \<notin> set s" "CHR 0x00 \<notin> set s'"
  shows "s = s' \<and> k = k'"
proof -
  have "takeWhile (\<lambda>c. c \<noteq> CHR 0x00) (object_key s k) = s"
    "takeWhile (\<lambda>c. c \<noteq> CHR 0x00) (object_key s' k') = s'"
    unfolding object_key_def using assms(2,3) by (subst takeWhile_append2; auto)+
  with assms(1) have "s = s'" by simp
  with assms(1) show ?thesis by (simp add: object_key_def)
qed

subsection \<open>What acceptance gives the catalog\<close>

lemma discovered_ok:
  assumes "DiscoverContracts fs wd pm p root = Inr cs" "i \<in> set cs"
  shows "contract_ok (fs_env fs wd root) (lc_Realization i) (item_path i) (lc_Contract i)"
proof -
  from assms(1) obtain entries out where
    l: "load_all (LoadInteractionContract fs wd p root) entries = Inr out"
    and cs: "cs = sort_key loaded_reference out"
    by (auto simp: DiscoverContracts_def split: sum.splits)
  from l have all2: "list_all2 (\<lambda>e lc. LoadInteractionContract fs wd p root e = Inr lc) entries out"
    by (simp add: load_all_Inr)
  have "i \<in> set out" using assms(2) cs by simp
  from list_all2_set2 [OF all2 this] obtain e where
    e: "LoadInteractionContract fs wd p root e = Inr i" by blast
  from LoadInteractionContract_Inr [OF e] show ?thesis unfolding valid_loaded_def by blast
qed

lemma accepted_seed: "contract_ok env entry path c \<Longrightarrow> trim_space (mf_SeedID (lr_Manifest entry)) = mf_SeedID (lr_Manifest entry)"
  unfolding contract_ok_def header_ok_def by (metis trim_space_idem)

lemma accepted_kinds:
  assumes "contract_ok env entry path (lc_Contract i)"
  shows "trim_space ` mentioned i = kind_names (lc_Contract i)"
proof
  let ?K = "kind_names (lc_Contract i)"
  have sub: "trim_space ` set xs \<subseteq> ?K" if "subset_ok xs ?K" for xs
    using that by (rule subset_ok_sub)
  have r: "trim_space ` set (rel_FromKinds r) \<subseteq> ?K \<and> trim_space ` set (rel_ToKinds r) \<subseteq> ?K"
    if "r \<in> set (DomainRelations (lc_Contract i))" for r
    using assms that by (intro conjI sub) (simp_all add: contract_ok_def relation_ok_def)
  have c: "trim_space ` set (cmd_ObjectKinds c) \<subseteq> ?K" if "c \<in> set (Commands (lc_Contract i))" for c
    using assms that by (intro sub) (simp add: contract_ok_def command_ok_def)
  have p: "trim_space ` set (prj_ObjectKinds p) \<subseteq> ?K" if "p \<in> set (Projections (lc_Contract i))" for p
    using assms that by (intro sub) (simp add: contract_ok_def projection_ok_def)
  have o: "trim_space ` obj_Kind ` set (DomainObjects (lc_Contract i)) \<subseteq> ?K"
    by (auto simp: kind_names_def)
  show "trim_space ` mentioned i \<subseteq> ?K"
    unfolding mentioned_def Let_def image_Un image_UN
    by (intro Un_least UN_least o c p r [THEN conjunct1] r [THEN conjunct2])
  show "kind_names (lc_Contract i) \<subseteq> trim_space ` mentioned i"
    by (auto simp: mentioned_def kind_names_def Let_def)
qed

lemma cat_Objects_set:
  "set (cat_Objects (build_catalog root cs)) = (\<lambda>e. flatten_object (snd e)) ` set (cb_Objects (built root cs))"
  by (simp add: build_catalog_fields flattenObjects_def image_image)

lemma flatten_object_ident [simp]:
  "co_SeedID (flatten_object d) = co_SeedID d" "co_Kind (flatten_object d) = co_Kind d"
  "co_Realizations (flatten_object d) = [] \<longleftrightarrow> co_Realizations d = []"
proof -
  have "sort_key k xs = [] \<longleftrightarrow> xs = []" for k :: "CatalogObjectRealization \<Rightarrow> desc_asc" and xs
    by (metis set_empty set_sort)
  then show "co_Realizations (flatten_object d) = [] \<longleftrightarrow> co_Realizations d = []"
    by (simp add: flatten_object_def)
qed (simp_all add: flatten_object_def)

definition object_ident :: "CatalogObject \<Rightarrow> string \<times> string" where
  "object_ident d = (co_SeedID d, co_Kind d)"

lemma object_ident_flatten [simp]: "object_ident (flatten_object d) = object_ident d"
  by (simp add: object_ident_def)

lemma ident_set:
  "object_ident ` set (cat_Objects (build_catalog root cs)) =
   (\<lambda>e. object_ident (snd e)) ` set (cb_Objects (built root cs))"
  by (simp add: cat_Objects_set image_image)

lemma distinct_idents:
  "distinct (map object_ident (cat_Objects (build_catalog root cs))) \<longleftrightarrow>
   distinct (map (\<lambda>e. object_ident (snd e)) (cb_Objects (built root cs)))"
  by (simp add: build_catalog_fields flattenObjects_def o_def)

text \<open>The discovered seeds contain no NUL byte, which separates seed and kind in the index.\<close>

definition plain_seeds :: "LoadedInteractionContract list \<Rightarrow> bool" where
  "plain_seeds cs \<longleftrightarrow> (\<forall>i\<in>set cs. CHR 0x00 \<notin> set (item_seed i))"

lemma built_entry:
  assumes "plain_seeds cs" "i \<in> set cs" "k \<in> mentioned i"
  shows "\<exists>d. (object_key (item_seed i) k, d) \<in> set (cb_Objects (built root cs)) \<and>
             object_ident d = (trim_space (item_seed i), trim_space k)"
proof -
  have "object_key (item_seed i) k \<in> okeys (built root cs)" using assms by (auto simp: okeys_built)
  then obtain e where e: "e \<in> set (cb_Objects (built root cs))" "fst e = object_key (item_seed i) k"
    by (auto simp: okeys_def)
  from built_ident [OF e(1)] obtain j k' where j: "j \<in> set cs" "k' \<in> mentioned j"
    "fst e = object_key (item_seed j) k'" "co_SeedID (snd e) = trim_space (item_seed j)"
    "co_Kind (snd e) = trim_space k'" by blast
  have "item_seed i = item_seed j \<and> k = k'"
    by (rule object_key_inj) (use e(2) j assms in \<open>auto simp: plain_seeds_def\<close>)
  with e j show ?thesis by (metis object_ident_def prod.collapse)
qed

text \<open>The catalog lists exactly the declared objects: the pairs of seed and kind it shows are
  those that the discovered contracts declare (kinds trimmed). A command, relation or projection
  never makes up an object.\<close>

theorem catalog_objects_are_declared:
  assumes "DiscoverContracts fs wd pm p root = Inr cs" "LoadCatalog fs wd pm p root = Inr cat"
    and "plain_seeds cs"
  shows "(\<lambda>d. (co_SeedID d, co_Kind d)) ` set (cat_Objects cat) =
         (\<Union>i\<in>set cs. {item_seed i} \<times> kind_names (lc_Contract i))"
proof -
  have cat: "cat = build_catalog root cs" using assms by (simp add: LoadCatalog_def and_then_def)
  let ?es = "set (cb_Objects (built root cs))"
  have seed: "trim_space (item_seed i) = item_seed i" if "i \<in> set cs" for i
    using accepted_seed [OF discovered_ok [OF assms(1) that]] .
  have kinds: "trim_space ` mentioned i = kind_names (lc_Contract i)" if "i \<in> set cs" for i
    using accepted_kinds [OF discovered_ok [OF assms(1) that]] .
  have id: "object_ident ` set (cat_Objects cat) = (\<lambda>e. object_ident (snd e)) ` ?es"
    unfolding cat by (rule ident_set)
  have "object_ident (snd e) \<in> (\<Union>i\<in>set cs. {item_seed i} \<times> kind_names (lc_Contract i))"
    if "e \<in> ?es" for e
  proof -
    from built_ident [OF that] obtain i k where i: "i \<in> set cs" "k \<in> mentioned i"
      "co_SeedID (snd e) = trim_space (item_seed i)" "co_Kind (snd e) = trim_space k" by blast
    with seed kinds have "co_SeedID (snd e) = item_seed i" "co_Kind (snd e) \<in> kind_names (lc_Contract i)"
      by auto
    with i(1) show ?thesis by (auto simp: object_ident_def)
  qed
  moreover have "(item_seed i, kind) \<in> (\<lambda>e. object_ident (snd e)) ` ?es"
    if i: "i \<in> set cs" and kind: "kind \<in> kind_names (lc_Contract i)" for i kind
  proof -
    from kind kinds [OF i] obtain k where k: "k \<in> mentioned i" "kind = trim_space k" by auto
    from built_entry [OF assms(3) i k(1)] seed [OF i] k(2) show ?thesis by force
  qed
  ultimately have "(\<lambda>e. object_ident (snd e)) ` ?es = (\<Union>i\<in>set cs. {item_seed i} \<times> kind_names (lc_Contract i))"
    by (intro equalityI subsetI) (force, clarify)
  then show ?thesis using id unfolding object_ident_def [abs_def] by simp
qed

theorem catalog_objects_are_declared_witness:
  "\<exists>cat. LoadCatalog sample_fs None (\<lambda>_. Some sample_manifest) (\<lambda>_. Some sample_contract) ''/r'' = Inr cat \<and>
     (\<lambda>d. (co_SeedID d, co_Kind d)) ` set (cat_Objects cat) = {(''s'', ''ticket'')}"
proof -
  obtain lc where d: "DiscoverContracts sample_fs None (\<lambda>_. Some sample_manifest) (\<lambda>_. Some sample_contract) ''/r'' = Inr [lc]"
    and lc: "lc_Contract lc = sample_contract" "item_manifest lc = sample_manifest"
    using sample_discovered [OF sample_contract_ok] by blast
  have l: "LoadCatalog sample_fs None (\<lambda>_. Some sample_manifest) (\<lambda>_. Some sample_contract) ''/r'' =
      Inr (build_catalog ''/r'' [lc])"
    by (simp add: LoadCatalog_def d and_then_def)
  have "plain_seeds [lc]" by (simp add: plain_seeds_def lc sample_manifest_def)
  from catalog_objects_are_declared [OF d l this] l show ?thesis
    by (simp add: lc kind_names_def sample_contract_def sample_object_def sample_manifest_def plain_eval)
qed

text \<open>An object is listed once exactly as long as no kind is spelled in two ways: the index is
  keyed by the kind as written while contracts are checked on the trimmed kind, so a command that
  writes a declared kind with a blank in front makes the catalog list the object twice.\<close>

theorem catalog_objects_unique_iff:
  assumes "DiscoverContracts fs wd pm p root = Inr cs" "LoadCatalog fs wd pm p root = Inr cat"
    and "plain_seeds cs"
  shows "distinct (map (\<lambda>d. (co_SeedID d, co_Kind d)) (cat_Objects cat)) \<longleftrightarrow>
         inj_on (\<lambda>(seed, kind). (seed, trim_space kind)) (\<Union>i\<in>set cs. {item_seed i} \<times> mentioned i)"
    (is "_ \<longleftrightarrow> inj_on ?f ?M")
proof -
  have cat: "cat = build_catalog root cs" using assms by (simp add: LoadCatalog_def and_then_def)
  let ?b = "cb_Objects (built root cs)"
  have seed: "trim_space (item_seed i) = item_seed i" if "i \<in> set cs" for i
    using accepted_seed [OF discovered_ok [OF assms(1) that]] .
  have "distinct (map object_ident (cat_Objects cat)) \<longleftrightarrow> inj_on (\<lambda>e. object_ident (snd e)) (set ?b)"
    unfolding cat distinct_idents using built_distinct [of root cs] by (simp add: distinct_map)
  also have "\<dots> \<longleftrightarrow> inj_on ?f ?M"
  proof
    assume inj: "inj_on (\<lambda>e. object_ident (snd e)) (set ?b)"
    show "inj_on ?f ?M"
    proof (rule inj_onI)
      fix x y assume x: "x \<in> ?M" and y: "y \<in> ?M" and eq: "?f x = ?f y"
      obtain i k where i: "i \<in> set cs" "k \<in> mentioned i" "x = (item_seed i, k)" using x by auto
      obtain j l where j: "j \<in> set cs" "l \<in> mentioned j" "y = (item_seed j, l)" using y by auto
      obtain d where d: "(object_key (item_seed i) k, d) \<in> set ?b"
        "object_ident d = (trim_space (item_seed i), trim_space k)"
        using built_entry [OF assms(3) i(1,2)] by blast
      obtain e where e: "(object_key (item_seed j) l, e) \<in> set ?b"
        "object_ident e = (trim_space (item_seed j), trim_space l)"
        using built_entry [OF assms(3) j(1,2)] by blast
      have "object_key (item_seed i) k = object_key (item_seed j) l"
        using inj_onD [OF inj _ d(1) e(1)] d(2) e(2) eq i(3) j(3) by simp
      then have "item_seed i = item_seed j \<and> k = l"
        by (rule object_key_inj) (use assms(3) i(1) j(1) in \<open>auto simp: plain_seeds_def\<close>)
      then show "x = y" by (simp add: i(3) j(3))
    qed
  next
    assume inj: "inj_on ?f ?M"
    show "inj_on (\<lambda>e. object_ident (snd e)) (set ?b)"
    proof (rule inj_onI)
      fix d e assume d: "d \<in> set ?b" and e: "e \<in> set ?b" and eq: "object_ident (snd d) = object_ident (snd e)"
      obtain i k where i: "i \<in> set cs" "k \<in> mentioned i" "fst d = object_key (item_seed i) k"
        "co_SeedID (snd d) = trim_space (item_seed i)" "co_Kind (snd d) = trim_space k"
        using built_ident [OF d] by blast
      obtain j l where j: "j \<in> set cs" "l \<in> mentioned j" "fst e = object_key (item_seed j) l"
        "co_SeedID (snd e) = trim_space (item_seed j)" "co_Kind (snd e) = trim_space l"
        using built_ident [OF e] by blast
      have M: "(item_seed i, k) \<in> ?M" "(item_seed j, l) \<in> ?M" using i j by auto
      have "(item_seed i, k) = (item_seed j, l)"
        by (rule inj_onD [OF inj _ M]) (use eq i j seed in \<open>auto simp: object_ident_def\<close>)
      then have "fst d = fst e" by (simp add: i(3) j(3))
      then show "d = e" using built_distinct [of root cs] d e by (metis eq_key_imp_eq_value prod.collapse)
    qed
  qed
  finally show ?thesis unfolding object_ident_def [abs_def] .
qed

text \<open>The sample contract with a blank in front of the kind its command names.\<close>

definition padded_contract :: InteractionContract where
  "padded_contract =
     sample_contract\<lparr>Commands := [sample_command\<lparr>cmd_ObjectKinds := ['' ticket'']\<rparr>]\<rparr>"

lemma trim_padded_ticket: "trim_space '' ticket'' = ''ticket''"
proof -
  have "trim_left '' ticket'' = ''ticket''"
    by (simp add: trim_left_def strip_runs.simps space_runes_def)
  moreover have "trim_right ''ticket'' = ''ticket''"
    by (simp add: trim_right_def strip_runs.simps space_runes_def)
  ultimately show ?thesis by (simp add: trim_space_def)
qed

lemma padded_contract_ok:
  "contract_ok sample_env sample_entry ''/r/s/x/interaction_contract.yaml'' padded_contract"
  unfolding padded_contract_def sample_eval sample_defs vocabulary_defs
  by (simp add: plain_eval trim_padded_ticket sample_ref_ok [unfolded sample_env_def])

theorem catalog_objects_unique_iff_witness:
  "\<exists>cat. LoadCatalog sample_fs None (\<lambda>_. Some sample_manifest) (\<lambda>_. Some padded_contract) ''/r'' = Inr cat \<and>
     \<not> distinct (map (\<lambda>d. (co_SeedID d, co_Kind d)) (cat_Objects cat))"
proof -
  obtain lc where d: "DiscoverContracts sample_fs None (\<lambda>_. Some sample_manifest) (\<lambda>_. Some padded_contract) ''/r'' = Inr [lc]"
    and lc: "lc_Contract lc = padded_contract" "item_manifest lc = sample_manifest"
    using sample_discovered [OF padded_contract_ok] by blast
  have l: "LoadCatalog sample_fs None (\<lambda>_. Some sample_manifest) (\<lambda>_. Some padded_contract) ''/r'' =
      Inr (build_catalog ''/r'' [lc])"
    by (simp add: LoadCatalog_def d and_then_def)
  have p: "plain_seeds [lc]" by (simp add: plain_seeds_def lc sample_manifest_def)
  have "''ticket'' \<in> mentioned lc" "'' ticket'' \<in> mentioned lc"
    by (simp_all add: mentioned_def lc padded_contract_def sample_contract_def sample_object_def)
  moreover have "trim_space ''ticket'' = trim_space '' ticket''"
    by (simp add: trim_padded_ticket plain_eval)
  ultimately have "\<not> inj_on (\<lambda>(seed, kind). (seed, trim_space kind))
      (\<Union>i\<in>set [lc]. {item_seed i} \<times> mentioned i)"
    by (auto simp: inj_on_def)
  with catalog_objects_unique_iff [OF d l p] l show ?thesis by blast
qed

text \<open>When every mentioned kind is spelled as in some object declaration, every object of the
  catalog has at least one realization behind it.\<close>

theorem catalog_objects_are_realized:
  assumes "LoadCatalog fs wd pm p root = Inr cat" "DiscoverContracts fs wd pm p root = Inr cs"
    and "\<And>i. i \<in> set cs \<Longrightarrow> mentioned i \<subseteq> obj_Kind ` set (DomainObjects (lc_Contract i))"
    and "d \<in> set (cat_Objects cat)"
  shows "co_Realizations d \<noteq> []"
proof -
  have cat: "cat = build_catalog root cs" using assms by (simp add: LoadCatalog_def and_then_def)
  have "objects_inv has_realization (built root cs)" by (rule built_realization [OF assms(3)])
  with assms(4) show ?thesis
    by (auto simp: cat cat_Objects_set objects_inv_def has_realization_def)
qed

theorem catalog_objects_are_realized_witness:
  "\<exists>cat d. LoadCatalog sample_fs None (\<lambda>_. Some sample_manifest) (\<lambda>_. Some sample_contract) ''/r'' = Inr cat \<and>
     d \<in> set (cat_Objects cat) \<and> co_Realizations d \<noteq> []"
proof -
  obtain lc where d: "DiscoverContracts sample_fs None (\<lambda>_. Some sample_manifest) (\<lambda>_. Some sample_contract) ''/r'' = Inr [lc]"
    and lc: "lc_Contract lc = sample_contract" "item_manifest lc = sample_manifest"
    using sample_discovered [OF sample_contract_ok] by blast
  have l: "LoadCatalog sample_fs None (\<lambda>_. Some sample_manifest) (\<lambda>_. Some sample_contract) ''/r'' =
      Inr (build_catalog ''/r'' [lc])"
    by (simp add: LoadCatalog_def d and_then_def)
  have m: "mentioned i \<subseteq> obj_Kind ` set (DomainObjects (lc_Contract i))" if "i \<in> set [lc]" for i
    using that by (simp add: lc mentioned_def sample_contract_def sample_object_def
        sample_relation_def sample_command_def sample_projection_def)
  have "''ticket'' \<in> mentioned lc" by (simp add: lc mentioned_def sample_contract_def sample_object_def)
  moreover have "plain_seeds [lc]" by (simp add: plain_seeds_def lc sample_manifest_def)
  ultimately obtain o1 where o1: "o1 \<in> set (cat_Objects (build_catalog ''/r'' [lc]))"
    using built_entry [of "[lc]" lc "''ticket''" "''/r''"] by (force simp: cat_Objects_set)
  from catalog_objects_are_realized [OF l d m o1] o1 l show ?thesis by blast
qed

text \<open>The summary counts what the catalog lists: each number is the length of the list it
  stands for, and the relations are those of all the listed realizations.\<close>

theorem catalog_summary_counts:
  assumes "LoadCatalog fs wd pm p root = Inr cat"
  shows "su_Realizations (cat_Summary cat) = length (cat_Realizations cat) \<and>
    su_Contracts (cat_Summary cat) = length (cat_Realizations cat) \<and>
    su_Commands (cat_Summary cat) = length (cat_Commands cat) \<and>
    su_Projections (cat_Summary cat) = length (cat_Projections cat) \<and>
    su_Objects (cat_Summary cat) = length (cat_Objects cat) \<and>
    su_Schemas (cat_Summary cat) = length (cat_Schemas cat) \<and>
    su_Relations (cat_Summary cat) = sum_list (map (\<lambda>r. length (cr_Relations r)) (cat_Realizations cat))"
proof -
  obtain cs where cat: "cat = build_catalog root cs" using assms by (auto simp: LoadCatalog_Inr)
  have "sum_list (map (\<lambda>r. length (cr_Relations r)) (cat_Realizations cat)) =
      sum_list (map (\<lambda>r. length (cr_Relations r)) (cb_Realizations (built root cs)))"
    unfolding cat build_catalog_fields flattenRealizations_def by (rule sum_list_sort_key)
  then have "sum_list (map (\<lambda>r. length (cr_Relations r)) (cat_Realizations cat)) =
      cb_RelationCount (built root cs)"
    by (simp add: built_listings o_def realization_entry_def Let_def)
  moreover have "cat_Summary cat =
      \<lparr>su_Realizations = length cs, su_Contracts = length cs, su_Objects = length (cat_Objects cat),
       su_Relations = cb_RelationCount (built root cs), su_Schemas = length (cat_Schemas cat),
       su_Commands = cb_CommandCount (built root cs), su_Projections = cb_ProjectionCount (built root cs)\<rparr>"
    by (simp add: cat build_catalog_def finish_catalog_def built_def Let_def)
  ultimately show ?thesis
    by (simp add: cat build_catalog_fields flattenRealizations_def flattenCommands_def
        flattenProjections_def built_listings length_concat o_def)
qed

theorem catalog_summary_counts_witness:
  "\<exists>cat. LoadCatalog sample_fs None (\<lambda>_. Some sample_manifest) (\<lambda>_. Some sample_contract) ''/r'' = Inr cat \<and>
     su_Commands (cat_Summary cat) = length (cat_Commands cat)"
proof -
  obtain cat where "LoadCatalog sample_fs None (\<lambda>_. Some sample_manifest) (\<lambda>_. Some sample_contract) ''/r'' = Inr cat"
    using sample_discovered [OF sample_contract_ok] by (auto simp: LoadCatalog_Inr)
  with catalog_summary_counts [OF this] show ?thesis by blast
qed

text \<open>Every command of every discovered contract can be looked up: with unpadded references,
  one per realization, \<open>GetCommand\<close> by reference and name returns the entry built from that very
  command, and the listing is sorted with the references descending and the names ascending.\<close>

theorem declared_commands_are_found:
  assumes "DiscoverContracts fs wd pm p root = Inr cs" "LoadCatalog fs wd pm p root = Inr cat"
    and "inj_on loaded_reference (set cs)" "i \<in> set cs" "c \<in> set (Commands (lc_Contract i))"
    and "trim_space (loaded_reference i) = loaded_reference i"
  shows "GetCommand cat (loaded_reference i) (cmd_Name c) = Some (command_entry root i c) \<and>
         sorted (map (\<lambda>x. DescAsc (cc_Reference x) (cc_Name x)) (cat_Commands cat))"
proof
  have cat: "cat = build_catalog root cs" using assms by (simp add: LoadCatalog_def and_then_def)
  have set_eq: "set (cat_Commands cat) =
      (\<Union>i\<in>set cs. command_entry root i ` set (Commands (lc_Contract i)))"
    by (simp add: cat build_catalog_fields flattenCommands_def built_listings)
  show "sorted (map (\<lambda>x. DescAsc (cc_Reference x) (cc_Name x)) (cat_Commands cat))"
    by (simp add: cat build_catalog_fields flattenCommands_def)
  have names: "inj_on (\<lambda>x. trim_space (cmd_Name x)) (set (Commands (lc_Contract i)))"
    using discovered_ok [OF assms(1,4)] by (simp add: contract_ok_def distinct_map)
  have ref: "cc_Reference (command_entry root j x) = loaded_reference j"
    "cc_Name (command_entry root j x) = trim_space (cmd_Name x)" for j x
    by (simp_all add: command_entry_def)
  show "GetCommand cat (loaded_reference i) (cmd_Name c) = Some (command_entry root i c)"
    unfolding GetCommand_def
  proof (rule find_unique)
    show "command_entry root i c \<in> set (cat_Commands cat)" using assms(4,5) by (auto simp: set_eq)
    fix y assume "y \<in> set (cat_Commands cat)"
      and y: "cc_Reference y = trim_space (loaded_reference i) \<and> cc_Name y = trim_space (cmd_Name c)"
    then obtain j x where j: "j \<in> set cs" "x \<in> set (Commands (lc_Contract j))" "y = command_entry root j x"
      by (auto simp: set_eq)
    with y assms(6) have "loaded_reference j = loaded_reference i" by (simp add: ref)
    then have "j = i" using assms(3,4) j(1) by (simp add: inj_on_def)
    with j y have "x = c" using names assms(5) by (simp add: ref inj_on_def)
    with j(3) \<open>j = i\<close> show "y = command_entry root i c" by simp
  qed (simp add: ref assms(6))
qed

theorem declared_commands_are_found_witness:
  "\<exists>cat lc. LoadCatalog sample_fs None (\<lambda>_. Some sample_manifest) (\<lambda>_. Some sample_contract) ''/r'' = Inr cat \<and>
     GetCommand cat (loaded_reference lc) ''open'' = Some (command_entry ''/r'' lc sample_command)"
proof -
  obtain lc where d: "DiscoverContracts sample_fs None (\<lambda>_. Some sample_manifest) (\<lambda>_. Some sample_contract) ''/r'' = Inr [lc]"
    and lc: "lc_Contract lc = sample_contract" "item_manifest lc = sample_manifest"
      "lr_Reference (lc_Realization lc) = ''s/x''"
    using sample_discovered_reference by blast
  have l: "LoadCatalog sample_fs None (\<lambda>_. Some sample_manifest) (\<lambda>_. Some sample_contract) ''/r'' =
      Inr (build_catalog ''/r'' [lc])"
    by (simp add: LoadCatalog_def d and_then_def)
  have "sample_command \<in> set (Commands (lc_Contract lc))" by (simp add: lc sample_contract_def)
  from declared_commands_are_found [OF d l _ _ this]
  have "GetCommand (build_catalog ''/r'' [lc]) (loaded_reference lc) (cmd_Name sample_command) =
      Some (command_entry ''/r'' lc sample_command)"
    by (simp add: loaded_reference_def lc plain_eval)
  moreover have "cmd_Name sample_command = ''open''" by (simp add: sample_command_def)
  ultimately show ?thesis using l by metis
qed

text \<open>The path the catalog shows for a schema names the file the validator resolved: joining it
  to the repository root gives the cleaned target of the reference.\<close>

theorem schema_paths_name_the_checked_file:
  assumes "validateInteractionContract env entry path c = None" "ref \<in> contract_refs c"
    and "trim_space ref = ref" "is_abs path" "is_abs (re_RepoRoot env)"
    and "clean_comps True (re_RepoRoot env) \<noteq> []"
  shows "join_paths [re_RepoRoot env, rr_Path (resolveContractRef (re_RepoRoot env) path ref)] =
         clean (ref_target path ref)"
proof -
  let ?root = "re_RepoRoot env" and ?t = "ref_target path ref"
  have ok: "ref_ok env path ref"
    using assms(1,2) by (auto simp: validateInteractionContract_iff contract_refs_def contract_ok_def
        header_ok_def object_ok_def relation_ok_def command_ok_def)
  have target: "trim_space (fst (cut_at (CHR ''#'') ref)) = ref_path ref"
    by (simp add: cut_at_def ref_path_def hd_split_on)
  have ne: "ref_path ref \<noteq> []" "ref \<noteq> []"
    using ok by (auto simp: ref_ok_def ref_path_def)
  have abs: "is_abs ?t"
    using ne is_abs_dir_of [OF assms(4)] by (simp add: ref_target_def join_paths_abs(1))
  have "below (clean_comps True ?root) (clean_comps True ?t)"
    using ok PathContained_iff [OF assms(5) abs] by (simp add: ref_ok_def)
  from rel_path_below [OF assms(5) abs assms(6) this] obtain r where
    r: "rel_path ?root ?t = Some r" "join_paths [?root, r] = clean ?t" by blast
  have "rel_path ?root (if is_abs (ref_path ref) then clean (ref_path ref)
      else join_paths [dir_of path, ref_path ref]) = Some r"
    using r(1) clean_idem_abs [of "ref_path ref"]
    by (cases "is_abs (ref_path ref)") (simp_all add: ref_target_def rel_path_def)
  then have "rr_Path (resolveContractRef ?root path ref) = r"
    by (simp add: resolveContractRef_def assms(3) ne target Let_def)
  with r(2) show ?thesis by simp
qed

theorem schema_paths_name_the_checked_file_witness:
  "join_paths [''/r'', rr_Path (resolveContractRef ''/r'' ''/r/s/x/interaction_contract.yaml'' ''d'')] =
   clean (ref_target ''/r/s/x/interaction_contract.yaml'' ''d'')"
proof -
  have r: "re_RepoRoot sample_env = ''/r''" by (simp add: sample_env_def)
  have m: "''d'' \<in> contract_refs sample_contract"
    by (simp add: contract_refs_def sample_contract_def sample_object_def)
  have "clean_comps True ''/r'' \<noteq> []" by (simp add: clean_comps_def clean_step.simps)
  then show ?thesis
    using schema_paths_name_the_checked_file [OF sample_contract_accepted m] by (simp add: r plain_eval)
qed

end
