(* ===== verification/Http_Requests.thy ===== *)
theory Http_Requests
  imports Go_Strings
begin

text \<open>
  The middleware of internal/http/server: request identity (request_context.go), sessions
  (session.go) and the checks on writes from browsers (security.go). A handler wrapped by a
  middleware is modelled by what it receives: the context and the response headers set before, or
  the refusal. \<open>url.Parse\<close> is the parameter \<open>parse_url\<close> (scheme and host of a URL that parses),
  the cookie jar and the headers of a request are functions, random identifiers are arguments.
\<close>

record http_request =
  rq_Method :: string
  rq_Path :: string
  rq_Host :: string
  rq_TLS :: bool
  rq_Header :: "string \<Rightarrow> string"
  rq_Cookie :: "string \<Rightarrow> string option"
  rq_RemoteAddr :: string

subsection \<open>request_context.go\<close>

record RequestMetadataOptions =
  mo_TrustRequestIDHeader :: bool
  mo_TrustSessionHeader :: bool
  mo_TrustSelectionHeaders :: bool
  mo_SessionCookieNames :: "string list"

record RequestMetadata =
  md_RequestID :: string
  md_SessionID :: string
  md_SeedID :: string
  md_RealizationID :: string
  md_Route :: string
  md_Method :: string
  md_UserAgent :: string

record ResolvedSession =
  ss_SessionID :: string
  ss_PrincipalID :: string
  ss_Status :: string

record request_context =
  cx_Metadata :: "RequestMetadata option"
  cx_Session :: "ResolvedSession option"

definition no_metadata :: RequestMetadata where
  "no_metadata =
     \<lparr>md_RequestID = [], md_SessionID = [], md_SeedID = [], md_RealizationID = [], md_Route = [],
      md_Method = [], md_UserAgent = []\<rparr>"

definition WithRequestMetadata :: "request_context \<Rightarrow> RequestMetadata \<Rightarrow> request_context" where
  "WithRequestMetadata ctx metadata = ctx\<lparr>cx_Metadata := Some metadata\<rparr>"

definition RequestMetadataFromContext :: "request_context \<Rightarrow> RequestMetadata" where
  "RequestMetadataFromContext ctx = (case cx_Metadata ctx of None \<Rightarrow> no_metadata | Some m \<Rightarrow> m)"

definition WithRoute :: "request_context \<Rightarrow> string \<Rightarrow> request_context" where
  "WithRoute ctx route =
     WithRequestMetadata ctx ((RequestMetadataFromContext ctx)\<lparr>md_Route := route\<rparr>)"

definition opaque_char :: "char \<Rightarrow> bool" where
  "opaque_char c \<longleftrightarrow>
     (CHR ''A'' \<le> c \<and> c \<le> CHR ''Z'') \<or> (CHR ''a'' \<le> c \<and> c \<le> CHR ''z'') \<or>
     (CHR ''0'' \<le> c \<and> c \<le> CHR ''9'') \<or> c \<in> set ''._:/-''"

text \<open>\<open>^[A-Za-z0-9._:/-]{1,200}$\<close>.\<close>

definition opaqueHeaderPattern :: "string \<Rightarrow> bool" where
  "opaqueHeaderPattern s \<longleftrightarrow> 1 \<le> length s \<and> length s \<le> 200 \<and> (\<forall>c\<in>set s. opaque_char c)"

definition trimmedHeader :: "http_request \<Rightarrow> string \<Rightarrow> string" where
  "trimmedHeader r key = trim_space (rq_Header r key)"

definition sanitizedOpaqueHeader :: "http_request \<Rightarrow> string \<Rightarrow> string" where
  "sanitizedOpaqueHeader r key =
     (let v = trimmedHeader r key in if v = [] \<or> \<not> opaqueHeaderPattern v then [] else v)"

fun sessionFromCookie :: "http_request \<Rightarrow> string list \<Rightarrow> string" where
  "sessionFromCookie r [] = []"
| "sessionFromCookie r (name # names) =
     (if trim_space name = [] then sessionFromCookie r names
      else case rq_Cookie r name of
        None \<Rightarrow> sessionFromCookie r names
      | Some v \<Rightarrow>
          if opaqueHeaderPattern (trim_space v) then trim_space v else sessionFromCookie r names)"

text \<open>The \<open>firstNonEmpty\<close> of package server does not trim.\<close>

fun server_firstNonEmpty :: "string list \<Rightarrow> string" where
  "server_firstNonEmpty [] = []"
| "server_firstNonEmpty (v # vs) = (if v \<noteq> [] then v else server_firstNonEmpty vs)"

definition default_cookie_names :: "string list" where
  "default_cookie_names = [''__Host-as_session'', ''as_session_id'']"

text \<open>The metadata put into the context, and the response headers set for it.\<close>

definition correlate :: "RequestMetadataOptions \<Rightarrow> string \<Rightarrow> http_request \<Rightarrow> RequestMetadata" where
  "correlate options fresh r =
     (let cookieNames = (if mo_SessionCookieNames options = [] then default_cookie_names
                         else mo_SessionCookieNames options);
          cookieSession = sessionFromCookie r cookieNames
      in \<lparr>md_RequestID =
            (if mo_TrustRequestIDHeader options
             then server_firstNonEmpty [sanitizedOpaqueHeader r ''X-AS-Request-ID'', fresh] else fresh),
          md_SessionID =
            (if mo_TrustSessionHeader options
             then server_firstNonEmpty [sanitizedOpaqueHeader r ''X-AS-Session-ID'', cookieSession]
             else cookieSession),
          md_SeedID =
            (if mo_TrustSelectionHeaders options then sanitizedOpaqueHeader r ''X-AS-Seed-ID'' else []),
          md_RealizationID =
            (if mo_TrustSelectionHeaders options then sanitizedOpaqueHeader r ''X-AS-Realization-ID''
             else []),
          md_Route = rq_Path r, md_Method = rq_Method r, md_UserAgent = rq_Header r ''User-Agent''\<rparr>)"

definition CorrelationMiddlewareWithOptions ::
  "RequestMetadataOptions \<Rightarrow> string \<Rightarrow> http_request \<Rightarrow> request_context \<Rightarrow>
   request_context \<times> (string \<times> string) list" where
  "CorrelationMiddlewareWithOptions options fresh r ctx =
     (let m = correlate options fresh r in
      (WithRequestMetadata ctx m,
       (''X-AS-Request-ID'', md_RequestID m) #
       (if md_RealizationID m \<noteq> [] then [(''X-AS-Realization-ID'', md_RealizationID m)] else [])))"

definition no_trust :: RequestMetadataOptions where
  "no_trust =
     \<lparr>mo_TrustRequestIDHeader = False, mo_TrustSessionHeader = False,
      mo_TrustSelectionHeaders = False, mo_SessionCookieNames = []\<rparr>"

definition CorrelationMiddleware ::
  "string \<Rightarrow> http_request \<Rightarrow> request_context \<Rightarrow> request_context \<times> (string \<times> string) list" where
  "CorrelationMiddleware = CorrelationMiddlewareWithOptions no_trust"

subsection \<open>session.go\<close>

text \<open>What the resolver answers: a session, that the request was canceled (with whatever session
  came with it), or another error.\<close>

datatype resolve_result =
    SessionFound ResolvedSession
  | SessionCanceled ResolvedSession
  | SessionError

definition SessionFromContext :: "request_context \<Rightarrow> ResolvedSession option" where
  "SessionFromContext ctx = cx_Session ctx"

definition with_session :: "request_context \<Rightarrow> ResolvedSession \<Rightarrow> request_context" where
  "with_session ctx s = (if ss_SessionID s = [] then ctx else ctx\<lparr>cx_Session := Some s\<rparr>)"

definition SessionResolutionMiddleware ::
  "(string \<Rightarrow> resolve_result) option \<Rightarrow> request_context \<Rightarrow> request_context" where
  "SessionResolutionMiddleware resolver ctx =
     (case resolver of
        None \<Rightarrow> ctx
      | Some resolve \<Rightarrow>
          (let sessionID = md_SessionID (RequestMetadataFromContext ctx) in
           if sessionID = [] then ctx
           else case resolve sessionID of
             SessionError \<Rightarrow> ctx
           | SessionFound s \<Rightarrow> with_session ctx s
           | SessionCanceled s \<Rightarrow> with_session ctx s))"

definition AuthStateFromContext :: "request_context \<Rightarrow> string" where
  "AuthStateFromContext ctx =
     (case SessionFromContext ctx of
        Some s \<Rightarrow> if trim_space (ss_SessionID s) \<noteq> [] then ''session'' else ''anonymous''
      | None \<Rightarrow> ''anonymous'')"

subsection \<open>security.go\<close>

record SameOriginUnsafeMethodsOptions =
  so_AllowedOrigins :: "string list"
  so_TrustForwardedProto :: bool

datatype verdict = NextHandler | ForbiddenRequest string

type_synonym url_parser = "string \<Rightarrow> (string \<times> string) option"

definition isUnsafeMethod :: "string \<Rightarrow> bool" where
  "isUnsafeMethod m \<longleftrightarrow> m \<notin> {''GET'', ''HEAD'', ''OPTIONS'', ''TRACE''}"

definition requestOrigin :: "http_request \<Rightarrow> bool \<Rightarrow> string" where
  "requestOrigin r trustForwardedProto =
     (let host = trim_space (rq_Host r);
          direct = (if rq_TLS r then ''https'' else ''http'');
          forwarded = to_lower (trim_space (rq_Header r ''X-Forwarded-Proto''));
          scheme = (if trustForwardedProto \<and> forwarded \<in> {''http'', ''https''} then forwarded else direct)
      in if host = [] then [] else scheme @ ''://'' @ host)"

definition originAllowed :: "string \<Rightarrow> string \<Rightarrow> string set \<Rightarrow> bool" where
  "originAllowed origin targetOrigin allowed \<longleftrightarrow>
     (if origin = [] then False
      else if targetOrigin \<noteq> [] \<and> origin = targetOrigin then True
      else origin \<in> allowed)"

definition normalizeOrigin :: "url_parser \<Rightarrow> string \<Rightarrow> string" where
  "normalizeOrigin parse_url origin =
     (let o1 = trim_space origin in
      if o1 = [] then []
      else case parse_url o1 of
        None \<Rightarrow> []
      | Some (scheme, host) \<Rightarrow>
          if scheme = [] \<or> host = [] then [] else to_lower scheme @ ''://'' @ to_lower host)"

definition allowed_origins :: "url_parser \<Rightarrow> string list \<Rightarrow> string set" where
  "allowed_origins parse_url origins = {n. n \<noteq> [] \<and> n \<in> normalizeOrigin parse_url ` set origins}"

definition SameOriginUnsafeMethodsMiddlewareWithOptions ::
  "url_parser \<Rightarrow> SameOriginUnsafeMethodsOptions \<Rightarrow> http_request \<Rightarrow> verdict" where
  "SameOriginUnsafeMethodsMiddlewareWithOptions parse_url options r =
     (let allowed = allowed_origins parse_url (so_AllowedOrigins options);
          fetchSite = to_lower (trim_space (rq_Header r ''Sec-Fetch-Site''));
          target = requestOrigin r (so_TrustForwardedProto options);
          origin = normalizeOrigin parse_url (rq_Header r ''Origin'');
          referer = trim_space (rq_Header r ''Referer'');
          referrerOrigin = normalizeOrigin parse_url referer
      in if \<not> isUnsafeMethod (rq_Method r) then NextHandler
         else if fetchSite \<notin> {[], ''same-origin'', ''none''}
           then ForbiddenRequest ''cross-origin browser writes are not allowed''
         else if origin \<noteq> [] then
           (if \<not> originAllowed origin target allowed then ForbiddenRequest ''origin mismatch''
            else NextHandler)
         else if referer \<noteq> [] \<and> (referrerOrigin = [] \<or> \<not> originAllowed referrerOrigin target allowed)
           then ForbiddenRequest ''referrer mismatch''
         else NextHandler)"

definition SameOriginUnsafeMethodsMiddleware :: "url_parser \<Rightarrow> http_request \<Rightarrow> verdict" where
  "SameOriginUnsafeMethodsMiddleware parse_url =
     SameOriginUnsafeMethodsMiddlewareWithOptions parse_url
       \<lparr>so_AllowedOrigins = [], so_TrustForwardedProto = True\<rparr>"

subsection \<open>Lemmas\<close>

lemma sessionFromCookie_opaque:
  "sessionFromCookie r names \<noteq> [] \<Longrightarrow> opaqueHeaderPattern (sessionFromCookie r names)"
  by (induction r names rule: sessionFromCookie.induct) (auto split: option.splits if_splits)

lemma sanitizedOpaqueHeader_opaque:
  "sanitizedOpaqueHeader r key \<noteq> [] \<Longrightarrow> opaqueHeaderPattern (sanitizedOpaqueHeader r key)"
  by (auto simp: sanitizedOpaqueHeader_def Let_def split: if_splits)

lemma normalizeOrigin_lower: "to_lower (normalizeOrigin parse_url origin) = normalizeOrigin parse_url origin"
proof -
  have "to_lower ''://'' = ''://''" by code_simp
  then show ?thesis
    by (simp add: normalizeOrigin_def Let_def to_lower_def split: option.split)
qed

subsection \<open>Properties\<close>

text \<open>C8: Nothing a client sends becomes part of the identity of a request unchecked: the session
  id is empty or matches the opaque pattern, the request id is the server's own unless headers are
  trusted and then also matches it, and seed and realization are empty or match it; the request
  id is always set in the response.\<close>

theorem request_identity_is_sanitized:
  "(let (ctx', headers) = CorrelationMiddlewareWithOptions options fresh r ctx;
        m = RequestMetadataFromContext ctx'
    in md_RequestID m \<in> insert fresh (if mo_TrustRequestIDHeader options then Collect opaqueHeaderPattern else {}) \<and>
       {md_SessionID m, md_SeedID m, md_RealizationID m} \<subseteq> insert [] (Collect opaqueHeaderPattern) \<and>
       (''X-AS-Request-ID'', md_RequestID m) \<in> set headers \<and> cx_Session ctx' = cx_Session ctx)"
  using sanitizedOpaqueHeader_opaque [of r "''X-AS-Request-ID''"]
    sanitizedOpaqueHeader_opaque [of r "''X-AS-Session-ID''"]
    sanitizedOpaqueHeader_opaque [of r "''X-AS-Seed-ID''"]
    sanitizedOpaqueHeader_opaque [of r "''X-AS-Realization-ID''"]
    sessionFromCookie_opaque [of r "if mo_SessionCookieNames options = [] then default_cookie_names
                         else mo_SessionCookieNames options"]
  by (simp add: CorrelationMiddlewareWithOptions_def correlate_def Let_def WithRequestMetadata_def
      RequestMetadataFromContext_def) blast



text \<open>A request and a URL parser for the instances.\<close>

definition sample_parse :: url_parser where
  "sample_parse s =
     (if s = ''https://a'' then Some (''https'', ''a'')
      else if s = ''null'' then Some ([], []) else None)"

definition write_request :: "string \<Rightarrow> (string \<Rightarrow> string) \<Rightarrow> http_request" where
  "write_request host headers =
     \<lparr>rq_Method = ''POST'', rq_Path = ''/v1/commands/s/open'', rq_Host = host, rq_TLS = True,
      rq_Header = headers, rq_Cookie = (\<lambda>_. None), rq_RemoteAddr = []\<rparr>"

lemma lower_samples:
  "to_lower ''https'' = ''https''" "to_lower ''a'' = ''a''" "to_lower ''A'' = ''a''"
  "to_lower ''https://A'' = ''https://a''"
  by code_simp+

text \<open>An \<open>Origin\<close> that has no scheme and host counts as no origin at all: a browser write with
  \<open>Origin: null\<close> (a sandboxed frame, a cross-origin redirect) and neither referrer nor fetch
  metadata is let through, whatever origins are allowed.\<close>

theorem null_origin_write_passes:
  assumes "rq_Header r ''Origin'' = ''null''" "parse_url ''null'' = Some ([], [])"
    and "blank (rq_Header r ''Referer'')" "blank (rq_Header r ''Sec-Fetch-Site'')"
  shows "SameOriginUnsafeMethodsMiddlewareWithOptions parse_url options r = NextHandler"
proof -
  have "normalizeOrigin parse_url (rq_Header r ''Origin'') = []"
    using assms(1,2)
    by (simp add: normalizeOrigin_def trim_space_plain plain_ends_def plain_char_def)
  then show ?thesis
    using assms(3,4) by (simp add: SameOriginUnsafeMethodsMiddlewareWithOptions_def Let_def)
qed

theorem null_origin_write_passes_witness:
  "SameOriginUnsafeMethodsMiddlewareWithOptions sample_parse
     \<lparr>so_AllowedOrigins = [], so_TrustForwardedProto = True\<rparr>
     (write_request ''a'' ((\<lambda>_. [])(''Origin'' := ''null''))) = NextHandler \<and>
   isUnsafeMethod (rq_Method (write_request ''a'' ((\<lambda>_. [])(''Origin'' := ''null''))))"
  by (intro conjI null_origin_write_passes)
     (simp_all add: write_request_def sample_parse_def isUnsafeMethod_def)

text \<open>The origin of a browser is compared in lower case with the host as the client wrote it:
  when the \<open>Host\<close> header has a capital letter, every write that names an origin outside the
  allowed list is refused, the request's own origin included.\<close>

theorem capital_host_refuses_every_origin:
  assumes "isUnsafeMethod (rq_Method r)"
    and "to_lower (requestOrigin r (so_TrustForwardedProto options)) \<noteq>
         requestOrigin r (so_TrustForwardedProto options)"
    and "normalizeOrigin parse_url (rq_Header r ''Origin'') \<noteq> []"
    and "normalizeOrigin parse_url (rq_Header r ''Origin'') \<notin>
         normalizeOrigin parse_url ` set (so_AllowedOrigins options)"
  shows "\<exists>msg. SameOriginUnsafeMethodsMiddlewareWithOptions parse_url options r = ForbiddenRequest msg"
proof -
  have "normalizeOrigin parse_url (rq_Header r ''Origin'') \<noteq> requestOrigin r (so_TrustForwardedProto options)"
    using assms(2) normalizeOrigin_lower by metis
  with assms show ?thesis
    by (auto simp: SameOriginUnsafeMethodsMiddlewareWithOptions_def Let_def originAllowed_def
        allowed_origins_def)
qed

theorem capital_host_refuses_every_origin_witness:
  "\<exists>msg. SameOriginUnsafeMethodsMiddlewareWithOptions sample_parse
     \<lparr>so_AllowedOrigins = [], so_TrustForwardedProto = True\<rparr>
     (write_request ''A'' ((\<lambda>_. [])(''Origin'' := ''https://a''))) = ForbiddenRequest msg"
proof (rule capital_host_refuses_every_origin)
  have "requestOrigin (write_request ''A'' ((\<lambda>_. [])(''Origin'' := ''https://a''))) True = ''https://A''"
    by (simp add: requestOrigin_def write_request_def trim_space_plain plain_ends_def plain_char_def)
  then show "to_lower (requestOrigin (write_request ''A'' ((\<lambda>_. [])(''Origin'' := ''https://a'')))
        (so_TrustForwardedProto \<lparr>so_AllowedOrigins = [], so_TrustForwardedProto = True\<rparr>)) \<noteq>
      requestOrigin (write_request ''A'' ((\<lambda>_. [])(''Origin'' := ''https://a'')))
        (so_TrustForwardedProto \<lparr>so_AllowedOrigins = [], so_TrustForwardedProto = True\<rparr>)"
    by (simp add: lower_samples)
qed (simp_all add: write_request_def isUnsafeMethod_def normalizeOrigin_def sample_parse_def
    trim_space_plain plain_ends_def plain_char_def)

end
