(* ===== verification/Runtime_Helpers.thy ===== *)
theory Runtime_Helpers
  imports Go_Strings
begin

text \<open>
  What the runtime service of internal/interactions shares (runtime_helpers.go): its errors, the
  conversions between blank Go values and SQL nulls, the normalised string lists, and the tables.
  A table is the list of its rows in some storage order; a primary key is a function of the row.
  A JSON object is a map. Identifiers and tokens drawn at random, the clock of the service
  (\<open>nowUTC\<close>) and the clock of the database (\<open>now()\<close>) are arguments; times are integers. A
  statement of SQL is modelled by what it does to the table; a database that cannot be reached is
  not modelled, a constraint that is violated is.
\<close>

named_theorems runtime_row \<open>what the statements of the service do to the rows of a table\<close>

type_synonym 'j json_object = "string \<rightharpoonup> 'j"

text \<open>
  \<open>ErrNotFound\<close> and \<open>ErrConflict\<close> (with the name of the violated constraint), the missing
  database, and the complaints about the input.
\<close>

datatype runtime_error =
    NotConfigured
  | Required string
  | LimitNotPositive
  | UniqueViolation
  | ErrNotFound
  | ErrConflict string
  | Invalid string

subsection \<open>Blank values\<close>

definition nullString :: "string \<Rightarrow> string option" where
  "nullString s = (if trim_space s = [] then None else Some (trim_space s))"

definition nullTimeValue :: "int option \<Rightarrow> int option" where
  "nullTimeValue t = (case t of None \<Rightarrow> None | Some v \<Rightarrow> if v = 0 then None else Some v)"

text \<open>A number where zero stands for null.\<close>

definition nullInt :: "int \<Rightarrow> int option" where
  "nullInt n = (if n = 0 then None else Some n)"

definition statusOrDefault :: "string \<Rightarrow> string \<Rightarrow> string" where
  "statusOrDefault v fallback = (if trim_space v = [] then fallback else trim_space v)"

definition clampLimit :: "int \<Rightarrow> int \<Rightarrow> int \<Rightarrow> int" where
  "clampLimit limit fallback maximum =
     (if limit \<le> 0 then fallback else if limit > maximum then maximum else limit)"

text \<open>A time given by the caller, unless it is nil or zero; an identifier, unless it is blank.\<close>

definition time_or :: "int option \<Rightarrow> int \<Rightarrow> int" where
  "time_or t now = (case t of None \<Rightarrow> now | Some v \<Rightarrow> if v = 0 then now else v)"

definition id_or :: "string \<Rightarrow> string \<Rightarrow> string" where
  "id_or v fresh = (if blank v then fresh else v)"

text \<open>A nullable column read into a Go string.\<close>

definition string_of_null :: "string option \<Rightarrow> string" where
  "string_of_null v = (case v of None \<Rightarrow> [] | Some s \<Rightarrow> s)"

subsection \<open>Normalised string lists\<close>

text \<open>
  \<open>seen\<close> are the values kept so far; the loop keeps the first mention of each value that is
  not blank.
\<close>

fun keep_new :: "string set \<Rightarrow> string list \<Rightarrow> string list" where
  "keep_new seen [] = []"
| "keep_new seen (v # vs) =
     (let t = trim_space v in
      if t = [] \<or> t \<in> seen then keep_new seen vs else t # keep_new (insert t seen) vs)"

definition normalizeStringList :: "string list \<Rightarrow> string list" where
  "normalizeStringList vs = sort (keep_new {} vs)"

definition normalizeIdentifier :: "string \<Rightarrow> string" where
  "normalizeIdentifier v = to_lower (trim_space v)"

lemma set_keep_new: "set (keep_new seen vs) = trim_space ` set vs - {[]} - seen"
  by (induction seen vs rule: keep_new.induct) (auto simp: Let_def)

lemma distinct_keep_new: "distinct (keep_new seen vs)"
  by (induction seen vs rule: keep_new.induct) (auto simp: Let_def set_keep_new)

lemma set_normalizeStringList:
  "set (normalizeStringList vs) = trim_space ` set vs - {[]}"
  by (simp add: normalizeStringList_def set_keep_new)

lemma normalizeStringList_sorted: "sorted (normalizeStringList vs)"
  by (simp add: normalizeStringList_def)

lemma normalizeStringList_distinct: "distinct (normalizeStringList vs)"
  by (simp add: normalizeStringList_def distinct_keep_new)

lemma normalizeStringList_idem [simp]:
  "normalizeStringList (normalizeStringList vs) = normalizeStringList vs"
proof (rule sorted_distinct_set_unique)
  show "set (normalizeStringList (normalizeStringList vs)) = set (normalizeStringList vs)"
    by (auto simp: set_normalizeStringList image_iff intro!: bexI[where x = "trim_space _"])
qed (simp_all add: normalizeStringList_sorted normalizeStringList_distinct)

subsection \<open>Tables\<close>

text \<open>\<open>select ... where key = k\<close> and \<open>update ... set ... where p\<close>.\<close>

definition row_at :: "('r \<Rightarrow> 'k) \<Rightarrow> 'k \<Rightarrow> 'r list \<Rightarrow> 'r option" where
  "row_at key k t = find (\<lambda>r. key r = k) t"

definition update_rows :: "('r \<Rightarrow> bool) \<Rightarrow> ('r \<Rightarrow> 'r) \<Rightarrow> 'r list \<Rightarrow> 'r list" where
  "update_rows p f t = map (\<lambda>r. if p r then f r else r) t"

lemma row_at_SomeD: "row_at key k t = Some r \<Longrightarrow> r \<in> set t \<and> key r = k"
  by (auto simp: row_at_def find_Some_iff)

lemma row_at_None: "row_at key k t = None \<longleftrightarrow> k \<notin> key ` set t"
  by (auto simp: row_at_def find_None_iff)

lemma row_at_in:
  "distinct (map key t) \<Longrightarrow> r \<in> set t \<Longrightarrow> row_at key (key r) t = Some r"
  unfolding row_at_def by (rule find_unique) (auto dest: distinct_map[THEN iffD1] inj_onD)

lemma keys_update_rows [runtime_row]:
  "(\<And>r. p r \<Longrightarrow> key (f r) = key r) \<Longrightarrow> map key (update_rows p f t) = map key t"
  by (induction t) (simp_all add: update_rows_def)

lemma length_update_rows [simp]: "length (update_rows p f t) = length t"
  by (simp add: update_rows_def)

lemma in_update_rows:
  "r \<in> set (update_rows p f t) \<longleftrightarrow> (\<exists>r0\<in>set t. r = (if p r0 then f r0 else r0))"
  by (auto simp: update_rows_def)

lemma row_at_update_rows [runtime_row]:
  assumes "\<And>r. p r \<Longrightarrow> key (f r) = key r"
  shows "row_at key k (update_rows p f t) = map_option (\<lambda>r. if p r then f r else r) (row_at key k t)"
  unfolding row_at_def update_rows_def by (induction t) (auto simp: assms)

lemma row_at_append [runtime_row]:
  "row_at key k (t @ [r]) =
     (case row_at key k t of Some r0 \<Rightarrow> Some r0 | None \<Rightarrow> if key r = k then Some r else None)"
  by (induction t) (simp_all add: row_at_def)

text \<open>\<open>insert ... on conflict (key) do update\<close>: the stored row is updated, or the new one stored.\<close>

definition upsert_row :: "('r \<Rightarrow> 'k) \<Rightarrow> 'r \<Rightarrow> ('r \<Rightarrow> 'r) \<Rightarrow> 'r list \<Rightarrow> 'r list" where
  "upsert_row key r f t =
     (if row_at key (key r) t = None then t @ [r] else update_rows (\<lambda>x. key x = key r) f t)"

lemma keys_upsert_row [runtime_row]:
  "(\<And>x. key x = key r \<Longrightarrow> key (f x) = key x) \<Longrightarrow> key ` set (upsert_row key r f t) = insert (key r) (key ` set t)"
proof (cases "row_at key (key r) t")
  case None
  then show ?thesis by (simp add: upsert_row_def)
next
  case (Some x)
  assume keep: "\<And>x. key x = key r \<Longrightarrow> key (f x) = key x"
  have "set (map key (update_rows (\<lambda>x. key x = key r) f t)) = set (map key t)"
    by (subst keys_update_rows) (simp_all add: keep)
  moreover have "key r \<in> key ` set t" using row_at_SomeD[OF Some] by (metis imageI)
  ultimately show ?thesis using Some by (auto simp: upsert_row_def)
qed

lemma distinct_upsert_row:
  assumes "\<And>x. key x = key r \<Longrightarrow> key (f x) = key x" "distinct (map key t)"
  shows "distinct (map key (upsert_row key r f t))"
proof -
  have "map key (update_rows (\<lambda>x. key x = key r) f t) = map key t"
    by (rule keys_update_rows) (rule assms(1))
  with assms(2) show ?thesis by (auto simp: upsert_row_def row_at_None)
qed

lemma row_at_upsert_row [runtime_row]:
  assumes "\<And>x. key x = key r \<Longrightarrow> key (f x) = key x"
  shows "row_at key k (upsert_row key r f t) =
    (if k = key r then Some (case row_at key k t of None \<Rightarrow> r | Some x \<Rightarrow> f x) else row_at key k t)"
proof -
  have "row_at key k (update_rows (\<lambda>x. key x = key r) f t) =
      map_option (\<lambda>x. if key x = key r then f x else x) (row_at key k t)"
    by (rule row_at_update_rows) (rule assms)
  then show ?thesis
    using row_at_SomeD[of key k t]
    by (auto simp: upsert_row_def row_at_append split: option.split)
qed

text \<open>
  The same where the new row also has a primary key, drawn at random, that may be taken.
\<close>

definition upsert_checked ::
  "string \<Rightarrow> ('r \<Rightarrow> 'p) \<Rightarrow> ('r \<Rightarrow> 'k) \<Rightarrow> 'r \<Rightarrow> ('r \<Rightarrow> 'r) \<Rightarrow> 'r list \<Rightarrow> runtime_error + 'r list" where
  "upsert_checked constraint pk key r f t =
     (if row_at key (key r) t = None \<and> row_at pk (pk r) t \<noteq> None then Inl (ErrConflict constraint)
      else Inr (upsert_row key r f t))"

definition first_row :: "'r list \<Rightarrow> 'r option" where
  "first_row t = (case t of [] \<Rightarrow> None | r # _ \<Rightarrow> Some r)"

text \<open>\<open>insert into ... values ...\<close> without a conflict clause: the primary key must be free.\<close>

definition insert_new :: "string \<Rightarrow> ('r \<Rightarrow> 'k) \<Rightarrow> 'r \<Rightarrow> 'r list \<Rightarrow> runtime_error + 'r list" where
  "insert_new constraint key r t =
     (if row_at key (key r) t = None then Inr (t @ [r]) else Inl (ErrConflict constraint))"

lemma insert_new_Inr [runtime_row]:
  "insert_new constraint key r t = Inr t' \<longleftrightarrow> row_at key (key r) t = None \<and> t' = t @ [r]"
  by (auto simp: insert_new_def)

text \<open>The answer of an operation whose statement changes one table of the state.\<close>

definition answer ::
  "'a \<Rightarrow> ('t \<Rightarrow> 's \<Rightarrow> 's) \<Rightarrow> runtime_error + 't \<Rightarrow> 's \<Rightarrow> (runtime_error + 'a) \<times> 's" where
  "answer v upd r st = (case r of Inl e \<Rightarrow> (Inl e, st) | Inr t \<Rightarrow> (Inr v, upd t st))"

lemma answer_simps [simp]:
  "answer v upd (Inl e) st = (Inl e, st)" "answer v upd (Inr t) st = (Inr v, upd t st)"
  by (simp_all add: answer_def)

text \<open>\<open>order by key desc limit n\<close>, with rows of equal keys in storage order.\<close>

definition latest_rows :: "('r \<Rightarrow> int) \<Rightarrow> int \<Rightarrow> 'r list \<Rightarrow> 'r list" where
  "latest_rows key limit t = take (nat limit) (sort_key (\<lambda>r. - key r) t)"

subsection \<open>State machines\<close>

text \<open>
  The states a component reaches from its empty table by its operations, and the interface of an
  invariant: it holds at the start and every operation keeps it.
\<close>

inductive reachable :: "('s \<Rightarrow> 's \<Rightarrow> bool) \<Rightarrow> 's \<Rightarrow> 's \<Rightarrow> bool" for step :: "'s \<Rightarrow> 's \<Rightarrow> bool" and start :: 's where
  reach_start: "reachable step start start"
| reach_step: "reachable step start st \<Longrightarrow> step st st' \<Longrightarrow> reachable step start st'"

locale machine_invariant =
  fixes step :: "'s \<Rightarrow> 's \<Rightarrow> bool" and start :: 's and inv :: "'s \<Rightarrow> bool"
  assumes start: "inv start"
    and kept: "inv st \<Longrightarrow> step st st' \<Longrightarrow> inv st'"
begin

lemma holds: "reachable step start st \<Longrightarrow> inv st"
  by (induction rule: reachable.induct) (auto intro: start kept)

lemma holds_later: "step\<^sup>*\<^sup>* st st' \<Longrightarrow> inv st \<Longrightarrow> inv st'"
  by (induction rule: rtranclp_induct) (auto intro: kept)

end

lemma reachable_later: "step\<^sup>*\<^sup>* st st' \<Longrightarrow> reachable step start st \<Longrightarrow> reachable step start st'"
  by (induction rule: rtranclp_induct) (auto intro: reach_step)

subsection \<open>Limited use\<close>

text \<open>
  A run of operations, each telling whether it used the thing in question up, and the interface of
  a thing that can be used a limited number of times: each use takes one, nothing gives one back.
\<close>

fun run_all :: "('o \<Rightarrow> 's \<Rightarrow> bool \<times> 's) \<Rightarrow> 'o list \<Rightarrow> 's \<Rightarrow> bool list \<times> 's" where
  "run_all run [] st = ([], st)"
| "run_all run (op # ops) st =
     (let (b, st1) = run op st; (bs, st2) = run_all run ops st1 in (b # bs, st2))"

locale limited_use =
  fixes run :: "'o \<Rightarrow> 's \<Rightarrow> bool \<times> 's" and inv :: "'s \<Rightarrow> bool" and left :: "'s \<Rightarrow> nat option"
  assumes kept: "inv st \<Longrightarrow> inv (snd (run op st))"
    and used: "inv st \<Longrightarrow> left st = Some n \<Longrightarrow> fst (run op st) \<Longrightarrow> 0 < n \<and> left (snd (run op st)) = Some (n - 1)"
    and unused: "inv st \<Longrightarrow> left st = Some n \<Longrightarrow> \<not> fst (run op st) \<Longrightarrow>
      \<exists>m\<le>n. left (snd (run op st)) = Some m"
begin

lemma uses_counted:
  assumes "inv st" "left st = Some n"
  shows "\<exists>m. left (snd (run_all run ops st)) = Some m \<and> count_list (fst (run_all run ops st)) True + m \<le> n"
  using assms
proof (induction ops arbitrary: st n)
  case (Cons op ops)
  let ?st = "snd (run op st)" and ?b = "fst (run op st)"
  have inv: "inv ?st" using kept Cons.prems(1) .
  have all: "run_all run (op # ops) st = (?b # fst (run_all run ops ?st), snd (run_all run ops ?st))"
    by (simp add: Let_def split: prod.split)
  obtain m where m: "left ?st = Some m" "m + (if ?b then 1 else 0) \<le> n"
    using used[OF Cons.prems] unused[OF Cons.prems] by (cases ?b) auto
  from Cons.IH[OF inv m(1)] obtain m' where m': "left (snd (run_all run ops ?st)) = Some m'"
    "count_list (fst (run_all run ops ?st)) True + m' \<le> m" by blast
  have "count_list (?b # fst (run_all run ops ?st)) True + m' \<le> n" using m' m(2) by (cases ?b) auto
  with m'(1) show ?case unfolding all by auto
qed simp

lemma uses_bounded: "inv st \<Longrightarrow> left st = Some n \<Longrightarrow> count_list (fst (run_all run ops st)) True \<le> n"
  using uses_counted[of st n ops] by auto

end

end
