(* ===== verification/Rate_Limit_Buckets.thy ===== *)
theory Rate_Limit_Buckets
  imports Runtime_Helpers
begin

text \<open>
  internal/interactions/runtime_rate_limits.go and the guard decisions of runtime_guardrails.go:
  fixed windows counted in the table \<open>runtime_rate_limit_buckets\<close>, whose unique key (namespace,
  subject, start and end of the window) is the domain of the map \<open>rs_Buckets\<close>. Times and
  durations are integers, in nanoseconds counted from Go's zero time (the table rounds to
  microseconds, which is not modelled; failing database calls are not either), and
  \<open>a || b\<close> of two jsonb objects is \<open>a ++ b\<close>.
\<close>

record 'j rate_bucket =
  bk_ID :: string
  bk_Hits :: int
  bk_BlockedUntil :: "int option"
  bk_Metadata :: "'j json_object"
  bk_UpdatedAt :: int

type_synonym bucket_key = "string \<times> string \<times> int \<times> int"

record 'j EnforceRateLimitInput =
  rl_Namespace :: string
  rl_SubjectKey :: string
  rl_Action :: string
  rl_Limit :: int
  rl_Window :: int
  rl_BlockDuration :: int
  rl_RequestID :: string
  rl_SessionID :: string
  rl_PrincipalID :: string
  rl_Metadata :: "'j json_object"

record 'j RateLimitDecision =
  rd_Namespace :: string
  rd_SubjectKey :: string
  rd_Allowed :: bool
  rd_HitCount :: int
  rd_Limit :: int
  rd_WindowStartedAt :: int
  rd_WindowEndsAt :: int
  rd_BlockedUntil :: "int option"
  rd_RetryAfter :: int
  rd_Metadata :: "'j json_object"

text \<open>A guard decision; the metadata recorded for a blocked request are its numbers.\<close>

record RecordGuardDecisionInput =
  gdi_DecisionID :: string
  gdi_Namespace :: string
  gdi_RequestID :: string
  gdi_SessionID :: string
  gdi_PrincipalID :: string
  gdi_SubjectKey :: string
  gdi_Action :: string
  gdi_Outcome :: string
  gdi_Reason :: string
  gdi_Metadata :: "(string \<times> int) list"

text \<open>A row: the optional columns are null when blank (\<open>nullString\<close>).\<close>

record GuardDecision =
  gd_DecisionID :: string
  gd_Namespace :: string
  gd_RequestID :: "string option"
  gd_SessionID :: "string option"
  gd_PrincipalID :: "string option"
  gd_SubjectKey :: "string option"
  gd_Action :: string
  gd_Outcome :: string
  gd_Reason :: "string option"
  gd_Metadata :: "(string \<times> int) list"

record 'j rate_state =
  rs_Ready :: bool
  rs_Buckets :: "bucket_key \<rightharpoonup> 'j rate_bucket"
  rs_Guards :: "GuardDecision list"

subsection \<open>RecordGuardDecision\<close>

definition RecordGuardDecision ::
  "string \<Rightarrow> RecordGuardDecisionInput \<Rightarrow> 'j rate_state \<Rightarrow>
   (runtime_error + GuardDecision) \<times> 'j rate_state" where
  "RecordGuardDecision fresh i st =
     (if \<not> rs_Ready st then (Inl NotConfigured, st)
      else if blank (gdi_Namespace i) then (Inl (Required ''namespace''), st)
      else if blank (gdi_Action i) \<or> blank (gdi_Outcome i) then (Inl (Required ''action and outcome''), st)
      else
        (let row =
           \<lparr>gd_DecisionID = (if blank (gdi_DecisionID i) then fresh else gdi_DecisionID i),
            gd_Namespace = gdi_Namespace i, gd_RequestID = nullString (gdi_RequestID i),
            gd_SessionID = nullString (gdi_SessionID i),
            gd_PrincipalID = nullString (gdi_PrincipalID i),
            gd_SubjectKey = nullString (gdi_SubjectKey i), gd_Action = gdi_Action i,
            gd_Outcome = gdi_Outcome i, gd_Reason = nullString (gdi_Reason i),
            gd_Metadata = gdi_Metadata i\<rparr>
         in if gd_DecisionID row \<in> gd_DecisionID ` set (rs_Guards st) then (Inl UniqueViolation, st)
            else (Inr row, st\<lparr>rs_Guards := rs_Guards st @ [row]\<rparr>)))"

subsection \<open>EnforceRateLimit\<close>

text \<open>\<open>t.Truncate(d)\<close>: down to a multiple of \<open>d\<close> since the zero time.\<close>

definition truncate_to :: "int \<Rightarrow> int \<Rightarrow> int" where
  "truncate_to d t = t - t mod d"

definition window_of :: "'j EnforceRateLimitInput \<Rightarrow> int" where
  "window_of i = (if rl_Window i \<le> 0 then 60000000000 else rl_Window i)"

definition block_of :: "'j EnforceRateLimitInput \<Rightarrow> int" where
  "block_of i = (if rl_BlockDuration i \<le> 0 then window_of i else rl_BlockDuration i)"

definition rate_key :: "'j EnforceRateLimitInput \<Rightarrow> int \<Rightarrow> bucket_key" where
  "rate_key i now =
     (let start = truncate_to (window_of i) now in
      (rl_Namespace i, rl_SubjectKey i, start, start + window_of i))"

definition next_block :: "int \<Rightarrow> int \<Rightarrow> int \<Rightarrow> int \<Rightarrow> int option \<Rightarrow> int option" where
  "next_block now block limit hits blocked =
     (if (case blocked of None \<Rightarrow> False | Some t \<Rightarrow> t > now) then blocked
      else if hits > limit then Some (now + block)
      else blocked)"

definition hit_bucket ::
  "string \<Rightarrow> int \<Rightarrow> 'j EnforceRateLimitInput \<Rightarrow> 'j rate_bucket option \<Rightarrow> 'j rate_bucket" where
  "hit_bucket fresh now i b =
     (case b of
        None \<Rightarrow>
          \<lparr>bk_ID = fresh, bk_Hits = 1, bk_BlockedUntil = None, bk_Metadata = rl_Metadata i,
           bk_UpdatedAt = now\<rparr>
      | Some b \<Rightarrow>
          b\<lparr>bk_Hits := bk_Hits b + 1,
            bk_BlockedUntil :=
              nullTimeValue (next_block now (block_of i) (rl_Limit i) (bk_Hits b + 1) (bk_BlockedUntil b)),
            bk_Metadata := bk_Metadata b ++ rl_Metadata i, bk_UpdatedAt := now\<rparr>)"

definition decide ::
  "int \<Rightarrow> 'j EnforceRateLimitInput \<Rightarrow> 'j rate_bucket \<Rightarrow> 'j RateLimitDecision" where
  "decide now i b =
     (let (ns, subj, start, end_at) = rate_key i now;
          blocked = (case bk_BlockedUntil b of None \<Rightarrow> False | Some t \<Rightarrow> t > now);
          over = (bk_Hits b > rl_Limit i)
      in \<lparr>rd_Namespace = ns, rd_SubjectKey = subj, rd_Allowed = (\<not> blocked \<and> \<not> over),
          rd_HitCount = bk_Hits b, rd_Limit = rl_Limit i, rd_WindowStartedAt = start,
          rd_WindowEndsAt = end_at, rd_BlockedUntil = bk_BlockedUntil b,
          rd_RetryAfter =
            (if blocked then the (bk_BlockedUntil b) - now else if over then end_at - now else 0),
          rd_Metadata = bk_Metadata b\<rparr>)"

text \<open>
  The result: an error before the bucket is touched, a decision that allows, or the decision
  returned together with a \<open>RateLimitError\<close>.
\<close>

datatype 'j enforced =
    NotEnforced runtime_error
  | Passed "'j RateLimitDecision"
  | RateLimited "'j RateLimitDecision"

definition EnforceRateLimit ::
  "string \<Rightarrow> string \<Rightarrow> int \<Rightarrow> 'j EnforceRateLimitInput \<Rightarrow> 'j rate_state \<Rightarrow>
   'j enforced \<times> 'j rate_state" where
  "EnforceRateLimit bucketID guardID now i st =
     (if \<not> rs_Ready st then (NotEnforced NotConfigured, st)
      else if blank (rl_Namespace i) then (NotEnforced (Required ''namespace''), st)
      else if blank (rl_SubjectKey i) then (NotEnforced (Required ''subject_key''), st)
      else if rl_Limit i \<le> 0 then (NotEnforced LimitNotPositive, st)
      else
        (let key = rate_key i now;
             b = hit_bucket bucketID now i (rs_Buckets st key);
             st' = st\<lparr>rs_Buckets := (rs_Buckets st)(key \<mapsto> b)\<rparr>;
             decision = decide now i b
         in if rd_Allowed decision then (Passed decision, st')
            else
              (RateLimited decision,
               snd (RecordGuardDecision guardID
                 \<lparr>gdi_DecisionID = [], gdi_Namespace = rl_Namespace i, gdi_RequestID = rl_RequestID i,
                  gdi_SessionID = rl_SessionID i, gdi_PrincipalID = rl_PrincipalID i,
                  gdi_SubjectKey = rl_SubjectKey i,
                  gdi_Action = (if blank (rl_Action i) then ''request'' else trim_space (rl_Action i)),
                  gdi_Outcome = ''blocked'', gdi_Reason = ''rate_limit_exceeded'',
                  gdi_Metadata =
                    [(''hit_count'', rd_HitCount decision), (''limit'', rd_Limit decision),
                     (''window_ends_at'', rd_WindowEndsAt decision),
                     (''retry_after_secs'', rd_RetryAfter decision div 1000000000)]\<rparr> st'))))"

subsection \<open>What a request does to the buckets\<close>

definition valid_request :: "'j EnforceRateLimitInput \<Rightarrow> bool" where
  "valid_request i \<longleftrightarrow> \<not> blank (rl_Namespace i) \<and> \<not> blank (rl_SubjectKey i) \<and> 0 < rl_Limit i"

lemma RecordGuardDecision_frame [simp]:
  "rs_Buckets (snd (RecordGuardDecision fresh i st)) = rs_Buckets st"
  "rs_Ready (snd (RecordGuardDecision fresh i st)) = rs_Ready st"
  by (simp_all add: RecordGuardDecision_def Let_def)

lemma window_pos [simp]: "0 < window_of i"
  by (simp add: window_of_def)

lemma EnforceRateLimit_buckets:
  "valid_request i \<Longrightarrow> rs_Ready st \<Longrightarrow>
   rs_Buckets (snd (EnforceRateLimit bid gid now i st)) =
     (rs_Buckets st)(rate_key i now \<mapsto> hit_bucket bid now i (rs_Buckets st (rate_key i now)))"
  by (simp add: EnforceRateLimit_def valid_request_def Let_def)

lemma EnforceRateLimit_ready [simp]:
  "rs_Ready (snd (EnforceRateLimit bid gid now i st)) = rs_Ready st"
  by (simp add: EnforceRateLimit_def Let_def)

lemma EnforceRateLimit_result:
  "valid_request i \<Longrightarrow> rs_Ready st \<Longrightarrow>
   fst (EnforceRateLimit bid gid now i st) =
     (let d = decide now i (hit_bucket bid now i (rs_Buckets st (rate_key i now))) in
      if rd_Allowed d then Passed d else RateLimited d)"
  by (simp add: EnforceRateLimit_def valid_request_def Let_def)

text \<open>
  The state of a bucket after \<open>n\<close> hits in its window: the counter is \<open>n\<close>, and a block is only
  there when the limit has been passed.
\<close>

definition counted :: "int \<Rightarrow> int \<Rightarrow> 'j rate_bucket option \<Rightarrow> bool" where
  "counted limit n b \<longleftrightarrow>
     (case b of None \<Rightarrow> n = 0
      | Some b \<Rightarrow> 0 < n \<and> bk_Hits b = n \<and> (n \<le> limit \<longrightarrow> bk_BlockedUntil b = None))"

lemma counted_hit:
  "counted (rl_Limit i) n b \<Longrightarrow> 0 < rl_Limit i \<Longrightarrow>
   counted (rl_Limit i) (n + 1) (Some (hit_bucket bid now i b))"
  by (auto simp: counted_def hit_bucket_def next_block_def nullTimeValue_def split: option.splits)

lemma decide_allowed:
  "counted (rl_Limit i) n (Some b) \<Longrightarrow> rd_Allowed (decide now i b) \<longleftrightarrow> n \<le> rl_Limit i"
  by (auto simp: counted_def decide_def rate_key_def Let_def split: option.splits)

lemma decide_retry:
  "\<not> rd_Allowed (decide now i b) \<Longrightarrow> 0 < rd_RetryAfter (decide now i b)"
proof -
  have "now mod window_of i < window_of i" by simp
  then have "0 < truncate_to (window_of i) now + window_of i - now"
    by (simp add: truncate_to_def)
  then show "\<not> rd_Allowed (decide now i b) \<Longrightarrow> ?thesis"
    by (auto simp: decide_def rate_key_def Let_def split: option.splits)
qed

text \<open>A client's requests, one after the other; the verdicts in order.\<close>

record 'j timed_request =
  tr_BucketID :: string
  tr_GuardID :: string
  tr_Now :: int
  tr_Input :: "'j EnforceRateLimitInput"

definition allowed_of :: "'j enforced \<Rightarrow> bool" where
  "allowed_of r \<longleftrightarrow> (case r of Passed _ \<Rightarrow> True | _ \<Rightarrow> False)"

fun run_requests :: "'j timed_request list \<Rightarrow> 'j rate_state \<Rightarrow> bool list \<times> 'j rate_state" where
  "run_requests [] st = ([], st)"
| "run_requests (r # rs) st =
     (let (res, st') = EnforceRateLimit (tr_BucketID r) (tr_GuardID r) (tr_Now r) (tr_Input r) st;
          (more, st'') = run_requests rs st'
      in (allowed_of res # more, st''))"

lemma run_requests_verdicts:
  assumes "\<forall>r\<in>set rs. valid_request (tr_Input r) \<and> rate_key (tr_Input r) (tr_Now r) = key \<and>
      rl_Limit (tr_Input r) = limit"
    and "rs_Ready st" "counted limit n (rs_Buckets st key)"
  shows "fst (run_requests rs st) = map (\<lambda>k. n + int k < limit) [0..<length rs]"
  using assms
proof (induction rs arbitrary: st n)
  case (Cons r rs)
  let ?i = "tr_Input r" and ?now = "tr_Now r"
  let ?e = "EnforceRateLimit (tr_BucketID r) (tr_GuardID r) ?now ?i st"
  let ?b = "hit_bucket (tr_BucketID r) ?now ?i (rs_Buckets st key)"
  have r: "valid_request ?i" "rate_key ?i ?now = key" "rl_Limit ?i = limit" "0 < limit"
    using Cons.prems(1) by (auto simp: valid_request_def)
  have b: "counted limit (n + 1) (Some ?b)"
    using counted_hit [of ?i n "rs_Buckets st key"] Cons.prems(3) r by simp
  have "counted limit (n + 1) (rs_Buckets (snd ?e) key)"
    using b EnforceRateLimit_buckets [OF r(1) Cons.prems(2)] by (simp add: r(2))
  then have rest: "fst (run_requests rs (snd ?e)) = map (\<lambda>k. n + 1 + int k < limit) [0..<length rs]"
    using Cons.prems by (intro Cons.IH) auto
  have "allowed_of (fst ?e) \<longleftrightarrow> n < limit"
    using EnforceRateLimit_result [OF r(1) Cons.prems(2)] decide_allowed [of ?i "n + 1" ?b ?now] b
    by (auto simp: r allowed_of_def Let_def)
  then show ?case
    using rest by (simp add: split_beta Let_def upt_conv_Cons map_Suc_upt [symmetric] o_def
        algebra_simps del: upt_Suc)
qed simp

subsection \<open>Properties\<close>

text \<open>Within one window a subject gets exactly its limit: of any sequence of requests that fall
  into the same bucket, in any order of their times, the first \<open>limit\<close> pass and every later one is
  refused, whatever block durations, metadata and identifiers they carry.\<close>

theorem window_admits_exactly_the_limit:
  assumes "\<forall>r\<in>set rs. valid_request (tr_Input r) \<and> rate_key (tr_Input r) (tr_Now r) = key \<and>
      rl_Limit (tr_Input r) = limit"
    and "rs_Ready st" "rs_Buckets st key = None"
  shows "fst (run_requests rs st) = map (\<lambda>k. int k < limit) [0..<length rs]"
  using run_requests_verdicts [OF assms(1,2), of 0] assms(3) by (simp add: counted_def)

definition sample_input :: "unit EnforceRateLimitInput" where
  "sample_input =
     \<lparr>rl_Namespace = ''api.commands'', rl_SubjectKey = ''ip:1'', rl_Action = ''a'', rl_Limit = 1,
      rl_Window = 60, rl_BlockDuration = 3600, rl_RequestID = [], rl_SessionID = [],
      rl_PrincipalID = [], rl_Metadata = (\<lambda>_. None)\<rparr>"

definition sample_request :: "int \<Rightarrow> unit timed_request" where
  "sample_request now =
     \<lparr>tr_BucketID = ''rl_1'', tr_GuardID = ''gd_1'', tr_Now = now, tr_Input = sample_input\<rparr>"

definition empty_rates :: "unit rate_state" where
  "empty_rates = \<lparr>rs_Ready = True, rs_Buckets = (\<lambda>_. None), rs_Guards = []\<rparr>"

lemma sample_input_valid: "valid_request sample_input"
  by (simp add: valid_request_def sample_input_def trim_space_plain plain_ends_def plain_char_def)

lemma sample_key: "rate_key sample_input now = (''api.commands'', ''ip:1'', now - now mod 60, now - now mod 60 + 60)"
  by (simp add: rate_key_def sample_input_def window_of_def truncate_to_def Let_def)

theorem window_admits_exactly_the_limit_witness:
  "fst (run_requests [sample_request 5, sample_request 7] empty_rates) = [True, False]"
proof -
  have "\<forall>r\<in>set [sample_request 5, sample_request 7]. valid_request (tr_Input r) \<and>
      rate_key (tr_Input r) (tr_Now r) = (''api.commands'', ''ip:1'', 0, 60) \<and> rl_Limit (tr_Input r) = 1"
    by (simp add: sample_request_def sample_input_valid sample_key) (simp add: sample_input_def)
  from window_admits_exactly_the_limit [OF this, of empty_rates] show ?thesis
    by (simp add: empty_rates_def upt_rec)
qed

text \<open>A block does not outlive its window: the first request of a new window is always let
  through, whatever block an earlier window has recorded for the subject, because the block is
  stored in the bucket of the window in which it was set. A block duration longer than the rest of
  the window is therefore cut short (in the instance, a block of 3600 set at time 7 in a window
  of 60 is gone at time 60).\<close>

theorem new_window_forgets_the_block:
  assumes "valid_request i" "rs_Ready st" "rs_Buckets st (rate_key i now) = None"
  shows "\<exists>d. fst (EnforceRateLimit bid gid now i st) = Passed d \<and> rd_HitCount d = 1"
proof -
  have "counted (rl_Limit i) 1 (Some (hit_bucket bid now i None))"
    using counted_hit [of i 0 None bid now] assms(1) by (simp add: counted_def valid_request_def)
  then have "rd_Allowed (decide now i (hit_bucket bid now i None))"
    using decide_allowed [of i 1] assms(1) by (auto simp: valid_request_def)
  then show ?thesis
    using EnforceRateLimit_result [OF assms(1,2), of bid gid now] assms(3)
    by (simp add: Let_def decide_def rate_key_def hit_bucket_def)
qed

theorem new_window_forgets_the_block_witness:
  "let st1 = snd (run_requests [sample_request 5, sample_request 7] empty_rates) in
   map_option bk_BlockedUntil (rs_Buckets st1 (''api.commands'', ''ip:1'', 0, 60)) = Some (Some 3607) \<and>
   (\<exists>d. fst (EnforceRateLimit ''rl_2'' ''gd_2'' 60 sample_input st1) = Passed d \<and> rd_HitCount d = 1)"
proof -
  let ?st = "snd (run_requests [sample_request 5, sample_request 7] empty_rates)"
  have ready: "rs_Ready empty_rates" by (simp add: empty_rates_def)
  have bk: "rs_Buckets ?st =
      (\<lambda>_. None)((''api.commands'', ''ip:1'', 0, 60) \<mapsto>
        hit_bucket ''rl_1'' 7 sample_input (Some (hit_bucket ''rl_1'' 5 sample_input None)))"
    by (simp add: split_beta sample_request_def EnforceRateLimit_buckets [OF sample_input_valid] ready
        sample_key) (simp add: empty_rates_def fun_eq_iff)
  have "rs_Ready ?st" by (simp add: split_beta ready)
  moreover have "rs_Buckets ?st (rate_key sample_input 60) = None" unfolding bk sample_key by simp
  ultimately have "\<exists>d. fst (EnforceRateLimit ''rl_2'' ''gd_2'' 60 sample_input ?st) = Passed d \<and> rd_HitCount d = 1"
    by (rule new_window_forgets_the_block [OF sample_input_valid])
  moreover have "map_option bk_BlockedUntil (rs_Buckets ?st (''api.commands'', ''ip:1'', 0, 60)) = Some (Some 3607)"
    unfolding bk by (simp add: hit_bucket_def next_block_def nullTimeValue_def sample_input_def block_of_def)
  ultimately show ?thesis by (simp only: Let_def simp_thms)
qed

text \<open>A refused request is told to wait a positive time, is recorded as a blocked guard decision
  (unless its identifier is taken), and leaves every bucket but its own as it was.\<close>

theorem refused_requests_are_recorded:
  assumes "EnforceRateLimit bid gid now i st = (RateLimited d, st')" "\<not> blank gid"
    and "gid \<notin> gd_DecisionID ` set (rs_Guards st)"
  shows "0 < rd_RetryAfter d \<and>
    (\<exists>g. rs_Guards st' = rs_Guards st @ [g] \<and> gd_Outcome g = ''blocked'' \<and>
         gd_Namespace g = rl_Namespace i \<and> gd_SubjectKey g = nullString (rl_SubjectKey i)) \<and>
    rs_Buckets st' = (rs_Buckets st)(rate_key i now \<mapsto>
      hit_bucket bid now i (rs_Buckets st (rate_key i now)))"
proof -
  have v: "valid_request i" "rs_Ready st"
    using assms(1) by (auto simp: EnforceRateLimit_def valid_request_def split: if_splits)
  let ?d = "decide now i (hit_bucket bid now i (rs_Buckets st (rate_key i now)))"
  have d: "\<not> rd_Allowed ?d" "d = ?d"
    using EnforceRateLimit_result [OF v, of bid gid now] assms(1)
    by (auto simp: Let_def split: if_splits)
  have "rs_Buckets st' = (rs_Buckets st)(rate_key i now \<mapsto>
      hit_bucket bid now i (rs_Buckets st (rate_key i now)))"
    using EnforceRateLimit_buckets [OF v, of bid gid now] assms(1) by simp
  moreover have "\<exists>g. rs_Guards st' = rs_Guards st @ [g] \<and> gd_Outcome g = ''blocked'' \<and>
         gd_Namespace g = rl_Namespace i \<and> gd_SubjectKey g = nullString (rl_SubjectKey i)"
    using assms v d
    by (auto simp: EnforceRateLimit_def valid_request_def Let_def RecordGuardDecision_def
        trim_space_plain plain_ends_def plain_char_def split: if_splits)
  ultimately show ?thesis using decide_retry [OF d(1)] d(2) by simp
qed

theorem refused_requests_are_recorded_witness:
  "\<exists>d st'. EnforceRateLimit ''rl_1'' ''gd_1'' 7 sample_input
       (snd (EnforceRateLimit ''rl_1'' ''gd_1'' 5 sample_input empty_rates)) = (RateLimited d, st') \<and>
     0 < rd_RetryAfter d"
proof -
  let ?st = "snd (EnforceRateLimit ''rl_1'' ''gd_1'' 5 sample_input empty_rates)"
  let ?b = "hit_bucket ''rl_1'' 5 sample_input None"
  have ready: "rs_Ready empty_rates" by (simp add: empty_rates_def)
  have st: "rs_Buckets ?st (rate_key sample_input 7) = Some ?b"
    by (simp add: EnforceRateLimit_buckets [OF sample_input_valid ready] sample_key)
       (simp add: empty_rates_def)
  have c: "counted 1 2 (Some (hit_bucket ''rl_1'' 7 sample_input (Some ?b)))"
    by (simp add: counted_def hit_bucket_def)
  have l: "rl_Limit sample_input = 1" by (simp add: sample_input_def)
  have "\<not> rd_Allowed (decide 7 sample_input (hit_bucket ''rl_1'' 7 sample_input (Some ?b)))"
    using decide_allowed [of sample_input 2] c by (simp add: l)
  then obtain d where "fst (EnforceRateLimit ''rl_1'' ''gd_1'' 7 sample_input ?st) = RateLimited d"
    using EnforceRateLimit_result [OF sample_input_valid, of ?st "''rl_1''" "''gd_1''" 7] ready
    by (simp add: st Let_def)
  then obtain st' where e: "EnforceRateLimit ''rl_1'' ''gd_1'' 7 sample_input ?st = (RateLimited d, st')"
    by (metis prod.collapse)
  have "rd_Allowed (decide 5 sample_input (hit_bucket ''rl_1'' 5 sample_input None))"
    using decide_allowed [of sample_input 1 "hit_bucket ''rl_1'' 5 sample_input None" 5]
    by (simp add: l counted_def hit_bucket_def)
  then have "rs_Guards ?st = []"
    using sample_input_valid
    by (simp add: EnforceRateLimit_def valid_request_def Let_def empty_rates_def)
  with refused_requests_are_recorded [OF e] e show ?thesis
    by (auto simp: trim_space_plain plain_ends_def plain_char_def)
qed

end
