(* ===== verification/Error_Responses.thy ===== *)
theory Error_Responses
  imports Http_Requests Rate_Limit_Buckets "HOL-Library.Signed_Division"
begin

text \<open>
  internal/http/server/error_responses.go: how an error becomes a status and a JSON body. An error
  value is its chain: \<open>HTTPErr\<close> and \<open>RateErr\<close> are the two struct types, \<open>Sentinel\<close> the exported
  variables of package interactions, \<open>Wrapped p e\<close> is \<open>fmt.Errorf("p: %w", e)\<close>, \<open>Detailed e d\<close>
  is \<open>fmt.Errorf("%w: d", e)\<close>, \<open>Plain\<close> any other error. Durations are 64-bit nanoseconds.
\<close>

datatype sentinel = ErrRateLimited | ErrUnauthorized | ErrForbidden | ErrConflict | ErrNotFound

datatype go_error =
    HTTPErr (he_status: int) (he_code: string) (he_message: string)
      (he_details: "(string \<times> string) list") (he_retryAfter: int) (he_cause: "go_error option")
  | RateErr (re_Namespace: string) (re_SubjectKey: string) (re_Message: string) (re_RetryAfter: int)
  | Sentinel sentinel
  | Wrapped string go_error
  | Detailed go_error string
  | Plain string

record ErrorBody =
  eb_Code :: string
  eb_Message :: string
  eb_RequestID :: string
  eb_RetryAfterSeconds :: int
  eb_Details :: "(string \<times> string) list"

fun sentinel_text :: "sentinel \<Rightarrow> string" where
  "sentinel_text ErrRateLimited = ''runtime rate limited''"
| "sentinel_text ErrUnauthorized = ''runtime unauthorized''"
| "sentinel_text ErrForbidden = ''runtime forbidden''"
| "sentinel_text ErrConflict = ''runtime conflict''"
| "sentinel_text ErrNotFound = ''runtime record not found''"

text \<open>\<open>err.Error()\<close>, \<open>errors.As\<close> for the two types, \<open>errors.Is\<close> for a sentinel.\<close>

fun error_text :: "go_error \<Rightarrow> string" where
  "error_text (HTTPErr st code msg d ra cause) = (case cause of Some e \<Rightarrow> error_text e | None \<Rightarrow> msg)"
| "error_text (RateErr ns sk msg ra) = (if msg = [] then ''rate limited'' else msg)"
| "error_text (Sentinel s) = sentinel_text s"
| "error_text (Wrapped p e) = p @ '': '' @ error_text e"
| "error_text (Detailed e d) = error_text e @ '': '' @ d"
| "error_text (Plain s) = s"

fun as_http :: "go_error \<Rightarrow> go_error option" where
  "as_http (HTTPErr st code msg d ra cause) = Some (HTTPErr st code msg d ra cause)"
| "as_http (Wrapped p e) = as_http e"
| "as_http (Detailed e d) = as_http e"
| "as_http _ = None"

fun as_rate :: "go_error \<Rightarrow> go_error option" where
  "as_rate (HTTPErr st code msg d ra cause) = (case cause of Some e \<Rightarrow> as_rate e | None \<Rightarrow> None)"
| "as_rate (RateErr ns sk msg ra) = Some (RateErr ns sk msg ra)"
| "as_rate (Wrapped p e) = as_rate e"
| "as_rate (Detailed e d) = as_rate e"
| "as_rate _ = None"

fun is_sentinel :: "sentinel \<Rightarrow> go_error \<Rightarrow> bool" where
  "is_sentinel s (HTTPErr st code msg d ra cause) =
     (case cause of Some e \<Rightarrow> is_sentinel s e | None \<Rightarrow> False)"
| "is_sentinel s (RateErr ns sk msg ra) = (s = ErrRateLimited)"
| "is_sentinel s (Sentinel t) = (t = s)"
| "is_sentinel s (Wrapped p e) = is_sentinel s e"
| "is_sentinel s (Detailed e d) = is_sentinel s e"
| "is_sentinel s (Plain x) = False"

subsection \<open>Constructors\<close>

definition NewHTTPError :: "int \<Rightarrow> string \<Rightarrow> string \<Rightarrow> go_error" where
  "NewHTTPError status code message =
     HTTPErr status (trim_space code) (trim_space message) [] 0 None"

definition NewHTTPErrorWithCause :: "int \<Rightarrow> string \<Rightarrow> string \<Rightarrow> go_error \<Rightarrow> go_error" where
  "NewHTTPErrorWithCause status code message cause =
     HTTPErr status (trim_space code) (trim_space message) [] 0 (Some cause)"

definition BadRequest where "BadRequest message = NewHTTPError 400 ''bad_request'' message"
definition Unauthorized where "Unauthorized message = NewHTTPError 401 ''unauthorized'' message"
definition Forbidden where "Forbidden message = NewHTTPError 403 ''forbidden'' message"
definition NotFound where "NotFound message = NewHTTPError 404 ''not_found'' message"
definition Conflict where "Conflict message = NewHTTPError 409 ''conflict'' message"
definition ServiceUnavailable where
  "ServiceUnavailable message = NewHTTPError 503 ''service_unavailable'' message"
definition Internal where "Internal message = NewHTTPError 500 ''internal'' message"

definition RateLimitedError :: "string \<Rightarrow> int \<Rightarrow> (string \<times> string) list \<Rightarrow> go_error" where
  "RateLimitedError message retryAfter details =
     HTTPErr 429 (trim_space ''rate_limited'') (trim_space message) details retryAfter None"

subsection \<open>Status and message\<close>

definition resolveHTTPStatus :: "int \<Rightarrow> go_error option \<Rightarrow> int" where
  "resolveHTTPStatus status err =
     (let http = (case err of None \<Rightarrow> None | Some e \<Rightarrow> as_http e);
          is = (\<lambda>s. case err of None \<Rightarrow> False | Some e \<Rightarrow> is_sentinel s e)
      in if (case http of None \<Rightarrow> False | Some h \<Rightarrow> he_status h > 0) then he_status (the http)
         else if is ErrRateLimited then 429
         else if is ErrUnauthorized then 401
         else if is ErrForbidden then 403
         else if is ErrConflict then 409
         else if is ErrNotFound then 404
         else if status > 0 then status
         else 500)"

definition userVisibleBadRequest :: "go_error option \<Rightarrow> string" where
  "userVisibleBadRequest err =
     (case err of
        None \<Rightarrow> []
      | Some e \<Rightarrow>
          (let message = trim_space (error_text e) in
           if message = [] \<or> length message > 200 \<or> str_contains message [CHR 0x0A] \<or>
              str_contains message ''/'' \<or> str_contains message [CHR 0x5C] \<or>
              str_contains message '': '' \<or>
              str_contains (to_lower message) ''select '' \<or> str_contains (to_lower message) ''insert '' \<or>
              str_contains (to_lower message) ''update '' \<or> str_contains (to_lower message) ''delete ''
           then [] else message))"

definition fixed_message :: "int \<Rightarrow> string" where
  "fixed_message status =
     (if status = 400 then ''invalid request''
      else if status = 401 then ''authentication required''
      else if status = 403 then ''forbidden''
      else if status = 404 then ''not found''
      else if status = 409 then ''request conflicts with existing state''
      else if status = 429 then ''Too many requests. Try again shortly.''
      else if status = 503 then ''service unavailable''
      else ''internal error'')"

definition own_message :: "go_error option \<Rightarrow> string option" where
  "own_message err =
     (case err of
        None \<Rightarrow> None
      | Some e \<Rightarrow>
          (case as_http e of
             Some h \<Rightarrow>
               if trim_space (he_message h) \<noteq> [] then Some (trim_space (he_message h))
               else (case as_rate e of
                       Some r \<Rightarrow> if trim_space (re_Message r) \<noteq> [] then Some (trim_space (re_Message r)) else None
                     | None \<Rightarrow> None)
           | None \<Rightarrow>
               (case as_rate e of
                  Some r \<Rightarrow> if trim_space (re_Message r) \<noteq> [] then Some (trim_space (re_Message r)) else None
                | None \<Rightarrow> None)))"

definition safeErrorMessage :: "int \<Rightarrow> go_error option \<Rightarrow> string" where
  "safeErrorMessage status err =
     (case own_message err of
        Some m \<Rightarrow> m
      | None \<Rightarrow>
          if status = 400 \<and> userVisibleBadRequest err \<noteq> [] then userVisibleBadRequest err
          else fixed_message status)"

definition statusCodeName :: "int \<Rightarrow> string" where
  "statusCodeName status =
     (if status = 400 then ''bad_request''
      else if status = 401 then ''unauthorized''
      else if status = 403 then ''forbidden''
      else if status = 404 then ''not_found''
      else if status = 405 then ''method_not_allowed''
      else if status = 409 then ''conflict''
      else if status = 413 then ''payload_too_large''
      else if status = 429 then ''rate_limited''
      else if status = 503 then ''service_unavailable''
      else ''internal'')"

subsection \<open>Retry-After\<close>

text \<open>Two's complement wrap-around of 64-bit arithmetic.\<close>

definition wrap64 :: "int \<Rightarrow> int" where
  "wrap64 x = (x + 2 ^ 63) mod 2 ^ 64 - 2 ^ 63"

definition durationSeconds :: "int \<Rightarrow> int" where
  "durationSeconds v =
     (if v \<le> 0 then 0
      else let seconds = wrap64 (v + 999999999) sdiv 1000000000 in if seconds < 1 then 1 else seconds)"

subsection \<open>Bodies\<close>

definition withAuthState :: "(string \<times> string) list \<Rightarrow> string \<Rightarrow> (string \<times> string) list" where
  "withAuthState details authState =
     (if trim_space authState = [] then details
      else if map_of details ''auth_state'' = None then details @ [(''auth_state'', authState)]
      else details)"

definition withNonEmptyDetails :: "(string \<times> string) list \<Rightarrow> (string \<times> string) list" where
  "withNonEmptyDetails details = filter (\<lambda>kv. trim_space (snd kv) \<noteq> []) details"

definition shouldIncludeAuthState :: "string \<Rightarrow> bool" where
  "shouldIncludeAuthState code \<longleftrightarrow> trim_space code \<in> {''unauthorized'', ''forbidden'', ''rate_limited''}"

definition bodyFromHTTPError :: "go_error \<Rightarrow> ErrorBody" where
  "bodyFromHTTPError h =
     \<lparr>eb_Code = server_firstNonEmpty [trim_space (he_code h), statusCodeName (he_status h)],
      eb_Message = server_firstNonEmpty
        [trim_space (he_message h), safeErrorMessage (he_status h) (Some h)],
      eb_RequestID = [], eb_RetryAfterSeconds = durationSeconds (he_retryAfter h),
      eb_Details = he_details h\<rparr>"

definition buildErrorBody :: "int \<Rightarrow> go_error option \<Rightarrow> ErrorBody" where
  "buildErrorBody status err =
     (let resolved = resolveHTTPStatus status err;
          plain = \<lparr>eb_Code = statusCodeName resolved, eb_Message = safeErrorMessage resolved err,
                   eb_RequestID = [], eb_RetryAfterSeconds = 0, eb_Details = []\<rparr>
      in case err of
           None \<Rightarrow> plain
         | Some e \<Rightarrow>
             (case as_http e of
                Some h \<Rightarrow> bodyFromHTTPError h
              | None \<Rightarrow>
                  (case as_rate e of
                     None \<Rightarrow> plain
                   | Some r \<Rightarrow>
                       \<lparr>eb_Code = ''rate_limited'',
                        eb_Message = server_firstNonEmpty
                          [trim_space (re_Message r), ''Too many requests. Try again shortly.''],
                        eb_RequestID = [], eb_RetryAfterSeconds = durationSeconds (re_RetryAfter r),
                        eb_Details = withNonEmptyDetails
                          [(''namespace'', trim_space (re_Namespace r)),
                           (''subject_key'', trim_space (re_SubjectKey r))]\<rparr>)))"

text \<open>\<open>strconv.Itoa\<close>.\<close>

fun decimal :: "nat \<Rightarrow> string" where
  "decimal n =
     (if n < 10 then [char_of (48 + n)] else decimal (n div 10) @ [char_of (48 + n mod 10)])"

declare decimal.simps [simp del]

definition itoa :: "int \<Rightarrow> string" where
  "itoa n = (if n < 0 then CHR ''-'' # decimal (nat (- n)) else decimal (nat n))"

text \<open>What \<open>WriteJSONError\<close> sends: the status, the headers it sets, the body. \<open>set_id\<close> is the request
  id the response already carries.\<close>

definition WriteJSONError ::
  "string \<Rightarrow> request_context option \<Rightarrow> int \<Rightarrow> go_error option \<Rightarrow>
   int \<times> (string \<times> string) list \<times> ErrorBody" where
  "WriteJSONError set_id ctx status err =
     (let spec0 = buildErrorBody status err;
          spec1 = (if eb_RequestID spec0 = [] then spec0\<lparr>eb_RequestID := trim_space set_id\<rparr> else spec0);
          spec2 = (case ctx of
                     None \<Rightarrow> spec1
                   | Some c \<Rightarrow>
                       (let s = (if eb_RequestID spec1 = []
                                 then spec1\<lparr>eb_RequestID := md_RequestID (RequestMetadataFromContext c)\<rparr>
                                 else spec1)
                        in if shouldIncludeAuthState (eb_Code s)
                           then s\<lparr>eb_Details := withAuthState (eb_Details s) (AuthStateFromContext c)\<rparr>
                           else s))
      in (resolveHTTPStatus status err,
          (if eb_RetryAfterSeconds spec2 > 0
           then [(''Retry-After'', itoa (eb_RetryAfterSeconds spec2))] else []) @
          [(''Content-Type'', ''application/json'')],
          spec2))"

definition WriteTextError :: "int \<Rightarrow> go_error option \<Rightarrow> int \<times> string" where
  "WriteTextError status err =
     (resolveHTTPStatus status err, eb_Message (buildErrorBody status err))"

definition PrefersJSONErrors :: "http_request option \<Rightarrow> bool" where
  "PrefersJSONErrors req =
     (case req of
        None \<Rightarrow> False
      | Some r \<Rightarrow>
          (let path = trim_space (rq_Path r) in
           if has_prefix path ''/v1/'' \<or> has_prefix path ''/boot/'' \<or> has_prefix path ''/feedback/''
           then True
           else str_contains (to_lower (trim_space (rq_Header r ''Accept''))) ''application/json''))"

subsection \<open>Properties\<close>

lemma wrap64_id: "- (2 ^ 63) \<le> x \<Longrightarrow> x < 2 ^ 63 \<Longrightarrow> wrap64 x = x"
  by (simp add: wrap64_def)

lemma durationSeconds_ceil:
  assumes "0 < v" "v < 2 ^ 63 - 999999999"
  shows "v \<le> durationSeconds v * 1000000000 \<and> durationSeconds v * 1000000000 < v + 1000000000"
proof -
  have "wrap64 (v + 999999999) = v + 999999999" using assms by (intro wrap64_id) auto
  moreover have "(v + 999999999) sdiv 1000000000 = (v + 999999999) div 1000000000"
    using assms by (simp add: signed_divide_int_def)
  moreover have "1 \<le> (v + 999999999) div 1000000000" using assms by simp
  ultimately show ?thesis using assms(1) by (simp add: durationSeconds_def Let_def) linarith
qed

text \<open>The seconds announced to a rate limited client are the waiting time rounded up: never
  shorter than the wait and less than one second longer, for every wait up to about 292 years
  (where the rounding overflows 64 bits).\<close>

theorem retry_after_rounds_up:
  assumes "0 < v" "v < 2 ^ 63 - 999999999"
  shows "v \<le> eb_RetryAfterSeconds (bodyFromHTTPError (RateLimitedError msg v d)) * 1000000000 \<and>
         eb_RetryAfterSeconds (bodyFromHTTPError (RateLimitedError msg v d)) * 1000000000 < v + 1000000000"
  using durationSeconds_ceil [OF assms] by (simp add: bodyFromHTTPError_def RateLimitedError_def)

theorem retry_after_rounds_up_witness:
  "eb_RetryAfterSeconds (bodyFromHTTPError (RateLimitedError ''m'' 1500000000 [])) = 2"
  using retry_after_rounds_up [of 1500000000 "''m''" "[]"] by simp

definition fixed_messages :: "string set" where
  "fixed_messages =
     {''invalid request'', ''authentication required'', ''forbidden'', ''not found'',
      ''request conflicts with existing state'', ''Too many requests. Try again shortly.'',
      ''service unavailable'', ''internal error''}"

text \<open>The text of an internal error does not reach the client: for an error without an HTTP or
  rate limit error in its chain the message is one of eight fixed texts, or the status is 400 and
  the message, of at most 200 bytes, contains no line break, no slash or backslash and no
  \<open>": "\<close> that wrapping leaves behind.\<close>

theorem internal_errors_stay_internal:
  assumes "as_http e = None" "as_rate e = None"
    and "m = eb_Message (buildErrorBody status (Some e))"
    and "m \<notin> fixed_messages"
  shows "resolveHTTPStatus status (Some e) = 400 \<and> length m \<le> 200 \<and>
         {CHR 0x0A, CHR ''/'', CHR 0x5C} \<inter> set m = {} \<and> \<not> sublist '': '' m"
proof -
  have m: "m = safeErrorMessage (resolveHTTPStatus status (Some e)) (Some e)"
    using assms(1-3) by (simp add: buildErrorBody_def Let_def)
  have "fixed_message s \<in> fixed_messages" for s
    by (simp add: fixed_message_def fixed_messages_def)
  moreover have "own_message (Some e) = None" using assms(1,2) by (simp add: own_message_def)
  ultimately have st: "resolveHTTPStatus status (Some e) = 400" "m = userVisibleBadRequest (Some e)" "m \<noteq> []"
    using m assms(4) by (auto simp: safeErrorMessage_def split: if_splits)
  have in_set: "\<not> sublist [c] m \<Longrightarrow> c \<notin> set m" for c
    by (auto simp: sublist_def in_set_conv_decomp)
  show ?thesis
    using st in_set
    by (auto simp: userVisibleBadRequest_def Let_def str_contains_iff split: if_splits)
qed

theorem internal_errors_stay_internal_witness:
  "length (eb_Message (buildErrorBody 400 (Some (Plain ''limit is bad'')))) \<le> 200"
proof -
  have m: "eb_Message (buildErrorBody 400 (Some (Plain ''limit is bad''))) = ''limit is bad''"
  proof -
    have "to_lower ''limit is bad'' = ''limit is bad''" by code_simp
    then show ?thesis
      by (simp add: buildErrorBody_def Let_def resolveHTTPStatus_def safeErrorMessage_def
          own_message_def userVisibleBadRequest_def trim_space_plain plain_ends_def plain_char_def)
  qed
  have "''limit is bad'' \<notin> fixed_messages" by (simp add: fixed_messages_def)
  with internal_errors_stay_internal [of "Plain ''limit is bad''" _ 400] m show ?thesis by simp
qed

end
