(* ===== verification/Rate_Limit_Policy.thy ===== *)
theory Rate_Limit_Policy
  imports Error_Responses
begin

text \<open>
  internal/http/server/rate_limit.go: which requests are counted, under which name and against
  which limit, for whom, and what the middleware does with the answer. \<open>net.ParseIP\<close> followed by
  \<open>String\<close> is the parameter \<open>parse_ip\<close> (the canonical form of a valid address), and
  \<open>net.SplitHostPort\<close> the parameter \<open>split_host\<close> (the host, if there is a port).
\<close>

record RateLimitOptions =
  ro_Enabled :: bool
  ro_Window :: int
  ro_BlockDuration :: int
  ro_AnonymousReadLimit :: int
  ro_AnonymousWriteLimit :: int
  ro_SessionReadLimit :: int
  ro_SessionWriteLimit :: int
  ro_InternalLimit :: int
  ro_WorkerLimit :: int
  ro_FeedbackLimit :: int

record routeRateLimitPolicy =
  pl_Namespace :: string
  pl_Action :: string
  pl_Limit :: int
  pl_Window :: int
  pl_Block :: int

record net_parsers =
  np_ParseIP :: "string \<Rightarrow> string option"
  np_SplitHost :: "string \<Rightarrow> string option"

definition policy :: "RateLimitOptions \<Rightarrow> string \<Rightarrow> string \<Rightarrow> int \<Rightarrow> routeRateLimitPolicy option" where
  "policy options namespace action limit =
     Some \<lparr>pl_Namespace = namespace, pl_Action = action, pl_Limit = limit,
           pl_Window = ro_Window options, pl_Block = ro_BlockDuration options\<rparr>"

definition rateLimitPolicyForRequest ::
  "RateLimitOptions \<Rightarrow> request_context \<Rightarrow> http_request \<Rightarrow> routeRateLimitPolicy option" where
  "rateLimitPolicyForRequest options ctx r =
     (let path = trim_space (rq_Path r);
          authenticated = (AuthStateFromContext ctx = ''session'');
          readLimit = (if authenticated then ro_SessionReadLimit options else ro_AnonymousReadLimit options);
          writeLimit = (if authenticated then ro_SessionWriteLimit options else ro_AnonymousWriteLimit options)
      in if path = ''/healthz'' \<or> path = ''/v1/runtime/health'' then None
         else if has_prefix path ''/feedback/incidents''
           then policy options ''feedback.incidents'' ''feedback.record'' (ro_FeedbackLimit options)
         else if has_prefix path ''/boot/commands/'' then policy options ''boot.commands'' path writeLimit
         else if has_prefix path ''/boot/projections/'' then policy options ''boot.projections'' path readLimit
         else if has_prefix path ''/v1/runtime/jobs/claim'' \<or>
              has_suffix path ''/complete'' \<and> str_contains path ''/v1/runtime/jobs/'' \<or>
              has_suffix path ''/fail'' \<and> str_contains path ''/v1/runtime/jobs/''
           then policy options ''internal.runtime.worker'' path (ro_WorkerLimit options)
         else if has_prefix path ''/v1/runtime/'' then policy options ''internal.runtime'' path (ro_InternalLimit options)
         else if has_prefix path ''/v1/commands/'' then policy options ''api.commands'' path writeLimit
         else if has_prefix path ''/v1/projections/'' then policy options ''api.projections'' path readLimit
         else if has_prefix path ''/v1/contracts'' then policy options ''api.contracts'' path readLimit
         else if has_prefix path ''/v1/registry/'' then policy options ''api.registry'' path readLimit
         else None)"

subsection \<open>The subject of a request\<close>

definition firstForwardedFor :: "string \<Rightarrow> string" where
  "firstForwardedFor v = (if trim_space v = [] then [] else trim_space (hd (split_on (CHR '','') v)))"

definition remoteHost :: "net_parsers \<Rightarrow> string \<Rightarrow> string" where
  "remoteHost np v = (case np_SplitHost np (trim_space v) of None \<Rightarrow> trim_space v | Some h \<Rightarrow> h)"

definition normalizedIP :: "net_parsers \<Rightarrow> string \<Rightarrow> string" where
  "normalizedIP np v =
     (if trim_space v = [] then []
      else case np_ParseIP np (trim_space v) of None \<Rightarrow> [] | Some ip \<Rightarrow> ip)"

definition requestClientIP :: "net_parsers \<Rightarrow> http_request \<Rightarrow> string" where
  "requestClientIP np r =
     server_firstNonEmpty
       (map (normalizedIP np)
          [trim_space (rq_Header r ''CF-Connecting-IP''), trim_space (rq_Header r ''True-Client-IP''),
           firstForwardedFor (rq_Header r ''X-Forwarded-For''), trim_space (rq_Header r ''X-Real-IP''),
           remoteHost np (rq_RemoteAddr r)])"

text \<open>Subject key, authentication state, principal.\<close>

definition rateLimitSubjectKey ::
  "net_parsers \<Rightarrow> request_context \<Rightarrow> http_request \<Rightarrow> string \<times> string \<times> string" where
  "rateLimitSubjectKey np ctx r =
     (let anonymous =
            (let sessionID = trim_space (md_SessionID (RequestMetadataFromContext ctx));
                 ip = requestClientIP np r
             in if sessionID \<noteq> [] then (''session:'' @ sessionID, ''anonymous'', [])
                else if ip \<noteq> [] then (''ip:'' @ ip, ''anonymous'', [])
                else (''anonymous:global'', ''anonymous'', []))
      in case SessionFromContext ctx of
           None \<Rightarrow> anonymous
         | Some s \<Rightarrow>
             if trim_space (ss_SessionID s) = [] then anonymous
             else if trim_space (ss_PrincipalID s) \<noteq> []
               then (''principal:'' @ trim_space (ss_PrincipalID s), ''session'', trim_space (ss_PrincipalID s))
             else (''session:'' @ trim_space (ss_SessionID s), ''session'', []))"

definition rateLimitMessage :: "string \<Rightarrow> string \<Rightarrow> string" where
  "rateLimitMessage namespace authState =
     (if authState = ''session''
        then ''Too many requests for this signed-in session. Try again shortly.''
      else if namespace = ''feedback.incidents''
        then ''Too many incident reports were sent from this browser. Try again shortly.''
      else ''Too many requests from this client. Try again shortly.'')"

subsection \<open>The middleware\<close>

definition enforce_input ::
  "routeRateLimitPolicy \<Rightarrow> net_parsers \<Rightarrow> request_context \<Rightarrow> http_request \<Rightarrow> string EnforceRateLimitInput"
where
  "enforce_input p np ctx r =
     (let (subjectKey, authState, principalID) = rateLimitSubjectKey np ctx r;
          m = RequestMetadataFromContext ctx
      in \<lparr>rl_Namespace = pl_Namespace p, rl_SubjectKey = subjectKey, rl_Action = pl_Action p,
          rl_Limit = pl_Limit p, rl_Window = pl_Window p, rl_BlockDuration = pl_Block p,
          rl_RequestID = md_RequestID m, rl_SessionID = md_SessionID m, rl_PrincipalID = principalID,
          rl_Metadata = (\<lambda>_. None)(''auth_state'' \<mapsto> authState, ''method'' \<mapsto> rq_Method r,
                                     ''path'' \<mapsto> rq_Path r)\<rparr>)"

text \<open>\<open>None\<close> is the next handler; otherwise the refusal. An error other than the rate limit lets the
  request through.\<close>

definition RateLimitMiddleware ::
  "(string EnforceRateLimitInput \<Rightarrow> 's \<Rightarrow> string enforced \<times> 's) option \<Rightarrow> RateLimitOptions \<Rightarrow> net_parsers \<Rightarrow>
   request_context \<Rightarrow> http_request \<Rightarrow> 's \<Rightarrow>
   (int \<times> (string \<times> string) list \<times> ErrorBody) option \<times> 's" where
  "RateLimitMiddleware enforcer options np ctx r st =
     (case enforcer of
        None \<Rightarrow> (None, st)
      | Some enforce \<Rightarrow>
          if \<not> ro_Enabled options then (None, st)
          else case rateLimitPolicyForRequest options ctx r of
            None \<Rightarrow> (None, st)
          | Some p \<Rightarrow>
              if pl_Limit p \<le> 0 then (None, st)
              else
                (case enforce (enforce_input p np ctx r) st of
                   (RateLimited d, st') \<Rightarrow>
                     (let authState = fst (snd (rateLimitSubjectKey np ctx r)) in
                      (Some (WriteJSONError [] (Some ctx) 429
                         (Some (RateLimitedError (rateLimitMessage (pl_Namespace p) authState)
                            (rd_RetryAfter d)
                            [(''auth_state'', authState), (''limit'', itoa (rd_Limit d)),
                             (''namespace'', rd_Namespace d)]))), st'))
                 | (_, st') \<Rightarrow> (None, st')))"

subsection \<open>Properties\<close>

lemma not_blank_prefix:
  assumes "plain_char c"
  shows "trim_space (c # s) \<noteq> []"
proof -
  have "trim_left (c # s) = c # s"
    by (simp add: trim_left_def strip_runs_fix head_run_plain [OF space_runes_ends(1) assms])
  moreover have "trim_right (c # s) \<noteq> []"
  proof
    assume "trim_right (c # s) = []"
    then have "strip_runs (map rev space_runes) (rev s @ [c]) = []" by (simp add: trim_right_def)
    moreover have "\<exists>t. strip_runs ws (u @ [c]) = t @ [c]" if "\<forall>w\<in>set ws. c \<notin> set w" for ws u
      using that
    proof (induction "length u" arbitrary: u rule: less_induct)
      case less
      have bound: "head_run ws (u @ [c]) \<le> length u"
        using less.prems
      proof (induction ws)
        case (Cons w ws)
        have "length w \<le> length u" if "prefix w (u @ [c])"
          using that Cons.prems by (cases "w = u @ [c]") (auto simp: prefix_snoc dest: prefix_length_le)
        then show ?case using Cons by auto
      qed simp
      show ?case
      proof (cases "head_run ws (u @ [c]) = 0")
        case True
        then show ?thesis by (simp add: strip_runs_fix)
      next
        case False
        then have "strip_runs ws (u @ [c]) = strip_runs ws (drop (head_run ws (u @ [c])) u @ [c])"
          using bound by (subst strip_runs.simps) simp
        moreover have "length (drop (head_run ws (u @ [c])) u) < length u" using False bound by simp
        ultimately show ?thesis using less.hyps less.prems by metis
      qed
    qed
    moreover have "\<forall>w\<in>set (map rev space_runes). c \<notin> set w"
      using assms by (auto simp: space_runes_def plain_char_def)
    ultimately show False by (metis append_is_Nil_conv list.distinct(1))
  qed
  ultimately show ?thesis by (simp add: trim_space_def)
qed

lemma plain_initials: "plain_char CHR ''p''" "plain_char CHR ''s''" "plain_char CHR ''i''" "plain_char CHR ''a''"
  by (simp_all add: plain_char_def)

lemma subject_not_blank: "trim_space (fst (rateLimitSubjectKey np ctx r)) \<noteq> []"
  by (simp add: rateLimitSubjectKey_def Let_def not_blank_prefix plain_initials split: option.split)

lemma subject_auth_state: "fst (snd (rateLimitSubjectKey np ctx r)) = AuthStateFromContext ctx"
  by (simp add: rateLimitSubjectKey_def AuthStateFromContext_def Let_def split: option.split)

lemma policy_namespace:
  "rateLimitPolicyForRequest options ctx r = Some p \<Longrightarrow> trim_space (pl_Namespace p) \<noteq> []"
  by (auto simp: rateLimitPolicyForRequest_def policy_def Let_def trim_space_plain plain_ends_def
      plain_char_def split: if_splits)

lemma enforce_input_valid:
  "rateLimitPolicyForRequest options ctx r = Some p \<Longrightarrow> 0 < pl_Limit p \<Longrightarrow>
   valid_request (enforce_input p np ctx r)"
  using policy_namespace subject_not_blank [of np ctx r]
  by (auto simp: valid_request_def enforce_input_def split_beta Let_def)

lemma RateLimitMiddleware_enforced:
  assumes "ro_Enabled options" "rateLimitPolicyForRequest options ctx r = Some p" "0 < pl_Limit p"
    and "EnforceRateLimit bid gid now (enforce_input p np ctx r) st = (res, st1)"
  shows "\<exists>resp. RateLimitMiddleware (Some (EnforceRateLimit bid gid now)) options np ctx r st = (resp, st1) \<and>
           (resp = None \<longleftrightarrow> (\<forall>d. res \<noteq> RateLimited d))"
  using assms by (cases res) (simp_all add: RateLimitMiddleware_def Let_def, metis prod_cases3)

text \<open>C10: With the runtime service up the middleware never lets a counted request through by
  accident: the request is counted in the bucket of its subject and window (no validation error of
  the enforcement makes the middleware fail open), and it reaches the handler exactly if that
  bucket's decision allows it.\<close>

theorem counted_requests_are_enforced:
  assumes "ro_Enabled options" "rateLimitPolicyForRequest options ctx r = Some p" "0 < pl_Limit p"
    and "rs_Ready st" "i = enforce_input p np ctx r"
    and "RateLimitMiddleware (Some (EnforceRateLimit bid gid now)) options np ctx r st = (resp, st')"
  shows "\<exists>b. rs_Buckets st' (rate_key i now) = Some b \<and>
             b = hit_bucket bid now i (rs_Buckets st (rate_key i now)) \<and>
             (resp = None \<longleftrightarrow> rd_Allowed (decide now i b))"
proof -
  have v: "valid_request i" using enforce_input_valid [OF assms(2,3)] assms(5) by simp
  let ?b = "hit_bucket bid now i (rs_Buckets st (rate_key i now))"
  obtain res st1 where e: "EnforceRateLimit bid gid now i st = (res, st1)" by fastforce
  have st1: "rs_Buckets st1 (rate_key i now) = Some ?b"
    using EnforceRateLimit_buckets [OF v assms(4), of bid gid now] e by simp
  have res: "res = (if rd_Allowed (decide now i ?b) then Passed (decide now i ?b)
      else RateLimited (decide now i ?b))"
    using EnforceRateLimit_result [OF v assms(4), of bid gid now] e by (simp add: Let_def)
  have "st' = st1 \<and> (resp = None \<longleftrightarrow> rd_Allowed (decide now i ?b))"
    using RateLimitMiddleware_enforced [OF assms(1-3) e [unfolded assms(5)]] assms(6) res
    by (cases "rd_Allowed (decide now i ?b)") auto
  with st1 show ?thesis by simp
qed

definition sample_options :: RateLimitOptions where
  "sample_options =
     \<lparr>ro_Enabled = True, ro_Window = 60, ro_BlockDuration = 0, ro_AnonymousReadLimit = 1,
      ro_AnonymousWriteLimit = 1, ro_SessionReadLimit = 1, ro_SessionWriteLimit = 1,
      ro_InternalLimit = 1, ro_WorkerLimit = 1, ro_FeedbackLimit = 1\<rparr>"

definition sample_ctx :: request_context where
  "sample_ctx = \<lparr>cx_Metadata = None, cx_Session = None\<rparr>"

definition sample_parsers :: net_parsers where
  "sample_parsers = \<lparr>np_ParseIP = (\<lambda>_. None), np_SplitHost = (\<lambda>_. None)\<rparr>"

definition no_buckets :: "string rate_state" where
  "no_buckets = \<lparr>rs_Ready = True, rs_Buckets = (\<lambda>_. None), rs_Guards = []\<rparr>"

definition command_policy :: routeRateLimitPolicy where
  "command_policy =
     \<lparr>pl_Namespace = ''api.commands'', pl_Action = ''/v1/commands/s/open'', pl_Limit = 1,
      pl_Window = 60, pl_Block = 0\<rparr>"

lemma command_policy_found:
  "rateLimitPolicyForRequest sample_options sample_ctx (write_request ''a'' (\<lambda>_. [])) = Some command_policy"
proof -
  have t: "trim_space ''/v1/commands/s/open'' = ''/v1/commands/s/open''"
    by (simp add: trim_space_plain plain_ends_def plain_char_def)
  have "\<not> suffix ''/complete'' ''/v1/commands/s/open''" "\<not> suffix ''/fail'' ''/v1/commands/s/open''"
    by (simp_all add: suffix_def)
  then show ?thesis
    by (simp add: rateLimitPolicyForRequest_def write_request_def t Let_def policy_def
        sample_options_def command_policy_def AuthStateFromContext_def SessionFromContext_def
        sample_ctx_def)
qed

theorem counted_requests_are_enforced_witness:
  "\<exists>resp st' b. RateLimitMiddleware (Some (EnforceRateLimit ''rl_1'' ''gd_1'' 5)) sample_options sample_parsers
       sample_ctx (write_request ''a'' (\<lambda>_. [])) no_buckets = (resp, st') \<and>
     rs_Buckets st' (rate_key (enforce_input command_policy sample_parsers sample_ctx
       (write_request ''a'' (\<lambda>_. []))) 5) = Some b \<and> bk_Hits b = 1"
proof -
  obtain resp st' where e: "RateLimitMiddleware (Some (EnforceRateLimit ''rl_1'' ''gd_1'' 5)) sample_options
      sample_parsers sample_ctx (write_request ''a'' (\<lambda>_. [])) no_buckets = (resp, st')"
    by fastforce
  from counted_requests_are_enforced [OF _ command_policy_found _ _ refl e] e show ?thesis
    by (auto simp: sample_options_def command_policy_def no_buckets_def hit_bucket_def)
qed

text \<open>A refused client is told so completely: status 429, code \<open>rate_limited\<close>, a waiting time of at
  least one second both in the body and in the \<open>Retry-After\<close> header, and its authentication state.\<close>

theorem refusals_are_complete:
  assumes "RateLimitMiddleware (Some (EnforceRateLimit bid gid now)) options np ctx r st =
      (Some (status, headers, body), st')"
  shows "status = 429 \<and> eb_Code body = ''rate_limited'' \<and> 1 \<le> eb_RetryAfterSeconds body \<and>
         (''Retry-After'', itoa (eb_RetryAfterSeconds body)) \<in> set headers \<and>
         map_of (eb_Details body) ''auth_state'' = Some (AuthStateFromContext ctx)"
proof -
  obtain p where p: "rateLimitPolicyForRequest options ctx r = Some p" "0 < pl_Limit p"
    using assms by (auto simp: RateLimitMiddleware_def split: if_splits option.splits)
  let ?i = "enforce_input p np ctx r"
  obtain d where d: "fst (EnforceRateLimit bid gid now ?i st) = RateLimited d"
    and w: "(status, headers, body) = WriteJSONError [] (Some ctx) 429
      (Some (RateLimitedError (rateLimitMessage (pl_Namespace p) (AuthStateFromContext ctx))
        (rd_RetryAfter d) [(''auth_state'', AuthStateFromContext ctx), (''limit'', itoa (rd_Limit d)),
          (''namespace'', rd_Namespace d)]))"
    using assms p
    by (auto simp: RateLimitMiddleware_def subject_auth_state Let_def split: if_splits enforced.splits prod.splits)
  have "rs_Ready st"
    using d by (auto simp: EnforceRateLimit_def split: if_splits)
  then have "0 < rd_RetryAfter d"
    using EnforceRateLimit_result [OF enforce_input_valid [OF p, of np], of st bid gid now] d decide_retry
    by (auto simp: Let_def split: if_splits)
  then have s: "1 \<le> durationSeconds (rd_RetryAfter d)" by (simp add: durationSeconds_def Let_def)
  have t: "trim_space ''rate_limited'' = ''rate_limited''"
    by (simp add: trim_space_plain plain_ends_def plain_char_def)
  show ?thesis
    using w s
    by (simp add: WriteJSONError_def buildErrorBody_def RateLimitedError_def bodyFromHTTPError_def
        resolveHTTPStatus_def Let_def t shouldIncludeAuthState_def withAuthState_def split: if_splits)
qed

theorem refusals_are_complete_witness:
  "\<exists>st1 body st'. RateLimitMiddleware (Some (EnforceRateLimit ''rl_2'' ''gd_2'' 7)) sample_options sample_parsers
       sample_ctx (write_request ''a'' (\<lambda>_. [])) st1 = (Some body, st') \<and> fst body = 429"
proof -
  let ?i = "enforce_input command_policy sample_parsers sample_ctx (write_request ''a'' (\<lambda>_. []))"
  let ?st = "no_buckets\<lparr>rs_Buckets := (\<lambda>_. None)(rate_key ?i 7 \<mapsto>
      \<lparr>bk_ID = ''rl_1'', bk_Hits = 1, bk_BlockedUntil = None, bk_Metadata = (\<lambda>_. None), bk_UpdatedAt = 5\<rparr>)\<rparr>"
  obtain resp st' where e: "RateLimitMiddleware (Some (EnforceRateLimit ''rl_2'' ''gd_2'' 7)) sample_options
      sample_parsers sample_ctx (write_request ''a'' (\<lambda>_. [])) ?st = (resp, st')"
    by fastforce
  have l: "rl_Limit ?i = 1" by (simp add: enforce_input_def command_policy_def split_beta Let_def)
  have v: "valid_request ?i"
    by (rule enforce_input_valid [OF command_policy_found]) (simp add: command_policy_def)
  have "counted 1 2 (Some (hit_bucket ''rl_2'' 7 ?i (rs_Buckets ?st (rate_key ?i 7))))"
    using counted_hit [of ?i 1 "rs_Buckets ?st (rate_key ?i 7)" "''rl_2''" 7]
    by (simp add: l counted_def)
  then have "\<not> rd_Allowed (decide 7 ?i (hit_bucket ''rl_2'' 7 ?i (rs_Buckets ?st (rate_key ?i 7))))"
    using decide_allowed [of ?i 2] by (simp add: l)
  then obtain d where "fst (EnforceRateLimit ''rl_2'' ''gd_2'' 7 ?i ?st) = RateLimited d"
    using EnforceRateLimit_result [OF v, of ?st "''rl_2''" "''gd_2''" 7]
    by (simp add: no_buckets_def Let_def)
  then obtain st1 where "EnforceRateLimit ''rl_2'' ''gd_2'' 7 ?i ?st = (RateLimited d, st1)"
    by (metis prod.collapse)
  from RateLimitMiddleware_enforced [OF _ command_policy_found _ this] e
  obtain body where "resp = Some body"
    by (auto simp: command_policy_def sample_options_def)
  with e obtain status headers b where "RateLimitMiddleware (Some (EnforceRateLimit ''rl_2'' ''gd_2'' 7)) sample_options
      sample_parsers sample_ctx (write_request ''a'' (\<lambda>_. [])) ?st = (Some (status, headers, b), st')"
    by (cases body) auto
  from refusals_are_complete [OF this] this show ?thesis by fastforce
qed

end
