(* ===== verification/Job_Queue.thy ===== *)
theory Job_Queue
  imports Runtime_Helpers "HOL-Library.Product_Lexorder"
begin

text \<open>
  The job queue of internal/interactions/runtime_webstate.go: \<open>EnqueueJob\<close>, \<open>GetJob\<close>,
  \<open>ClaimJobs\<close>, \<open>ResetRunningJobs\<close>, \<open>CompleteJob\<close> and \<open>FailJob\<close> over the table
  \<open>runtime_jobs\<close>, with its primary key and the partial unique index that keeps at most one
  pending or running job per queue and dedupe key. The rows locked by other transactions, which
  \<open>for update skip locked\<close> passes over, are an argument of \<open>ClaimJobs\<close>. Ties of
  \<open>order by priority desc, run_at asc\<close> are broken by the storage order, which is arbitrary.
  Integers are not bounded by the width of the columns.
\<close>

record 'j job_row =
  jr_JobID :: string
  jr_Queue :: string
  jr_Kind :: string
  jr_DedupeKey :: "string option"
  jr_Status :: string
  jr_Priority :: int
  jr_RunAt :: int
  jr_LockedAt :: "int option"
  jr_LockedBy :: "string option"
  jr_Attempts :: int
  jr_MaxAttempts :: int
  jr_Payload :: "'j json_object"
  jr_LastError :: "string option"
  jr_CreatedAt :: int
  jr_FinishedAt :: "int option"

record 'j Job =
  job_JobID :: string
  job_Queue :: string
  job_Kind :: string
  job_DedupeKey :: string
  job_Status :: string
  job_Priority :: int
  job_RunAt :: int
  job_LockedAt :: "int option"
  job_LockedBy :: string
  job_Attempts :: int
  job_MaxAttempts :: int
  job_Payload :: "'j json_object"
  job_LastError :: string
  job_CreatedAt :: int
  job_FinishedAt :: "int option"

record 'j EnqueueJobInput =
  ej_JobID :: string
  ej_Queue :: string
  ej_Kind :: string
  ej_DedupeKey :: string
  ej_Status :: string
  ej_Priority :: int
  ej_RunAt :: "int option"
  ej_MaxAttempts :: int
  ej_Payload :: "'j json_object"

record JobClaimInput =
  jc_Queue :: string
  jc_Worker :: string
  jc_Limit :: int

record JobCompleteInput =
  jo_FinishedAt :: "int option"

record JobFailInput =
  jf_Error :: string
  jf_RetryAt :: "int option"
  jf_FailedAt :: "int option"

text \<open>The table and the payloads of \<open>pg_notify\<close> sent so far.\<close>

record 'j job_state =
  js_Ready :: bool
  js_Jobs :: "'j job_row list"
  js_Notified :: "string list"

definition scanJob :: "'j job_row \<Rightarrow> 'j Job" where
  "scanJob r =
     \<lparr>job_JobID = jr_JobID r, job_Queue = jr_Queue r, job_Kind = jr_Kind r,
      job_DedupeKey = string_of_null (jr_DedupeKey r), job_Status = jr_Status r,
      job_Priority = jr_Priority r, job_RunAt = jr_RunAt r, job_LockedAt = jr_LockedAt r,
      job_LockedBy = string_of_null (jr_LockedBy r), job_Attempts = jr_Attempts r,
      job_MaxAttempts = jr_MaxAttempts r, job_Payload = jr_Payload r,
      job_LastError = string_of_null (jr_LastError r), job_CreatedAt = jr_CreatedAt r,
      job_FinishedAt = jr_FinishedAt r\<rparr>"

subsection \<open>The partial unique index\<close>

definition live :: "'j job_row \<Rightarrow> bool" where
  "live r \<longleftrightarrow> jr_Status r = ''pending'' \<or> jr_Status r = ''running''"

text \<open>A row that may not be stored beside \<open>r\<close>: another live job with the same dedupe key.\<close>

definition dedupe_clash :: "'j job_row \<Rightarrow> 'j job_row \<Rightarrow> bool" where
  "dedupe_clash r r' \<longleftrightarrow>
     live r \<and> live r' \<and> jr_DedupeKey r \<noteq> None \<and> jr_Queue r = jr_Queue r' \<and>
     jr_DedupeKey r = jr_DedupeKey r'"

subsection \<open>Operations\<close>

definition notifyRuntimeJobs :: "string \<Rightarrow> 'j job_state \<Rightarrow> 'j job_state" where
  "notifyRuntimeJobs queue st =
     (if js_Ready st then st\<lparr>js_Notified := js_Notified st @ [trim_space queue]\<rparr> else st)"

definition new_job :: "string \<Rightarrow> int \<Rightarrow> int \<Rightarrow> 'j EnqueueJobInput \<Rightarrow> 'j job_row" where
  "new_job fresh now dbnow i =
     \<lparr>jr_JobID = id_or (ej_JobID i) fresh, jr_Queue = statusOrDefault (ej_Queue i) ''default'',
      jr_Kind = ej_Kind i, jr_DedupeKey = nullString (ej_DedupeKey i),
      jr_Status = statusOrDefault (ej_Status i) ''pending'',
      jr_Priority = (if ej_Priority i = 0 then 100 else ej_Priority i),
      jr_RunAt = time_or (ej_RunAt i) now, jr_LockedAt = None, jr_LockedBy = None,
      jr_Attempts = 0, jr_MaxAttempts = (if ej_MaxAttempts i = 0 then 10 else ej_MaxAttempts i),
      jr_Payload = ej_Payload i, jr_LastError = None, jr_CreatedAt = dbnow, jr_FinishedAt = None\<rparr>"

definition EnqueueJob ::
  "string \<Rightarrow> int \<Rightarrow> int \<Rightarrow> 'j EnqueueJobInput \<Rightarrow> 'j job_state \<Rightarrow>
   (runtime_error + 'j Job) \<times> 'j job_state" where
  "EnqueueJob fresh now dbnow i st =
     (if \<not> js_Ready st then (Inl NotConfigured, st)
      else if blank (ej_Kind i) then (Inl (Required ''kind''), st)
      else
        (let r = new_job fresh now dbnow i in
         if row_at jr_JobID (jr_JobID r) (js_Jobs st) \<noteq> None
           then (Inl (ErrConflict ''runtime_jobs_pkey''), st)
         else if \<exists>r'\<in>set (js_Jobs st). dedupe_clash r r'
           then (Inl (ErrConflict ''runtime_jobs_dedupe_idx''), st)
         else
           (Inr (scanJob r),
            notifyRuntimeJobs (jr_Queue r) (st\<lparr>js_Jobs := js_Jobs st @ [r]\<rparr>))))"

definition GetJob :: "string \<Rightarrow> 'j job_state \<Rightarrow> runtime_error + 'j Job" where
  "GetJob jobID st =
     (if \<not> js_Ready st then Inl NotConfigured
      else case row_at jr_JobID (trim_space jobID) (js_Jobs st) of
        None \<Rightarrow> Inl ErrNotFound
      | Some r \<Rightarrow> Inr (scanJob r))"

text \<open>The rows of the common table expression \<open>due\<close>.\<close>

definition is_due :: "string \<Rightarrow> int \<Rightarrow> 'j job_row \<Rightarrow> bool" where
  "is_due queue now r \<longleftrightarrow> jr_Queue r = queue \<and> jr_Status r = ''pending'' \<and> jr_RunAt r \<le> now"

definition claim_order :: "'j job_row \<Rightarrow> int \<times> int" where
  "claim_order r = (- jr_Priority r, jr_RunAt r)"

definition due_jobs ::
  "string set \<Rightarrow> string \<Rightarrow> int \<Rightarrow> int \<Rightarrow> 'j job_row list \<Rightarrow> 'j job_row list" where
  "due_jobs locked queue now limit t =
     take (nat limit)
       (sort_key claim_order (filter (\<lambda>r. is_due queue now r \<and> jr_JobID r \<notin> locked) t))"

definition claimed_by :: "string \<Rightarrow> int \<Rightarrow> 'j job_row \<Rightarrow> 'j job_row" where
  "claimed_by worker now r =
     r\<lparr>jr_Status := ''running'', jr_LockedAt := Some now, jr_LockedBy := Some worker\<rparr>"

definition ClaimJobs ::
  "string set \<Rightarrow> int \<Rightarrow> JobClaimInput \<Rightarrow> 'j job_state \<Rightarrow>
   (runtime_error + 'j Job list) \<times> 'j job_state" where
  "ClaimJobs locked now i st =
     (if \<not> js_Ready st then (Inl NotConfigured, st)
      else if blank (jc_Worker i) then (Inl (Required ''worker''), st)
      else
        (let queue = statusOrDefault (jc_Queue i) ''default'';
             limit = clampLimit (jc_Limit i) 20 100;
             ids = jr_JobID ` set (due_jobs locked queue now limit (js_Jobs st));
             claim = claimed_by (jc_Worker i) now
         in (Inr (map (scanJob \<circ> claim) (filter (\<lambda>r. jr_JobID r \<in> ids) (js_Jobs st))),
             st\<lparr>js_Jobs := update_rows (\<lambda>r. jr_JobID r \<in> ids) claim (js_Jobs st)\<rparr>)))"

definition reset_job :: "string \<Rightarrow> 'j job_row \<Rightarrow> 'j job_row" where
  "reset_job reason r =
     r\<lparr>jr_Status := ''pending'', jr_LockedAt := None, jr_LockedBy := None,
       jr_LastError :=
         (if reason \<noteq> [] \<and> string_of_null (jr_LastError r) = [] then Some reason
          else jr_LastError r)\<rparr>"

definition ResetRunningJobs ::
  "string \<Rightarrow> string \<Rightarrow> 'j job_state \<Rightarrow> runtime_error err \<times> 'j job_state" where
  "ResetRunningJobs queue reason st =
     (if \<not> js_Ready st then (Some NotConfigured, st)
      else if blank queue then (Some (Required ''queue''), st)
      else
        (None,
         st\<lparr>js_Jobs :=
           update_rows (\<lambda>r. jr_Queue r = trim_space queue \<and> jr_Status r = ''running'')
             (reset_job (trim_space reason)) (js_Jobs st)\<rparr>))"

text \<open>
  \<open>update ... where job_id = $1 returning ...\<close>: no row is \<open>ErrNotFound\<close>; an update that makes a
  job live again can violate the partial unique index.
\<close>

definition update_job ::
  "string \<Rightarrow> ('j job_row \<Rightarrow> 'j job_row) \<Rightarrow> 'j job_state \<Rightarrow>
   (runtime_error + 'j Job) \<times> 'j job_state" where
  "update_job jobID f st =
     (case row_at jr_JobID jobID (js_Jobs st) of
        None \<Rightarrow> (Inl ErrNotFound, st)
      | Some r \<Rightarrow>
          if \<exists>r'\<in>set (js_Jobs st). jr_JobID r' \<noteq> jobID \<and> dedupe_clash (f r) r'
          then (Inl (ErrConflict ''runtime_jobs_dedupe_idx''), st)
          else
            (Inr (scanJob (f r)),
             st\<lparr>js_Jobs := update_rows (\<lambda>x. jr_JobID x = jobID) f (js_Jobs st)\<rparr>))"

definition complete_job :: "int \<Rightarrow> 'j job_row \<Rightarrow> 'j job_row" where
  "complete_job finishedAt r =
     r\<lparr>jr_Status := ''completed'', jr_LockedAt := None, jr_LockedBy := None,
       jr_FinishedAt := Some finishedAt\<rparr>"

definition CompleteJob ::
  "int \<Rightarrow> string \<Rightarrow> JobCompleteInput \<Rightarrow> 'j job_state \<Rightarrow>
   (runtime_error + 'j Job) \<times> 'j job_state" where
  "CompleteJob now jobID i st =
     (if \<not> js_Ready st then (Inl NotConfigured, st)
      else update_job (trim_space jobID) (complete_job (time_or (jo_FinishedAt i) now)) st)"

text \<open>The last attempt fails the job for good, an earlier one schedules the retry.\<close>

definition fail_job :: "string \<Rightarrow> int \<Rightarrow> int \<Rightarrow> 'j job_row \<Rightarrow> 'j job_row" where
  "fail_job error retryAt failedAt r =
     (let last_attempt = (jr_Attempts r + 1 \<ge> jr_MaxAttempts r) in
      r\<lparr>jr_Attempts := jr_Attempts r + 1, jr_LastError := Some error, jr_LockedAt := None,
        jr_LockedBy := None, jr_RunAt := (if last_attempt then jr_RunAt r else retryAt),
        jr_FinishedAt := (if last_attempt then Some failedAt else None),
        jr_Status := (if last_attempt then ''failed'' else ''pending'')\<rparr>)"

definition FailJob ::
  "int \<Rightarrow> string \<Rightarrow> JobFailInput \<Rightarrow> 'j job_state \<Rightarrow>
   (runtime_error + 'j Job) \<times> 'j job_state" where
  "FailJob now jobID i st =
     (if \<not> js_Ready st then (Inl NotConfigured, st)
      else if blank (jf_Error i) then (Inl (Required ''error''), st)
      else
        (let retryAt = time_or (jf_RetryAt i) now; failedAt = time_or (jf_FailedAt i) retryAt in
         update_job (trim_space jobID) (fail_job (jf_Error i) retryAt failedAt) st))"

end
