(* ===== verification/Job_Properties.thy ===== *)
theory Job_Properties
  imports Job_Queue
begin

text \<open>
  The job queue as a state machine: its invariant holds in every state the operations reach, a
  claim takes the first due jobs, and a claimed job is not handed out again while nobody fails or
  resets it.
\<close>

subsection \<open>The step relation\<close>

inductive job_step :: "'j job_state \<Rightarrow> 'j job_state \<Rightarrow> bool" where
  step_enqueue: "job_step st (snd (EnqueueJob fresh now dbnow i st))"
| step_claim: "job_step st (snd (ClaimJobs locked now c st))"
| step_reset: "job_step st (snd (ResetRunningJobs queue reason st))"
| step_complete: "job_step st (snd (CompleteJob now jobID d st))"
| step_fail: "job_step st (snd (FailJob now jobID f st))"

definition no_jobs :: "'j job_state" where
  "no_jobs = \<lparr>js_Ready = True, js_Jobs = [], js_Notified = []\<rparr>"

abbreviation jobs_reachable :: "'j job_state \<Rightarrow> bool" where
  "jobs_reachable st \<equiv> reachable job_step no_jobs st"

subsection \<open>The invariant\<close>

text \<open>
  Of a row: a lock has a holder and a time and only a running job is locked; a pending or running
  job is not finished and, when its limit is positive, has attempts left.
\<close>

definition job_row_ok :: "'j job_row \<Rightarrow> bool" where
  "job_row_ok r \<longleftrightarrow>
     (jr_LockedBy r = None \<longleftrightarrow> jr_LockedAt r = None) \<and>
     (jr_LockedBy r \<noteq> None \<longrightarrow> jr_Status r = ''running'') \<and>
     (live r \<longrightarrow> jr_FinishedAt r = None) \<and>
     (live r \<and> 0 < jr_MaxAttempts r \<longrightarrow> jr_Attempts r < jr_MaxAttempts r)"

text \<open>Of the table: the primary key, the rows, and one live job per queue and dedupe key.\<close>

definition one_live :: "'j job_row list \<Rightarrow> bool" where
  "one_live t \<longleftrightarrow> (\<forall>r\<in>set t. \<forall>r'\<in>set t. dedupe_clash r r' \<longrightarrow> jr_JobID r = jr_JobID r')"

definition jobs_ok :: "'j job_row list \<Rightarrow> bool" where
  "jobs_ok t \<longleftrightarrow> distinct (map jr_JobID t) \<and> (\<forall>r\<in>set t. job_row_ok r) \<and> one_live t"

lemma dedupe_clash_sym: "dedupe_clash r r' \<longleftrightarrow> dedupe_clash r' r"
  by (auto simp: dedupe_clash_def)

text \<open>An update that only touches columns outside the index, or takes rows out of it.\<close>

definition shrinks_index ::
  "('j job_row \<Rightarrow> bool) \<Rightarrow> ('j job_row \<Rightarrow> 'j job_row) \<Rightarrow> 'j job_row list \<Rightarrow> bool" where
  "shrinks_index p f t \<longleftrightarrow>
     (\<forall>r\<in>set t. p r \<longrightarrow> jr_JobID (f r) = jr_JobID r \<and> jr_Queue (f r) = jr_Queue r \<and>
        jr_DedupeKey (f r) = jr_DedupeKey r \<and> (live (f r) \<longrightarrow> live r))"

lemma keys_if_kept:
  "(\<And>r. r \<in> set t \<Longrightarrow> p r \<Longrightarrow> key (f r) = key r) \<Longrightarrow> map key (update_rows p f t) = map key t"
  by (induction t) (simp_all add: update_rows_def)

lemma update_ok:
  assumes ok: "jobs_ok t" and sh: "shrinks_index p f t"
    and row: "\<And>r. r \<in> set t \<Longrightarrow> p r \<Longrightarrow> job_row_ok r \<Longrightarrow> job_row_ok (f r)"
  shows "jobs_ok (update_rows p f t)"
proof -
  let ?g = "\<lambda>r. if p r then f r else r"
  have clash: "dedupe_clash (?g r) (?g r') \<Longrightarrow> dedupe_clash r r'"
    if "r \<in> set t" "r' \<in> set t" for r r'
    using sh that by (auto simp: shrinks_index_def dedupe_clash_def split: if_splits)
  have key: "jr_JobID (?g r) = jr_JobID r" if "r \<in> set t" for r
    using sh that by (simp add: shrinks_index_def)
  have "one_live (update_rows p f t)"
    unfolding one_live_def
  proof (intro ballI impI)
    fix r r' assume "r \<in> set (update_rows p f t)" "r' \<in> set (update_rows p f t)" "dedupe_clash r r'"
    then obtain r0 r0' where "r0 \<in> set t" "r = ?g r0" "r0' \<in> set t" "r' = ?g r0'"
      by (auto simp: in_update_rows)
    moreover from this \<open>dedupe_clash r r'\<close> have "dedupe_clash r0 r0'" by (auto intro: clash)
    ultimately show "jr_JobID r = jr_JobID r'"
      using ok key by (auto simp: jobs_ok_def one_live_def)
  qed
  moreover have "map jr_JobID (update_rows p f t) = map jr_JobID t"
    using sh by (auto intro: keys_if_kept simp: shrinks_index_def)
  ultimately show ?thesis
    using ok row by (auto simp: jobs_ok_def in_update_rows)
qed

text \<open>An update of one row after the check of the index.\<close>

lemma update_job_ok:
  assumes ok: "jobs_ok (js_Jobs st)" and keep: "\<And>r. jr_JobID (f r) = jr_JobID r"
    and row: "\<And>r. job_row_ok r \<Longrightarrow> job_row_ok (f r)"
  shows "jobs_ok (js_Jobs (snd (update_job jobID f st)))"
proof (cases "row_at jr_JobID jobID (js_Jobs st)")
  case None
  with ok show ?thesis by (simp add: update_job_def)
next
  case (Some r)
  let ?t = "js_Jobs st"
  let ?g = "\<lambda>x. if jr_JobID x = jobID then f x else x"
  from Some have r: "r \<in> set ?t" "jr_JobID r = jobID" by (auto dest: row_at_SomeD)
  have only: "x = r" if "x \<in> set ?t" "jr_JobID x = jobID" for x
    using ok that r by (auto simp: jobs_ok_def distinct_map dest: inj_onD)
  show ?thesis
  proof (cases "\<exists>r'\<in>set ?t. jr_JobID r' \<noteq> jobID \<and> dedupe_clash (f r) r'")
    case True
    with Some ok show ?thesis by (simp add: update_job_def)
  next
    case False
    have "one_live (update_rows (\<lambda>x. jr_JobID x = jobID) f ?t)"
      unfolding one_live_def
    proof (intro ballI impI)
      fix a b
      assume "a \<in> set (update_rows (\<lambda>x. jr_JobID x = jobID) f ?t)"
        "b \<in> set (update_rows (\<lambda>x. jr_JobID x = jobID) f ?t)" and c: "dedupe_clash a b"
      then obtain a0 b0 where a: "a0 \<in> set ?t" "a = ?g a0" and b: "b0 \<in> set ?t" "b = ?g b0"
        by (auto simp: in_update_rows)
      show "jr_JobID a = jr_JobID b"
      proof (cases "jr_JobID a0 = jobID"; cases "jr_JobID b0 = jobID")
        assume "jr_JobID a0 = jobID" "jr_JobID b0 \<noteq> jobID"
        with a b c only False show ?thesis by auto
      next
        assume "jr_JobID a0 \<noteq> jobID" "jr_JobID b0 = jobID"
        with a b only False c[THEN dedupe_clash_sym[THEN iffD1]] show ?thesis by auto
      next
        assume "jr_JobID a0 \<noteq> jobID" "jr_JobID b0 \<noteq> jobID"
        with a b c ok show ?thesis by (auto simp: jobs_ok_def one_live_def)
      qed (use a b keep in auto)
    qed
    with Some False ok row keep show ?thesis
      by (auto simp: update_job_def jobs_ok_def in_update_rows keys_update_rows)
  qed
qed

lemma enqueue_ok:
  assumes "jobs_ok (js_Jobs st)"
  shows "jobs_ok (js_Jobs (snd (EnqueueJob fresh now dbnow i st)))"
proof -
  let ?r = "new_job fresh now dbnow i"
  have row: "job_row_ok ?r" by (auto simp: job_row_ok_def new_job_def)
  have "jobs_ok (js_Jobs st @ [?r])"
    if "jr_JobID ?r \<notin> jr_JobID ` set (js_Jobs st)" "\<forall>r'\<in>set (js_Jobs st). \<not> dedupe_clash ?r r'"
  proof -
    from that(2) have "\<forall>r'\<in>set (js_Jobs st). \<not> dedupe_clash r' ?r"
      by (metis dedupe_clash_sym)
    with that row assms show ?thesis by (simp add: jobs_ok_def one_live_def)
  qed
  with assms show ?thesis
    by (simp add: EnqueueJob_def Let_def row_at_None notifyRuntimeJobs_def)
qed

text \<open>The ids of the due jobs only name due jobs, because ids are unique.\<close>

lemma due_jobs_subset:
  "set (due_jobs locked queue now limit t) \<subseteq> {r \<in> set t. is_due queue now r \<and> jr_JobID r \<notin> locked}"
  unfolding due_jobs_def by (auto dest: in_set_takeD)

lemma due_ids:
  assumes "distinct (map jr_JobID t)" "r \<in> set t"
  shows "jr_JobID r \<in> jr_JobID ` set (due_jobs locked queue now limit t) \<longleftrightarrow>
         r \<in> set (due_jobs locked queue now limit t)"
  using assms due_jobs_subset[of locked queue now limit t] by (auto simp: distinct_map dest: inj_onD)

lemma claim_ok:
  assumes "jobs_ok (js_Jobs st)"
  shows "jobs_ok (js_Jobs (snd (ClaimJobs locked now i st)))"
proof -
  let ?q = "statusOrDefault (jc_Queue i) ''default''"
  let ?due = "due_jobs locked ?q now (clampLimit (jc_Limit i) 20 100) (js_Jobs st)"
  have due: "is_due ?q now r" if "r \<in> set (js_Jobs st)" "jr_JobID r \<in> jr_JobID ` set ?due" for r
    using that assms due_jobs_subset[of locked ?q now _ "js_Jobs st"] by (auto simp: due_ids jobs_ok_def)
  then have "shrinks_index (\<lambda>r. jr_JobID r \<in> jr_JobID ` set ?due) (claimed_by (jc_Worker i) now) (js_Jobs st)"
    by (auto simp: shrinks_index_def claimed_by_def live_def is_due_def)
  moreover have "job_row_ok (claimed_by (jc_Worker i) now r)"
    if "r \<in> set (js_Jobs st)" "jr_JobID r \<in> jr_JobID ` set ?due" "job_row_ok r" for r
    using due[OF that(1,2)] that(3) by (auto simp: job_row_ok_def claimed_by_def live_def is_due_def)
  ultimately show ?thesis
    using assms by (auto simp: ClaimJobs_def Let_def intro!: update_ok)
qed

lemma reset_ok:
  "jobs_ok (js_Jobs st) \<Longrightarrow> jobs_ok (js_Jobs (snd (ResetRunningJobs queue reason st)))"
  by (auto simp: ResetRunningJobs_def intro!: update_ok)
    (auto simp: shrinks_index_def reset_job_def live_def job_row_ok_def)

lemma complete_ok:
  "jobs_ok (js_Jobs st) \<Longrightarrow> jobs_ok (js_Jobs (snd (CompleteJob now jobID i st)))"
  by (auto simp: CompleteJob_def intro!: update_job_ok)
    (auto simp: complete_job_def live_def job_row_ok_def)

lemma fail_ok:
  "jobs_ok (js_Jobs st) \<Longrightarrow> jobs_ok (js_Jobs (snd (FailJob now jobID i st)))"
  by (auto simp: FailJob_def Let_def intro!: update_job_ok)
    (auto simp: fail_job_def Let_def live_def job_row_ok_def)

interpretation jq: machine_invariant job_step no_jobs "\<lambda>st. jobs_ok (js_Jobs st)"
proof
  show "jobs_ok (js_Jobs no_jobs)" by (simp add: no_jobs_def jobs_ok_def one_live_def)
  show "jobs_ok (js_Jobs st) \<Longrightarrow> job_step st st' \<Longrightarrow> jobs_ok (js_Jobs st')" for st st' :: "'j job_state"
    by (auto elim!: job_step.cases intro: enqueue_ok claim_ok reset_ok complete_ok fail_ok)
qed

lemma update_job_ready [simp]: "js_Ready (snd (update_job jobID f st)) = js_Ready st"
  by (simp add: update_job_def split: option.split)

lemma all_ready: "job_step st st' \<Longrightarrow> js_Ready st' = js_Ready st"
  by (erule job_step.cases)
    (simp_all add: EnqueueJob_def ClaimJobs_def ResetRunningJobs_def CompleteJob_def FailJob_def
      notifyRuntimeJobs_def Let_def)

subsection \<open>What a claim takes\<close>

abbreviation claimable :: "string set \<Rightarrow> int \<Rightarrow> JobClaimInput \<Rightarrow> 'j job_state \<Rightarrow> 'j job_row list" where
  "claimable locked now i st \<equiv>
     due_jobs locked (statusOrDefault (jc_Queue i) ''default'') now
       (clampLimit (jc_Limit i) 20 100) (js_Jobs st)"

lemma claim_result:
  assumes "ClaimJobs locked now i st = (Inr jobs, st')" "distinct (map jr_JobID (js_Jobs st))"
  shows "jobs = map (scanJob \<circ> claimed_by (jc_Worker i) now)
                  (filter (\<lambda>r. r \<in> set (claimable locked now i st)) (js_Jobs st))"
    and "js_Jobs st' = map (\<lambda>r. if r \<in> set (claimable locked now i st)
                                then claimed_by (jc_Worker i) now r else r) (js_Jobs st)"
  using assms
  by (auto simp: ClaimJobs_def Let_def update_rows_def due_ids split: if_splits cong: filter_cong)

lemma take_sorted_least:
  assumes "x \<in> set (take n xs)" "y \<in> set xs" "y \<notin> set (take n xs)" "sorted (map f xs)"
  shows "f x \<le> f y"
proof -
  have "xs = take n xs @ drop n xs" by simp
  with assms(2,3) have "y \<in> set (drop n xs)" by (metis Un_iff set_append)
  moreover have "sorted (map f (take n xs) @ map f (drop n xs))"
    using assms(4) by (simp flip: map_append)
  ultimately show ?thesis using assms(1) by (auto simp: sorted_append)
qed

lemma due_jobs_first:
  assumes "r \<in> set (due_jobs locked queue now limit t)"
    and "r' \<in> set t" "is_due queue now r'" "jr_JobID r' \<notin> locked"
    and "r' \<notin> set (due_jobs locked queue now limit t)"
  shows "claim_order r \<le> claim_order r'"
  using assms unfolding due_jobs_def by (auto intro: take_sorted_least)

lemma due_jobs_full:
  assumes "r' \<in> set t" "is_due queue now r'" "jr_JobID r' \<notin> locked"
    and "r' \<notin> set (due_jobs locked queue now limit t)"
  shows "length (due_jobs locked queue now limit t) = nat limit"
proof (rule ccontr)
  let ?xs = "sort_key claim_order (filter (\<lambda>r. is_due queue now r \<and> jr_JobID r \<notin> locked) t)"
  assume "length (due_jobs locked queue now limit t) \<noteq> nat limit"
  then have "take (nat limit) ?xs = ?xs" by (auto simp: due_jobs_def)
  with assms show False by (simp add: due_jobs_def)
qed

lemma distinct_due_jobs:
  "distinct (map jr_JobID t) \<Longrightarrow> distinct (due_jobs locked queue now limit t)"
  unfolding due_jobs_def
  by (intro distinct_take) (auto simp: distinct_map)

lemma claim_length:
  assumes "distinct (map jr_JobID t)"
  shows "length (filter (\<lambda>r. r \<in> set (due_jobs locked queue now limit t)) t) =
         length (due_jobs locked queue now limit t)"
proof -
  let ?due = "due_jobs locked queue now limit t"
  have "distinct t" "distinct ?due" using assms by (auto simp: distinct_map distinct_due_jobs)
  then have "length (filter (\<lambda>r. r \<in> set ?due) t) = card (set ?due \<inter> set t)"
    by (subst distinct_card[symmetric]) (auto intro: arg_cong[where f = card])
  also have "set ?due \<inter> set t = set ?due" using due_jobs_subset by fastforce
  finally show ?thesis using \<open>distinct ?due\<close> by (simp add: distinct_card)
qed

subsection \<open>Properties\<close>

definition sample_enqueue :: "string \<Rightarrow> int \<Rightarrow> string \<Rightarrow> unit EnqueueJobInput" where
  "sample_enqueue jobID prio dedupe =
     \<lparr>ej_JobID = jobID, ej_Queue = [], ej_Kind = ''mail'', ej_DedupeKey = dedupe, ej_Status = [],
      ej_Priority = prio, ej_RunAt = None, ej_MaxAttempts = 2, ej_Payload = Map.empty\<rparr>"

definition sample_jobs :: "unit job_state" where
  "sample_jobs =
     snd (EnqueueJob [] 6 6 (sample_enqueue ''b'' 200 [])
       (snd (EnqueueJob [] 5 5 (sample_enqueue ''a'' 0 ''k'') no_jobs)))"

definition sample_claim :: JobClaimInput where
  "sample_claim = \<lparr>jc_Queue = [], jc_Worker = ''w1'', jc_Limit = 1\<rparr>"

text \<open>C11: in every state the job operations reach, job ids are unique, at most one pending or
  running job has a given queue and dedupe key, only running jobs are locked, a lock has both a
  holder and a time, and an unfinished job with a positive limit has attempts left.\<close>

theorem reachable_jobs_ok:
  assumes "jobs_reachable st"
  shows "jobs_ok (js_Jobs st)"
  using assms by (rule jq.holds)

theorem reachable_jobs_ok_witness:
  "length (js_Jobs sample_jobs) = 2 \<and> jobs_ok (js_Jobs (snd (ClaimJobs {} 7 sample_claim sample_jobs)))"
proof -
  have "jobs_reachable (snd (ClaimJobs {} 7 sample_claim sample_jobs))"
    unfolding sample_jobs_def
    by (intro reach_step[where step = job_step, OF _ step_claim] reach_step[where step = job_step, OF _ step_enqueue] reach_start)
  moreover have "length (js_Jobs sample_jobs) = 2" by code_simp
  ultimately show ?thesis using reachable_jobs_ok by blast
qed

text \<open>C12: a claim returns at most its limit of jobs, all of them due, in the queue and not locked
  by another transaction, and marks exactly them as running for the worker; when a due job is left
  out, the limit is exhausted and no claimed job comes after it in the order of priority and time.\<close>

theorem claims_take_the_first_due_jobs:
  assumes "ClaimJobs locked now i st = (Inr jobs, st')" "jobs_reachable st"
  defines "queue \<equiv> statusOrDefault (jc_Queue i) ''default''"
    and "limit \<equiv> nat (clampLimit (jc_Limit i) 20 100)"
  shows "\<exists>taken. jobs = map (scanJob \<circ> claimed_by (jc_Worker i) now) taken \<and>
    length taken \<le> limit \<and>
    set taken \<subseteq> {r \<in> set (js_Jobs st). is_due queue now r \<and> jr_JobID r \<notin> locked} \<and>
    js_Jobs st' = map (\<lambda>r. if r \<in> set taken then claimed_by (jc_Worker i) now r else r) (js_Jobs st) \<and>
    {r \<in> set (js_Jobs st). is_due queue now r \<and> jr_JobID r \<notin> locked \<and> r \<notin> set taken} \<subseteq>
    {r. length taken = limit \<and> set taken \<subseteq> {t. claim_order t \<le> claim_order r}}"
proof -
  let ?due = "claimable locked now i st"
  let ?taken = "filter (\<lambda>r. r \<in> set ?due) (js_Jobs st)"
  have ids: "distinct (map jr_JobID (js_Jobs st))"
    using jq.holds[OF assms(2)] by (simp add: jobs_ok_def)
  have set_taken: "set ?taken = set ?due"
    using due_jobs_subset by fastforce
  have len: "length ?taken = length ?due" using ids by (rule claim_length)
  show ?thesis
  proof (intro exI[of _ ?taken] conjI)
    show "jobs = map (scanJob \<circ> claimed_by (jc_Worker i) now) ?taken"
      using assms(1) ids by (rule claim_result)
    show "length ?taken \<le> limit" unfolding len by (simp add: due_jobs_def limit_def)
    show "set ?taken \<subseteq> {r \<in> set (js_Jobs st). is_due queue now r \<and> jr_JobID r \<notin> locked}"
      unfolding set_taken queue_def by (rule due_jobs_subset)
    show "js_Jobs st' =
        map (\<lambda>r. if r \<in> set ?taken then claimed_by (jc_Worker i) now r else r) (js_Jobs st)"
      unfolding set_taken using assms(1) ids by (rule claim_result)
    show "{r \<in> set (js_Jobs st). is_due queue now r \<and> jr_JobID r \<notin> locked \<and> r \<notin> set ?taken} \<subseteq>
        {r. length ?taken = limit \<and> set ?taken \<subseteq> {t. claim_order t \<le> claim_order r}}"
      unfolding len set_taken limit_def queue_def
      by (auto intro: due_jobs_full due_jobs_first)
  qed
qed

theorem claims_take_the_first_due_jobs_witness:
  "\<exists>jobs st'. ClaimJobs {} 7 sample_claim sample_jobs = (Inr jobs, st') \<and>
     map job_JobID jobs = [''b''] \<and> length jobs \<le> 1"
proof -
  let ?c = "ClaimJobs {} 7 sample_claim sample_jobs"
  have "jobs_reachable sample_jobs"
    unfolding sample_jobs_def by (intro reach_step[where step = job_step, OF _ step_enqueue] reach_start)
  moreover have "map job_JobID (projr (fst ?c)) = [''b''] \<and> isl (fst ?c) = False" by code_simp
  then obtain jobs st' where c: "?c = (Inr jobs, st')" "map job_JobID jobs = [''b'']"
    by (cases ?c; cases "fst ?c") auto
  moreover have "nat (clampLimit (jc_Limit sample_claim) 20 100) = 1" by code_simp
  ultimately have "length jobs \<le> 1"
    using claims_take_the_first_due_jobs[of "{}" 7 sample_claim sample_jobs jobs st'] by auto
  with c show ?thesis by (intro exI[of _ jobs] exI[of _ st']) simp
qed

text \<open>The steps between two claims that neither fail nor reset a job.\<close>

inductive quiet_step :: "'j job_state \<Rightarrow> 'j job_state \<Rightarrow> bool" where
  quiet_enqueue: "quiet_step st (snd (EnqueueJob fresh now dbnow i st))"
| quiet_claim: "quiet_step st (snd (ClaimJobs locked now c st))"
| quiet_complete: "quiet_step st (snd (CompleteJob now jobID d st))"

definition busy :: "string \<Rightarrow> 'j job_state \<Rightarrow> bool" where
  "busy k st \<longleftrightarrow>
     (case row_at jr_JobID k (js_Jobs st) of None \<Rightarrow> False | Some r \<Rightarrow> jr_Status r \<noteq> ''pending'')"

lemma job_step_if_quiet: "quiet_step st st' \<Longrightarrow> job_step st st'"
  by (auto elim!: quiet_step.cases intro: job_step.intros)

lemma row_id_simps [simp]:
  "jr_JobID (claimed_by w t r) = jr_JobID r" "jr_JobID (reset_job reason r) = jr_JobID r"
  "jr_JobID (complete_job t r) = jr_JobID r" "jr_JobID (fail_job e a b r) = jr_JobID r"
  by (simp_all add: claimed_by_def reset_job_def complete_job_def fail_job_def Let_def)

lemma busy_quiet: "quiet_step st st' \<Longrightarrow> busy k st \<Longrightarrow> busy k st'"
proof (erule quiet_step.cases)
  fix fresh now dbnow i sta
  assume "st = sta" "st' = snd (EnqueueJob fresh now dbnow i sta)" "busy k st"
  then show "busy k st'"
    by (auto simp: EnqueueJob_def Let_def notifyRuntimeJobs_def busy_def row_at_append split: option.splits)
next
  fix locked now c sta
  assume "st = sta" "st' = snd (ClaimJobs locked now c sta)" "busy k st"
  then show "busy k st'"
    by (auto simp: ClaimJobs_def Let_def busy_def row_at_update_rows claimed_by_def split: option.splits)
next
  fix now jobID d sta
  assume "st = sta" "st' = snd (CompleteJob now jobID d sta)" "busy k st"
  then show "busy k st'"
    by (auto simp: CompleteJob_def update_job_def busy_def row_at_update_rows complete_job_def
        split: option.splits)
qed

lemma quiet_star:
  "quiet_step\<^sup>*\<^sup>* st st' \<Longrightarrow> (jobs_reachable st \<longrightarrow> jobs_reachable st') \<and> (busy k st \<longrightarrow> busy k st')"
  by (induction rule: rtranclp_induct) (auto intro: reach_step job_step_if_quiet busy_quiet)

lemma claimed_ids:
  assumes "ClaimJobs locked now i st = (Inr jobs, st')" "jobs_ok (js_Jobs st)" "k \<in> job_JobID ` set jobs"
  shows "busy k st'" and "\<not> busy k st"
proof -
  have ids: "distinct (map jr_JobID (js_Jobs st))" using assms(2) by (simp add: jobs_ok_def)
  then obtain r where r: "r \<in> set (js_Jobs st)" "r \<in> set (claimable locked now i st)" "jr_JobID r = k"
    using assms(1,3) claim_result(1)[OF assms(1)] by (auto simp: scanJob_def claimed_by_def)
  then have at: "row_at jr_JobID k (js_Jobs st) = Some r" using ids by (auto dest: row_at_in)
  have "is_due (statusOrDefault (jc_Queue i) ''default'') now r"
    using r(2) due_jobs_subset by fastforce
  with at show "\<not> busy k st" by (simp add: busy_def is_due_def)
  let ?r = "claimed_by (jc_Worker i) now r"
  have "map jr_JobID (js_Jobs st') = map jr_JobID (js_Jobs st)"
    using claim_result(2)[OF assms(1) ids] by simp
  moreover have "?r \<in> set (js_Jobs st')"
    using r claim_result(2)[OF assms(1) ids] by force
  ultimately have "row_at jr_JobID (jr_JobID ?r) (js_Jobs st') = Some ?r"
    using ids by (intro row_at_in) simp_all
  then show "busy k st'" using r(3) by (simp add: busy_def claimed_by_def)
qed

text \<open>Two claims have no job in common while no job is failed or reset between them, whatever
  is enqueued, claimed and completed meanwhile.\<close>

theorem claimed_jobs_are_exclusive:
  assumes "jobs_reachable st" "ClaimJobs l1 t1 i1 st = (Inr jobs1, st1)" "quiet_step\<^sup>*\<^sup>* st1 st2"
    and "ClaimJobs l2 t2 i2 st2 = (Inr jobs2, st3)"
  shows "job_JobID ` set jobs1 \<inter> job_JobID ` set jobs2 = {}"
proof -
  have "st1 = snd (ClaimJobs l1 t1 i1 st)" using assms(2) by simp
  then have "jobs_reachable st1" using assms(1) by (auto intro: reach_step step_claim)
  then have "jobs_reachable st2" using assms(3) quiet_star by blast
  then have ok2: "jobs_ok (js_Jobs st2)" by (rule jq.holds)
  have False if "k \<in> job_JobID ` set jobs1" "k \<in> job_JobID ` set jobs2" for k
  proof -
    have "busy k st1" using assms(2) jq.holds[OF assms(1)] that(1) by (rule claimed_ids)
    then have "busy k st2" using assms(3) quiet_star by blast
    moreover have "\<not> busy k st2" using assms(4) ok2 that(2) by (rule claimed_ids)
    ultimately show False by blast
  qed
  then show ?thesis by blast
qed

theorem claimed_jobs_are_exclusive_witness:
  "let c1 = ClaimJobs {} 7 sample_claim sample_jobs; c2 = ClaimJobs {} 8 sample_claim (snd c1) in
   map job_JobID (projr (fst c1)) = [''b''] \<and> map job_JobID (projr (fst c2)) = [''a''] \<and>
   job_JobID ` set (projr (fst c1)) \<inter> job_JobID ` set (projr (fst c2)) = {}"
proof -
  let ?c1 = "ClaimJobs {} 7 sample_claim sample_jobs"
  let ?c2 = "ClaimJobs {} 8 sample_claim (snd ?c1)"
  have "jobs_reachable sample_jobs"
    unfolding sample_jobs_def by (intro reach_step[where step = job_step, OF _ step_enqueue] reach_start)
  moreover have "\<not> isl (fst ?c1) \<and> \<not> isl (fst ?c2)" by code_simp
  then have "?c1 = (Inr (projr (fst ?c1)), snd ?c1)" "?c2 = (Inr (projr (fst ?c2)), snd ?c2)"
    by (simp_all add: prod_eq_iff)
  ultimately have "job_JobID ` set (projr (fst ?c1)) \<inter> job_JobID ` set (projr (fst ?c2)) = {}"
    by (rule claimed_jobs_are_exclusive[where ?st2.0 = "snd ?c1", OF _ _ rtranclp.rtrancl_refl])
  moreover have "map job_JobID (projr (fst ?c1)) = [''b''] \<and> map job_JobID (projr (fst ?c2)) = [''a'']"
    by code_simp
  ultimately show ?thesis by (simp add: Let_def)
qed

subsection \<open>Late reports\<close>

lemma FailJob_row:
  assumes "js_Ready st" "row_at jr_JobID (trim_space jobID) (js_Jobs st) = Some r"
    and "jr_DedupeKey r = None" "\<not> blank (jf_Error i)"
  shows "\<exists>retryAt failedAt.
    FailJob now jobID i st =
      (Inr (scanJob (fail_job (jf_Error i) retryAt failedAt r)),
       st\<lparr>js_Jobs := update_rows (\<lambda>x. jr_JobID x = trim_space jobID)
            (fail_job (jf_Error i) retryAt failedAt) (js_Jobs st)\<rparr>) \<and>
    row_at jr_JobID (trim_space jobID) (js_Jobs (snd (FailJob now jobID i st))) =
      Some (fail_job (jf_Error i) retryAt failedAt r)"
  using assms row_at_SomeD[OF assms(2)]
  by (auto simp: FailJob_def Let_def update_job_def dedupe_clash_def fail_job_def row_at_update_rows)

text \<open>Nothing ties a failure report to a running job: reporting a failure of a completed job
  with attempts left succeeds, makes it pending and unfinished again, and it is due at its retry time.\<close>

theorem stale_failure_reopens_completed_job:
  assumes "js_Ready st" "row_at jr_JobID (trim_space jobID) (js_Jobs st) = Some r"
    and "jr_DedupeKey r = None" "jr_Status r = ''completed''" "jr_Attempts r + 1 < jr_MaxAttempts r"
    and "\<not> blank (jf_Error i)"
  shows "\<exists>j r'. fst (FailJob now jobID i st) = Inr j \<and> job_Status j = ''pending'' \<and>
    job_FinishedAt j = None \<and>
    row_at jr_JobID (trim_space jobID) (js_Jobs (snd (FailJob now jobID i st))) = Some r' \<and>
    is_due (jr_Queue r) (job_RunAt j) r'"
proof -
  obtain retryAt failedAt where f:
    "FailJob now jobID i st =
      (Inr (scanJob (fail_job (jf_Error i) retryAt failedAt r)),
       st\<lparr>js_Jobs := update_rows (\<lambda>x. jr_JobID x = trim_space jobID)
            (fail_job (jf_Error i) retryAt failedAt) (js_Jobs st)\<rparr>)"
    "row_at jr_JobID (trim_space jobID) (js_Jobs (snd (FailJob now jobID i st))) =
      Some (fail_job (jf_Error i) retryAt failedAt r)"
    using FailJob_row[OF assms(1-3,6)] by blast
  with assms(5) show ?thesis
    by (intro exI[of _ "scanJob (fail_job (jf_Error i) retryAt failedAt r)"]
          exI[of _ "fail_job (jf_Error i) retryAt failedAt r"])
      (simp add: fail_job_def scanJob_def is_due_def)
qed

theorem stale_failure_reopens_completed_job_witness:
  "\<exists>j. fst (FailJob 9 ''b'' \<lparr>jf_Error = ''late'', jf_RetryAt = None, jf_FailedAt = None\<rparr>
          (snd (CompleteJob 8 ''b'' \<lparr>jo_FinishedAt = None\<rparr>
            (snd (ClaimJobs {} 7 sample_claim sample_jobs))))) = Inr j \<and> job_Status j = ''pending''"
proof -
  let ?st = "snd (CompleteJob 8 ''b'' \<lparr>jo_FinishedAt = None\<rparr> (snd (ClaimJobs {} 7 sample_claim sample_jobs)))"
  let ?at = "row_at jr_JobID ''b'' (js_Jobs ?st)"
  have r: "?at \<noteq> None \<and> jr_DedupeKey (the ?at) = None \<and> jr_Attempts (the ?at) = 0 \<and>
           jr_MaxAttempts (the ?at) = 2 \<and> jr_Status (the ?at) = ''completed'' \<and> js_Ready ?st" by code_simp
  have e: "trim_space ''b'' = ''b''" "\<not> blank ''late''" by code_simp+
  from stale_failure_reopens_completed_job[of ?st "''b''" "the ?at"
      "\<lparr>jf_Error = ''late'', jf_RetryAt = None, jf_FailedAt = None\<rparr>" 9] r e(2)
  show ?thesis unfolding e(1) by auto
qed

end
