(* ===== verification/Job_Retry.thy ===== *)
theory Job_Retry
  imports Job_Properties
begin

text \<open>
  The life of a job whose attempts all fail, in any company: a worker's claim returns it and the attempt is
  reported as failed, and before, between and after these two calls anything else may happen to the queue that
  leaves the row of the job alone. The relation counts the attempts and keeps the time from which the job may be
  claimed.
\<close>

abbreviation job_row_of :: "string \<Rightarrow> 'j job_state \<Rightarrow> 'j job_row option" where
  "job_row_of k st \<equiv> row_at jr_JobID k (js_Jobs st)"

definition others_step :: "string \<Rightarrow> 'j job_state \<Rightarrow> 'j job_state \<Rightarrow> bool" where
  "others_step k st st' \<longleftrightarrow> job_step st st' \<and> job_row_of k st' = job_row_of k st"

inductive failing_run :: "string \<Rightarrow> 'j job_state \<Rightarrow> nat \<Rightarrow> int \<Rightarrow> 'j job_state \<Rightarrow> bool"
  for k :: string and st0 :: "'j job_state" where
  run_start: "job_row_of k st0 = Some r \<Longrightarrow> failing_run k st0 0 (jr_RunAt r) st0"
| run_others: "failing_run k st0 n due st \<Longrightarrow> others_step k st st' \<Longrightarrow> failing_run k st0 n due st'"
| run_attempt:
    "failing_run k st0 n due st \<Longrightarrow> ClaimJobs locked now c st = (Inr jobs, st1) \<Longrightarrow> k \<in> job_JobID ` set jobs \<Longrightarrow>
     (others_step k)\<^sup>*\<^sup>* st1 st2 \<Longrightarrow> \<not> blank (jf_Error f) \<Longrightarrow> st3 = snd (FailJob failed k f st2) \<Longrightarrow>
     failing_run k st0 (Suc n) (time_or (jf_RetryAt f) failed) st3"

lemma others_star:
  "(others_step k)\<^sup>*\<^sup>* st st' \<Longrightarrow>
     (jobs_reachable st \<longrightarrow> jobs_reachable st') \<and> job_row_of k st' = job_row_of k st"
  by (induction rule: rtranclp_induct) (auto simp: others_step_def intro: reach_step)

lemma reachable_ready: "jobs_reachable st \<Longrightarrow> js_Ready st"
  by (induction rule: reachable.induct) (auto simp: no_jobs_def dest: all_ready)

text \<open>A claim that returns a job found it due, and holds it from then on.\<close>

lemma claimed_row:
  assumes "ClaimJobs locked now i st = (Inr jobs, st')" "jobs_reachable st" "k \<in> job_JobID ` set jobs"
  shows "\<exists>r. job_row_of k st = Some r \<and> is_due (statusOrDefault (jc_Queue i) ''default'') now r \<and>
    job_row_of k st' = Some (claimed_by (jc_Worker i) now r)"
proof -
  have ids: "distinct (map jr_JobID (js_Jobs st))" using jq.holds[OF assms(2)] by (simp add: jobs_ok_def)
  then obtain r where r: "r \<in> set (js_Jobs st)" "r \<in> set (claimable locked now i st)" "jr_JobID r = k"
    using assms(1,3) claim_result(1)[OF assms(1)] by (auto simp: scanJob_def claimed_by_def)
  then have at: "job_row_of k st = Some r" using ids by (auto dest: row_at_in)
  have due: "is_due (statusOrDefault (jc_Queue i) ''default'') now r"
    using r(2) due_jobs_subset by fastforce
  have keys: "map jr_JobID (js_Jobs st') = map jr_JobID (js_Jobs st)"
    using claim_result(2)[OF assms(1) ids] by simp
  have "claimed_by (jc_Worker i) now r \<in> set (js_Jobs st')"
    using r claim_result(2)[OF assms(1) ids] by force
  then have "job_row_of k st' = Some (claimed_by (jc_Worker i) now r)"
    using ids r(3) keys by (metis row_at_in row_id_simps(1))
  with at due show ?thesis by blast
qed

text \<open>The report of a failure of a live job never violates the index: the row was in it before.\<close>

lemma fail_live_row:
  assumes "jobs_reachable st" "job_row_of k st = Some r" "live r" "trim_space k = k" "\<not> blank (jf_Error f)"
  shows "\<exists>failedAt. job_row_of k (snd (FailJob now k f st)) =
    Some (fail_job (jf_Error f) (time_or (jf_RetryAt f) now) failedAt r)"
proof -
  let ?fail = "fail_job (jf_Error f) (time_or (jf_RetryAt f) now) (time_or (jf_FailedAt f) (time_or (jf_RetryAt f) now))"
  have "dedupe_clash r r'" if "dedupe_clash (?fail r) r'" for r'
    using that assms(3) by (auto simp: dedupe_clash_def fail_job_def Let_def)
  then have "\<not> (\<exists>r'\<in>set (js_Jobs st). jr_JobID r' \<noteq> k \<and> dedupe_clash (?fail r) r')"
    using jq.holds[OF assms(1)] row_at_SomeD[OF assms(2)] by (fastforce simp: jobs_ok_def one_live_def)
  then have "FailJob now k f st =
      (Inr (scanJob (?fail r)), st\<lparr>js_Jobs := update_rows (\<lambda>x. jr_JobID x = k) ?fail (js_Jobs st)\<rparr>)"
    using reachable_ready[OF assms(1)] assms(2,4,5) by (simp add: FailJob_def Let_def update_job_def)
  with assms(2) row_at_SomeD[OF assms(2)] show ?thesis
    by (auto simp: row_at_update_rows)
qed

text \<open>What a run keeps of the row: its place and limit, the count, and the time of the retry.\<close>

definition after_failures :: "'j job_row \<Rightarrow> nat \<Rightarrow> int \<Rightarrow> 'j job_row \<Rightarrow> bool" where
  "after_failures r0 n due r \<longleftrightarrow>
     jr_Queue r = jr_Queue r0 \<and> jr_Priority r = jr_Priority r0 \<and> jr_MaxAttempts r = jr_MaxAttempts r0 \<and>
     jr_Attempts r = jr_Attempts r0 + int n \<and> jr_Attempts r \<le> jr_MaxAttempts r \<and>
     (if jr_Attempts r < jr_MaxAttempts r then jr_Status r = ''pending'' \<and> jr_RunAt r = due
      else jr_Status r = ''failed'')"

lemma failing_run_row:
  assumes "failing_run k st0 n due st" "jobs_reachable st0" "job_row_of k st0 = Some r0" "jr_Status r0 = ''pending''"
    and "0 < jr_MaxAttempts r0" "trim_space k = k"
  shows "jobs_reachable st \<and> (\<exists>r. job_row_of k st = Some r \<and> after_failures r0 n due r)"
  using assms(1)
proof induction
  case (run_start r)
  have "jr_Attempts r0 < jr_MaxAttempts r0"
    using jq.holds[OF assms(2)] row_at_SomeD[OF assms(3)] assms(4,5) by (auto simp: jobs_ok_def job_row_ok_def live_def)
  with run_start assms show ?case by (auto simp: after_failures_def)
next
  case (run_others n due st st')
  then show ?case by (auto simp: others_step_def intro: reach_step)
next
  case (run_attempt n due st locked now c jobs st1 st2 f st3 failed)
  then have reach: "jobs_reachable st" by blast
  from run_attempt obtain r where r: "job_row_of k st = Some r" "after_failures r0 n due r" by blast
  have "st1 = snd (ClaimJobs locked now c st)" using run_attempt by simp
  with reach have "jobs_reachable st1" by (auto intro: reach_step step_claim)
  with run_attempt others_star have reach2: "jobs_reachable st2" and row2: "job_row_of k st2 = job_row_of k st1" by blast+
  from claimed_row[OF run_attempt(2) reach run_attempt(3)] r(1) have
    "jr_Status r = ''pending''" and row1: "job_row_of k st1 = Some (claimed_by (jc_Worker c) now r)"
    by (auto simp: is_due_def)
  then have lt: "jr_Attempts r < jr_MaxAttempts r" using r(2) by (auto simp: after_failures_def split: if_splits)
  have "live (claimed_by (jc_Worker c) now r)" by (simp add: live_def claimed_by_def)
  from fail_live_row[OF reach2 _ this assms(6) run_attempt(5), of failed] row1 row2 obtain failedAt where
    "job_row_of k st3 = Some (fail_job (jf_Error f) (time_or (jf_RetryAt f) failed) failedAt (claimed_by (jc_Worker c) now r))"
    using run_attempt(6) by auto
  moreover have "jobs_reachable st3" using reach2 run_attempt(6) by (auto intro: reach_step step_fail)
  ultimately show ?case using r(2) lt by (auto simp: after_failures_def fail_job_def claimed_by_def Let_def)
qed

lemma claim_takes_or_is_full:
  assumes "ClaimJobs locked now c st = (Inr jobs, st')" "jobs_reachable st" "job_row_of k st = Some r"
    and "is_due (statusOrDefault (jc_Queue c) ''default'') now r" "k \<notin> locked"
  shows "k \<in> job_JobID ` set jobs \<or> length jobs = nat (clampLimit (jc_Limit c) 20 100)"
proof -
  have ids: "distinct (map jr_JobID (js_Jobs st))" using jq.holds[OF assms(2)] by (simp add: jobs_ok_def)
  note jobs = claim_result(1)[OF assms(1) ids]
  have r: "r \<in> set (js_Jobs st)" "jr_JobID r = k" using row_at_SomeD[OF assms(3)] by auto
  show ?thesis
  proof (cases "r \<in> set (claimable locked now c st)")
    case True
    with r jobs show ?thesis by (force simp: scanJob_def claimed_by_def)
  next
    case False
    with due_jobs_full[OF r(1) assms(4) _ False] r assms(5) show ?thesis
      by (simp add: jobs claim_length[OF ids])
  qed
qed

text \<open>C13: A pending job with a positive limit whose attempts fail is tried again until its attempts reach the
  limit, and never more often, whatever else happens to the queue. Before that it is pending from the retry time
  of the last report on: every later claim for its queue that is not kept off it by a lock takes it, or is full.
  Once the limit is reached it has failed for good, and no claim takes it.\<close>

theorem failing_jobs_are_retried_up_to_the_limit:
  assumes "failing_run k st0 n due st" "jobs_reachable st0" "job_row_of k st0 = Some r0" "jr_Status r0 = ''pending''"
    and "0 < jr_MaxAttempts r0" "trim_space k = k"
  shows "jr_Attempts r0 + int n \<le> jr_MaxAttempts r0 \<and>
    (\<exists>r. job_row_of k st = Some r \<and> jr_Attempts r = jr_Attempts r0 + int n \<and>
       jr_Status r = (if jr_Attempts r0 + int n < jr_MaxAttempts r0 then ''pending'' else ''failed'')) \<and>
    (\<forall>locked now c jobs st'. ClaimJobs locked now c st = (Inr jobs, st') \<longrightarrow>
       (if jr_Attempts r0 + int n < jr_MaxAttempts r0
        then due \<le> now \<and> statusOrDefault (jc_Queue c) ''default'' = jr_Queue r0 \<and> k \<notin> locked \<longrightarrow>
             k \<in> job_JobID ` set jobs \<or> length jobs = nat (clampLimit (jc_Limit c) 20 100)
        else k \<notin> job_JobID ` set jobs))"
proof -
  from failing_run_row[OF assms] obtain r where reach: "jobs_reachable st" and r: "job_row_of k st = Some r"
    and after: "after_failures r0 n due r" by blast
  have taken: "k \<in> job_JobID ` set jobs \<or> length jobs = nat (clampLimit (jc_Limit c) 20 100)"
    if "ClaimJobs locked now c st = (Inr jobs, st')" "jr_Attempts r0 + int n < jr_MaxAttempts r0" "due \<le> now"
      "statusOrDefault (jc_Queue c) ''default'' = jr_Queue r0" "k \<notin> locked" for locked now c jobs st'
    using claim_takes_or_is_full[OF that(1) reach r _ that(5)] that after by (simp add: after_failures_def is_due_def)
  have over: "k \<notin> job_JobID ` set jobs"
    if "ClaimJobs locked now c st = (Inr jobs, st')" "\<not> jr_Attempts r0 + int n < jr_MaxAttempts r0"
    for locked now c jobs st'
  proof
    assume "k \<in> job_JobID ` set jobs"
    from claimed_row[OF that(1) reach this] r after that(2) show False by (auto simp: after_failures_def is_due_def)
  qed
  show ?thesis
  proof (intro conjI allI impI)
    show "jr_Attempts r0 + int n \<le> jr_MaxAttempts r0" using after by (simp add: after_failures_def)
    show "\<exists>r. job_row_of k st = Some r \<and> jr_Attempts r = jr_Attempts r0 + int n \<and>
        jr_Status r = (if jr_Attempts r0 + int n < jr_MaxAttempts r0 then ''pending'' else ''failed'')"
      using r after by (auto simp: after_failures_def)
  next
    fix locked now c jobs st' assume claim: "ClaimJobs locked now c st = (Inr jobs, st')"
    show "if jr_Attempts r0 + int n < jr_MaxAttempts r0
        then due \<le> now \<and> statusOrDefault (jc_Queue c) ''default'' = jr_Queue r0 \<and> k \<notin> locked \<longrightarrow>
             k \<in> job_JobID ` set jobs \<or> length jobs = nat (clampLimit (jc_Limit c) 20 100)
        else k \<notin> job_JobID ` set jobs"
      using taken[OF claim] over[OF claim] by presburger
  qed
qed

definition sample_failure :: JobFailInput where
  "sample_failure = \<lparr>jf_Error = ''e'', jf_RetryAt = Some 9, jf_FailedAt = None\<rparr>"

definition once_failed :: "unit job_state" where
  "once_failed = snd (FailJob 8 ''b'' sample_failure (snd (ClaimJobs {} 7 sample_claim sample_jobs)))"

theorem failing_jobs_are_retried_up_to_the_limit_witness:
  "''b'' \<in> job_JobID ` set (projr (fst (ClaimJobs {} 9 (sample_claim\<lparr>jc_Limit := 3\<rparr>) once_failed))) \<and>
   \<not> isl (fst (ClaimJobs {} 9 (sample_claim\<lparr>jc_Limit := 3\<rparr>) once_failed))"
proof -
  let ?c1 = "ClaimJobs {} 7 sample_claim sample_jobs"
  let ?c2 = "ClaimJobs {} 9 (sample_claim\<lparr>jc_Limit := 3\<rparr>) once_failed"
  let ?at = "job_row_of ''b'' sample_jobs"
  have reach: "jobs_reachable sample_jobs"
    unfolding sample_jobs_def by (intro reach_step[where step = job_step, OF _ step_enqueue] reach_start)
  have r: "?at \<noteq> None \<and> jr_Attempts (the ?at) = 0 \<and> jr_MaxAttempts (the ?at) = 2 \<and> jr_Status (the ?at) = ''pending'' \<and>
      jr_Queue (the ?at) = ''default''" by code_simp
  have c1: "\<not> isl (fst ?c1) \<and> ''b'' \<in> job_JobID ` set (projr (fst ?c1))" by code_simp
  have b: "trim_space ''b'' = ''b'' \<and> \<not> blank (jf_Error sample_failure)" by code_simp
  have run: "failing_run ''b'' sample_jobs (Suc 0) (time_or (jf_RetryAt sample_failure) 8) once_failed"
    using r c1 b by (intro run_attempt[OF run_start[of _ _ "the ?at"],
        where locked = "{}" and now = 7 and c = sample_claim and jobs = "projr (fst ?c1)" and ?st1.0 = "snd ?c1" and ?st2.0 = "snd ?c1"])
      (auto simp: once_failed_def prod_eq_iff)
  have due: "time_or (jf_RetryAt sample_failure) 8 = 9" by (simp add: sample_failure_def time_or_def)
  have c2: "\<not> isl (fst ?c2) \<and> length (projr (fst ?c2)) = 2 \<and>
      statusOrDefault (jc_Queue (sample_claim\<lparr>jc_Limit := 3\<rparr>)) ''default'' = ''default'' \<and>
      nat (clampLimit (jc_Limit (sample_claim\<lparr>jc_Limit := 3\<rparr>)) 20 100) = 3" by code_simp
  have e2: "?c2 = (Inr (projr (fst ?c2)), snd ?c2)" using c2 by (simp add: prod_eq_iff)
  have "\<And>x. ?at = Some x \<Longrightarrow> x = the ?at" by simp
  from failing_jobs_are_retried_up_to_the_limit[OF run reach, of "the ?at"] r b
  have "\<forall>locked now c jobs st'. ClaimJobs locked now c once_failed = (Inr jobs, st') \<longrightarrow>
       (9 \<le> now \<and> statusOrDefault (jc_Queue c) ''default'' = ''default'' \<and> ''b'' \<notin> locked \<longrightarrow>
          ''b'' \<in> job_JobID ` set jobs \<or> length jobs = nat (clampLimit (jc_Limit c) 20 100))"
    by (auto simp: due)
  with e2 c2 show ?thesis by fastforce
qed

end
