(* ===== verification/Registry_Ledger.thy ===== *)
theory Registry_Ledger
  imports Runtime_Helpers
begin

text \<open>
  The registry ledger of internal/interactions/runtime_registry.go: change sets and their rows in
  the tables \<open>runtime_registry_change_sets\<close> and \<open>runtime_registry_rows\<close>.
  \<open>on conflict ... do update set k = k\<close> returns the stored row instead of the new one. The identity
  column \<open>row_id\<close> draws from a sequence, which advances for every row that is offered, stored or
  not; the partial unique index on (reference, idempotency key) makes a second change set with the
  same key fail before any row is offered. The type of the JSON objects (metadata and payload) is a
  parameter: the ledger stores them as they are.
\<close>

record 'j RegistryChangeSet =
  cs_ChangeSetID :: string
  cs_Reference :: string
  cs_SeedID :: string
  cs_RealizationID :: string
  cs_IdempotencyKey :: string
  cs_AcceptedBy :: string
  cs_Metadata :: "'j"
  cs_AcceptedAt :: int

record 'j RegistryRow =
  rw_RowID :: int
  rw_ChangeSetID :: string
  rw_Reference :: string
  rw_SeedID :: string
  rw_RealizationID :: string
  rw_RowOrder :: nat
  rw_RowType :: string
  rw_ObjectID :: string
  rw_ClaimID :: string
  rw_Payload :: "'j"
  rw_AcceptedAt :: int

record 'j AppendRegistryRowInput =
  ar_RowType :: string
  ar_ObjectID :: string
  ar_ClaimID :: string
  ar_Payload :: "'j"

record 'j AppendRegistryChangeSetInput =
  ac_ChangeSetID :: string
  ac_Reference :: string
  ac_SeedID :: string
  ac_RealizationID :: string
  ac_IdempotencyKey :: string
  ac_AcceptedBy :: string
  ac_Metadata :: "'j"
  ac_Rows :: "'j AppendRegistryRowInput list"

record 'j AppendedRegistryChangeSet =
  ap_ChangeSet :: "'j RegistryChangeSet"
  ap_Rows :: "'j RegistryRow list"

record ListRegistryRowsInput =
  li_Reference :: string
  li_SeedID :: string
  li_RealizationID :: string
  li_AfterRowID :: int
  li_Limit :: int

record 'j ledger =
  lg_Ready :: bool
  lg_ChangeSets :: "'j RegistryChangeSet list"
  lg_Rows :: "'j RegistryRow list"
  lg_NextRowID :: int

subsection \<open>Appending\<close>

definition new_change_set ::
  "string \<Rightarrow> int \<Rightarrow> 'j AppendRegistryChangeSetInput \<Rightarrow> 'j RegistryChangeSet" where
  "new_change_set fresh now i =
     \<lparr>cs_ChangeSetID = (if ac_ChangeSetID i = [] then fresh else ac_ChangeSetID i),
      cs_Reference = trim_space (ac_Reference i), cs_SeedID = trim_space (ac_SeedID i),
      cs_RealizationID = trim_space (ac_RealizationID i),
      cs_IdempotencyKey = trim_space (ac_IdempotencyKey i),
      cs_AcceptedBy = (if trim_space (ac_AcceptedBy i) = [] then ''system'' else trim_space (ac_AcceptedBy i)),
      cs_Metadata = ac_Metadata i, cs_AcceptedAt = now\<rparr>"

text \<open>The insert into the change sets: a stored change set of the same id wins.\<close>

definition insert_change_set ::
  "'j RegistryChangeSet \<Rightarrow> 'j ledger \<Rightarrow> (runtime_error + 'j RegistryChangeSet) \<times> 'j ledger" where
  "insert_change_set c lg =
     (case row_at cs_ChangeSetID (cs_ChangeSetID c) (lg_ChangeSets lg) of
        Some c0 \<Rightarrow> (Inr c0, lg)
      | None \<Rightarrow>
          if cs_IdempotencyKey c \<noteq> [] \<and>
             (\<exists>c'\<in>set (lg_ChangeSets lg).
                cs_Reference c' = cs_Reference c \<and> cs_IdempotencyKey c' = cs_IdempotencyKey c)
          then (Inl (ErrConflict ''runtime_registry_change_sets_reference_idempotency_idx''), lg)
          else (Inr c, lg\<lparr>lg_ChangeSets := lg_ChangeSets lg @ [c]\<rparr>))"

definition row_key :: "'j RegistryRow \<Rightarrow> string \<times> nat" where
  "row_key r = (rw_ChangeSetID r, rw_RowOrder r)"

definition new_row ::
  "int \<Rightarrow> 'j RegistryChangeSet \<Rightarrow> nat \<Rightarrow> 'j AppendRegistryRowInput \<Rightarrow> 'j RegistryRow" where
  "new_row rowID c i item =
     \<lparr>rw_RowID = rowID, rw_ChangeSetID = cs_ChangeSetID c, rw_Reference = cs_Reference c,
      rw_SeedID = cs_SeedID c, rw_RealizationID = cs_RealizationID c, rw_RowOrder = i,
      rw_RowType = trim_space (ar_RowType item), rw_ObjectID = trim_space (ar_ObjectID item),
      rw_ClaimID = trim_space (ar_ClaimID item), rw_Payload = ar_Payload item,
      rw_AcceptedAt = cs_AcceptedAt c\<rparr>"

text \<open>The insert of one row, and the loop over the rows.\<close>

definition insert_row ::
  "'j RegistryChangeSet \<Rightarrow> nat \<Rightarrow> 'j AppendRegistryRowInput \<Rightarrow> 'j ledger \<Rightarrow> 'j RegistryRow \<times> 'j ledger"
where
  "insert_row c i item lg =
     (let r = new_row (lg_NextRowID lg) c i item;
          lg' = lg\<lparr>lg_NextRowID := lg_NextRowID lg + 1\<rparr>
      in case row_at row_key (row_key r) (lg_Rows lg) of
           Some r0 \<Rightarrow> (r0, lg')
         | None \<Rightarrow> (r, lg'\<lparr>lg_Rows := lg_Rows lg @ [r]\<rparr>))"

fun insert_rows ::
  "'j RegistryChangeSet \<Rightarrow> nat \<Rightarrow> 'j AppendRegistryRowInput list \<Rightarrow> 'j ledger \<Rightarrow>
   'j RegistryRow list \<times> 'j ledger" where
  "insert_rows c i [] lg = ([], lg)"
| "insert_rows c i (item # items) lg =
     (let (r, lg1) = insert_row c i item lg; (rs, lg2) = insert_rows c (Suc i) items lg1
      in (r # rs, lg2))"

definition AppendRegistryChangeSet ::
  "string \<Rightarrow> int \<Rightarrow> 'j AppendRegistryChangeSetInput \<Rightarrow> 'j ledger \<Rightarrow>
   (runtime_error + 'j AppendedRegistryChangeSet) \<times> 'j ledger" where
  "AppendRegistryChangeSet fresh now i lg =
     (if \<not> lg_Ready lg then (Inl NotConfigured, lg)
      else if blank (ac_Reference i) \<or> blank (ac_SeedID i) \<or> blank (ac_RealizationID i)
        then (Inl (Required ''reference, seed_id, and realization_id''), lg)
      else if ac_Rows i = [] then (Inl (Required ''rows''), lg)
      else if \<exists>row\<in>set (ac_Rows i). blank (ar_RowType row) then (Inl (Required ''row_type''), lg)
      else
        (case insert_change_set (new_change_set fresh now i) lg of
           (Inl e, _) \<Rightarrow> (Inl e, lg)
         | (Inr c, lg1) \<Rightarrow>
             (let (rows, lg2) = insert_rows c 0 (ac_Rows i) lg1
              in (Inr \<lparr>ap_ChangeSet = c, ap_Rows = rows\<rparr>, lg2))))"

subsection \<open>Reading\<close>

definition GetRegistryChangeSet :: "string \<Rightarrow> 'j ledger \<Rightarrow> runtime_error + 'j RegistryChangeSet" where
  "GetRegistryChangeSet k lg =
     (if \<not> lg_Ready lg then Inl NotConfigured
      else case row_at cs_ChangeSetID (trim_space k) (lg_ChangeSets lg) of
        None \<Rightarrow> Inl ErrNotFound | Some c \<Rightarrow> Inr c)"

definition GetRegistryRow :: "int \<Rightarrow> 'j ledger \<Rightarrow> runtime_error + 'j RegistryRow" where
  "GetRegistryRow k lg =
     (if \<not> lg_Ready lg then Inl NotConfigured
      else case row_at rw_RowID k (lg_Rows lg) of None \<Rightarrow> Inl ErrNotFound | Some r \<Rightarrow> Inr r)"

text \<open>\<open>order by accepted_at desc, change_set_id desc limit $2\<close>\<close>

definition ListRegistryChangeSets ::
  "string \<Rightarrow> int \<Rightarrow> 'j ledger \<Rightarrow> runtime_error + 'j RegistryChangeSet list" where
  "ListRegistryChangeSets reference limit lg =
     (if \<not> lg_Ready lg then Inl NotConfigured
      else
        Inr (take (nat (clampLimit limit 100 500))
          (rev (sort_key cs_AcceptedAt (sort_key cs_ChangeSetID
            (filter (\<lambda>c. trim_space reference = [] \<or> cs_Reference c = trim_space reference)
               (lg_ChangeSets lg)))))))"

definition row_matches :: "ListRegistryRowsInput \<Rightarrow> 'j RegistryRow \<Rightarrow> bool" where
  "row_matches i r \<longleftrightarrow>
     (trim_space (li_Reference i) = [] \<or> rw_Reference r = trim_space (li_Reference i)) \<and>
     (trim_space (li_SeedID i) = [] \<or> rw_SeedID r = trim_space (li_SeedID i)) \<and>
     (trim_space (li_RealizationID i) = [] \<or> rw_RealizationID r = trim_space (li_RealizationID i))"

definition listRegistryRowsWithQuery :: "ListRegistryRowsInput \<Rightarrow> 'j ledger \<Rightarrow> 'j RegistryRow list" where
  "listRegistryRowsWithQuery i lg =
     take (nat (clampLimit (li_Limit i) 500 5000))
       (sort_key rw_RowID (filter (\<lambda>r. row_matches i r \<and> rw_RowID r > li_AfterRowID i) (lg_Rows lg)))"

definition ListRegistryRows ::
  "ListRegistryRowsInput \<Rightarrow> 'j ledger \<Rightarrow> runtime_error + 'j RegistryRow list" where
  "ListRegistryRows i lg =
     (if \<not> lg_Ready lg then Inl NotConfigured else Inr (listRegistryRowsWithQuery i lg))"

text \<open>
  The loop of \<open>authorityStateNeedsMaterialize\<close> and \<open>materializeAuthorityStateTx\<close>: pages of rows
  until an empty one, each after the last row of the page before it. It ends because that row
  leaves the rows still to be read.
\<close>

lemma listed_rows:
  "r \<in> set (listRegistryRowsWithQuery i lg) \<Longrightarrow>
   r \<in> set (lg_Rows lg) \<and> row_matches i r \<and> rw_RowID r > li_AfterRowID i"
  by (auto simp: listRegistryRowsWithQuery_def dest: in_set_takeD)

lemma fewer_rows_after:
  assumes "r \<in> set rows" "a < rw_RowID r"
  shows "length (filter (\<lambda>x. rw_RowID r < rw_RowID x) rows) < length (filter (\<lambda>x. a < rw_RowID x) rows)"
proof -
  have "filter (\<lambda>x. rw_RowID r < rw_RowID x) rows =
      filter (\<lambda>x. rw_RowID r < rw_RowID x) (filter (\<lambda>x. a < rw_RowID x) rows)"
    using assms(2) by (auto intro: filter_cong)
  also have "length \<dots> < length (filter (\<lambda>x. a < rw_RowID x) rows)"
    using assms by (intro length_filter_less[of r]) auto
  finally show ?thesis .
qed

function all_pages :: "ListRegistryRowsInput \<Rightarrow> 'j ledger \<Rightarrow> 'j RegistryRow list" where
  "all_pages i lg =
     (let rows = listRegistryRowsWithQuery i lg in
      if rows = [] then []
      else rows @ all_pages (i\<lparr>li_AfterRowID := rw_RowID (last rows)\<rparr>) lg)"
  by pat_completeness auto
termination
proof (relation "measure (\<lambda>(i, lg). length (filter (\<lambda>r. li_AfterRowID i < rw_RowID r) (lg_Rows lg)))")
  fix i and lg :: "'j ledger" and rows
  assume rows: "rows = listRegistryRowsWithQuery i lg" "rows \<noteq> []"
  then have "last rows \<in> set (lg_Rows lg)" "li_AfterRowID i < rw_RowID (last rows)"
    using listed_rows[of "last rows" i lg] by auto
  then show "((i\<lparr>li_AfterRowID := rw_RowID (last rows)\<rparr>, lg), i, lg)
      \<in> measure (\<lambda>(i, lg). length (filter (\<lambda>r. li_AfterRowID i < rw_RowID r) (lg_Rows lg)))"
    by (simp add: fewer_rows_after)
qed simp

declare all_pages.simps [simp del]

end
