(* ===== verification/Ledger_Properties.thy ===== *)
theory Ledger_Properties
  imports Registry_Ledger
begin

text \<open>
  The registry ledger is append-only: its invariant, the retry of an accepted change set, and the
  paging loop that reads it to the end.
\<close>

inductive ledger_step :: "'j ledger \<Rightarrow> 'j ledger \<Rightarrow> bool" where
  step_append: "ledger_step lg (snd (AppendRegistryChangeSet fresh now i lg))"

definition no_ledger :: "'j ledger" where
  "no_ledger = \<lparr>lg_Ready = True, lg_ChangeSets = [], lg_Rows = [], lg_NextRowID = 1\<rparr>"

subsection \<open>The invariant\<close>

text \<open>A row repeats the identity and the time of its change set.\<close>

definition row_of :: "'j RegistryChangeSet \<Rightarrow> 'j RegistryRow \<Rightarrow> bool" where
  "row_of c r \<longleftrightarrow>
     rw_ChangeSetID r = cs_ChangeSetID c \<and> rw_Reference r = cs_Reference c \<and>
     rw_SeedID r = cs_SeedID c \<and> rw_RealizationID r = cs_RealizationID c \<and>
     rw_AcceptedAt r = cs_AcceptedAt c"

definition orders_of :: "string \<Rightarrow> 'j RegistryRow list \<Rightarrow> nat set" where
  "orders_of k rows = rw_RowOrder ` {r \<in> set rows. rw_ChangeSetID r = k}"

definition rows_ok :: "'j ledger \<Rightarrow> bool" where
  "rows_ok lg \<longleftrightarrow>
     sorted_wrt (<) (map rw_RowID (lg_Rows lg)) \<and> (\<forall>r\<in>set (lg_Rows lg). rw_RowID r < lg_NextRowID lg) \<and>
     distinct (map row_key (lg_Rows lg)) \<and>
     (\<forall>r\<in>set (lg_Rows lg). \<exists>c\<in>set (lg_ChangeSets lg). row_of c r)"

definition sets_ok :: "'j RegistryChangeSet list \<Rightarrow> bool" where
  "sets_ok cs \<longleftrightarrow>
     distinct (map cs_ChangeSetID cs) \<and>
     (\<forall>c\<in>set cs. \<forall>c'\<in>set cs. cs_IdempotencyKey c \<noteq> [] \<and> cs_Reference c = cs_Reference c' \<and>
        cs_IdempotencyKey c = cs_IdempotencyKey c' \<longrightarrow> c = c')"

text \<open>The orders of a change set have no gap, and there is no empty change set.\<close>

definition ledger_ok :: "'j ledger \<Rightarrow> bool" where
  "ledger_ok lg \<longleftrightarrow>
     rows_ok lg \<and> sets_ok (lg_ChangeSets lg) \<and>
     (\<forall>c\<in>set (lg_ChangeSets lg). \<exists>n>0. orders_of (cs_ChangeSetID c) (lg_Rows lg) = {..<n})"

lemma ledger_okD:
  assumes "ledger_ok lg"
  shows "rows_ok lg" "sets_ok (lg_ChangeSets lg)" "sorted_wrt (<) (map rw_RowID (lg_Rows lg))"
    "distinct (map row_key (lg_Rows lg))" "distinct (map cs_ChangeSetID (lg_ChangeSets lg))"
  using assms unfolding ledger_ok_def rows_ok_def sets_ok_def by blast+

lemma ledger_row_set:
  "ledger_ok lg \<Longrightarrow> r \<in> set (lg_Rows lg) \<Longrightarrow> \<exists>c\<in>set (lg_ChangeSets lg). row_of c r"
  by (simp add: ledger_ok_def rows_ok_def)

subsection \<open>Inserting rows\<close>

lemma insert_rows_Cons [simp]:
  "insert_rows c i (item # items) lg =
     (let lg1 = snd (insert_row c i item lg) in
      (fst (insert_row c i item lg) # fst (insert_rows c (Suc i) items lg1),
       snd (insert_rows c (Suc i) items lg1)))"
  by (simp add: Let_def split: prod.split)

declare insert_rows.simps(2) [simp del]

lemma insert_row_cases:
  obtains r0 where "row_at row_key (cs_ChangeSetID c, i) (lg_Rows lg) = Some r0"
      "insert_row c i item lg = (r0, lg\<lparr>lg_NextRowID := lg_NextRowID lg + 1\<rparr>)"
  | "row_at row_key (cs_ChangeSetID c, i) (lg_Rows lg) = None"
      "insert_row c i item lg =
         (new_row (lg_NextRowID lg) c i item,
          lg\<lparr>lg_NextRowID := lg_NextRowID lg + 1,
             lg_Rows := lg_Rows lg @ [new_row (lg_NextRowID lg) c i item]\<rparr>)"
proof -
  have k: "row_key (new_row (lg_NextRowID lg) c i item) = (cs_ChangeSetID c, i)"
    by (simp add: row_key_def new_row_def)
  show thesis
    by (cases "row_at row_key (cs_ChangeSetID c, i) (lg_Rows lg)")
      (auto simp: insert_row_def Let_def k intro: that)
qed

lemma insert_row_frame [runtime_row]:
  "lg_ChangeSets (snd (insert_row c i item lg)) = lg_ChangeSets lg"
  "lg_Ready (snd (insert_row c i item lg)) = lg_Ready lg"
  "\<exists>ext. lg_Rows (snd (insert_row c i item lg)) = lg_Rows lg @ ext"
  by (cases rule: insert_row_cases[of c i lg item], auto)+

lemma insert_row_ok:
  assumes "rows_ok lg" "c \<in> set (lg_ChangeSets lg)"
  shows "rows_ok (snd (insert_row c i item lg))"
proof (cases rule: insert_row_cases[of c i lg item])
  case (1 r0)
  with assms show ?thesis by (force simp: rows_ok_def)
next
  case 2
  let ?r = "new_row (lg_NextRowID lg) c i item"
  have "row_key ?r \<notin> row_key ` set (lg_Rows lg)"
    using 2(1) by (simp add: row_at_None row_key_def new_row_def)
  moreover have "row_of c ?r" by (simp add: row_of_def new_row_def)
  moreover have "rw_RowID ?r = lg_NextRowID lg" by (simp add: new_row_def)
  ultimately show ?thesis
    using assms 2(2) by (force simp: rows_ok_def sorted_wrt_append)
qed

lemma insert_row_orders:
  "orders_of k (lg_Rows (snd (insert_row c i item lg))) =
     orders_of k (lg_Rows lg) \<union> (if k = cs_ChangeSetID c then {i} else {})"
proof (cases rule: insert_row_cases[of c i lg item])
  case (1 r0)
  then have "r0 \<in> set (lg_Rows lg)" "rw_ChangeSetID r0 = cs_ChangeSetID c" "rw_RowOrder r0 = i"
    by (auto dest!: row_at_SomeD simp: row_key_def)
  with 1(2) show ?thesis by (auto simp: orders_of_def)
next
  case 2
  let ?r = "new_row (lg_NextRowID lg) c i item"
  have "rw_RowOrder ?r = i" "rw_ChangeSetID ?r = cs_ChangeSetID c" by (simp_all add: new_row_def)
  with 2(2) show ?thesis by (force simp: orders_of_def)
qed

lemma insert_rows_frame:
  "lg_ChangeSets (snd (insert_rows c i items lg)) = lg_ChangeSets lg \<and>
   lg_Ready (snd (insert_rows c i items lg)) = lg_Ready lg \<and>
   (\<exists>ext. lg_Rows (snd (insert_rows c i items lg)) = lg_Rows lg @ ext)"
proof (induction items arbitrary: i lg)
  case (Cons item items)
  from insert_row_frame(3)[of c i item lg] Cons[of "Suc i" "snd (insert_row c i item lg)"]
  show ?case by (auto simp: insert_row_frame(1,2) Let_def)
qed simp

lemma insert_rows_ok:
  "rows_ok lg \<Longrightarrow> c \<in> set (lg_ChangeSets lg) \<Longrightarrow> rows_ok (snd (insert_rows c i items lg))"
proof (induction items arbitrary: i lg)
  case (Cons item items)
  then show ?case
    using Cons.IH[of "snd (insert_row c i item lg)" "Suc i"]
    by (simp add: insert_row_ok insert_row_frame(1) Let_def)
qed simp

lemma insert_rows_orders:
  "orders_of k (lg_Rows (snd (insert_rows c i items lg))) =
     orders_of k (lg_Rows lg) \<union> (if k = cs_ChangeSetID c then {i..<i + length items} else {})"
proof (induction items arbitrary: i lg)
  case (Cons item items)
  have "{i..<i + length (item # items)} = insert i {Suc i..<Suc i + length items}" by auto
  then show ?case
    using Cons[of "Suc i" "snd (insert_row c i item lg)"] insert_row_orders[of k c i item lg]
    by (auto simp: Let_def)
qed simp

text \<open>The rows an append returns are the stored rows of its orders.\<close>

lemma row_at_appended:
  "row_at key k t = Some r \<Longrightarrow> row_at key k (t @ ext) = Some r"
  by (induction t) (auto simp: row_at_def)

lemma insert_row_result:
  "row_at row_key (cs_ChangeSetID c, i) (lg_Rows (snd (insert_row c i item lg))) =
     Some (fst (insert_row c i item lg))"
  by (cases rule: insert_row_cases[of c i lg item]) (auto simp: row_at_append row_key_def new_row_def)

lemma insert_rows_result:
  "map Some (fst (insert_rows c i items lg)) =
     map (\<lambda>j. row_at row_key (cs_ChangeSetID c, j) (lg_Rows (snd (insert_rows c i items lg))))
       [i..<i + length items]"
proof (induction items arbitrary: i lg)
  case (Cons item items)
  let ?lg = "snd (insert_row c i item lg)"
  obtain ext where ext: "lg_Rows (snd (insert_rows c (Suc i) items ?lg)) = lg_Rows ?lg @ ext"
    using insert_rows_frame by blast
  have "row_at row_key (cs_ChangeSetID c, i) (lg_Rows ?lg @ ext) = Some (fst (insert_row c i item lg))"
    by (rule row_at_appended[OF insert_row_result])
  moreover have "[i..<i + length (item # items)] = i # [Suc i..<Suc i + length items]"
    by (simp add: upt_conv_Cons del: upt_Suc)
  ultimately show ?case
    using Cons[of "Suc i" ?lg] ext by (simp add: Let_def del: upt_Suc)
qed simp

text \<open>Offering rows whose orders are stored changes nothing but the sequence.\<close>

lemma insert_rows_known:
  "(\<forall>j\<in>{i..<i + length items}. row_at row_key (cs_ChangeSetID c, j) (lg_Rows lg) \<noteq> None) \<Longrightarrow>
   snd (insert_rows c i items lg) = lg\<lparr>lg_NextRowID := lg_NextRowID lg + int (length items)\<rparr>"
proof (induction items arbitrary: i lg)
  case (Cons item items)
  then have "row_at row_key (cs_ChangeSetID c, i) (lg_Rows lg) \<noteq> None" by auto
  then have "snd (insert_row c i item lg) = lg\<lparr>lg_NextRowID := lg_NextRowID lg + 1\<rparr>"
    by (cases rule: insert_row_cases[of c i lg item]) auto
  moreover have "snd (insert_rows c (Suc i) items (lg\<lparr>lg_NextRowID := lg_NextRowID lg + 1\<rparr>)) =
      lg\<lparr>lg_NextRowID := lg_NextRowID lg + 1 + int (length items)\<rparr>"
    using Cons by simp
  ultimately show ?case by (simp add: Let_def ac_simps)
qed simp

subsection \<open>Appending a change set\<close>

definition append_input_ok :: "'j AppendRegistryChangeSetInput \<Rightarrow> bool" where
  "append_input_ok i \<longleftrightarrow>
     \<not> blank (ac_Reference i) \<and> \<not> blank (ac_SeedID i) \<and> \<not> blank (ac_RealizationID i) \<and>
     ac_Rows i \<noteq> [] \<and> (\<forall>row\<in>set (ac_Rows i). \<not> blank (ar_RowType row))"

text \<open>The three outcomes of an append: refused, offered to a stored change set, or to a new one.\<close>

lemma append_cases:
  obtains (refused) e where "AppendRegistryChangeSet fresh now i lg = (Inl e, lg)"
  | (stored) c where "append_input_ok i" "lg_Ready lg"
      "row_at cs_ChangeSetID (cs_ChangeSetID (new_change_set fresh now i)) (lg_ChangeSets lg) = Some c"
      "AppendRegistryChangeSet fresh now i lg =
         (Inr \<lparr>ap_ChangeSet = c, ap_Rows = fst (insert_rows c 0 (ac_Rows i) lg)\<rparr>,
          snd (insert_rows c 0 (ac_Rows i) lg))"
  | (new) c lg1 where "append_input_ok i" "lg_Ready lg" "c = new_change_set fresh now i"
      "lg1 = lg\<lparr>lg_ChangeSets := lg_ChangeSets lg @ [c]\<rparr>"
      "cs_ChangeSetID c \<notin> cs_ChangeSetID ` set (lg_ChangeSets lg)"
      "cs_IdempotencyKey c \<noteq> [] \<longrightarrow> (\<forall>c'\<in>set (lg_ChangeSets lg).
          \<not> (cs_Reference c' = cs_Reference c \<and> cs_IdempotencyKey c' = cs_IdempotencyKey c))"
      "AppendRegistryChangeSet fresh now i lg =
         (Inr \<lparr>ap_ChangeSet = c, ap_Rows = fst (insert_rows c 0 (ac_Rows i) lg1)\<rparr>,
          snd (insert_rows c 0 (ac_Rows i) lg1))"
proof (cases "lg_Ready lg \<and> append_input_ok i")
  case False
  then have "\<exists>e. AppendRegistryChangeSet fresh now i lg = (Inl e, lg)"
    by (auto simp: AppendRegistryChangeSet_def append_input_ok_def)
  then show thesis using refused by blast
next
  case True
  let ?c = "new_change_set fresh now i"
  have app: "AppendRegistryChangeSet fresh now i lg =
      (case insert_change_set ?c lg of
         (Inl e, _) \<Rightarrow> (Inl e, lg)
       | (Inr c, lg1) \<Rightarrow>
           (Inr \<lparr>ap_ChangeSet = c, ap_Rows = fst (insert_rows c 0 (ac_Rows i) lg1)\<rparr>,
            snd (insert_rows c 0 (ac_Rows i) lg1)))"
    using True by (simp add: AppendRegistryChangeSet_def append_input_ok_def case_prod_beta Let_def
        split: prod.split sum.split)
  show thesis
  proof (cases "row_at cs_ChangeSetID (cs_ChangeSetID ?c) (lg_ChangeSets lg)")
    case (Some c)
    then show thesis using True app by (intro stored) (auto simp: insert_change_set_def)
  next
    case None
    note absent = this
    show thesis
    proof (cases "cs_IdempotencyKey ?c \<noteq> [] \<and> (\<exists>c'\<in>set (lg_ChangeSets lg).
             cs_Reference c' = cs_Reference ?c \<and> cs_IdempotencyKey c' = cs_IdempotencyKey ?c)")
      case True
      with absent app show thesis by (intro refused) (simp add: insert_change_set_def)
    next
      case False
      have fresh: "cs_ChangeSetID ?c \<notin> cs_ChangeSetID ` set (lg_ChangeSets lg)"
        using absent by (simp add: row_at_None)
      from False have "insert_change_set ?c lg = (Inr ?c, lg\<lparr>lg_ChangeSets := lg_ChangeSets lg @ [?c]\<rparr>)"
        using absent by (auto simp: insert_change_set_def)
      with app have "AppendRegistryChangeSet fresh now i lg =
         (Inr \<lparr>ap_ChangeSet = ?c,
               ap_Rows = fst (insert_rows ?c 0 (ac_Rows i) (lg\<lparr>lg_ChangeSets := lg_ChangeSets lg @ [?c]\<rparr>))\<rparr>,
          snd (insert_rows ?c 0 (ac_Rows i) (lg\<lparr>lg_ChangeSets := lg_ChangeSets lg @ [?c]\<rparr>)))"
        by simp
      with True fresh False show thesis by (intro new[OF _ _ refl refl]) auto
    qed
  qed
qed

lemma append_frame:
  "lg_Ready (snd (AppendRegistryChangeSet fresh now i lg)) = lg_Ready lg \<and>
   (\<exists>ext. lg_ChangeSets (snd (AppendRegistryChangeSet fresh now i lg)) = lg_ChangeSets lg @ ext) \<and>
   (\<exists>ext. lg_Rows (snd (AppendRegistryChangeSet fresh now i lg)) = lg_Rows lg @ ext)"
proof (cases rule: append_cases[of fresh now i lg])
  case (stored c)
  then show ?thesis using insert_rows_frame[of c 0 "ac_Rows i" lg] by simp
next
  case (new c lg1)
  then show ?thesis using insert_rows_frame[of c 0 "ac_Rows i" lg1] by simp
qed simp

lemma append_ok:
  assumes "ledger_ok lg"
  shows "ledger_ok (snd (AppendRegistryChangeSet fresh now i lg))"
proof (cases rule: append_cases[of fresh now i lg])
  case refused
  with assms show ?thesis by simp
next
  case (stored c)
  let ?lg = "snd (insert_rows c 0 (ac_Rows i) lg)"
  have c: "c \<in> set (lg_ChangeSets lg)" using row_at_SomeD[OF stored(3)] by simp
  have cs: "lg_ChangeSets ?lg = lg_ChangeSets lg" using insert_rows_frame by blast
  have "\<exists>n>0. orders_of (cs_ChangeSetID d) (lg_Rows ?lg) = {..<n}" if d: "d \<in> set (lg_ChangeSets lg)" for d
  proof -
    obtain n where n: "n > 0" "orders_of (cs_ChangeSetID d) (lg_Rows lg) = {..<n}"
      using assms d by (auto simp: ledger_ok_def)
    show ?thesis
    proof (cases "cs_ChangeSetID d = cs_ChangeSetID c")
      case True
      have "{..<n} \<union> {0..<0 + length (ac_Rows i)} = {..<max n (length (ac_Rows i))}" by auto
      then have "orders_of (cs_ChangeSetID d) (lg_Rows ?lg) = {..<max n (length (ac_Rows i))}"
        unfolding insert_rows_orders n(2) using True by (simp only: if_True refl)
      with n(1) show ?thesis by (intro exI[of _ "max n (length (ac_Rows i))"]) simp
    next
      case False
      then have "orders_of (cs_ChangeSetID d) (lg_Rows ?lg) = {..<n}"
        unfolding insert_rows_orders n(2) by simp
      with n(1) show ?thesis by blast
    qed
  qed
  with assms c stored(4) show ?thesis by (simp add: ledger_ok_def cs insert_rows_ok)
next
  case (new c lg1)
  let ?lg = "snd (insert_rows c 0 (ac_Rows i) lg1)"
  have cs: "lg_ChangeSets ?lg = lg_ChangeSets lg @ [c]" 
    using insert_rows_frame[of c 0 "ac_Rows i" lg1] new(4) by simp
  have ok1: "rows_ok lg1" using assms new(4) by (auto simp: ledger_ok_def rows_ok_def)
  have sets: "sets_ok (lg_ChangeSets lg @ [c])"
  proof -
    have "sets_ok (lg_ChangeSets lg)" using assms by (simp add: ledger_ok_def)
    with new(5,6) show ?thesis by (auto simp: sets_ok_def)
  qed
  have none: "orders_of (cs_ChangeSetID c) (lg_Rows lg) = {}"
  proof -
    have "rw_ChangeSetID r \<noteq> cs_ChangeSetID c" if r: "r \<in> set (lg_Rows lg)" for r
    proof -
      obtain c' where "c' \<in> set (lg_ChangeSets lg)" "row_of c' r"
        using ledger_row_set[OF assms r] by auto
      then have "rw_ChangeSetID r = cs_ChangeSetID c'" by (simp add: row_of_def)
      with \<open>c' \<in> set (lg_ChangeSets lg)\<close> new(5) show ?thesis by (metis imageI)
    qed
    then show ?thesis unfolding orders_of_def by auto
  qed
  have ords: "orders_of (cs_ChangeSetID d) (lg_Rows ?lg) = orders_of (cs_ChangeSetID d) (lg_Rows lg) \<union>
      (if cs_ChangeSetID d = cs_ChangeSetID c then {0..<length (ac_Rows i)} else {})" for d
    unfolding insert_rows_orders new(4) by simp
  have "\<exists>n>0. orders_of (cs_ChangeSetID d) (lg_Rows ?lg) = {..<n}" if d: "d \<in> set (lg_ChangeSets lg @ [c])" for d
  proof (cases "d = c")
    case True
    have "length (ac_Rows i) > 0" using new(1) by (simp add: append_input_ok_def)
    then show ?thesis
      unfolding True ords none by (auto simp: lessThan_atLeast0 intro!: exI[of _ "length (ac_Rows i)"])
  next
    case False
    with d have d': "d \<in> set (lg_ChangeSets lg)" by simp
    with new(5) have "cs_ChangeSetID d \<noteq> cs_ChangeSetID c" by (metis imageI)
    with assms d' show ?thesis unfolding ords by (simp add: ledger_ok_def)
  qed
  moreover have "rows_ok ?lg" using ok1 new(4) by (intro insert_rows_ok) auto
  ultimately show ?thesis using new(7) sets by (simp add: ledger_ok_def cs)
qed

interpretation ledger: machine_invariant ledger_step no_ledger ledger_ok
proof
  show "ledger_ok no_ledger" by (simp add: no_ledger_def ledger_ok_def rows_ok_def sets_ok_def)
  show "ledger_ok lg \<Longrightarrow> ledger_step lg lg' \<Longrightarrow> ledger_ok lg'" for lg lg' :: "'j ledger"
    by (auto elim!: ledger_step.cases intro: append_ok)
qed

text \<open>What a ledger keeps when it grows.\<close>

definition extends :: "'j ledger \<Rightarrow> 'j ledger \<Rightarrow> bool" where
  "extends lg lg' \<longleftrightarrow>
     prefix (lg_ChangeSets lg) (lg_ChangeSets lg') \<and> prefix (lg_Rows lg) (lg_Rows lg')"

lemma extends_append: "extends lg (snd (AppendRegistryChangeSet fresh now i lg))"
  using append_frame[of fresh now i lg] by (auto simp: extends_def prefix_def)

lemma extends_trans: "extends a b \<Longrightarrow> extends b c \<Longrightarrow> extends a c"
  unfolding extends_def prefix_def by force

interpretation growth: machine_invariant ledger_step lg "\<lambda>lg'. extends lg lg' \<and> lg_Ready lg' = lg_Ready lg"
  for lg :: "'j ledger"
proof
  fix lg' lg'' :: "'j ledger"
  assume h: "extends lg lg' \<and> lg_Ready lg' = lg_Ready lg" "ledger_step lg' lg''"
  from h(2) have "extends lg' lg'' \<and> lg_Ready lg'' = lg_Ready lg'"
    by cases (auto simp: extends_append append_frame)
  with h(1) show "extends lg lg'' \<and> lg_Ready lg'' = lg_Ready lg" by (auto intro: extends_trans)
qed (simp add: extends_def)

subsection \<open>Retrying an append\<close>

lemma insert_change_set_stored:
  assumes "AppendRegistryChangeSet fresh now i lg = (Inr a, lg1)"
  shows "row_at cs_ChangeSetID (cs_ChangeSetID (new_change_set fresh now i)) (lg_ChangeSets lg1) = Some (ap_ChangeSet a)"
    and "cs_ChangeSetID (ap_ChangeSet a) = cs_ChangeSetID (new_change_set fresh now i)"
    and "map Some (ap_Rows a) =
      map (\<lambda>j. row_at row_key (cs_ChangeSetID (ap_ChangeSet a), j) (lg_Rows lg1)) [0..<length (ac_Rows i)]"
    and "append_input_ok i" and "lg_Ready lg1"
proof -
  let ?k = "cs_ChangeSetID (new_change_set fresh now i)"
  obtain c lg0 where c: "append_input_ok i" "cs_ChangeSetID c = ?k" "lg_Ready lg0"
      "row_at cs_ChangeSetID ?k (lg_ChangeSets lg0) = Some c"
      "a = \<lparr>ap_ChangeSet = c, ap_Rows = fst (insert_rows c 0 (ac_Rows i) lg0)\<rparr>"
      "lg1 = snd (insert_rows c 0 (ac_Rows i) lg0)"
  proof (cases rule: append_cases[of fresh now i lg])
    case (stored c)
    with assms show ?thesis by (intro that[of c lg]) (auto dest: row_at_SomeD)
  next
    case (new c lg1)
    moreover from new(3,5) have "row_at cs_ChangeSetID (cs_ChangeSetID c) (lg_ChangeSets lg) = None"
      by (simp add: row_at_None)
    ultimately show ?thesis
      using assms by (intro that[of c lg1]) (auto simp: row_at_append)
  qed (use assms in simp)
  then show "row_at cs_ChangeSetID ?k (lg_ChangeSets lg1) = Some (ap_ChangeSet a)"
    "cs_ChangeSetID (ap_ChangeSet a) = ?k" "append_input_ok i" "lg_Ready lg1"
    using insert_rows_frame[of c 0 "ac_Rows i" lg0] by simp_all
  show "map Some (ap_Rows a) =
      map (\<lambda>j. row_at row_key (cs_ChangeSetID (ap_ChangeSet a), j) (lg_Rows lg1)) [0..<length (ac_Rows i)]"
    using c(5,6) insert_rows_result[of c 0 "ac_Rows i" lg0] by simp
qed

lemma row_at_extends:
  "extends lg lg' \<Longrightarrow> row_at cs_ChangeSetID k (lg_ChangeSets lg) = Some c \<Longrightarrow>
   row_at cs_ChangeSetID k (lg_ChangeSets lg') = Some c"
  "extends lg lg' \<Longrightarrow> row_at row_key j (lg_Rows lg) = Some r \<Longrightarrow> row_at row_key j (lg_Rows lg') = Some r"
  by (auto simp: extends_def prefix_def intro: row_at_appended)

lemma append_to_stored:
  assumes "lg_Ready lg" "append_input_ok i"
    and "row_at cs_ChangeSetID (cs_ChangeSetID (new_change_set fresh now i)) (lg_ChangeSets lg) = Some c"
  shows "AppendRegistryChangeSet fresh now i lg =
         (Inr \<lparr>ap_ChangeSet = c, ap_Rows = fst (insert_rows c 0 (ac_Rows i) lg)\<rparr>,
          snd (insert_rows c 0 (ac_Rows i) lg))"
  using assms
  by (simp add: AppendRegistryChangeSet_def append_input_ok_def insert_change_set_def Let_def
      split: prod.split)

lemma map_Some_eq: "map Some xs = map Some ys \<Longrightarrow> xs = ys"
  by (simp add: inj_map_eq_map)

subsection \<open>Reading all pages\<close>

lemma sorted_le_last: "sorted (map f xs) \<Longrightarrow> x \<in> set xs \<Longrightarrow> f x \<le> f (last xs)"
  by (induction xs rule: rev_induct) (auto simp: sorted_append)

lemma after_last_page:
  assumes "sorted_wrt (<) (map f xs)" "n > 0" "xs \<noteq> []"
  shows "filter (\<lambda>x. f (last (take n xs)) < (f x :: int)) xs = drop n xs"
proof -
  let ?p = "take n xs" and ?q = "drop n xs"
  have ne: "?p \<noteq> []" using assms(2,3) by simp
  have "sorted_wrt (<) (map f ?p @ map f ?q)" using assms(1) by (simp flip: map_append)
  then have p: "sorted_wrt (<) (map f ?p)" and pq: "\<forall>x\<in>set ?p. \<forall>y\<in>set ?q. f x < f y"
    by (auto simp: sorted_wrt_append)
  have "f x \<le> f (last ?p)" if "x \<in> set ?p" for x
    using strict_sorted_imp_sorted[OF p] that by (rule sorted_le_last)
  then have "filter (\<lambda>x. f (last ?p) < f x) ?p = []" by (force simp: filter_empty_conv)
  moreover have "filter (\<lambda>x. f (last ?p) < f x) ?q = ?q"
    using pq ne by (intro filter_True) auto
  moreover have "filter (\<lambda>x. f (last ?p) < f x) xs =
      filter (\<lambda>x. f (last ?p) < f x) ?p @ filter (\<lambda>x. f (last ?p) < f x) ?q"
    by (metis append_take_drop_id filter_append)
  ultimately show ?thesis by simp
qed

definition rows_after :: "ListRegistryRowsInput \<Rightarrow> 'j ledger \<Rightarrow> 'j RegistryRow list" where
  "rows_after i lg = filter (\<lambda>r. row_matches i r \<and> rw_RowID r > li_AfterRowID i) (lg_Rows lg)"

lemma page_eq:
  assumes "ledger_ok lg"
  shows "listRegistryRowsWithQuery i lg = take (nat (clampLimit (li_Limit i) 500 5000)) (rows_after i lg)"
proof -
  have "sorted_wrt (<) (map rw_RowID (rows_after i lg))"
    using ledger_okD(3)[OF assms] by (simp add: rows_after_def sorted_wrt_map sorted_wrt_filter)
  then have "sorted (map rw_RowID (rows_after i lg))" by (rule strict_sorted_imp_sorted)
  then show ?thesis by (simp add: listRegistryRowsWithQuery_def rows_after_def sort_key_id_if_sorted)
qed

lemma clamp_pos: "0 < nat (clampLimit limit 500 5000)"
  by (simp add: clampLimit_def)

lemma all_pages_complete: "ledger_ok lg \<Longrightarrow> all_pages i lg = rows_after i lg"
proof (induction i lg rule: all_pages.induct)
  case (1 i lg)
  let ?n = "nat (clampLimit (li_Limit i) 500 5000)"
  let ?page = "listRegistryRowsWithQuery i lg"
  let ?i = "i\<lparr>li_AfterRowID := rw_RowID (last ?page)\<rparr>"
  note page = page_eq[OF 1(2), of i]
  show ?case
  proof (cases "rows_after i lg = []")
    case True
    with page show ?thesis by (simp add: all_pages.simps[of i lg] Let_def)
  next
    case False
    then have ne: "?page \<noteq> []" using page clamp_pos[of "li_Limit i"] by simp
    have sorted: "sorted_wrt (<) (map rw_RowID (rows_after i lg))"
      using ledger_okD(3)[OF 1(2)] by (simp add: rows_after_def sorted_wrt_map sorted_wrt_filter)
    have last: "last ?page \<in> set (rows_after i lg)"
      using last_in_set[OF ne] unfolding page by (rule in_set_takeD)
    then have "rows_after ?i lg =
        filter (\<lambda>r. rw_RowID (last ?page) < rw_RowID r) (rows_after i lg)"
      by (auto simp: rows_after_def row_matches_def intro: filter_cong)
    also have "\<dots> = drop ?n (rows_after i lg)"
      using after_last_page[OF sorted clamp_pos False] by (simp add: page)
    finally have "rows_after ?i lg = drop ?n (rows_after i lg)" .
    moreover have "all_pages ?i lg = rows_after ?i lg"
      using ne by (intro 1(1)[OF refl _ 1(2)]) simp
    ultimately show ?thesis
      using ne page by (simp add: all_pages.simps[of i lg] Let_def)
  qed
qed

subsection \<open>Properties\<close>

abbreviation ledger_reachable :: "'j ledger \<Rightarrow> bool" where
  "ledger_reachable lg \<equiv> reachable ledger_step no_ledger lg"

definition sample_append :: "string \<Rightarrow> string list \<Rightarrow> unit AppendRegistryChangeSetInput" where
  "sample_append k types =
     \<lparr>ac_ChangeSetID = k, ac_Reference = ''s/r'', ac_SeedID = ''s'', ac_RealizationID = ''r'',
      ac_IdempotencyKey = [], ac_AcceptedBy = [], ac_Metadata = (),
      ac_Rows = map (\<lambda>t. \<lparr>ar_RowType = t, ar_ObjectID = [], ar_ClaimID = [], ar_Payload = ()\<rparr>) types\<rparr>"

definition sample_ledger :: "unit ledger" where
  "sample_ledger =
     snd (AppendRegistryChangeSet [] 9 (sample_append ''c2'' [''z''])
       (snd (AppendRegistryChangeSet [] 5 (sample_append ''c1'' [''x'', ''y'']) no_ledger)))"

lemma sample_ledger_reachable: "ledger_reachable sample_ledger"
  unfolding sample_ledger_def
  by (intro reach_step[where step = ledger_step, OF _ step_append] reach_start)

text \<open>C14: the ledger is append-only: whatever is appended later, stored change sets and rows stay
  where and what they are, and every state keeps unique change sets and idempotency keys, row ids
  in ascending order, and for each change set gapless rows that repeat its identity and time.\<close>

theorem ledger_is_append_only:
  assumes "ledger_reachable lg" "ledger_step\<^sup>*\<^sup>* lg lg'"
  shows "prefix (lg_ChangeSets lg) (lg_ChangeSets lg') \<and> prefix (lg_Rows lg) (lg_Rows lg') \<and>
         ledger_ok lg'"
proof -
  have "ledger_ok lg'" using assms by (blast intro: ledger.holds reachable_later)
  moreover have "extends lg lg'" using growth.holds_later[OF assms(2)] by (simp add: extends_def)
  ultimately show ?thesis by (simp add: extends_def)
qed

theorem ledger_is_append_only_witness:
  "length (lg_Rows sample_ledger) = 3 \<and>
   prefix (lg_Rows sample_ledger) (lg_Rows (snd (AppendRegistryChangeSet [] 11 (sample_append ''c1'' [''q'']) sample_ledger)))"
proof -
  have "length (lg_Rows sample_ledger) = 3" by code_simp
  moreover have "ledger_step\<^sup>*\<^sup>* sample_ledger
      (snd (AppendRegistryChangeSet [] 11 (sample_append ''c1'' [''q'']) sample_ledger))"
    by (rule r_into_rtranclp) (rule step_append)
  ultimately show ?thesis using ledger_is_append_only[OF sample_ledger_reachable] by blast
qed

text \<open>C15: an accepted append that names its change set can be retried at any later time: it returns
  the change set and the rows accepted first and stores nothing; only the row id sequence advances.\<close>

theorem retried_append_is_idempotent:
  assumes "AppendRegistryChangeSet f1 t1 i lg = (Inr a, lg1)" "ac_ChangeSetID i \<noteq> []"
    and "ledger_step\<^sup>*\<^sup>* lg1 lg2"
  shows "AppendRegistryChangeSet f2 t2 i lg2 =
         (Inr a, lg2\<lparr>lg_NextRowID := lg_NextRowID lg2 + int (length (ac_Rows i))\<rparr>)"
proof -
  let ?c = "ap_ChangeSet a"
  note stored = insert_change_set_stored[OF assms(1)]
  have grown: "extends lg1 lg2 \<and> lg_Ready lg2 = lg_Ready lg1"
    using growth.holds_later[OF assms(3), of lg1] by (simp add: extends_def)
  have k: "cs_ChangeSetID (new_change_set f2 t2 i) = cs_ChangeSetID (new_change_set f1 t1 i)"
    using assms(2) by (simp add: new_change_set_def)
  have rows: "row_at row_key (cs_ChangeSetID ?c, j) (lg_Rows lg2) =
      row_at row_key (cs_ChangeSetID ?c, j) (lg_Rows lg1) \<and>
      row_at row_key (cs_ChangeSetID ?c, j) (lg_Rows lg2) \<noteq> None" if j: "j < length (ac_Rows i)" for j
  proof -
    have "length (ap_Rows a) = length (ac_Rows i)"
      using arg_cong[OF stored(3), of length] by simp
    with j have "row_at row_key (cs_ChangeSetID ?c, j) (lg_Rows lg1) = Some (ap_Rows a ! j)"
      using arg_cong[OF stored(3), of "\<lambda>xs. xs ! j"] by simp
    with grown row_at_extends(2) show ?thesis by fastforce
  qed
  have app: "AppendRegistryChangeSet f2 t2 i lg2 =
      (Inr \<lparr>ap_ChangeSet = ?c, ap_Rows = fst (insert_rows ?c 0 (ac_Rows i) lg2)\<rparr>,
       snd (insert_rows ?c 0 (ac_Rows i) lg2))"
    using grown stored row_at_extends(1) by (intro append_to_stored) (auto simp: k)
  have known: "snd (insert_rows ?c 0 (ac_Rows i) lg2) =
      lg2\<lparr>lg_NextRowID := lg_NextRowID lg2 + int (length (ac_Rows i))\<rparr>"
    by (intro insert_rows_known ballI rows[THEN conjunct2]) simp
  have "map Some (fst (insert_rows ?c 0 (ac_Rows i) lg2)) = map Some (ap_Rows a)"
    unfolding insert_rows_result known stored(3) using rows by (intro map_cong) auto
  then have "fst (insert_rows ?c 0 (ac_Rows i) lg2) = ap_Rows a" by (rule map_Some_eq)
  with app known show ?thesis by (cases a) simp
qed

theorem retried_append_is_idempotent_witness:
  "fst (AppendRegistryChangeSet ''x'' 20 (sample_append ''c1'' [''x'', ''y'']) sample_ledger) =
   fst (AppendRegistryChangeSet [] 5 (sample_append ''c1'' [''x'', ''y'']) no_ledger)"
proof -
  let ?i = "sample_append ''c1'' [''x'', ''y'']"
  let ?r = "AppendRegistryChangeSet [] 5 ?i no_ledger"
  have "\<not> isl (fst ?r) \<and> ac_ChangeSetID ?i \<noteq> []" by code_simp
  then have r: "?r = (Inr (projr (fst ?r)), snd ?r)" "ac_ChangeSetID ?i \<noteq> []"
    by (simp_all add: prod_eq_iff)
  have "ledger_step\<^sup>*\<^sup>* (snd ?r) sample_ledger"
    unfolding sample_ledger_def by (rule r_into_rtranclp) (rule step_append)
  from retried_append_is_idempotent[OF r this, of "''x''" 20] show ?thesis by (metis fst_conv r(1))
qed

text \<open>C16: reading page after page, each from the last row id of the one before, collects exactly the
  matching rows after the start, in order and once each, whatever the page size.\<close>

theorem paging_reads_every_row:
  assumes "ledger_reachable lg"
  shows "all_pages i lg = filter (\<lambda>r. row_matches i r \<and> li_AfterRowID i < rw_RowID r) (lg_Rows lg)"
  using all_pages_complete[OF ledger.holds[OF assms]] by (simp add: rows_after_def)

theorem paging_reads_every_row_witness:
  "map rw_RowType
     (all_pages \<lparr>li_Reference = '' s/r'', li_SeedID = [], li_RealizationID = [], li_AfterRowID = 1, li_Limit = 1\<rparr>
        sample_ledger) = [''y'', ''z'']"
proof -
  let ?i = "\<lparr>li_Reference = '' s/r'', li_SeedID = [], li_RealizationID = [], li_AfterRowID = 1, li_Limit = 1\<rparr>"
  have "map rw_RowType (filter (\<lambda>r. row_matches ?i r \<and> li_AfterRowID ?i < rw_RowID r) (lg_Rows sample_ledger)) =
      [''y'', ''z'']" by code_simp
  with paging_reads_every_row[OF sample_ledger_reachable, of ?i] show ?thesis by simp
qed

end
