(* ===== verification/Authority_Types.thy ===== *)
theory Authority_Types
  imports Registry_Ledger
begin

text \<open>
  The types of the authority service (internal/interactions/runtime_types.go and
  runtime_authority_materializer.go) and the JSON form in which a grant is stored in the registry
  ledger. A JSON value is a datatype; an object is the list of its fields; a string that is the RFC 3339 text of an instant is
  \<open>JTime\<close>, and a nil slice or map, which Go writes as \<open>null\<close>, is the empty one. Field names are
  matched exactly. The zero time is 0.
\<close>

datatype json =
    JNull
  | JBool bool
  | JNumber int
  | JString string
  | JTime int
  | JArray "json list"
  | JObject "(string \<times> json) list"

type_synonym json_map = "(string \<times> json) list"

record AuthorityBundle =
  ab_BundleID :: string
  ab_DisplayName :: string
  ab_Capabilities :: "string list"
  ab_Status :: string
  ab_Metadata :: json_map
  ab_CreatedAt :: int
  ab_UpdatedAt :: int
  ab_RetiredAt :: "int option"

record AuthorityGrant =
  ag_GrantID :: string
  ag_GrantorPrincipalID :: string
  ag_GranteePrincipalID :: string
  ag_BundleID :: string
  ag_CapabilitiesSnapshot :: "string list"
  ag_ScopeKind :: string
  ag_ScopeID :: string
  ag_DelegationMode :: string
  ag_Basis :: string
  ag_Status :: string
  ag_EffectiveAt :: "int option"
  ag_ExpiresAt :: "int option"
  ag_SupersedesGrantID :: string
  ag_Reason :: string
  ag_EvidenceRefs :: "string list"
  ag_Metadata :: json_map
  ag_CreatedAt :: int

record CreateAuthorityGrantInput =
  cg_GrantID :: string
  cg_GrantorPrincipalID :: string
  cg_GranteePrincipalID :: string
  cg_BundleID :: string
  cg_ScopeKind :: string
  cg_ScopeID :: string
  cg_DelegationMode :: string
  cg_Basis :: string
  cg_Status :: string
  cg_EffectiveAt :: "int option"
  cg_ExpiresAt :: "int option"
  cg_SupersedesGrantID :: string
  cg_Reason :: string
  cg_EvidenceRefs :: "string list"
  cg_Metadata :: json_map

record UpsertAuthorityBundleInput =
  ub_BundleID :: string
  ub_DisplayName :: string
  ub_Capabilities :: "string list"
  ub_Status :: string
  ub_Metadata :: json_map

record EffectiveAuthorityCapability =
  ec_Capability :: string
  ec_ScopeKind :: string
  ec_ScopeID :: string
  ec_GrantIDs :: "string list"

record PrincipalEffectiveAuthority =
  ea_PrincipalID :: string
  ea_ComputedAt :: int
  ea_ActiveGrants :: "AuthorityGrant list"
  ea_EffectivePolicies :: "EffectiveAuthorityCapability list"

record AuthorityMaterializationResult =
  mr_Reference :: string
  mr_MaterializedRows :: nat
  mr_RegistryRows :: nat
  mr_Rebuilt :: bool

record authorityPrincipalBindingPayload =
  pb_PrincipalID :: string
  pb_DisplayName :: string
  pb_Profile :: json_map
  pb_ProviderID :: string
  pb_ProviderSubject :: string
  pb_Email :: string

record authorityGrantRegistryPayload =
  gp_Grant :: AuthorityGrant
  gp_Bundle :: AuthorityBundle
  gp_Grantor :: "authorityPrincipalBindingPayload option"
  gp_Grantee :: "authorityPrincipalBindingPayload option"

subsection \<open>json.Marshal\<close>

definition strings_json :: "string list \<Rightarrow> json" where
  "strings_json xs = (if xs = [] then JNull else JArray (map JString xs))"

definition map_json :: "json_map \<Rightarrow> json" where
  "map_json m = (if m = [] then JNull else JObject m)"

text \<open>A field with \<open>omitempty\<close>.\<close>

definition opt_string :: "string \<Rightarrow> json option" where
  "opt_string s = (if s = [] then None else Some (JString s))"

definition opt_time :: "int option \<Rightarrow> json option" where
  "opt_time t = map_option JTime t"

definition opt_map :: "json_map \<Rightarrow> json option" where
  "opt_map m = (if m = [] then None else Some (JObject m))"

text \<open>The object of the fields that are present.\<close>

fun object_of :: "(string \<times> json option) list \<Rightarrow> json_map" where
  "object_of [] = []"
| "object_of ((k, None) # fs) = object_of fs"
| "object_of ((k, Some v) # fs) = (k, v) # object_of fs"

definition grant_json :: "AuthorityGrant \<Rightarrow> json_map" where
  "grant_json g = object_of
     [(''grant_id'', Some (JString (ag_GrantID g))),
      (''grantor_principal_id'', opt_string (ag_GrantorPrincipalID g)),
      (''grantee_principal_id'', Some (JString (ag_GranteePrincipalID g))),
      (''bundle_id'', Some (JString (ag_BundleID g))),
      (''capabilities_snapshot'', Some (strings_json (ag_CapabilitiesSnapshot g))),
      (''scope_kind'', Some (JString (ag_ScopeKind g))),
      (''scope_id'', Some (JString (ag_ScopeID g))),
      (''delegation_mode'', Some (JString (ag_DelegationMode g))),
      (''basis'', Some (JString (ag_Basis g))),
      (''status'', Some (JString (ag_Status g))),
      (''effective_at'', opt_time (ag_EffectiveAt g)),
      (''expires_at'', opt_time (ag_ExpiresAt g)),
      (''supersedes_grant_id'', opt_string (ag_SupersedesGrantID g)),
      (''reason'', opt_string (ag_Reason g)),
      (''evidence_refs'', Some (strings_json (ag_EvidenceRefs g))),
      (''metadata'', Some (map_json (ag_Metadata g))),
      (''created_at'', Some (JTime (ag_CreatedAt g)))]"

definition bundle_json :: "AuthorityBundle \<Rightarrow> json_map" where
  "bundle_json b = object_of
     [(''bundle_id'', Some (JString (ab_BundleID b))),
      (''display_name'', opt_string (ab_DisplayName b)),
      (''capabilities'', Some (strings_json (ab_Capabilities b))),
      (''status'', Some (JString (ab_Status b))),
      (''metadata'', Some (map_json (ab_Metadata b))),
      (''created_at'', Some (JTime (ab_CreatedAt b))),
      (''updated_at'', Some (JTime (ab_UpdatedAt b))),
      (''retired_at'', opt_time (ab_RetiredAt b))]"

definition binding_json :: "authorityPrincipalBindingPayload \<Rightarrow> json_map" where
  "binding_json b = object_of
     [(''principal_id'', Some (JString (pb_PrincipalID b))),
      (''display_name'', opt_string (pb_DisplayName b)),
      (''profile'', opt_map (pb_Profile b)),
      (''provider_id'', opt_string (pb_ProviderID b)),
      (''provider_subject'', opt_string (pb_ProviderSubject b)),
      (''email'', opt_string (pb_Email b))]"

definition authorityStructToMap :: "authorityGrantRegistryPayload \<Rightarrow> json_map" where
  "authorityStructToMap p = object_of
     [(''grant'', Some (JObject (grant_json (gp_Grant p)))),
      (''bundle'', Some (JObject (bundle_json (gp_Bundle p)))),
      (''grantor'', map_option (\<lambda>b. JObject (binding_json b)) (gp_Grantor p)),
      (''grantee'', map_option (\<lambda>b. JObject (binding_json b)) (gp_Grantee p))]"

subsection \<open>json.Unmarshal\<close>

text \<open>
  Reading a field: a missing field and \<open>null\<close> give the zero value, a value of another type is an
  error (\<open>None\<close>).
\<close>

definition get_string :: "json_map \<Rightarrow> string \<Rightarrow> string option" where
  "get_string m k =
     (case map_of m k of None \<Rightarrow> Some [] | Some JNull \<Rightarrow> Some [] | Some (JString s) \<Rightarrow> Some s | _ \<Rightarrow> None)"

fun all_strings :: "json list \<Rightarrow> string list option" where
  "all_strings [] = Some []"
| "all_strings (JString s # xs) = map_option ((#) s) (all_strings xs)"
| "all_strings (JNull # xs) = map_option ((#) []) (all_strings xs)"
| "all_strings (_ # xs) = None"

definition get_strings :: "json_map \<Rightarrow> string \<Rightarrow> string list option" where
  "get_strings m k =
     (case map_of m k of None \<Rightarrow> Some [] | Some JNull \<Rightarrow> Some [] | Some (JArray xs) \<Rightarrow> all_strings xs | _ \<Rightarrow> None)"

definition get_time :: "json_map \<Rightarrow> string \<Rightarrow> int option" where
  "get_time m k =
     (case map_of m k of None \<Rightarrow> Some 0 | Some JNull \<Rightarrow> Some 0 | Some (JTime t) \<Rightarrow> Some t | _ \<Rightarrow> None)"

definition get_time_ptr :: "json_map \<Rightarrow> string \<Rightarrow> int option option" where
  "get_time_ptr m k =
     (case map_of m k of None \<Rightarrow> Some None | Some JNull \<Rightarrow> Some None | Some (JTime t) \<Rightarrow> Some (Some t) | _ \<Rightarrow> None)"

definition get_object :: "json_map \<Rightarrow> string \<Rightarrow> json_map option" where
  "get_object m k =
     (case map_of m k of None \<Rightarrow> Some [] | Some JNull \<Rightarrow> Some [] | Some (JObject o') \<Rightarrow> Some o' | _ \<Rightarrow> None)"

definition get_object_ptr :: "json_map \<Rightarrow> string \<Rightarrow> json_map option option" where
  "get_object_ptr m k =
     (case map_of m k of None \<Rightarrow> Some None | Some JNull \<Rightarrow> Some None | Some (JObject o') \<Rightarrow> Some (Some o') | _ \<Rightarrow> None)"

definition grant_of_json :: "json_map \<Rightarrow> AuthorityGrant option" where
  "grant_of_json m =
     Option.bind (get_string m ''grant_id'') (\<lambda>grantID.
     Option.bind (get_string m ''grantor_principal_id'') (\<lambda>grantor.
     Option.bind (get_string m ''grantee_principal_id'') (\<lambda>grantee.
     Option.bind (get_string m ''bundle_id'') (\<lambda>bundleID.
     Option.bind (get_strings m ''capabilities_snapshot'') (\<lambda>capabilities.
     Option.bind (get_string m ''scope_kind'') (\<lambda>scopeKind.
     Option.bind (get_string m ''scope_id'') (\<lambda>scopeID.
     Option.bind (get_string m ''delegation_mode'') (\<lambda>delegationMode.
     Option.bind (get_string m ''basis'') (\<lambda>basis.
     Option.bind (get_string m ''status'') (\<lambda>status.
     Option.bind (get_time_ptr m ''effective_at'') (\<lambda>effectiveAt.
     Option.bind (get_time_ptr m ''expires_at'') (\<lambda>expiresAt.
     Option.bind (get_string m ''supersedes_grant_id'') (\<lambda>supersedes.
     Option.bind (get_string m ''reason'') (\<lambda>reason.
     Option.bind (get_strings m ''evidence_refs'') (\<lambda>evidence.
     Option.bind (get_object m ''metadata'') (\<lambda>metadata.
     Option.bind (get_time m ''created_at'') (\<lambda>createdAt.
     Some \<lparr>ag_GrantID = grantID, ag_GrantorPrincipalID = grantor, ag_GranteePrincipalID = grantee,
           ag_BundleID = bundleID, ag_CapabilitiesSnapshot = capabilities, ag_ScopeKind = scopeKind,
           ag_ScopeID = scopeID, ag_DelegationMode = delegationMode, ag_Basis = basis,
           ag_Status = status, ag_EffectiveAt = effectiveAt, ag_ExpiresAt = expiresAt,
           ag_SupersedesGrantID = supersedes, ag_Reason = reason, ag_EvidenceRefs = evidence,
           ag_Metadata = metadata, ag_CreatedAt = createdAt\<rparr>)))))))))))))))))"

definition bundle_of_json :: "json_map \<Rightarrow> AuthorityBundle option" where
  "bundle_of_json m =
     Option.bind (get_string m ''bundle_id'') (\<lambda>bundleID.
     Option.bind (get_string m ''display_name'') (\<lambda>displayName.
     Option.bind (get_strings m ''capabilities'') (\<lambda>capabilities.
     Option.bind (get_string m ''status'') (\<lambda>status.
     Option.bind (get_object m ''metadata'') (\<lambda>metadata.
     Option.bind (get_time m ''created_at'') (\<lambda>createdAt.
     Option.bind (get_time m ''updated_at'') (\<lambda>updatedAt.
     Option.bind (get_time_ptr m ''retired_at'') (\<lambda>retiredAt.
     Some \<lparr>ab_BundleID = bundleID, ab_DisplayName = displayName, ab_Capabilities = capabilities,
           ab_Status = status, ab_Metadata = metadata, ab_CreatedAt = createdAt,
           ab_UpdatedAt = updatedAt, ab_RetiredAt = retiredAt\<rparr>))))))))"

definition binding_of_json :: "json_map \<Rightarrow> authorityPrincipalBindingPayload option" where
  "binding_of_json m =
     Option.bind (get_string m ''principal_id'') (\<lambda>principalID.
     Option.bind (get_string m ''display_name'') (\<lambda>displayName.
     Option.bind (get_object m ''profile'') (\<lambda>profile.
     Option.bind (get_string m ''provider_id'') (\<lambda>providerID.
     Option.bind (get_string m ''provider_subject'') (\<lambda>providerSubject.
     Option.bind (get_string m ''email'') (\<lambda>email.
     Some \<lparr>pb_PrincipalID = principalID, pb_DisplayName = displayName, pb_Profile = profile,
           pb_ProviderID = providerID, pb_ProviderSubject = providerSubject, pb_Email = email\<rparr>))))))"

definition binding_field :: "json_map \<Rightarrow> string \<Rightarrow> authorityPrincipalBindingPayload option option" where
  "binding_field m k =
     Option.bind (get_object_ptr m k) (\<lambda>o'.
       case o' of None \<Rightarrow> Some None | Some b \<Rightarrow> map_option Some (binding_of_json b))"

definition mapToAuthorityStruct :: "json_map \<Rightarrow> authorityGrantRegistryPayload option" where
  "mapToAuthorityStruct m =
     Option.bind (Option.bind (get_object m ''grant'') grant_of_json) (\<lambda>grant.
     Option.bind (Option.bind (get_object m ''bundle'') bundle_of_json) (\<lambda>bundle.
     Option.bind (binding_field m ''grantor'') (\<lambda>grantor.
     Option.bind (binding_field m ''grantee'') (\<lambda>grantee.
     Some \<lparr>gp_Grant = grant, gp_Bundle = bundle, gp_Grantor = grantor, gp_Grantee = grantee\<rparr>))))"

subsection \<open>What is written is read back\<close>

named_theorems json_field \<open>reading a field of an object that was written\<close>

lemma keys_object_of: "fst ` set (object_of fs) \<subseteq> fst ` set fs"
  by (induction fs rule: object_of.induct) auto

lemma map_of_object_of [json_field]:
  "distinct (map fst fs) \<Longrightarrow> map_of (object_of fs) k = (case map_of fs k of None \<Rightarrow> None | Some v \<Rightarrow> v)"
proof (induction fs rule: object_of.induct)
  case (2 k' fs)
  have "k' \<notin> fst ` set (object_of fs)" using 2(2) keys_object_of[of fs] by auto
  then have "map_of (object_of fs) k' = None" by (simp add: map_of_eq_None_iff)
  with 2 show ?case by auto
qed auto

lemma all_strings_JString [simp]: "all_strings (map JString xs) = Some xs"
  by (induction xs) auto

lemma get_written [json_field]:
  "map_of m k = Some (JString s) \<Longrightarrow> get_string m k = Some s"
  "map_of m k = opt_string s \<Longrightarrow> get_string m k = Some s"
  "map_of m k = Some (strings_json xs) \<Longrightarrow> get_strings m k = Some xs"
  "map_of m k = Some (JTime t) \<Longrightarrow> get_time m k = Some t"
  "map_of m k = opt_time t' \<Longrightarrow> get_time_ptr m k = Some t'"
  "map_of m k = Some (map_json o') \<Longrightarrow> get_object m k = Some o'"
  "map_of m k = opt_map o' \<Longrightarrow> get_object m k = Some o'"
  "map_of m k = Some (JObject o') \<Longrightarrow> get_object m k = Some o'"
  by (auto simp: get_string_def opt_string_def get_strings_def strings_json_def get_time_def
      get_time_ptr_def opt_time_def get_object_def map_json_def opt_map_def split: option.split)

lemma grant_json_inverse [json_field]: "grant_of_json (grant_json g) = Some g"
  by (simp add: grant_of_json_def get_written grant_json_def map_of_object_of)

lemma bundle_json_inverse [json_field]: "bundle_of_json (bundle_json b) = Some b"
  by (simp add: bundle_of_json_def get_written bundle_json_def map_of_object_of)

lemma binding_json_inverse [json_field]: "binding_of_json (binding_json b) = Some b"
  by (simp add: binding_of_json_def get_written binding_json_def map_of_object_of)

lemma payload_roundtrip: "mapToAuthorityStruct (authorityStructToMap p) = Some p"
proof -
  let ?m = "authorityStructToMap p"
  have field: "binding_field ?m k = Some b" if "map_of ?m k = map_option (\<lambda>b. JObject (binding_json b)) b" for k b
    using that by (cases b) (simp_all add: binding_field_def get_object_ptr_def binding_json_inverse)
  have "get_object ?m ''grant'' = Some (grant_json (gp_Grant p))"
    "get_object ?m ''bundle'' = Some (bundle_json (gp_Bundle p))"
    by (simp_all add: get_written authorityStructToMap_def map_of_object_of)
  moreover have "binding_field ?m ''grantor'' = Some (gp_Grantor p)"
    "binding_field ?m ''grantee'' = Some (gp_Grantee p)"
    by (rule field, simp add: authorityStructToMap_def map_of_object_of)+
  ultimately show ?thesis
    by (simp add: mapToAuthorityStruct_def grant_json_inverse bundle_json_inverse)
qed

end
