(* ===== verification/Authority_Materializer.thy ===== *)
theory Authority_Materializer
  imports Authority_Types "HOL-Library.Product_Lexorder"
begin

text \<open>
  internal/interactions/runtime_authority_materializer.go and the payload part of
  runtime_authority.go: the authority tables are rebuilt from the grant rows of the registry
  ledger. The state holds the ledger and the tables for grants, bundles, principals, identifiers and
  identities; a nullable text column is kept as the string it is read into. \<open>newID\<close> takes the
  next element of a stream of random texts that the state carries; a transaction that rolls back
  does not use its elements up. The statements of a transaction fail with the foreign key or
  unique constraint they violate.
\<close>

record principal_row =
  pr_PrincipalID :: string
  pr_Kind :: string
  pr_DisplayName :: string
  pr_Status :: string
  pr_Profile :: json_map
  pr_CreatedAt :: int
  pr_DeactivatedAt :: "int option"

record PrincipalIdentifier =
  pi_IdentifierID :: string
  pi_PrincipalID :: string
  pi_IdentifierType :: string
  pi_Value :: string
  pi_NormalizedValue :: string
  pi_IsPrimary :: bool
  pi_IsVerified :: bool
  pi_VerifiedAt :: "int option"
  pi_Metadata :: json_map
  pi_CreatedAt :: int

record AuthIdentity =
  ai_IdentityID :: string
  ai_ProviderID :: string
  ai_PrincipalID :: string
  ai_ProviderSubject :: string
  ai_Profile :: json_map
  ai_LinkedAt :: int
  ai_LastSeenAt :: "int option"

record authority_state =
  at_Ready :: bool
  at_Ledger :: "json_map ledger"
  at_Grants :: "AuthorityGrant list"
  at_Bundles :: "AuthorityBundle list"
  at_Principals :: "principal_row list"
  at_Identifiers :: "PrincipalIdentifier list"
  at_Identities :: "AuthIdentity list"
  at_Random :: "nat \<Rightarrow> string"
  at_Drawn :: nat

definition authorityRegistryReference :: string where
  "authorityRegistryReference = ''runtime-authority''"

definition authorityRegistrySeedID :: string where
  "authorityRegistrySeedID = ''kernel-runtime''"

definition authorityRegistryRealizationID :: string where
  "authorityRegistryRealizationID = ''authority''"

definition authorityGrantRegistryRowType :: string where
  "authorityGrantRegistryRowType = ''authority.grant.create''"

definition newID :: "string \<Rightarrow> authority_state \<Rightarrow> string \<times> authority_state" where
  "newID pre st = (pre @ ''_'' @ at_Random st (at_Drawn st), st\<lparr>at_Drawn := Suc (at_Drawn st)\<rparr>)"

subsection \<open>Payloads\<close>

definition stringValue :: "json option \<Rightarrow> string" where
  "stringValue v = (case v of Some (JString s) \<Rightarrow> s | _ \<Rightarrow> [])"

definition email_of :: "json_map \<Rightarrow> string" where
  "email_of profile = trim_space (stringValue (map_of profile ''email''))"

text \<open>\<open>order by last_seen_at desc nulls last, linked_at desc limit 1\<close>\<close>

definition latest_identity :: "string \<Rightarrow> authority_state \<Rightarrow> AuthIdentity option" where
  "latest_identity principalID st =
     first_row (sort_key
       (\<lambda>i. (case ai_LastSeenAt i of None \<Rightarrow> (1::int, 0) | Some t \<Rightarrow> (0, - t), - ai_LinkedAt i))
       (filter (\<lambda>i. ai_PrincipalID i = principalID) (at_Identities st)))"

text \<open>\<open>order by is_primary desc, is_verified desc, created_at asc limit 1\<close>\<close>

definition primary_email :: "string \<Rightarrow> authority_state \<Rightarrow> PrincipalIdentifier option" where
  "primary_email principalID st =
     first_row (sort_key (\<lambda>i. (\<not> pi_IsPrimary i, \<not> pi_IsVerified i, pi_CreatedAt i))
       (filter (\<lambda>i. pi_PrincipalID i = principalID \<and> pi_IdentifierType i = ''email'') (at_Identifiers st)))"

definition binding_from_principal ::
  "principal_row option \<Rightarrow> authorityPrincipalBindingPayload \<Rightarrow> authorityPrincipalBindingPayload" where
  "binding_from_principal p b =
     (case p of None \<Rightarrow> b
      | Some p \<Rightarrow> b\<lparr>pb_DisplayName := pr_DisplayName p, pb_Profile := pr_Profile p,
                  pb_Email := email_of (pr_Profile p)\<rparr>)"

definition binding_from_identity ::
  "AuthIdentity option \<Rightarrow> authorityPrincipalBindingPayload \<Rightarrow> authorityPrincipalBindingPayload" where
  "binding_from_identity i b =
     (case i of None \<Rightarrow> b
      | Some i \<Rightarrow> b\<lparr>pb_ProviderID := ai_ProviderID i, pb_ProviderSubject := ai_ProviderSubject i,
                  pb_Profile := (if ai_Profile i = [] then pb_Profile b else ai_Profile i),
                  pb_Email := (if email_of (ai_Profile i) = [] then pb_Email b
                               else email_of (ai_Profile i))\<rparr>)"

definition binding_from_identifier ::
  "PrincipalIdentifier option \<Rightarrow> authorityPrincipalBindingPayload \<Rightarrow> authorityPrincipalBindingPayload" where
  "binding_from_identifier i b =
     (if pb_Email b \<noteq> [] then b
      else case i of None \<Rightarrow> b | Some i \<Rightarrow> b\<lparr>pb_Email := pi_Value i\<rparr>)"

definition loadAuthorityPrincipalBinding ::
  "string \<Rightarrow> authority_state \<Rightarrow> authorityPrincipalBindingPayload option" where
  "loadAuthorityPrincipalBinding principalID st =
     (let k = trim_space principalID in
      if k = [] then None
      else
        (let b = binding_from_identifier (primary_email k st)
                  (binding_from_identity (latest_identity k st)
                    (binding_from_principal (row_at pr_PrincipalID k (at_Principals st))
                      \<lparr>pb_PrincipalID = k, pb_DisplayName = [], pb_Profile = [], pb_ProviderID = [],
                       pb_ProviderSubject = [], pb_Email = []\<rparr>))
         in Some (b\<lparr>pb_DisplayName := (if pb_DisplayName b = [] then k else pb_DisplayName b)\<rparr>)))"

definition authorityGrantPayload ::
  "AuthorityGrant \<Rightarrow> AuthorityBundle \<Rightarrow> authority_state \<Rightarrow> json_map" where
  "authorityGrantPayload grant bundle st =
     authorityStructToMap
       \<lparr>gp_Grant = grant,
        gp_Bundle =
          \<lparr>ab_BundleID = ab_BundleID bundle, ab_DisplayName = ab_DisplayName bundle,
           ab_Capabilities = normalizeStringList (ab_Capabilities bundle), ab_Status = ab_Status bundle,
           ab_Metadata = ab_Metadata bundle, ab_CreatedAt = 0, ab_UpdatedAt = 0, ab_RetiredAt = None\<rparr>,
        gp_Grantor = loadAuthorityPrincipalBinding (ag_GrantorPrincipalID grant) st,
        gp_Grantee = loadAuthorityPrincipalBinding (ag_GranteePrincipalID grant) st\<rparr>"

definition GetAuthorityBundle :: "string \<Rightarrow> authority_state \<Rightarrow> runtime_error + AuthorityBundle" where
  "GetAuthorityBundle bundleID st =
     (if \<not> at_Ready st then Inl NotConfigured
      else case row_at ab_BundleID (trim_space bundleID) (at_Bundles st) of
        None \<Rightarrow> Inl ErrNotFound | Some b \<Rightarrow> Inr b)"

subsection \<open>Upserts of a materialization\<close>

definition materialized_bundle :: "int \<Rightarrow> AuthorityBundle \<Rightarrow> AuthorityGrant \<Rightarrow> AuthorityBundle" where
  "materialized_bundle dbnow bundle grant =
     \<lparr>ab_BundleID = (if trim_space (ab_BundleID bundle) = [] then trim_space (ag_BundleID grant)
                    else trim_space (ab_BundleID bundle)),
      ab_DisplayName = string_of_null (nullString (ab_DisplayName bundle)),
      ab_Capabilities = (if normalizeStringList (ab_Capabilities bundle) = []
                         then normalizeStringList (ag_CapabilitiesSnapshot grant)
                         else normalizeStringList (ab_Capabilities bundle)),
      ab_Status = ''active'', ab_Metadata = ab_Metadata bundle, ab_CreatedAt = dbnow,
      ab_UpdatedAt = dbnow, ab_RetiredAt = None\<rparr>"

definition upsertAuthorityBundleMaterialized ::
  "int \<Rightarrow> AuthorityBundle \<Rightarrow> AuthorityGrant \<Rightarrow> authority_state \<Rightarrow> authority_state" where
  "upsertAuthorityBundleMaterialized dbnow bundle grant st =
     (let new = materialized_bundle dbnow bundle grant in
      if ab_BundleID new = [] then st
      else st\<lparr>at_Bundles :=
        upsert_row ab_BundleID new
          (\<lambda>old. old\<lparr>ab_DisplayName := (if ab_DisplayName new = [] then ab_DisplayName old else ab_DisplayName new),
                    ab_Capabilities := (if ab_Capabilities new = [] then ab_Capabilities old else ab_Capabilities new),
                    ab_Status := ''active'', ab_Metadata := ab_Metadata new, ab_UpdatedAt := dbnow\<rparr>)
          (at_Bundles st)\<rparr>)"

definition upsert_principal ::
  "int \<Rightarrow> string \<Rightarrow> authorityPrincipalBindingPayload option \<Rightarrow> authority_state \<Rightarrow> authority_state" where
  "upsert_principal dbnow principalID binding st =
     (let displayName =
            (case binding of None \<Rightarrow> principalID
             | Some b \<Rightarrow> if blank (pb_DisplayName b) then principalID else trim_space (pb_DisplayName b));
          profile = (case binding of None \<Rightarrow> [] | Some b \<Rightarrow> pb_Profile b)
      in st\<lparr>at_Principals :=
        upsert_row pr_PrincipalID
          \<lparr>pr_PrincipalID = principalID, pr_Kind = ''person'', pr_DisplayName = displayName,
           pr_Status = ''active'', pr_Profile = profile, pr_CreatedAt = dbnow, pr_DeactivatedAt = None\<rparr>
          (\<lambda>old. old\<lparr>pr_DisplayName := displayName, pr_Status := ''active'',
                    pr_Profile := (if profile = [] then pr_Profile old else profile)\<rparr>)
          (at_Principals st)\<rparr>)"

definition upsert_email ::
  "int \<Rightarrow> string \<Rightarrow> authorityPrincipalBindingPayload \<Rightarrow> authority_state \<Rightarrow> runtime_error + authority_state" where
  "upsert_email dbnow principalID b st =
     (let email = normalizeIdentifier (trim_space (pb_Email b)); (fresh, st1) = newID ''ident'' st in
      if email = [] then Inr st
      else map_sum id (\<lambda>t. st1\<lparr>at_Identifiers := t\<rparr>)
        (upsert_checked ''runtime_principal_identifiers_pkey'' pi_IdentifierID
          (\<lambda>i. (pi_IdentifierType i, pi_NormalizedValue i))
          \<lparr>pi_IdentifierID = fresh, pi_PrincipalID = principalID, pi_IdentifierType = ''email'',
           pi_Value = trim_space (pb_Email b), pi_NormalizedValue = email, pi_IsPrimary = True,
           pi_IsVerified = True, pi_VerifiedAt = Some dbnow, pi_Metadata = [], pi_CreatedAt = dbnow\<rparr>
          (\<lambda>old. old\<lparr>pi_PrincipalID := principalID, pi_Value := trim_space (pb_Email b),
                    pi_IsPrimary := True, pi_IsVerified := True, pi_VerifiedAt := Some dbnow\<rparr>)
          (at_Identifiers st)))"

definition upsert_identity ::
  "int \<Rightarrow> string \<Rightarrow> authorityPrincipalBindingPayload \<Rightarrow> authority_state \<Rightarrow> runtime_error + authority_state" where
  "upsert_identity dbnow principalID b st =
     (let (fresh, st1) = newID ''ident'' st in
      if blank (pb_ProviderID b) \<or> blank (pb_ProviderSubject b) then Inr st
      else map_sum id (\<lambda>t. st1\<lparr>at_Identities := t\<rparr>)
        (upsert_checked ''runtime_auth_identities_pkey'' ai_IdentityID
          (\<lambda>i. (ai_ProviderID i, ai_ProviderSubject i))
          \<lparr>ai_IdentityID = fresh, ai_ProviderID = trim_space (pb_ProviderID b),
           ai_PrincipalID = principalID, ai_ProviderSubject = trim_space (pb_ProviderSubject b),
           ai_Profile = pb_Profile b, ai_LinkedAt = dbnow, ai_LastSeenAt = Some dbnow\<rparr>
          (\<lambda>old. old\<lparr>ai_PrincipalID := principalID, ai_Profile := pb_Profile b, ai_LastSeenAt := Some dbnow\<rparr>)
          (at_Identities st)))"

definition upsertAuthorityPrincipalBinding ::
  "int \<Rightarrow> authorityPrincipalBindingPayload option \<Rightarrow> string \<Rightarrow> authority_state \<Rightarrow>
   runtime_error + authority_state" where
  "upsertAuthorityPrincipalBinding dbnow binding principalID st =
     (let k = trim_space principalID in
      if k = [] then Inr st
      else
        (let st1 = upsert_principal dbnow k binding st in
         case binding of
           None \<Rightarrow> Inr st1
         | Some b \<Rightarrow> and_then (upsert_email dbnow k b st1) (upsert_identity dbnow k b)))"

subsection \<open>Materializing a grant\<close>

definition grant_payload_error :: "AuthorityGrant \<Rightarrow> runtime_error err" where
  "grant_payload_error g =
     first_err
       [require (\<not> blank (ag_GrantID g)) (Invalid ''authority grant payload missing grant_id''),
        require (\<not> blank (ag_BundleID g)) (Invalid ''authority grant payload missing bundle_id''),
        require (\<not> blank (ag_GranteePrincipalID g))
          (Invalid ''authority grant payload missing grantee_principal_id''),
        require (\<not> blank (ag_ScopeKind g) \<and> \<not> blank (ag_ScopeID g))
          (Invalid ''authority grant payload missing scope'')]"

text \<open>The row of a grant.\<close>

definition grant_row :: "int \<Rightarrow> AuthorityGrant \<Rightarrow> AuthorityGrant" where
  "grant_row acceptedAt g =
     g\<lparr>ag_GrantorPrincipalID := string_of_null (nullString (ag_GrantorPrincipalID g)),
       ag_CapabilitiesSnapshot := normalizeStringList (ag_CapabilitiesSnapshot g),
       ag_EffectiveAt := nullTimeValue (ag_EffectiveAt g), ag_ExpiresAt := nullTimeValue (ag_ExpiresAt g),
       ag_SupersedesGrantID := string_of_null (nullString (ag_SupersedesGrantID g)),
       ag_Reason := string_of_null (nullString (ag_Reason g)),
       ag_EvidenceRefs := normalizeStringList (ag_EvidenceRefs g),
       ag_CreatedAt := (if ag_CreatedAt g = 0 then acceptedAt else ag_CreatedAt g)\<rparr>"

text \<open>The foreign keys of the grants; a grant may reference itself.\<close>

definition grant_fk_error :: "AuthorityGrant \<Rightarrow> authority_state \<Rightarrow> runtime_error err" where
  "grant_fk_error r st =
     first_err
       [require (row_at ab_BundleID (ag_BundleID r) (at_Bundles st) \<noteq> None)
          (ErrConflict ''runtime_authority_grants_bundle_id_fkey''),
        require (row_at pr_PrincipalID (ag_GranteePrincipalID r) (at_Principals st) \<noteq> None)
          (ErrConflict ''runtime_authority_grants_grantee_principal_id_fkey''),
        require (ag_GrantorPrincipalID r = [] \<or>
                 row_at pr_PrincipalID (ag_GrantorPrincipalID r) (at_Principals st) \<noteq> None)
          (ErrConflict ''runtime_authority_grants_grantor_principal_id_fkey''),
        require (ag_SupersedesGrantID r = [] \<or> ag_SupersedesGrantID r = ag_GrantID r \<or>
                 row_at ag_GrantID (ag_SupersedesGrantID r) (at_Grants st) \<noteq> None)
          (ErrConflict ''runtime_authority_grants_supersedes_grant_id_fkey'')]"

definition store_grant :: "AuthorityGrant \<Rightarrow> authority_state \<Rightarrow> runtime_error + authority_state" where
  "store_grant r st =
     guard_err (grant_fk_error r st)
       (Inr (st\<lparr>at_Grants := upsert_row ag_GrantID r (\<lambda>_. r) (at_Grants st)\<rparr>))"

definition materializeAuthorityGrantPayload ::
  "int \<Rightarrow> authorityGrantRegistryPayload \<Rightarrow> int \<Rightarrow> authority_state \<Rightarrow> runtime_error + authority_state" where
  "materializeAuthorityGrantPayload dbnow p acceptedAt st =
     guard_err (grant_payload_error (gp_Grant p))
       (and_then
         (upsertAuthorityPrincipalBinding dbnow (gp_Grantor p) (ag_GrantorPrincipalID (gp_Grant p))
           (upsertAuthorityBundleMaterialized dbnow (gp_Bundle p) (gp_Grant p) st))
         (\<lambda>st1. and_then
           (upsertAuthorityPrincipalBinding dbnow (gp_Grantee p) (ag_GranteePrincipalID (gp_Grant p)) st1)
           (store_grant (grant_row acceptedAt (gp_Grant p)))))"

fun materialize_rows ::
  "int \<Rightarrow> json_map RegistryRow list \<Rightarrow> authority_state \<Rightarrow> runtime_error + authority_state" where
  "materialize_rows dbnow [] st = Inr st"
| "materialize_rows dbnow (row # rows) st =
     (case mapToAuthorityStruct (rw_Payload row) of
        None \<Rightarrow> Inl (Invalid ''decode authority registry payload'')
      | Some p \<Rightarrow>
          and_then (materializeAuthorityGrantPayload dbnow p (rw_AcceptedAt row) st)
            (materialize_rows dbnow rows))"

text \<open>The grant rows of the ledger, page after page.\<close>

definition authority_rows :: "json_map ledger \<Rightarrow> json_map RegistryRow list" where
  "authority_rows lg =
     filter (\<lambda>r. trim_space (rw_RowType r) = authorityGrantRegistryRowType)
       (all_pages
         \<lparr>li_Reference = authorityRegistryReference, li_SeedID = authorityRegistrySeedID,
          li_RealizationID = authorityRegistryRealizationID, li_AfterRowID = 0, li_Limit = 5000\<rparr> lg)"

definition materializeAuthorityStateTx ::
  "int \<Rightarrow> authority_state \<Rightarrow> runtime_error + AuthorityMaterializationResult \<times> authority_state" where
  "materializeAuthorityStateTx dbnow st =
     (let rows = authority_rows (at_Ledger st) in
      map_sum id
        (\<lambda>st'. (\<lparr>mr_Reference = authorityRegistryReference, mr_MaterializedRows = length rows,
                 mr_RegistryRows = length rows, mr_Rebuilt = True\<rparr>, st'))
        (materialize_rows dbnow rows (st\<lparr>at_Grants := []\<rparr>)))"

subsection \<open>Migrating legacy grants\<close>

text \<open>\<open>order by created_at asc, grant_id asc\<close>, and the row each legacy grant becomes.\<close>

definition legacy_order :: "AuthorityGrant list \<Rightarrow> AuthorityGrant list" where
  "legacy_order grants = sort_key (\<lambda>g. (ag_CreatedAt g, ag_GrantID g)) grants"

fun legacy_rows ::
  "authority_state \<Rightarrow> AuthorityGrant list \<Rightarrow> runtime_error + json_map AppendRegistryRowInput list" where
  "legacy_rows st [] = Inr []"
| "legacy_rows st (g # gs) =
     and_then (GetAuthorityBundle (ag_BundleID g) st) (\<lambda>bundle.
       map_sum id
         ((#) \<lparr>ar_RowType = authorityGrantRegistryRowType, ar_ObjectID = ag_GrantID g,
               ar_ClaimID = ag_GrantID g, ar_Payload = authorityGrantPayload g bundle st\<rparr>)
         (legacy_rows st gs))"

definition legacy_append :: "json_map AppendRegistryRowInput list \<Rightarrow> json_map AppendRegistryChangeSetInput" where
  "legacy_append rows =
     \<lparr>ac_ChangeSetID = ''authority-legacy-migration'', ac_Reference = authorityRegistryReference,
      ac_SeedID = authorityRegistrySeedID, ac_RealizationID = authorityRegistryRealizationID,
      ac_IdempotencyKey = ''authority-legacy-migration'', ac_AcceptedBy = ''authority-legacy-migration'',
      ac_Metadata = [(''source'', JString ''runtime_authority_grants'')], ac_Rows = rows\<rparr>"

text \<open>An append to the ledger of the service; the change set always has an id of its own here.\<close>

definition append_to_ledger ::
  "int \<Rightarrow> json_map AppendRegistryChangeSetInput \<Rightarrow> authority_state \<Rightarrow>
   (runtime_error + json_map AppendedRegistryChangeSet) \<times> authority_state" where
  "append_to_ledger now i st =
     (let (res, lg) = AppendRegistryChangeSet [] now i (at_Ledger st) in (res, st\<lparr>at_Ledger := lg\<rparr>))"

definition legacy_count :: "json_map ledger \<Rightarrow> nat" where
  "legacy_count lg =
     length (filter (\<lambda>r. rw_Reference r = authorityRegistryReference \<and> rw_SeedID r = authorityRegistrySeedID \<and>
       rw_RealizationID r = authorityRegistryRealizationID \<and> rw_RowType r = authorityGrantRegistryRowType)
       (lg_Rows lg))"

definition migrateLegacyAuthorityGrantsToRegistry ::
  "int \<Rightarrow> authority_state \<Rightarrow> runtime_error err \<times> authority_state" where
  "migrateLegacyAuthorityGrantsToRegistry now st =
     (if \<not> at_Ready st then (Some NotConfigured, st)
      else if legacy_count (at_Ledger st) > 0 then (None, st)
      else case legacy_rows st (legacy_order (at_Grants st)) of
        Inl e \<Rightarrow> (Some e, st)
      | Inr [] \<Rightarrow> (None, st)
      | Inr rows \<Rightarrow>
          (let (res, st') = append_to_ledger now (legacy_append rows) st in (err_of res, st')))"

subsection \<open>Materializing the state\<close>

definition MaterializeAuthorityState ::
  "int \<Rightarrow> int \<Rightarrow> authority_state \<Rightarrow> (runtime_error + AuthorityMaterializationResult) \<times> authority_state" where
  "MaterializeAuthorityState now dbnow st =
     (if \<not> at_Ready st then (Inl NotConfigured, st)
      else
        (case migrateLegacyAuthorityGrantsToRegistry now st of
           (Some e, st1) \<Rightarrow> (Inl e, st1)
         | (None, st1) \<Rightarrow>
             (case materializeAuthorityStateTx dbnow st1 of
                Inl e \<Rightarrow> (Inl e, st1)
              | Inr (res, st2) \<Rightarrow> (Inr res, st2))))"

definition authorityStateNeedsMaterialize :: "authority_state \<Rightarrow> bool" where
  "authorityStateNeedsMaterialize st =
     (length (at_Grants st) \<noteq> length (authority_rows (at_Ledger st)))"

definition ensureAuthorityMaterialized ::
  "int \<Rightarrow> int \<Rightarrow> authority_state \<Rightarrow> runtime_error err \<times> authority_state" where
  "ensureAuthorityMaterialized now dbnow st =
     (if \<not> at_Ready st then (Some NotConfigured, st)
      else if \<not> authorityStateNeedsMaterialize st then (None, st)
      else (let (res, st') = MaterializeAuthorityState now dbnow st in (err_of res, st')))"

end
