(* ===== verification/Authority.thy ===== *)
theory Authority
  imports Authority_Materializer
begin

text \<open>
  internal/interactions/runtime_authority.go: auth identities, authority bundles, and grants. A
  grant is appended to the registry ledger under a change set of its own and the tables are
  rebuilt; the effective authority of a principal is read from the rebuilt table.
\<close>

record BindAuthIdentityInput =
  bi_IdentityID :: string
  bi_ProviderID :: string
  bi_PrincipalID :: string
  bi_ProviderSubject :: string
  bi_Profile :: json_map
  bi_LastSeenAt :: "int option"

definition authorityGrantStatuses :: "string set" where
  "authorityGrantStatuses =
     {''proposed'', ''accepted'', ''rejected'', ''revoked'', ''expired'', ''superseded''}"

subsection \<open>Identities and bundles\<close>

definition BindAuthIdentity ::
  "int \<Rightarrow> BindAuthIdentityInput \<Rightarrow> authority_state \<Rightarrow> (runtime_error + AuthIdentity) \<times> authority_state" where
  "BindAuthIdentity now i st =
     (if \<not> at_Ready st then (Inl NotConfigured, st)
      else if blank (bi_ProviderID i) then (Inl (Required ''provider_id''), st)
      else if blank (bi_PrincipalID i) then (Inl (Required ''principal_id''), st)
      else if blank (bi_ProviderSubject i) then (Inl (Required ''provider_subject''), st)
      else
        (let (fresh, st1) = (if blank (bi_IdentityID i) then newID ''idn'' st else (bi_IdentityID i, st));
             key = (trim_space (bi_ProviderID i), trim_space (bi_ProviderSubject i));
             row = \<lparr>ai_IdentityID = fresh, ai_ProviderID = fst key,
                    ai_PrincipalID = trim_space (bi_PrincipalID i), ai_ProviderSubject = snd key,
                    ai_Profile = bi_Profile i, ai_LinkedAt = now,
                    ai_LastSeenAt = nullTimeValue (bi_LastSeenAt i)\<rparr>
         in case upsert_checked ''runtime_auth_identities_pkey'' ai_IdentityID
                 (\<lambda>x. (ai_ProviderID x, ai_ProviderSubject x)) row
                 (\<lambda>old. old\<lparr>ai_PrincipalID := ai_PrincipalID row, ai_Profile := ai_Profile row,
                    ai_LastSeenAt := (case ai_LastSeenAt row of None \<Rightarrow> ai_LastSeenAt old | Some t \<Rightarrow> Some t)\<rparr>)
                 (at_Identities st1) of
              Inl e \<Rightarrow> (Inl e, st1)
            | Inr t \<Rightarrow>
                (Inr (the (row_at (\<lambda>x. (ai_ProviderID x, ai_ProviderSubject x)) key t)),
                 st1\<lparr>at_Identities := t\<rparr>)))"

definition ResolveAuthIdentity :: "string \<Rightarrow> string \<Rightarrow> authority_state \<Rightarrow> runtime_error + AuthIdentity" where
  "ResolveAuthIdentity providerID subject st =
     (if \<not> at_Ready st then Inl NotConfigured
      else case row_at (\<lambda>x. (ai_ProviderID x, ai_ProviderSubject x))
                  (trim_space providerID, trim_space subject) (at_Identities st) of
        None \<Rightarrow> Inl ErrNotFound | Some r \<Rightarrow> Inr r)"

definition UpsertAuthorityBundle ::
  "int \<Rightarrow> UpsertAuthorityBundleInput \<Rightarrow> authority_state \<Rightarrow>
   (runtime_error + AuthorityBundle) \<times> authority_state" where
  "UpsertAuthorityBundle now i st =
     (if \<not> at_Ready st then (Inl NotConfigured, st)
      else if blank (ub_BundleID i) then (Inl (Required ''bundle_id''), st)
      else if normalizeStringList (ub_Capabilities i) = [] then (Inl (Required ''capabilities''), st)
      else
        (let new = \<lparr>ab_BundleID = trim_space (ub_BundleID i),
                    ab_DisplayName = string_of_null (nullString (ub_DisplayName i)),
                    ab_Capabilities = normalizeStringList (ub_Capabilities i),
                    ab_Status = statusOrDefault (ub_Status i) ''active'', ab_Metadata = ub_Metadata i,
                    ab_CreatedAt = now, ab_UpdatedAt = now, ab_RetiredAt = None\<rparr>;
             t = upsert_row ab_BundleID new
                   (\<lambda>old. old\<lparr>ab_DisplayName := ab_DisplayName new, ab_Capabilities := ab_Capabilities new,
                      ab_Status := ab_Status new, ab_Metadata := ab_Metadata new, ab_UpdatedAt := now\<rparr>)
                   (at_Bundles st)
         in (Inr (the (row_at ab_BundleID (ab_BundleID new) t)), st\<lparr>at_Bundles := t\<rparr>)))"

subsection \<open>Grants\<close>

definition getAuthorityGrant :: "string \<Rightarrow> authority_state \<Rightarrow> runtime_error + AuthorityGrant" where
  "getAuthorityGrant grantID st =
     (if \<not> at_Ready st then Inl NotConfigured
      else case row_at ag_GrantID (trim_space grantID) (at_Grants st) of
        None \<Rightarrow> Inl ErrNotFound | Some g \<Rightarrow> Inr g)"

text \<open>A blank field of the input is taken from the grant that is superseded, when there is one.\<close>

definition inherit :: "AuthorityGrant option \<Rightarrow> (AuthorityGrant \<Rightarrow> string) \<Rightarrow> string \<Rightarrow> string" where
  "inherit superseded field v =
     (case superseded of None \<Rightarrow> v | Some g \<Rightarrow> if blank v then field g else v)"

definition load_superseded ::
  "CreateAuthorityGrantInput \<Rightarrow> authority_state \<Rightarrow> runtime_error + AuthorityGrant option" where
  "load_superseded i st =
     (if trim_space (cg_SupersedesGrantID i) = [] then Inr None
      else map_sum id Some (getAuthorityGrant (trim_space (cg_SupersedesGrantID i)) st))"

definition snapshot_of :: "string \<Rightarrow> AuthorityGrant option \<Rightarrow> AuthorityBundle \<Rightarrow> string list" where
  "snapshot_of status superseded bundle =
     (case superseded of
        Some g \<Rightarrow>
          if ag_CapabilitiesSnapshot g \<noteq> [] \<and> (status = ''revoked'' \<or> status = ''superseded'')
          then normalizeStringList (ag_CapabilitiesSnapshot g)
          else normalizeStringList (ab_Capabilities bundle)
      | None \<Rightarrow> normalizeStringList (ab_Capabilities bundle))"

text \<open>The grant that the input describes, and the bundle it is made from.\<close>

definition grant_from_input ::
  "string \<Rightarrow> int \<Rightarrow> CreateAuthorityGrantInput \<Rightarrow> authority_state \<Rightarrow>
   runtime_error + AuthorityGrant \<times> AuthorityBundle" where
  "grant_from_input grantID now i st =
     (let status = statusOrDefault (cg_Status i) ''accepted'' in
      if status \<notin> authorityGrantStatuses then Inl (Invalid ''status'')
      else and_then (load_superseded i st) (\<lambda>superseded.
        (let grantee = trim_space (inherit superseded ag_GranteePrincipalID (cg_GranteePrincipalID i));
             bundleID = trim_space (inherit superseded ag_BundleID (cg_BundleID i));
             scopeKind = trim_space (inherit superseded ag_ScopeKind (cg_ScopeKind i));
             scopeID = trim_space (inherit superseded ag_ScopeID (cg_ScopeID i))
         in if grantee = [] then Inl (Required ''grantee_principal_id'')
            else if bundleID = [] then Inl (Required ''bundle_id'')
            else if scopeKind = [] \<or> scopeID = [] then Inl (Required ''scope_kind and scope_id'')
            else and_then (GetAuthorityBundle bundleID st) (\<lambda>bundle.
              (let snapshot = snapshot_of status superseded bundle in
               if snapshot = [] then Inl (Invalid ''authority bundle resolved to no capabilities'')
               else Inr
                 (\<lparr>ag_GrantID = grantID, ag_GrantorPrincipalID = trim_space (cg_GrantorPrincipalID i),
                   ag_GranteePrincipalID = grantee, ag_BundleID = bundleID,
                   ag_CapabilitiesSnapshot = snapshot, ag_ScopeKind = scopeKind, ag_ScopeID = scopeID,
                   ag_DelegationMode =
                     statusOrDefault (inherit superseded ag_DelegationMode (cg_DelegationMode i)) ''none'',
                   ag_Basis = statusOrDefault (inherit superseded ag_Basis (cg_Basis i)) ''delegated'',
                   ag_Status = status,
                   ag_EffectiveAt =
                     (if cg_EffectiveAt i = None \<and> status = ''accepted'' then Some now else cg_EffectiveAt i),
                   ag_ExpiresAt = cg_ExpiresAt i,
                   ag_SupersedesGrantID = trim_space (cg_SupersedesGrantID i),
                   ag_Reason = trim_space (cg_Reason i),
                   ag_EvidenceRefs = normalizeStringList (cg_EvidenceRefs i),
                   ag_Metadata = cg_Metadata i, ag_CreatedAt = now\<rparr>, bundle))))))"

definition grant_append ::
  "AuthorityGrant \<Rightarrow> json_map \<Rightarrow> json_map AppendRegistryChangeSetInput" where
  "grant_append g payload =
     \<lparr>ac_ChangeSetID = ''auth-'' @ ag_GrantID g, ac_Reference = authorityRegistryReference,
      ac_SeedID = authorityRegistrySeedID, ac_RealizationID = authorityRegistryRealizationID,
      ac_IdempotencyKey = ''auth-'' @ ag_GrantID g,
      ac_AcceptedBy = statusOrDefault (ag_GrantorPrincipalID g) ''system'',
      ac_Metadata = [(''domain'', JString ''authority'')],
      ac_Rows =
        [\<lparr>ar_RowType = authorityGrantRegistryRowType, ar_ObjectID = ag_GrantID g,
          ar_ClaimID = ag_GrantID g, ar_Payload = payload\<rparr>]\<rparr>"

text \<open>The part after the tables have been brought up to date.\<close>

definition create_grant ::
  "int \<Rightarrow> int \<Rightarrow> CreateAuthorityGrantInput \<Rightarrow> authority_state \<Rightarrow>
   (runtime_error + AuthorityGrant) \<times> authority_state" where
  "create_grant now dbnow i st =
     (let (grantID, st1) =
        (if blank (cg_GrantID i) then newID ''grant'' st else (cg_GrantID i, st))
      in case grant_from_input grantID now i st1 of
           Inl e \<Rightarrow> (Inl e, st1)
         | Inr (grant, bundle) \<Rightarrow>
             (case append_to_ledger now (grant_append grant (authorityGrantPayload grant bundle st1)) st1 of
                (Inl e, st2) \<Rightarrow> (Inl e, st2)
              | (Inr _, st2) \<Rightarrow>
                  (case MaterializeAuthorityState now dbnow st2 of
                     (Inl e, st3) \<Rightarrow> (Inl e, st3)
                   | (Inr _, st3) \<Rightarrow> (getAuthorityGrant (ag_GrantID grant) st3, st3))))"

definition CreateAuthorityGrant ::
  "int \<Rightarrow> int \<Rightarrow> CreateAuthorityGrantInput \<Rightarrow> authority_state \<Rightarrow>
   (runtime_error + AuthorityGrant) \<times> authority_state" where
  "CreateAuthorityGrant now dbnow i st =
     (case ensureAuthorityMaterialized now dbnow st of
        (Some e, st1) \<Rightarrow> (Inl e, st1)
      | (None, st1) \<Rightarrow> create_grant now dbnow i st1)"

subsection \<open>Reading\<close>

text \<open>\<open>order by created_at desc, grant_id desc\<close>\<close>

definition newest_first :: "AuthorityGrant list \<Rightarrow> AuthorityGrant list" where
  "newest_first grants = rev (sort_key (\<lambda>g. (ag_CreatedAt g, ag_GrantID g)) grants)"

definition ListAuthorityLedgerByPrincipal ::
  "int \<Rightarrow> int \<Rightarrow> string \<Rightarrow> int \<Rightarrow> authority_state \<Rightarrow>
   (runtime_error + AuthorityGrant list) \<times> authority_state" where
  "ListAuthorityLedgerByPrincipal now dbnow principalID limit st =
     (case ensureAuthorityMaterialized now dbnow st of
        (Some e, st1) \<Rightarrow> (Inl e, st1)
      | (None, st1) \<Rightarrow>
          (let k = trim_space principalID in
           if k = [] then (Inl (Required ''principal_id''), st1)
           else
             (Inr (take (nat (clampLimit limit 100 500))
                (newest_first (filter (\<lambda>g. ag_GranteePrincipalID g = k \<or> ag_GrantorPrincipalID g = k)
                   (at_Grants st1)))), st1)))"

definition in_force :: "int \<Rightarrow> AuthorityGrant \<Rightarrow> bool" where
  "in_force now g \<longleftrightarrow>
     ag_Status g = ''accepted'' \<and>
     (case ag_EffectiveAt g of None \<Rightarrow> True | Some t \<Rightarrow> t \<le> now) \<and>
     (case ag_ExpiresAt g of None \<Rightarrow> True | Some t \<Rightarrow> t > now)"

definition replaces :: "AuthorityGrant \<Rightarrow> AuthorityGrant \<Rightarrow> bool" where
  "replaces newer g \<longleftrightarrow>
     ag_SupersedesGrantID newer \<noteq> [] \<and> ag_SupersedesGrantID newer = ag_GrantID g \<and>
     ag_Status newer \<in> {''accepted'', ''revoked'', ''superseded''}"

definition active_grants :: "int \<Rightarrow> string \<Rightarrow> AuthorityGrant list \<Rightarrow> AuthorityGrant list" where
  "active_grants now principalID grants =
     newest_first
       (filter (\<lambda>g. ag_GranteePrincipalID g = principalID \<and> in_force now g \<and>
                    \<not> (\<exists>newer\<in>set grants. replaces newer g)) grants)"

text \<open>The map from capability and scope to the ids of the grants that give it.\<close>

type_synonym capKey = "string \<times> string \<times> string"

definition add_capability ::
  "AuthorityGrant \<Rightarrow> (capKey \<times> string list) list \<Rightarrow> string \<Rightarrow> (capKey \<times> string list) list" where
  "add_capability g m capability =
     upsert (capability, ag_ScopeKind g, ag_ScopeID g) [] (\<lambda>ids. ids @ [ag_GrantID g]) m"

definition add_grant :: "(capKey \<times> string list) list \<Rightarrow> AuthorityGrant \<Rightarrow> (capKey \<times> string list) list" where
  "add_grant m g = foldl (add_capability g) m (normalizeStringList (ag_CapabilitiesSnapshot g))"

definition policy_of :: "capKey \<times> string list \<Rightarrow> EffectiveAuthorityCapability" where
  "policy_of e =
     (case e of ((capability, scopeKind, scopeID), ids) \<Rightarrow>
        \<lparr>ec_Capability = capability, ec_ScopeKind = scopeKind, ec_ScopeID = scopeID,
         ec_GrantIDs = normalizeStringList ids\<rparr>)"

definition effective_policies :: "AuthorityGrant list \<Rightarrow> EffectiveAuthorityCapability list" where
  "effective_policies grants =
     sort_key (\<lambda>p. (ec_Capability p, ec_ScopeKind p, ec_ScopeID p))
       (map policy_of (foldl add_grant [] grants))"

definition GetEffectiveAuthorityByPrincipal ::
  "int \<Rightarrow> int \<Rightarrow> string \<Rightarrow> authority_state \<Rightarrow>
   (runtime_error + PrincipalEffectiveAuthority) \<times> authority_state" where
  "GetEffectiveAuthorityByPrincipal now dbnow principalID st =
     (case ensureAuthorityMaterialized now dbnow st of
        (Some e, st1) \<Rightarrow> (Inl e, st1)
      | (None, st1) \<Rightarrow>
          (let k = trim_space principalID in
           if k = [] then (Inl (Required ''principal_id''), st1)
           else
             (let grants = active_grants now k (at_Grants st1) in
              (Inr \<lparr>ea_PrincipalID = k, ea_ComputedAt = now, ea_ActiveGrants = grants,
                    ea_EffectivePolicies = effective_policies grants\<rparr>, st1))))"

end
