(* ===== verification/Authority_Properties.thy ===== *)
theory Authority_Properties
  imports Authority Ledger_Properties
begin

text \<open>
  The authority tables against the ledger they are rebuilt from: a materialization refines the map
  of the latest grant per id, the effective authority is what the grants in force give, a grant that
  has been replaced stays without effect, and a malformed row in the ledger blocks new grants.
\<close>

subsection \<open>What a materialization does to the grants\<close>

definition row_grant :: "json_map RegistryRow \<Rightarrow> AuthorityGrant option" where
  "row_grant r = map_option (\<lambda>p. grant_row (rw_AcceptedAt r) (gp_Grant p)) (mapToAuthorityStruct (rw_Payload r))"

text \<open>The abstract specification: the last row of a grant id wins.\<close>

definition latest_grants :: "json_map RegistryRow list \<Rightarrow> string \<rightharpoonup> AuthorityGrant" where
  "latest_grants rows =
     foldl (\<lambda>m r. case row_grant r of None \<Rightarrow> m | Some g \<Rightarrow> m(ag_GrantID g \<mapsto> g)) Map.empty rows"

definition grants_of :: "authority_state \<Rightarrow> string \<rightharpoonup> AuthorityGrant" where
  "grants_of st = (\<lambda>k. row_at ag_GrantID k (at_Grants st))"

text \<open>What the statements of a materialization leave alone.\<close>

definition same_core :: "authority_state \<Rightarrow> authority_state \<Rightarrow> bool" where
  "same_core st st' \<longleftrightarrow> at_Ledger st' = at_Ledger st \<and> at_Ready st' = at_Ready st"

lemma same_core_trans: "same_core a b \<Longrightarrow> same_core b c \<Longrightarrow> same_core a c"
  by (simp add: same_core_def)

lemma upsert_bundle_core:
  "same_core st (upsertAuthorityBundleMaterialized dbnow b g st) \<and>
   at_Grants (upsertAuthorityBundleMaterialized dbnow b g st) = at_Grants st"
  by (simp add: upsertAuthorityBundleMaterialized_def Let_def same_core_def)

lemma upsert_principal_core:
  "same_core st (upsert_principal dbnow k b st) \<and> at_Grants (upsert_principal dbnow k b st) = at_Grants st"
  by (simp add: upsert_principal_def Let_def same_core_def)

lemma map_sum_id_Inr [simp]: "map_sum id f x = Inr y \<longleftrightarrow> (\<exists>z. x = Inr z \<and> y = f z)"
  by (cases x) auto

lemma map_sum_id_Inl [simp]: "map_sum id f x = Inl e \<longleftrightarrow> x = Inl e"
  by (cases x) auto

lemma upsert_email_core:
  "upsert_email dbnow k b st = Inr st' \<Longrightarrow> same_core st st' \<and> at_Grants st' = at_Grants st"
  by (auto simp: upsert_email_def Let_def newID_def same_core_def split: if_splits)

lemma upsert_identity_core:
  "upsert_identity dbnow k b st = Inr st' \<Longrightarrow> same_core st st' \<and> at_Grants st' = at_Grants st"
  by (auto simp: upsert_identity_def Let_def newID_def same_core_def split: if_splits)

lemma upsert_binding_core:
  assumes "upsertAuthorityPrincipalBinding dbnow b k st = Inr st'"
  shows "same_core st st' \<and> at_Grants st' = at_Grants st"
proof -
  let ?k = "trim_space k"
  show ?thesis
  proof (cases "?k = [] \<or> b = None")
    case True
    then show ?thesis
      using assms upsert_principal_core[of st dbnow ?k b]
      by (auto simp: upsertAuthorityPrincipalBinding_def Let_def same_core_def split: if_splits option.splits)
  next
    case False
    then obtain b' where b: "b = Some b'" by auto
    with False assms obtain st1 where
      "upsert_email dbnow ?k b' (upsert_principal dbnow ?k b st) = Inr st1"
      "upsert_identity dbnow ?k b' st1 = Inr st'"
      by (auto simp: upsertAuthorityPrincipalBinding_def Let_def split: if_splits)
    then show ?thesis
      using upsert_principal_core[of st dbnow ?k b] upsert_email_core upsert_identity_core
      by (metis same_core_trans)
  qed
qed

lemma grant_row_id [simp]: "ag_GrantID (grant_row t g) = ag_GrantID g"
  by (simp add: grant_row_def)

lemma store_grant_Inr:
  "store_grant r st = Inr st' \<longleftrightarrow>
     grant_fk_error r st = None \<and> st' = st\<lparr>at_Grants := upsert_row ag_GrantID r (\<lambda>_. r) (at_Grants st)\<rparr>"
  by (auto simp: store_grant_def)

lemma materialize_payload_grants:
  assumes "materializeAuthorityGrantPayload dbnow p t st = Inr st'"
  shows "same_core st st'"
    and "at_Grants st' = upsert_row ag_GrantID (grant_row t (gp_Grant p)) (\<lambda>_. grant_row t (gp_Grant p)) (at_Grants st)"
    and "grant_payload_error (gp_Grant p) = None"
proof -
  let ?st0 = "upsertAuthorityBundleMaterialized dbnow (gp_Bundle p) (gp_Grant p) st"
  obtain st1 st2 where e: "grant_payload_error (gp_Grant p) = None"
      "upsertAuthorityPrincipalBinding dbnow (gp_Grantor p) (ag_GrantorPrincipalID (gp_Grant p)) ?st0 = Inr st1"
      "upsertAuthorityPrincipalBinding dbnow (gp_Grantee p) (ag_GranteePrincipalID (gp_Grant p)) st1 = Inr st2"
      "store_grant (grant_row t (gp_Grant p)) st2 = Inr st'"
    using assms by (auto simp: materializeAuthorityGrantPayload_def)
  have core: "same_core st st2" "at_Grants st2 = at_Grants st"
    using upsert_binding_core[OF e(2)] upsert_binding_core[OF e(3)]
      upsert_bundle_core[of st dbnow "gp_Bundle p" "gp_Grant p"] by (auto simp: same_core_def)
  from e(4) have st': "st' = st2\<lparr>at_Grants := upsert_row ag_GrantID (grant_row t (gp_Grant p))
      (\<lambda>_. grant_row t (gp_Grant p)) (at_Grants st2)\<rparr>"
    by (simp only: store_grant_Inr)
  with core show "same_core st st'"
    "at_Grants st' = upsert_row ag_GrantID (grant_row t (gp_Grant p)) (\<lambda>_. grant_row t (gp_Grant p)) (at_Grants st)"
    by (simp_all add: same_core_def)
  show "grant_payload_error (gp_Grant p) = None" by (rule e(1))
qed

text \<open>A row that a materialization accepts.\<close>

definition good_row :: "json_map RegistryRow \<Rightarrow> bool" where
  "good_row r \<longleftrightarrow>
     (case mapToAuthorityStruct (rw_Payload r) of
        None \<Rightarrow> False | Some p \<Rightarrow> grant_payload_error (gp_Grant p) = None)"

lemma materialize_rows_grants:
  assumes "materialize_rows dbnow rows st = Inr st'"
  shows "same_core st st'"
    and "at_Grants st' =
      foldl (\<lambda>t g. upsert_row ag_GrantID g (\<lambda>_. g) t) (at_Grants st) (map (\<lambda>r. the (row_grant r)) rows)"
    and "\<forall>r\<in>set rows. good_row r \<and> row_grant r \<noteq> None"
proof -
  have "same_core st st' \<and> at_Grants st' =
      foldl (\<lambda>t g. upsert_row ag_GrantID g (\<lambda>_. g) t) (at_Grants st) (map (\<lambda>r. the (row_grant r)) rows) \<and>
      (\<forall>r\<in>set rows. good_row r \<and> row_grant r \<noteq> None)"
    using assms
  proof (induction rows arbitrary: st)
    case Nil
    then show ?case by (simp add: same_core_def)
  next
    case (Cons row rows)
    then obtain p st1 where p: "mapToAuthorityStruct (rw_Payload row) = Some p"
      "materializeAuthorityGrantPayload dbnow p (rw_AcceptedAt row) st = Inr st1"
      "materialize_rows dbnow rows st1 = Inr st'"
      by (auto split: option.splits)
    have "same_core st st1" using materialize_payload_grants(1)[OF p(2)] .
    then show ?case
      using Cons.IH[OF p(3)] materialize_payload_grants(2,3)[OF p(2)] p(1)
      by (auto simp: row_grant_def good_row_def intro: same_core_trans)
  qed
  then show "same_core st st'"
    "at_Grants st' =
      foldl (\<lambda>t g. upsert_row ag_GrantID g (\<lambda>_. g) t) (at_Grants st) (map (\<lambda>r. the (row_grant r)) rows)"
    "\<forall>r\<in>set rows. good_row r \<and> row_grant r \<noteq> None"
    by auto
qed

lemma row_at_replaced:
  "row_at key k (upsert_row key g (\<lambda>_. g) t) = (if k = key g then Some g else row_at key k t)"
  by (subst row_at_upsert_row) (auto split: option.split)

lemma latest_grants_table:
  "\<forall>r\<in>set rows. row_grant r \<noteq> None \<Longrightarrow>
   (\<lambda>k. row_at ag_GrantID k
      (foldl (\<lambda>t g. upsert_row ag_GrantID g (\<lambda>_. g) t) t (map (\<lambda>r. the (row_grant r)) rows))) =
   foldl (\<lambda>m r. case row_grant r of None \<Rightarrow> m | Some g \<Rightarrow> m(ag_GrantID g \<mapsto> g))
     (\<lambda>k. row_at ag_GrantID k t) rows"
proof (induction rows arbitrary: t)
  case (Cons r rows)
  then obtain g where g: "row_grant r = Some g" by auto
  have "(\<lambda>k. row_at ag_GrantID k (upsert_row ag_GrantID g (\<lambda>_. g) t)) =
      (\<lambda>k. row_at ag_GrantID k t)(ag_GrantID g \<mapsto> g)"
    by (auto simp: row_at_replaced)
  with Cons g show ?case by simp
qed simp

lemma distinct_replaced:
  "distinct (map ag_GrantID t) \<Longrightarrow>
   distinct (map ag_GrantID (foldl (\<lambda>t g. upsert_row ag_GrantID g (\<lambda>_. g) t) t gs))"
proof (induction gs arbitrary: t)
  case (Cons g gs)
  have "distinct (map ag_GrantID (upsert_row ag_GrantID g (\<lambda>_. g) t))"
    using Cons.prems by (intro distinct_upsert_row) auto
  then show ?case using Cons.IH by simp
qed simp

text \<open>The result of a transaction, and of the whole operation.\<close>

lemma materialize_tx:
  assumes "materializeAuthorityStateTx dbnow st = Inr (res, st')"
  shows "same_core st st'" "grants_of st' = latest_grants (authority_rows (at_Ledger st))"
    "distinct (map ag_GrantID (at_Grants st'))" "\<forall>r\<in>set (authority_rows (at_Ledger st)). good_row r"
    "at_Grants st' = foldl (\<lambda>t g. upsert_row ag_GrantID g (\<lambda>_. g) t) []
       (map (\<lambda>r. the (row_grant r)) (authority_rows (at_Ledger st)))"
proof -
  have m: "materialize_rows dbnow (authority_rows (at_Ledger st)) (st\<lparr>at_Grants := []\<rparr>) = Inr st'"
    using assms by (auto simp: materializeAuthorityStateTx_def Let_def)
  note rows = materialize_rows_grants[OF m]
  from rows(1) show "same_core st st'" by (simp add: same_core_def)
  from rows(2) show g: "at_Grants st' = foldl (\<lambda>t g. upsert_row ag_GrantID g (\<lambda>_. g) t) []
       (map (\<lambda>r. the (row_grant r)) (authority_rows (at_Ledger st)))" by simp
  then show "distinct (map ag_GrantID (at_Grants st'))" by (simp add: distinct_replaced)
  show "grants_of st' = latest_grants (authority_rows (at_Ledger st))"
    unfolding grants_of_def latest_grants_def g using rows(3)
    by (subst latest_grants_table) (auto simp: row_at_def)
  show "\<forall>r\<in>set (authority_rows (at_Ledger st)). good_row r" using rows(3) by blast
qed

lemma append_to_ledger_core:
  "append_to_ledger now i st = (res, st') \<Longrightarrow>
   at_Grants st' = at_Grants st \<and> at_Ready st' = at_Ready st \<and> extends (at_Ledger st) (at_Ledger st') \<and>
   at_Ledger st' = snd (AppendRegistryChangeSet [] now i (at_Ledger st))"
  using extends_append[of "at_Ledger st" "[]" now i]
  by (auto simp: append_to_ledger_def Let_def split: prod.splits)

lemma extends_refl [simp]: "extends lg lg"
  by (simp add: extends_def)

lemma migrate_core:
  assumes "migrateLegacyAuthorityGrantsToRegistry now st = (res, st')"
  shows "at_Grants st' = at_Grants st \<and> at_Ready st' = at_Ready st \<and> extends (at_Ledger st) (at_Ledger st')"
proof -
  consider "st' = st" | rows res' where "append_to_ledger now (legacy_append rows) st = (res', st')"
    using assms
    by (auto simp: migrateLegacyAuthorityGrantsToRegistry_def split: if_splits sum.splits list.splits prod.splits)
  then show ?thesis
  proof cases
    case 2
    from append_to_ledger_core[OF 2] show ?thesis by blast
  qed simp
qed

lemma materialize_cases:
  assumes "MaterializeAuthorityState now dbnow st = (res, st')"
  obtains (failed) e where "res = Inl e" "at_Grants st' = at_Grants st" "at_Ready st' = at_Ready st"
      "extends (at_Ledger st) (at_Ledger st')"
  | (done_) r st1 where "res = Inr r" "at_Ready st'" "extends (at_Ledger st) (at_Ledger st')"
      "migrateLegacyAuthorityGrantsToRegistry now st = (None, st1)"
      "materializeAuthorityStateTx dbnow st1 = Inr (r, st')" "at_Ledger st' = at_Ledger st1"
proof (cases "at_Ready st")
  case False
  with assms show thesis by (intro failed[of NotConfigured]) (auto simp: MaterializeAuthorityState_def)
next
  case True
  obtain m st1 where m: "migrateLegacyAuthorityGrantsToRegistry now st = (m, st1)" by fastforce
  note core = migrate_core[OF m]
  show thesis
  proof (cases m)
    case (Some e)
    with True m assms core show thesis by (intro failed[of e]) (auto simp: MaterializeAuthorityState_def)
  next
    case None
    show thesis
    proof (cases "materializeAuthorityStateTx dbnow st1")
      case (Inl e)
      with True m None assms core show thesis
        by (intro failed[of e]) (auto simp: MaterializeAuthorityState_def)
    next
      case (Inr x)
      then obtain r st2 where tx: "materializeAuthorityStateTx dbnow st1 = Inr (r, st2)" by (cases x) auto
      with True m None assms have "res = Inr r" "st' = st2" by (auto simp: MaterializeAuthorityState_def)
      with True m None core tx materialize_tx(1)[OF tx] show thesis
        by (intro done_[of r st1]) (auto simp: same_core_def)
    qed
  qed
qed

subsection \<open>The effective authority\<close>

definition pairs :: "(capKey \<times> string list) list \<Rightarrow> (capKey \<times> string) set" where
  "pairs m = {(k, x). \<exists>ids. (k, ids) \<in> set m \<and> x \<in> set ids}"

lemma pairs_Cons: "pairs ((k, ids) # m) = {k} \<times> set ids \<union> pairs m"
  by (auto simp: pairs_def)

lemma pairs_upsert: "pairs (upsert k [] (\<lambda>ids. ids @ [x]) m) = insert (k, x) (pairs m)"
proof (induction m)
  case Nil
  show ?case by (auto simp: pairs_def)
next
  case (Cons e m)
  obtain k' ids where e: "e = (k', ids)" by (cases e) blast
  show ?case
  proof (cases "k' = k")
    case True
    have "upsert k [] (\<lambda>ids. ids @ [x]) (e # m) = (k, ids @ [x]) # m" using True by (simp add: e)
    then show ?thesis by (auto simp: e True pairs_Cons simp del: upsert.simps)
  next
    case False
    then show ?thesis unfolding e upsert.simps pairs_Cons by (simp add: Cons.IH pairs_Cons insert_commute)
  qed
qed

lemma pairs_add_grant:
  "pairs (add_grant m g) =
     pairs m \<union> {((c, ag_ScopeKind g, ag_ScopeID g), ag_GrantID g) | c. c \<in> set (normalizeStringList (ag_CapabilitiesSnapshot g))}"
proof -
  have "pairs (foldl (add_capability g) m cs) =
      pairs m \<union> {((c, ag_ScopeKind g, ag_ScopeID g), ag_GrantID g) | c. c \<in> set cs}" for cs
    by (induction cs arbitrary: m) (auto simp: add_capability_def pairs_upsert)
  then show ?thesis by (simp add: add_grant_def)
qed

lemma pairs_add_grants:
  "pairs (foldl add_grant m gs) =
     pairs m \<union> {((c, ag_ScopeKind g, ag_ScopeID g), ag_GrantID g) | c g.
                  g \<in> set gs \<and> c \<in> set (normalizeStringList (ag_CapabilitiesSnapshot g))}"
  by (induction gs arbitrary: m) (auto simp: pairs_add_grant)

lemma distinct_add_grants: "distinct (map fst m) \<Longrightarrow> distinct (map fst (foldl add_grant m gs))"
proof (induction gs arbitrary: m)
  case (Cons g gs)
  have "distinct (map fst m) \<Longrightarrow> distinct (map fst (foldl (add_capability g) m cs))" for cs
    by (induction cs arbitrary: m) (auto simp: add_capability_def distinct_upsert)
  then have "distinct (map fst (add_grant m g))" using Cons.prems by (simp add: add_grant_def)
  then show ?case using Cons.IH by simp
qed simp

lemma policy_fields [simp]:
  "ec_Capability (policy_of e) = fst (fst e)" "ec_ScopeKind (policy_of e) = fst (snd (fst e))"
  "ec_ScopeID (policy_of e) = snd (snd (fst e))" "ec_GrantIDs (policy_of e) = normalizeStringList (snd e)"
  by (auto simp: policy_of_def split: prod.splits)

text \<open>The facts a policy list states: who may do what where, through which grant.\<close>

definition policy_facts :: "EffectiveAuthorityCapability list \<Rightarrow> (string \<times> string \<times> string \<times> string) set" where
  "policy_facts ps =
     {(ec_Capability p, ec_ScopeKind p, ec_ScopeID p, x) | p x. p \<in> set ps \<and> x \<in> set (ec_GrantIDs p)}"

lemma policy_facts_Cons:
  "policy_facts (p # ps) =
     (\<lambda>x. (ec_Capability p, ec_ScopeKind p, ec_ScopeID p, x)) ` set (ec_GrantIDs p) \<union> policy_facts ps"
  by (fastforce simp: policy_facts_def)

lemma policy_facts_map:
  "policy_facts (map policy_of m) =
     (\<lambda>(k, x). (fst k, fst (snd k), snd (snd k), trim_space x)) ` {e \<in> pairs m. \<not> blank (snd e)}"
proof (induction m)
  case (Cons e m)
  obtain k ids where e: "e = (k, ids)" by (cases e) blast
  have "policy_facts (map policy_of (e # m)) =
      (\<lambda>x. (fst k, fst (snd k), snd (snd k), x)) ` set (normalizeStringList ids) \<union> policy_facts (map policy_of m)"
    by (simp add: policy_facts_Cons e)
  also have "(\<lambda>x. (fst k, fst (snd k), snd (snd k), x)) ` set (normalizeStringList ids) =
      (\<lambda>(k, x). (fst k, fst (snd k), snd (snd k), trim_space x)) ` {e \<in> {k} \<times> set ids. \<not> blank (snd e)}"
    by (force simp: set_normalizeStringList)
  finally show ?case unfolding Cons.IH e pairs_Cons by (simp add: image_Un flip: Collect_disj_eq)
      (auto simp: image_iff)
qed (simp add: policy_facts_def pairs_def)

lemma effective_policies_facts:
  "policy_facts (effective_policies gs) =
     {(c, ag_ScopeKind g, ag_ScopeID g, trim_space (ag_GrantID g)) | c g.
        g \<in> set gs \<and> c \<in> set (normalizeStringList (ag_CapabilitiesSnapshot g)) \<and> \<not> blank (ag_GrantID g)}"
proof -
  have "policy_facts (effective_policies gs) = policy_facts (map policy_of (foldl add_grant [] gs))"
    by (simp add: effective_policies_def policy_facts_def)
  then show ?thesis unfolding policy_facts_map pairs_add_grants by (fastforce simp: pairs_def image_iff)
qed

lemma effective_policies_keys:
  "distinct (map (\<lambda>p. (ec_Capability p, ec_ScopeKind p, ec_ScopeID p)) (effective_policies gs))"
  "sorted (map (\<lambda>p. (ec_Capability p, ec_ScopeKind p, ec_ScopeID p)) (effective_policies gs))"
proof -
  have "(\<lambda>p. (ec_Capability p, ec_ScopeKind p, ec_ScopeID p)) \<circ> policy_of = fst"
    by (rule ext) simp
  then show "distinct (map (\<lambda>p. (ec_Capability p, ec_ScopeKind p, ec_ScopeID p)) (effective_policies gs))"
    by (simp add: effective_policies_def distinct_add_grants)
qed (simp add: effective_policies_def)

lemma set_active_grants:
  "set (active_grants now k gs) =
     {g \<in> set gs. ag_GranteePrincipalID g = k \<and> in_force now g \<and> \<not> (\<exists>newer\<in>set gs. replaces newer g)}"
  by (auto simp: active_grants_def newest_first_def)

lemma effective_result:
  assumes "GetEffectiveAuthorityByPrincipal now dbnow p st = (Inr e, st')"
  shows "ea_ActiveGrants e = active_grants now (trim_space p) (at_Grants st')"
    "ea_EffectivePolicies e = effective_policies (active_grants now (trim_space p) (at_Grants st'))"
    "ensureAuthorityMaterialized now dbnow st = (None, st')" "trim_space p \<noteq> []"
  using assms
  by (auto simp: GetEffectiveAuthorityByPrincipal_def Let_def split: prod.splits option.splits if_splits)

end
