(* ===== verification/Authority_History.thy ===== *)
theory Authority_History
  imports Authority_Properties
begin

text \<open>
  The authority service over time, beside clients that append to the ledger themselves: the table of grants is
  always a materialization of the ledger at some earlier time, and up to date after each successful check; what
  follows for grants that have been replaced, and for a ledger into which a malformed grant row has been written.
\<close>

subsection \<open>The grant rows of a ledger\<close>

definition is_grant_row :: "'j RegistryRow \<Rightarrow> bool" where
  "is_grant_row r \<longleftrightarrow>
     rw_Reference r = authorityRegistryReference \<and> rw_SeedID r = authorityRegistrySeedID \<and>
     rw_RealizationID r = authorityRegistryRealizationID \<and>
     trim_space (rw_RowType r) = authorityGrantRegistryRowType \<and> 0 < rw_RowID r"

lemma authority_names_trimmed [simp]:
  "trim_space authorityRegistryReference = authorityRegistryReference"
  "trim_space authorityRegistrySeedID = authorityRegistrySeedID"
  "trim_space authorityRegistryRealizationID = authorityRegistryRealizationID"
  "trim_space authorityGrantRegistryRowType = authorityGrantRegistryRowType"
  "authorityRegistryReference \<noteq> []" "authorityRegistrySeedID \<noteq> []"
  "authorityRegistryRealizationID \<noteq> []" "authorityGrantRegistryRowType \<noteq> []"
  by code_simp+

lemma authority_rows_filter:
  assumes "ledger_ok lg"
  shows "authority_rows lg = filter is_grant_row (lg_Rows lg)"
  unfolding authority_rows_def all_pages_complete[OF assms] rows_after_def filter_filter
  by (rule filter_cong) (auto simp: row_matches_def is_grant_row_def)

lemma authority_rows_extends:
  assumes "ledger_ok lg" "ledger_ok lg'" "extends lg lg'"
  shows "prefix (authority_rows lg) (authority_rows lg')"
  using assms by (auto simp: authority_rows_filter extends_def prefix_def)

subsection \<open>The steps of the service\<close>

text \<open>
  The operations of the authority service, and any append to the ledger, as \<open>handleAppendRegistryChangeSet\<close>
  makes it for any client: also for the reference of the authority, with any change set id and any rows.
\<close>

inductive authority_step :: "authority_state \<Rightarrow> authority_state \<Rightarrow> bool" where
  step_bind: "authority_step st (snd (BindAuthIdentity now i st))" for now i
| step_bundle: "authority_step st (snd (UpsertAuthorityBundle now b st))" for now b
| step_create: "authority_step st (snd (CreateAuthorityGrant now dbnow g st))" for now dbnow g
| step_list: "authority_step st (snd (ListAuthorityLedgerByPrincipal now dbnow p n st))" for now dbnow p n
| step_effective: "authority_step st (snd (GetEffectiveAuthorityByPrincipal now dbnow p st))" for now dbnow p
| step_materialize: "authority_step st (snd (MaterializeAuthorityState now dbnow st))" for now dbnow
| step_client: "authority_step st (st\<lparr>at_Ledger := snd (AppendRegistryChangeSet fresh now i (at_Ledger st))\<rparr>)"
   for i fresh now

definition no_authority :: "(nat \<Rightarrow> string) \<Rightarrow> authority_state" where
  "no_authority random =
     \<lparr>at_Ready = True, at_Ledger = no_ledger, at_Grants = [], at_Bundles = [], at_Principals = [],
      at_Identifiers = [], at_Identities = [], at_Random = random, at_Drawn = 0\<rparr>"

subsection \<open>The table is a materialization\<close>

text \<open>The grants that the materialization of rows leaves in an empty table.\<close>

definition materialized :: "json_map RegistryRow list \<Rightarrow> AuthorityGrant list" where
  "materialized rows =
     foldl (\<lambda>t g. upsert_row ag_GrantID g (\<lambda>_. g) t) [] (map (\<lambda>r. the (row_grant r)) rows)"

text \<open>
  Row types are stored trimmed, and the table is what the materialization of the rows at some earlier time has
  made, all of which decode.
\<close>

definition history_ok :: "authority_state \<Rightarrow> bool" where
  "history_ok st \<longleftrightarrow>
     ledger_ok (at_Ledger st) \<and>
     (\<forall>r\<in>set (lg_Rows (at_Ledger st)). trim_space (rw_RowType r) = rw_RowType r) \<and>
     (\<exists>rows. prefix rows (authority_rows (at_Ledger st)) \<and> (\<forall>r\<in>set rows. row_grant r \<noteq> None) \<and>
        at_Grants st = materialized rows)"

lemma length_upsert: "length (upsert_row key r f t) \<le> Suc (length t)"
  by (simp add: upsert_row_def update_rows_def)

lemma length_materialized: "length (materialized rows) \<le> length rows"
proof -
  have "length (foldl (\<lambda>t g. upsert_row ag_GrantID g (\<lambda>_. g) t) t gs) \<le> length t + length gs" for t and gs :: "AuthorityGrant list"
  proof (induction gs arbitrary: t)
    case (Cons g gs)
    have "length (upsert_row ag_GrantID g (\<lambda>_. g) t) \<le> Suc (length t)" by (rule length_upsert)
    with Cons[of "upsert_row ag_GrantID g (\<lambda>_. g) t"] show ?case by simp
  qed simp
  from this[of "[]" "map (\<lambda>r. the (row_grant r)) rows"] show ?thesis by (simp add: materialized_def)
qed

text \<open>The table as a map is the abstract one.\<close>

lemma materialized_at:
  assumes "\<forall>r\<in>set rows. row_grant r \<noteq> None"
  shows "row_at ag_GrantID k (materialized rows) = latest_grants rows k"
  using fun_cong[OF latest_grants_table[OF assms, of "[]"], of k]
  by (simp add: materialized_def latest_grants_def row_at_def)

text \<open>Rows for other grants do not change the latest one.\<close>

lemma latest_grants_others:
  assumes "\<forall>r\<in>set rows'. map_option ag_GrantID (row_grant r) \<noteq> Some k"
  shows "latest_grants (rows @ rows') k = latest_grants rows k"
proof -
  let ?f = "\<lambda>m r. case row_grant r of None \<Rightarrow> m | Some g \<Rightarrow> m(ag_GrantID g \<mapsto> g)"
  have "foldl ?f m rows' k = m k" for m
    using assms by (induction rows' arbitrary: m) (auto split: option.split)
  then show ?thesis by (simp add: latest_grants_def)
qed

text \<open>Rows added by an append belong to the change set that it returns.\<close>

lemma insert_rows_new:
  "r \<in> set (lg_Rows (snd (insert_rows c i items lg))) \<Longrightarrow>
   r \<in> set (lg_Rows lg) \<or>
   (\<exists>j<length items. \<exists>k. r = new_row k c (i + j) (items ! j) \<and>
      row_at row_key (cs_ChangeSetID c, i + j) (lg_Rows lg) = None)"
proof (induction items arbitrary: i lg)
  case (Cons item items)
  let ?lg = "snd (insert_row c i item lg)"
  from Cons.prems have "r \<in> set (lg_Rows (snd (insert_rows c (Suc i) items ?lg)))"
    by (simp add: Let_def del: insert_rows.simps(2))
  from Cons.IH[OF this] consider "r \<in> set (lg_Rows ?lg)"
    | j k where "j < length items" "r = new_row k c (Suc i + j) (items ! j)"
        "row_at row_key (cs_ChangeSetID c, Suc i + j) (lg_Rows ?lg) = None" by blast
  then show ?case
  proof cases
    case 1
    then show ?thesis
    proof (cases rule: insert_row_cases[of c i lg item])
      case 2
      with 1 consider "r \<in> set (lg_Rows lg)" | "r = new_row (lg_NextRowID lg) c i item" by auto
      then show ?thesis
      proof cases
        case 2
        then have "r = new_row (lg_NextRowID lg) c (i + 0) ((item # items) ! 0)" by simp
        then show ?thesis
          using \<open>row_at row_key (cs_ChangeSetID c, i) (lg_Rows lg) = None\<close>
          by (metis add.right_neutral length_Cons zero_less_Suc)
      qed simp
    qed (use 1 in simp)
  next
    case 2
    have "row_at row_key (cs_ChangeSetID c, Suc i + j) (lg_Rows lg) = None"
      using 2(3) insert_row_frame(3)[of c i item lg] by (auto simp: row_at_None)
    with 2 show ?thesis by (intro disjI2 exI[of _ "Suc j"]) auto
  qed
qed simp

lemma append_new_rows:
  assumes "r \<in> set (lg_Rows (snd (AppendRegistryChangeSet fresh now i lg)))" "r \<notin> set (lg_Rows lg)"
  obtains (stored) c j k where "c \<in> set (lg_ChangeSets lg)" "r = new_row k c j (ac_Rows i ! j)"
      "cs_ChangeSetID c = cs_ChangeSetID (new_change_set fresh now i)" "j < length (ac_Rows i)"
      "row_at row_key (cs_ChangeSetID c, j) (lg_Rows lg) = None"
  | (new) j k where "r = new_row k (new_change_set fresh now i) j (ac_Rows i ! j)" "j < length (ac_Rows i)"
proof (cases rule: append_cases[of fresh now i lg])
  case refused
  with assms show thesis by simp
next
  case (stored c)
  with assms insert_rows_new[of r c 0 "ac_Rows i" lg] show thesis
    by (auto dest!: row_at_SomeD intro: that(1)[of c])
next
  case (new c lg1)
  with assms insert_rows_new[of r c 0 "ac_Rows i" lg1] show thesis by (auto intro: that(2))
qed

subsection \<open>Every step keeps the history\<close>

lemma append_history:
  assumes "history_ok st"
  shows "history_ok (st\<lparr>at_Ledger := snd (AppendRegistryChangeSet fresh now i (at_Ledger st))\<rparr>)"
proof -
  let ?lg = "at_Ledger st" and ?lg' = "snd (AppendRegistryChangeSet fresh now i (at_Ledger st))"
  have ok: "ledger_ok ?lg" "ledger_ok ?lg'" using assms(1) by (auto simp: history_ok_def intro: append_ok)
  moreover have "prefix (authority_rows ?lg) (authority_rows ?lg')"
    by (rule authority_rows_extends[OF ok extends_append])
  moreover have "trim_space (rw_RowType r) = rw_RowType r" if r: "r \<in> set (lg_Rows ?lg')" for r
  proof (cases "r \<in> set (lg_Rows ?lg)")
    case True
    with assms show ?thesis by (simp add: history_ok_def)
  next
    case False
    with r show ?thesis by (cases rule: append_new_rows) (simp_all add: new_row_def)
  qed
  ultimately show ?thesis using assms unfolding history_ok_def
    by (auto intro: prefix_order.trans)
qed

lemma no_migration:
  assumes "history_ok st" "at_Ready st"
  shows "migrateLegacyAuthorityGrantsToRegistry now st = (None, st)"
proof (cases "legacy_count (at_Ledger st) = 0")
  case True
  have ok: "ledger_ok (at_Ledger st)" using assms(1) by (simp add: history_ok_def)
  have "\<not> is_grant_row r" if r: "r \<in> set (lg_Rows (at_Ledger st))" for r
  proof
    assume g: "is_grant_row r"
    with r assms(1) have "rw_RowType r = authorityGrantRegistryRowType" by (auto simp: history_ok_def is_grant_row_def)
    with g r True show False
      by (auto simp: legacy_count_def filter_empty_conv is_grant_row_def)
  qed
  then have "authority_rows (at_Ledger st) = []" by (simp add: authority_rows_filter[OF ok] filter_empty_conv)
  with assms(1) have "at_Grants st = []" by (auto simp: history_ok_def materialized_def)
  with True assms(2) show ?thesis
    by (simp add: migrateLegacyAuthorityGrantsToRegistry_def legacy_order_def)
qed (use assms(2) in \<open>simp add: migrateLegacyAuthorityGrantsToRegistry_def\<close>)

text \<open>The table is up to date.\<close>

definition current :: "authority_state \<Rightarrow> bool" where
  "current st \<longleftrightarrow>
     (\<forall>r\<in>set (authority_rows (at_Ledger st)). row_grant r \<noteq> None) \<and>
     at_Grants st = materialized (authority_rows (at_Ledger st))"

lemma current_history:
  "history_ok st \<Longrightarrow> current st' \<Longrightarrow> at_Ledger st' = at_Ledger st \<Longrightarrow> history_ok st'"
  by (auto simp: history_ok_def current_def)

lemma materialize_history:
  assumes h: "history_ok st" and m: "MaterializeAuthorityState now dbnow st = (res, st')"
  shows "history_ok st' \<and> at_Ledger st' = at_Ledger st \<and> ((\<exists>r. res = Inr r) \<longrightarrow> current st')"
proof (cases "at_Ready st")
  case True
  note mig = no_migration[OF h True, of now]
  show ?thesis
  proof (cases "materializeAuthorityStateTx dbnow st")
    case (Inl e)
    with m True mig h show ?thesis by (auto simp: MaterializeAuthorityState_def)
  next
    case (Inr x)
    then obtain r where tx: "materializeAuthorityStateTx dbnow st = Inr (r, st')"
      using m True mig by (cases x) (simp add: MaterializeAuthorityState_def)
    note t = materialize_tx[OF tx]
    have "current st'" using t(1,4,5)
      by (auto simp: current_def same_core_def materialized_def good_row_def row_grant_def split: option.splits)
    with t(1) current_history[OF h] show ?thesis by (simp add: same_core_def)
  qed
qed (use m h in \<open>auto simp: MaterializeAuthorityState_def\<close>)

text \<open>As many grants as rows: then the table has them all, each under an id of its own.\<close>

lemma counted_current:
  assumes "history_ok st" "\<not> authorityStateNeedsMaterialize st"
  shows "current st"
proof -
  from assms(1) obtain rows where rows: "prefix rows (authority_rows (at_Ledger st))" "\<forall>r\<in>set rows. row_grant r \<noteq> None"
    "at_Grants st = materialized rows" by (auto simp: history_ok_def)
  have "length (authority_rows (at_Ledger st)) \<le> length rows"
    using assms(2) length_materialized[of rows] by (simp add: authorityStateNeedsMaterialize_def rows(3))
  with rows(1) have "rows = authority_rows (at_Ledger st)" by (auto simp: prefix_def)
  with rows show ?thesis by (simp add: current_def)
qed

lemma ensure_history:
  assumes "history_ok st" "ensureAuthorityMaterialized now dbnow st = (res, st')"
  shows "history_ok st' \<and> at_Ledger st' = at_Ledger st \<and> (res = None \<longrightarrow> current st')"
proof (cases "at_Ready st \<and> authorityStateNeedsMaterialize st")
  case True
  then obtain r where m: "MaterializeAuthorityState now dbnow st = (r, st')" and res: "res = err_of r"
    using assms(2) by (auto simp: ensureAuthorityMaterialized_def split: prod.splits)
  from materialize_history[OF assms(1) m] show ?thesis by (cases r) (auto simp: res)
next
  case False
  with assms counted_current[OF assms(1)] show ?thesis
    by (auto simp: ensureAuthorityMaterialized_def split: if_splits)
qed

lemma history_core:
  "at_Ledger st' = at_Ledger st \<Longrightarrow> at_Grants st' = at_Grants st \<Longrightarrow> history_ok st' = history_ok st"
  by (simp add: history_ok_def)

lemma create_grant_history:
  assumes h: "history_ok st" and c: "create_grant now dbnow i st = (res, st')"
  shows "history_ok st' \<and> extends (at_Ledger st) (at_Ledger st')"
proof -
  obtain k st1 where k: "(if blank (cg_GrantID i) then newID ''grant'' st else (cg_GrantID i, st)) = (k, st1)"
    by fastforce
  then have core: "at_Ledger st1 = at_Ledger st" "at_Grants st1 = at_Grants st"
    by (auto simp: newID_def split: if_splits)
  with h have h1: "history_ok st1" using history_core by blast
  show ?thesis
  proof (cases "grant_from_input k now i st1")
    case (Inl e)
    with c k h1 core show ?thesis by (simp add: create_grant_def)
  next
    case (Inr gb)
    obtain g b where gb: "gb = (g, b)" by fastforce
    obtain a st2 where a: "append_to_ledger now (grant_append g (authorityGrantPayload g b st1)) st1 = (a, st2)" by fastforce
    then have "st2 = st1\<lparr>at_Ledger := snd (AppendRegistryChangeSet [] now
        (grant_append g (authorityGrantPayload g b st1)) (at_Ledger st1))\<rparr>"
      by (auto simp: append_to_ledger_def split: prod.splits)
    then have h2: "history_ok st2" using append_history[OF h1] by simp
    obtain r st3 where m: "MaterializeAuthorityState now dbnow st2 = (r, st3)" by fastforce
    from materialize_history[OF h2 m] append_to_ledger_core[OF a] show ?thesis
      using c k Inr gb a m h2 core by (auto simp: create_grant_def split: sum.splits)
  qed
qed

lemma bind_frame:
  "at_Ledger (snd (BindAuthIdentity now i st)) = at_Ledger st \<and>
   at_Grants (snd (BindAuthIdentity now i st)) = at_Grants st"
proof -
  obtain k st1 where k: "(if blank (bi_IdentityID i) then newID ''idn'' st else (bi_IdentityID i, st)) = (k, st1)"
    by fastforce
  then have "at_Ledger st1 = at_Ledger st" "at_Grants st1 = at_Grants st"
    by (auto simp: newID_def split: if_splits)
  then show ?thesis
    unfolding BindAuthIdentity_def k Let_def prod.case by (simp split: sum.split)
qed

lemma step_history:
  assumes "authority_step st st'" "history_ok st"
  shows "history_ok st' \<and> extends (at_Ledger st) (at_Ledger st')"
  using assms
proof cases
  case (step_bind now i)
  have "at_Ledger st' = at_Ledger st \<and> at_Grants st' = at_Grants st"
    unfolding step_bind by (rule bind_frame)
  with assms(2) history_core[of st' st] show ?thesis by simp
next
  case (step_bundle now b)
  have "at_Ledger st' = at_Ledger st \<and> at_Grants st' = at_Grants st"
    unfolding step_bundle by (simp add: UpsertAuthorityBundle_def Let_def)
  with assms(2) history_core[of st' st] show ?thesis by simp
next
  case (step_create now dbnow g)
  obtain e st1 where e: "ensureAuthorityMaterialized now dbnow st = (e, st1)" by fastforce
  obtain r st2 where c: "create_grant now dbnow g st1 = (r, st2)" by fastforce
  have 1: "history_ok st1" "at_Ledger st1 = at_Ledger st" using ensure_history[OF assms(2) e] by blast+
  then have "history_ok st2 \<and> extends (at_Ledger st) (at_Ledger st2)" using create_grant_history[OF _ c] by auto
  with 1 show ?thesis
    unfolding step_create CreateAuthorityGrant_def e by (auto simp: c split: option.split)
next
  case (step_list now dbnow p n)
  obtain e st1 where e: "ensureAuthorityMaterialized now dbnow st = (e, st1)" by fastforce
  from ensure_history[OF assms(2) e] assms(2) show ?thesis
    unfolding step_list ListAuthorityLedgerByPrincipal_def e by (auto simp: Let_def split: option.split)
next
  case (step_effective now dbnow p)
  obtain e st1 where e: "ensureAuthorityMaterialized now dbnow st = (e, st1)" by fastforce
  from ensure_history[OF assms(2) e] assms(2) show ?thesis
    unfolding step_effective GetEffectiveAuthorityByPrincipal_def e by (auto simp: Let_def split: option.split)
next
  case (step_materialize now dbnow)
  from materialize_history[OF assms(2)] show ?thesis unfolding step_materialize
    by (metis extends_refl prod.collapse)
next
  case (step_client i fresh now)
  with append_history[OF assms(2)] extends_append show ?thesis by simp
qed

interpretation history: machine_invariant authority_step "no_authority random" history_ok for random
proof
  show "history_ok (no_authority random)"
    by (simp add: history_ok_def no_authority_def ledger.start)
      (auto simp: no_ledger_def materialized_def intro!: exI[of _ "[]"])
qed (use step_history in blast)

interpretation rows_grow: machine_invariant authority_step st
  "\<lambda>st'. history_ok st \<longrightarrow> history_ok st' \<and> extends (at_Ledger st) (at_Ledger st')" for st
  using step_history extends_trans by unfold_locales (auto, blast)

text \<open>A ledger with a malformed grant row.\<close>

definition malformed :: "authority_state \<Rightarrow> bool" where
  "malformed st \<longleftrightarrow>
     ledger_ok (at_Ledger st) \<and> (\<exists>r\<in>set (authority_rows (at_Ledger st)). \<not> good_row r)"

lemma malformed_later:
  assumes "malformed st" "ledger_step\<^sup>*\<^sup>* (at_Ledger st) (at_Ledger st')"
  shows "malformed st'"
proof -
  have ok: "ledger_ok (at_Ledger st)" using assms(1) by (simp add: malformed_def)
  have "ledger_ok (at_Ledger st')" "extends (at_Ledger st) (at_Ledger st')"
    using ledger.holds_later[OF assms(2) ok] growth.holds_later[OF assms(2), of "at_Ledger st"] by simp_all
  with assms(1) set_mono_prefix[OF authority_rows_extends[OF ok]] show ?thesis by (fastforce simp: malformed_def)
qed

lemma append_ledger_step:
  "append_to_ledger now i st = (a, st') \<Longrightarrow> ledger_step\<^sup>*\<^sup>* (at_Ledger st) (at_Ledger st')"
proof -
  assume "append_to_ledger now i st = (a, st')"
  then have "at_Ledger st' = snd (AppendRegistryChangeSet [] now i (at_Ledger st))"
    by (blast dest: append_to_ledger_core)
  then show ?thesis by (metis r_into_rtranclp step_append)
qed

lemma migrate_ledger_step:
  assumes "migrateLegacyAuthorityGrantsToRegistry now st = (m, st')"
  shows "ledger_step\<^sup>*\<^sup>* (at_Ledger st) (at_Ledger st')"
proof -
  consider "st' = st" | rows res' where "append_to_ledger now (legacy_append rows) st = (res', st')"
    using assms
    by (auto simp: migrateLegacyAuthorityGrantsToRegistry_def split: if_splits sum.splits list.splits prod.splits)
  then show ?thesis by cases (auto intro: append_ledger_step)
qed

lemma malformed_materialize:
  assumes "malformed st" "MaterializeAuthorityState now dbnow st = (res, st')"
  shows "\<exists>e. res = Inl e"
proof (cases rule: materialize_cases[OF assms(2)])
  case (2 r st1)
  from malformed_later[OF assms(1) migrate_ledger_step[OF 2(4)]] materialize_tx(4)[OF 2(5)]
  show ?thesis by (auto simp: malformed_def)
qed simp

lemma malformed_ensure:
  "malformed st \<Longrightarrow> ensureAuthorityMaterialized now dbnow st = (None, st') \<Longrightarrow> st' = st"
  using malformed_materialize[of st now dbnow]
  by (auto simp: ensureAuthorityMaterialized_def split: if_splits prod.splits)

lemma malformed_create:
  assumes "malformed st"
  shows "\<exists>e. fst (create_grant now dbnow i st) = Inl e"
proof -
  obtain k st1 where k: "(if blank (cg_GrantID i) then newID ''grant'' st else (cg_GrantID i, st)) = (k, st1)"
    by fastforce
  then have bad: "malformed st1" using assms by (auto simp: newID_def malformed_def split: if_splits)
  show ?thesis
  proof (cases "grant_from_input k now i st1")
    case (Inl e)
    with k show ?thesis by (simp add: create_grant_def)
  next
    case (Inr gb)
    obtain g b where gb: "gb = (g, b)" by fastforce
    obtain a st2 where a: "append_to_ledger now (grant_append g (authorityGrantPayload g b st1)) st1 = (a, st2)"
      by fastforce
    obtain r st3 where m: "MaterializeAuthorityState now dbnow st2 = (r, st3)" by fastforce
    have "\<exists>e. r = Inl e" by (rule malformed_materialize[OF malformed_later[OF bad append_ledger_step[OF a]] m])
    with k Inr gb a m show ?thesis by (auto simp: create_grant_def split: sum.split)
  qed
qed

subsection \<open>Properties\<close>

definition sample_bundle :: UpsertAuthorityBundleInput where
  "sample_bundle =
     \<lparr>ub_BundleID = ''b'', ub_DisplayName = [], ub_Capabilities = [''c''],
      ub_Status = [], ub_Metadata = []\<rparr>"

definition sample_grant :: "string \<Rightarrow> string \<Rightarrow> string \<Rightarrow> CreateAuthorityGrantInput" where
  "sample_grant k supersedes status =
     \<lparr>cg_GrantID = k, cg_GrantorPrincipalID = [], cg_GranteePrincipalID = ''p'', cg_BundleID = ''b'',
      cg_ScopeKind = ''seed'', cg_ScopeID = ''s'', cg_DelegationMode = [], cg_Basis = [],
      cg_Status = status, cg_EffectiveAt = None, cg_ExpiresAt = None,
      cg_SupersedesGrantID = supersedes, cg_Reason = [], cg_EvidenceRefs = [], cg_Metadata = []\<rparr>"

definition sample_bundled :: authority_state where
  "sample_bundled = snd (UpsertAuthorityBundle 1 sample_bundle (no_authority (\<lambda>_. ''r'')))"

definition sample_granted :: authority_state where
  "sample_granted = snd (CreateAuthorityGrant 2 2 (sample_grant ''g1'' [] []) sample_bundled)"

definition sample_revoked :: authority_state where
  "sample_revoked = snd (CreateAuthorityGrant 3 3 (sample_grant ''g2'' ''g1'' ''revoked'') sample_granted)"

definition sample_payload :: "string \<Rightarrow> json_map" where
  "sample_payload status =
     authorityStructToMap
       \<lparr>gp_Grant =
          \<lparr>ag_GrantID = ''g'', ag_GrantorPrincipalID = [], ag_GranteePrincipalID = ''p'', ag_BundleID = ''b'',
           ag_CapabilitiesSnapshot = [''d'', ''c''], ag_ScopeKind = ''k'', ag_ScopeID = ''s'',
           ag_DelegationMode = ''n'', ag_Basis = ''d'', ag_Status = status, ag_EffectiveAt = None,
           ag_ExpiresAt = None, ag_SupersedesGrantID = [], ag_Reason = [], ag_EvidenceRefs = [],
           ag_Metadata = [], ag_CreatedAt = 2\<rparr>,
        gp_Bundle =
          \<lparr>ab_BundleID = ''b'', ab_DisplayName = [], ab_Capabilities = [''c''], ab_Status = ''active'',
           ab_Metadata = [], ab_CreatedAt = 0, ab_UpdatedAt = 0, ab_RetiredAt = None\<rparr>,
        gp_Grantor = None, gp_Grantee = None\<rparr>"

definition sample_rows :: "string list \<Rightarrow> authority_state" where
  "sample_rows statuses =
     \<lparr>at_Ready = True,
      at_Ledger = snd (AppendRegistryChangeSet [] 1
        \<lparr>ac_ChangeSetID = ''x'', ac_Reference = authorityRegistryReference,
         ac_SeedID = authorityRegistrySeedID, ac_RealizationID = authorityRegistryRealizationID,
         ac_IdempotencyKey = [], ac_AcceptedBy = [], ac_Metadata = [],
         ac_Rows = map (\<lambda>status. \<lparr>ar_RowType = authorityGrantRegistryRowType, ar_ObjectID = [],
           ar_ClaimID = [], ar_Payload = sample_payload status\<rparr>) statuses\<rparr> no_ledger),
      at_Grants = [], at_Bundles = [], at_Principals = [], at_Identifiers = [], at_Identities = [],
      at_Random = (\<lambda>_. ''r''), at_Drawn = 0\<rparr>"

lemma sample_authority_reachable:
  "reachable authority_step (no_authority (\<lambda>_. ''r'')) sample_granted"
  "reachable authority_step (no_authority (\<lambda>_. ''r'')) sample_revoked"
  unfolding sample_granted_def sample_revoked_def sample_bundled_def
  by (intro reach_step[where step = authority_step, OF _ step_create]
      reach_step[where step = authority_step, OF _ step_bundle] reach_start)+

text \<open>C17: materializing refines the abstract map: when it succeeds, the grants table holds, for each
  grant id in the ledger, exactly the grant of the last row of that id, once, whatever the table held
  before.\<close>

theorem materialized_grants_are_the_latest:
  assumes "MaterializeAuthorityState now dbnow st = (Inr r, st')"
  shows "grants_of st' = latest_grants (authority_rows (at_Ledger st')) \<and>
         distinct (map ag_GrantID (at_Grants st'))"
proof (cases rule: materialize_cases[OF assms])
  case (2 r' st1)
  with materialize_tx[OF 2(5)] show ?thesis by simp
qed simp

theorem materialized_grants_are_the_latest_witness:
  "\<exists>st'. grants_of st' = latest_grants (authority_rows (at_Ledger st')) \<and>
     map (\<lambda>g. (ag_GrantID g, ag_Status g)) (at_Grants st') = [(''g'', ''revoked'')]"
proof -
  let ?r = "MaterializeAuthorityState 4 4 (sample_rows [''accepted'', ''revoked''])"
  have v: "map_prod isl (\<lambda>st. map (\<lambda>g. (ag_GrantID g, ag_Status g)) (at_Grants st)) ?r =
      (False, [(''g'', ''revoked'')])" by code_simp
  then obtain r st' where r: "?r = (Inr r, st')" by (cases ?r, cases "fst ?r") auto
  from v have "map (\<lambda>g. (ag_GrantID g, ag_Status g)) (at_Grants st') = [(''g'', ''revoked'')]"
    unfolding r by simp
  with materialized_grants_are_the_latest[OF r] show ?thesis by (intro exI[of _ st'] conjI) simp_all
qed

text \<open>C18: the effective authority of a principal is exactly what its grants in force give that no other
  grant replaces: the active grants are those, and the policies state a capability in a scope through a
  grant exactly if an active grant of that id lists it, each capability and scope once, in order.\<close>

theorem effective_authority_exact:
  assumes "GetEffectiveAuthorityByPrincipal now dbnow p st = (Inr e, st')"
  shows "set (ea_ActiveGrants e) =
           {g \<in> set (at_Grants st'). ag_GranteePrincipalID g = trim_space p \<and> in_force now g \<and>
              \<not> (\<exists>newer\<in>set (at_Grants st'). replaces newer g)} \<and>
         policy_facts (ea_EffectivePolicies e) =
           {(c, ag_ScopeKind g, ag_ScopeID g, trim_space (ag_GrantID g)) | c g.
              g \<in> set (ea_ActiveGrants e) \<and> c \<in> set (normalizeStringList (ag_CapabilitiesSnapshot g)) \<and>
              \<not> blank (ag_GrantID g)} \<and>
         distinct (map (\<lambda>p. (ec_Capability p, ec_ScopeKind p, ec_ScopeID p)) (ea_EffectivePolicies e)) \<and>
         sorted (map (\<lambda>p. (ec_Capability p, ec_ScopeKind p, ec_ScopeID p)) (ea_EffectivePolicies e))"
  unfolding effective_result[OF assms] set_active_grants effective_policies_facts
  by (simp add: effective_policies_keys)

theorem effective_authority_exact_witness:
  "\<exists>e :: PrincipalEffectiveAuthority. policy_facts (ea_EffectivePolicies e) = {(''c'', ''k'', ''s'', ''g''), (''d'', ''k'', ''s'', ''g'')}"
proof -
  let ?r = "GetEffectiveAuthorityByPrincipal 5 5 ''p'' (sample_rows [''accepted''])"
  have v: "map_sum id (\<lambda>e. map (\<lambda>g. (ag_GrantID g, ag_ScopeKind g, ag_ScopeID g,
      ag_CapabilitiesSnapshot g)) (ea_ActiveGrants e)) (fst ?r) = Inr [(''g'', ''k'', ''s'', [''c'', ''d''])]"
    by code_simp
  then obtain e where e: "fst ?r = Inr e" by (cases "fst ?r") auto
  with v obtain g where g: "ea_ActiveGrants e = [g]" "ag_GrantID g = ''g''" "ag_ScopeKind g = ''k''"
    "ag_ScopeID g = ''s''" "ag_CapabilitiesSnapshot g = [''c'', ''d'']" by auto
  have c: "trim_space ''g'' = ''g''" "normalizeStringList [''c'', ''d''] = [''c'', ''d'']" by code_simp+
  from e have "?r = (Inr e, snd ?r)" by (simp add: prod_eq_iff)
  from effective_authority_exact[OF this] have "policy_facts (ea_EffectivePolicies e) =
      {(c, ag_ScopeKind g, ag_ScopeID g, trim_space (ag_GrantID g)) | c. c \<in> {''c'', ''d''}}"
    using g c by simp
  also have "\<dots> = {(''c'', ''k'', ''s'', ''g''), (''d'', ''k'', ''s'', ''g'')}" unfolding g(2-4) c(1) by auto
  finally show ?thesis by blast
qed

text \<open>C19: a grant that was replaced stays without effect as long as the word of the replacing one is the last: once the
  latest row of the ledger for a grant revokes, supersedes or accepts in the place of another, then, whatever the
  service does later and whatever any client appends to the ledger, also for the authority itself, as long as no
  further grant row for the replacing grant is added, no effective authority lists the replaced one.\<close>

theorem replaced_grants_stay_inactive:
  assumes "reachable authority_step (no_authority random) st"
    and "latest_grants (authority_rows (at_Ledger st)) k = Some newer"
    and "ag_Status newer \<in> {''revoked'', ''superseded'', ''accepted''}" "ag_SupersedesGrantID newer \<noteq> []"
    and "authority_step\<^sup>*\<^sup>* st st'"
    and "\<forall>r\<in>set (authority_rows (at_Ledger st')) - set (authority_rows (at_Ledger st)).
      map_option ag_GrantID (row_grant r) \<noteq> Some k"
    and "GetEffectiveAuthorityByPrincipal now dbnow p st' = (Inr e, st'')"
  shows "ag_SupersedesGrantID newer \<notin> ag_GrantID ` set (ea_ActiveGrants e)"
proof
  assume "ag_SupersedesGrantID newer \<in> ag_GrantID ` set (ea_ActiveGrants e)"
  then obtain g where g: "g \<in> set (ea_ActiveGrants e)" "ag_GrantID g = ag_SupersedesGrantID newer" by auto
  have h: "history_ok st" using assms(1) by (rule history.holds)
  then have h': "history_ok st'" and ext: "extends (at_Ledger st) (at_Ledger st')"
    using rows_grow.holds_later[OF assms(5), of st] by auto
  note r = effective_result[OF assms(7)]
  from ensure_history[OF h' r(3)] have cur: "current st''" and led: "at_Ledger st'' = at_Ledger st'" by auto
  let ?rows = "authority_rows (at_Ledger st)"
  obtain rows' where rows': "authority_rows (at_Ledger st') = ?rows @ rows'"
    using authority_rows_extends[OF _ _ ext] h h' by (auto simp: history_ok_def prefix_def)
  have "ledger_ok (at_Ledger st')" using h' by (simp add: history_ok_def)
  then have "distinct (authority_rows (at_Ledger st'))"
    using ledger_okD(4)[of "at_Ledger st'"] by (auto simp: authority_rows_filter distinct_map)
  then have "set rows' \<inter> set ?rows = {}" by (auto simp: rows')
  then have "\<forall>r\<in>set rows'. map_option ag_GrantID (row_grant r) \<noteq> Some k" using assms(6) rows' by auto
  from latest_grants_others[OF this, of ?rows] have "latest_grants (authority_rows (at_Ledger st'')) k = Some newer"
    by (simp add: led rows' assms(2))
  with cur have "row_at ag_GrantID k (at_Grants st'') = Some newer"
    by (simp add: current_def materialized_at)
  then have "newer \<in> set (at_Grants st'')" by (auto dest: row_at_SomeD)
  moreover have "replaces newer g" using assms(3,4) g(2) by (auto simp: replaces_def)
  ultimately show False using g(1) unfolding r(1) set_active_grants by blast
qed

text \<open>
  A ledger that clients have written: the grant \<open>g\<close>, its revocation by \<open>h\<close>, and later one more grant.
\<close>

definition word_payload :: "string \<Rightarrow> string \<Rightarrow> string \<Rightarrow> json_map" where
  "word_payload k supersedes status =
     authorityStructToMap
       \<lparr>gp_Grant =
          \<lparr>ag_GrantID = k, ag_GrantorPrincipalID = [], ag_GranteePrincipalID = ''p'', ag_BundleID = ''b'',
           ag_CapabilitiesSnapshot = [], ag_ScopeKind = ''k'', ag_ScopeID = ''s'',
           ag_DelegationMode = ''n'', ag_Basis = ''d'', ag_Status = status, ag_EffectiveAt = None,
           ag_ExpiresAt = None, ag_SupersedesGrantID = supersedes, ag_Reason = [], ag_EvidenceRefs = [],
           ag_Metadata = [], ag_CreatedAt = 2\<rparr>,
        gp_Bundle =
          \<lparr>ab_BundleID = ''b'', ab_DisplayName = [], ab_Capabilities = [], ab_Status = ''active'',
           ab_Metadata = [], ab_CreatedAt = 0, ab_UpdatedAt = 0, ab_RetiredAt = None\<rparr>,
        gp_Grantor = None, gp_Grantee = None\<rparr>"

definition word_append :: "string \<Rightarrow> json_map list \<Rightarrow> json_map AppendRegistryChangeSetInput" where
  "word_append changeSet payloads =
     \<lparr>ac_ChangeSetID = changeSet, ac_Reference = authorityRegistryReference,
      ac_SeedID = authorityRegistrySeedID, ac_RealizationID = authorityRegistryRealizationID,
      ac_IdempotencyKey = [], ac_AcceptedBy = [], ac_Metadata = [],
      ac_Rows = map (\<lambda>payload. \<lparr>ar_RowType = authorityGrantRegistryRowType, ar_ObjectID = [], ar_ClaimID = [],
        ar_Payload = payload\<rparr>) payloads\<rparr>"

definition after_client :: "json_map AppendRegistryChangeSetInput \<Rightarrow> authority_state \<Rightarrow> authority_state" where
  "after_client i st = st\<lparr>at_Ledger := snd (AppendRegistryChangeSet [] 1 i (at_Ledger st))\<rparr>"

definition words_said :: authority_state where
  "words_said = after_client (word_append ''x'' [word_payload ''g'' [] ''accepted'', word_payload ''h'' ''g'' ''revoked''])
     (no_authority (\<lambda>_. ''r''))"

definition words_added :: authority_state where
  "words_added = after_client (word_append ''y'' [word_payload ''f'' [] ''accepted'']) words_said"

lemma words_said_rows:
  "map (\<lambda>r. map_option (\<lambda>g. (ag_GrantID g, ag_Status g, ag_SupersedesGrantID g)) (row_grant r)) (authority_rows (at_Ledger words_said)) =
     [Some (''g'', ''accepted'', []), Some (''h'', ''revoked'', ''g'')]"
  by code_simp

lemma words_added_rows:
  "map (\<lambda>r. map_option ag_GrantID (row_grant r)) (authority_rows (at_Ledger words_added)) = [Some ''g'', Some ''h'', Some ''f'']"
  by code_simp

lemma words_effective:
  "map_sum id (\<lambda>e. map ag_GrantID (ea_ActiveGrants e)) (fst (GetEffectiveAuthorityByPrincipal 10 10 ''p'' words_added)) =
     Inr [''f'']"
  by code_simp

lemma words_reachable:
  "reachable authority_step (no_authority (\<lambda>_. ''r'')) words_said" "authority_step\<^sup>*\<^sup>* words_said words_added"
proof -
  have step: "authority_step st (after_client i st)" for i st unfolding after_client_def by (rule step_client)
  then show "authority_step\<^sup>*\<^sup>* words_said words_added" unfolding words_added_def by blast
  show "reachable authority_step (no_authority (\<lambda>_. ''r'')) words_said"
    unfolding words_said_def by (intro reach_step[where step = authority_step, OF _ step] reach_start)
qed

lemma words_later: "\<forall>r\<in>set (authority_rows (at_Ledger words_added)) - set (authority_rows (at_Ledger words_said)).
    map_option ag_GrantID (row_grant r) \<noteq> Some ''h''"
proof -
  have h: "history_ok words_said" using words_reachable(1) by (rule history.holds)
  then have "history_ok words_added" and ext: "extends (at_Ledger words_said) (at_Ledger words_added)"
    using rows_grow.holds_later[OF words_reachable(2), of words_said] by auto
  with h obtain rows' where rows': "authority_rows (at_Ledger words_added) = authority_rows (at_Ledger words_said) @ rows'"
    using authority_rows_extends[OF _ _ ext] by (auto simp: history_ok_def prefix_def)
  have count: "length (authority_rows (at_Ledger words_said)) = 2" using arg_cong[OF words_said_rows, of length] by simp
  have "map (\<lambda>r. map_option ag_GrantID (row_grant r)) rows' =
      drop 2 (map (\<lambda>r. map_option ag_GrantID (row_grant r)) (authority_rows (at_Ledger words_added)))"
    using count by (simp add: rows')
  then have "map (\<lambda>r. map_option ag_GrantID (row_grant r)) rows' = [Some ''f'']"
    unfolding words_added_rows by simp
  then show ?thesis by (auto simp: rows')
qed

theorem replaced_grants_stay_inactive_witness:
  "\<exists>e st''. GetEffectiveAuthorityByPrincipal 10 10 ''p'' words_added = (Inr e, st'') \<and>
     map ag_GrantID (ea_ActiveGrants e) = [''f''] \<and> ''g'' \<notin> ag_GrantID ` set (ea_ActiveGrants e)"
proof -
  let ?r = "GetEffectiveAuthorityByPrincipal 10 10 ''p'' words_added"
  obtain r1 r2 g h where rows: "authority_rows (at_Ledger words_said) = [r1, r2]" "row_grant r1 = Some g" "row_grant r2 = Some h"
    and h: "ag_GrantID g = ''g''" "ag_GrantID h = ''h''" "ag_Status h = ''revoked''" "ag_SupersedesGrantID h = ''g''"
    using words_said_rows by (auto simp: map_eq_Cons_conv)
  then have latest: "latest_grants (authority_rows (at_Ledger words_said)) ''h'' = Some h"
    by (simp add: latest_grants_def)
  obtain e where e: "fst ?r = Inr e" "map ag_GrantID (ea_ActiveGrants e) = [''f'']"
    using words_effective by (cases "fst ?r") auto
  then have r: "?r = (Inr e, snd ?r)" by (simp add: prod_eq_iff)
  from replaced_grants_stay_inactive[OF words_reachable(1) latest _ _ words_reachable(2) words_later r] h e(2) r
  show ?thesis by (intro exI[of _ e] exI[of _ "snd ?r"]) simp
qed

text \<open>C20: one malformed row ends the authority service: once the ledger holds a grant row that does not
  decode, or lacks its ids or scope, no grant can be created any more, however the ledger grows,
  whatever the input.\<close>

theorem malformed_row_blocks_authority:
  assumes "ledger_reachable lg" "r \<in> set (lg_Rows lg)" "is_grant_row r" "\<not> good_row r"
    and "ledger_step\<^sup>*\<^sup>* lg (at_Ledger st)"
  shows "\<exists>e. fst (CreateAuthorityGrant now dbnow i st) = Inl e"
proof -
  have ok: "ledger_ok lg" using assms(1) by (rule ledger.holds)
  have "ledger_ok (at_Ledger st) \<and> extends lg (at_Ledger st)"
    using ledger.holds_later[OF assms(5) ok] growth.holds_later[OF assms(5), of lg] by simp
  moreover from this have "r \<in> set (lg_Rows (at_Ledger st))"
    using assms(2) set_mono_prefix by (auto simp: extends_def)
  ultimately have bad: "malformed st" using assms(3,4) by (auto simp: malformed_def authority_rows_filter)
  show ?thesis
  proof (cases "fst (ensureAuthorityMaterialized now dbnow st)")
    case (Some e)
    then show ?thesis by (cases "ensureAuthorityMaterialized now dbnow st") (simp add: CreateAuthorityGrant_def)
  next
    case None
    then obtain st1 where e: "ensureAuthorityMaterialized now dbnow st = (None, st1)" by (metis prod.collapse)
    with malformed_ensure[OF bad e] malformed_create[OF bad] show ?thesis by (simp add: CreateAuthorityGrant_def)
  qed
qed

definition bad_append :: "json_map AppendRegistryChangeSetInput" where
  "bad_append =
     \<lparr>ac_ChangeSetID = ''x'', ac_Reference = authorityRegistryReference,
      ac_SeedID = authorityRegistrySeedID, ac_RealizationID = authorityRegistryRealizationID,
      ac_IdempotencyKey = [], ac_AcceptedBy = [], ac_Metadata = [],
      ac_Rows = [\<lparr>ar_RowType = authorityGrantRegistryRowType, ar_ObjectID = [], ar_ClaimID = [],
                  ar_Payload = [(''grant'', JString ''no object'')]\<rparr>]\<rparr>"

theorem malformed_row_blocks_authority_witness:
  "\<exists>e. fst (CreateAuthorityGrant 2 2 (sample_grant ''g1'' [] [])
     (sample_bundled\<lparr>at_Ledger := snd (AppendRegistryChangeSet [] 1 bad_append no_ledger)\<rparr>)) = Inl e"
proof -
  let ?lg = "snd (AppendRegistryChangeSet [] 1 bad_append no_ledger)"
  have "map (\<lambda>r. is_grant_row r \<and> \<not> good_row r) (lg_Rows ?lg) = [True]" by code_simp
  then obtain r where r: "r \<in> set (lg_Rows ?lg)" "is_grant_row r" "\<not> good_row r" by auto
  have "ledger_reachable ?lg" by (intro reach_step[where step = ledger_step, OF _ step_append] reach_start)
  then show ?thesis by (rule malformed_row_blocks_authority[OF _ r]) simp
qed

end
