(* ===== verification/Go_Sha256.thy ===== *)
theory Go_Sha256
  imports Go_Strings "HOL-Library.Word"
begin

text \<open>
  The parts of crypto/sha256 and encoding/hex that the kernel uses: the SHA-256 digest of a byte
  string, on 32 bit words, and its lower case hexadecimal text.
\<close>

unbundle bit_operations_syntax

type_synonym w32 = "32 word"

text \<open>
  The 32 bits after the point of the cube roots of the first 64 primes, and of the square roots of
  the first eight, as decimal numbers.
\<close>

definition sha_constants :: "w32 list" where
  "sha_constants =
    [1116352408, 1899447441, 3049323471, 3921009573, 961987163, 1508970993, 2453635748, 2870763221,
     3624381080, 310598401, 607225278, 1426881987, 1925078388, 2162078206, 2614888103, 3248222580,
     3835390401, 4022224774, 264347078, 604807628, 770255983, 1249150122, 1555081692, 1996064986,
     2554220882, 2821834349, 2952996808, 3210313671, 3336571891, 3584528711, 113926993, 338241895,
     666307205, 773529912, 1294757372, 1396182291, 1695183700, 1986661051, 2177026350, 2456956037,
     2730485921, 2820302411, 3259730800, 3345764771, 3516065817, 3600352804, 4094571909, 275423344,
     430227734, 506948616, 659060556, 883997877, 958139571, 1322822218, 1537002063, 1747873779,
     1955562222, 2024104815, 2227730452, 2361852424, 2428436474, 2756734187, 3204031479, 3329325298]"

definition sha_start :: "w32 list" where
  "sha_start =
    [1779033703, 3144134277, 1013904242, 2773480762,
     1359893119, 2600822924, 528734635, 1541459225]"

definition rotr :: "nat \<Rightarrow> w32 \<Rightarrow> w32" where
  "rotr n w = (drop_bit n w OR push_bit (32 - n) w)"

subsection \<open>Padding and blocks\<close>

text \<open>A one bit, zeros up to eight bytes before the end of a block, and the length in bits.\<close>

definition length_bytes :: "nat \<Rightarrow> string" where
  "length_bytes n = map (\<lambda>i. char_of (8 * int n div 256 ^ (7 - i))) [0..<8]"

definition sha_pad :: "string \<Rightarrow> string" where
  "sha_pad s = s @ CHR 0x80 # replicate ((119 - length s mod 64) mod 64) (CHR 0x00) @ length_bytes (length s)"

function blocks :: "nat \<Rightarrow> 'a list \<Rightarrow> 'a list list" where
  "blocks n xs = (if n = 0 \<or> xs = [] then [] else take n xs # blocks n (drop n xs))"
  by pat_completeness auto
termination by (relation "measure (\<lambda>(n, xs). length xs)") auto

declare blocks.simps [simp del]

definition big_word :: "string \<Rightarrow> w32" where
  "big_word bs = foldl (\<lambda>w c. push_bit 8 w OR of_char c) 0 bs"

subsection \<open>The compression function\<close>

fun sha_extend :: "nat \<Rightarrow> w32 list \<Rightarrow> w32 list" where
  "sha_extend 0 ws = ws"
| "sha_extend (Suc n) ws =
     (let w15 = ws ! (length ws - 15); w2 = ws ! (length ws - 2);
          s0 = rotr 7 w15 XOR rotr 18 w15 XOR drop_bit 3 w15;
          s1 = rotr 17 w2 XOR rotr 19 w2 XOR drop_bit 10 w2
      in sha_extend n (ws @ [ws ! (length ws - 16) + s0 + ws ! (length ws - 7) + s1]))"

fun sha_round :: "w32 list \<Rightarrow> w32 \<times> w32 \<Rightarrow> w32 list" where
  "sha_round [a, b, c, d, e, f, g, h] (k, w) =
     (let s1 = rotr 6 e XOR rotr 11 e XOR rotr 25 e;
          ch = (e AND f) XOR (NOT e AND g);
          t1 = h + s1 + ch + k + w;
          s0 = rotr 2 a XOR rotr 13 a XOR rotr 22 a;
          maj = (a AND b) XOR (a AND c) XOR (b AND c)
      in [t1 + s0 + maj, a, b, c, d + t1, e, f, g])"
| "sha_round st kw = st"

definition sha_block :: "w32 list \<Rightarrow> string \<Rightarrow> w32 list" where
  "sha_block st bs =
     (let ws = sha_extend 48 (map big_word (blocks 4 bs))
      in map2 (+) st (foldl sha_round st (zip sha_constants ws)))"

definition sha256 :: "string \<Rightarrow> w32 list" where
  "sha256 s = foldl sha_block sha_start (blocks 64 (sha_pad s))"

subsection \<open>Hexadecimal text\<close>

definition hex_digit :: "nat \<Rightarrow> char" where
  "hex_digit n = ''0123456789abcdef'' ! n"

definition hex_word :: "w32 \<Rightarrow> string" where
  "hex_word w = map (\<lambda>i. hex_digit (unat (drop_bit (28 - 4 * i) w AND 15))) [0..<8]"

definition hex_of :: "w32 list \<Rightarrow> string" where
  "hex_of ws = concat (map hex_word ws)"

text \<open>\<open>hashToken\<close> of runtime_helpers.go.\<close>

definition hashToken :: "string \<Rightarrow> string" where
  "hashToken token = hex_of (sha256 token)"

lemma sha_round_length: "length st = 8 \<Longrightarrow> length (sha_round st kw) = 8"
  by (cases "(st, kw)" rule: sha_round.cases) (auto simp: Let_def)

lemma sha_rounds_length: "length st = 8 \<Longrightarrow> length (foldl sha_round st kws) = 8"
  by (induction kws arbitrary: st) (simp_all add: sha_round_length)

lemma sha256_length: "length (sha256 s) = 8"
proof -
  have "length st = 8 \<Longrightarrow> length (foldl sha_block st bs) = 8" for st bs
    by (induction bs arbitrary: st) (simp_all add: sha_block_def Let_def sha_rounds_length)
  then show ?thesis by (simp add: sha256_def sha_start_def)
qed

lemma length_hashToken: "length (hashToken s) = 64"
proof -
  have "length (concat (map hex_word ws)) = 8 * length ws" for ws
    by (induction ws) (simp_all add: hex_word_def)
  then show ?thesis by (simp add: hashToken_def hex_of_def sha256_length)
qed

text \<open>The hash text consists of lower case hexadecimal digits.\<close>

lemma hex_digit_in: "n < 16 \<Longrightarrow> hex_digit n \<in> set ''0123456789abcdef''"
  unfolding hex_digit_def by (rule nth_mem) simp

lemma hex_word_chars: "set (hex_word w) \<subseteq> set ''0123456789abcdef''"
proof -
  have "unat (drop_bit k w AND 15) < 16" for k
  proof -
    have "drop_bit k w AND 15 \<le> 15" by (rule word_and_le1)
    then have "unat (drop_bit k w AND 15) \<le> unat (15 :: w32)" by (simp only: word_le_nat_alt)
    then show ?thesis by simp
  qed
  then show ?thesis by (auto simp: hex_word_def simp del: list.set intro!: hex_digit_in)
qed

lemma hashToken_chars: "set (hashToken s) \<subseteq> set ''0123456789abcdef''"
  using hex_word_chars by (fastforce simp: hashToken_def hex_of_def)

end
