(* ===== verification/Identity.thy ===== *)
theory Identity
  imports Authority_Materializer Go_Sha256
begin

text \<open>
  internal/interactions/runtime_identity.go with the types, rows and scan functions that it uses:
  principals and their identifiers (in the tables that the authority service also uses), sessions, and
  authentication challenges. The rows of a table keep SQL nulls; a scan function turns a row into the
  Go value. The identifier and the verifier that the service draws at random are arguments.
\<close>

subsection \<open>Types and rows\<close>

record CreatePrincipalInput =
  cp_PrincipalID :: string
  cp_Kind :: string
  cp_DisplayName :: string
  cp_Status :: string
  cp_Profile :: json_map

record CreatePrincipalIdentifierInput =
  ci_IdentifierID :: string
  ci_PrincipalID :: string
  ci_IdentifierType :: string
  ci_Value :: string
  ci_NormalizedValue :: string
  ci_IsPrimary :: bool
  ci_IsVerified :: bool
  ci_VerifiedAt :: "int option"
  ci_Metadata :: json_map

record Session =
  ss_SessionID :: string
  ss_PrincipalID :: string
  ss_Status :: string
  ss_AuthContext :: json_map
  ss_UserAgent :: string
  ss_IPAddress :: string
  ss_StartedAt :: int
  ss_LastSeenAt :: "int option"
  ss_ExpiresAt :: "int option"
  ss_EndedAt :: "int option"

record CreateSessionInput =
  cn_SessionID :: string
  cn_PrincipalID :: string
  cn_Status :: string
  cn_AuthContext :: json_map
  cn_UserAgent :: string
  cn_IPAddress :: string
  cn_StartedAt :: "int option"
  cn_ExpiresAt :: "int option"

record ResolvedSession =
  rs_SessionID :: string
  rs_PrincipalID :: string
  rs_Status :: string
  rs_AuthContext :: json_map
  rs_ExpiresAt :: "int option"

record AuthChallenge =
  ch_ChallengeID :: string
  ch_ChallengeKind :: string
  ch_ProviderID :: string
  ch_PrincipalID :: string
  ch_SessionID :: string
  ch_DeliveryTarget :: string
  ch_Status :: string
  ch_Scope :: json_map
  ch_ExpiresAt :: "int option"
  ch_UsedAt :: "int option"
  ch_Metadata :: json_map
  ch_CreatedAt :: int

record CreateAuthChallengeInput =
  cc_ChallengeID :: string
  cc_ChallengeKind :: string
  cc_ProviderID :: string
  cc_PrincipalID :: string
  cc_SessionID :: string
  cc_DeliveryTarget :: string
  cc_Verifier :: string
  cc_Scope :: json_map
  cc_Status :: string
  cc_ExpiresAt :: "int option"
  cc_Metadata :: json_map

record AuthChallengeIssue =
  is_Challenge :: AuthChallenge
  is_Verifier :: string

record session_row =
  sr_SessionID :: string
  sr_PrincipalID :: "string option"
  sr_Status :: string
  sr_AuthContext :: json_map
  sr_UserAgent :: string
  sr_IPAddress :: string
  sr_StartedAt :: int
  sr_LastSeenAt :: "int option"
  sr_ExpiresAt :: "int option"
  sr_EndedAt :: "int option"

record challenge_row =
  cr_ChallengeID :: string
  cr_ChallengeKind :: string
  cr_ProviderID :: "string option"
  cr_PrincipalID :: "string option"
  cr_SessionID :: "string option"
  cr_DeliveryTarget :: "string option"
  cr_Status :: string
  cr_Scope :: json_map
  cr_ExpiresAt :: "int option"
  cr_UsedAt :: "int option"
  cr_Metadata :: json_map
  cr_CreatedAt :: int
  cr_VerifierHash :: string

definition scanSession :: "session_row \<Rightarrow> Session" where
  "scanSession r =
     \<lparr>ss_SessionID = sr_SessionID r, ss_PrincipalID = string_of_null (sr_PrincipalID r),
       ss_Status = sr_Status r, ss_AuthContext = sr_AuthContext r, ss_UserAgent = sr_UserAgent r,
       ss_IPAddress = sr_IPAddress r, ss_StartedAt = sr_StartedAt r,
       ss_LastSeenAt = sr_LastSeenAt r, ss_ExpiresAt = sr_ExpiresAt r, ss_EndedAt = sr_EndedAt r\<rparr>"

definition scanAuthChallenge :: "challenge_row \<Rightarrow> AuthChallenge" where
  "scanAuthChallenge r =
     \<lparr>ch_ChallengeID = cr_ChallengeID r, ch_ChallengeKind = cr_ChallengeKind r,
       ch_ProviderID = string_of_null (cr_ProviderID r),
       ch_PrincipalID = string_of_null (cr_PrincipalID r),
       ch_SessionID = string_of_null (cr_SessionID r),
       ch_DeliveryTarget = string_of_null (cr_DeliveryTarget r), ch_Status = cr_Status r,
       ch_Scope = cr_Scope r, ch_ExpiresAt = cr_ExpiresAt r, ch_UsedAt = cr_UsedAt r,
       ch_Metadata = cr_Metadata r, ch_CreatedAt = cr_CreatedAt r\<rparr>"

record identity_state = authority_state +
  id_Sessions :: "session_row list"
  id_Challenges :: "challenge_row list"

subsection \<open>Principals and identifiers\<close>

definition new_principal :: "string \<Rightarrow> int \<Rightarrow> CreatePrincipalInput \<Rightarrow> principal_row" where
  "new_principal fresh dbnow i =
     \<lparr>pr_PrincipalID = id_or (cp_PrincipalID i) fresh, pr_Kind = cp_Kind i,
      pr_DisplayName = string_of_null (nullString (cp_DisplayName i)),
      pr_Status = statusOrDefault (cp_Status i) ''active'', pr_Profile = cp_Profile i,
      pr_CreatedAt = dbnow, pr_DeactivatedAt = None\<rparr>"

definition CreatePrincipal ::
  "string \<Rightarrow> int \<Rightarrow> CreatePrincipalInput \<Rightarrow> identity_state \<Rightarrow>
   (runtime_error + principal_row) \<times> identity_state" where
  "CreatePrincipal fresh dbnow i st =
     (if \<not> at_Ready st then (Inl NotConfigured, st)
      else if blank (cp_Kind i) then (Inl (Required ''kind''), st)
      else answer (new_principal fresh dbnow i) (\<lambda>t st. st\<lparr>at_Principals := t\<rparr>)
             (insert_new ''runtime_principals_pkey'' pr_PrincipalID (new_principal fresh dbnow i)
                (at_Principals st)) st)"

definition new_identifier :: "string \<Rightarrow> int \<Rightarrow> CreatePrincipalIdentifierInput \<Rightarrow> PrincipalIdentifier" where
  "new_identifier fresh dbnow i =
     \<lparr>pi_IdentifierID = id_or (ci_IdentifierID i) fresh, pi_PrincipalID = ci_PrincipalID i,
      pi_IdentifierType = ci_IdentifierType i, pi_Value = ci_Value i,
      pi_NormalizedValue = (if blank (ci_NormalizedValue i) then normalizeIdentifier (ci_Value i) else ci_NormalizedValue i),
      pi_IsPrimary = ci_IsPrimary i, pi_IsVerified = ci_IsVerified i,
      pi_VerifiedAt = nullTimeValue (ci_VerifiedAt i), pi_Metadata = ci_Metadata i,
      pi_CreatedAt = dbnow\<rparr>"

text \<open>The constraints of the table: primary key, unique value per type, and the principal.\<close>

definition identifier_conflict :: "PrincipalIdentifier \<Rightarrow> identity_state \<Rightarrow> runtime_error err" where
  "identifier_conflict r st =
     first_err
       [require (row_at pi_IdentifierID (pi_IdentifierID r) (at_Identifiers st) = None)
          (ErrConflict ''runtime_principal_identifiers_pkey''),
        require (row_at (\<lambda>x. (pi_IdentifierType x, pi_NormalizedValue x))
                   (pi_IdentifierType r, pi_NormalizedValue r) (at_Identifiers st) = None)
          (ErrConflict ''runtime_principal_identifiers_identifier_type_normalized_va_key''),
        require (row_at pr_PrincipalID (pi_PrincipalID r) (at_Principals st) \<noteq> None)
          (ErrConflict ''runtime_principal_identifiers_principal_id_fkey'')]"

definition CreatePrincipalIdentifier ::
  "string \<Rightarrow> int \<Rightarrow> CreatePrincipalIdentifierInput \<Rightarrow> identity_state \<Rightarrow>
   (runtime_error + PrincipalIdentifier) \<times> identity_state" where
  "CreatePrincipalIdentifier fresh dbnow i st =
     (if \<not> at_Ready st then (Inl NotConfigured, st)
      else if blank (ci_PrincipalID i) then (Inl (Required ''principal_id''), st)
      else if blank (ci_IdentifierType i) then (Inl (Required ''identifier_type''), st)
      else if blank (ci_Value i) then (Inl (Required ''value''), st)
      else answer (new_identifier fresh dbnow i) (\<lambda>t st. st\<lparr>at_Identifiers := t\<rparr>)
             (guard_err (identifier_conflict (new_identifier fresh dbnow i) st)
                (Inr (at_Identifiers st @ [new_identifier fresh dbnow i]))) st)"

subsection \<open>Sessions\<close>

definition new_session :: "string \<Rightarrow> int \<Rightarrow> CreateSessionInput \<Rightarrow> session_row" where
  "new_session fresh now i =
     \<lparr>sr_SessionID = id_or (cn_SessionID i) fresh, sr_PrincipalID = nullString (cn_PrincipalID i),
      sr_Status = statusOrDefault (cn_Status i) ''active'', sr_AuthContext = cn_AuthContext i,
      sr_UserAgent = string_of_null (nullString (cn_UserAgent i)), sr_IPAddress = string_of_null (nullString (cn_IPAddress i)),
      sr_StartedAt = time_or (cn_StartedAt i) now, sr_LastSeenAt = None,
      sr_ExpiresAt = nullTimeValue (cn_ExpiresAt i), sr_EndedAt = None\<rparr>"

definition session_conflict :: "session_row \<Rightarrow> identity_state \<Rightarrow> runtime_error err" where
  "session_conflict r st =
     first_err
       [require (row_at sr_SessionID (sr_SessionID r) (id_Sessions st) = None)
          (ErrConflict ''runtime_sessions_pkey''),
        require (case sr_PrincipalID r of None \<Rightarrow> True
                 | Some p \<Rightarrow> row_at pr_PrincipalID p (at_Principals st) \<noteq> None)
          (ErrConflict ''runtime_sessions_principal_id_fkey'')]"

definition CreateSession ::
  "string \<Rightarrow> int \<Rightarrow> CreateSessionInput \<Rightarrow> identity_state \<Rightarrow> (runtime_error + Session) \<times> identity_state"
where
  "CreateSession fresh now i st =
     (if \<not> at_Ready st then (Inl NotConfigured, st)
      else answer (scanSession (new_session fresh now i)) (\<lambda>t st. st\<lparr>id_Sessions := t\<rparr>)
             (guard_err (session_conflict (new_session fresh now i) st)
                (Inr (id_Sessions st @ [new_session fresh now i]))) st)"

definition GetSession :: "string \<Rightarrow> identity_state \<Rightarrow> runtime_error + Session" where
  "GetSession sessionID st =
     (if \<not> at_Ready st then Inl NotConfigured
      else case row_at sr_SessionID (trim_space sessionID) (id_Sessions st) of
        None \<Rightarrow> Inl ErrNotFound | Some r \<Rightarrow> Inr (scanSession r))"

definition ResolveSession :: "int \<Rightarrow> string \<Rightarrow> identity_state \<Rightarrow> runtime_error + ResolvedSession" where
  "ResolveSession now sessionID st =
     and_then (GetSession sessionID st) (\<lambda>item.
       if ss_Status item \<noteq> ''active'' then Inl ErrNotFound
       else if (case ss_ExpiresAt item of None \<Rightarrow> False | Some t \<Rightarrow> \<not> t > now) then Inl ErrNotFound
       else if ss_EndedAt item \<noteq> None then Inl ErrNotFound
       else Inr \<lparr>rs_SessionID = ss_SessionID item, rs_PrincipalID = ss_PrincipalID item,
                 rs_Status = ss_Status item, rs_AuthContext = ss_AuthContext item,
                 rs_ExpiresAt = ss_ExpiresAt item\<rparr>)"

definition TouchSession ::
  "int \<Rightarrow> string \<Rightarrow> identity_state \<Rightarrow> (runtime_error + Session) \<times> identity_state" where
  "TouchSession now sessionID st =
     (if \<not> at_Ready st then (Inl NotConfigured, st)
      else
        (let t = update_rows (\<lambda>r. sr_SessionID r = trim_space sessionID)
                   (\<lambda>r. r\<lparr>sr_LastSeenAt := Some now\<rparr>) (id_Sessions st)
         in case row_at sr_SessionID (trim_space sessionID) t of
              None \<Rightarrow> (Inl ErrNotFound, st)
            | Some r \<Rightarrow> (Inr (scanSession r), st\<lparr>id_Sessions := t\<rparr>)))"

subsection \<open>Challenges\<close>

definition new_challenge :: "string \<Rightarrow> string \<Rightarrow> int \<Rightarrow> CreateAuthChallengeInput \<Rightarrow> challenge_row" where
  "new_challenge fresh verifier dbnow i =
     \<lparr>cr_ChallengeID = id_or (cc_ChallengeID i) fresh, cr_ChallengeKind = cc_ChallengeKind i,
      cr_ProviderID = nullString (cc_ProviderID i), cr_PrincipalID = nullString (cc_PrincipalID i),
      cr_SessionID = nullString (cc_SessionID i),
      cr_DeliveryTarget = nullString (cc_DeliveryTarget i),
      cr_Status = statusOrDefault (cc_Status i) ''pending'', cr_Scope = cc_Scope i,
      cr_ExpiresAt = nullTimeValue (cc_ExpiresAt i), cr_UsedAt = None, cr_Metadata = cc_Metadata i,
      cr_CreatedAt = dbnow,
      cr_VerifierHash = hashToken verifier\<rparr>"

definition CreateAuthChallenge ::
  "string \<Rightarrow> string \<Rightarrow> int \<Rightarrow> CreateAuthChallengeInput \<Rightarrow> identity_state \<Rightarrow>
   (runtime_error + AuthChallengeIssue) \<times> identity_state" where
  "CreateAuthChallenge fresh token dbnow i st =
     (if \<not> at_Ready st then (Inl NotConfigured, st)
      else if blank (cc_ChallengeKind i) then (Inl (Required ''challenge_kind''), st)
      else
        (let verifier = id_or (cc_Verifier i) token; r = new_challenge fresh verifier dbnow i in
         answer \<lparr>is_Challenge = scanAuthChallenge r, is_Verifier = verifier\<rparr>
           (\<lambda>t st. st\<lparr>id_Challenges := t\<rparr>)
           (insert_new ''runtime_auth_challenges_pkey'' cr_ChallengeID r (id_Challenges st)) st))"

text \<open>What the transaction checks on the locked row.\<close>

definition challenge_open :: "int \<Rightarrow> challenge_row \<Rightarrow> bool" where
  "challenge_open now r \<longleftrightarrow>
     \<not> (cr_Status r \<noteq> ''pending'' \<or> cr_UsedAt r \<noteq> None \<or>
        (case cr_ExpiresAt r of None \<Rightarrow> False | Some t \<Rightarrow> \<not> t > now))"

definition ConsumeAuthChallenge ::
  "int \<Rightarrow> string \<Rightarrow> string \<Rightarrow> identity_state \<Rightarrow> (runtime_error + AuthChallenge) \<times> identity_state" where
  "ConsumeAuthChallenge now challengeID verifier st =
     (if \<not> at_Ready st then (Inl NotConfigured, st)
      else if blank challengeID \<or> blank verifier then (Inl (Required ''challenge_id and verifier''), st)
      else case row_at cr_ChallengeID (trim_space challengeID) (id_Challenges st) of
        None \<Rightarrow> (Inl ErrNotFound, st)
      | Some r \<Rightarrow>
          if \<not> challenge_open now r then (Inl ErrNotFound, st)
          else if cr_VerifierHash r \<noteq> hashToken verifier then (Inl ErrNotFound, st)
          else
            (let use = (\<lambda>r. r\<lparr>cr_Status := ''used'', cr_UsedAt := Some now\<rparr>) in
             (Inr (scanAuthChallenge (use r)),
              st\<lparr>id_Challenges :=
                 update_rows (\<lambda>r. cr_ChallengeID r = trim_space challengeID) use (id_Challenges st)\<rparr>)))"

definition lookupChallenge :: "string \<Rightarrow> identity_state \<Rightarrow> runtime_error + AuthChallenge" where
  "lookupChallenge challengeID st =
     (if \<not> at_Ready st then Inl NotConfigured
      else case row_at cr_ChallengeID (trim_space challengeID) (id_Challenges st) of
        None \<Rightarrow> Inl ErrNotFound | Some r \<Rightarrow> Inr (scanAuthChallenge r))"

end
