(* ===== verification/Web_State.thy ===== *)
theory Web_State
  imports Authority_Types Go_Sha256
begin

text \<open>
  The first half of internal/interactions/runtime_webstate.go (the job queue has a theory of its own):
  handles, access links, publications, state transitions and activity events, with their types, rows
  and scan functions.
\<close>

subsection \<open>Types and rows\<close>

record Handle =
  hd_HandleID :: string
  hd_Namespace :: string
  hd_Handle :: string
  hd_SubjectKind :: string
  hd_SubjectID :: string
  hd_Status :: string
  hd_RedirectToHandleID :: string
  hd_Metadata :: json_map
  hd_CreatedAt :: int
  hd_RetiredAt :: "int option"

record AssignHandleInput =
  ah_HandleID :: string
  ah_Namespace :: string
  ah_Handle :: string
  ah_SubjectKind :: string
  ah_SubjectID :: string
  ah_Status :: string
  ah_RedirectToHandleID :: string
  ah_Metadata :: json_map

record AccessLink =
  lk_AccessLinkID :: string
  lk_SubjectKind :: string
  lk_SubjectID :: string
  lk_BoundPrincipalID :: string
  lk_Scope :: json_map
  lk_Status :: string
  lk_MaxUses :: "int option"
  lk_UseCount :: int
  lk_ExpiresAt :: "int option"
  lk_LastUsedAt :: "int option"
  lk_CreatedByPrincipalID :: string
  lk_Metadata :: json_map
  lk_CreatedAt :: int
  lk_RevokedAt :: "int option"

record CreateAccessLinkInput =
  cl_AccessLinkID :: string
  cl_Token :: string
  cl_SubjectKind :: string
  cl_SubjectID :: string
  cl_BoundPrincipalID :: string
  cl_Scope :: json_map
  cl_Status :: string
  cl_MaxUses :: "int option"
  cl_ExpiresAt :: "int option"
  cl_CreatedByPrincipalID :: string
  cl_Metadata :: json_map

record AccessLinkIssue =
  lis_AccessLink :: AccessLink
  lis_Token :: string

record Publication =
  pu_PublicationID :: string
  pu_SubjectKind :: string
  pu_SubjectID :: string
  pu_Status :: string
  pu_Visibility :: string
  pu_PublishAt :: "int option"
  pu_UnpublishAt :: "int option"
  pu_StartsAt :: "int option"
  pu_EndsAt :: "int option"
  pu_Timezone :: string
  pu_AllDay :: bool
  pu_Metadata :: json_map
  pu_CreatedAt :: int
  pu_UpdatedAt :: int

record UpsertPublicationInput =
  up_PublicationID :: string
  up_SubjectKind :: string
  up_SubjectID :: string
  up_Status :: string
  up_Visibility :: string
  up_PublishAt :: "int option"
  up_UnpublishAt :: "int option"
  up_StartsAt :: "int option"
  up_EndsAt :: "int option"
  up_Timezone :: string
  up_AllDay :: bool
  up_Metadata :: json_map

record StateTransition =
  tr_TransitionID :: string
  tr_SubjectKind :: string
  tr_SubjectID :: string
  tr_Machine :: string
  tr_FromState :: string
  tr_ToState :: string
  tr_ActorPrincipalID :: string
  tr_ActorSessionID :: string
  tr_RequestID :: string
  tr_Reason :: string
  tr_Metadata :: json_map
  tr_OccurredAt :: int

record RecordStateTransitionInput =
  rt_TransitionID :: string
  rt_SubjectKind :: string
  rt_SubjectID :: string
  rt_Machine :: string
  rt_FromState :: string
  rt_ToState :: string
  rt_ActorPrincipalID :: string
  rt_ActorSessionID :: string
  rt_RequestID :: string
  rt_Reason :: string
  rt_Metadata :: json_map
  rt_OccurredAt :: "int option"

record ActivityEvent =
  ev_ActivityID :: string
  ev_SubjectKind :: string
  ev_SubjectID :: string
  ev_ActorPrincipalID :: string
  ev_ActorSessionID :: string
  ev_RequestID :: string
  ev_Name :: string
  ev_Visibility :: string
  ev_Data :: json_map
  ev_OccurredAt :: int

record RecordActivityEventInput =
  ra_ActivityID :: string
  ra_SubjectKind :: string
  ra_SubjectID :: string
  ra_ActorPrincipalID :: string
  ra_ActorSessionID :: string
  ra_RequestID :: string
  ra_Name :: string
  ra_Visibility :: string
  ra_Data :: json_map
  ra_OccurredAt :: "int option"

record handle_row =
  hr_HandleID :: string
  hr_Namespace :: string
  hr_Handle :: string
  hr_SubjectKind :: string
  hr_SubjectID :: string
  hr_Status :: string
  hr_RedirectToHandleID :: "string option"
  hr_Metadata :: json_map
  hr_CreatedAt :: int
  hr_RetiredAt :: "int option"

record link_row =
  lr_AccessLinkID :: string
  lr_SubjectKind :: string
  lr_SubjectID :: string
  lr_BoundPrincipalID :: "string option"
  lr_Scope :: json_map
  lr_Status :: string
  lr_MaxUses :: "int option"
  lr_UseCount :: int
  lr_ExpiresAt :: "int option"
  lr_LastUsedAt :: "int option"
  lr_CreatedByPrincipalID :: "string option"
  lr_Metadata :: json_map
  lr_CreatedAt :: int
  lr_RevokedAt :: "int option"
  lr_TokenHash :: string

record publication_row =
  ur_PublicationID :: string
  ur_SubjectKind :: string
  ur_SubjectID :: string
  ur_Status :: string
  ur_Visibility :: string
  ur_PublishAt :: "int option"
  ur_UnpublishAt :: "int option"
  ur_StartsAt :: "int option"
  ur_EndsAt :: "int option"
  ur_Timezone :: "string option"
  ur_AllDay :: bool
  ur_Metadata :: json_map
  ur_CreatedAt :: int
  ur_UpdatedAt :: int

record transition_row =
  trr_TransitionID :: string
  trr_SubjectKind :: string
  trr_SubjectID :: string
  trr_Machine :: string
  trr_FromState :: "string option"
  trr_ToState :: string
  trr_ActorPrincipalID :: "string option"
  trr_ActorSessionID :: "string option"
  trr_RequestID :: "string option"
  trr_Reason :: "string option"
  trr_Metadata :: json_map
  trr_OccurredAt :: int

record activity_row =
  er_ActivityID :: string
  er_SubjectKind :: string
  er_SubjectID :: string
  er_ActorPrincipalID :: "string option"
  er_ActorSessionID :: "string option"
  er_RequestID :: "string option"
  er_Name :: string
  er_Visibility :: string
  er_Data :: json_map
  er_OccurredAt :: int

definition scanHandle :: "handle_row \<Rightarrow> Handle" where
  "scanHandle r =
     \<lparr>hd_HandleID = hr_HandleID r, hd_Namespace = hr_Namespace r, hd_Handle = hr_Handle r,
       hd_SubjectKind = hr_SubjectKind r, hd_SubjectID = hr_SubjectID r, hd_Status = hr_Status r,
       hd_RedirectToHandleID = string_of_null (hr_RedirectToHandleID r),
       hd_Metadata = hr_Metadata r, hd_CreatedAt = hr_CreatedAt r, hd_RetiredAt = hr_RetiredAt r\<rparr>"

definition scanAccessLink :: "link_row \<Rightarrow> AccessLink" where
  "scanAccessLink r =
     \<lparr>lk_AccessLinkID = lr_AccessLinkID r, lk_SubjectKind = lr_SubjectKind r,
       lk_SubjectID = lr_SubjectID r, lk_BoundPrincipalID = string_of_null (lr_BoundPrincipalID r),
       lk_Scope = lr_Scope r, lk_Status = lr_Status r, lk_MaxUses = lr_MaxUses r,
       lk_UseCount = lr_UseCount r, lk_ExpiresAt = lr_ExpiresAt r, lk_LastUsedAt = lr_LastUsedAt r,
       lk_CreatedByPrincipalID = string_of_null (lr_CreatedByPrincipalID r),
       lk_Metadata = lr_Metadata r, lk_CreatedAt = lr_CreatedAt r, lk_RevokedAt = lr_RevokedAt r\<rparr>"

definition scanPublication :: "publication_row \<Rightarrow> Publication" where
  "scanPublication r =
     \<lparr>pu_PublicationID = ur_PublicationID r, pu_SubjectKind = ur_SubjectKind r,
       pu_SubjectID = ur_SubjectID r, pu_Status = ur_Status r, pu_Visibility = ur_Visibility r,
       pu_PublishAt = ur_PublishAt r, pu_UnpublishAt = ur_UnpublishAt r,
       pu_StartsAt = ur_StartsAt r, pu_EndsAt = ur_EndsAt r,
       pu_Timezone = string_of_null (ur_Timezone r), pu_AllDay = ur_AllDay r,
       pu_Metadata = ur_Metadata r, pu_CreatedAt = ur_CreatedAt r, pu_UpdatedAt = ur_UpdatedAt r\<rparr>"

definition scanStateTransition :: "transition_row \<Rightarrow> StateTransition" where
  "scanStateTransition r =
     \<lparr>tr_TransitionID = trr_TransitionID r, tr_SubjectKind = trr_SubjectKind r,
       tr_SubjectID = trr_SubjectID r, tr_Machine = trr_Machine r,
       tr_FromState = string_of_null (trr_FromState r), tr_ToState = trr_ToState r,
       tr_ActorPrincipalID = string_of_null (trr_ActorPrincipalID r),
       tr_ActorSessionID = string_of_null (trr_ActorSessionID r),
       tr_RequestID = string_of_null (trr_RequestID r), tr_Reason = string_of_null (trr_Reason r),
       tr_Metadata = trr_Metadata r, tr_OccurredAt = trr_OccurredAt r\<rparr>"

definition scanActivityEvent :: "activity_row \<Rightarrow> ActivityEvent" where
  "scanActivityEvent r =
     \<lparr>ev_ActivityID = er_ActivityID r, ev_SubjectKind = er_SubjectKind r,
       ev_SubjectID = er_SubjectID r, ev_ActorPrincipalID = string_of_null (er_ActorPrincipalID r),
       ev_ActorSessionID = string_of_null (er_ActorSessionID r),
       ev_RequestID = string_of_null (er_RequestID r), ev_Name = er_Name r,
       ev_Visibility = er_Visibility r, ev_Data = er_Data r, ev_OccurredAt = er_OccurredAt r\<rparr>"

record web_state =
  ws_Ready :: bool
  ws_Handles :: "handle_row list"
  ws_Links :: "link_row list"
  ws_Publications :: "publication_row list"
  ws_Transitions :: "transition_row list"
  ws_Activity :: "activity_row list"

text \<open>Two texts that are required together.\<close>

abbreviation subject_given :: "string \<Rightarrow> string \<Rightarrow> bool" where
  "subject_given kind k \<equiv> \<not> blank kind \<and> \<not> blank k"

subsection \<open>Handles\<close>

definition new_handle :: "string \<Rightarrow> int \<Rightarrow> AssignHandleInput \<Rightarrow> handle_row" where
  "new_handle fresh dbnow i =
     \<lparr>hr_HandleID = id_or (ah_HandleID i) fresh, hr_Namespace = ah_Namespace i,
      hr_Handle = ah_Handle i, hr_SubjectKind = ah_SubjectKind i, hr_SubjectID = ah_SubjectID i,
      hr_Status = statusOrDefault (ah_Status i) ''active'',
      hr_RedirectToHandleID = nullString (ah_RedirectToHandleID i), hr_Metadata = ah_Metadata i,
      hr_CreatedAt = dbnow, hr_RetiredAt = None\<rparr>"

definition handle_key :: "handle_row \<Rightarrow> string \<times> string" where
  "handle_key r = (hr_Namespace r, hr_Handle r)"

text \<open>The row that the statement would leave behind, and the foreign key to another handle.\<close>

definition AssignHandle ::
  "string \<Rightarrow> int \<Rightarrow> AssignHandleInput \<Rightarrow> web_state \<Rightarrow> (runtime_error + Handle) \<times> web_state" where
  "AssignHandle fresh dbnow i st =
     (if \<not> ws_Ready st then (Inl NotConfigured, st)
      else if \<not> subject_given (ah_Namespace i) (ah_Handle i)
        then (Inl (Required ''namespace and handle''), st)
      else if \<not> subject_given (ah_SubjectKind i) (ah_SubjectID i)
        then (Inl (Required ''subject_kind and subject_id''), st)
      else
        (let r = new_handle fresh dbnow i in
         case upsert_checked ''runtime_handles_pkey'' hr_HandleID handle_key r
                (\<lambda>old. old\<lparr>hr_SubjectKind := hr_SubjectKind r, hr_SubjectID := hr_SubjectID r,
                   hr_Status := hr_Status r, hr_RedirectToHandleID := hr_RedirectToHandleID r,
                   hr_Metadata := hr_Metadata r\<rparr>) (ws_Handles st) of
           Inl e \<Rightarrow> (Inl e, st)
         | Inr t \<Rightarrow>
             (case hr_RedirectToHandleID r of
                Some k \<Rightarrow>
                  if row_at hr_HandleID k t = None
                  then (Inl (ErrConflict ''runtime_handles_redirect_to_handle_id_fkey''), st)
                  else (Inr (scanHandle (the (row_at handle_key (handle_key r) t))), st\<lparr>ws_Handles := t\<rparr>)
              | None \<Rightarrow> (Inr (scanHandle (the (row_at handle_key (handle_key r) t))), st\<lparr>ws_Handles := t\<rparr>))))"

definition ResolveHandle :: "string \<Rightarrow> string \<Rightarrow> web_state \<Rightarrow> runtime_error + Handle" where
  "ResolveHandle namespace handle st =
     (if \<not> ws_Ready st then Inl NotConfigured
      else case row_at handle_key (trim_space namespace, trim_space handle) (ws_Handles st) of
        None \<Rightarrow> Inl ErrNotFound | Some r \<Rightarrow> Inr (scanHandle r))"

subsection \<open>Access links\<close>

definition new_link :: "string \<Rightarrow> string \<Rightarrow> int \<Rightarrow> CreateAccessLinkInput \<Rightarrow> link_row" where
  "new_link fresh token dbnow i =
     \<lparr>lr_AccessLinkID = id_or (cl_AccessLinkID i) fresh, lr_SubjectKind = cl_SubjectKind i,
      lr_SubjectID = cl_SubjectID i, lr_BoundPrincipalID = nullString (cl_BoundPrincipalID i),
      lr_Scope = cl_Scope i, lr_Status = statusOrDefault (cl_Status i) ''active'',
      lr_MaxUses = cl_MaxUses i, lr_UseCount = 0, lr_ExpiresAt = nullTimeValue (cl_ExpiresAt i),
      lr_LastUsedAt = None, lr_CreatedByPrincipalID = nullString (cl_CreatedByPrincipalID i),
      lr_Metadata = cl_Metadata i, lr_CreatedAt = dbnow, lr_RevokedAt = None,
      lr_TokenHash = hashToken token\<rparr>"

definition link_conflict :: "link_row \<Rightarrow> web_state \<Rightarrow> runtime_error err" where
  "link_conflict r st =
     first_err
       [require (row_at lr_AccessLinkID (lr_AccessLinkID r) (ws_Links st) = None)
          (ErrConflict ''runtime_access_links_pkey''),
        require (row_at lr_TokenHash (lr_TokenHash r) (ws_Links st) = None)
          (ErrConflict ''runtime_access_links_token_hash_key'')]"

definition CreateAccessLink ::
  "string \<Rightarrow> string \<Rightarrow> int \<Rightarrow> CreateAccessLinkInput \<Rightarrow> web_state \<Rightarrow>
   (runtime_error + AccessLinkIssue) \<times> web_state" where
  "CreateAccessLink fresh freshToken dbnow i st =
     (if \<not> ws_Ready st then (Inl NotConfigured, st)
      else if \<not> subject_given (cl_SubjectKind i) (cl_SubjectID i)
        then (Inl (Required ''subject_kind and subject_id''), st)
      else
        (let token = id_or (cl_Token i) freshToken; r = new_link fresh token dbnow i in
         answer \<lparr>lis_AccessLink = scanAccessLink r, lis_Token = token\<rparr> (\<lambda>t st. st\<lparr>ws_Links := t\<rparr>)
           (guard_err (link_conflict r st) (Inr (ws_Links st @ [r]))) st))"

text \<open>What the transaction checks on the locked row, and the update.\<close>

definition link_open :: "int \<Rightarrow> link_row \<Rightarrow> bool" where
  "link_open now r \<longleftrightarrow>
     \<not> (lr_Status r \<noteq> ''active'' \<or> lr_RevokedAt r \<noteq> None \<or>
        (case lr_ExpiresAt r of None \<Rightarrow> False | Some t \<Rightarrow> \<not> t > now)) \<and>
     \<not> (case lr_MaxUses r of None \<Rightarrow> False | Some n \<Rightarrow> lr_UseCount r \<ge> n)"

definition use_link :: "int \<Rightarrow> link_row \<Rightarrow> link_row" where
  "use_link now r = r\<lparr>lr_UseCount := lr_UseCount r + 1, lr_LastUsedAt := Some now\<rparr>"

definition ConsumeAccessLink ::
  "int \<Rightarrow> string \<Rightarrow> web_state \<Rightarrow> (runtime_error + AccessLink) \<times> web_state" where
  "ConsumeAccessLink now token st =
     (if \<not> ws_Ready st then (Inl NotConfigured, st)
      else if blank token then (Inl (Required ''token''), st)
      else case row_at lr_TokenHash (hashToken token) (ws_Links st) of
        None \<Rightarrow> (Inl ErrNotFound, st)
      | Some r \<Rightarrow>
          if \<not> link_open now r then (Inl ErrNotFound, st)
          else
            (Inr (scanAccessLink (use_link now r)),
             st\<lparr>ws_Links :=
                update_rows (\<lambda>x. lr_AccessLinkID x = lr_AccessLinkID r) (use_link now) (ws_Links st)\<rparr>))"

subsection \<open>Publications\<close>

definition new_publication :: "string \<Rightarrow> int \<Rightarrow> UpsertPublicationInput \<Rightarrow> publication_row" where
  "new_publication fresh dbnow i =
     \<lparr>ur_PublicationID = id_or (up_PublicationID i) fresh, ur_SubjectKind = up_SubjectKind i,
      ur_SubjectID = up_SubjectID i, ur_Status = up_Status i,
      ur_Visibility = statusOrDefault (up_Visibility i) ''private'',
      ur_PublishAt = nullTimeValue (up_PublishAt i),
      ur_UnpublishAt = nullTimeValue (up_UnpublishAt i),
      ur_StartsAt = nullTimeValue (up_StartsAt i), ur_EndsAt = nullTimeValue (up_EndsAt i),
      ur_Timezone = nullString (up_Timezone i), ur_AllDay = up_AllDay i,
      ur_Metadata = up_Metadata i, ur_CreatedAt = dbnow, ur_UpdatedAt = dbnow\<rparr>"

definition publication_key :: "publication_row \<Rightarrow> string \<times> string" where
  "publication_key r = (ur_SubjectKind r, ur_SubjectID r)"

definition UpsertPublication ::
  "string \<Rightarrow> int \<Rightarrow> UpsertPublicationInput \<Rightarrow> web_state \<Rightarrow> (runtime_error + Publication) \<times> web_state"
where
  "UpsertPublication fresh dbnow i st =
     (if \<not> ws_Ready st then (Inl NotConfigured, st)
      else if \<not> subject_given (up_SubjectKind i) (up_SubjectID i)
        then (Inl (Required ''subject_kind and subject_id''), st)
      else if blank (up_Status i) then (Inl (Required ''status''), st)
      else
        (let r = new_publication fresh dbnow i in
         case upsert_checked ''runtime_publications_pkey'' ur_PublicationID publication_key r
                (\<lambda>old. r\<lparr>ur_PublicationID := ur_PublicationID old, ur_CreatedAt := ur_CreatedAt old\<rparr>)
                (ws_Publications st) of
           Inl e \<Rightarrow> (Inl e, st)
         | Inr t \<Rightarrow>
             (Inr (scanPublication (the (row_at publication_key (publication_key r) t))),
              st\<lparr>ws_Publications := t\<rparr>)))"

subsection \<open>Transitions and activity\<close>

definition new_transition :: "string \<Rightarrow> int \<Rightarrow> RecordStateTransitionInput \<Rightarrow> transition_row" where
  "new_transition fresh now i =
     \<lparr>trr_TransitionID = id_or (rt_TransitionID i) fresh, trr_SubjectKind = rt_SubjectKind i,
      trr_SubjectID = rt_SubjectID i, trr_Machine = rt_Machine i,
      trr_FromState = nullString (rt_FromState i), trr_ToState = rt_ToState i,
      trr_ActorPrincipalID = nullString (rt_ActorPrincipalID i),
      trr_ActorSessionID = nullString (rt_ActorSessionID i),
      trr_RequestID = nullString (rt_RequestID i), trr_Reason = nullString (rt_Reason i),
      trr_Metadata = rt_Metadata i, trr_OccurredAt = time_or (rt_OccurredAt i) now\<rparr>"

definition RecordStateTransition ::
  "string \<Rightarrow> int \<Rightarrow> RecordStateTransitionInput \<Rightarrow> web_state \<Rightarrow>
   (runtime_error + StateTransition) \<times> web_state" where
  "RecordStateTransition fresh now i st =
     (if \<not> ws_Ready st then (Inl NotConfigured, st)
      else if \<not> subject_given (rt_SubjectKind i) (rt_SubjectID i)
        then (Inl (Required ''subject_kind and subject_id''), st)
      else if \<not> subject_given (rt_Machine i) (rt_ToState i)
        then (Inl (Required ''machine and to_state''), st)
      else answer (scanStateTransition (new_transition fresh now i)) (\<lambda>t st. st\<lparr>ws_Transitions := t\<rparr>)
             (insert_new ''runtime_state_transitions_pkey'' trr_TransitionID (new_transition fresh now i)
                (ws_Transitions st)) st)"

definition new_activity :: "string \<Rightarrow> int \<Rightarrow> RecordActivityEventInput \<Rightarrow> activity_row" where
  "new_activity fresh now i =
     \<lparr>er_ActivityID = id_or (ra_ActivityID i) fresh, er_SubjectKind = ra_SubjectKind i,
      er_SubjectID = ra_SubjectID i, er_ActorPrincipalID = nullString (ra_ActorPrincipalID i),
      er_ActorSessionID = nullString (ra_ActorSessionID i),
      er_RequestID = nullString (ra_RequestID i), er_Name = ra_Name i,
      er_Visibility = statusOrDefault (ra_Visibility i) ''internal'', er_Data = ra_Data i,
      er_OccurredAt = time_or (ra_OccurredAt i) now\<rparr>"

definition RecordActivityEvent ::
  "string \<Rightarrow> int \<Rightarrow> RecordActivityEventInput \<Rightarrow> web_state \<Rightarrow>
   (runtime_error + ActivityEvent) \<times> web_state" where
  "RecordActivityEvent fresh now i st =
     (if \<not> ws_Ready st then (Inl NotConfigured, st)
      else if \<not> subject_given (ra_SubjectKind i) (ra_SubjectID i)
        then (Inl (Required ''subject_kind and subject_id''), st)
      else if blank (ra_Name i) then (Inl (Required ''name''), st)
      else answer (scanActivityEvent (new_activity fresh now i)) (\<lambda>t st. st\<lparr>ws_Activity := t\<rparr>)
             (insert_new ''runtime_activity_events_pkey'' er_ActivityID (new_activity fresh now i)
                (ws_Activity st)) st)"

end
