(* ===== verification/Identity_Properties.thy ===== *)
theory Identity_Properties
  imports Identity Web_State
begin

text \<open>
  What sessions, challenges and access links promise: a challenge is consumed at most once and a link
  at most as often as it says, whatever else happens in between; an expired session stays expired.
\<close>

subsection \<open>Operations as data\<close>

datatype identity_op =
    IPrincipal string int CreatePrincipalInput
  | IIdentifier string int CreatePrincipalIdentifierInput
  | ISession string int CreateSessionInput
  | ITouch int string
  | IChallenge string string int CreateAuthChallengeInput
  | IConsume int string string

text \<open>One operation, with whether it consumed challenge \<open>k\<close>.\<close>

definition run_identity :: "string \<Rightarrow> identity_op \<Rightarrow> identity_state \<Rightarrow> bool \<times> identity_state" where
  "run_identity k op st =
     (case op of
        IPrincipal fresh dbnow i \<Rightarrow> (False, snd (CreatePrincipal fresh dbnow i st))
      | IIdentifier fresh dbnow i \<Rightarrow> (False, snd (CreatePrincipalIdentifier fresh dbnow i st))
      | ISession fresh now i \<Rightarrow> (False, snd (CreateSession fresh now i st))
      | ITouch now s \<Rightarrow> (False, snd (TouchSession now s st))
      | IChallenge fresh token dbnow i \<Rightarrow> (False, snd (CreateAuthChallenge fresh token dbnow i st))
      | IConsume now c verifier \<Rightarrow>
          (\<not> isl (fst (ConsumeAuthChallenge now c verifier st)) \<and> trim_space c = k,
           snd (ConsumeAuthChallenge now c verifier st)))"

lemma sum_answer_frame:
  "(\<And>t st. g (upd t st) = g st) \<Longrightarrow> g (snd (answer v upd r st)) = g st"
  by (cases r) auto

lemma other_challenges [simp]:
  "id_Challenges (snd (CreatePrincipal fresh dbnow i1 st)) = id_Challenges st"
  "id_Challenges (snd (CreatePrincipalIdentifier fresh dbnow i2 st)) = id_Challenges st"
  "id_Challenges (snd (CreateSession fresh now i3 st)) = id_Challenges st"
  "id_Challenges (snd (TouchSession now s st)) = id_Challenges st"
  by (simp_all add: CreatePrincipal_def CreatePrincipalIdentifier_def CreateSession_def TouchSession_def
      Let_def sum_answer_frame split: option.split)

subsection \<open>Challenges are used once\<close>

definition challenges_ok :: "identity_state \<Rightarrow> bool" where
  "challenges_ok st \<longleftrightarrow> distinct (map cr_ChallengeID (id_Challenges st))"

definition challenge_left :: "string \<Rightarrow> identity_state \<Rightarrow> nat option" where
  "challenge_left k st =
     (case row_at cr_ChallengeID k (id_Challenges st) of
        None \<Rightarrow> Some 1
      | Some r \<Rightarrow> Some (if cr_Status r = ''pending'' \<and> cr_UsedAt r = None then 1 else 0))"

lemma create_challenge_cases:
  obtains "snd (CreateAuthChallenge fresh token dbnow i st) = st"
  | r where "id_Challenges (snd (CreateAuthChallenge fresh token dbnow i st)) = id_Challenges st @ [r]"
      "row_at cr_ChallengeID (cr_ChallengeID r) (id_Challenges st) = None"
proof -
  let ?r = "new_challenge fresh (id_or (cc_Verifier i) token) dbnow i"
  show thesis if a: "snd (CreateAuthChallenge fresh token dbnow i st) = st \<Longrightarrow> thesis"
    and b: "\<And>r. id_Challenges (snd (CreateAuthChallenge fresh token dbnow i st)) = id_Challenges st @ [r] \<Longrightarrow>
      row_at cr_ChallengeID (cr_ChallengeID r) (id_Challenges st) = None \<Longrightarrow> thesis"
  proof (cases "at_Ready st \<and> \<not> blank (cc_ChallengeKind i) \<and>
      row_at cr_ChallengeID (cr_ChallengeID ?r) (id_Challenges st) = None")
    case True
    then show thesis by (intro b[of ?r]) (simp_all add: CreateAuthChallenge_def Let_def insert_new_def)
  next
    case False
    then show thesis by (intro a) (auto simp: CreateAuthChallenge_def Let_def insert_new_def)
  qed
qed

lemma consume_challenge_cases:
  obtains e where "ConsumeAuthChallenge now c verifier st = (Inl e, st)"
  | r where "row_at cr_ChallengeID (trim_space c) (id_Challenges st) = Some r" "challenge_open now r"
      "cr_VerifierHash r = hashToken verifier" "at_Ready st" "\<not> blank c" "\<not> blank verifier"
      "ConsumeAuthChallenge now c verifier st =
        (Inr (scanAuthChallenge (r\<lparr>cr_Status := ''used'', cr_UsedAt := Some now\<rparr>)),
         st\<lparr>id_Challenges := update_rows (\<lambda>r. cr_ChallengeID r = trim_space c)
              (\<lambda>r. r\<lparr>cr_Status := ''used'', cr_UsedAt := Some now\<rparr>) (id_Challenges st)\<rparr>)"
proof -
  assume a: "\<And>e. ConsumeAuthChallenge now c verifier st = (Inl e, st) \<Longrightarrow> thesis"
    and b: "\<And>r. row_at cr_ChallengeID (trim_space c) (id_Challenges st) = Some r \<Longrightarrow> challenge_open now r \<Longrightarrow>
      cr_VerifierHash r = hashToken verifier \<Longrightarrow> at_Ready st \<Longrightarrow> \<not> blank c \<Longrightarrow> \<not> blank verifier \<Longrightarrow>
      ConsumeAuthChallenge now c verifier st =
        (Inr (scanAuthChallenge (r\<lparr>cr_Status := ''used'', cr_UsedAt := Some now\<rparr>)),
         st\<lparr>id_Challenges := update_rows (\<lambda>r. cr_ChallengeID r = trim_space c)
              (\<lambda>r. r\<lparr>cr_Status := ''used'', cr_UsedAt := Some now\<rparr>) (id_Challenges st)\<rparr>) \<Longrightarrow> thesis"
  show thesis
  proof (cases "row_at cr_ChallengeID (trim_space c) (id_Challenges st)")
    case None
    then have "\<exists>e. ConsumeAuthChallenge now c verifier st = (Inl e, st)"
      by (auto simp: ConsumeAuthChallenge_def)
    then show thesis using a by blast
  next
    case (Some r)
    show thesis
    proof (cases "at_Ready st \<and> \<not> blank c \<and> \<not> blank verifier \<and> challenge_open now r \<and> cr_VerifierHash r = hashToken verifier")
      case True
      with Some show thesis by (intro b[OF Some]) (simp_all add: ConsumeAuthChallenge_def)
    next
      case False
      with Some have "\<exists>e. ConsumeAuthChallenge now c verifier st = (Inl e, st)"
        by (auto simp: ConsumeAuthChallenge_def)
      then show thesis using a by blast
    qed
  qed
qed

interpretation challenge: limited_use "run_identity k" challenges_ok "challenge_left k" for k
proof
  fix st op
  assume ok: "challenges_ok st"
  show "challenges_ok (snd (run_identity k op st))"
  proof (cases op)
    case (IChallenge fresh token dbnow i)
    then show ?thesis using ok
      by (cases rule: create_challenge_cases[of fresh token dbnow i st])
        (auto simp: run_identity_def challenges_ok_def row_at_None)
  next
    case (IConsume now c verifier)
    then show ?thesis using ok
      by (cases rule: consume_challenge_cases[of now c verifier st])
        (auto simp: run_identity_def challenges_ok_def keys_update_rows)
  qed (use ok in \<open>simp_all add: run_identity_def challenges_ok_def\<close>)
next
  fix st op n
  assume l: "challenge_left k st = Some n" and u: "fst (run_identity k op st)"
  show "0 < n \<and> challenge_left k (snd (run_identity k op st)) = Some (n - 1)"
  proof (cases op)
    case (IConsume now c verifier)
    show ?thesis
    proof (cases rule: consume_challenge_cases[of now c verifier st])
      case 1
      with u show ?thesis by (simp add: run_identity_def IConsume)
    next
      case (2 r)
      with u have k: "trim_space c = k" by (simp add: run_identity_def IConsume)
      with 2 l have "n = 1" by (auto simp: challenge_left_def challenge_open_def)
      with 2 k row_at_SomeD[OF 2(1)] show ?thesis
        by (simp add: run_identity_def IConsume challenge_left_def row_at_update_rows)
    qed
  qed (use u in \<open>simp_all add: run_identity_def\<close>)
next
  fix st op n
  assume l: "challenge_left k st = Some n" and u: "\<not> fst (run_identity k op st)"
  show "\<exists>m\<le>n. challenge_left k (snd (run_identity k op st)) = Some m"
  proof (cases op)
    case (IChallenge fresh token dbnow i)
    show ?thesis
    proof (cases rule: create_challenge_cases[of fresh token dbnow i st])
      case 1
      with l show ?thesis by (auto simp: run_identity_def IChallenge)
    next
      case (2 r)
      with l show ?thesis
        by (auto simp: run_identity_def IChallenge challenge_left_def row_at_append split: option.splits)
    qed
  next
    case (IConsume now c verifier)
    show ?thesis
    proof (cases rule: consume_challenge_cases[of now c verifier st])
      case 1
      with l show ?thesis by (auto simp: run_identity_def IConsume)
    next
      case (2 r)
      with u have "trim_space c \<noteq> k" by (simp add: run_identity_def IConsume)
      with 2 l show ?thesis
        by (auto simp: run_identity_def IConsume challenge_left_def row_at_update_rows dest: row_at_SomeD
            split: option.splits)
    qed
  qed (use l in \<open>auto simp: run_identity_def challenge_left_def\<close>)
qed

subsection \<open>Links are used as often as they say\<close>

datatype web_op =
    WHandle string int AssignHandleInput
  | WLink string string int CreateAccessLinkInput
  | WConsume int string
  | WPublication string int UpsertPublicationInput
  | WTransition string int RecordStateTransitionInput
  | WActivity string int RecordActivityEventInput

definition run_web :: "string \<Rightarrow> web_op \<Rightarrow> web_state \<Rightarrow> bool \<times> web_state" where
  "run_web k op st =
     (case op of
        WHandle fresh dbnow i \<Rightarrow> (False, snd (AssignHandle fresh dbnow i st))
      | WLink fresh token dbnow i \<Rightarrow> (False, snd (CreateAccessLink fresh token dbnow i st))
      | WConsume now token \<Rightarrow>
          (case ConsumeAccessLink now token st of
             (Inl e, st') \<Rightarrow> (False, st') | (Inr l, st') \<Rightarrow> (lk_AccessLinkID l = k, st'))
      | WPublication fresh dbnow i \<Rightarrow> (False, snd (UpsertPublication fresh dbnow i st))
      | WTransition fresh now i \<Rightarrow> (False, snd (RecordStateTransition fresh now i st))
      | WActivity fresh now i \<Rightarrow> (False, snd (RecordActivityEvent fresh now i st)))"

lemma other_links [simp]:
  "ws_Links (snd (AssignHandle fresh dbnow i1 st)) = ws_Links st"
  "ws_Links (snd (UpsertPublication fresh dbnow i2 st)) = ws_Links st"
  "ws_Links (snd (RecordStateTransition fresh now i3 st)) = ws_Links st"
  "ws_Links (snd (RecordActivityEvent fresh now i4 st)) = ws_Links st"
  by (simp_all add: AssignHandle_def UpsertPublication_def RecordStateTransition_def RecordActivityEvent_def
      Let_def sum_answer_frame split: option.split sum.split)

definition links_ok :: "web_state \<Rightarrow> bool" where
  "links_ok st \<longleftrightarrow> distinct (map lr_AccessLinkID (ws_Links st)) \<and> distinct (map lr_TokenHash (ws_Links st))"

definition uses_left :: "string \<Rightarrow> web_state \<Rightarrow> nat option" where
  "uses_left k st =
     Option.bind (row_at lr_AccessLinkID k (ws_Links st))
       (\<lambda>r. map_option (\<lambda>n. nat (n - lr_UseCount r)) (lr_MaxUses r))"

lemma create_link_cases:
  obtains "snd (CreateAccessLink fresh token dbnow i st) = st"
  | r where "ws_Links (snd (CreateAccessLink fresh token dbnow i st)) = ws_Links st @ [r]"
      "row_at lr_AccessLinkID (lr_AccessLinkID r) (ws_Links st) = None"
      "row_at lr_TokenHash (lr_TokenHash r) (ws_Links st) = None"
proof -
  let ?r = "new_link fresh (id_or (cl_Token i) token) dbnow i"
  show thesis if a: "snd (CreateAccessLink fresh token dbnow i st) = st \<Longrightarrow> thesis"
    and b: "\<And>r. ws_Links (snd (CreateAccessLink fresh token dbnow i st)) = ws_Links st @ [r] \<Longrightarrow>
      row_at lr_AccessLinkID (lr_AccessLinkID r) (ws_Links st) = None \<Longrightarrow>
      row_at lr_TokenHash (lr_TokenHash r) (ws_Links st) = None \<Longrightarrow> thesis"
  proof (cases "ws_Ready st \<and> subject_given (cl_SubjectKind i) (cl_SubjectID i) \<and> link_conflict ?r st = None")
    case True
    then show thesis
      by (intro b[of ?r]) (simp_all add: CreateAccessLink_def Let_def link_conflict_def guard_err_def)
  next
    case False
    then show thesis
      by (intro a) (auto simp: CreateAccessLink_def Let_def guard_err_def)
  qed
qed

lemma consume_link_cases:
  obtains e where "ConsumeAccessLink now token st = (Inl e, st)"
  | r where "row_at lr_TokenHash (hashToken token) (ws_Links st) = Some r" "link_open now r"
      "ws_Ready st" "\<not> blank token"
      "ConsumeAccessLink now token st =
        (Inr (scanAccessLink (use_link now r)),
         st\<lparr>ws_Links := update_rows (\<lambda>x. lr_AccessLinkID x = lr_AccessLinkID r) (use_link now) (ws_Links st)\<rparr>)"
proof -
  assume a: "\<And>e. ConsumeAccessLink now token st = (Inl e, st) \<Longrightarrow> thesis"
    and b: "\<And>r. row_at lr_TokenHash (hashToken token) (ws_Links st) = Some r \<Longrightarrow> link_open now r \<Longrightarrow>
      ws_Ready st \<Longrightarrow> \<not> blank token \<Longrightarrow>
      ConsumeAccessLink now token st =
        (Inr (scanAccessLink (use_link now r)),
         st\<lparr>ws_Links := update_rows (\<lambda>x. lr_AccessLinkID x = lr_AccessLinkID r) (use_link now) (ws_Links st)\<rparr>)
      \<Longrightarrow> thesis"
  show thesis
  proof (cases "\<exists>r. row_at lr_TokenHash (hashToken token) (ws_Links st) = Some r \<and> link_open now r \<and>
      ws_Ready st \<and> \<not> blank token")
    case True
    then show thesis using b by (fastforce simp: ConsumeAccessLink_def)
  next
    case False
    then have "\<exists>e. ConsumeAccessLink now token st = (Inl e, st)"
      by (auto simp: ConsumeAccessLink_def split: option.split)
    then show thesis using a by blast
  qed
qed

lemma use_link_keys [simp]:
  "lr_AccessLinkID (use_link now r) = lr_AccessLinkID r" "lr_TokenHash (use_link now r) = lr_TokenHash r"
  "lr_MaxUses (use_link now r) = lr_MaxUses r" "lr_UseCount (use_link now r) = lr_UseCount r + 1"
  "lk_AccessLinkID (scanAccessLink r) = lr_AccessLinkID r"
  by (simp_all add: use_link_def scanAccessLink_def)

interpretation link: limited_use "run_web k" links_ok "uses_left k" for k
proof
  fix st op
  assume ok: "links_ok st"
  show "links_ok (snd (run_web k op st))"
  proof (cases op)
    case (WLink fresh token dbnow i)
    then show ?thesis using ok
      by (cases rule: create_link_cases[of fresh token dbnow i st])
        (auto simp: run_web_def links_ok_def row_at_None)
  next
    case (WConsume now token)
    then show ?thesis using ok
      by (cases rule: consume_link_cases[of now token st])
        (auto simp: run_web_def links_ok_def keys_update_rows)
  qed (use ok in \<open>simp_all add: run_web_def links_ok_def\<close>)
next
  fix st op n
  assume ok: "links_ok st" and l: "uses_left k st = Some n" and u: "fst (run_web k op st)"
  show "0 < n \<and> uses_left k (snd (run_web k op st)) = Some (n - 1)"
  proof (cases op)
    case (WConsume now token)
    show ?thesis
    proof (cases rule: consume_link_cases[of now token st])
      case 1
      with u show ?thesis by (simp add: run_web_def WConsume)
    next
      case (2 r)
      with u have k: "lr_AccessLinkID r = k" by (simp add: run_web_def WConsume)
      have "row_at lr_AccessLinkID k (ws_Links st) = Some r"
        using row_at_in[of lr_AccessLinkID "ws_Links st" r] row_at_SomeD[OF 2(1)] ok k
        by (simp add: links_ok_def)
      with 2 l k show ?thesis
        by (auto simp: run_web_def WConsume uses_left_def row_at_update_rows link_open_def)
    qed
  qed (use u in \<open>simp_all add: run_web_def\<close>)
next
  fix st op n
  assume ok: "links_ok st" and l: "uses_left k st = Some n" and u: "\<not> fst (run_web k op st)"
  show "\<exists>m\<le>n. uses_left k (snd (run_web k op st)) = Some m"
  proof (cases op)
    case (WLink fresh token dbnow i)
    show ?thesis
    proof (cases rule: create_link_cases[of fresh token dbnow i st])
      case 1
      with l show ?thesis by (auto simp: run_web_def WLink)
    next
      case (2 r)
      with l show ?thesis
        by (auto simp: run_web_def WLink uses_left_def row_at_append split: option.splits)
    qed
  next
    case (WConsume now token)
    show ?thesis
    proof (cases rule: consume_link_cases[of now token st])
      case 1
      with l show ?thesis by (auto simp: run_web_def WConsume)
    next
      case (2 r)
      with u have k: "lr_AccessLinkID r \<noteq> k" by (simp add: run_web_def WConsume)
      from l obtain x where x: "row_at lr_AccessLinkID k (ws_Links st) = Some x"
        by (auto simp: uses_left_def bind_eq_Some_conv)
      with k row_at_SomeD[OF x] 2 l show ?thesis
        by (intro exI[of _ n]) (simp add: run_web_def WConsume uses_left_def row_at_update_rows)
    qed
  qed (use l in \<open>auto simp: run_web_def uses_left_def\<close>)
qed

subsection \<open>Sessions\<close>

text \<open>What a session keeps, whatever operations follow.\<close>

definition session_kept :: "session_row \<Rightarrow> session_row \<Rightarrow> bool" where
  "session_kept r r' \<longleftrightarrow>
     sr_SessionID r' = sr_SessionID r \<and> sr_Status r' = sr_Status r \<and> sr_ExpiresAt r' = sr_ExpiresAt r \<and>
     sr_EndedAt r' = sr_EndedAt r"

lemma run_identity_session:
  assumes "row_at sr_SessionID s (id_Sessions st) = Some r"
  shows "\<exists>r'. row_at sr_SessionID s (id_Sessions (snd (run_identity k op st))) = Some r' \<and> session_kept r r'"
    and "at_Ready (snd (run_identity k op st)) = at_Ready st"
proof -
  have same: "\<exists>r'. row_at sr_SessionID s (id_Sessions st') = Some r' \<and> session_kept r r'"
    if "id_Sessions st' = id_Sessions st" for st' :: identity_state
    using assms that by (simp add: session_kept_def)
  show "\<exists>r'. row_at sr_SessionID s (id_Sessions (snd (run_identity k op st))) = Some r' \<and> session_kept r r'"
  proof (cases op)
    case (ISession fresh now i)
    have "id_Sessions (snd (CreateSession fresh now i st)) = id_Sessions st \<or>
        (\<exists>x. id_Sessions (snd (CreateSession fresh now i st)) = id_Sessions st @ [x])"
      by (auto simp: CreateSession_def guard_err_def split: option.split)
    with assms ISession show ?thesis
      by (auto simp: run_identity_def row_at_append session_kept_def)
  next
    case (ITouch now s')
    have "id_Sessions (snd (TouchSession now s' st)) = id_Sessions st \<or>
        id_Sessions (snd (TouchSession now s' st)) =
          update_rows (\<lambda>r. sr_SessionID r = trim_space s') (\<lambda>r. r\<lparr>sr_LastSeenAt := Some now\<rparr>) (id_Sessions st)"
      by (auto simp: TouchSession_def Let_def split: option.split)
    with assms ITouch show ?thesis
      by (auto simp: run_identity_def row_at_update_rows session_kept_def)
  qed (auto intro!: same simp: run_identity_def CreatePrincipal_def CreatePrincipalIdentifier_def
      CreateAuthChallenge_def ConsumeAuthChallenge_def Let_def sum_answer_frame split: option.split)
  show "at_Ready (snd (run_identity k op st)) = at_Ready st"
    by (cases op) (auto simp: run_identity_def CreatePrincipal_def CreatePrincipalIdentifier_def
      CreateSession_def TouchSession_def CreateAuthChallenge_def ConsumeAuthChallenge_def Let_def
      sum_answer_frame split: option.split)
qed

lemma run_all_session:
  "row_at sr_SessionID s (id_Sessions st) = Some r \<Longrightarrow>
   (\<exists>r'. row_at sr_SessionID s (id_Sessions (snd (run_all (run_identity k) ops st))) = Some r' \<and>
      session_kept r r') \<and> at_Ready (snd (run_all (run_identity k) ops st)) = at_Ready st"
proof (induction ops arbitrary: st r)
  case (Cons op ops)
  from run_identity_session(1)[OF Cons.prems] obtain r1 where
    r1: "row_at sr_SessionID s (id_Sessions (snd (run_identity k op st))) = Some r1" "session_kept r r1" by blast
  have "snd (run_all (run_identity k) (op # ops) st) = snd (run_all (run_identity k) ops (snd (run_identity k op st)))"
    by (simp add: Let_def split: prod.split)
  with Cons.IH[OF r1(1)] r1(2) run_identity_session(2)[OF Cons.prems] show ?case
    by (auto simp: session_kept_def)
qed (simp add: session_kept_def)

subsection \<open>Properties\<close>

text \<open>C21: a challenge is consumed by its verifier only, while it is pending, unused and not expired, and,
  whatever operations follow in whatever order, at most once.\<close>

theorem challenge_is_used_at_most_once:
  assumes "distinct (map cr_ChallengeID (id_Challenges st))"
  shows "count_list (fst (run_all (run_identity k) ops st)) True \<le> 1 \<and>
    ((\<exists>a. fst (ConsumeAuthChallenge now c verifier st) = Inr a) \<longleftrightarrow>
      at_Ready st \<and> \<not> blank c \<and> \<not> blank verifier \<and>
      (\<exists>r\<in>set (id_Challenges st). cr_ChallengeID r = trim_space c \<and> cr_Status r = ''pending'' \<and>
         cr_UsedAt r = None \<and> (\<forall>t. cr_ExpiresAt r = Some t \<longrightarrow> now < t) \<and>
         cr_VerifierHash r = hashToken verifier))"
proof (rule conjI)
  have ok: "challenges_ok st" using assms by (simp add: challenges_ok_def)
  have "\<exists>n\<le>1. challenge_left k st = Some n"
    by (simp add: challenge_left_def split: option.split)
  then obtain n where n: "challenge_left k st = Some n" "n \<le> 1" by blast
  from challenge.uses_bounded[OF ok n(1), of ops] n(2)
  show "count_list (fst (run_all (run_identity k) ops st)) True \<le> 1" by simp
next
  show "(\<exists>a. fst (ConsumeAuthChallenge now c verifier st) = Inr a) \<longleftrightarrow>
      at_Ready st \<and> \<not> blank c \<and> \<not> blank verifier \<and>
      (\<exists>r\<in>set (id_Challenges st). cr_ChallengeID r = trim_space c \<and> cr_Status r = ''pending'' \<and>
         cr_UsedAt r = None \<and> (\<forall>t. cr_ExpiresAt r = Some t \<longrightarrow> now < t) \<and>
         cr_VerifierHash r = hashToken verifier)"
  proof (cases "row_at cr_ChallengeID (trim_space c) (id_Challenges st)")
    case None
    moreover have "\<not> (\<exists>r\<in>set (id_Challenges st). cr_ChallengeID r = trim_space c)"
      using None[unfolded row_at_None] by (metis imageI)
    ultimately show ?thesis by (auto simp: ConsumeAuthChallenge_def)
  next
    case (Some r)
    have r: "r \<in> set (id_Challenges st)" "cr_ChallengeID r = trim_space c" using row_at_SomeD[OF Some] by simp_all
    have "x = r" if "x \<in> set (id_Challenges st)" "cr_ChallengeID x = trim_space c" for x
      using row_at_in[OF assms that(1)] that(2) Some by simp
    then have unique: "(\<exists>x\<in>set (id_Challenges st). cr_ChallengeID x = trim_space c \<and> P x) \<longleftrightarrow> P r" for P
      using r by metis
    have "(\<exists>a. fst (ConsumeAuthChallenge now c verifier st) = Inr a) \<longleftrightarrow>
        at_Ready st \<and> \<not> blank c \<and> \<not> blank verifier \<and> challenge_open now r \<and> cr_VerifierHash r = hashToken verifier"
      by (simp add: ConsumeAuthChallenge_def Some Let_def)
    moreover have "challenge_open now r \<longleftrightarrow>
        cr_Status r = ''pending'' \<and> cr_UsedAt r = None \<and> (\<forall>t. cr_ExpiresAt r = Some t \<longrightarrow> now < t)"
      by (auto simp: challenge_open_def split: option.splits)
    ultimately show ?thesis unfolding unique by simp
  qed
qed

definition sample_challenge :: challenge_row where
  "sample_challenge =
     \<lparr>cr_ChallengeID = ''c'', cr_ChallengeKind = ''k'', cr_ProviderID = None, cr_PrincipalID = None,
      cr_SessionID = None, cr_DeliveryTarget = None, cr_Status = ''pending'', cr_Scope = [],
      cr_ExpiresAt = Some 9, cr_UsedAt = None, cr_Metadata = [], cr_CreatedAt = 1,
      cr_VerifierHash = hashToken ''v''\<rparr>"

definition sample_identity :: identity_state where
  "sample_identity =
     \<lparr>at_Ready = True, at_Ledger = \<lparr>lg_Ready = True, lg_ChangeSets = [], lg_Rows = [], lg_NextRowID = 1\<rparr>, at_Grants = [], at_Bundles = [], at_Principals = [],
      at_Identifiers = [], at_Identities = [], at_Random = (\<lambda>_. []), at_Drawn = 0,
      id_Sessions = [], id_Challenges = [sample_challenge]\<rparr>"

lemma trim_c [simp]: "trim_space ''c'' = ''c''" "trim_space ''v'' = ''v''"
  by code_simp+

theorem challenge_is_used_at_most_once_witness:
  "(\<exists>a. fst (ConsumeAuthChallenge 5 ''c'' ''v'' sample_identity) = Inr a) \<and>
   count_list (fst (run_all (run_identity ''c'')
     [IConsume 5 ''c'' ''v'', IConsume 6 ''c'' ''v''] sample_identity)) True \<le> 1"
proof -
  have "distinct (map cr_ChallengeID (id_Challenges sample_identity))" by (simp add: sample_identity_def)
  note once = challenge_is_used_at_most_once[OF this, of "''c''" "[IConsume 5 ''c'' ''v'', IConsume 6 ''c'' ''v'']"
      5 "''c''" "''v''"]
  moreover have "at_Ready sample_identity" "sample_challenge \<in> set (id_Challenges sample_identity)"
    by (simp_all add: sample_identity_def)
  moreover have "cr_ChallengeID sample_challenge = trim_space ''c'' \<and> cr_Status sample_challenge = ''pending'' \<and>
      cr_UsedAt sample_challenge = None \<and> (\<forall>t. cr_ExpiresAt sample_challenge = Some t \<longrightarrow> 5 < t) \<and>
      cr_VerifierHash sample_challenge = hashToken ''v''"
    by (simp add: sample_challenge_def)
  ultimately show ?thesis by (intro conjI) auto
qed

text \<open>C22: a link that says how often it may be used is consumed at most that often, less the uses it has
  had, whatever other operations come in between.\<close>

theorem access_link_respects_its_limit:
  assumes "distinct (map lr_AccessLinkID (ws_Links st))" "distinct (map lr_TokenHash (ws_Links st))"
    and "r \<in> set (ws_Links st)" "lr_MaxUses r = Some n"
  shows "int (count_list (fst (run_all (run_web (lr_AccessLinkID r)) ops st)) True) \<le> max 0 (n - lr_UseCount r)"
proof -
  have ok: "links_ok st" using assms(1,2) by (simp add: links_ok_def)
  have "row_at lr_AccessLinkID (lr_AccessLinkID r) (ws_Links st) = Some r"
    using assms(1,3) by (rule row_at_in)
  with assms(4) have "uses_left (lr_AccessLinkID r) st = Some (nat (n - lr_UseCount r))"
    by (simp add: uses_left_def)
  from link.uses_bounded[OF ok this, of ops] show ?thesis by linarith
qed

definition sample_web :: web_state where
  "sample_web =
     \<lparr>ws_Ready = True, ws_Handles = [],
      ws_Links =
        [\<lparr>lr_AccessLinkID = ''l'', lr_SubjectKind = ''k'', lr_SubjectID = ''s'', lr_BoundPrincipalID = None,
          lr_Scope = [], lr_Status = ''active'', lr_MaxUses = Some 1, lr_UseCount = 0, lr_ExpiresAt = None,
          lr_LastUsedAt = None, lr_CreatedByPrincipalID = None, lr_Metadata = [], lr_CreatedAt = 1,
          lr_RevokedAt = None, lr_TokenHash = hashToken ''v''\<rparr>],
      ws_Publications = [], ws_Transitions = [], ws_Activity = []\<rparr>"

theorem access_link_respects_its_limit_witness:
  "fst (run_web ''l'' (WConsume 5 ''v'') sample_web) \<and>
   int (count_list (fst (run_all (run_web ''l'') [WConsume 5 ''v'', WConsume 5 ''v''] sample_web)) True) \<le> 1"
proof -
  have "fst (run_web ''l'' (WConsume 5 ''v'') sample_web)"
    by (simp add: run_web_def ConsumeAccessLink_def sample_web_def row_at_def link_open_def)
  moreover have "int (count_list (fst (run_all (run_web ''l'') [WConsume 5 ''v'', WConsume 5 ''v''] sample_web)) True) \<le> 1"
    using access_link_respects_its_limit[of sample_web "hd (ws_Links sample_web)" 1]
    by (simp add: sample_web_def del: run_all.simps)
  ultimately show ?thesis by simp
qed

text \<open>A session lives until its expiry and not longer: whatever operations follow its creation, it
  resolves at a time exactly if it was created active and the time is before its expiry; nothing
  extends, ends or revives it.\<close>

theorem session_lives_until_its_expiry:
  assumes "CreateSession fresh now i st = (Inr s, st1)" "trim_space (ss_SessionID s) = ss_SessionID s"
  shows "(\<exists>x. ResolveSession later (ss_SessionID s) (snd (run_all (run_identity k) ops st1)) = Inr x) \<longleftrightarrow>
    ss_Status s = ''active'' \<and> (case ss_ExpiresAt s of None \<Rightarrow> True | Some t \<Rightarrow> later < t)"
proof -
  let ?r = "new_session fresh now i" and ?st = "snd (run_all (run_identity k) ops st1)"
  have c: "at_Ready st" "session_conflict ?r st = None" "s = scanSession ?r"
    "st1 = st\<lparr>id_Sessions := id_Sessions st @ [?r]\<rparr>"
    using assms(1) by (auto simp: CreateSession_def guard_err_def split: if_splits option.splits)
  have s: "ss_SessionID s = sr_SessionID ?r" "ss_Status s = sr_Status ?r" "ss_ExpiresAt s = sr_ExpiresAt ?r"
    "sr_EndedAt ?r = None"
    by (simp_all add: c(3) scanSession_def new_session_def)
  have "row_at sr_SessionID (ss_SessionID s) (id_Sessions st1) = Some ?r"
    using c(2,4) s(1) by (simp add: session_conflict_def row_at_append)
  from run_all_session[OF this, of k ops] obtain r' where
    r': "row_at sr_SessionID (ss_SessionID s) (id_Sessions ?st) = Some r'" "session_kept ?r r'"
    "at_Ready ?st" using c(1,4) by auto
  then show ?thesis
    using assms(2) s by (auto simp: ResolveSession_def GetSession_def session_kept_def scanSession_def
        and_then_def split: option.split)
qed

theorem session_lives_until_its_expiry_witness:
  "\<exists>s st1. CreateSession ''s'' 1 \<lparr>cn_SessionID = ''v'', cn_PrincipalID = [], cn_Status = [], cn_AuthContext = [],
        cn_UserAgent = [], cn_IPAddress = [], cn_StartedAt = None, cn_ExpiresAt = Some 9\<rparr> sample_identity = (Inr s, st1) \<and>
     (\<exists>x. ResolveSession 8 ''v'' (snd (run_all (run_identity ''c'') [ITouch 5 ''v''] st1)) = Inr x) \<and>
     \<not> (\<exists>x. ResolveSession 9 ''v'' (snd (run_all (run_identity ''c'') [ITouch 5 ''v''] st1)) = Inr x)"
proof -
  let ?i = "\<lparr>cn_SessionID = ''v'', cn_PrincipalID = [], cn_Status = [], cn_AuthContext = [],
        cn_UserAgent = [], cn_IPAddress = [], cn_StartedAt = None, cn_ExpiresAt = Some 9\<rparr> :: CreateSessionInput"
  let ?s = "scanSession (new_session ''s'' 1 ?i)"
  let ?st1 = "sample_identity\<lparr>id_Sessions := [new_session ''s'' 1 ?i]\<rparr>"
  have c: "CreateSession ''s'' 1 ?i sample_identity = (Inr ?s, ?st1)"
    by (simp add: CreateSession_def sample_identity_def session_conflict_def row_at_def guard_err_def
        new_session_def nullString_def)
  have s: "ss_SessionID ?s = ''v''" "ss_Status ?s = ''active''" "ss_ExpiresAt ?s = Some 9"
    by (simp_all add: scanSession_def new_session_def id_or_def statusOrDefault_def nullTimeValue_def)
  note session_lives_until_its_expiry[OF c, unfolded s, where k = "''c''" and ops = "[ITouch 5 ''v'']"]
  from this[of 8] this[of 9] c show ?thesis by (intro exI[of _ ?s] exI[of _ ?st1]) simp
qed

end
