(* ===== verification/Executions.thy ===== *)
theory Executions
  imports Authority_Types "HOL-Library.Product_Lexorder"
begin

text \<open>
  internal/interactions/runtime_execution.go and runtime_execution_logs.go: the executions of
  realizations, their events and logs, the activation of a reference and the route bindings, with
  their types, rows and scan functions.
\<close>

subsection \<open>Types and rows\<close>

record RealizationExecution =
  ex_ExecutionID :: string
  ex_Reference :: string
  ex_SeedID :: string
  ex_RealizationID :: string
  ex_Backend :: string
  ex_Mode :: string
  ex_Status :: string
  ex_RouteSubdomain :: string
  ex_RoutePathPrefix :: string
  ex_PreviewPathPrefix :: string
  ex_UpstreamAddr :: string
  ex_ExecutionPackageRef :: string
  ex_LaunchedByPrincipalID :: string
  ex_LaunchedBySessionID :: string
  ex_RequestID :: string
  ex_Metadata :: json_map
  ex_StartedAt :: int
  ex_HealthyAt :: "int option"
  ex_StoppedAt :: "int option"
  ex_LastError :: string

record CreateRealizationExecutionInput =
  ce_ExecutionID :: string
  ce_Reference :: string
  ce_SeedID :: string
  ce_RealizationID :: string
  ce_Backend :: string
  ce_Mode :: string
  ce_Status :: string
  ce_RouteSubdomain :: string
  ce_RoutePathPrefix :: string
  ce_PreviewPathPrefix :: string
  ce_UpstreamAddr :: string
  ce_ExecutionPackageRef :: string
  ce_LaunchedByPrincipalID :: string
  ce_LaunchedBySessionID :: string
  ce_RequestID :: string
  ce_Metadata :: json_map
  ce_StartedAt :: "int option"

record UpdateRealizationExecutionInput =
  ue_Status :: string
  ue_UpstreamAddr :: string
  ue_PreviewPathPrefix :: string
  ue_HealthyAt :: "int option"
  ue_StoppedAt :: "int option"
  ue_LastError :: string
  ue_Metadata :: json_map

record RealizationExecutionEvent =
  ee_EventID :: string
  ee_ExecutionID :: string
  ee_Name :: string
  ee_Data :: json_map
  ee_OccurredAt :: int

record RecordRealizationExecutionEventInput =
  ree_EventID :: string
  ree_ExecutionID :: string
  ree_Name :: string
  ree_Data :: json_map
  ree_OccurredAt :: "int option"

record RealizationActivation =
  act_SeedID :: string
  act_Reference :: string
  act_ExecutionID :: string
  act_ActivatedByPrincipalID :: string
  act_ActivatedBySessionID :: string
  act_RequestID :: string
  act_Metadata :: json_map
  act_ActivatedAt :: int

record ActivateRealizationInput =
  ain_SeedID :: string
  ain_Reference :: string
  ain_ExecutionID :: string
  ain_ActivatedByPrincipalID :: string
  ain_ActivatedBySessionID :: string
  ain_RequestID :: string
  ain_Metadata :: json_map

record RealizationRouteBinding =
  rb_BindingID :: string
  rb_ExecutionID :: string
  rb_SeedID :: string
  rb_Reference :: string
  rb_BindingKind :: string
  rb_Subdomain :: string
  rb_PathPrefix :: string
  rb_UpstreamAddr :: string
  rb_Status :: string
  rb_Metadata :: json_map
  rb_CreatedAt :: int
  rb_UpdatedAt :: int

record RealizationRouteBindingInput =
  rbi_BindingID :: string
  rbi_ExecutionID :: string
  rbi_SeedID :: string
  rbi_Reference :: string
  rbi_BindingKind :: string
  rbi_Subdomain :: string
  rbi_PathPrefix :: string
  rbi_UpstreamAddr :: string
  rbi_Status :: string
  rbi_Metadata :: json_map

record RealizationExecutionLog =
  exl_LogID :: string
  exl_ExecutionID :: string
  exl_Source :: string
  exl_Stream :: string
  exl_Message :: string
  exl_OccurredAt :: int

record RecordRealizationExecutionLogInput =
  rli_LogID :: string
  rli_ExecutionID :: string
  rli_Source :: string
  rli_Stream :: string
  rli_Message :: string
  rli_OccurredAt :: "int option"

record execution_row =
  xr_ExecutionID :: string
  xr_Reference :: string
  xr_SeedID :: string
  xr_RealizationID :: string
  xr_Backend :: string
  xr_Mode :: string
  xr_Status :: string
  xr_RouteSubdomain :: "string option"
  xr_RoutePathPrefix :: "string option"
  xr_PreviewPathPrefix :: "string option"
  xr_UpstreamAddr :: "string option"
  xr_ExecutionPackageRef :: "string option"
  xr_LaunchedByPrincipalID :: "string option"
  xr_LaunchedBySessionID :: "string option"
  xr_RequestID :: "string option"
  xr_Metadata :: json_map
  xr_StartedAt :: int
  xr_HealthyAt :: "int option"
  xr_StoppedAt :: "int option"
  xr_LastError :: "string option"

record activation_row =
  actr_SeedID :: string
  actr_Reference :: string
  actr_ExecutionID :: "string option"
  actr_ActivatedByPrincipalID :: "string option"
  actr_ActivatedBySessionID :: "string option"
  actr_RequestID :: "string option"
  actr_Metadata :: json_map
  actr_ActivatedAt :: int

record binding_row =
  rbr_BindingID :: string
  rbr_ExecutionID :: string
  rbr_SeedID :: string
  rbr_Reference :: string
  rbr_BindingKind :: string
  rbr_Subdomain :: "string option"
  rbr_PathPrefix :: "string option"
  rbr_UpstreamAddr :: string
  rbr_Status :: string
  rbr_Metadata :: json_map
  rbr_CreatedAt :: int
  rbr_UpdatedAt :: int

definition scanRealizationExecution :: "execution_row \<Rightarrow> RealizationExecution" where
  "scanRealizationExecution r =
     \<lparr>ex_ExecutionID = xr_ExecutionID r, ex_Reference = xr_Reference r, ex_SeedID = xr_SeedID r,
       ex_RealizationID = xr_RealizationID r, ex_Backend = xr_Backend r, ex_Mode = xr_Mode r,
       ex_Status = xr_Status r, ex_RouteSubdomain = string_of_null (xr_RouteSubdomain r),
       ex_RoutePathPrefix = string_of_null (xr_RoutePathPrefix r),
       ex_PreviewPathPrefix = string_of_null (xr_PreviewPathPrefix r),
       ex_UpstreamAddr = string_of_null (xr_UpstreamAddr r),
       ex_ExecutionPackageRef = string_of_null (xr_ExecutionPackageRef r),
       ex_LaunchedByPrincipalID = string_of_null (xr_LaunchedByPrincipalID r),
       ex_LaunchedBySessionID = string_of_null (xr_LaunchedBySessionID r),
       ex_RequestID = string_of_null (xr_RequestID r), ex_Metadata = xr_Metadata r,
       ex_StartedAt = xr_StartedAt r, ex_HealthyAt = xr_HealthyAt r, ex_StoppedAt = xr_StoppedAt r,
       ex_LastError = string_of_null (xr_LastError r)\<rparr>"

definition scanRealizationActivation :: "activation_row \<Rightarrow> RealizationActivation" where
  "scanRealizationActivation r =
     \<lparr>act_SeedID = actr_SeedID r, act_Reference = actr_Reference r,
       act_ExecutionID = string_of_null (actr_ExecutionID r),
       act_ActivatedByPrincipalID = string_of_null (actr_ActivatedByPrincipalID r),
       act_ActivatedBySessionID = string_of_null (actr_ActivatedBySessionID r),
       act_RequestID = string_of_null (actr_RequestID r), act_Metadata = actr_Metadata r,
       act_ActivatedAt = actr_ActivatedAt r\<rparr>"

definition scanRealizationRouteBinding :: "binding_row \<Rightarrow> RealizationRouteBinding" where
  "scanRealizationRouteBinding r =
     \<lparr>rb_BindingID = rbr_BindingID r, rb_ExecutionID = rbr_ExecutionID r, rb_SeedID = rbr_SeedID r,
       rb_Reference = rbr_Reference r, rb_BindingKind = rbr_BindingKind r,
       rb_Subdomain = string_of_null (rbr_Subdomain r),
       rb_PathPrefix = string_of_null (rbr_PathPrefix r), rb_UpstreamAddr = rbr_UpstreamAddr r,
       rb_Status = rbr_Status r, rb_Metadata = rbr_Metadata r, rb_CreatedAt = rbr_CreatedAt r,
       rb_UpdatedAt = rbr_UpdatedAt r\<rparr>"

record exec_state =
  xs_Ready :: bool
  xs_Executions :: "execution_row list"
  xs_Events :: "RealizationExecutionEvent list"
  xs_Activations :: "activation_row list"
  xs_Bindings :: "binding_row list"
  xs_Logs :: "RealizationExecutionLog list"

text \<open>A foreign key to an execution.\<close>

definition execution_exists :: "string \<Rightarrow> string \<Rightarrow> 's exec_state_scheme \<Rightarrow> runtime_error err" where
  "execution_exists constraint k st =
     require (row_at xr_ExecutionID k (xs_Executions st) \<noteq> None) (ErrConflict constraint)"

subsection \<open>Executions\<close>

definition new_execution :: "string \<Rightarrow> int \<Rightarrow> CreateRealizationExecutionInput \<Rightarrow> execution_row" where
  "new_execution fresh now i =
     \<lparr>xr_ExecutionID = id_or (ce_ExecutionID i) fresh, xr_Reference = ce_Reference i,
      xr_SeedID = ce_SeedID i, xr_RealizationID = ce_RealizationID i, xr_Backend = ce_Backend i,
      xr_Mode = id_or (ce_Mode i) ''preview'', xr_Status = ce_Status i,
      xr_RouteSubdomain = nullString (ce_RouteSubdomain i),
      xr_RoutePathPrefix = nullString (ce_RoutePathPrefix i),
      xr_PreviewPathPrefix = nullString (ce_PreviewPathPrefix i),
      xr_UpstreamAddr = nullString (ce_UpstreamAddr i),
      xr_ExecutionPackageRef = nullString (ce_ExecutionPackageRef i),
      xr_LaunchedByPrincipalID = nullString (ce_LaunchedByPrincipalID i),
      xr_LaunchedBySessionID = nullString (ce_LaunchedBySessionID i),
      xr_RequestID = nullString (ce_RequestID i), xr_Metadata = ce_Metadata i,
      xr_StartedAt = time_or (ce_StartedAt i) now, xr_HealthyAt = None, xr_StoppedAt = None,
      xr_LastError = None\<rparr>"

definition CreateRealizationExecution ::
  "string \<Rightarrow> int \<Rightarrow> CreateRealizationExecutionInput \<Rightarrow> 's exec_state_scheme \<Rightarrow>
   (runtime_error + RealizationExecution) \<times> 's exec_state_scheme" where
  "CreateRealizationExecution fresh now i st =
     (if \<not> xs_Ready st then (Inl NotConfigured, st)
      else if blank (ce_Reference i) \<or> blank (ce_SeedID i) \<or> blank (ce_RealizationID i)
        then (Inl (Required ''reference, seed_id, and realization_id''), st)
      else if blank (ce_Backend i) \<or> blank (ce_Status i) then (Inl (Required ''backend and status''), st)
      else answer (scanRealizationExecution (new_execution fresh now i)) (\<lambda>t st. st\<lparr>xs_Executions := t\<rparr>)
             (insert_new ''runtime_realization_executions_pkey'' xr_ExecutionID (new_execution fresh now i)
                (xs_Executions st)) st)"

text \<open>\<open>case when $n <> '' then $n else column end\<close>, and the merge of JSON objects.\<close>

definition set_text :: "string \<Rightarrow> string option \<Rightarrow> string option" where
  "set_text v old = (if trim_space v = [] then old else Some (trim_space v))"

definition merge_json :: "json_map \<Rightarrow> json_map \<Rightarrow> json_map" where
  "merge_json old new = filter (\<lambda>e. fst e \<notin> fst ` set new) old @ new"

text \<open>A time that is set once, when the status asks for it, unless it is given.\<close>

definition set_time :: "int option \<Rightarrow> bool \<Rightarrow> int \<Rightarrow> int option \<Rightarrow> int option" where
  "set_time given asked dbnow old =
     (case nullTimeValue given of
        Some t \<Rightarrow> Some t
      | None \<Rightarrow> if asked \<and> old = None then Some dbnow else old)"

definition update_execution :: "int \<Rightarrow> UpdateRealizationExecutionInput \<Rightarrow> execution_row \<Rightarrow> execution_row" where
  "update_execution dbnow i r =
     (let status = trim_space (ue_Status i) in
      r\<lparr>xr_Status := (if status = [] then xr_Status r else status),
        xr_UpstreamAddr := set_text (ue_UpstreamAddr i) (xr_UpstreamAddr r),
        xr_PreviewPathPrefix := set_text (ue_PreviewPathPrefix i) (xr_PreviewPathPrefix r),
        xr_HealthyAt := set_time (ue_HealthyAt i) (status = ''healthy'') dbnow (xr_HealthyAt r),
        xr_StoppedAt := set_time (ue_StoppedAt i) (status \<in> {''stopped'', ''failed''}) dbnow (xr_StoppedAt r),
        xr_LastError := set_text (ue_LastError i) (xr_LastError r),
        xr_Metadata := (if ue_Metadata i = [] then xr_Metadata r else merge_json (xr_Metadata r) (ue_Metadata i))\<rparr>)"

definition UpdateRealizationExecution ::
  "int \<Rightarrow> string \<Rightarrow> UpdateRealizationExecutionInput \<Rightarrow> 's exec_state_scheme \<Rightarrow>
   (runtime_error + RealizationExecution) \<times> 's exec_state_scheme" where
  "UpdateRealizationExecution dbnow executionID i st =
     (if \<not> xs_Ready st then (Inl NotConfigured, st)
      else if trim_space executionID = [] then (Inl (Required ''execution_id''), st)
      else
        (let k = trim_space executionID;
             t = update_rows (\<lambda>r. xr_ExecutionID r = k) (update_execution dbnow i) (xs_Executions st)
         in case row_at xr_ExecutionID k t of
              None \<Rightarrow> (Inl ErrNotFound, st)
            | Some r \<Rightarrow> (Inr (scanRealizationExecution r), st\<lparr>xs_Executions := t\<rparr>)))"

definition GetRealizationExecution :: "string \<Rightarrow> 's exec_state_scheme \<Rightarrow> runtime_error + RealizationExecution" where
  "GetRealizationExecution executionID st =
     (if \<not> xs_Ready st then Inl NotConfigured
      else case row_at xr_ExecutionID (trim_space executionID) (xs_Executions st) of
        None \<Rightarrow> Inl ErrNotFound | Some r \<Rightarrow> Inr (scanRealizationExecution r))"

definition ListRealizationExecutions ::
  "string \<Rightarrow> int \<Rightarrow> 's exec_state_scheme \<Rightarrow> runtime_error + RealizationExecution list" where
  "ListRealizationExecutions reference limit st =
     (if \<not> xs_Ready st then Inl NotConfigured
      else Inr (map scanRealizationExecution
        (latest_rows xr_StartedAt (clampLimit limit 50 200)
          (filter (\<lambda>r. trim_space reference = [] \<or> xr_Reference r = trim_space reference)
             (xs_Executions st)))))"

subsection \<open>Events and logs\<close>

definition new_event :: "string \<Rightarrow> int \<Rightarrow> RecordRealizationExecutionEventInput \<Rightarrow> RealizationExecutionEvent" where
  "new_event fresh now i =
     \<lparr>ee_EventID = id_or (ree_EventID i) fresh, ee_ExecutionID = ree_ExecutionID i,
      ee_Name = ree_Name i, ee_Data = ree_Data i, ee_OccurredAt = time_or (ree_OccurredAt i) now\<rparr>"

definition RecordRealizationExecutionEvent ::
  "string \<Rightarrow> int \<Rightarrow> RecordRealizationExecutionEventInput \<Rightarrow> 's exec_state_scheme \<Rightarrow>
   (runtime_error + RealizationExecutionEvent) \<times> 's exec_state_scheme" where
  "RecordRealizationExecutionEvent fresh now i st =
     (if \<not> xs_Ready st then (Inl NotConfigured, st)
      else if blank (ree_ExecutionID i) \<or> blank (ree_Name i)
        then (Inl (Required ''execution_id and name''), st)
      else
        (let r = new_event fresh now i in
         answer r (\<lambda>t st. st\<lparr>xs_Events := t\<rparr>)
           (and_then (insert_new ''runtime_realization_execution_events_pkey'' ee_EventID r (xs_Events st))
             (\<lambda>t. guard_err (execution_exists ''runtime_realization_execution_events_execution_id_fkey''
                (ee_ExecutionID r) st) (Inr t))) st))"

definition ListRealizationExecutionEvents ::
  "string \<Rightarrow> int \<Rightarrow> 's exec_state_scheme \<Rightarrow> runtime_error + RealizationExecutionEvent list" where
  "ListRealizationExecutionEvents executionID limit st =
     (if \<not> xs_Ready st then Inl NotConfigured
      else Inr (latest_rows ee_OccurredAt (clampLimit limit 50 200)
        (filter (\<lambda>r. ee_ExecutionID r = trim_space executionID) (xs_Events st))))"

definition new_log :: "string \<Rightarrow> int \<Rightarrow> RecordRealizationExecutionLogInput \<Rightarrow> RealizationExecutionLog" where
  "new_log fresh now i =
     \<lparr>exl_LogID = id_or (rli_LogID i) fresh, exl_ExecutionID = rli_ExecutionID i,
      exl_Source = trim_space (rli_Source i), exl_Stream = trim_space (rli_Stream i),
      exl_Message = rli_Message i, exl_OccurredAt = time_or (rli_OccurredAt i) now\<rparr>"

definition RecordRealizationExecutionLog ::
  "string \<Rightarrow> int \<Rightarrow> RecordRealizationExecutionLogInput \<Rightarrow> 's exec_state_scheme \<Rightarrow>
   (runtime_error + RealizationExecutionLog) \<times> 's exec_state_scheme" where
  "RecordRealizationExecutionLog fresh now i st =
     (if \<not> xs_Ready st then (Inl NotConfigured, st)
      else if blank (rli_ExecutionID i) \<or> blank (rli_Source i)
        then (Inl (Required ''execution_id and source''), st)
      else if blank (rli_Message i) then (Inl (Required ''message''), st)
      else
        (let r = new_log fresh now i in
         answer r (\<lambda>t st. st\<lparr>xs_Logs := t\<rparr>)
           (and_then (insert_new ''runtime_realization_execution_logs_pkey'' exl_LogID r (xs_Logs st))
             (\<lambda>t. guard_err (execution_exists ''runtime_realization_execution_logs_execution_id_fkey''
                (exl_ExecutionID r) st) (Inr t))) st))"

subsection \<open>Activation\<close>

definition new_activation :: "int \<Rightarrow> ActivateRealizationInput \<Rightarrow> activation_row" where
  "new_activation dbnow i =
     \<lparr>actr_SeedID = ain_SeedID i, actr_Reference = ain_Reference i,
      actr_ExecutionID = Some (ain_ExecutionID i),
      actr_ActivatedByPrincipalID = nullString (ain_ActivatedByPrincipalID i),
      actr_ActivatedBySessionID = nullString (ain_ActivatedBySessionID i),
      actr_RequestID = nullString (ain_RequestID i), actr_Metadata = ain_Metadata i,
      actr_ActivatedAt = dbnow\<rparr>"

definition ActivateRealization ::
  "int \<Rightarrow> ActivateRealizationInput \<Rightarrow> 's exec_state_scheme \<Rightarrow> (runtime_error + RealizationActivation) \<times> 's exec_state_scheme"
where
  "ActivateRealization dbnow i st =
     (if \<not> xs_Ready st then (Inl NotConfigured, st)
      else if blank (ain_SeedID i) \<or> blank (ain_Reference i) \<or> blank (ain_ExecutionID i)
        then (Inl (Required ''seed_id, reference, and execution_id''), st)
      else
        (let r = new_activation dbnow i in
         answer (scanRealizationActivation r) (\<lambda>t st. st\<lparr>xs_Activations := t\<rparr>)
           (guard_err (execution_exists ''runtime_realization_activation_execution_id_fkey'' (ain_ExecutionID i) st)
              (Inr (upsert_row actr_Reference r (\<lambda>_. r) (xs_Activations st)))) st))"

definition GetRealizationActivation :: "string \<Rightarrow> 's exec_state_scheme \<Rightarrow> runtime_error + RealizationActivation" where
  "GetRealizationActivation reference st =
     (if \<not> xs_Ready st then Inl NotConfigured
      else case row_at actr_Reference (trim_space reference) (xs_Activations st) of
        None \<Rightarrow> Inl ErrNotFound | Some r \<Rightarrow> Inr (scanRealizationActivation r))"

definition DeleteRealizationActivation :: "string \<Rightarrow> 's exec_state_scheme \<Rightarrow> runtime_error err \<times> 's exec_state_scheme" where
  "DeleteRealizationActivation reference st =
     (if \<not> xs_Ready st then (Some NotConfigured, st)
      else (None, st\<lparr>xs_Activations :=
        filter (\<lambda>r. actr_Reference r \<noteq> trim_space reference) (xs_Activations st)\<rparr>))"

subsection \<open>Route bindings\<close>

definition new_binding :: "string \<Rightarrow> string \<Rightarrow> int \<Rightarrow> RealizationRouteBindingInput \<Rightarrow> binding_row" where
  "new_binding fresh executionID dbnow i =
     \<lparr>rbr_BindingID = id_or (rbi_BindingID i) fresh, rbr_ExecutionID = executionID,
      rbr_SeedID = rbi_SeedID i, rbr_Reference = rbi_Reference i,
      rbr_BindingKind = rbi_BindingKind i, rbr_Subdomain = nullString (rbi_Subdomain i),
      rbr_PathPrefix = nullString (rbi_PathPrefix i), rbr_UpstreamAddr = rbi_UpstreamAddr i,
      rbr_Status = id_or (rbi_Status i) ''active'', rbr_Metadata = rbi_Metadata i,
      rbr_CreatedAt = dbnow, rbr_UpdatedAt = dbnow\<rparr>"

text \<open>The loop of the transaction; the random identifiers are a stream.\<close>

fun insert_bindings ::
  "(nat \<Rightarrow> string) \<Rightarrow> nat \<Rightarrow> string \<Rightarrow> int \<Rightarrow> RealizationRouteBindingInput list \<Rightarrow> 's exec_state_scheme \<Rightarrow>
   runtime_error + RealizationRouteBinding list \<times> 's exec_state_scheme" where
  "insert_bindings random n k dbnow [] st = Inr ([], st)"
| "insert_bindings random n k dbnow (i # is) st =
     (let r = new_binding (random n) k dbnow i in
      and_then (insert_new ''runtime_realization_route_bindings_pkey'' rbr_BindingID r (xs_Bindings st)) (\<lambda>t.
        guard_err (execution_exists ''runtime_realization_route_bindings_execution_id_fkey'' k st)
          (map_sum id (\<lambda>(bs, st'). (scanRealizationRouteBinding r # bs, st'))
            (insert_bindings random (Suc n) k dbnow is (st\<lparr>xs_Bindings := t\<rparr>)))))"

definition ReplaceRealizationRouteBindings ::
  "(nat \<Rightarrow> string) \<Rightarrow> int \<Rightarrow> string \<Rightarrow> RealizationRouteBindingInput list \<Rightarrow> 's exec_state_scheme \<Rightarrow>
   (runtime_error + RealizationRouteBinding list) \<times> 's exec_state_scheme" where
  "ReplaceRealizationRouteBindings random dbnow executionID bindings st =
     (let k = trim_space executionID in
      if \<not> xs_Ready st then (Inl NotConfigured, st)
      else if k = [] then (Inl (Required ''execution_id''), st)
      else case insert_bindings random 0 k dbnow bindings
             (st\<lparr>xs_Bindings := filter (\<lambda>r. rbr_ExecutionID r \<noteq> k) (xs_Bindings st)\<rparr>) of
        Inl e \<Rightarrow> (Inl e, st)
      | Inr (bs, st') \<Rightarrow> (Inr bs, st'))"

definition DeleteStableRouteBindingsForReference :: "string \<Rightarrow> 's exec_state_scheme \<Rightarrow> runtime_error err \<times> 's exec_state_scheme" where
  "DeleteStableRouteBindingsForReference reference st =
     (if \<not> xs_Ready st then (Some NotConfigured, st)
      else (None, st\<lparr>xs_Bindings :=
        filter (\<lambda>r. \<not> (rbr_Reference r = trim_space reference \<and>
                       rbr_BindingKind r \<in> {''stable_subdomain'', ''stable_path''})) (xs_Bindings st)\<rparr>))"

definition DeleteRealizationRouteBindings :: "string \<Rightarrow> 's exec_state_scheme \<Rightarrow> runtime_error err \<times> 's exec_state_scheme" where
  "DeleteRealizationRouteBindings executionID st =
     (if \<not> xs_Ready st then (Some NotConfigured, st)
      else (None, st\<lparr>xs_Bindings :=
        filter (\<lambda>r. rbr_ExecutionID r \<noteq> trim_space executionID) (xs_Bindings st)\<rparr>))"

text \<open>
  \<open>order by char_length(coalesce(path_prefix, '')) desc, updated_at desc\<close>; the length is counted
  in bytes here, which is the same for the ASCII prefixes of routes.
\<close>

definition binding_order :: "binding_row \<Rightarrow> int \<times> int" where
  "binding_order r = (- int (length (string_of_null (rbr_PathPrefix r))), - rbr_UpdatedAt r)"

definition ListRealizationRouteBindings :: "bool \<Rightarrow> 's exec_state_scheme \<Rightarrow> runtime_error + RealizationRouteBinding list" where
  "ListRealizationRouteBindings activeOnly st =
     (if \<not> xs_Ready st then Inl NotConfigured
      else Inr (map scanRealizationRouteBinding
        (sort_key binding_order
          (filter (\<lambda>r. \<not> activeOnly \<or> rbr_Status r = ''active'') (xs_Bindings st)))))"

subsection \<open>Reset of a backend\<close>

definition running :: "execution_row \<Rightarrow> bool" where
  "running r \<longleftrightarrow> xr_Status r \<in> {''launch_requested'', ''starting'', ''healthy''}"

definition stop_execution :: "int \<Rightarrow> string \<Rightarrow> execution_row \<Rightarrow> execution_row" where
  "stop_execution dbnow reason r =
     r\<lparr>xr_Status := ''stopped'', xr_StoppedAt := Some dbnow, xr_LastError := set_text reason (xr_LastError r)\<rparr>"

definition of_backend :: "string \<Rightarrow> 's exec_state_scheme \<Rightarrow> string \<Rightarrow> bool" where
  "of_backend backend st k \<longleftrightarrow> (\<exists>r\<in>set (xs_Executions st). xr_Backend r = backend \<and> xr_ExecutionID r = k)"

definition ResetBackendExecutions ::
  "int \<Rightarrow> string \<Rightarrow> string \<Rightarrow> 's exec_state_scheme \<Rightarrow> runtime_error err \<times> 's exec_state_scheme" where
  "ResetBackendExecutions dbnow backend reason st =
     (let b = trim_space backend in
      if \<not> xs_Ready st then (Some NotConfigured, st)
      else if b = [] then (Some (Required ''backend''), st)
      else (None,
        st\<lparr>xs_Executions := update_rows (\<lambda>r. xr_Backend r = b \<and> running r) (stop_execution dbnow reason)
              (xs_Executions st),
           xs_Bindings := filter (\<lambda>r. \<not> of_backend b st (rbr_ExecutionID r)) (xs_Bindings st),
           xs_Activations := filter (\<lambda>r. case actr_ExecutionID r of None \<Rightarrow> True
                                        | Some k \<Rightarrow> \<not> of_backend b st k) (xs_Activations st)\<rparr>))"

end
