(* ===== verification/Execution_Properties.thy ===== *)
theory Execution_Properties
  imports Executions
begin

text \<open>
  What the store of executions promises: it stays well formed, the bindings of an execution are
  replaced as one, and the reset of a backend leaves nothing of it running or reachable.
\<close>

subsection \<open>The store stays well formed\<close>

inductive exec_step :: "'s exec_state_scheme \<Rightarrow> 's exec_state_scheme \<Rightarrow> bool" where
  step_create: "exec_step st (snd (CreateRealizationExecution fresh now i st))"
| step_update: "exec_step st (snd (UpdateRealizationExecution dbnow k u st))"
| step_event: "exec_step st (snd (RecordRealizationExecutionEvent fresh now e st))"
| step_log: "exec_step st (snd (RecordRealizationExecutionLog fresh now l st))"
| step_activate: "exec_step st (snd (ActivateRealization dbnow a st))"
| step_deactivate: "exec_step st (snd (DeleteRealizationActivation ref st))"
| step_replace: "exec_step st (snd (ReplaceRealizationRouteBindings random dbnow k bs st))"
| step_unbind: "exec_step st (snd (DeleteRealizationRouteBindings k st))"
| step_unbind_stable: "exec_step st (snd (DeleteStableRouteBindingsForReference ref st))"
| step_reset: "exec_step st (snd (ResetBackendExecutions dbnow backend reason st))"

definition no_executions :: "bool \<Rightarrow> exec_state" where
  "no_executions ready =
     \<lparr>xs_Ready = ready, xs_Executions = [], xs_Events = [], xs_Activations = [], xs_Bindings = [], xs_Logs = []\<rparr>"

definition execution_ids :: "'s exec_state_scheme \<Rightarrow> string set" where
  "execution_ids st = xr_ExecutionID ` set (xs_Executions st)"

text \<open>A table whose rows have distinct keys and refer to executions that exist.\<close>

definition keyed :: "('r \<Rightarrow> 'k) \<Rightarrow> ('r \<Rightarrow> string option) \<Rightarrow> string set \<Rightarrow> 'r list \<Rightarrow> bool" where
  "keyed key fk ids t \<longleftrightarrow> distinct (map key t) \<and> (\<forall>r\<in>set t. \<forall>k. fk r = Some k \<longrightarrow> k \<in> ids)"

lemma keyed_Nil [simp]: "keyed key fk ids []"
  by (simp add: keyed_def)

lemma keyed_insert [runtime_row]:
  "keyed key fk ids t \<Longrightarrow> row_at key (key r) t = None \<Longrightarrow> (\<And>k. fk r = Some k \<Longrightarrow> k \<in> ids) \<Longrightarrow>
   keyed key fk ids (t @ [r])"
  by (auto simp: keyed_def row_at_None)

lemma keyed_filter [intro]: "keyed key fk ids t \<Longrightarrow> keyed key fk ids (filter p t)"
  by (auto simp: keyed_def distinct_map_filter)

lemma keyed_mono: "keyed key fk ids t \<Longrightarrow> ids \<subseteq> ids' \<Longrightarrow> keyed key fk ids' t"
  by (auto simp: keyed_def)

lemma keyed_upsert:
  assumes "keyed key fk ids t" "\<And>k. fk r = Some k \<Longrightarrow> k \<in> ids"
  shows "keyed key fk ids (upsert_row key r (\<lambda>_. r) t)"
proof -
  have "distinct (map key (upsert_row key r (\<lambda>_. r) t))"
    using assms(1) by (intro distinct_upsert_row) (simp_all add: keyed_def)
  moreover have "set (upsert_row key r (\<lambda>_. r) t) \<subseteq> insert r (set t)"
    by (auto simp: upsert_row_def in_update_rows split: if_splits)
  ultimately show ?thesis using assms by (auto simp: keyed_def)
qed

definition exec_ok :: "'s exec_state_scheme \<Rightarrow> bool" where
  "exec_ok st \<longleftrightarrow>
     distinct (map xr_ExecutionID (xs_Executions st)) \<and>
     keyed ee_EventID (\<lambda>r. Some (ee_ExecutionID r)) (execution_ids st) (xs_Events st) \<and>
     keyed exl_LogID (\<lambda>r. Some (exl_ExecutionID r)) (execution_ids st) (xs_Logs st) \<and>
     keyed actr_Reference actr_ExecutionID (execution_ids st) (xs_Activations st) \<and>
     keyed rbr_BindingID (\<lambda>r. Some (rbr_ExecutionID r)) (execution_ids st) (xs_Bindings st)"

lemma execution_exists_eq: "execution_exists c k st = (if k \<in> execution_ids st then None else Some (ErrConflict c))"
  by (auto simp: execution_exists_def execution_ids_def require_def row_at_None)

lemma execution_exists_iff [simp]: "execution_exists c k st = None \<longleftrightarrow> k \<in> execution_ids st"
  by (simp add: execution_exists_eq)

lemma execution_ids_more [simp]:
  "execution_ids (st\<lparr>xs_Events := a\<rparr>) = execution_ids st"
  "execution_ids (st\<lparr>xs_Logs := b\<rparr>) = execution_ids st"
  "execution_ids (st\<lparr>xs_Activations := c\<rparr>) = execution_ids st"
  "execution_ids (st\<lparr>xs_Bindings := d\<rparr>) = execution_ids st"
  by (simp_all add: execution_ids_def)

lemma exec_okD:
  assumes "exec_ok st"
  shows "distinct (map xr_ExecutionID (xs_Executions st))"
    and "keyed ee_EventID (\<lambda>r. Some (ee_ExecutionID r)) (execution_ids st) (xs_Events st)"
    and "keyed exl_LogID (\<lambda>r. Some (exl_ExecutionID r)) (execution_ids st) (xs_Logs st)"
    and "keyed actr_Reference actr_ExecutionID (execution_ids st) (xs_Activations st)"
    and "keyed rbr_BindingID (\<lambda>r. Some (rbr_ExecutionID r)) (execution_ids st) (xs_Bindings st)"
  using assms by (simp_all add: exec_ok_def)

lemma exec_ok_tables [simp]:
  assumes "exec_ok st"
  shows "exec_ok (st\<lparr>xs_Events := a\<rparr>) \<longleftrightarrow> keyed ee_EventID (\<lambda>r. Some (ee_ExecutionID r)) (execution_ids st) a"
    and "exec_ok (st\<lparr>xs_Logs := b\<rparr>) \<longleftrightarrow> keyed exl_LogID (\<lambda>r. Some (exl_ExecutionID r)) (execution_ids st) b"
    and "exec_ok (st\<lparr>xs_Activations := c\<rparr>) \<longleftrightarrow> keyed actr_Reference actr_ExecutionID (execution_ids st) c"
    and "exec_ok (st\<lparr>xs_Bindings := d\<rparr>) \<longleftrightarrow> keyed rbr_BindingID (\<lambda>r. Some (rbr_ExecutionID r)) (execution_ids st) d"
  using assms by (simp_all add: exec_ok_def)

text \<open>An answer changes the state only if its statement succeeds.\<close>

lemma answer_keeps:
  "exec_ok st \<Longrightarrow> (\<And>t. r = Inr t \<Longrightarrow> exec_ok (upd t st)) \<Longrightarrow> exec_ok (snd (answer v upd r st))"
  by (cases r) simp_all

lemma update_execution_id [simp]: "xr_ExecutionID (update_execution dbnow i r) = xr_ExecutionID r"
  by (simp add: update_execution_def Let_def)

lemma stop_execution_id [simp]: "xr_ExecutionID (stop_execution dbnow reason r) = xr_ExecutionID r"
  by (simp add: stop_execution_def)

lemma exec_ok_executions:
  assumes "exec_ok st" "map xr_ExecutionID t = map xr_ExecutionID (xs_Executions st)"
  shows "exec_ok (st\<lparr>xs_Executions := t\<rparr>)"
proof -
  have "execution_ids (st\<lparr>xs_Executions := t\<rparr>) = execution_ids st"
    using arg_cong[OF assms(2), of set] by (simp add: execution_ids_def)
  then show ?thesis using assms by (simp add: exec_ok_def)
qed

lemma create_keeps: "exec_ok st \<Longrightarrow> exec_ok (snd (CreateRealizationExecution fresh now i st))"
proof -
  assume ok: "exec_ok st"
  have "exec_ok (st\<lparr>xs_Executions := xs_Executions st @ [r]\<rparr>)"
    if "row_at xr_ExecutionID (xr_ExecutionID r) (xs_Executions st) = None" for r
  proof -
    have "execution_ids st \<subseteq> execution_ids (st\<lparr>xs_Executions := xs_Executions st @ [r]\<rparr>)"
      by (auto simp: execution_ids_def)
    with ok show ?thesis using that
      by (simp add: exec_ok_def row_at_None keyed_mono[of _ _ "execution_ids st"])
  qed
  then show ?thesis using ok
    by (auto simp: CreateRealizationExecution_def insert_new_Inr intro!: answer_keeps)
qed

lemma update_keeps: "exec_ok st \<Longrightarrow> exec_ok (snd (UpdateRealizationExecution dbnow k u st))"
  by (simp add: UpdateRealizationExecution_def Let_def keys_update_rows exec_ok_executions split: option.split)

lemma event_keeps: "exec_ok st \<Longrightarrow> exec_ok (snd (RecordRealizationExecutionEvent fresh now e st))"
  by (auto simp: RecordRealizationExecutionEvent_def Let_def insert_new_Inr
      intro!: answer_keeps keyed_insert exec_okD)

lemma log_keeps: "exec_ok st \<Longrightarrow> exec_ok (snd (RecordRealizationExecutionLog fresh now l st))"
  by (auto simp: RecordRealizationExecutionLog_def Let_def insert_new_Inr
      intro!: answer_keeps keyed_insert exec_okD)

lemma activate_keeps: "exec_ok st \<Longrightarrow> exec_ok (snd (ActivateRealization dbnow a st))"
proof -
  assume ok: "exec_ok st"
  let ?r = "new_activation dbnow a"
  have "keyed actr_Reference actr_ExecutionID (execution_ids st) (upsert_row actr_Reference ?r (\<lambda>_. ?r) (xs_Activations st))"
    if "ain_ExecutionID a \<in> execution_ids st"
    using exec_okD(4)[OF ok] that by (intro keyed_upsert) (auto simp: new_activation_def)
  with ok show ?thesis by (auto simp: ActivateRealization_def Let_def intro!: answer_keeps)
qed

subsection \<open>Replacing bindings\<close>

text \<open>The rows a replacement stores, with the random identifiers in the order they are drawn.\<close>

fun binding_rows :: "(nat \<Rightarrow> string) \<Rightarrow> nat \<Rightarrow> string \<Rightarrow> int \<Rightarrow> RealizationRouteBindingInput list \<Rightarrow> binding_row list" where
  "binding_rows random n k dbnow [] = []"
| "binding_rows random n k dbnow (i # inputs) = new_binding (random n) k dbnow i # binding_rows random (Suc n) k dbnow inputs"

definition storable :: "string \<Rightarrow> binding_row list \<Rightarrow> 's exec_state_scheme \<Rightarrow> bool" where
  "storable k rows st \<longleftrightarrow>
     distinct (map rbr_BindingID rows) \<and>
     rbr_BindingID ` set rows \<inter> rbr_BindingID ` set (xs_Bindings st) = {} \<and>
     (rows = [] \<or> k \<in> execution_ids st)"

lemma binding_rows_execution: "r \<in> set (binding_rows random n k dbnow inputs) \<Longrightarrow> rbr_ExecutionID r = k"
  by (induction inputs arbitrary: n) (auto simp: new_binding_def)

lemma insert_bindings_eq:
  "(case insert_bindings random n k dbnow inputs st of
      Inl e \<Rightarrow> \<not> storable k (binding_rows random n k dbnow inputs) st
    | Inr (bs, st') \<Rightarrow> storable k (binding_rows random n k dbnow inputs) st \<and>
        bs = map scanRealizationRouteBinding (binding_rows random n k dbnow inputs) \<and>
        st' = st\<lparr>xs_Bindings := xs_Bindings st @ binding_rows random n k dbnow inputs\<rparr>)"
proof (induction inputs arbitrary: n st)
  case Nil
  then show ?case by (simp add: storable_def)
next
  case (Cons i inputs)
  let ?r = "new_binding (random n) k dbnow i" and ?rows = "binding_rows random (Suc n) k dbnow inputs"
  let ?st = "st\<lparr>xs_Bindings := xs_Bindings st @ [?r]\<rparr>"
  have split: "storable k (?r # ?rows) st \<longleftrightarrow>
      row_at rbr_BindingID (rbr_BindingID ?r) (xs_Bindings st) = None \<and> k \<in> execution_ids st \<and> storable k ?rows ?st"
    by (auto simp: storable_def row_at_None)
  show ?case
  proof (cases "row_at rbr_BindingID (rbr_BindingID ?r) (xs_Bindings st) = None \<and> k \<in> execution_ids st")
    case True
    then have "insert_bindings random n k dbnow (i # inputs) st =
        map_sum id (\<lambda>(bs, st'). (scanRealizationRouteBinding ?r # bs, st')) (insert_bindings random (Suc n) k dbnow inputs ?st)"
      by (simp add: insert_new_def and_then_def guard_err_def execution_exists_eq Let_def)
    then show ?thesis
      using Cons.IH[of "Suc n" ?st] True split
      by (cases "insert_bindings random (Suc n) k dbnow inputs ?st") auto
  next
    case False
    then have "\<exists>e. insert_bindings random n k dbnow (i # inputs) st = Inl e"
      by (auto simp: insert_new_def and_then_def guard_err_def execution_exists_eq Let_def)
    then show ?thesis using False split by auto
  qed
qed

lemma replace_eq:
  "ReplaceRealizationRouteBindings random dbnow executionID bindings st =
     (let k = trim_space executionID;
          rows = binding_rows random 0 k dbnow bindings;
          rest = st\<lparr>xs_Bindings := filter (\<lambda>r. rbr_ExecutionID r \<noteq> k) (xs_Bindings st)\<rparr>
      in if xs_Ready st \<and> k \<noteq> [] \<and> storable k rows rest
         then (Inr (map scanRealizationRouteBinding rows), rest\<lparr>xs_Bindings := xs_Bindings rest @ rows\<rparr>)
         else (Inl (projl (fst (ReplaceRealizationRouteBindings random dbnow executionID bindings st))), st))"
  using insert_bindings_eq[where random = random and n = 0 and k = "trim_space executionID" and dbnow = dbnow
      and inputs = bindings and st = "st\<lparr>xs_Bindings := filter (\<lambda>r. rbr_ExecutionID r \<noteq> trim_space executionID) (xs_Bindings st)\<rparr>"]
  by (auto simp: ReplaceRealizationRouteBindings_def Let_def split: sum.splits)

lemma keyed_bindings_append:
  assumes "keyed rbr_BindingID (\<lambda>r. Some (rbr_ExecutionID r)) (execution_ids st) (xs_Bindings st)"
    and "storable k (binding_rows random n k dbnow inputs) st"
  shows "keyed rbr_BindingID (\<lambda>r. Some (rbr_ExecutionID r)) (execution_ids st)
    (xs_Bindings st @ binding_rows random n k dbnow inputs)"
  using assms binding_rows_execution[of _ random n k dbnow inputs]
  by (auto simp: keyed_def storable_def)

lemma replace_keeps: "exec_ok st \<Longrightarrow> exec_ok (snd (ReplaceRealizationRouteBindings random dbnow k bs st))"
proof -
  assume ok: "exec_ok st"
  let ?k = "trim_space k"
  let ?rest = "st\<lparr>xs_Bindings := filter (\<lambda>r. rbr_ExecutionID r \<noteq> ?k) (xs_Bindings st)\<rparr>"
  have "keyed rbr_BindingID (\<lambda>r. Some (rbr_ExecutionID r)) (execution_ids ?rest) (xs_Bindings ?rest)"
    using ok by (auto simp: exec_ok_def)
  from keyed_bindings_append[OF this, where k = ?k and random = random and n = 0 and dbnow = dbnow and inputs = bs] ok show ?thesis
    by (subst replace_eq) (simp add: Let_def exec_ok_def)
qed

lemma reset_keeps: "exec_ok st \<Longrightarrow> exec_ok (snd (ResetBackendExecutions dbnow backend reason st))"
proof -
  assume ok: "exec_ok st"
  let ?t = "update_rows (\<lambda>r. xr_Backend r = trim_space backend \<and> running r) (stop_execution dbnow reason)
    (xs_Executions st)"
  have "exec_ok (st\<lparr>xs_Executions := ?t\<rparr>)" using ok by (rule exec_ok_executions) (simp add: keys_update_rows)
  then show ?thesis using ok
    by (auto simp: ResetBackendExecutions_def Let_def exec_ok_def execution_ids_def)
qed

lemma exec_step_keeps: "exec_step st st' \<Longrightarrow> exec_ok st \<Longrightarrow> exec_ok st'"
  by (induction rule: exec_step.induct)
    (simp_all add: create_keeps update_keeps event_keeps log_keeps activate_keeps replace_keeps
      reset_keeps, auto simp: DeleteRealizationActivation_def DeleteRealizationRouteBindings_def
      DeleteStableRouteBindingsForReference_def exec_ok_def)

interpretation executions: machine_invariant exec_step "no_executions ready" exec_ok for ready
  by unfold_locales (simp add: exec_ok_def no_executions_def, rule exec_step_keeps)

subsection \<open>Properties\<close>

text \<open>C23: in every state that the operations reach from the empty store the identifiers of executions,
  events, logs and bindings are unique, a reference has at most one activation, and every event, log,
  binding and activation belongs to a stored execution.\<close>

theorem execution_store_is_well_formed:
  assumes "reachable exec_step (no_executions ready) st"
  shows "distinct (map xr_ExecutionID (xs_Executions st)) \<and> distinct (map ee_EventID (xs_Events st)) \<and>
    distinct (map exl_LogID (xs_Logs st)) \<and> distinct (map rbr_BindingID (xs_Bindings st)) \<and>
    distinct (map actr_Reference (xs_Activations st)) \<and>
    ee_ExecutionID ` set (xs_Events st) \<union> exl_ExecutionID ` set (xs_Logs st) \<union>
      rbr_ExecutionID ` set (xs_Bindings st) \<union> (\<Union>a\<in>set (xs_Activations st). set_option (actr_ExecutionID a))
      \<subseteq> xr_ExecutionID ` set (xs_Executions st)"
  using executions.holds[OF assms] by (auto simp: exec_ok_def keyed_def execution_ids_def)

definition sample_execution :: CreateRealizationExecutionInput where
  "sample_execution =
     \<lparr>ce_ExecutionID = ''x'', ce_Reference = ''s/r'', ce_SeedID = ''s'', ce_RealizationID = ''r'',
      ce_Backend = ''local'', ce_Mode = [], ce_Status = ''starting'', ce_RouteSubdomain = [],
      ce_RoutePathPrefix = [], ce_PreviewPathPrefix = [], ce_UpstreamAddr = [], ce_ExecutionPackageRef = [],
      ce_LaunchedByPrincipalID = [], ce_LaunchedBySessionID = [], ce_RequestID = [], ce_Metadata = [],
      ce_StartedAt = Some 3\<rparr>"

definition sample_activation :: ActivateRealizationInput where
  "sample_activation =
     \<lparr>ain_SeedID = ''s'', ain_Reference = ''s/r'', ain_ExecutionID = ''x'', ain_ActivatedByPrincipalID = [],
      ain_ActivatedBySessionID = [], ain_RequestID = [], ain_Metadata = []\<rparr>"

definition sample_binding :: RealizationRouteBindingInput where
  "sample_binding =
     \<lparr>rbi_BindingID = [], rbi_ExecutionID = [], rbi_SeedID = ''s'', rbi_Reference = ''s/r'',
      rbi_BindingKind = ''preview'', rbi_Subdomain = [], rbi_PathPrefix = ''/p'', rbi_UpstreamAddr = ''u'',
      rbi_Status = [], rbi_Metadata = []\<rparr>"

text \<open>An execution that is created, bound to two routes and activated.\<close>

definition sample_exec :: exec_state where
  "sample_exec =
     snd (ActivateRealization 5 sample_activation
       (snd (ReplaceRealizationRouteBindings (\<lambda>n. ''b'' @ replicate n CHR ''1'') 4 ''x'' [sample_binding, sample_binding]
         (snd (CreateRealizationExecution ''f'' 1 sample_execution (no_executions True))))))"

lemma sample_exec_values:
  "map xr_ExecutionID (xs_Executions sample_exec) = [''x'']"
  "map (\<lambda>r. (xr_Backend r, running r)) (xs_Executions sample_exec) = [(''local'', True)]"
  "map rbr_BindingID (xs_Bindings sample_exec) = [''b'', ''b1'']"
  "map actr_ExecutionID (xs_Activations sample_exec) = [Some ''x'']"
  "xs_Ready sample_exec"
  by code_simp+

lemma sample_exec_reachable: "reachable exec_step (no_executions True) sample_exec"
  unfolding sample_exec_def
  by (rule reach_step, rule reach_step, rule reach_step, rule reach_start,
      rule step_create, rule step_replace, rule step_activate)

theorem execution_store_is_well_formed_witness:
  "distinct (map rbr_BindingID (xs_Bindings sample_exec)) \<and>
   map rbr_BindingID (xs_Bindings sample_exec) = [''b'', ''b1''] \<and>
   (\<Union>a\<in>set (xs_Activations sample_exec). set_option (actr_ExecutionID a)) \<subseteq> {''x''}"
  using execution_store_is_well_formed[OF sample_exec_reachable] sample_exec_values(1,3)
  by (metis Un_subset_iff list.set(1,2) list.set_map)

text \<open>The route bindings of an execution are replaced as one: either the bindings of the execution are
  exactly the given ones, in their order, and all others stay as they are, or the operation fails and
  nothing has changed. It fails exactly if an identifier is taken or the execution does not exist.\<close>

theorem bindings_replaced_as_one:
  "let k = trim_space executionID; rows = binding_rows random 0 k dbnow bindings;
       others = filter (\<lambda>r. rbr_ExecutionID r \<noteq> k) (xs_Bindings st)
   in if xs_Ready st \<and> k \<noteq> [] \<and> distinct (map rbr_BindingID rows) \<and>
         rbr_BindingID ` set rows \<inter> rbr_BindingID ` set others = {} \<and>
         (bindings = [] \<or> k \<in> xr_ExecutionID ` set (xs_Executions st))
      then ReplaceRealizationRouteBindings random dbnow executionID bindings st =
        (Inr (map scanRealizationRouteBinding rows), st\<lparr>xs_Bindings := others @ rows\<rparr>)
      else \<exists>e. ReplaceRealizationRouteBindings random dbnow executionID bindings st = (Inl e, st)"
proof -
  let ?k = "trim_space executionID"
  have "binding_rows random 0 ?k dbnow bindings = [] \<longleftrightarrow> bindings = []" by (cases bindings) simp_all
  then show ?thesis
    using replace_eq[of random dbnow executionID bindings st]
    by (auto simp: Let_def storable_def execution_ids_def split: if_splits)
qed

text \<open>C24: after the reset of a backend none of its executions is running, none has a route or an
  activation; everything that belongs to other backends, and every event and log, is as it was.\<close>

theorem backend_reset_leaves_nothing:
  assumes "ResetBackendExecutions dbnow backend reason st = (None, st')"
  shows "\<not> (\<exists>r\<in>set (xs_Executions st'). xr_Backend r = trim_space backend \<and>
      (running r \<or> xr_ExecutionID r \<in> rbr_ExecutionID ` set (xs_Bindings st') \<or>
       Some (xr_ExecutionID r) \<in> actr_ExecutionID ` set (xs_Activations st'))) \<and>
    filter (\<lambda>r. xr_Backend r \<noteq> trim_space backend) (xs_Executions st') =
      filter (\<lambda>r. xr_Backend r \<noteq> trim_space backend) (xs_Executions st) \<and>
    map xr_ExecutionID (xs_Executions st') = map xr_ExecutionID (xs_Executions st) \<and>
    (set (xs_Bindings st) - set (xs_Bindings st')) \<subseteq>
      {b. \<exists>r\<in>set (xs_Executions st). xr_Backend r = trim_space backend \<and> xr_ExecutionID r = rbr_ExecutionID b} \<and>
    (set (xs_Activations st) - set (xs_Activations st')) \<subseteq>
      {a. \<exists>r\<in>set (xs_Executions st). xr_Backend r = trim_space backend \<and> actr_ExecutionID a = Some (xr_ExecutionID r)} \<and>
    xs_Events st' = xs_Events st \<and> xs_Logs st' = xs_Logs st"
proof -
  let ?b = "trim_space backend"
  let ?p = "\<lambda>r. xr_Backend r = ?b \<and> running r"
  have st': "xs_Executions st' = update_rows ?p (stop_execution dbnow reason) (xs_Executions st)"
    "xs_Bindings st' = filter (\<lambda>r. \<not> of_backend ?b st (rbr_ExecutionID r)) (xs_Bindings st)"
    "xs_Activations st' = filter (\<lambda>r. case actr_ExecutionID r of None \<Rightarrow> True | Some k \<Rightarrow> \<not> of_backend ?b st k)
      (xs_Activations st)"
    "xs_Events st' = xs_Events st" "xs_Logs st' = xs_Logs st"
    using assms by (auto simp: ResetBackendExecutions_def Let_def split: if_splits)
  have stopped: "\<not> running (stop_execution dbnow reason r)" "xr_Backend (stop_execution dbnow reason r) = xr_Backend r" for r
    by (simp_all add: running_def stop_execution_def)
  have gone: "of_backend ?b st (xr_ExecutionID r)" "\<not> running r"
    if "r \<in> set (xs_Executions st')" "xr_Backend r = ?b" for r
  proof -
    from that(1) obtain r0 where r0: "r0 \<in> set (xs_Executions st)"
      "r = (if ?p r0 then stop_execution dbnow reason r0 else r0)" by (auto simp: st'(1) in_update_rows)
    with that(2) stopped show "of_backend ?b st (xr_ExecutionID r)" "\<not> running r"
      by (auto simp: of_backend_def split: if_splits)
  qed
  have kept: "\<not> of_backend ?b st (rbr_ExecutionID x)" if "x \<in> set (xs_Bindings st')" for x
    using that by (simp add: st'(2))
  have kept_act: "\<not> of_backend ?b st k" if "x \<in> set (xs_Activations st')" "actr_ExecutionID x = Some k" for x k
    using that by (simp add: st'(3))
  have first: "\<not> (\<exists>r\<in>set (xs_Executions st'). xr_Backend r = ?b \<and>
      (running r \<or> xr_ExecutionID r \<in> rbr_ExecutionID ` set (xs_Bindings st') \<or>
       Some (xr_ExecutionID r) \<in> actr_ExecutionID ` set (xs_Activations st')))"
    using gone kept kept_act by (metis imageE)
  have others: "filter (\<lambda>r. xr_Backend r \<noteq> ?b) (update_rows ?p (stop_execution dbnow reason) t) =
      filter (\<lambda>r. xr_Backend r \<noteq> ?b) t" for t
    by (induction t) (auto simp: update_rows_def stopped)
  have "map xr_ExecutionID (xs_Executions st') = map xr_ExecutionID (xs_Executions st)"
    by (simp add: st'(1) keys_update_rows)
  moreover have "set (xs_Bindings st) - set (xs_Bindings st') \<subseteq>
      {b. \<exists>r\<in>set (xs_Executions st). xr_Backend r = ?b \<and> xr_ExecutionID r = rbr_ExecutionID b}"
    "set (xs_Activations st) - set (xs_Activations st') \<subseteq>
      {a. \<exists>r\<in>set (xs_Executions st). xr_Backend r = ?b \<and> actr_ExecutionID a = Some (xr_ExecutionID r)}"
    by (auto simp: st'(2,3) of_backend_def split: option.splits)
  ultimately show ?thesis using first st'(4,5) by (simp add: st'(1) others)
qed

theorem backend_reset_leaves_nothing_witness:
  "\<exists>st'. ResetBackendExecutions 9 ''local'' ''gone'' sample_exec = (None, st') \<and>
     map (\<lambda>r. (xr_Backend r, running r)) (xs_Executions sample_exec) = [(''local'', True)] \<and>
     \<not> (\<exists>r\<in>set (xs_Executions st'). xr_Backend r = trim_space ''local'' \<and> running r) \<and>
     map xr_ExecutionID (xs_Executions st') = [''x'']"
proof -
  have "trim_space ''local'' \<noteq> []" by code_simp
  then obtain st' where r: "ResetBackendExecutions 9 ''local'' ''gone'' sample_exec = (None, st')"
    by (simp add: ResetBackendExecutions_def sample_exec_values(5) Let_def)
  from backend_reset_leaves_nothing[OF r] r show ?thesis
    by (intro exI[of _ st']) (auto simp: sample_exec_values)
qed

end
