(* ===== verification/Operations.thy ===== *)
theory Operations
  imports Executions
begin

text \<open>
  internal/interactions/runtime_operations.go: process samples, service events, suspensions of
  realizations and the pruning of old records, with their types, rows and scan functions. The CPU
  percentage of a sample is an integer here; it is only stored and tested for zero.
\<close>

subsection \<open>Types and rows\<close>

record ProcessSample =
  ps_SampleID :: string
  ps_ScopeKind :: string
  ps_ServiceName :: string
  ps_ExecutionID :: string
  ps_SeedID :: string
  ps_Reference :: string
  ps_PID :: int
  ps_CPUPercent :: int
  ps_RSSBytes :: int
  ps_VirtualBytes :: int
  ps_OpenFDs :: int
  ps_LogBytes :: int
  ps_Metadata :: json_map
  ps_ObservedAt :: int

record RecordProcessSampleInput =
  rp_SampleID :: string
  rp_ScopeKind :: string
  rp_ServiceName :: string
  rp_ExecutionID :: string
  rp_SeedID :: string
  rp_Reference :: string
  rp_PID :: int
  rp_CPUPercent :: int
  rp_RSSBytes :: int
  rp_VirtualBytes :: int
  rp_OpenFDs :: int
  rp_LogBytes :: int
  rp_Metadata :: json_map
  rp_ObservedAt :: "int option"

record ListProcessSamplesInput =
  lps_ScopeKind :: string
  lps_ServiceName :: string
  lps_ExecutionID :: string
  lps_Reference :: string
  lps_Limit :: int

record ServiceEvent =
  se_EventID :: string
  se_ServiceName :: string
  se_EventName :: string
  se_Severity :: string
  se_Message :: string
  se_BootID :: string
  se_PID :: int
  se_RequestID :: string
  se_Metadata :: json_map
  se_OccurredAt :: int

record RecordServiceEventInput =
  rse_EventID :: string
  rse_ServiceName :: string
  rse_EventName :: string
  rse_Severity :: string
  rse_Message :: string
  rse_BootID :: string
  rse_PID :: int
  rse_RequestID :: string
  rse_Metadata :: json_map
  rse_OccurredAt :: "int option"

record ListServiceEventsInput =
  lse_ServiceName :: string
  lse_EventName :: string
  lse_Limit :: int

record RealizationSuspension =
  su_SuspensionID :: string
  su_SeedID :: string
  su_Reference :: string
  su_ExecutionID :: string
  su_RouteSubdomain :: string
  su_RoutePathPrefix :: string
  su_ReasonCode :: string
  su_Message :: string
  su_RemediationTarget :: string
  su_RemediationHint :: string
  su_Status :: string
  su_Metadata :: json_map
  su_CreatedAt :: int
  su_ClearedAt :: "int option"

record UpsertRealizationSuspensionInput =
  usu_SuspensionID :: string
  usu_SeedID :: string
  usu_Reference :: string
  usu_ExecutionID :: string
  usu_RouteSubdomain :: string
  usu_RoutePathPrefix :: string
  usu_ReasonCode :: string
  usu_Message :: string
  usu_RemediationTarget :: string
  usu_RemediationHint :: string
  usu_Status :: string
  usu_Metadata :: json_map
  usu_CreatedAt :: "int option"

record ListRealizationSuspensionsInput =
  lsu_Reference :: string
  lsu_ExecutionID :: string
  lsu_ActiveOnly :: bool
  lsu_Limit :: int

record sample_row =
  psr_SampleID :: string
  psr_ScopeKind :: string
  psr_ServiceName :: "string option"
  psr_ExecutionID :: "string option"
  psr_SeedID :: "string option"
  psr_Reference :: "string option"
  psr_PID :: "int option"
  psr_CPUPercent :: "int option"
  psr_RSSBytes :: "int option"
  psr_VirtualBytes :: "int option"
  psr_OpenFDs :: "int option"
  psr_LogBytes :: "int option"
  psr_Metadata :: json_map
  psr_ObservedAt :: int

record service_event_row =
  ser_EventID :: string
  ser_ServiceName :: string
  ser_EventName :: string
  ser_Severity :: string
  ser_Message :: "string option"
  ser_BootID :: "string option"
  ser_PID :: "int option"
  ser_RequestID :: "string option"
  ser_Metadata :: json_map
  ser_OccurredAt :: int

record suspension_row =
  sur_SuspensionID :: string
  sur_SeedID :: string
  sur_Reference :: string
  sur_ExecutionID :: "string option"
  sur_RouteSubdomain :: "string option"
  sur_RoutePathPrefix :: "string option"
  sur_ReasonCode :: string
  sur_Message :: string
  sur_RemediationTarget :: string
  sur_RemediationHint :: string
  sur_Status :: string
  sur_Metadata :: json_map
  sur_CreatedAt :: int
  sur_ClearedAt :: "int option"

definition scanProcessSample :: "sample_row \<Rightarrow> ProcessSample" where
  "scanProcessSample r =
     \<lparr>ps_SampleID = psr_SampleID r, ps_ScopeKind = psr_ScopeKind r,
       ps_ServiceName = string_of_null (psr_ServiceName r),
       ps_ExecutionID = string_of_null (psr_ExecutionID r),
       ps_SeedID = string_of_null (psr_SeedID r), ps_Reference = string_of_null (psr_Reference r),
       ps_PID = (case psr_PID r of None \<Rightarrow> 0 | Some n \<Rightarrow> n),
       ps_CPUPercent = (case psr_CPUPercent r of None \<Rightarrow> 0 | Some n \<Rightarrow> n),
       ps_RSSBytes = (case psr_RSSBytes r of None \<Rightarrow> 0 | Some n \<Rightarrow> n),
       ps_VirtualBytes = (case psr_VirtualBytes r of None \<Rightarrow> 0 | Some n \<Rightarrow> n),
       ps_OpenFDs = (case psr_OpenFDs r of None \<Rightarrow> 0 | Some n \<Rightarrow> n),
       ps_LogBytes = (case psr_LogBytes r of None \<Rightarrow> 0 | Some n \<Rightarrow> n),
       ps_Metadata = psr_Metadata r, ps_ObservedAt = psr_ObservedAt r\<rparr>"

definition scanServiceEvent :: "service_event_row \<Rightarrow> ServiceEvent" where
  "scanServiceEvent r =
     \<lparr>se_EventID = ser_EventID r, se_ServiceName = ser_ServiceName r,
       se_EventName = ser_EventName r, se_Severity = ser_Severity r,
       se_Message = string_of_null (ser_Message r), se_BootID = string_of_null (ser_BootID r),
       se_PID = (case ser_PID r of None \<Rightarrow> 0 | Some n \<Rightarrow> n),
       se_RequestID = string_of_null (ser_RequestID r), se_Metadata = ser_Metadata r,
       se_OccurredAt = ser_OccurredAt r\<rparr>"

definition scanRealizationSuspension :: "suspension_row \<Rightarrow> RealizationSuspension" where
  "scanRealizationSuspension r =
     \<lparr>su_SuspensionID = sur_SuspensionID r, su_SeedID = sur_SeedID r,
       su_Reference = sur_Reference r, su_ExecutionID = string_of_null (sur_ExecutionID r),
       su_RouteSubdomain = string_of_null (sur_RouteSubdomain r),
       su_RoutePathPrefix = string_of_null (sur_RoutePathPrefix r),
       su_ReasonCode = sur_ReasonCode r, su_Message = sur_Message r,
       su_RemediationTarget = sur_RemediationTarget r, su_RemediationHint = sur_RemediationHint r,
       su_Status = sur_Status r, su_Metadata = sur_Metadata r, su_CreatedAt = sur_CreatedAt r,
       su_ClearedAt = sur_ClearedAt r\<rparr>"

record ops_state = exec_state +
  os_Samples :: "sample_row list"
  os_ServiceEvents :: "service_event_row list"
  os_Suspensions :: "suspension_row list"

text \<open>\<open>$n = '' or column = $n\<close>, for a column that may be null or not.\<close>

definition text_filter :: "string \<Rightarrow> string \<Rightarrow> bool" where
  "text_filter v col \<longleftrightarrow> trim_space v = [] \<or> col = trim_space v"

definition null_filter :: "string \<Rightarrow> string option \<Rightarrow> bool" where
  "null_filter v col \<longleftrightarrow> trim_space v = [] \<or> col = Some (trim_space v)"

subsection \<open>Samples and service events\<close>

definition new_sample :: "string \<Rightarrow> int \<Rightarrow> RecordProcessSampleInput \<Rightarrow> sample_row" where
  "new_sample fresh now i =
     \<lparr>psr_SampleID = id_or (rp_SampleID i) fresh, psr_ScopeKind = rp_ScopeKind i,
      psr_ServiceName = nullString (rp_ServiceName i),
      psr_ExecutionID = nullString (rp_ExecutionID i), psr_SeedID = nullString (rp_SeedID i),
      psr_Reference = nullString (rp_Reference i), psr_PID = nullInt (rp_PID i),
      psr_CPUPercent = nullInt (rp_CPUPercent i), psr_RSSBytes = nullInt (rp_RSSBytes i),
      psr_VirtualBytes = nullInt (rp_VirtualBytes i), psr_OpenFDs = nullInt (rp_OpenFDs i),
      psr_LogBytes = nullInt (rp_LogBytes i), psr_Metadata = rp_Metadata i,
      psr_ObservedAt = time_or (rp_ObservedAt i) now\<rparr>"

definition RecordProcessSample ::
  "string \<Rightarrow> int \<Rightarrow> RecordProcessSampleInput \<Rightarrow> 's ops_state_scheme \<Rightarrow>
   (runtime_error + ProcessSample) \<times> 's ops_state_scheme" where
  "RecordProcessSample fresh now i st =
     (if \<not> xs_Ready st then (Inl NotConfigured, st)
      else if blank (rp_ScopeKind i) then (Inl (Required ''scope_kind''), st)
      else
        (let r = new_sample fresh now i in
         answer (scanProcessSample r) (\<lambda>t st. st\<lparr>os_Samples := t\<rparr>)
           (and_then (insert_new ''runtime_process_samples_pkey'' psr_SampleID r (os_Samples st))
             (\<lambda>t. case psr_ExecutionID r of
                None \<Rightarrow> Inr t
              | Some k \<Rightarrow>
                  if row_at xr_ExecutionID k (xs_Executions st) = None
                  then Inl (ErrConflict ''runtime_process_samples_execution_id_fkey'') else Inr t)) st))"

definition ListProcessSamples :: "ListProcessSamplesInput \<Rightarrow> 's ops_state_scheme \<Rightarrow> runtime_error + ProcessSample list" where
  "ListProcessSamples i st =
     (if \<not> xs_Ready st then Inl NotConfigured
      else Inr (map scanProcessSample
        (latest_rows psr_ObservedAt (clampLimit (lps_Limit i) 50 500)
          (filter (\<lambda>r. text_filter (lps_ScopeKind i) (psr_ScopeKind r) \<and>
             null_filter (lps_ServiceName i) (psr_ServiceName r) \<and>
             null_filter (lps_ExecutionID i) (psr_ExecutionID r) \<and>
             null_filter (lps_Reference i) (psr_Reference r)) (os_Samples st)))))"

definition new_service_event :: "string \<Rightarrow> int \<Rightarrow> RecordServiceEventInput \<Rightarrow> service_event_row" where
  "new_service_event fresh now i =
     \<lparr>ser_EventID = id_or (rse_EventID i) fresh, ser_ServiceName = rse_ServiceName i,
      ser_EventName = rse_EventName i, ser_Severity = statusOrDefault (rse_Severity i) ''info'',
      ser_Message = nullString (rse_Message i), ser_BootID = nullString (rse_BootID i),
      ser_PID = nullInt (rse_PID i), ser_RequestID = nullString (rse_RequestID i),
      ser_Metadata = rse_Metadata i, ser_OccurredAt = time_or (rse_OccurredAt i) now\<rparr>"

definition RecordServiceEvent ::
  "string \<Rightarrow> int \<Rightarrow> RecordServiceEventInput \<Rightarrow> 's ops_state_scheme \<Rightarrow>
   (runtime_error + ServiceEvent) \<times> 's ops_state_scheme" where
  "RecordServiceEvent fresh now i st =
     (if \<not> xs_Ready st then (Inl NotConfigured, st)
      else if blank (rse_ServiceName i) \<or> blank (rse_EventName i)
        then (Inl (Required ''service_name and event_name''), st)
      else answer (scanServiceEvent (new_service_event fresh now i)) (\<lambda>t st. st\<lparr>os_ServiceEvents := t\<rparr>)
             (insert_new ''runtime_service_events_pkey'' ser_EventID (new_service_event fresh now i)
                (os_ServiceEvents st)) st)"

definition ListServiceEvents :: "ListServiceEventsInput \<Rightarrow> 's ops_state_scheme \<Rightarrow> runtime_error + ServiceEvent list" where
  "ListServiceEvents i st =
     (if \<not> xs_Ready st then Inl NotConfigured
      else Inr (map scanServiceEvent
        (latest_rows ser_OccurredAt (clampLimit (lse_Limit i) 50 500)
          (filter (\<lambda>r. text_filter (lse_ServiceName i) (ser_ServiceName r) \<and>
             text_filter (lse_EventName i) (ser_EventName r)) (os_ServiceEvents st)))))"

subsection \<open>Suspensions\<close>

definition new_suspension :: "string \<Rightarrow> int \<Rightarrow> UpsertRealizationSuspensionInput \<Rightarrow> suspension_row" where
  "new_suspension fresh now i =
     \<lparr>sur_SuspensionID = id_or (usu_SuspensionID i) fresh, sur_SeedID = usu_SeedID i,
      sur_Reference = usu_Reference i, sur_ExecutionID = nullString (usu_ExecutionID i),
      sur_RouteSubdomain = nullString (usu_RouteSubdomain i),
      sur_RoutePathPrefix = nullString (usu_RoutePathPrefix i), sur_ReasonCode = usu_ReasonCode i,
      sur_Message = usu_Message i, sur_RemediationTarget = id_or (usu_RemediationTarget i) ''main'',
      sur_RemediationHint = usu_RemediationHint i, sur_Status = id_or (usu_Status i) ''active'',
      sur_Metadata = usu_Metadata i, sur_CreatedAt = time_or (usu_CreatedAt i) now,
      sur_ClearedAt = None\<rparr>"

definition suspended :: "suspension_row \<Rightarrow> bool" where
  "suspended r \<longleftrightarrow> sur_Status r = ''active'' \<and> sur_ClearedAt r = None"

text \<open>
  The conflict clause names a partial index: it applies between rows that are suspended. A new row
  of another status is inserted beside them.
\<close>

definition upsert_suspension ::
  "suspension_row \<Rightarrow> suspension_row list \<Rightarrow> runtime_error + suspension_row \<times> suspension_row list" where
  "upsert_suspension r t =
     (let same = (\<lambda>x. suspended r \<and> suspended x \<and> sur_Reference x = sur_Reference r);
          replace = (\<lambda>old. r\<lparr>sur_SuspensionID := sur_SuspensionID old, sur_SeedID := sur_SeedID old\<rparr>)
      in case find same t of
           Some old \<Rightarrow> Inr (replace old, update_rows same replace t)
         | None \<Rightarrow>
             map_sum id (\<lambda>t. (r, t))
               (insert_new ''runtime_realization_suspensions_pkey'' sur_SuspensionID r t))"

definition UpsertRealizationSuspension ::
  "string \<Rightarrow> int \<Rightarrow> UpsertRealizationSuspensionInput \<Rightarrow> 's ops_state_scheme \<Rightarrow>
   (runtime_error + RealizationSuspension) \<times> 's ops_state_scheme" where
  "UpsertRealizationSuspension fresh now i st =
     (if \<not> xs_Ready st then (Inl NotConfigured, st)
      else if blank (usu_SeedID i) \<or> blank (usu_Reference i) \<or> blank (usu_ReasonCode i)
        then (Inl (Required ''seed_id, reference, and reason_code''), st)
      else case upsert_suspension (new_suspension fresh now i) (os_Suspensions st) of
        Inl e \<Rightarrow> (Inl e, st)
      | Inr (r, t) \<Rightarrow>
          (case sur_ExecutionID r of
             None \<Rightarrow> (Inr (scanRealizationSuspension r), st\<lparr>os_Suspensions := t\<rparr>)
           | Some k \<Rightarrow>
               if row_at xr_ExecutionID k (xs_Executions st) = None
               then (Inl (ErrConflict ''runtime_realization_suspensions_execution_id_fkey''), st)
               else (Inr (scanRealizationSuspension r), st\<lparr>os_Suspensions := t\<rparr>)))"

definition ClearRealizationSuspension :: "int \<Rightarrow> string \<Rightarrow> 's ops_state_scheme \<Rightarrow> runtime_error err \<times> 's ops_state_scheme" where
  "ClearRealizationSuspension dbnow reference st =
     (if \<not> xs_Ready st then (Some NotConfigured, st)
      else (None, st\<lparr>os_Suspensions :=
        update_rows (\<lambda>r. sur_Reference r = trim_space reference \<and> suspended r)
          (\<lambda>r. r\<lparr>sur_Status := ''cleared'', sur_ClearedAt := Some dbnow\<rparr>) (os_Suspensions st)\<rparr>))"

definition latest_suspension ::
  "(suspension_row \<Rightarrow> bool) \<Rightarrow> 's ops_state_scheme \<Rightarrow> runtime_error + RealizationSuspension" where
  "latest_suspension p st =
     (if \<not> xs_Ready st then Inl NotConfigured
      else case latest_rows sur_CreatedAt 1 (filter (\<lambda>r. p r \<and> suspended r) (os_Suspensions st)) of
        [] \<Rightarrow> Inl ErrNotFound | r # _ \<Rightarrow> Inr (scanRealizationSuspension r))"

definition GetActiveRealizationSuspension :: "string \<Rightarrow> 's ops_state_scheme \<Rightarrow> runtime_error + RealizationSuspension" where
  "GetActiveRealizationSuspension reference st =
     latest_suspension (\<lambda>r. sur_Reference r = trim_space reference) st"

definition GetRealizationSuspensionByExecution :: "string \<Rightarrow> 's ops_state_scheme \<Rightarrow> runtime_error + RealizationSuspension" where
  "GetRealizationSuspensionByExecution executionID st =
     latest_suspension (\<lambda>r. sur_ExecutionID r = Some (trim_space executionID)) st"

definition ListRealizationSuspensions ::
  "ListRealizationSuspensionsInput \<Rightarrow> 's ops_state_scheme \<Rightarrow> runtime_error + RealizationSuspension list" where
  "ListRealizationSuspensions i st =
     (if \<not> xs_Ready st then Inl NotConfigured
      else Inr (map scanRealizationSuspension
        (latest_rows sur_CreatedAt (clampLimit (lsu_Limit i) 50 200)
          (filter (\<lambda>r. text_filter (lsu_Reference i) (sur_Reference r) \<and>
             null_filter (lsu_ExecutionID i) (sur_ExecutionID r) \<and>
             (\<not> lsu_ActiveOnly i \<or> suspended r)) (os_Suspensions st)))))"

subsection \<open>Pruning\<close>

definition PruneOperationalTelemetry :: "int \<Rightarrow> int \<Rightarrow> 's ops_state_scheme \<Rightarrow> runtime_error err \<times> 's ops_state_scheme" where
  "PruneOperationalTelemetry now ttl st =
     (if \<not> xs_Ready st then (Some NotConfigured, st)
      else if ttl \<le> 0 then (Some (Invalid ''ttl must be positive''), st)
      else
        (let cutoff = now - ttl in
         (None,
          st\<lparr>os_Samples := filter (\<lambda>r. \<not> psr_ObservedAt r < cutoff) (os_Samples st),
             xs_Logs := filter (\<lambda>r. \<not> exl_OccurredAt r < cutoff) (xs_Logs st),
             os_ServiceEvents := filter (\<lambda>r. \<not> ser_OccurredAt r < cutoff) (os_ServiceEvents st),
             os_Suspensions := filter (\<lambda>r. case sur_ClearedAt r of None \<Rightarrow> True | Some t \<Rightarrow> \<not> t < cutoff)
               (os_Suspensions st)\<rparr>)))"

end
