(* ===== verification/Operation_Properties.thy ===== *)
theory Operation_Properties
  imports Operations Execution_Properties
begin

text \<open>
  What suspensions promise: a reference has at most one, it holds until it is cleared, whatever else
  is recorded or pruned, and afterwards it is gone.
\<close>

subsection \<open>Steps\<close>

text \<open>
  Every operation of the store, those on executions included, where no suspension of a protected reference is
  cleared.
\<close>

inductive ops_step :: "string set \<Rightarrow> ops_state \<Rightarrow> ops_state \<Rightarrow> bool" for protected :: "string set" where
  step_execution: "exec_step st st' \<Longrightarrow> ops_step protected st st'"
| step_sample: "ops_step protected st (snd (RecordProcessSample fresh now p st))"
| step_service: "ops_step protected st (snd (RecordServiceEvent fresh now e st))"
| step_suspend: "ops_step protected st (snd (UpsertRealizationSuspension fresh now i st))"
| step_clear: "trim_space ref \<notin> protected \<Longrightarrow>
    ops_step protected st (snd (ClearRealizationSuspension dbnow ref st))"
| step_prune: "ops_step protected st (snd (PruneOperationalTelemetry now ttl st))"

definition no_operations :: "bool \<Rightarrow> ops_state" where
  "no_operations ready =
     \<lparr>xs_Ready = ready, xs_Executions = [], xs_Events = [], xs_Activations = [], xs_Bindings = [], xs_Logs = [],
      os_Samples = [], os_ServiceEvents = [], os_Suspensions = []\<rparr>"

definition suspensions_ok :: "suspension_row list \<Rightarrow> bool" where
  "suspensions_ok t \<longleftrightarrow>
     distinct (map sur_SuspensionID t) \<and> distinct (map sur_Reference (filter suspended t))"

text \<open>The reference is suspended, under this identifier.\<close>

definition suspended_as :: "string \<Rightarrow> string \<Rightarrow> suspension_row list \<Rightarrow> bool" where
  "suspended_as ref k t \<longleftrightarrow> (\<exists>r\<in>set t. suspended r \<and> sur_Reference r = ref \<and> sur_SuspensionID r = k)"

subsection \<open>What the statements keep\<close>

lemma upsert_suspension_cases:
  assumes "upsert_suspension r t = Inr (r', t')"
  obtains (replaced) old where "old \<in> set t" "suspended old" "suspended r" "sur_Reference old = sur_Reference r"
      "r' = r\<lparr>sur_SuspensionID := sur_SuspensionID old, sur_SeedID := sur_SeedID old\<rparr>"
      "t' = update_rows (\<lambda>x. suspended x \<and> sur_Reference x = sur_Reference r)
        (\<lambda>old. r\<lparr>sur_SuspensionID := sur_SuspensionID old, sur_SeedID := sur_SeedID old\<rparr>) t"
  | (added) "r' = r" "t' = t @ [r]" "sur_SuspensionID r \<notin> sur_SuspensionID ` set t"
      "suspended r \<Longrightarrow> sur_Reference r \<notin> sur_Reference ` set (filter suspended t)"
proof (cases "find (\<lambda>x. suspended r \<and> suspended x \<and> sur_Reference x = sur_Reference r) t")
  case None
  with assms show ?thesis
    by (intro added)
      (auto simp: upsert_suspension_def Let_def find_None_iff insert_new_def row_at_None image_iff
        split: if_splits)
next
  case (Some old)
  then have "old \<in> set t" "suspended r" "suspended old" "sur_Reference old = sur_Reference r"
    by (auto simp: find_Some_iff)
  with Some assms show ?thesis
    by (intro replaced[of old]) (simp_all add: upsert_suspension_def Let_def)
qed

lemma suspended_more [simp]:
  "suspended (r\<lparr>sur_SuspensionID := a, sur_SeedID := b\<rparr>) = suspended r"
  by (simp add: suspended_def)

lemma suspended_keys_update:
  assumes "\<And>x. p x \<Longrightarrow> suspended (f x) = suspended x \<and> sur_Reference (f x) = sur_Reference x"
  shows "map sur_Reference (filter suspended (update_rows p f t)) = map sur_Reference (filter suspended t)"
  using assms by (induction t) (auto simp: update_rows_def)

lemma upsert_keeps:
  assumes "suspensions_ok t" "upsert_suspension r t = Inr (r', t')"
  shows "suspensions_ok t'"
  using assms(2)
proof (cases rule: upsert_suspension_cases)
  case (replaced old)
  then have "map sur_Reference (filter suspended t') = map sur_Reference (filter suspended t)"
    by (simp only: replaced(6), intro suspended_keys_update) (simp add: replaced(3))
  moreover have "map sur_SuspensionID t' = map sur_SuspensionID t"
    by (simp add: replaced(6) keys_update_rows)
  ultimately show ?thesis using assms(1) by (simp add: suspensions_ok_def)
next
  case added
  with assms(1) show ?thesis by (auto simp: suspensions_ok_def)
qed

lemma clear_keeps:
  assumes "suspensions_ok t" "\<And>x. p x \<Longrightarrow> \<not> suspended (f x)" "\<And>x. sur_SuspensionID (f x) = sur_SuspensionID x"
  shows "suspensions_ok (update_rows p f t)"
proof -
  have "filter suspended (update_rows p f t) = filter (\<lambda>x. suspended x \<and> \<not> p x) t"
    using assms(2) by (induction t) (auto simp: update_rows_def)
  then have "filter suspended (update_rows p f t) = filter (\<lambda>x. \<not> p x) (filter suspended t)"
    by (simp add: conj_commute)
  moreover have "distinct (map sur_Reference (filter (\<lambda>x. \<not> p x) (filter suspended t)))"
    using assms(1) unfolding suspensions_ok_def by (blast intro: distinct_map_filter)
  moreover have "map sur_SuspensionID (update_rows p f t) = map sur_SuspensionID t"
    by (rule keys_update_rows) (rule assms(3))
  ultimately show ?thesis using assms(1) by (simp only: suspensions_ok_def)
qed

lemma prune_keeps:
  assumes "suspensions_ok t" "\<And>x. suspended x \<Longrightarrow> p x"
  shows "suspensions_ok (filter p t)"
proof -
  have "filter suspended (filter p t) = filter suspended t" using assms(2) by (induction t) auto
  with assms(1) show ?thesis by (simp add: suspensions_ok_def distinct_map_filter)
qed

lemma upsert_holds:
  assumes "suspended_as ref k t" "upsert_suspension r t = Inr (r', t')"
  shows "suspended_as ref k t'"
  using assms(2)
proof (cases rule: upsert_suspension_cases)
  case (replaced old)
  let ?f = "\<lambda>old. r\<lparr>sur_SuspensionID := sur_SuspensionID old, sur_SeedID := sur_SeedID old\<rparr>"
  let ?p = "\<lambda>x. suspended x \<and> sur_Reference x = sur_Reference r"
  from assms(1) obtain x where x: "x \<in> set t" "suspended x" "sur_Reference x = ref" "sur_SuspensionID x = k"
    by (auto simp: suspended_as_def)
  have "(if ?p x then ?f x else x) \<in> set t'" using x(1) by (auto simp: replaced(6) in_update_rows)
  moreover have "suspended (if ?p x then ?f x else x) \<and> sur_Reference (if ?p x then ?f x else x) = ref \<and>
      sur_SuspensionID (if ?p x then ?f x else x) = k" using x replaced(3) by auto
  ultimately show ?thesis unfolding suspended_as_def by blast
next
  case added
  with assms(1) show ?thesis by (auto simp: suspended_as_def)
qed

lemma update_holds:
  "suspended_as ref k t \<Longrightarrow> (\<And>x. p x \<Longrightarrow> sur_Reference x \<noteq> ref) \<Longrightarrow> suspended_as ref k (update_rows p f t)"
  by (fastforce simp: suspended_as_def in_update_rows)

subsection \<open>What the operations keep\<close>

lemma suspensions_after:
  assumes "UpsertRealizationSuspension fresh now i st = (x, st')"
  shows "st' = st \<or> (\<exists>r t. upsert_suspension (new_suspension fresh now i) (os_Suspensions st) = Inr (r, t) \<and>
    st' = st\<lparr>os_Suspensions := t\<rparr> \<and> x = Inr (scanRealizationSuspension r))"
  using assms by (auto simp: UpsertRealizationSuspension_def split: if_splits sum.splits option.splits)

lemma other_suspensions [simp]:
  "os_Suspensions (snd (RecordProcessSample fresh now p st)) = os_Suspensions st"
  "os_Suspensions (snd (RecordServiceEvent fresh now e st)) = os_Suspensions st"
  "xs_Ready (snd (RecordProcessSample fresh now p st)) = xs_Ready st"
  "xs_Ready (snd (RecordServiceEvent fresh now e st)) = xs_Ready st"
  by (auto simp: RecordProcessSample_def RecordServiceEvent_def Let_def answer_def split: sum.split)

lemma same_suspensions [simp]:
  "os_Suspensions (snd (CreateRealizationExecution fresh now i st)) = os_Suspensions st"
  "os_Suspensions (snd (UpdateRealizationExecution dbnow k u st)) = os_Suspensions st"
  "os_Suspensions (snd (RecordRealizationExecutionEvent fresh now e st)) = os_Suspensions st"
  "os_Suspensions (snd (RecordRealizationExecutionLog fresh now l st)) = os_Suspensions st"
  "os_Suspensions (snd (ActivateRealization dbnow a st)) = os_Suspensions st"
  "os_Suspensions (snd (DeleteRealizationActivation ref st)) = os_Suspensions st"
  "os_Suspensions (snd (DeleteRealizationRouteBindings k st)) = os_Suspensions st"
  "os_Suspensions (snd (DeleteStableRouteBindingsForReference ref st)) = os_Suspensions st"
  "os_Suspensions (snd (ResetBackendExecutions dbnow backend reason st)) = os_Suspensions st"
  by (auto simp: CreateRealizationExecution_def UpdateRealizationExecution_def RecordRealizationExecutionEvent_def
      RecordRealizationExecutionLog_def ActivateRealization_def DeleteRealizationActivation_def
      DeleteRealizationRouteBindings_def DeleteStableRouteBindingsForReference_def ResetBackendExecutions_def
      Let_def answer_def split: sum.split option.split)

lemma same_suspensions_replace [simp]:
  "os_Suspensions (snd (ReplaceRealizationRouteBindings random dbnow k bs st)) = os_Suspensions st"
  by (subst replace_eq) (simp add: Let_def)

lemma same_ready_replace: "xs_Ready (snd (ReplaceRealizationRouteBindings random dbnow k bs st)) = xs_Ready st"
  by (subst replace_eq) (simp add: Let_def)

lemma exec_step_suspensions:
  fixes st :: ops_state
  assumes "exec_step st st'"
  shows "os_Suspensions st' = os_Suspensions st" "xs_Ready st' = xs_Ready st"
proof -
  show "os_Suspensions st' = os_Suspensions st" using assms by cases simp_all
  show "xs_Ready st' = xs_Ready st" using assms
    by cases (auto simp: CreateRealizationExecution_def UpdateRealizationExecution_def RecordRealizationExecutionEvent_def
      RecordRealizationExecutionLog_def ActivateRealization_def DeleteRealizationActivation_def same_ready_replace
      DeleteRealizationRouteBindings_def DeleteStableRouteBindingsForReference_def ResetBackendExecutions_def
      Let_def answer_def split: sum.split option.split)
qed

lemma cleared_not_suspended [simp]:
  "\<not> suspended (r\<lparr>sur_Status := ''cleared'', sur_ClearedAt := c\<rparr>)"
  by (simp add: suspended_def)

lemma cleared_gone:
  "filter (\<lambda>r. sur_Reference r = ref \<and> suspended r)
     (update_rows (\<lambda>r. sur_Reference r = ref \<and> suspended r)
       (\<lambda>r. r\<lparr>sur_Status := ''cleared'', sur_ClearedAt := c\<rparr>) t) = []"
  by (induction t) (auto simp: update_rows_def)

lemma ops_step_keeps:
  assumes "ops_step protected st st'" "suspensions_ok (os_Suspensions st)"
  shows "suspensions_ok (os_Suspensions st')"
  using assms
proof cases
  case step_execution
  with assms(2) show ?thesis by (simp add: exec_step_suspensions)
next
  case (step_suspend fresh now i)
  with assms(2) suspensions_after[of fresh now i st "fst (UpsertRealizationSuspension fresh now i st)" st']
  show ?thesis by (auto intro: upsert_keeps)
next
  case (step_clear ref dbnow)
  with assms(2) show ?thesis by (auto simp: ClearRealizationSuspension_def intro!: clear_keeps)
next
  case (step_prune now ttl)
  with assms(2) show ?thesis
    by (auto simp: PruneOperationalTelemetry_def Let_def suspended_def intro!: prune_keeps split: option.split)
qed simp_all

lemma ops_step_holds:
  assumes "ops_step protected st st'" "suspended_as ref k (os_Suspensions st)" "ref \<in> protected"
  shows "suspended_as ref k (os_Suspensions st')" "xs_Ready st' = xs_Ready st"
proof -
  show "suspended_as ref k (os_Suspensions st')"
    using assms(1)
  proof cases
    case step_execution
    with assms(2) show ?thesis by (simp add: exec_step_suspensions)
  next
    case (step_suspend fresh now i)
    with assms(2) suspensions_after[of fresh now i st "fst (UpsertRealizationSuspension fresh now i st)" st']
    show ?thesis by (auto intro: upsert_holds)
  next
    case (step_clear ref' dbnow)
    with assms(2,3) show ?thesis by (auto simp: ClearRealizationSuspension_def intro!: update_holds)
  next
    case (step_prune now ttl)
    with assms(2) show ?thesis
      by (auto simp: PruneOperationalTelemetry_def Let_def suspended_as_def suspended_def split: option.split)
  qed (use assms(2) in simp_all)
  show "xs_Ready st' = xs_Ready st"
    using assms(1)
  proof cases
    case step_execution
    then show ?thesis by (simp add: exec_step_suspensions)
  next
    case (step_suspend fresh now i)
    with suspensions_after[of fresh now i st "fst (UpsertRealizationSuspension fresh now i st)" st']
    show ?thesis by auto
  qed (auto simp: ClearRealizationSuspension_def PruneOperationalTelemetry_def Let_def)
qed

interpretation suspensions: machine_invariant "ops_step protected" "no_operations ready"
  "\<lambda>st. suspensions_ok (os_Suspensions st)" for protected ready
  by unfold_locales (simp add: no_operations_def suspensions_ok_def, rule ops_step_keeps)

lemma holds_until_cleared:
  assumes "(ops_step {ref})\<^sup>*\<^sup>* st st'" "suspended_as ref k (os_Suspensions st)"
  shows "suspended_as ref k (os_Suspensions st') \<and> xs_Ready st' = xs_Ready st"
  using assms by (induction rule: rtranclp_induct) (auto dest: ops_step_holds)

text \<open>The one suspended row of a reference is what the look-up finds.\<close>

lemma suspended_row_unique:
  "distinct (map sur_Reference (filter suspended t)) \<Longrightarrow> r \<in> set t \<Longrightarrow> suspended r \<Longrightarrow>
   filter (\<lambda>x. sur_Reference x = sur_Reference r \<and> suspended x) t = [r]"
proof (induction t)
  case (Cons a t)
  have none: "filter (\<lambda>x. sur_Reference x = sur_Reference a \<and> suspended x) t = []" if "suspended a"
    using Cons.prems(1) that by (auto simp: filter_empty_conv image_iff)
  show ?case
  proof (cases "r = a")
    case True
    with none Cons.prems(3) show ?thesis by simp
  next
    case False
    with Cons.prems have r: "r \<in> set t" by simp
    have "\<not> (sur_Reference a = sur_Reference r \<and> suspended a)"
      using none r Cons.prems(3) by (auto simp: filter_empty_conv)
    with Cons.IH r Cons.prems show ?thesis by (auto split: if_splits)
  qed
qed simp

lemma active_suspension:
  assumes "suspensions_ok (os_Suspensions st)" "xs_Ready st" "r \<in> set (os_Suspensions st)" "suspended r"
    "trim_space (sur_Reference r) = sur_Reference r"
  shows "GetActiveRealizationSuspension (sur_Reference r) st = Inr (scanRealizationSuspension r)"
  using suspended_row_unique[OF _ assms(3,4)] assms
  by (simp add: GetActiveRealizationSuspension_def latest_suspension_def suspensions_ok_def latest_rows_def)

lemma active_suspension_row:
  assumes "GetActiveRealizationSuspension ref st = Inr s"
  shows "xs_Ready st \<and> (\<exists>r\<in>set (os_Suspensions st).
    suspended r \<and> sur_Reference r = trim_space ref \<and> s = scanRealizationSuspension r)"
proof -
  let ?t = "filter (\<lambda>r. sur_Reference r = trim_space ref \<and> suspended r) (os_Suspensions st)"
  from assms obtain r rs where r: "latest_rows sur_CreatedAt 1 ?t = r # rs" "s = scanRealizationSuspension r" "xs_Ready st"
    by (auto simp: GetActiveRealizationSuspension_def latest_suspension_def split: if_splits list.splits)
  have "set (latest_rows sur_CreatedAt 1 ?t) \<subseteq> set ?t"
    by (auto simp: latest_rows_def dest: in_set_takeD)
  with r show ?thesis by auto
qed

lemma suspension_stored:
  assumes "UpsertRealizationSuspension fresh now i st = (Inr s, st1)"
  obtains r where "r \<in> set (os_Suspensions st1)" "s = scanRealizationSuspension r" "sur_ClearedAt r = None"
    "xs_Ready st" "xs_Ready st1"
proof -
  from suspensions_after[OF assms] assms obtain r t where
    u: "upsert_suspension (new_suspension fresh now i) (os_Suspensions st) = Inr (r, t)" and
    r: "st1 = st\<lparr>os_Suspensions := t\<rparr>" "s = scanRealizationSuspension r"
    by (auto simp: UpsertRealizationSuspension_def split: if_splits sum.splits option.splits)
  have ready: "xs_Ready st" using assms by (auto simp: UpsertRealizationSuspension_def split: if_splits)
  have new: "sur_ClearedAt (new_suspension fresh now i) = None" by (simp add: new_suspension_def)
  from u have "r \<in> set t \<and> sur_ClearedAt r = None"
  proof (cases rule: upsert_suspension_cases)
    case (replaced old)
    then show ?thesis using new by (auto simp: in_update_rows intro!: bexI[of _ old])
  qed (use new in simp)
  then show thesis using that[of r] ready r by simp
qed

subsection \<open>Properties\<close>

text \<open>C25: a suspension, also one that names an execution, stays in force until it is cleared: whatever is done
  to executions, recorded, suspended again or pruned in between, the look-up of the reference finds it under its identifier, and once it is cleared the
  reference is no longer suspended.\<close>

theorem suspension_holds_until_cleared:
  assumes "reachable (ops_step {}) (no_operations True) st"
    and "UpsertRealizationSuspension fresh now i st = (Inr s, st1)" "su_Status s = ''active''"
    and "trim_space (su_Reference s) = su_Reference s"
    and "(ops_step {su_Reference s})\<^sup>*\<^sup>* st1 st2"
  shows "(\<exists>s'. GetActiveRealizationSuspension (su_Reference s) st2 = Inr s' \<and>
      su_SuspensionID s' = su_SuspensionID s \<and> su_Reference s' = su_Reference s) \<and>
    GetActiveRealizationSuspension (su_Reference s) (snd (ClearRealizationSuspension dbnow (su_Reference s) st2)) =
      Inl ErrNotFound"
proof -
  let ?ref = "su_Reference s"
  obtain r where r: "r \<in> set (os_Suspensions st1)" "s = scanRealizationSuspension r" "sur_ClearedAt r = None"
    "xs_Ready st" "xs_Ready st1" using assms(2) by (rule suspension_stored)
  have "suspended_as ?ref (su_SuspensionID s) (os_Suspensions st1)"
    using r assms(3) by (auto simp: suspended_as_def scanRealizationSuspension_def suspended_def)
  with assms(5) r(5) have h: "suspended_as ?ref (su_SuspensionID s) (os_Suspensions st2)" "xs_Ready st2"
    using holds_until_cleared by blast+
  have "suspensions_ok (os_Suspensions st)" using assms(1) by (rule suspensions.holds)
  then have "suspensions_ok (os_Suspensions st1)" using assms(2) suspensions_after[OF assms(2)]
    by (auto intro: upsert_keeps)
  with assms(5) have ok: "suspensions_ok (os_Suspensions st2)" by (rule suspensions.holds_later)
  from h(1) obtain x where x: "x \<in> set (os_Suspensions st2)" "suspended x" "sur_Reference x = ?ref"
    "sur_SuspensionID x = su_SuspensionID s" by (auto simp: suspended_as_def)
  with active_suspension[OF ok h(2) x(1,2)] assms(4) have
    "GetActiveRealizationSuspension ?ref st2 = Inr (scanRealizationSuspension x)" by simp
  moreover have "filter (\<lambda>r. sur_Reference r = ?ref \<and> suspended r)
      (os_Suspensions (snd (ClearRealizationSuspension dbnow ?ref st2))) = []"
    using h(2) assms(4) by (simp add: ClearRealizationSuspension_def cleared_gone)
  moreover have "xs_Ready (snd (ClearRealizationSuspension dbnow ?ref st2))"
    using h(2) by (simp add: ClearRealizationSuspension_def)
  ultimately show ?thesis using x(3,4) assms(4)
    by (simp add: GetActiveRealizationSuspension_def latest_suspension_def latest_rows_def scanRealizationSuspension_def)
qed

definition sample_suspension :: "string \<Rightarrow> UpsertRealizationSuspensionInput" where
  "sample_suspension reason =
     \<lparr>usu_SuspensionID = [], usu_SeedID = ''s'', usu_Reference = ''s/r'', usu_ExecutionID = ''x'',
      usu_RouteSubdomain = [], usu_RoutePathPrefix = [], usu_ReasonCode = reason, usu_Message = [],
      usu_RemediationTarget = [], usu_RemediationHint = [], usu_Status = [], usu_Metadata = [],
      usu_CreatedAt = None\<rparr>"

text \<open>The suspension of an execution that exists, as the worker makes it.\<close>

definition sample_launched :: ops_state where
  "sample_launched = snd (CreateRealizationExecution ''f'' 1 sample_execution (no_operations True))"

definition sample_ops :: ops_state where
  "sample_ops = snd (UpsertRealizationSuspension ''a'' 1 (sample_suspension ''crash'') sample_launched)"

definition sample_ops_later :: ops_state where
  "sample_ops_later =
     snd (PruneOperationalTelemetry 9 1 (snd (ResetBackendExecutions 8 ''local'' ''gone''
       (snd (UpsertRealizationSuspension ''b'' 2 (sample_suspension ''loop'') sample_ops)))))"

lemma sample_suspended:
  "map_sum id (\<lambda>s. (su_SuspensionID s, su_Reference s, su_ExecutionID s, su_Status s))
     (fst (UpsertRealizationSuspension ''a'' 1 (sample_suspension ''crash'') sample_launched)) =
     Inr (''a'', ''s/r'', ''x'', ''active'')"
  "trim_space ''s/r'' = ''s/r''"
  by code_simp+

lemma sample_launched_reachable: "reachable (ops_step {}) (no_operations True) sample_launched"
  unfolding sample_launched_def by (rule reach_step[OF reach_start], rule step_execution, rule step_create)

theorem suspension_holds_until_cleared_witness:
  "map sur_ExecutionID (os_Suspensions sample_ops) = [Some ''x''] \<and>
   (\<exists>s'. GetActiveRealizationSuspension ''s/r'' sample_ops_later = Inr s' \<and> su_SuspensionID s' = ''a'') \<and>
   GetActiveRealizationSuspension ''s/r'' (snd (ClearRealizationSuspension 10 ''s/r'' sample_ops_later)) = Inl ErrNotFound"
proof -
  obtain s where s: "UpsertRealizationSuspension ''a'' 1 (sample_suspension ''crash'') sample_launched =
      (Inr s, sample_ops)" "su_SuspensionID s = ''a''" "su_Reference s = ''s/r''" "su_Status s = ''active''"
    using sample_suspended(1) unfolding sample_ops_def
    by (cases "UpsertRealizationSuspension ''a'' 1 (sample_suspension ''crash'') sample_launched"; cases "fst
      (UpsertRealizationSuspension ''a'' 1 (sample_suspension ''crash'') sample_launched)") auto
  have "(ops_step {''s/r''})\<^sup>*\<^sup>* sample_ops sample_ops_later"
    unfolding sample_ops_later_def
    by (rule rtranclp.rtrancl_into_rtrancl, rule rtranclp.rtrancl_into_rtrancl, rule r_into_rtranclp,
        rule step_suspend, rule step_execution, rule step_reset, rule step_prune)
  with suspension_holds_until_cleared[OF sample_launched_reachable s(1), of sample_ops_later 10] s sample_suspended(2)
  have "(\<exists>s'. GetActiveRealizationSuspension ''s/r'' sample_ops_later = Inr s' \<and> su_SuspensionID s' = ''a'') \<and>
    GetActiveRealizationSuspension ''s/r'' (snd (ClearRealizationSuspension 10 ''s/r'' sample_ops_later)) = Inl ErrNotFound"
    by auto
  moreover have "map sur_ExecutionID (os_Suspensions sample_ops) = [Some ''x'']" by code_simp
  ultimately show ?thesis by auto
qed

end
