(* ===== verification/Communications.thy ===== *)
theory Communications
  imports Authority_Types
begin

text \<open>
  internal/interactions/runtime_communications.go, runtime_discovery.go and the risk events of
  runtime_guardrails.go: threads, participants, messages and search documents, with their types, rows
  and scan functions. The pattern match of the search (\<open>ilike\<close>) is modelled with its wildcards.
\<close>

subsection \<open>Types and rows\<close>

record Thread =
  th_ThreadID :: string
  th_SubjectKind :: string
  th_SubjectID :: string
  th_ThreadKind :: string
  th_Status :: string
  th_Visibility :: string
  th_Title :: string
  th_Metadata :: json_map
  th_CreatedAt :: int
  th_ClosedAt :: "int option"

record CreateThreadInput =
  ct_ThreadID :: string
  ct_SubjectKind :: string
  ct_SubjectID :: string
  ct_ThreadKind :: string
  ct_Status :: string
  ct_Visibility :: string
  ct_Title :: string
  ct_Metadata :: json_map

record ThreadParticipant =
  tp_ParticipantID :: string
  tp_ThreadID :: string
  tp_PrincipalID :: string
  tp_Role :: string
  tp_Status :: string
  tp_DeliveryPolicy :: json_map
  tp_Metadata :: json_map
  tp_JoinedAt :: int
  tp_LeftAt :: "int option"

record AddThreadParticipantInput =
  atp_ParticipantID :: string
  atp_ThreadID :: string
  atp_PrincipalID :: string
  atp_Role :: string
  atp_Status :: string
  atp_DeliveryPolicy :: json_map
  atp_Metadata :: json_map

record Message =
  ms_MessageID :: string
  ms_ThreadID :: string
  ms_AuthorPrincipalID :: string
  ms_AuthorSessionID :: string
  ms_RequestID :: string
  ms_Kind :: string
  ms_Visibility :: string
  ms_BodyFormat :: string
  ms_Body :: string
  ms_Metadata :: json_map
  ms_CreatedAt :: int
  ms_EditedAt :: "int option"
  ms_DeletedAt :: "int option"

record PostMessageInput =
  pm_MessageID :: string
  pm_ThreadID :: string
  pm_AuthorPrincipalID :: string
  pm_AuthorSessionID :: string
  pm_RequestID :: string
  pm_Kind :: string
  pm_Visibility :: string
  pm_BodyFormat :: string
  pm_Body :: string
  pm_Metadata :: json_map

record SearchDocument =
  sd_DocumentID :: string
  sd_SubjectKind :: string
  sd_SubjectID :: string
  sd_Scope :: string
  sd_Language :: string
  sd_Title :: string
  sd_Summary :: string
  sd_BodyText :: string
  sd_Facets :: json_map
  sd_Ranking :: json_map
  sd_PublishedAt :: "int option"
  sd_SortAt :: "int option"
  sd_UpdatedAt :: int

record UpsertSearchDocumentInput =
  us_DocumentID :: string
  us_SubjectKind :: string
  us_SubjectID :: string
  us_Scope :: string
  us_Language :: string
  us_Title :: string
  us_Summary :: string
  us_BodyText :: string
  us_Facets :: json_map
  us_Ranking :: json_map
  us_PublishedAt :: "int option"
  us_SortAt :: "int option"

record SearchDocumentsInput =
  sq_Scope :: string
  sq_Query :: string
  sq_Limit :: int

record RiskEvent =
  rk_RiskEventID :: string
  rk_Namespace :: string
  rk_SubjectKey :: string
  rk_RequestID :: string
  rk_SessionID :: string
  rk_PrincipalID :: string
  rk_Kind :: string
  rk_Severity :: string
  rk_Status :: string
  rk_Data :: json_map
  rk_CreatedAt :: int
  rk_ResolvedAt :: "int option"

record RecordRiskEventInput =
  rr_RiskEventID :: string
  rr_Namespace :: string
  rr_SubjectKey :: string
  rr_RequestID :: string
  rr_SessionID :: string
  rr_PrincipalID :: string
  rr_Kind :: string
  rr_Severity :: string
  rr_Status :: string
  rr_Data :: json_map

record thread_row =
  thr_ThreadID :: string
  thr_SubjectKind :: string
  thr_SubjectID :: string
  thr_ThreadKind :: string
  thr_Status :: string
  thr_Visibility :: string
  thr_Title :: "string option"
  thr_Metadata :: json_map
  thr_CreatedAt :: int
  thr_ClosedAt :: "int option"

record participant_row =
  tpr_ParticipantID :: string
  tpr_ThreadID :: string
  tpr_PrincipalID :: "string option"
  tpr_Role :: string
  tpr_Status :: string
  tpr_DeliveryPolicy :: json_map
  tpr_Metadata :: json_map
  tpr_JoinedAt :: int
  tpr_LeftAt :: "int option"

record message_row =
  msr_MessageID :: string
  msr_ThreadID :: string
  msr_AuthorPrincipalID :: "string option"
  msr_AuthorSessionID :: "string option"
  msr_RequestID :: "string option"
  msr_Kind :: string
  msr_Visibility :: string
  msr_BodyFormat :: string
  msr_Body :: string
  msr_Metadata :: json_map
  msr_CreatedAt :: int
  msr_EditedAt :: "int option"
  msr_DeletedAt :: "int option"

record document_row =
  sdr_DocumentID :: string
  sdr_SubjectKind :: string
  sdr_SubjectID :: string
  sdr_Scope :: string
  sdr_Language :: "string option"
  sdr_Title :: "string option"
  sdr_Summary :: "string option"
  sdr_BodyText :: string
  sdr_Facets :: json_map
  sdr_Ranking :: json_map
  sdr_PublishedAt :: "int option"
  sdr_SortAt :: "int option"
  sdr_UpdatedAt :: int

record risk_row =
  rkr_RiskEventID :: string
  rkr_Namespace :: string
  rkr_SubjectKey :: "string option"
  rkr_RequestID :: "string option"
  rkr_SessionID :: "string option"
  rkr_PrincipalID :: "string option"
  rkr_Kind :: string
  rkr_Severity :: string
  rkr_Status :: string
  rkr_Data :: json_map
  rkr_CreatedAt :: int
  rkr_ResolvedAt :: "int option"

definition scanThread :: "thread_row \<Rightarrow> Thread" where
  "scanThread r =
     \<lparr>th_ThreadID = thr_ThreadID r, th_SubjectKind = thr_SubjectKind r,
       th_SubjectID = thr_SubjectID r, th_ThreadKind = thr_ThreadKind r, th_Status = thr_Status r,
       th_Visibility = thr_Visibility r, th_Title = string_of_null (thr_Title r),
       th_Metadata = thr_Metadata r, th_CreatedAt = thr_CreatedAt r, th_ClosedAt = thr_ClosedAt r\<rparr>"

definition scanThreadParticipant :: "participant_row \<Rightarrow> ThreadParticipant" where
  "scanThreadParticipant r =
     \<lparr>tp_ParticipantID = tpr_ParticipantID r, tp_ThreadID = tpr_ThreadID r,
       tp_PrincipalID = string_of_null (tpr_PrincipalID r), tp_Role = tpr_Role r,
       tp_Status = tpr_Status r, tp_DeliveryPolicy = tpr_DeliveryPolicy r,
       tp_Metadata = tpr_Metadata r, tp_JoinedAt = tpr_JoinedAt r, tp_LeftAt = tpr_LeftAt r\<rparr>"

definition scanMessage :: "message_row \<Rightarrow> Message" where
  "scanMessage r =
     \<lparr>ms_MessageID = msr_MessageID r, ms_ThreadID = msr_ThreadID r,
       ms_AuthorPrincipalID = string_of_null (msr_AuthorPrincipalID r),
       ms_AuthorSessionID = string_of_null (msr_AuthorSessionID r),
       ms_RequestID = string_of_null (msr_RequestID r), ms_Kind = msr_Kind r,
       ms_Visibility = msr_Visibility r, ms_BodyFormat = msr_BodyFormat r, ms_Body = msr_Body r,
       ms_Metadata = msr_Metadata r, ms_CreatedAt = msr_CreatedAt r, ms_EditedAt = msr_EditedAt r,
       ms_DeletedAt = msr_DeletedAt r\<rparr>"

definition scanSearchDocument :: "document_row \<Rightarrow> SearchDocument" where
  "scanSearchDocument r =
     \<lparr>sd_DocumentID = sdr_DocumentID r, sd_SubjectKind = sdr_SubjectKind r,
       sd_SubjectID = sdr_SubjectID r, sd_Scope = sdr_Scope r,
       sd_Language = string_of_null (sdr_Language r), sd_Title = string_of_null (sdr_Title r),
       sd_Summary = string_of_null (sdr_Summary r), sd_BodyText = sdr_BodyText r,
       sd_Facets = sdr_Facets r, sd_Ranking = sdr_Ranking r, sd_PublishedAt = sdr_PublishedAt r,
       sd_SortAt = sdr_SortAt r, sd_UpdatedAt = sdr_UpdatedAt r\<rparr>"

definition scanRiskEvent :: "risk_row \<Rightarrow> RiskEvent" where
  "scanRiskEvent r =
     \<lparr>rk_RiskEventID = rkr_RiskEventID r, rk_Namespace = rkr_Namespace r,
       rk_SubjectKey = string_of_null (rkr_SubjectKey r),
       rk_RequestID = string_of_null (rkr_RequestID r),
       rk_SessionID = string_of_null (rkr_SessionID r),
       rk_PrincipalID = string_of_null (rkr_PrincipalID r), rk_Kind = rkr_Kind r,
       rk_Severity = rkr_Severity r, rk_Status = rkr_Status r, rk_Data = rkr_Data r,
       rk_CreatedAt = rkr_CreatedAt r, rk_ResolvedAt = rkr_ResolvedAt r\<rparr>"

record comm_state =
  cm_Ready :: bool
  cm_Threads :: "thread_row list"
  cm_Participants :: "participant_row list"
  cm_Messages :: "message_row list"
  cm_Documents :: "document_row list"
  cm_Risks :: "risk_row list"

subsection \<open>Threads\<close>

definition new_thread :: "string \<Rightarrow> int \<Rightarrow> CreateThreadInput \<Rightarrow> thread_row" where
  "new_thread fresh dbnow i =
     \<lparr>thr_ThreadID = id_or (ct_ThreadID i) fresh, thr_SubjectKind = ct_SubjectKind i,
      thr_SubjectID = ct_SubjectID i,
      thr_ThreadKind = statusOrDefault (ct_ThreadKind i) ''conversation'',
      thr_Status = statusOrDefault (ct_Status i) ''open'',
      thr_Visibility = statusOrDefault (ct_Visibility i) ''shared'',
      thr_Title = nullString (ct_Title i), thr_Metadata = ct_Metadata i, thr_CreatedAt = dbnow,
      thr_ClosedAt = None\<rparr>"

definition CreateThread ::
  "string \<Rightarrow> int \<Rightarrow> CreateThreadInput \<Rightarrow> comm_state \<Rightarrow> (runtime_error + Thread) \<times> comm_state" where
  "CreateThread fresh dbnow i st =
     (if \<not> cm_Ready st then (Inl NotConfigured, st)
      else if blank (ct_SubjectKind i) \<or> blank (ct_SubjectID i)
        then (Inl (Required ''subject_kind and subject_id''), st)
      else answer (scanThread (new_thread fresh dbnow i)) (\<lambda>t st. st\<lparr>cm_Threads := t\<rparr>)
             (insert_new ''runtime_threads_pkey'' thr_ThreadID (new_thread fresh dbnow i) (cm_Threads st)) st)"

text \<open>A foreign key to a thread.\<close>

definition thread_exists :: "string \<Rightarrow> string \<Rightarrow> comm_state \<Rightarrow> runtime_error err" where
  "thread_exists constraint k st =
     require (row_at thr_ThreadID k (cm_Threads st) \<noteq> None) (ErrConflict constraint)"

definition new_participant :: "string \<Rightarrow> int \<Rightarrow> AddThreadParticipantInput \<Rightarrow> participant_row" where
  "new_participant fresh dbnow i =
     \<lparr>tpr_ParticipantID = id_or (atp_ParticipantID i) fresh, tpr_ThreadID = atp_ThreadID i,
      tpr_PrincipalID = nullString (atp_PrincipalID i),
      tpr_Role = statusOrDefault (atp_Role i) ''participant'',
      tpr_Status = statusOrDefault (atp_Status i) ''active'',
      tpr_DeliveryPolicy = atp_DeliveryPolicy i, tpr_Metadata = atp_Metadata i,
      tpr_JoinedAt = dbnow, tpr_LeftAt = None\<rparr>"

definition AddThreadParticipant ::
  "string \<Rightarrow> int \<Rightarrow> AddThreadParticipantInput \<Rightarrow> comm_state \<Rightarrow>
   (runtime_error + ThreadParticipant) \<times> comm_state" where
  "AddThreadParticipant fresh dbnow i st =
     (if \<not> cm_Ready st then (Inl NotConfigured, st)
      else if blank (atp_ThreadID i) then (Inl (Required ''thread_id''), st)
      else
        (let r = new_participant fresh dbnow i in
         answer (scanThreadParticipant r) (\<lambda>t st. st\<lparr>cm_Participants := t\<rparr>)
           (and_then (insert_new ''runtime_thread_participants_pkey'' tpr_ParticipantID r (cm_Participants st))
             (\<lambda>t. guard_err (thread_exists ''runtime_thread_participants_thread_id_fkey'' (tpr_ThreadID r) st)
                (Inr t))) st))"

definition new_message :: "string \<Rightarrow> int \<Rightarrow> PostMessageInput \<Rightarrow> message_row" where
  "new_message fresh dbnow i =
     \<lparr>msr_MessageID = id_or (pm_MessageID i) fresh, msr_ThreadID = pm_ThreadID i,
      msr_AuthorPrincipalID = nullString (pm_AuthorPrincipalID i),
      msr_AuthorSessionID = nullString (pm_AuthorSessionID i),
      msr_RequestID = nullString (pm_RequestID i),
      msr_Kind = statusOrDefault (pm_Kind i) ''message'',
      msr_Visibility = statusOrDefault (pm_Visibility i) ''shared'',
      msr_BodyFormat = statusOrDefault (pm_BodyFormat i) ''plain_text'', msr_Body = pm_Body i,
      msr_Metadata = pm_Metadata i, msr_CreatedAt = dbnow, msr_EditedAt = None, msr_DeletedAt = None\<rparr>"

definition PostMessage ::
  "string \<Rightarrow> int \<Rightarrow> PostMessageInput \<Rightarrow> comm_state \<Rightarrow> (runtime_error + Message) \<times> comm_state" where
  "PostMessage fresh dbnow i st =
     (if \<not> cm_Ready st then (Inl NotConfigured, st)
      else if blank (pm_ThreadID i) then (Inl (Required ''thread_id''), st)
      else if blank (pm_Body i) then (Inl (Required ''body''), st)
      else
        (let r = new_message fresh dbnow i in
         answer (scanMessage r) (\<lambda>t st. st\<lparr>cm_Messages := t\<rparr>)
           (and_then (insert_new ''runtime_messages_pkey'' msr_MessageID r (cm_Messages st))
             (\<lambda>t. guard_err (thread_exists ''runtime_messages_thread_id_fkey'' (msr_ThreadID r) st)
                (Inr t))) st))"

definition rowsToMessages :: "message_row list \<Rightarrow> Message list" where
  "rowsToMessages rows = map scanMessage rows"

definition ListMessages :: "string \<Rightarrow> int \<Rightarrow> comm_state \<Rightarrow> runtime_error + Message list" where
  "ListMessages threadID limit st =
     (if \<not> cm_Ready st then Inl NotConfigured
      else if blank threadID then Inl (Required ''thread_id'')
      else Inr (rowsToMessages (latest_rows msr_CreatedAt (clampLimit limit 50 200)
        (filter (\<lambda>r. msr_ThreadID r = trim_space threadID) (cm_Messages st)))))"

subsection \<open>Search documents\<close>

definition new_document :: "string \<Rightarrow> int \<Rightarrow> UpsertSearchDocumentInput \<Rightarrow> document_row" where
  "new_document fresh dbnow i =
     \<lparr>sdr_DocumentID = id_or (us_DocumentID i) fresh, sdr_SubjectKind = us_SubjectKind i,
      sdr_SubjectID = us_SubjectID i, sdr_Scope = statusOrDefault (us_Scope i) ''public'',
      sdr_Language = nullString (us_Language i), sdr_Title = nullString (us_Title i),
      sdr_Summary = nullString (us_Summary i), sdr_BodyText = us_BodyText i,
      sdr_Facets = us_Facets i, sdr_Ranking = us_Ranking i,
      sdr_PublishedAt = nullTimeValue (us_PublishedAt i), sdr_SortAt = nullTimeValue (us_SortAt i),
      sdr_UpdatedAt = dbnow\<rparr>"

definition document_key :: "document_row \<Rightarrow> string \<times> string \<times> string" where
  "document_key r = (sdr_SubjectKind r, sdr_SubjectID r, sdr_Scope r)"

definition UpsertSearchDocument ::
  "string \<Rightarrow> int \<Rightarrow> UpsertSearchDocumentInput \<Rightarrow> comm_state \<Rightarrow>
   (runtime_error + SearchDocument) \<times> comm_state" where
  "UpsertSearchDocument fresh dbnow i st =
     (if \<not> cm_Ready st then (Inl NotConfigured, st)
      else if blank (us_SubjectKind i) \<or> blank (us_SubjectID i)
        then (Inl (Required ''subject_kind and subject_id''), st)
      else
        (let r = new_document fresh dbnow i in
         case upsert_checked ''runtime_search_documents_pkey'' sdr_DocumentID document_key r
                (\<lambda>old. r\<lparr>sdr_DocumentID := sdr_DocumentID old\<rparr>) (cm_Documents st) of
           Inl e \<Rightarrow> (Inl e, st)
         | Inr t \<Rightarrow>
             (Inr (scanSearchDocument (the (row_at document_key (document_key r) t))),
              st\<lparr>cm_Documents := t\<rparr>)))"

text \<open>
  \<open>text like pattern\<close>: a percent sign stands for any text, an underscore for one character, a
  backslash takes the next character literally; \<open>ilike\<close> ignores case (of ASCII letters). \<open>None\<close>
  is the error for a pattern that ends with a backslash.
\<close>

fun like :: "string \<Rightarrow> string \<Rightarrow> bool option" where
  "like [] s = Some (s = [])"
| "like (p # ps) [] =
     (if p = CHR ''%'' then like ps []
      else if p = CHR 0x5C \<and> ps = [] then None else Some False)"
| "like (p # ps) (c # s) =
     (if p = CHR ''%'' then
        (case like ps (c # s) of Some False \<Rightarrow> like (p # ps) s | r \<Rightarrow> r)
      else if p = CHR ''_'' then like ps s
      else if p = CHR 0x5C then
        (case ps of [] \<Rightarrow> None | q # qs \<Rightarrow> if q = c then like qs s else Some False)
      else if p = c then like ps s else Some False)"

definition ilike :: "string \<Rightarrow> string \<Rightarrow> bool option" where
  "ilike s pattern = like (to_lower pattern) (to_lower s)"

text \<open>The condition of one row; an error of the pattern fails the query.\<close>

definition document_matches :: "string \<Rightarrow> document_row \<Rightarrow> bool option" where
  "document_matches q r =
     (if q = ''%%'' then Some True
      else
        (case ilike (string_of_null (sdr_Title r)) q of
           None \<Rightarrow> None
         | Some True \<Rightarrow> Some True
         | Some False \<Rightarrow>
             (case ilike (string_of_null (sdr_Summary r)) q of
                None \<Rightarrow> None
              | Some True \<Rightarrow> Some True
              | Some False \<Rightarrow> ilike (sdr_BodyText r) q)))"

fun matching_documents :: "string \<Rightarrow> document_row list \<Rightarrow> document_row list option" where
  "matching_documents q [] = Some []"
| "matching_documents q (r # rs) =
     (case document_matches q r of
        None \<Rightarrow> None
      | Some b \<Rightarrow> map_option (\<lambda>ms. if b then r # ms else ms) (matching_documents q rs))"

definition search_query :: "SearchDocumentsInput \<Rightarrow> string" where
  "search_query i = ''%'' @ trim_space (sq_Query i) @ ''%''"

definition SearchDocuments :: "SearchDocumentsInput \<Rightarrow> comm_state \<Rightarrow> runtime_error + SearchDocument list" where
  "SearchDocuments i st =
     (if \<not> cm_Ready st then Inl NotConfigured
      else
        (let scope = statusOrDefault (sq_Scope i) ''public'' in
         case matching_documents (search_query i) (filter (\<lambda>r. sdr_Scope r = scope) (cm_Documents st)) of
           None \<Rightarrow> Inl (Invalid ''LIKE pattern must not end with escape character'')
         | Some rows \<Rightarrow>
             Inr (map scanSearchDocument
               (take (nat (clampLimit (sq_Limit i) 50 200))
                 (sort_key (\<lambda>r. - (case sdr_SortAt r of None \<Rightarrow> sdr_UpdatedAt r | Some t \<Rightarrow> t))
                   (sort_key (\<lambda>r. - sdr_UpdatedAt r) rows))))))"

subsection \<open>Risk events\<close>

definition new_risk :: "string \<Rightarrow> int \<Rightarrow> RecordRiskEventInput \<Rightarrow> risk_row" where
  "new_risk fresh dbnow i =
     \<lparr>rkr_RiskEventID = id_or (rr_RiskEventID i) fresh, rkr_Namespace = rr_Namespace i,
      rkr_SubjectKey = nullString (rr_SubjectKey i), rkr_RequestID = nullString (rr_RequestID i),
      rkr_SessionID = nullString (rr_SessionID i), rkr_PrincipalID = nullString (rr_PrincipalID i),
      rkr_Kind = rr_Kind i, rkr_Severity = rr_Severity i,
      rkr_Status = statusOrDefault (rr_Status i) ''open'', rkr_Data = rr_Data i,
      rkr_CreatedAt = dbnow, rkr_ResolvedAt = None\<rparr>"

definition RecordRiskEvent ::
  "string \<Rightarrow> int \<Rightarrow> RecordRiskEventInput \<Rightarrow> comm_state \<Rightarrow> (runtime_error + RiskEvent) \<times> comm_state"
where
  "RecordRiskEvent fresh dbnow i st =
     (if \<not> cm_Ready st then (Inl NotConfigured, st)
      else if blank (rr_Namespace i) then (Inl (Required ''namespace''), st)
      else if blank (rr_Kind i) \<or> blank (rr_Severity i) then (Inl (Required ''kind and severity''), st)
      else answer (scanRiskEvent (new_risk fresh dbnow i)) (\<lambda>t st. st\<lparr>cm_Risks := t\<rparr>)
             (insert_new ''runtime_risk_events_pkey'' rkr_RiskEventID (new_risk fresh dbnow i)
                (cm_Risks st)) st)"

end
