(* ===== verification/Search_Properties.thy ===== *)
theory Search_Properties
  imports Communications "HOL-Library.Sublist" "HOL-Library.Multiset"
begin

text \<open>
  What the search finds: for a text without the special characters of patterns, the documents of the
  scope that contain it, newest first.
\<close>

definition plain :: "string \<Rightarrow> bool" where
  "plain q \<longleftrightarrow> set q \<inter> {CHR ''%'', CHR ''_'', CHR 0x5C} = {}"

lemma plain_Cons [simp]:
  "plain (c # q) \<longleftrightarrow> c \<noteq> CHR ''%'' \<and> c \<noteq> CHR ''_'' \<and> c \<noteq> CHR 0x5C \<and> plain q"
  by (auto simp: plain_def)

lemma like_any: "like ''%'' s = Some True"
  by (induction s) simp_all

lemma like_prefix: "plain q \<Longrightarrow> like (q @ ''%'') s = Some (prefix q s)"
proof (induction q arbitrary: s)
  case Nil
  then show ?case using like_any by simp
next
  case (Cons c q)
  then show ?case by (cases s) auto
qed

lemma like_sublist: "plain q \<Longrightarrow> like (''%'' @ q @ ''%'') s = Some (sublist q s)"
proof (induction s)
  case Nil
  then show ?case using like_prefix[of q "[]"] by (cases q) auto
next
  case (Cons c s)
  then show ?case using like_prefix[of q "c # s"] by (auto simp: sublist_Cons_right split: option.split bool.split)
qed

lemma lower_char_below:
  assumes "(of_char (lower_char a) :: nat) < 97"
  shows "lower_char a = a"
proof (cases "65 \<le> (of_char a :: nat) \<and> (of_char a :: nat) \<le> 90")
  case True
  then have "(of_char (char_of ((of_char a :: nat) + 32)) :: nat) = of_char a + 32" by (simp add: of_char_of)
  with True assms show ?thesis by (simp add: lower_char_def)
next
  case False
  then show ?thesis unfolding lower_char_def by (rule if_not_P)
qed

lemma lower_char_special: "lower_char a = c \<Longrightarrow> c \<in> {CHR ''%'', CHR ''_'', CHR 0x5C} \<Longrightarrow> a = c"
  using lower_char_below[of a] by auto

lemma plain_to_lower: "plain q \<Longrightarrow> plain (to_lower q)"
  by (auto simp: to_lower_def plain_def dest: sym[THEN lower_char_special])

lemma lower_percent: "lower_char CHR ''%'' = CHR ''%''"
  by code_simp

lemma ilike_sublist: "plain q \<Longrightarrow> ilike s (CHR ''%'' # q @ ''%'') = Some (sublist (to_lower q) (to_lower s))"
  using like_sublist[OF plain_to_lower, of q "to_lower s"] by (simp add: ilike_def to_lower_def lower_percent)

definition mentions :: "string \<Rightarrow> document_row \<Rightarrow> bool" where
  "mentions q r \<longleftrightarrow>
     (\<exists>t\<in>{string_of_null (sdr_Title r), string_of_null (sdr_Summary r), sdr_BodyText r}. sublist (to_lower q) (to_lower t))"

lemma document_matches_plain: "plain q \<Longrightarrow> document_matches (CHR ''%'' # q @ ''%'') r = Some (mentions q r)"
proof (cases "q = []")
  case True
  then show ?thesis by (auto simp: document_matches_def mentions_def to_lower_def)
next
  case False
  assume "plain q"
  moreover from False this have "CHR ''%'' # q @ ''%'' \<noteq> ''%%''" by (cases q) auto
  ultimately show ?thesis
    by (auto simp: document_matches_def ilike_sublist mentions_def split: bool.split)
qed

lemma matching_documents_plain:
  "plain q \<Longrightarrow> matching_documents (CHR ''%'' # q @ ''%'') rows = Some (filter (mentions q) rows)"
  by (induction rows) (simp_all add: document_matches_plain)

definition recency :: "document_row \<Rightarrow> int" where
  "recency r = (case sdr_SortAt r of None \<Rightarrow> sdr_UpdatedAt r | Some t \<Rightarrow> t)"

text \<open>A search without pattern characters returns documents of its scope whose title, summary or body
  contains the text, ignoring the case of letters; the newest come first, none is missing up to the
  limit, and none comes twice.\<close>

theorem search_finds_the_text:
  assumes "cm_Ready st" "plain (trim_space (sq_Query i))"
  shows "\<exists>rows. SearchDocuments i st = Inr (map scanSearchDocument (take (nat (clampLimit (sq_Limit i) 50 200)) rows)) \<and>
    mset rows = {#r \<in># mset (cm_Documents st). sdr_Scope r = statusOrDefault (sq_Scope i) ''public'' \<and>
      mentions (trim_space (sq_Query i)) r#} \<and>
    sorted (map (\<lambda>r. - recency r) rows)"
proof -
  let ?hits = "filter (mentions (trim_space (sq_Query i)))
    (filter (\<lambda>r. sdr_Scope r = statusOrDefault (sq_Scope i) ''public'') (cm_Documents st))"
  let ?rows = "sort_key (\<lambda>r. - recency r) (sort_key (\<lambda>r. - sdr_UpdatedAt r) ?hits)"
  have "SearchDocuments i st = Inr (map scanSearchDocument (take (nat (clampLimit (sq_Limit i) 50 200)) ?rows))"
    using assms by (simp add: SearchDocuments_def search_query_def matching_documents_plain recency_def Let_def)
  moreover have "mset ?rows = {#r \<in># mset (cm_Documents st). sdr_Scope r = statusOrDefault (sq_Scope i) ''public'' \<and>
      mentions (trim_space (sq_Query i)) r#}"
    by (simp add: filter_filter_mset conj_commute)
  moreover have "sorted (map (\<lambda>r. - recency r) ?rows)" by simp
  ultimately show ?thesis by blast
qed

definition sample_document :: "string \<Rightarrow> string \<Rightarrow> int \<Rightarrow> document_row" where
  "sample_document k title t =
     \<lparr>sdr_DocumentID = k, sdr_SubjectKind = ''show'', sdr_SubjectID = k, sdr_Scope = ''public'', sdr_Language = None,
      sdr_Title = Some title, sdr_Summary = None, sdr_BodyText = [], sdr_Facets = [], sdr_Ranking = [],
      sdr_PublishedAt = None, sdr_SortAt = None, sdr_UpdatedAt = t\<rparr>"

definition sample_comm :: comm_state where
  "sample_comm =
     \<lparr>cm_Ready = True, cm_Threads = [], cm_Participants = [], cm_Messages = [],
      cm_Documents = [sample_document ''a'' ''Flower Show'' 1, sample_document ''b'' ''Dogs'' 2], cm_Risks = []\<rparr>"

definition sample_search :: SearchDocumentsInput where
  "sample_search = \<lparr>sq_Scope = [], sq_Query = '' FLOWER'', sq_Limit = 0\<rparr>"

lemma sample_search_values:
  "trim_space (sq_Query sample_search) = ''FLOWER''"
  "statusOrDefault (sq_Scope sample_search) ''public'' = ''public''"
  "nat (clampLimit (sq_Limit sample_search) 50 200) = 50"
  "mentions ''FLOWER'' (sample_document ''a'' ''Flower Show'' 1)"
  "\<not> mentions ''FLOWER'' (sample_document ''b'' ''Dogs'' 2)"
  by code_simp+

theorem search_finds_the_text_witness:
  "SearchDocuments sample_search sample_comm = Inr [scanSearchDocument (sample_document ''a'' ''Flower Show'' 1)]"
proof -
  have "plain ''FLOWER''" by (simp add: plain_def)
  from search_finds_the_text[of sample_comm sample_search, unfolded sample_search_values(1-3), OF _ this]
  obtain rows where r: "SearchDocuments sample_search sample_comm = Inr (map scanSearchDocument (take 50 rows))"
    "mset rows = {#r \<in># mset (cm_Documents sample_comm). sdr_Scope r = ''public'' \<and> mentions ''FLOWER'' r#}"
    by (auto simp: sample_comm_def)
  have "sdr_Scope (sample_document k title t) = ''public''" for k title t by (simp add: sample_document_def)
  with r(2) have "mset rows = {#sample_document ''a'' ''Flower Show'' 1#}"
    using sample_search_values(4,5) by (simp add: sample_comm_def)
  then have "rows = [sample_document ''a'' ''Flower Show'' 1]" by simp
  with r(1) show ?thesis by simp
qed

end
