(* ===== verification/Prebuilt_Artifacts.thy ===== *)
theory Prebuilt_Artifacts
  imports Runtime_Launch Go_Sha256
begin

text \<open>
  internal/execution/prebuilt.go: the fingerprint of a realization's sources, the build of its binary
  and the look-up before a launch. The files of a realization are a tree; the directory of the built
  artifacts is a map from paths to files. The text of the metadata file is encoded and decoded by
  parameters, and whether the external steps (making the directory, go build, chmod, rename, writing)
  succeed is an argument.
\<close>

definition DOKSRuntimeGOOS :: string where "DOKSRuntimeGOOS = ''linux''"
definition DOKSRuntimeGOARCH :: string where "DOKSRuntimeGOARCH = ''amd64''"
definition goPrebuiltMetadataFile :: string where "goPrebuiltMetadataFile = ''current.json''"
definition goPrebuiltFingerprintVersion :: string where "goPrebuiltFingerprintVersion = ''v2-cgo-disabled''"

record GoPrebuiltArtifact =
  ga_BinaryPath :: string
  ga_MetadataPath :: string
  ga_Fingerprint :: string
  ga_Built :: bool

record goPrebuiltMetadata =
  gm_Runtime :: string
  gm_GOOS :: string
  gm_GOARCH :: string
  gm_Fingerprint :: string
  gm_Binary :: string
  gm_Entrypoint :: string
  gm_WorkingDirectory :: string
  gm_Toolchain :: string
  gm_BuiltAt :: int

datatype prebuilt_error =
    OnlyGo
  | NotPrebuilt string
  | ScanFailed io_error
  | RelFailed
  | ToolchainFailed string
  | EscapesRoot
  | MkdirFailed
  | BuildFailed string
  | ChmodFailed
  | RenameFailed
  | WriteFailed
  | MetadataMissing string
  | MetadataUnreadable string
  | MetadataMalformed
  | WrongRuntime string
  | WrongTarget string string
  | NoBinary
  | BinaryEscapes
  | BinaryMissing string
  | BinaryUnreadable string
  | NotRegular

subsection \<open>The inputs of a build\<close>

text \<open>
  A file with its content (regular or not), a directory with its entries in lexical order, or a
  node that cannot be read.
\<close>

datatype fs_node = FileNode bool string | DirNode "(string \<times> fs_node) list" | BadNode io_error

text \<open>\<open>WalkDir\<close> with the callback of \<open>fingerprintFiles\<close>: the regular files with their contents.\<close>

fun walk_node :: "string \<Rightarrow> fs_node \<Rightarrow> io_error + (string \<times> string) list"
  and walk_nodes :: "string \<Rightarrow> (string \<times> fs_node) list \<Rightarrow> io_error + (string \<times> string) list" where
  "walk_node path (BadNode e) = Inl e"
| "walk_node path (FileNode regular content) = Inr (if regular then [(path, content)] else [])"
| "walk_node path (DirNode entries) =
     (if base_of path \<in> {''.git'', ''node_modules''} then Inr [] else walk_nodes path entries)"
| "walk_nodes path [] = Inr []"
| "walk_nodes path ((name, n) # ns) =
     and_then (walk_node (join_paths [path, name]) n)
       (\<lambda>fs. map_sum id ((@) fs) (walk_nodes path ns))"

definition fingerprintFiles :: "string \<Rightarrow> fs_node \<Rightarrow> prebuilt_error + (string \<times> string) list" where
  "fingerprintFiles root tree =
     map_sum ScanFailed (sort_key fst) (walk_node root tree)"

definition writeFingerprintLine :: "string \<Rightarrow> string \<Rightarrow> string" where
  "writeFingerprintLine key v = key @ ''='' @ v @ [CHR 0x0A]"

text \<open>What is written to the hash for the files: the relative path of each, and its bytes with a line feed.\<close>

fun fingerprint_files :: "string \<Rightarrow> (string \<times> string) list \<Rightarrow> prebuilt_error + string" where
  "fingerprint_files workingDir [] = Inr []"
| "fingerprint_files workingDir ((path, content) # fs) =
     (case rel_path workingDir path of
        None \<Rightarrow> Inl RelFailed
      | Some relative \<Rightarrow>
          map_sum id (\<lambda>rest. writeFingerprintLine ''file'' relative @ content @ [CHR 0x0A] @ rest)
            (fingerprint_files workingDir fs))"

definition fingerprint_input ::
  "string \<Rightarrow> RuntimeManifest \<Rightarrow> string \<Rightarrow> string \<Rightarrow> string \<Rightarrow> (string \<times> string) list \<Rightarrow> prebuilt_error + string" where
  "fingerprint_input workingDir m goos goarch toolchain fs =
     map_sum id (\<lambda>body.
       writeFingerprintLine ''runtime'' (trim_space (rt_Runtime m)) @
       writeFingerprintLine ''entrypoint'' (trim_space (rt_Entrypoint m)) @
       writeFingerprintLine ''working_directory'' (trim_space (rt_WorkingDirectory m)) @
       writeFingerprintLine ''target'' (goos @ ''/'' @ goarch) @
       writeFingerprintLine ''toolchain'' (trim_space toolchain) @
       writeFingerprintLine ''fingerprint_version'' goPrebuiltFingerprintVersion @
       writeFingerprintLine ''cgo_enabled'' ''0'' @ body)
     (fingerprint_files workingDir fs)"

text \<open>The first twelve bytes of the digest.\<close>

definition computeGoPrebuiltFingerprint ::
  "string \<Rightarrow> fs_node \<Rightarrow> RuntimeManifest \<Rightarrow> string \<Rightarrow> string \<Rightarrow> string \<Rightarrow> prebuilt_error + string" where
  "computeGoPrebuiltFingerprint workingDir tree m goos goarch toolchain =
     and_then (fingerprintFiles workingDir tree) (\<lambda>fs.
       map_sum id (\<lambda>text. take 24 (hashToken text)) (fingerprint_input workingDir m goos goarch toolchain fs))"

text \<open>The output of \<open>go env GOVERSION\<close>, \<open>Inl\<close> when the command failed.\<close>

definition goToolchainVersion :: "string + string \<Rightarrow> prebuilt_error + string" where
  "goToolchainVersion output =
     (case output of
        Inl out \<Rightarrow> Inl (ToolchainFailed (trim_space out))
      | Inr out \<Rightarrow> if trim_space out = [] then Inl (ToolchainFailed ''empty result'') else Inr (trim_space out))"

subsection \<open>The directory of the artifacts\<close>

definition prebuiltArtifactDir ::
  "string option \<Rightarrow> string \<Rightarrow> LocalRealization \<Rightarrow> string \<Rightarrow> string \<Rightarrow> prebuilt_error + string" where
  "prebuiltArtifactDir wd repoRoot entry goos goarch =
     (let dir = join_paths [repoRoot, ''materialized'', ''realizations'', mf_SeedID (lr_Manifest entry),
                  mf_RealizationID (lr_Manifest entry), ''runtime'', ''prebuilt'', goos @ ''-'' @ goarch]
      in if \<not> PathContained wd repoRoot dir then Inl EscapesRoot else Inr dir)"

text \<open>A regular file with its content, something else, or something that cannot be examined.\<close>

datatype artifact_file = Regular string | Special | Unreadable

type_synonym artifacts = "string \<Rightarrow> artifact_file option"

definition ResolveGoPrebuiltArtifact ::
  "(string \<Rightarrow> goPrebuiltMetadata option) \<Rightarrow> string option \<Rightarrow> string \<Rightarrow> LocalRealization \<Rightarrow> string \<Rightarrow> string \<Rightarrow>
   artifacts \<Rightarrow> prebuilt_error + string" where
  "ResolveGoPrebuiltArtifact decode wd repoRoot entry goos goarch store =
     and_then (prebuiltArtifactDir wd repoRoot entry goos goarch) (\<lambda>buildDir.
       let metadataPath = join_paths [buildDir, goPrebuiltMetadataFile] in
       case store metadataPath of
         None \<Rightarrow> Inl (MetadataMissing metadataPath)
       | Some (Regular raw) \<Rightarrow>
           (case decode raw of
              None \<Rightarrow> Inl MetadataMalformed
            | Some md \<Rightarrow>
                let binaryName = trim_space (gm_Binary md);
                    binaryPath = join_paths [buildDir, binaryName]
                in guard_err
                     (first_err
                       [require (trim_space (gm_Runtime md) = ''go'') (WrongRuntime (gm_Runtime md)),
                        require (\<not> (trim_space (gm_GOOS md) \<noteq> goos \<or> trim_space (gm_GOARCH md) \<noteq> goarch))
                          (WrongTarget (gm_GOOS md) (gm_GOARCH md)),
                        require (binaryName \<noteq> []) NoBinary,
                        require (\<not> (\<not> PathContained wd repoRoot binaryPath \<or> \<not> PathContained wd buildDir binaryPath))
                          BinaryEscapes])
                     (case store binaryPath of
                        None \<Rightarrow> Inl (BinaryMissing binaryPath)
                      | Some Unreadable \<Rightarrow> Inl (BinaryUnreadable binaryPath)
                      | Some Special \<Rightarrow> Inl NotRegular
                      | Some (Regular bin) \<Rightarrow> Inr binaryPath))
       | Some other \<Rightarrow> Inl (MetadataUnreadable metadataPath))"

text \<open>
  What the external steps of a build did: \<open>go build\<close> gives the binary or its trimmed output; a write that fails
  leaves anything, or nothing, in place of the metadata file.
\<close>

record build_steps =
  bs_Mkdir :: bool
  bs_Build :: "string + string"
  bs_Chmod :: bool
  bs_Rename :: bool
  bs_Write :: "artifact_file option option"
  bs_Now :: int

definition prebuilt_metadata ::
  "RuntimeManifest \<Rightarrow> string \<Rightarrow> string \<Rightarrow> string \<Rightarrow> string \<Rightarrow> int \<Rightarrow> goPrebuiltMetadata" where
  "prebuilt_metadata m goos goarch toolchain fingerprint now =
     \<lparr>gm_Runtime = ''go'', gm_GOOS = goos, gm_GOARCH = goarch, gm_Fingerprint = fingerprint,
      gm_Binary = ''launch-'' @ fingerprint, gm_Entrypoint = trim_space (rt_Entrypoint m),
      gm_WorkingDirectory = trim_space (rt_WorkingDirectory m), gm_Toolchain = toolchain, gm_BuiltAt = now\<rparr>"

definition writeGoPrebuiltMetadata ::
  "(goPrebuiltMetadata \<Rightarrow> string) \<Rightarrow> artifact_file option option \<Rightarrow> string \<Rightarrow> goPrebuiltMetadata \<Rightarrow> artifacts \<Rightarrow>
   prebuilt_error err \<times> artifacts" where
  "writeGoPrebuiltMetadata encode failed path md store =
     (case failed of
        None \<Rightarrow> (None, store(path \<mapsto> Regular (encode md @ [CHR 0x0A])))
      | Some left \<Rightarrow> (Some WriteFailed, store(path := left)))"

text \<open>
  The build proper, into a temporary file that is renamed; the error path of a failed chmod or
  rename removes the temporary file.
\<close>

definition build_binary :: "build_steps \<Rightarrow> string \<Rightarrow> artifacts \<Rightarrow> prebuilt_error err \<times> artifacts" where
  "build_binary steps target store =
     (let tmp = target @ ''.tmp''; cleared = store(tmp := None) in
      case bs_Build steps of
        Inl output \<Rightarrow> (Some (BuildFailed output), cleared)
      | Inr bin \<Rightarrow>
          if \<not> bs_Chmod steps then (Some ChmodFailed, cleared)
          else if \<not> bs_Rename steps then (Some RenameFailed, cleared)
          else (None, cleared(target \<mapsto> Regular bin)))"

definition is_regular :: "artifact_file option \<Rightarrow> bool" where
  "is_regular f = (case f of Some (Regular b) \<Rightarrow> True | _ \<Rightarrow> False)"

definition BuildGoPrebuiltArtifact ::
  "(goPrebuiltMetadata \<Rightarrow> string) \<Rightarrow> string option \<Rightarrow> string \<Rightarrow> LocalRealization \<Rightarrow> RuntimeManifest \<Rightarrow> string \<Rightarrow>
   fs_node \<Rightarrow> string \<Rightarrow> string \<Rightarrow> string + string \<Rightarrow> build_steps \<Rightarrow> artifacts \<Rightarrow>
   (prebuilt_error + GoPrebuiltArtifact) \<times> artifacts" where
  "BuildGoPrebuiltArtifact encode wd repoRoot entry m workingDir tree goos goarch version steps store =
     (if trim_space (rt_Runtime m) \<noteq> ''go'' then (Inl OnlyGo, store)
      else if trim_space (run_Command (rt_Run m)) \<noteq> ''prebuilt'' then (Inl (NotPrebuilt (lr_Reference entry)), store)
      else
        (case and_then (goToolchainVersion version) (\<lambda>toolchain.
                and_then (computeGoPrebuiltFingerprint workingDir tree m goos goarch toolchain) (\<lambda>fingerprint.
                and_then (prebuiltArtifactDir wd repoRoot entry goos goarch) (\<lambda>buildDir.
                  if bs_Mkdir steps then Inr (toolchain, fingerprint, buildDir) else Inl MkdirFailed))) of
           Inl e \<Rightarrow> (Inl e, store)
         | Inr (toolchain, fingerprint, buildDir) \<Rightarrow>
             (let target = join_paths [buildDir, ''launch-'' @ fingerprint];
                  metadataPath = join_paths [buildDir, goPrebuiltMetadataFile];
                  md = prebuilt_metadata m goos goarch toolchain fingerprint (bs_Now steps);
                  reuse = is_regular (store target);
                  (built, store1) = (if reuse then (None, store) else build_binary steps target store)
              in case built of
                   Some e \<Rightarrow> (Inl e, store1)
                 | None \<Rightarrow>
                     (case writeGoPrebuiltMetadata encode (bs_Write steps) metadataPath md store1 of
                        (Some e, store2) \<Rightarrow> (Inl e, store2)
                      | (None, store2) \<Rightarrow>
                          (Inr \<lparr>ga_BinaryPath = target, ga_MetadataPath = metadataPath, ga_Fingerprint = fingerprint,
                                ga_Built = \<not> reuse\<rparr>, store2)))))"

end
