(* ===== verification/Prebuilt_Properties.thy ===== *)
theory Prebuilt_Properties
  imports Prebuilt_Artifacts
begin

text \<open>
  What a build promises: the next launch finds the binary it made; and what its fingerprint does not
  distinguish.
\<close>

subsection \<open>Names of binaries\<close>

text \<open>The name of a binary is one plain path component.\<close>

lemma binary_name:
  assumes "computeGoPrebuiltFingerprint workingDir tree m goos goarch toolchain = Inr fp"
  shows "CHR ''/'' \<notin> set (''launch-'' @ fp)" "trim_space (''launch-'' @ fp) = ''launch-'' @ fp"
    "proper_comp (''launch-'' @ fp)"
proof -
  from assms obtain s where fp: "fp = take 24 (hashToken s)"
    by (auto simp: computeGoPrebuiltFingerprint_def map_sum_Inr)
  then have hex: "set fp \<subseteq> set ''0123456789abcdef''" "length fp = 24"
    using hashToken_chars[of s] set_take_subset[of 24 "hashToken s"] by (auto simp: length_hashToken)
  show noslash: "CHR ''/'' \<notin> set (''launch-'' @ fp)" using hex(1) by auto
  then show "proper_comp (''launch-'' @ fp)" by (simp add: proper_comp_def)
  have "plain_char c" if "c \<in> set fp" for c
    using that hex(1) by (auto simp: plain_char_def)
  moreover have "last (''launch-'' @ fp) \<in> set fp" using hex(2) by (cases fp) auto
  ultimately show "trim_space (''launch-'' @ fp) = ''launch-'' @ fp"
    by (intro trim_space_plain) (simp add: plain_ends_def plain_char_def)
qed

subsection \<open>A built binary is found\<close>

lemma is_abs_join: "is_abs d \<Longrightarrow> is_abs (join_paths (d # es))"
proof -
  assume "is_abs d"
  then obtain d' where d: "d = CHR ''/'' # d'" by (auto simp: is_abs_def prefix_def)
  have "\<exists>r. join_with slash (d # es) = CHR ''/'' # r" by (cases es) (simp_all add: d)
  then show ?thesis by (auto simp: join_paths_def d clean_def)
qed

lemma contained_component:
  assumes "is_abs dir" "clean_comps True dir \<noteq> []" "proper_comp c"
  shows "PathContained wd dir (join_paths [dir, c])"
proof -
  have "split_on (CHR ''/'') c = [c]"
    using split_join_proper[of "[c]"] assms(3) by simp
  then show ?thesis using assms by (intro PathContained_join) (auto simp: proper_comp_def)
qed

text \<open>Different components give different paths.\<close>

lemma join_component_inj:
  assumes "is_abs dir" "proper_comp c" "proper_comp d" "join_paths [dir, c] = join_paths [dir, d]"
  shows "c = d"
  using join_comps[OF assms(1), of "[c]"] join_comps[OF assms(1), of "[d]"] assms(2-4) by simp

lemma build_binary_keeps:
  assumes "build_binary steps target store = (None, store')"
  shows "is_regular (store' target)"
  using assms by (auto simp: build_binary_def Let_def is_regular_def split: sum.splits if_splits)

lemma build_result:
  assumes "BuildGoPrebuiltArtifact encode wd repoRoot entry m workingDir tree goos goarch version steps store = (Inr a, store')"
  obtains toolchain fp dir store1 where
    "computeGoPrebuiltFingerprint workingDir tree m goos goarch toolchain = Inr fp"
    "prebuiltArtifactDir wd repoRoot entry goos goarch = Inr dir"
    "is_regular (store1 (join_paths [dir, ''launch-'' @ fp]))"
    "store' = store1(join_paths [dir, goPrebuiltMetadataFile] \<mapsto>
       Regular (encode (prebuilt_metadata m goos goarch toolchain fp (bs_Now steps)) @ [CHR 0x0A]))"
    "ga_BinaryPath a = join_paths [dir, ''launch-'' @ fp]"
proof -
  let ?parts = "and_then (goToolchainVersion version) (\<lambda>toolchain.
    and_then (computeGoPrebuiltFingerprint workingDir tree m goos goarch toolchain) (\<lambda>fingerprint.
    and_then (prebuiltArtifactDir wd repoRoot entry goos goarch) (\<lambda>buildDir.
      if bs_Mkdir steps then Inr (toolchain, fingerprint, buildDir) else Inl MkdirFailed)))"
  from assms obtain toolchain fp dir where parts: "?parts = Inr (toolchain, fp, dir)"
    by (cases ?parts) (auto simp: BuildGoPrebuiltArtifact_def split: if_splits)
  then have p: "computeGoPrebuiltFingerprint workingDir tree m goos goarch toolchain = Inr fp"
    "prebuiltArtifactDir wd repoRoot entry goos goarch = Inr dir" by (auto split: if_splits)
  let ?target = "join_paths [dir, ''launch-'' @ fp]"
  obtain b store1 where b: "(if is_regular (store ?target) then (None, store) else build_binary steps ?target store) = (b, store1)"
    by (metis surj_pair)
  have r: "b = None" "bs_Write steps = None" "ga_BinaryPath a = ?target"
    "store' = store1(join_paths [dir, goPrebuiltMetadataFile] \<mapsto>
       Regular (encode (prebuilt_metadata m goos goarch toolchain fp (bs_Now steps)) @ [CHR 0x0A]))"
    using assms unfolding BuildGoPrebuiltArtifact_def parts sum.case prod.case Let_def b
    by (auto simp: writeGoPrebuiltMetadata_def split: if_splits option.splits)
  have "is_regular (store1 ?target)" using b r(1) by (auto intro: build_binary_keeps split: if_splits)
  with p r that show thesis by blast
qed

subsection \<open>Properties\<close>

text \<open>C26: after a build, whether it made the binary or found it made, the look-up before a launch returns
  the path of that binary.\<close>

theorem built_artifact_is_resolved:
  assumes "BuildGoPrebuiltArtifact encode wd repoRoot entry m workingDir tree goos goarch version steps store = (Inr a, store')"
    and "\<And>toolchain fp. decode (encode (prebuilt_metadata m goos goarch toolchain fp (bs_Now steps)) @ [CHR 0x0A]) =
      Some (prebuilt_metadata m goos goarch toolchain fp (bs_Now steps))"
    and "is_abs repoRoot" "clean_comps True repoRoot \<noteq> []"
    and "trim_space goos = goos" "trim_space goarch = goarch"
  shows "ResolveGoPrebuiltArtifact decode wd repoRoot entry goos goarch store' = Inr (ga_BinaryPath a)"
  using assms(1)
proof (rule build_result)
  fix toolchain fp dir store1
  assume c: "computeGoPrebuiltFingerprint workingDir tree m goos goarch toolchain = Inr fp"
    and d: "prebuiltArtifactDir wd repoRoot entry goos goarch = Inr dir"
    and t: "is_regular (store1 (join_paths [dir, ''launch-'' @ fp]))"
    and s: "store' = store1(join_paths [dir, goPrebuiltMetadataFile] \<mapsto>
       Regular (encode (prebuilt_metadata m goos goarch toolchain fp (bs_Now steps)) @ [CHR 0x0A]))"
    and a: "ga_BinaryPath a = join_paths [dir, ''launch-'' @ fp]"
  note n = binary_name[OF c]
  let ?target = "join_paths [dir, ''launch-'' @ fp]" and ?meta = "join_paths [dir, goPrebuiltMetadataFile]"
  from d have dir: "is_abs dir" "PathContained wd repoRoot dir"
    using assms(3) by (auto simp: prebuiltArtifactDir_def Let_def is_abs_join split: if_splits)
  then have comps: "clean_comps True dir \<noteq> []"
    using assms(3,4) by (auto simp: PathContained_iff below_def)
  have inside: "PathContained wd dir ?target" by (rule contained_component[OF dir(1) comps n(3)])
  then have "PathContained wd repoRoot ?target"
    using PathContained_trans[OF assms(3) dir(1) is_abs_join[OF dir(1)] dir(2)] by blast
  moreover have "?meta \<noteq> ?target"
    using join_component_inj[OF dir(1) _ n(3), of goPrebuiltMetadataFile]
    by (auto simp: goPrebuiltMetadataFile_def proper_comp_def)
  moreover obtain bin where "store1 ?target = Some (Regular bin)"
    using t by (auto simp: is_regular_def split: option.splits artifact_file.splits)
  moreover have "trim_space ''go'' = ''go''" by code_simp
  ultimately show ?thesis
    using inside n(2) assms(5,6)
    by (simp add: ResolveGoPrebuiltArtifact_def d s a Let_def assms(2)) (simp add: prebuilt_metadata_def guard_err_def)
qed

definition prebuilt_runtime :: RuntimeManifest where
  "prebuilt_runtime =
     \<lparr>rt_Kind = ''runtime'', rt_Version = 1, rt_Runtime = ''go'', rt_Entrypoint = ''main.go'', rt_WorkingDirectory = ''app'',
      rt_Run = \<lparr>run_Command = ''prebuilt'', run_Args = []\<rparr>, rt_Environment = [], rt_Notes = []\<rparr>"

definition prebuilt_steps :: build_steps where
  "prebuilt_steps = \<lparr>bs_Mkdir = True, bs_Build = Inr ''binary'', bs_Chmod = True, bs_Rename = True, bs_Write = None, bs_Now = 5\<rparr>"

text \<open>
  A text that gives the two varying parts of the metadata back: the length of the fingerprint in
  unary, the fingerprint and the toolchain.
\<close>

definition sample_encode :: "goPrebuiltMetadata \<Rightarrow> string" where
  "sample_encode md =
     replicate (length (gm_Fingerprint md)) CHR ''1'' @ CHR ''0'' # gm_Fingerprint md @ gm_Toolchain md"

definition sample_decode :: "string \<Rightarrow> goPrebuiltMetadata option" where
  "sample_decode s =
     (let n = length (takeWhile (\<lambda>c. c = CHR ''1'') s); rest = drop (Suc n) (butlast s)
      in Some (prebuilt_metadata prebuilt_runtime ''linux'' ''amd64'' (drop n rest) (take n rest) 5))"

lemma sample_decode_encode:
  "sample_decode (sample_encode (prebuilt_metadata prebuilt_runtime ''linux'' ''amd64'' toolchain fp 5) @ [CHR 0x0A]) =
     Some (prebuilt_metadata prebuilt_runtime ''linux'' ''amd64'' toolchain fp 5)"
proof -
  have "takeWhile (\<lambda>c. c = CHR ''1'') (replicate n CHR ''1'' @ CHR ''0'' # r) = replicate n CHR ''1''" for n r
    by (induction n) simp_all
  then show ?thesis
    by (simp add: sample_decode_def sample_encode_def Let_def butlast_append) (simp add: prebuilt_metadata_def)
qed

definition prebuilt_tree :: "(string \<times> string) list \<Rightarrow> fs_node" where
  "prebuilt_tree fs = DirNode (map (\<lambda>(name, content). (name, FileNode True content)) fs)"

lemma prebuilt_values:
  "fingerprintFiles ''/r/app'' (prebuilt_tree [(''main.go'', ''x'')]) = Inr [(''/r/app/main.go'', ''x'')]"
  "map_sum id (\<lambda>x. ()) (fingerprint_files ''/r/app'' [(''/r/app/main.go'', ''x'')]) = Inr ()"
  "map_sum id (\<lambda>x. ()) (prebuiltArtifactDir None ''/r'' runtime_entry ''linux'' ''amd64'') = Inr ()"
  "goToolchainVersion (Inr ''go1'') = Inr ''go1''"
  "trim_space (rt_Runtime prebuilt_runtime) = ''go''" "trim_space (run_Command (rt_Run prebuilt_runtime)) = ''prebuilt''"
  "is_abs ''/r''" "clean_comps True ''/r'' = [''r'']" "trim_space ''linux'' = ''linux''" "trim_space ''amd64'' = ''amd64''"
  by code_simp+

theorem built_artifact_is_resolved_witness:
  "\<exists>a store'.
     BuildGoPrebuiltArtifact sample_encode None ''/r'' runtime_entry prebuilt_runtime ''/r/app''
       (prebuilt_tree [(''main.go'', ''x'')]) ''linux'' ''amd64'' (Inr ''go1'') prebuilt_steps (\<lambda>_. None) = (Inr a, store') \<and>
     ResolveGoPrebuiltArtifact sample_decode None ''/r'' runtime_entry ''linux'' ''amd64'' store' = Inr (ga_BinaryPath a)"
proof -
  obtain fp dir where "computeGoPrebuiltFingerprint ''/r/app'' (prebuilt_tree [(''main.go'', ''x'')]) prebuilt_runtime
      ''linux'' ''amd64'' ''go1'' = Inr fp"
    "prebuiltArtifactDir None ''/r'' runtime_entry ''linux'' ''amd64'' = Inr dir"
    using prebuilt_values(2,3)
    by (auto simp: computeGoPrebuiltFingerprint_def fingerprint_input_def prebuilt_values(1) map_sum_Inr)
  then obtain a store' where b: "BuildGoPrebuiltArtifact sample_encode None ''/r'' runtime_entry prebuilt_runtime ''/r/app''
       (prebuilt_tree [(''main.go'', ''x'')]) ''linux'' ''amd64'' (Inr ''go1'') prebuilt_steps (\<lambda>_. None) = (Inr a, store')"
    by (simp add: BuildGoPrebuiltArtifact_def prebuilt_values(4-6) prebuilt_steps_def Let_def is_regular_def and_then_def
        build_binary_def writeGoPrebuiltMetadata_def)
  have "bs_Now prebuilt_steps = 5" by (simp add: prebuilt_steps_def)
  with built_artifact_is_resolved[OF b, of sample_decode] sample_decode_encode prebuilt_values(7-10) b
  show ?thesis by auto
qed

text \<open>The fingerprint does not separate the files it covers: a file that contains the header line of a
  second file, and the two files apart, give the same fingerprint, so a build after such a change
  reuses the old binary.\<close>

theorem fingerprint_framing_is_ambiguous:
  assumes "fingerprintFiles workingDir one = Inr ((p, c @ [CHR 0x0A] @ writeFingerprintLine ''file'' r @ d) # fs)"
    and "fingerprintFiles workingDir two = Inr ((p, c) # (q, d) # fs)" "rel_path workingDir q = Some r"
  shows "computeGoPrebuiltFingerprint workingDir one m goos goarch toolchain =
    computeGoPrebuiltFingerprint workingDir two m goos goarch toolchain"
proof -
  have "fingerprint_files workingDir ((p, c @ [CHR 0x0A] @ writeFingerprintLine ''file'' r @ d) # fs) =
      fingerprint_files workingDir ((p, c) # (q, d) # fs)"
    using assms(3) by (cases "fingerprint_files workingDir fs") (simp_all split: option.split)
  then show ?thesis
    by (simp only: computeGoPrebuiltFingerprint_def assms(1,2) fingerprint_input_def and_then_def sum.case)
qed

definition joined_file :: string where
  "joined_file = ''x'' @ [CHR 0x0A] @ writeFingerprintLine ''file'' ''b.go'' @ ''y''"

theorem fingerprint_framing_is_ambiguous_witness:
  "computeGoPrebuiltFingerprint ''/a'' (prebuilt_tree [(''a.go'', joined_file)]) prebuilt_runtime ''linux'' ''amd64'' ''go1'' =
     computeGoPrebuiltFingerprint ''/a'' (prebuilt_tree [(''a.go'', ''x''), (''b.go'', ''y'')]) prebuilt_runtime
       ''linux'' ''amd64'' ''go1'' \<and>
   joined_file \<noteq> ''x''"
proof -
  have "fingerprintFiles ''/a'' (prebuilt_tree [(''a.go'', joined_file)]) = Inr [(''/a/a.go'', joined_file)]"
    "fingerprintFiles ''/a'' (prebuilt_tree [(''a.go'', ''x''), (''b.go'', ''y'')]) = Inr [(''/a/a.go'', ''x''), (''/a/b.go'', ''y'')]"
    "rel_path ''/a'' ''/a/b.go'' = Some ''b.go''" "joined_file \<noteq> ''x''"
    by code_simp+
  then show ?thesis
    using fingerprint_framing_is_ambiguous[of "''/a''" _ "''/a/a.go''" "''x''" "''b.go''" "''y''" "[]"]
    by (simp add: joined_file_def)
qed

end
