(* ===== verification/Local_Execution.thy ===== *)
theory Local_Execution
  imports Prebuilt_Artifacts
begin

text \<open>
  internal/execution/local.go: the launch specification of a realization, the environment of its
  process, the table of the running processes, and the writer that cuts output into log lines. What the
  machine gives (its files, its environment, a free address) is a record of parameters; starting a
  process and its exit are steps with their outcome as argument.
\<close>

record CapabilityURLs =
  cu_RegistryBaseURL :: string
  cu_PublicAPIBaseURL :: string
  cu_InternalAPIBaseURL :: string
  cu_RuntimeDatabaseURL :: string

record LocalSpec =
  ls_ExecutionID :: string
  ls_Reference :: string
  ls_SeedID :: string
  ls_RealizationID :: string
  ls_RouteSubdomain :: string
  ls_RoutePathPrefix :: string
  ls_PreviewPathPrefix :: string
  ls_UpstreamAddr :: string
  ls_WorkingDir :: string
  ls_Command :: string
  ls_Args :: "string list"
  ls_Environment :: "string list"

record ExecutionLogRecord =
  el_ExecutionID :: string
  el_Source :: string
  el_Stream :: string
  el_Message :: string
  el_OccurredAt :: int

record RunningProcess =
  rpr_ExecutionID :: string
  rpr_PID :: nat
  rpr_LogFile :: string

subsection \<open>The environment of a process\<close>

definition host_kept :: "string set" where
  "host_kept =
     {''PATH'', ''HOME'', ''USER'', ''TMPDIR'', ''SHELL'', ''LANG'', ''TERM'', ''GOENV'', ''GOCACHE'', ''GOMODCACHE'',
      ''GOPATH'', ''XDG_CACHE_HOME'', ''XDG_CONFIG_HOME'', ''XDG_DATA_HOME'', ''CGO_ENABLED''}"

definition keepHostEnv :: "string \<Rightarrow> bool" where
  "keepHostEnv key \<longleftrightarrow> key \<in> host_kept \<or> has_prefix key ''LC_''"

definition keep_pair :: "(string \<times> string) list \<Rightarrow> string \<Rightarrow> (string \<times> string) list" where
  "keep_pair base pair =
     (case cut_at (CHR ''='') pair of
        (key, v, found) \<Rightarrow> if \<not> found \<or> \<not> keepHostEnv key then base else upsert key [] (\<lambda>_. v) base)"

definition set_pair :: "(string \<times> string) list \<Rightarrow> string \<times> string \<Rightarrow> (string \<times> string) list" where
  "set_pair base kv = upsert (fst kv) [] (\<lambda>_. snd kv) base"

text \<open>
  The map is in the order of first assignment here; Go lists it in any order. \<open>environ\<close> is
  \<open>os.Environ()\<close>.
\<close>

definition process_environment :: "string list \<Rightarrow> (string \<times> string) list \<Rightarrow> (string \<times> string) list" where
  "process_environment environ overrides = foldl set_pair (foldl keep_pair [] environ) overrides"

definition buildProcessEnvironment :: "string list \<Rightarrow> (string \<times> string) list \<Rightarrow> string list" where
  "buildProcessEnvironment environ overrides =
     map (\<lambda>(key, v). key @ ''='' @ v) (process_environment environ overrides)"

text \<open>\<open>os.LookupEnv\<close>: the value of the first entry with the name.\<close>

fun lookup_env :: "string list \<Rightarrow> string \<Rightarrow> string option" where
  "lookup_env [] name = None"
| "lookup_env (pair # pairs) name =
     (case cut_at (CHR ''='') pair of
        (key, v, found) \<Rightarrow> if found \<and> key = name then Some v else lookup_env pairs name)"

definition resolveRuntimeEnvValue :: "string list \<Rightarrow> string \<Rightarrow> string" where
  "resolveRuntimeEnvValue environ raw =
     (let trimmed = trim_space raw in
      if has_prefix trimmed ''${'' \<and> has_suffix trimmed ''}'' then
        (let name = trim_space (trim_suffix (trim_prefix trimmed ''${'') ''}'') in
         if name \<noteq> [] then (case lookup_env environ name of Some v \<Rightarrow> v | None \<Rightarrow> []) else raw)
      else raw)"

subsection \<open>The launch specification\<close>

datatype spec_error =
    SpecDiscover load_error
  | SpecNotFound string
  | SpecMeta load_error
  | SpecNoManifest
  | SpecRefused launch_error
  | SpecAddress string
  | SpecPrebuilt prebuilt_error

record machine =
  ma_Files :: file_system
  ma_WorkingDir :: "string option"
  ma_Decoders :: decoders
  ma_Metadata :: "string \<Rightarrow> goPrebuiltMetadata option"
  ma_Artifacts :: artifacts
  ma_Environ :: "string list"
  ma_Address :: "string + string"

definition PreviewPath :: "string \<Rightarrow> string" where
  "PreviewPath executionID = ''/__runs/'' @ trim_space executionID @ ''/''"

definition prepareLocalLaunchCommand ::
  "machine \<Rightarrow> string \<Rightarrow> LocalRealization \<Rightarrow> RuntimeManifest \<Rightarrow> prebuilt_error + string \<times> string list" where
  "prepareLocalLaunchCommand ma repoRoot entry manifest =
     (let command = trim_space (run_Command (rt_Run manifest)) in
      if trim_space (rt_Runtime manifest) \<noteq> ''go'' \<or> command \<noteq> ''prebuilt''
      then Inr (command, run_Args (rt_Run manifest))
      else map_sum id (\<lambda>path. (path, []))
             (ResolveGoPrebuiltArtifact (ma_Metadata ma) (ma_WorkingDir ma) repoRoot entry DOKSRuntimeGOOS DOKSRuntimeGOARCH
                (ma_Artifacts ma)))"

text \<open>The variables of the kernel, and those of the manifest before them.\<close>

definition url_pair :: "string \<Rightarrow> string \<Rightarrow> (string \<times> string) list" where
  "url_pair key url = (if trim_space url \<noteq> [] then [(key, trim_space url)] else [])"

definition kernel_pairs ::
  "string \<Rightarrow> LocalRealization \<Rightarrow> string \<Rightarrow> CapabilityURLs \<Rightarrow> (string \<times> string) list" where
  "kernel_pairs upstream entry executionID urls =
     [(''AS_ADDR'', upstream), (''AS_SEED_ID'', mf_SeedID (lr_Manifest entry)),
      (''AS_REALIZATION_ID'', mf_RealizationID (lr_Manifest entry)), (''AS_EXECUTION_ID'', executionID)] @
     url_pair ''AS_REGISTRY_URL'' (cu_RegistryBaseURL urls) @
     url_pair ''AS_PUBLIC_API_URL'' (cu_PublicAPIBaseURL urls) @
     url_pair ''AS_INTERNAL_API_URL'' (cu_InternalAPIBaseURL urls) @
     url_pair ''AS_RUNTIME_DATABASE_URL'' (cu_RuntimeDatabaseURL urls)"

definition manifest_pairs :: "string list \<Rightarrow> RuntimeManifest \<Rightarrow> (string \<times> string) list" where
  "manifest_pairs environ manifest =
     map (\<lambda>(key, v). (trim_space key, resolveRuntimeEnvValue environ v)) (rt_Environment manifest)"

text \<open>The environment map, as \<open>envMap\<close> of the code.\<close>

definition launch_env_map ::
  "string list \<Rightarrow> RuntimeManifest \<Rightarrow> (string \<times> string) list \<Rightarrow> (string \<times> string) list" where
  "launch_env_map environ manifest own = foldl set_pair [] (manifest_pairs environ manifest @ own)"

definition BuildLocalSpec ::
  "machine \<Rightarrow> string \<Rightarrow> string \<Rightarrow> string \<Rightarrow> CapabilityURLs \<Rightarrow> spec_error + LocalSpec" where
  "BuildLocalSpec ma repoRoot reference executionID urls =
     and_then (map_sum SpecDiscover id (Discover (ma_Files ma) (dec_Manifest (ma_Decoders ma)) repoRoot)) (\<lambda>entries.
     case ResolveByReference entries reference of
       None \<Rightarrow> Inl (SpecNotFound reference)
     | Some entry \<Rightarrow>
     and_then (map_sum SpecMeta id
       (LoadRealizationMeta (ma_Files ma) (ma_WorkingDir ma) (ma_Decoders ma) repoRoot entry)) (\<lambda>meta.
     case rm_RuntimeManifest meta of
       None \<Rightarrow> Inl SpecNoManifest
     | Some manifest \<Rightarrow>
     guard_err (map_option SpecRefused
       (ValidateLocalRuntimeManifest (ma_WorkingDir ma) repoRoot (lr_RootDir entry) manifest))
     (and_then (map_sum SpecAddress id (ma_Address ma)) (\<lambda>upstream.
      and_then (map_sum SpecPrebuilt id (prepareLocalLaunchCommand ma repoRoot entry manifest)) (\<lambda>(command, args).
        Inr \<lparr>ls_ExecutionID = executionID, ls_Reference = lr_Reference entry,
             ls_SeedID = mf_SeedID (lr_Manifest entry), ls_RealizationID = mf_RealizationID (lr_Manifest entry),
             ls_RouteSubdomain = trim_space (mf_Subdomain (lr_Manifest entry)),
             ls_RoutePathPrefix = trim_space (mf_PathPrefix (lr_Manifest entry)),
             ls_PreviewPathPrefix = PreviewPath executionID, ls_UpstreamAddr = upstream,
             ls_WorkingDir = join_paths [lr_RootDir entry, trim_space (rt_WorkingDirectory manifest)],
             ls_Command = command, ls_Args = args,
             ls_Environment = buildProcessEnvironment (ma_Environ ma)
               (launch_env_map (ma_Environ ma) manifest (kernel_pairs upstream entry executionID urls))\<rparr>)))))"

subsection \<open>The table of processes\<close>

text \<open>
  The table of the executor, and the processes of the machine that it started and that still run.
  \<open>Launch\<close> takes the outcome of its system calls: an error, or the number of the process and the path
  of its log.
\<close>

record executor =
  lx_Processes :: "string \<rightharpoonup> RunningProcess"
  lx_Alive :: "nat set"

datatype launch_failure = ExecutionIDRequired | CommandRequired | SystemCall string

definition Launch ::
  "string + nat \<times> string \<Rightarrow> LocalSpec \<Rightarrow> executor \<Rightarrow> (launch_failure + string) \<times> executor" where
  "Launch outcome spec x =
     (if trim_space (ls_ExecutionID spec) = [] then (Inl ExecutionIDRequired, x)
      else if trim_space (ls_WorkingDir spec) = [] \<or> trim_space (ls_Command spec) = [] then (Inl CommandRequired, x)
      else case outcome of
        Inl e \<Rightarrow> (Inl (SystemCall e), x)
      | Inr (pid, logPath) \<Rightarrow>
          (Inr logPath,
           x\<lparr>lx_Processes := (lx_Processes x)(ls_ExecutionID spec \<mapsto>
               \<lparr>rpr_ExecutionID = ls_ExecutionID spec, rpr_PID = pid, rpr_LogFile = logPath\<rparr>),
             lx_Alive := insert pid (lx_Alive x)\<rparr>))"

text \<open>The goroutine that waits for a process: the entry of its execution is deleted.\<close>

definition process_exit :: "string \<Rightarrow> nat \<Rightarrow> executor \<Rightarrow> executor" where
  "process_exit executionID pid x =
     x\<lparr>lx_Processes := (lx_Processes x)(executionID := None), lx_Alive := lx_Alive x - {pid}\<rparr>"

text \<open>A kill ends the process; what its exit does to the table follows as a step of its own.\<close>

definition Stop :: "string \<Rightarrow> executor \<Rightarrow> bool \<times> executor" where
  "Stop executionID x =
     (case lx_Processes x (trim_space executionID) of
        None \<Rightarrow> (False, x)
      | Some p \<Rightarrow> (True, x\<lparr>lx_Alive := lx_Alive x - {rpr_PID p}\<rparr>))"

text \<open>The running processes, in the order in which the map is ranged over.\<close>

definition RunningProcesses :: "string list \<Rightarrow> executor \<Rightarrow> RunningProcess list" where
  "RunningProcesses order x = List.map_filter (lx_Processes x) order"

subsection \<open>The wait for a healthy process\<close>

text \<open>
  One round asks the two candidates; \<open>probe n\<close> are the statuses of their answers in round \<open>n\<close>, if any,
  and \<open>rounds\<close> the number of rounds at whose end the context has not expired yet.
\<close>

definition healthy_status :: "int option \<Rightarrow> bool" where
  "healthy_status status = (case status of None \<Rightarrow> False | Some n \<Rightarrow> 200 \<le> n \<and> n < 400)"

fun WaitForHealthy :: "(nat \<Rightarrow> int option \<times> int option) \<Rightarrow> string \<Rightarrow> nat \<Rightarrow> nat \<Rightarrow> string option" where
  "WaitForHealthy probe cause n rounds =
     (if healthy_status (fst (probe n)) \<or> healthy_status (snd (probe n)) then None
      else case rounds of 0 \<Rightarrow> Some cause | Suc m \<Rightarrow> WaitForHealthy probe cause (Suc n) m)"

declare WaitForHealthy.simps [simp del]

lemma WaitForHealthy_None:
  "WaitForHealthy probe cause n rounds = None \<longleftrightarrow>
     (\<exists>i\<in>{n..n + rounds}. healthy_status (fst (probe i)) \<or> healthy_status (snd (probe i)))"
proof (induction rounds arbitrary: n)
  case 0
  then show ?case by (subst WaitForHealthy.simps) simp
next
  case (Suc m)
  have "{n..n + Suc m} = insert n {Suc n..Suc n + m}" by auto
  then show ?case by (subst WaitForHealthy.simps) (simp add: Suc.IH)
qed

subsection \<open>Log lines\<close>

text \<open>
  The writer keeps the bytes after the last line feed in its buffer. A line that is blank is not
  reported.
\<close>

function complete_lines :: "string \<Rightarrow> string list \<times> string" where
  "complete_lines raw =
     (if CHR 0x0A \<notin> set raw then ([], raw)
      else
        (let line = takeWhile (\<lambda>c. c \<noteq> CHR 0x0A) raw;
             (lines, rest) = complete_lines (tl (dropWhile (\<lambda>c. c \<noteq> CHR 0x0A) raw))
         in (line # lines, rest)))"
  by pat_completeness auto
termination
proof (relation "measure length")
  fix raw :: string
  assume "\<not> CHR 0x0A \<notin> set raw"
  then have "dropWhile (\<lambda>c. c \<noteq> CHR 0x0A) raw \<noteq> []" by (auto simp: dropWhile_eq_Nil_conv)
  moreover have "length (dropWhile (\<lambda>c. c \<noteq> CHR 0x0A) raw) \<le> length raw" by (rule length_dropWhile_le)
  ultimately show "(tl (dropWhile (\<lambda>c. c \<noteq> CHR 0x0A) raw), raw) \<in> measure length"
    by (cases "dropWhile (\<lambda>c. c \<noteq> CHR 0x0A) raw") auto
qed simp_all

declare complete_lines.simps [simp del]

definition emit :: "string \<Rightarrow> string list" where
  "emit line = (if trim_space line = [] then [] else [line])"

definition flushCompleteLines :: "string \<Rightarrow> string list \<times> string" where
  "flushCompleteLines raw =
     (let (lines, rest) = complete_lines raw in (concat (map (\<lambda>l. emit (trim_right_set l [CHR 0x0D])) lines), rest))"

text \<open>\<open>Write\<close> gives the reported lines and the new buffer, \<open>Flush\<close> the last line.\<close>

definition line_Write :: "string \<Rightarrow> string \<Rightarrow> string list \<times> string" where
  "line_Write buffer p = (if p = [] then ([], buffer) else flushCompleteLines (buffer @ p))"

definition line_Flush :: "string \<Rightarrow> string list" where
  "line_Flush buffer = (if buffer = [] then [] else emit (trim_right_set buffer [CHR 0x0D, CHR 0x0A]))"

text \<open>A process that writes these chunks and exits.\<close>

fun write_chunks :: "string \<Rightarrow> string list \<Rightarrow> string list" where
  "write_chunks buffer [] = line_Flush buffer"
| "write_chunks buffer (p # ps) = (let (lines, buffer') = line_Write buffer p in lines @ write_chunks buffer' ps)"

end
