(* ===== verification/Local_Worker.thy ===== *)
theory Local_Worker
  imports Local_Execution Operations Job_Queue Error_Responses
begin

text \<open>
  internal/execution/local_worker.go: the worker that launches, stops, watches and terminates the
  processes of realizations, on top of the runtime service (its store of executions and operations,
  its job queue) and the executor. A handler takes the clock readings and identifiers it draws as
  functions of the position of the call, and the outcomes of the machine (the start of the process, its
  health, its samples) as arguments. The exit of a process is an operation of its own, as it runs in
  another goroutine.
\<close>

subsection \<open>State\<close>

definition LocalBackendName :: string where "LocalBackendName = ''localprocess''"
definition executionQueueName :: string where "executionQueueName = ''realization-execution''"
definition executionLaunchKind :: string where "executionLaunchKind = ''realizations.launch''"
definition executionStopKind :: string where "executionStopKind = ''realizations.stop''"

record ResourceBudgets =
  bu_MaxRSSBytes :: int
  bu_MaxCPUPercent :: int
  bu_MaxLogBytes :: int
  bu_MaxOpenFDs :: int
  bu_ConsecutiveBreaches :: int
  bu_SampleEvery :: int
  bu_TelemetryTTL :: int
  bu_RemediationTarget :: string
  bu_RemediationHint :: string

record LocalWorker =
  wk_RepoRoot :: string
  wk_HasRuntime :: bool
  wk_Capabilities :: CapabilityURLs
  wk_WorkerName :: string
  wk_AutoActivate :: bool
  wk_LaunchHealthTimeout :: int
  wk_Budgets :: ResourceBudgets
  wk_Store :: ops_state
  wk_Jobs :: "json job_state"
  wk_Executor :: executor
  wk_LastSampleAt :: "int option"
  wk_LastPrunedAt :: "int option"
  wk_BreachCounts :: "string \<Rightarrow> int"

text \<open>Durations are in nanoseconds, CPU shares in tenths of a percent.\<close>

definition second :: int where "second = 1000000000"
definition DefaultHealthWaitTimeout :: int where "DefaultHealthWaitTimeout = 180 * second"
definition default_ttl :: int where "default_ttl = 30 * 24 * 3600 * second"

definition default_budgets :: ResourceBudgets where
  "default_budgets =
     \<lparr>bu_MaxRSSBytes = 512 * 1024 * 1024, bu_MaxCPUPercent = 2500, bu_MaxLogBytes = 16 * 1024 * 1024, bu_MaxOpenFDs = 256,
      bu_ConsecutiveBreaches = 3, bu_SampleEvery = 5 * second, bu_TelemetryTTL = default_ttl,
      bu_RemediationTarget = ''main'', bu_RemediationHint = []\<rparr>"

definition NewLocalWorker ::
  "string \<Rightarrow> ops_state option \<Rightarrow> json job_state \<Rightarrow> CapabilityURLs \<Rightarrow> string \<Rightarrow> bool \<Rightarrow> ops_state \<Rightarrow> LocalWorker" where
  "NewLocalWorker repoRoot runtime jobs caps name autoActivate nothing =
     \<lparr>wk_RepoRoot = repoRoot, wk_HasRuntime = runtime \<noteq> None, wk_Capabilities = caps, wk_WorkerName = name,
      wk_AutoActivate = autoActivate, wk_LaunchHealthTimeout = DefaultHealthWaitTimeout, wk_Budgets = default_budgets,
      wk_Store = (case runtime of None \<Rightarrow> nothing | Some st \<Rightarrow> st), wk_Jobs = jobs,
      wk_Executor = \<lparr>lx_Processes = Map.empty, lx_Alive = {}\<rparr>, wk_LastSampleAt = None, wk_LastPrunedAt = None,
      wk_BreachCounts = (\<lambda>_. 0)\<rparr>"

datatype worker_error =
    RuntimeUnavailable
  | UnsupportedKind string
  | MissingPayload string
  | WStore runtime_error
  | WSpec spec_error
  | WLaunch launch_failure
  | WHealth string

text \<open>Identifiers and clock readings, by the position of the call, and the text of an error.\<close>

record world =
  wo_ID :: "nat \<Rightarrow> string"
  wo_Now :: "nat \<Rightarrow> int"
  wo_DB :: "nat \<Rightarrow> int"
  wo_Say :: "worker_error \<Rightarrow> string"
  wo_Sprint :: "json \<Rightarrow> string"
  wo_Machine :: machine
  wo_Launch :: "string + nat \<times> string"
  wo_Health :: "string option"

fun firstNonEmpty :: "string list \<Rightarrow> string" where
  "firstNonEmpty [] = []"
| "firstNonEmpty (v # vs) = (let t = trim_space v in if t \<noteq> [] then t else firstNonEmpty vs)"

definition maxInt :: "int \<Rightarrow> int \<Rightarrow> int" where
  "maxInt v fallback = (if v \<le> 0 then fallback else v)"

definition payload_string :: "(json \<Rightarrow> string) \<Rightarrow> json json_object \<Rightarrow> string \<Rightarrow> string" where
  "payload_string sprint values key =
     (case values key of None \<Rightarrow> [] | Some (JString s) \<Rightarrow> s | Some raw \<Rightarrow> sprint raw)"

subsection \<open>Calls of the runtime service\<close>

definition empty_update :: UpdateRealizationExecutionInput where
  "empty_update =
     \<lparr>ue_Status = [], ue_UpstreamAddr = [], ue_PreviewPathPrefix = [], ue_HealthyAt = None, ue_StoppedAt = None,
      ue_LastError = [], ue_Metadata = []\<rparr>"

definition update_exec ::
  "world \<Rightarrow> nat \<Rightarrow> string \<Rightarrow> UpdateRealizationExecutionInput \<Rightarrow> LocalWorker \<Rightarrow>
   (runtime_error + RealizationExecution) \<times> LocalWorker" where
  "update_exec wo n k input w =
     (let (r, st) = UpdateRealizationExecution (wo_DB wo n) k input (wk_Store w) in (r, w\<lparr>wk_Store := st\<rparr>))"

text \<open>An event, whose failure is ignored.\<close>

definition record_event :: "world \<Rightarrow> nat \<Rightarrow> string \<Rightarrow> string \<Rightarrow> json_map \<Rightarrow> LocalWorker \<Rightarrow> LocalWorker" where
  "record_event wo n k name data w =
     w\<lparr>wk_Store := snd (RecordRealizationExecutionEvent (wo_ID wo n) (wo_Now wo n)
        \<lparr>ree_EventID = [], ree_ExecutionID = k, ree_Name = name, ree_Data = data, ree_OccurredAt = None\<rparr> (wk_Store w))\<rparr>"

definition on_store :: "(ops_state \<Rightarrow> 'a \<times> ops_state) \<Rightarrow> LocalWorker \<Rightarrow> LocalWorker" where
  "on_store f w = w\<lparr>wk_Store := snd (f (wk_Store w))\<rparr>"

definition kill :: "string \<Rightarrow> LocalWorker \<Rightarrow> LocalWorker" where
  "kill k w = w\<lparr>wk_Executor := snd (Stop k (wk_Executor w))\<rparr>"

definition forget_breaches :: "string \<Rightarrow> LocalWorker \<Rightarrow> LocalWorker" where
  "forget_breaches k w = w\<lparr>wk_BreachCounts := (wk_BreachCounts w)(k := 0)\<rparr>"

subsection \<open>Bindings of an execution\<close>

definition binding_input ::
  "RealizationExecution \<Rightarrow> string \<Rightarrow> string \<Rightarrow> string \<Rightarrow> string \<Rightarrow> bool \<Rightarrow> RealizationRouteBindingInput" where
  "binding_input execution upstream kind subdomain pathPrefix preview =
     \<lparr>rbi_BindingID = [], rbi_ExecutionID = ex_ExecutionID execution, rbi_SeedID = ex_SeedID execution,
      rbi_Reference = ex_Reference execution, rbi_BindingKind = kind, rbi_Subdomain = subdomain,
      rbi_PathPrefix = pathPrefix, rbi_UpstreamAddr = upstream, rbi_Status = [],
      rbi_Metadata = [(''preview'', JBool preview)]\<rparr>"

definition preview_binding :: "RealizationExecution \<Rightarrow> LocalSpec \<Rightarrow> RealizationRouteBindingInput" where
  "preview_binding execution spec =
     binding_input execution (ls_UpstreamAddr spec) ''preview_path'' [] (ls_PreviewPathPrefix spec) True"

definition stable_bindings :: "RealizationExecution \<Rightarrow> LocalSpec \<Rightarrow> RealizationRouteBindingInput list" where
  "stable_bindings execution spec =
     (if ls_RouteSubdomain spec \<noteq> []
      then [binding_input execution (ls_UpstreamAddr spec) ''stable_subdomain'' (ls_RouteSubdomain spec) [] False] else []) @
     (if ls_RoutePathPrefix spec \<noteq> []
      then [binding_input execution (ls_UpstreamAddr spec) ''stable_path'' [] (ls_RoutePathPrefix spec) False] else [])"

definition syncBindings ::
  "world \<Rightarrow> nat \<Rightarrow> RealizationExecution \<Rightarrow> LocalSpec \<Rightarrow> LocalWorker \<Rightarrow> worker_error err \<times> LocalWorker" where
  "syncBindings wo n execution spec w =
     (case (case GetRealizationActivation (ex_Reference execution) (wk_Store w) of
              Inr activation \<Rightarrow>
                if act_ExecutionID activation = ex_ExecutionID execution
                then Inr (preview_binding execution spec # stable_bindings execution spec,
                          on_store (DeleteStableRouteBindingsForReference (ex_Reference execution)) w)
                else Inr ([preview_binding execution spec], w)
            | Inl runtime_error.ErrNotFound \<Rightarrow> Inr ([preview_binding execution spec], w)
            | Inl e \<Rightarrow> Inl e) of
        Inl e \<Rightarrow> (Some (WStore e), w)
      | Inr (bindings, w1) \<Rightarrow>
          (case ReplaceRealizationRouteBindings (\<lambda>i. wo_ID wo (n + 1 + i)) (wo_DB wo n) (ex_ExecutionID execution) bindings
                  (wk_Store w1) of
             (Inl e, st) \<Rightarrow> (Some (WStore e), w1\<lparr>wk_Store := st\<rparr>)
           | (Inr bs, st) \<Rightarrow>
               (None, record_event wo n (ex_ExecutionID execution) ''route_registered''
                  [(''bindings'', JNumber (int (length bindings)))] (w1\<lparr>wk_Store := st\<rparr>))))"

subsection \<open>Launch\<close>

text \<open>A failed launch: the execution is marked, the event recorded.\<close>

definition fail_launch :: "world \<Rightarrow> nat \<Rightarrow> string \<Rightarrow> string \<Rightarrow> string \<Rightarrow> LocalWorker \<Rightarrow> LocalWorker" where
  "fail_launch wo n k name text w =
     record_event wo (n + 1) k name [(''error'', JString text)]
       (snd (update_exec wo n k (empty_update\<lparr>ue_Status := ''failed'', ue_StoppedAt := Some (wo_Now wo n), ue_LastError := text\<rparr>) w))"

definition activate_first :: "world \<Rightarrow> nat \<Rightarrow> RealizationExecution \<Rightarrow> LocalWorker \<Rightarrow> LocalWorker" where
  "activate_first wo n execution w =
     (if \<not> wk_AutoActivate w then w
      else if GetRealizationActivation (ex_Reference execution) (wk_Store w) = Inl runtime_error.ErrNotFound
      then on_store (ActivateRealization (wo_DB wo n)
             \<lparr>ain_SeedID = ex_SeedID execution, ain_Reference = ex_Reference execution,
              ain_ExecutionID = ex_ExecutionID execution, ain_ActivatedByPrincipalID = [], ain_ActivatedBySessionID = [],
              ain_RequestID = [], ain_Metadata = [(''reason'', JString ''first_healthy_execution_for_reference'')]\<rparr>) w
      else w)"

text \<open>From a healthy process on.\<close>

definition finish_launch :: "world \<Rightarrow> string \<Rightarrow> LocalSpec \<Rightarrow> LocalWorker \<Rightarrow> worker_error err \<times> LocalWorker" where
  "finish_launch wo k spec w =
     (case update_exec wo 12 k (empty_update\<lparr>ue_Status := ''healthy'', ue_UpstreamAddr := ls_UpstreamAddr spec,
             ue_PreviewPathPrefix := ls_PreviewPathPrefix spec, ue_HealthyAt := Some (wo_Now wo 12)\<rparr>) w of
        (Inl e, w1) \<Rightarrow> (Some (WStore e), w1)
      | (Inr execution, w1) \<Rightarrow>
          let w2 = record_event wo 13 k ''health_passed'' [(''upstream_addr'', JString (ls_UpstreamAddr spec))] w1;
              w3 = activate_first wo 14 execution w2
          in case syncBindings wo 15 execution spec w3 of
               (Some e, w4) \<Rightarrow> (Some e, w4)
             | (None, w4) \<Rightarrow>
                 let (e, st) = ClearRealizationSuspension (wo_DB wo 19) (ex_Reference execution) (wk_Store w4)
                 in (map_option WStore e, w4\<lparr>wk_Store := st\<rparr>))"

text \<open>A process that does not become healthy is killed.\<close>

definition health_failed :: "world \<Rightarrow> string \<Rightarrow> string \<Rightarrow> LocalWorker \<Rightarrow> LocalWorker" where
  "health_failed wo k e w =
     on_store (DeleteRealizationRouteBindings k) (kill k (fail_launch wo 10 k ''health_failed'' e w))"

definition health_result :: "world \<Rightarrow> string \<Rightarrow> LocalSpec \<Rightarrow> LocalWorker \<Rightarrow> worker_error err \<times> LocalWorker" where
  "health_result wo k spec w =
     (case wo_Health wo of
        Some e \<Rightarrow> (Some (WHealth e), health_failed wo k e w)
      | None \<Rightarrow> finish_launch wo k spec w)"

text \<open>From a started process on: the health check decides.\<close>

definition announce_start :: "world \<Rightarrow> string \<Rightarrow> LocalSpec \<Rightarrow> string \<Rightarrow> LocalWorker \<Rightarrow> LocalWorker" where
  "announce_start wo k spec logPath w =
     (let w2 = record_event wo 8 k ''process_started''
            [(''log_file'', JString logPath), (''preview_path_prefix'', JString (ls_PreviewPathPrefix spec)),
             (''upstream_addr'', JString (ls_UpstreamAddr spec))] w;
          timeout = (if wk_LaunchHealthTimeout w2 \<le> 0 then DefaultHealthWaitTimeout else wk_LaunchHealthTimeout w2)
      in record_event wo 9 k ''health_check_started''
           [(''timeout_seconds'', JNumber (timeout div second)), (''upstream_addr'', JString (ls_UpstreamAddr spec))] w2)"

definition await_health :: "world \<Rightarrow> string \<Rightarrow> LocalSpec \<Rightarrow> string \<Rightarrow> LocalWorker \<Rightarrow> worker_error err \<times> LocalWorker" where
  "await_health wo k spec logPath w =
     (case update_exec wo 7 k (empty_update\<lparr>ue_Status := ''starting'', ue_UpstreamAddr := ls_UpstreamAddr spec,
             ue_PreviewPathPrefix := ls_PreviewPathPrefix spec,
             ue_Metadata := [(''log_file'', JString logPath), (''runtime_kind'', JString ''source_local'')]\<rparr>) w of
        (Inl e, w1) \<Rightarrow> (Some (WStore e), w1)
      | (Inr x, w1) \<Rightarrow> health_result wo k spec (announce_start wo k spec logPath w1))"

definition handleLaunch :: "world \<Rightarrow> json Job \<Rightarrow> LocalWorker \<Rightarrow> worker_error err \<times> LocalWorker" where
  "handleLaunch wo job w =
     (let k = trim_space (payload_string (wo_Sprint wo) (job_Payload job) ''execution_id'');
          reference = trim_space (payload_string (wo_Sprint wo) (job_Payload job) ''reference'')
      in if k = [] \<or> reference = [] then (Some (MissingPayload ''execution_id or reference''), w)
      else case update_exec wo 0 k (empty_update\<lparr>ue_Status := ''starting''\<rparr>) w of
        (Inl e, w1) \<Rightarrow> (Some (WStore e), w1)
      | (Inr x, w1) \<Rightarrow>
          let w2 = record_event wo 1 k ''launch_started'' [(''job_id'', JString (job_JobID job))] w1
          in case BuildLocalSpec (wo_Machine wo) (wk_RepoRoot w2) reference k (wk_Capabilities w2) of
               Inl e \<Rightarrow> (Some (WSpec e), fail_launch wo 2 k ''launch_failed'' (wo_Say wo (WSpec e)) w2)
             | Inr spec \<Rightarrow>
                 let w3 = record_event wo 4 k ''launch_spec_resolved''
                       [(''preview_path_prefix'', JString (ls_PreviewPathPrefix spec)),
                        (''route_path_prefix'', JString (ls_RoutePathPrefix spec)),
                        (''route_subdomain'', JString (ls_RouteSubdomain spec)),
                        (''upstream_addr'', JString (ls_UpstreamAddr spec))] w2;
                     (started, x) = Launch (wo_Launch wo) spec (wk_Executor w3);
                     w4 = w3\<lparr>wk_Executor := x\<rparr>
                 in case started of
                      Inl e \<Rightarrow> (Some (WLaunch e), fail_launch wo 5 k ''launch_failed'' (wo_Say wo (WLaunch e)) w4)
                    | Inr logPath \<Rightarrow> await_health wo k spec logPath w4)"

subsection \<open>Stop\<close>

definition deactivate :: "string \<Rightarrow> string \<Rightarrow> bool \<Rightarrow> LocalWorker \<Rightarrow> LocalWorker" where
  "deactivate reference k stableToo w =
     (case GetRealizationActivation reference (wk_Store w) of
        Inl e \<Rightarrow> w
      | Inr activation \<Rightarrow>
          if act_ExecutionID activation = k
          then (let w1 = on_store (DeleteRealizationActivation reference) w in
                if stableToo then on_store (DeleteStableRouteBindingsForReference reference) w1 else w1)
          else w)"

text \<open>
  The kill and the rest of the handler are separate, since the exit of the process may be handled in
  between.
\<close>

definition stop_rest :: "world \<Rightarrow> string \<Rightarrow> string \<Rightarrow> LocalWorker \<Rightarrow> worker_error err \<times> LocalWorker" where
  "stop_rest wo k reference w =
     (let w1 = record_event wo 1 k ''stop_requested'' [] w in
      case update_exec wo 2 k (empty_update\<lparr>ue_Status := ''stopped'', ue_StoppedAt := Some (wo_Now wo 2)\<rparr>) w1 of
        (Inl e, w2) \<Rightarrow> (Some (WStore e), w2)
      | (Inr x, w2) \<Rightarrow>
          (None,
           forget_breaches k
            (on_store (DeleteRealizationRouteBindings k)
              (on_store (DeleteStableRouteBindingsForReference reference) (deactivate reference k False w2)))))"

definition handleStop :: "world \<Rightarrow> json Job \<Rightarrow> LocalWorker \<Rightarrow> worker_error err \<times> LocalWorker" where
  "handleStop wo job w =
     (let k = trim_space (payload_string (wo_Sprint wo) (job_Payload job) ''execution_id'') in
      if k = [] then (Some (MissingPayload ''execution_id''), w)
      else case GetRealizationExecution k (wk_Store w) of
        Inl e \<Rightarrow> (Some (WStore e), w)
      | Inr execution \<Rightarrow> stop_rest wo k (ex_Reference execution) (kill k w))"

definition handleJob :: "world \<Rightarrow> json Job \<Rightarrow> LocalWorker \<Rightarrow> worker_error err \<times> LocalWorker" where
  "handleJob wo job w =
     (if job_Kind job = executionLaunchKind then handleLaunch wo job w
      else if job_Kind job = executionStopKind then handleStop wo job w
      else (Some (UnsupportedKind (job_Kind job)), w))"

subsection \<open>Exit of a process\<close>

definition suspend_input ::
  "ResourceBudgets \<Rightarrow> RealizationExecution \<Rightarrow> string \<Rightarrow> string \<Rightarrow> json_map \<Rightarrow> UpsertRealizationSuspensionInput" where
  "suspend_input budgets execution reasonCode message metadata =
     \<lparr>usu_SuspensionID = [], usu_SeedID = ex_SeedID execution, usu_Reference = ex_Reference execution,
      usu_ExecutionID = ex_ExecutionID execution, usu_RouteSubdomain = ex_RouteSubdomain execution,
      usu_RoutePathPrefix = ex_RoutePathPrefix execution, usu_ReasonCode = reasonCode, usu_Message = message,
      usu_RemediationTarget = firstNonEmpty [trim_space (bu_RemediationTarget budgets), ''main''],
      usu_RemediationHint = firstNonEmpty [trim_space (bu_RemediationHint budgets),
        ''Fix the realization, open a PR, and relaunch once merged.''],
      usu_Status = [], usu_Metadata = metadata, usu_CreatedAt = None\<rparr>"

definition suspend :: "world \<Rightarrow> nat \<Rightarrow> UpsertRealizationSuspensionInput \<Rightarrow> LocalWorker \<Rightarrow> LocalWorker" where
  "suspend wo n input = on_store (UpsertRealizationSuspension (wo_ID wo n) (wo_Now wo n) input)"

text \<open>The callback \<open>onExit\<close>; \<open>failure\<close> is the error of \<open>Wait\<close>.\<close>

definition handleProcessExit :: "world \<Rightarrow> string \<Rightarrow> string option \<Rightarrow> LocalWorker \<Rightarrow> LocalWorker" where
  "handleProcessExit wo k failure w =
     (if \<not> wk_HasRuntime w \<or> trim_space k = [] then w
      else case GetRealizationExecution k (wk_Store w) of
        Inl e \<Rightarrow> w
      | Inr execution \<Rightarrow>
          if ex_Status execution \<in> {''stopped'', ''failed'', ''terminated''} then w
          else
            (let rawError = (case failure of None \<Rightarrow> [] | Some e \<Rightarrow> e);
                 message = firstNonEmpty [rawError, ''The realization process exited unexpectedly.''];
                 w1 = snd (update_exec wo 0 k (empty_update\<lparr>ue_Status := ''terminated'',
                        ue_StoppedAt := Some (wo_Now wo 0), ue_LastError := message\<rparr>) w);
                 w2 = record_event wo 1 k ''process_exited'' [(''error'', JString rawError)] w1;
                 w3 = on_store (DeleteRealizationRouteBindings k) w2;
                 w4 = deactivate (ex_Reference execution) k True w3;
                 w5 = suspend wo 2 (suspend_input (wk_Budgets w4) execution ''unexpected_process_exit'' message
                        [(''execution_status'', JString (ex_Status execution))]) w4
             in forget_breaches k w5))"

text \<open>What the goroutine of a process does when it ends.\<close>

definition process_ends :: "world \<Rightarrow> string \<Rightarrow> nat \<Rightarrow> string option \<Rightarrow> LocalWorker \<Rightarrow> LocalWorker" where
  "process_ends wo k pid failure w =
     handleProcessExit wo k failure (w\<lparr>wk_Executor := process_exit k pid (wk_Executor w)\<rparr>)"

subsection \<open>Budgets\<close>

text \<open>
  internal/telemetry/process.go: a sample of a process. The CPU share is counted in tenths of a percent,
  the precision that \<open>ps\<close> prints; taking the sample is a parameter.
\<close>

record OSSample =
  sm_CPUPercent :: int
  sm_RSSBytes :: int
  sm_VirtualBytes :: int
  sm_OpenFDs :: int
  sm_LogBytes :: int
  sm_ObservedAt :: int

type_synonym sampler = "nat \<Rightarrow> string \<Rightarrow> string + OSSample"

definition tenths :: "int \<Rightarrow> string" where
  "tenths n = itoa (n div 10) @ ''.'' @ itoa (n mod 10)"

definition over_budget :: "string \<Rightarrow> string \<Rightarrow> string \<Rightarrow> string" where
  "over_budget what used unit =
     ''This realization was shut down because '' @ what @ '' exceeded the allowed budget ('' @ used @ unit @ '').''"

definition evaluateBudget :: "ResourceBudgets \<Rightarrow> OSSample \<Rightarrow> (string \<times> string \<times> json_map) option" where
  "evaluateBudget b s =
     (if bu_MaxRSSBytes b > 0 \<and> sm_RSSBytes s > bu_MaxRSSBytes b
      then Some (''memory_budget_exceeded'',
        over_budget ''memory usage'' (itoa (sm_RSSBytes s) @ '' > '' @ itoa (bu_MaxRSSBytes b)) '' bytes'',
        [(''max_rss_bytes'', JNumber (bu_MaxRSSBytes b)), (''rss_bytes'', JNumber (sm_RSSBytes s))])
      else if bu_MaxLogBytes b > 0 \<and> sm_LogBytes s > bu_MaxLogBytes b
      then Some (''log_budget_exceeded'',
        over_budget ''log output'' (itoa (sm_LogBytes s) @ '' > '' @ itoa (bu_MaxLogBytes b)) '' bytes'',
        [(''log_bytes'', JNumber (sm_LogBytes s)), (''max_log_bytes'', JNumber (bu_MaxLogBytes b))])
      else if bu_MaxCPUPercent b > 0 \<and> sm_CPUPercent s > bu_MaxCPUPercent b
      then Some (''cpu_budget_exceeded'',
        over_budget ''CPU usage'' (tenths (sm_CPUPercent s) @ '' > '' @ tenths (bu_MaxCPUPercent b)) [],
        [(''cpu_percent'', JNumber (sm_CPUPercent s)), (''max_cpu_percent'', JNumber (bu_MaxCPUPercent b))])
      else if bu_MaxOpenFDs b > 0 \<and> sm_OpenFDs s > bu_MaxOpenFDs b
      then Some (''fd_budget_exceeded'',
        over_budget ''open file descriptors'' (itoa (sm_OpenFDs s) @ '' > '' @ itoa (bu_MaxOpenFDs b)) [],
        [(''max_open_fds'', JNumber (bu_MaxOpenFDs b)), (''open_fds'', JNumber (sm_OpenFDs s))])
      else None)"

definition terminateExecution ::
  "world \<Rightarrow> RealizationExecution \<Rightarrow> string \<Rightarrow> string \<Rightarrow> json_map \<Rightarrow> LocalWorker \<Rightarrow> worker_error err \<times> LocalWorker" where
  "terminateExecution wo execution reasonCode message metadata w =
     (let k = ex_ExecutionID execution;
          w1 = kill k w
      in case update_exec wo 2 k (empty_update\<lparr>ue_Status := ''terminated'', ue_StoppedAt := Some (wo_Now wo 2),
                ue_LastError := message, ue_Metadata := [(''termination_reason_code'', JString reasonCode)]\<rparr>) w1 of
           (Inl e, w2) \<Rightarrow> (Some (WStore e), w2)
         | (Inr x, w2) \<Rightarrow>
             let w3 = record_event wo 3 k ''budget_terminated''
                   [(''details'', JObject metadata), (''message'', JString message), (''reason_code'', JString reasonCode)] w2;
                 w4 = suspend wo 4 (suspend_input (wk_Budgets w3) execution reasonCode message metadata) w3;
                 w5 = deactivate (ex_Reference execution) k True w4
             in (None, forget_breaches k (on_store (DeleteRealizationRouteBindings k) w5)))"

definition sample_input ::
  "RealizationExecution \<Rightarrow> RunningProcess \<Rightarrow> OSSample \<Rightarrow> RecordProcessSampleInput" where
  "sample_input execution process s =
     \<lparr>rp_SampleID = [], rp_ScopeKind = ''realization_execution'', rp_ServiceName = [],
      rp_ExecutionID = ex_ExecutionID execution, rp_SeedID = ex_SeedID execution, rp_Reference = ex_Reference execution,
      rp_PID = int (rpr_PID process), rp_CPUPercent = sm_CPUPercent s, rp_RSSBytes = sm_RSSBytes s,
      rp_VirtualBytes = sm_VirtualBytes s, rp_OpenFDs = sm_OpenFDs s, rp_LogBytes = sm_LogBytes s,
      rp_Metadata = [(''log_file'', JString (rpr_LogFile process))], rp_ObservedAt = Some (sm_ObservedAt s)\<rparr>"

definition shift_world :: "nat \<Rightarrow> world \<Rightarrow> world" where
  "shift_world d wo = wo\<lparr>wo_ID := (\<lambda>n. wo_ID wo (n + d)), wo_Now := (\<lambda>n. wo_Now wo (n + d)), wo_DB := (\<lambda>n. wo_DB wo (n + d))\<rparr>"

text \<open>One process of the loop of \<open>sampleAndEnforce\<close>.\<close>

definition enforce_one :: "world \<Rightarrow> sampler \<Rightarrow> RunningProcess \<Rightarrow> LocalWorker \<Rightarrow> worker_error err \<times> LocalWorker" where
  "enforce_one wo sampler process w =
     (case GetRealizationExecution (rpr_ExecutionID process) (wk_Store w) of
        Inl e \<Rightarrow> (None, w)
      | Inr execution \<Rightarrow>
          let k = ex_ExecutionID execution
          in case sampler (rpr_PID process) (rpr_LogFile process) of
               Inl e \<Rightarrow> (None, record_event wo 0 k ''resource_sample_error'' [(''error'', JString e)] w)
             | Inr s \<Rightarrow>
                 let w1 = on_store (RecordProcessSample (wo_ID wo 1) (wo_Now wo 1) (sample_input execution process s)) w
                 in case evaluateBudget (wk_Budgets w1) s of
                      None \<Rightarrow> (None, forget_breaches k w1)
                    | Some (reasonCode, message, metadata) \<Rightarrow>
                        let n = wk_BreachCounts w1 k + 1;
                            w2 = w1\<lparr>wk_BreachCounts := (wk_BreachCounts w1)(k := n)\<rparr>
                        in if n < maxInt (bu_ConsecutiveBreaches (wk_Budgets w2)) 1 then (None, w2)
                           else terminateExecution wo execution reasonCode message metadata w2)"

fun enforce_all :: "world \<Rightarrow> sampler \<Rightarrow> RunningProcess list \<Rightarrow> LocalWorker \<Rightarrow> worker_error err \<times> LocalWorker" where
  "enforce_all wo sampler [] w = (None, w)"
| "enforce_all wo sampler (p # ps) w =
     (case enforce_one wo sampler p w of
        (Some e, w1) \<Rightarrow> (Some e, w1)
      | (None, w1) \<Rightarrow> enforce_all (shift_world 5 wo) sampler ps w1)"

text \<open>\<open>order\<close> is the order in which Go ranges over the table of processes.\<close>

definition sampleAndEnforce ::
  "world \<Rightarrow> string list \<Rightarrow> sampler \<Rightarrow> LocalWorker \<Rightarrow> worker_error err \<times> LocalWorker" where
  "sampleAndEnforce wo order sampler w =
     (if \<not> wk_HasRuntime w then (None, w)
      else
        (let w1 = (if bu_SampleEvery (wk_Budgets w) \<le> 0
                   then w\<lparr>wk_Budgets := (wk_Budgets w)\<lparr>bu_SampleEvery := 5 * second\<rparr>\<rparr> else w);
             now = wo_Now wo 0
         in if (case wk_LastSampleAt w1 of None \<Rightarrow> False | Some t \<Rightarrow> now - t < bu_SampleEvery (wk_Budgets w1)) then (None, w1)
            else enforce_all (shift_world 1 wo) sampler (RunningProcesses order (wk_Executor w1))
                   (w1\<lparr>wk_LastSampleAt := Some now\<rparr>)))"

definition pruneTelemetry :: "world \<Rightarrow> LocalWorker \<Rightarrow> worker_error err \<times> LocalWorker" where
  "pruneTelemetry wo w =
     (if \<not> wk_HasRuntime w then (None, w)
      else
        (let w1 = (if bu_TelemetryTTL (wk_Budgets w) \<le> 0
                   then w\<lparr>wk_Budgets := (wk_Budgets w)\<lparr>bu_TelemetryTTL := default_ttl\<rparr>\<rparr> else w)
         in if (case wk_LastPrunedAt w1 of None \<Rightarrow> False | Some t \<Rightarrow> wo_Now wo 0 - t < 6 * 3600 * second) then (None, w1)
            else case PruneOperationalTelemetry (wo_Now wo 1) (bu_TelemetryTTL (wk_Budgets w1)) (wk_Store w1) of
              (Some e, st) \<Rightarrow> (Some (WStore e), w1\<lparr>wk_Store := st\<rparr>)
            | (None, st) \<Rightarrow> (None, w1\<lparr>wk_Store := st, wk_LastPrunedAt := Some (wo_Now wo 2)\<rparr>)))"

subsection \<open>The loop of the worker\<close>

definition ReconcileStartup :: "world \<Rightarrow> LocalWorker \<Rightarrow> worker_error err \<times> LocalWorker" where
  "ReconcileStartup wo w =
     (if \<not> wk_HasRuntime w then (Some RuntimeUnavailable, w)
      else case ResetBackendExecutions (wo_DB wo 0) LocalBackendName ''local executor restarted'' (wk_Store w) of
        (Some e, st) \<Rightarrow> (Some (WStore e), w\<lparr>wk_Store := st\<rparr>)
      | (None, st) \<Rightarrow>
          (case ResetRunningJobs executionQueueName ''local executor restarted before job completion'' (wk_Jobs w) of
             (e, jobs) \<Rightarrow> (map_option WStore e, w\<lparr>wk_Store := st, wk_Jobs := jobs\<rparr>)))"

fun handle_jobs :: "world \<Rightarrow> json Job list \<Rightarrow> LocalWorker \<Rightarrow> worker_error err \<times> LocalWorker" where
  "handle_jobs wo [] w = (None, w)"
| "handle_jobs wo (job # jobs) w =
     (case handleJob wo job w of
        (Some e, w1) \<Rightarrow>
          (Some e, w1\<lparr>wk_Jobs := snd (FailJob (wo_Now wo 20) (job_JobID job)
             \<lparr>jf_Error = wo_Say wo e, jf_RetryAt = None, jf_FailedAt = None\<rparr> (wk_Jobs w1))\<rparr>)
      | (None, w1) \<Rightarrow>
          handle_jobs (shift_world 21 wo) jobs
            (w1\<lparr>wk_Jobs := snd (CompleteJob (wo_Now wo 20) (job_JobID job) \<lparr>jo_FinishedAt = None\<rparr> (wk_Jobs w1))\<rparr>))"

definition claim_input :: "LocalWorker \<Rightarrow> JobClaimInput" where
  "claim_input w =
     \<lparr>jc_Queue = executionQueueName, jc_Worker = firstNonEmpty [trim_space (wk_WorkerName w), ''execd-local''], jc_Limit = 1\<rparr>"

definition Tick ::
  "world \<Rightarrow> string set \<Rightarrow> string list \<Rightarrow> sampler \<Rightarrow> LocalWorker \<Rightarrow> worker_error err \<times> LocalWorker" where
  "Tick wo locked order sampler w =
     (if \<not> wk_HasRuntime w then (Some RuntimeUnavailable, w)
      else case ClaimJobs locked (wo_DB wo 0) (claim_input w) (wk_Jobs w) of
        (Inl e, jobs) \<Rightarrow> (Some (WStore e), w\<lparr>wk_Jobs := jobs\<rparr>)
      | (Inr claimed, jobs) \<Rightarrow>
          (case handle_jobs (shift_world 1 wo) claimed (w\<lparr>wk_Jobs := jobs\<rparr>) of
             (Some e, w1) \<Rightarrow> (Some e, w1)
           | (None, w1) \<Rightarrow>
               (case sampleAndEnforce (shift_world 25 wo) order sampler w1 of
                  (Some e, w2) \<Rightarrow> (Some e, w2)
                | (None, w2) \<Rightarrow> pruneTelemetry (shift_world 22 wo) w2)))"

subsection \<open>Logs and the events of a build\<close>

definition recordExecutionLog :: "world \<Rightarrow> nat \<Rightarrow> ExecutionLogRecord \<Rightarrow> LocalWorker \<Rightarrow> LocalWorker" where
  "recordExecutionLog wo n entry w =
     (if \<not> wk_HasRuntime w \<or> trim_space (el_ExecutionID entry) = [] \<or> trim_space (el_Message entry) = [] then w
      else on_store (RecordRealizationExecutionLog (wo_ID wo n) (wo_Now wo n)
             \<lparr>rli_LogID = [], rli_ExecutionID = el_ExecutionID entry, rli_Source = trim_space (el_Source entry),
              rli_Stream = trim_space (el_Stream entry), rli_Message = trim_space (el_Message entry),
              rli_OccurredAt = Some (el_OccurredAt entry)\<rparr>) w)"

definition handleProcessLog :: "world \<Rightarrow> ExecutionLogRecord \<Rightarrow> LocalWorker \<Rightarrow> LocalWorker" where
  "handleProcessLog wo entry = recordExecutionLog wo 0 entry"

definition BuildStarted :: "world \<Rightarrow> string \<Rightarrow> string \<Rightarrow> LocalWorker \<Rightarrow> LocalWorker" where
  "BuildStarted wo k targetPath w =
     (if \<not> wk_HasRuntime w then w
      else record_event wo 0 k ''build_started'' [(''target_path'', JString (trim_space targetPath))] w)"

fun log_lines :: "world \<Rightarrow> nat \<Rightarrow> string \<Rightarrow> string \<Rightarrow> string list \<Rightarrow> LocalWorker \<Rightarrow> LocalWorker" where
  "log_lines wo n k stream [] w = w"
| "log_lines wo n k stream (line # lines) w =
     log_lines wo (Suc n) k stream lines
       (recordExecutionLog wo n
          \<lparr>el_ExecutionID = k, el_Source = ''build'', el_Stream = trim_space stream, el_Message = trim_space line,
           el_OccurredAt = wo_Now wo n\<rparr> w)"

definition BuildOutput :: "world \<Rightarrow> string \<Rightarrow> string \<Rightarrow> string \<Rightarrow> LocalWorker \<Rightarrow> LocalWorker" where
  "BuildOutput wo k stream output w = log_lines wo 0 k stream (split_on (CHR 0x0A) output) w"

definition BuildFinished :: "world \<Rightarrow> string \<Rightarrow> string \<Rightarrow> LocalWorker \<Rightarrow> LocalWorker" where
  "BuildFinished wo k targetPath w =
     (if \<not> wk_HasRuntime w then w
      else record_event wo 0 k ''build_finished'' [(''target_path'', JString (trim_space targetPath))] w)"

definition BuildFailed :: "world \<Rightarrow> string \<Rightarrow> string \<Rightarrow> string \<Rightarrow> string \<Rightarrow> LocalWorker \<Rightarrow> LocalWorker" where
  "BuildFailed wo k targetPath output failure w =
     (let w1 = BuildOutput wo k ''combined'' output w in
      if \<not> wk_HasRuntime w1 then w1
      else record_event (shift_world (length output + 1) wo) 0 k ''build_failed''
             [(''error'', JString failure), (''target_path'', JString (trim_space targetPath))] w1)"

end
