(* ===== verification/Worker_Properties.thy ===== *)
theory Worker_Properties
  imports Local_Worker Execution_Properties Operation_Properties
begin

text \<open>
  What the worker does to the store: each of its operations is a sequence of operations of the runtime service,
  and unless a launch passes its health check none of them lifts a suspension. A launch that succeeds leaves a
  healthy, routed execution; processes are terminated for their budget only after enough breaches in a row; a restart leaves
  nothing running.
\<close>

subsection \<open>The worker acts through the store\<close>

lemmas store_create = step_execution[OF step_create]
  and store_update = step_execution[OF step_update]
  and store_event = step_execution[OF step_event]
  and store_log = step_execution[OF step_log]
  and store_activate = step_execution[OF step_activate]
  and store_deactivate = step_execution[OF step_deactivate]
  and store_replace = step_execution[OF step_replace]
  and store_unbind = step_execution[OF step_unbind]
  and store_unbind_stable = step_execution[OF step_unbind_stable]
  and store_reset = step_execution[OF step_reset]

text \<open>
  The stores of two workers are related by operations of the runtime service that lift no suspension of a
  protected reference.
\<close>

definition acts :: "string set \<Rightarrow> LocalWorker \<Rightarrow> LocalWorker \<Rightarrow> bool" where
  "acts P w w' \<longleftrightarrow> (ops_step P)\<^sup>*\<^sup>* (wk_Store w) (wk_Store w')"

named_theorems acting

lemma acts_refl [simp, acting]: "acts P w w"
  by (simp add: acts_def)

lemma acts_trans: "acts P w w1 \<Longrightarrow> acts P w1 w2 \<Longrightarrow> acts P w w2"
  by (auto simp: acts_def)

lemma acts_same: "wk_Store w2 = wk_Store w1 \<Longrightarrow> acts P w w2 = acts P w w1"
  by (simp add: acts_def)

lemma acts_more [simp]:
  "acts P w (w1\<lparr>wk_Executor := x\<rparr>) = acts P w w1"
  "acts P w (w1\<lparr>wk_Jobs := jobs\<rparr>) = acts P w w1"
  "acts P w (w1\<lparr>wk_BreachCounts := b\<rparr>) = acts P w w1"
  "acts P w (w1\<lparr>wk_Budgets := bu\<rparr>) = acts P w w1"
  "acts P w (w1\<lparr>wk_LastSampleAt := t\<rparr>) = acts P w w1"
  "acts P w (w1\<lparr>wk_LastPrunedAt := t\<rparr>) = acts P w w1"
  "acts P w (kill k w1) = acts P w w1"
  "acts P w (forget_breaches k w1) = acts P w w1"
  by (simp_all add: acts_def kill_def forget_breaches_def)

lemma acts_store: "acts P w w1 \<Longrightarrow> ops_step P (wk_Store w1) st \<Longrightarrow> acts P w (w1\<lparr>wk_Store := st\<rparr>)"
  by (auto simp: acts_def)

lemma acts_on_store [acting]:
  "acts P w w1 \<Longrightarrow> ops_step P (wk_Store w1) (snd (f (wk_Store w1))) \<Longrightarrow> acts P w (on_store f w1)"
  by (simp add: on_store_def acts_store)

lemma acts_record_event [acting]: "acts P w w1 \<Longrightarrow> acts P w (record_event wo n k name data w1)"
  by (simp add: record_event_def acts_store store_event)

lemma acts_update_exec [acting]: "acts P w w1 \<Longrightarrow> acts P w (snd (update_exec wo n k i w1))"
  by (simp add: update_exec_def case_prod_unfold Let_def acts_store store_update)

lemma acts_update_exec_eq: "update_exec wo n k i w1 = (r, w2) \<Longrightarrow> acts P w w1 \<Longrightarrow> acts P w w2"
  using acts_update_exec[of P w w1 wo n k i] by simp

lemma acts_fail_launch [acting]: "acts P w w1 \<Longrightarrow> acts P w (fail_launch wo n k name t w1)"
  by (simp add: fail_launch_def acting)

lemma acts_activate_first [acting]: "acts P w w1 \<Longrightarrow> acts P w (activate_first wo n x w1)"
  by (simp add: activate_first_def acts_on_store store_activate)

lemma acts_deactivate [acting]: "acts P w w1 \<Longrightarrow> acts P w (deactivate ref k b w1)"
  by (auto simp: deactivate_def Let_def intro!: acts_on_store store_deactivate store_unbind_stable split: sum.split)

lemma acts_suspend [acting]: "acts P w w1 \<Longrightarrow> acts P w (suspend wo n i w1)"
  by (simp add: suspend_def acts_on_store step_suspend)

lemma acts_syncBindings [acting]:
  assumes "acts P w w1"
  shows "acts P w (snd (syncBindings wo n x spec w1))"
proof -
  have "acts P w (w2\<lparr>wk_Store := snd (ReplaceRealizationRouteBindings random dbnow k bs (wk_Store w2))\<rparr>)"
    if "acts P w w2" for w2 random dbnow k bs
    using that store_replace by (rule acts_store)
  then have replaced: "acts P w (w2\<lparr>wk_Store := st\<rparr>)"
    if "ReplaceRealizationRouteBindings random dbnow k bs (wk_Store w2) = (r, st)" "acts P w w2" for w2 random dbnow k bs r st
    using that by (metis snd_conv)
  show ?thesis
    using assms unfolding syncBindings_def
    by (auto split: sum.split prod.split runtime_error.split if_split_asm sum.split_asm
        intro!: acts_record_event replaced acts_on_store store_unbind_stable)
qed

text \<open>From here on the launches are those whose health check fails: the others lift the suspension.\<close>

lemma acts_await_health [acting]: "wo_Health wo \<noteq> None \<Longrightarrow> acts P w w1 \<Longrightarrow> acts P w (snd (await_health wo k spec logPath w1))"
  unfolding await_health_def announce_start_def health_result_def health_failed_def
  by (auto simp: Let_def split: prod.split sum.split option.split
      intro!: acts_on_store store_unbind acts_fail_launch acts_record_event
      intro: acts_update_exec_eq)

lemma acts_handleLaunch [acting]: "wo_Health wo \<noteq> None \<Longrightarrow> acts P w w1 \<Longrightarrow> acts P w (snd (handleLaunch wo job w1))"
  unfolding handleLaunch_def
  by (auto simp: Let_def split: prod.split sum.split option.split
      intro!: acts_await_health acts_fail_launch acts_record_event intro: acts_update_exec_eq)

lemma acts_stop_rest [acting]: "acts P w w1 \<Longrightarrow> acts P w (snd (stop_rest wo k ref w1))"
  unfolding stop_rest_def
  by (auto simp: Let_def split: prod.split sum.split
      intro!: acts_on_store store_unbind store_unbind_stable acts_deactivate
      intro: acts_update_exec_eq[OF _ acts_record_event])

lemma acts_handleStop [acting]: "acts P w w1 \<Longrightarrow> acts P w (snd (handleStop wo job w1))"
  by (auto simp: handleStop_def Let_def intro: acts_stop_rest split: sum.split)

lemma acts_handleJob [acting]: "wo_Health wo \<noteq> None \<Longrightarrow> acts P w w1 \<Longrightarrow> acts P w (snd (handleJob wo job w1))"
  by (simp add: handleJob_def acts_handleLaunch acts_handleStop)

lemma acts_handle_jobs [acting]: "wo_Health wo \<noteq> None \<Longrightarrow> acts P w w1 \<Longrightarrow> acts P w (snd (handle_jobs wo jobs w1))"
proof (induction jobs arbitrary: wo w1)
  case (Cons job jobs)
  have "acts P w w2" if "handleJob wo job w1 = (r, w2)" for r w2
    using acts_handleJob[OF Cons.prems, of job] that by simp
  moreover have "wo_Health (shift_world 21 wo) \<noteq> None" using Cons.prems(1) by (simp add: shift_world_def)
  ultimately show ?case by (auto split: prod.split option.split intro!: Cons.IH)
qed simp

lemma acts_handleProcessExit [acting]: "acts P w w1 \<Longrightarrow> acts P w (handleProcessExit wo k failure w1)"
  unfolding handleProcessExit_def
  by (auto simp: Let_def split: sum.split
      intro!: acts_suspend acts_deactivate acts_on_store store_unbind acts_record_event acts_update_exec)

lemma acts_terminateExecution [acting]: "acts P w w1 \<Longrightarrow> acts P w (snd (terminateExecution wo x code text md w1))"
  unfolding terminateExecution_def
  by (auto simp: Let_def split: prod.split sum.split
      intro!: acts_on_store store_unbind acts_deactivate acts_suspend acts_record_event
      intro: acts_update_exec_eq[of _ _ _ _ "kill k w1" for k])

lemma acts_enforce_one [acting]: "acts P w w1 \<Longrightarrow> acts P w (snd (enforce_one wo sampler p w1))"
  unfolding enforce_one_def
  by (auto simp: Let_def split: sum.split option.split prod.split
      intro!: acts_record_event acts_on_store step_sample acts_terminateExecution)

lemma acts_enforce_all [acting]: "acts P w w1 \<Longrightarrow> acts P w (snd (enforce_all wo sampler ps w1))"
proof (induction ps arbitrary: wo w1)
  case (Cons p ps)
  have "acts P w w2" if "enforce_one wo sampler p w1 = (r, w2)" for r w2
    using acts_enforce_one[OF Cons.prems, of wo sampler p] that by simp
  then show ?case by (auto split: prod.split option.split intro!: Cons.IH)
qed simp

lemma acts_sampleAndEnforce [acting]: "acts P w w1 \<Longrightarrow> acts P w (snd (sampleAndEnforce wo order sampler w1))"
  by (auto simp: sampleAndEnforce_def Let_def intro!: acts_enforce_all split: option.split)

lemma acts_pruneTelemetry [acting]: "acts P w w1 \<Longrightarrow> acts P w (snd (pruneTelemetry wo w1))"
proof -
  assume w1: "acts P w w1"
  have pruned: "acts P w (snd (case PruneOperationalTelemetry now ttl (wk_Store w2) of
        (Some e, st) \<Rightarrow> (Some (WStore e), w2\<lparr>wk_Store := st\<rparr>)
      | (None, st) \<Rightarrow> (None, w2\<lparr>wk_Store := st, wk_LastPrunedAt := t\<rparr>)))" if "acts P w w2" for now ttl w2 t
    using acts_store[OF that step_prune, of now ttl] by (auto simp: acts_def split: prod.split option.split)
  have "acts P w (w1\<lparr>wk_Budgets := (wk_Budgets w1)\<lparr>bu_TelemetryTTL := default_ttl\<rparr>\<rparr>)" using w1 by simp
  with w1 show ?thesis unfolding pruneTelemetry_def Let_def by (simp add: pruned)
qed

lemma acts_Tick [acting]: "wo_Health wo \<noteq> None \<Longrightarrow> acts P w w1 \<Longrightarrow> acts P w (snd (Tick wo locked order sampler w1))"
proof -
  assume w1: "acts P w w1" and h: "wo_Health wo \<noteq> None"
  have jobs: "acts P w w2" if "handle_jobs (shift_world d wo) claimed (w1\<lparr>wk_Jobs := j\<rparr>) = (r, w2)" for d claimed j r w2
    using acts_handle_jobs[of "shift_world d wo" P w "w1\<lparr>wk_Jobs := j\<rparr>" claimed] w1 h that by (simp add: shift_world_def)
  have sampled: "acts P w w3" if "sampleAndEnforce wo' order sampler w2 = (r, w3)" "acts P w w2" for wo' w2 r w3
    using acts_sampleAndEnforce[OF that(2), of wo' order sampler] that(1) by simp
  show ?thesis using w1 unfolding Tick_def
    by (auto split: prod.split sum.split option.split intro!: acts_pruneTelemetry intro: jobs sampled)
qed

lemma acts_ReconcileStartup [acting]: "acts P w w1 \<Longrightarrow> acts P w (snd (ReconcileStartup wo w1))"
proof -
  assume w1: "acts P w w1"
  have "acts P w (w1\<lparr>wk_Store := st\<rparr>)" if "ResetBackendExecutions dbnow b reason (wk_Store w1) = (e, st)" for dbnow b reason e st
    using acts_store[OF w1 store_reset, of dbnow b reason] that by simp
  from this w1 show ?thesis
    by (auto simp: ReconcileStartup_def acts_def split: prod.split option.split)
qed

lemma acts_recordExecutionLog [acting]: "acts P w w1 \<Longrightarrow> acts P w (recordExecutionLog wo n entry w1)"
  by (auto simp: recordExecutionLog_def intro!: acts_on_store store_log)

lemma acts_log_lines [acting]: "acts P w w1 \<Longrightarrow> acts P w (log_lines wo n k stream lines w1)"
  by (induction lines arbitrary: n w1) (auto intro: acts_recordExecutionLog)

lemma acts_build [acting]:
  assumes "acts P w w1"
  shows "acts P w (BuildStarted wo k path w1)" "acts P w (BuildOutput wo k stream out w1)"
    "acts P w (BuildFinished wo k path w1)" "acts P w (BuildFailed wo k path out failure w1)"
  using assms
  by (simp_all add: BuildStarted_def BuildOutput_def BuildFinished_def BuildFailed_def Let_def acts_record_event
      acts_log_lines)

text \<open>
  The worker beside the other clients of the store and the queue, where no launch passes its health check and
  no other client lifts a suspension of a protected reference.
\<close>

inductive unhealthy_step :: "string set \<Rightarrow> LocalWorker \<Rightarrow> LocalWorker \<Rightarrow> bool" for P :: "string set" where
  work_tick: "wo_Health wo \<noteq> None \<Longrightarrow> unhealthy_step P w (snd (Tick wo locked order sampler w))"
| work_exit: "unhealthy_step P w (process_ends wo k pid failure w)"
| work_log: "unhealthy_step P w (handleProcessLog wo entry w)"
| work_build: "unhealthy_step P w (BuildStarted wo k path w)"
| work_build_output: "unhealthy_step P w (BuildOutput wo k stream out w)"
| work_built: "unhealthy_step P w (BuildFinished wo k path w)"
| work_build_failed: "unhealthy_step P w (BuildFailed wo k path out failure w)"
| work_reconcile: "unhealthy_step P w (snd (ReconcileStartup wo w))"
| work_store: "ops_step P (wk_Store w) st \<Longrightarrow> unhealthy_step P w (w\<lparr>wk_Store := st\<rparr>)"
| work_queue: "unhealthy_step P w (w\<lparr>wk_Jobs := jobs\<rparr>)"

lemma unhealthy_step_acts: "unhealthy_step P w w' \<Longrightarrow> acts P w w'"
  by (induction rule: unhealthy_step.induct)
    (simp_all add: acts_Tick acts_ReconcileStartup acts_store handleProcessLog_def acts_recordExecutionLog
      process_ends_def acts_handleProcessExit acts_build)

lemma unhealthy_steps_act: "(unhealthy_step P)\<^sup>*\<^sup>* w w' \<Longrightarrow> acts P w w'"
  by (induction rule: rtranclp_induct) (auto intro: acts_trans unhealthy_step_acts)

subsection \<open>What the steps of a handler leave alone\<close>

lemma event_leaves [simp]:
  "xs_Executions (wk_Store (record_event wo n k name d w)) = xs_Executions (wk_Store w)"
  "xs_Bindings (wk_Store (record_event wo n k name d w)) = xs_Bindings (wk_Store w)"
  "xs_Activations (wk_Store (record_event wo n k name d w)) = xs_Activations (wk_Store w)"
  "os_Suspensions (wk_Store (record_event wo n k name d w)) = os_Suspensions (wk_Store w)"
  "xs_Ready (wk_Store (record_event wo n k name d w)) = xs_Ready (wk_Store w)"
  "wk_Executor (record_event wo n k name d w) = wk_Executor w"
  "wk_BreachCounts (record_event wo n k name d w) = wk_BreachCounts w"
  "wk_Budgets (record_event wo n k name d w) = wk_Budgets w"
  "wk_AutoActivate (record_event wo n k name d w) = wk_AutoActivate w"
  "wk_LaunchHealthTimeout (record_event wo n k name d w) = wk_LaunchHealthTimeout w"
  "wk_RepoRoot (record_event wo n k name d w) = wk_RepoRoot w"
  "wk_Capabilities (record_event wo n k name d w) = wk_Capabilities w"
  by (auto simp: record_event_def RecordRealizationExecutionEvent_def Let_def answer_def split: sum.split)

lemma lookups_cong:
  "xs_Ready st = xs_Ready st' \<Longrightarrow> xs_Executions st = xs_Executions st' \<Longrightarrow>
   GetRealizationExecution k st = GetRealizationExecution k st'"
  "xs_Ready st = xs_Ready st' \<Longrightarrow> xs_Activations st = xs_Activations st' \<Longrightarrow>
   GetRealizationActivation ref st = GetRealizationActivation ref st'"
  by (simp_all add: GetRealizationExecution_def GetRealizationActivation_def)

text \<open>A successful update: the row of the execution, before and after.\<close>

lemma update_exec_Inr:
  assumes "update_exec wo n k i w = (Inr x, w1)"
  obtains r where
    "row_at xr_ExecutionID (trim_space k) (xs_Executions (wk_Store w)) = Some r"
    "x = scanRealizationExecution (update_execution (wo_DB wo n) i r)" "xs_Ready (wk_Store w)" "trim_space k \<noteq> []"
    "w1 = w\<lparr>wk_Store := (wk_Store w)\<lparr>xs_Executions :=
       update_rows (\<lambda>r. xr_ExecutionID r = trim_space k) (update_execution (wo_DB wo n) i) (xs_Executions (wk_Store w))\<rparr>\<rparr>"
    "row_at xr_ExecutionID (trim_space k) (xs_Executions (wk_Store w1)) = Some (update_execution (wo_DB wo n) i r)"
proof -
  show thesis using assms that
    by (auto simp: update_exec_def UpdateRealizationExecution_def Let_def row_at_update_rows
        split: if_splits option.splits dest: row_at_SomeD)
qed

subsection \<open>A launch that succeeds\<close>

text \<open>A route as a request sees it: kind, subdomain, path prefix and upstream.\<close>

definition route :: "binding_row \<Rightarrow> string \<times> string \<times> string \<times> string" where
  "route r = (rbr_BindingKind r, string_of_null (rbr_Subdomain r), string_of_null (rbr_PathPrefix r), rbr_UpstreamAddr r)"

definition stable_routes :: "LocalSpec \<Rightarrow> (string \<times> string \<times> string \<times> string) list" where
  "stable_routes spec =
     (if ls_RouteSubdomain spec \<noteq> []
      then [(''stable_subdomain'', ls_RouteSubdomain spec, [], ls_UpstreamAddr spec)] else []) @
     (if ls_RoutePathPrefix spec \<noteq> []
      then [(''stable_path'', [], ls_RoutePathPrefix spec, ls_UpstreamAddr spec)] else [])"

definition is_active :: "string \<Rightarrow> string \<Rightarrow> 's exec_state_scheme \<Rightarrow> bool" where
  "is_active ref k st \<longleftrightarrow> map_sum id act_ExecutionID (GetRealizationActivation ref st) = Inr k"

lemma string_of_nullString [simp]: "string_of_null (nullString s) = trim_space s"
  by (simp add: string_of_null_def nullString_def)

lemma routes_of_rows:
  "map route (binding_rows random n k dbnow inputs) =
     map (\<lambda>i. (rbi_BindingKind i, trim_space (rbi_Subdomain i), trim_space (rbi_PathPrefix i), rbi_UpstreamAddr i)) inputs"
  by (induction inputs arbitrary: n) (simp_all add: route_def new_binding_def)

lemma preview_path_trimmed: "trim_space (PreviewPath k) = PreviewPath k"
  by (rule trim_space_plain) (simp add: PreviewPath_def plain_ends_def plain_char_def)

lemma spec_routes:
  assumes "BuildLocalSpec ma root ref k urls = Inr spec"
  shows "ls_PreviewPathPrefix spec = PreviewPath k" "trim_space (ls_RouteSubdomain spec) = ls_RouteSubdomain spec"
    "trim_space (ls_RoutePathPrefix spec) = ls_RoutePathPrefix spec"
  using assms by (auto simp: BuildLocalSpec_def and_then_def guard_err_def split: sum.splits option.splits prod.splits)

lemma rows_of_execution:
  "filter (\<lambda>r. rbr_ExecutionID r = k) (filter (\<lambda>r. rbr_ExecutionID r \<noteq> k) t @ binding_rows random n k dbnow inputs) =
   binding_rows random n k dbnow inputs"
proof -
  have "filter (\<lambda>r. rbr_ExecutionID r = k) (binding_rows random n k dbnow inputs) = binding_rows random n k dbnow inputs"
    by (rule filter_True) (auto dest: binding_rows_execution)
  then show ?thesis by simp
qed

lemma replace_Inr:
  assumes "ReplaceRealizationRouteBindings random dbnow k bs st = (Inr x, st')" "trim_space k = k"
  shows "st' = st\<lparr>xs_Bindings := filter (\<lambda>r. rbr_ExecutionID r \<noteq> k) (xs_Bindings st) @ binding_rows random 0 k dbnow bs\<rparr>"
  using insert_bindings_eq[where random = random and n = 0 and k = k and dbnow = dbnow and inputs = bs and
      st = "st\<lparr>xs_Bindings := filter (\<lambda>r. rbr_ExecutionID r \<noteq> k) (xs_Bindings st)\<rparr>"]
    assms
  by (auto simp: ReplaceRealizationRouteBindings_def Let_def split: if_splits sum.splits)

lemma syncBindings_None:
  assumes "syncBindings wo n x spec w = (None, w')" "ex_ExecutionID x = k" "trim_space k = k"
    and "ls_PreviewPathPrefix spec = PreviewPath k" "trim_space (ls_RouteSubdomain spec) = ls_RouteSubdomain spec"
    "trim_space (ls_RoutePathPrefix spec) = ls_RoutePathPrefix spec"
  shows "xs_Executions (wk_Store w') = xs_Executions (wk_Store w)" "xs_Ready (wk_Store w') = xs_Ready (wk_Store w)"
    "xs_Activations (wk_Store w') = xs_Activations (wk_Store w)"
    "map route (filter (\<lambda>r. rbr_ExecutionID r = k) (xs_Bindings (wk_Store w'))) =
       (''preview_path'', [], ls_PreviewPathPrefix spec, ls_UpstreamAddr spec) #
       (if is_active (ex_Reference x) k (wk_Store w) then stable_routes spec else [])"
proof -
  let ?bs = "preview_binding x spec # (if is_active (ex_Reference x) k (wk_Store w) then stable_bindings x spec else [])"
  let ?w1 = "if is_active (ex_Reference x) k (wk_Store w)
    then on_store (DeleteStableRouteBindingsForReference (ex_Reference x)) w else w"
  obtain bs st where r: "ReplaceRealizationRouteBindings (\<lambda>i. wo_ID wo (n + 1 + i)) (wo_DB wo n) k ?bs (wk_Store ?w1) = (Inr bs, st)"
    and w': "w' = record_event wo n k ''route_registered'' [(''bindings'', JNumber (int (length ?bs)))] (?w1\<lparr>wk_Store := st\<rparr>)"
    using assms(1,2)
    by (auto simp: syncBindings_def is_active_def split: sum.splits prod.splits runtime_error.splits if_splits)
  have kept: "xs_Executions (wk_Store ?w1) = xs_Executions (wk_Store w)" "xs_Ready (wk_Store ?w1) = xs_Ready (wk_Store w)"
    "xs_Activations (wk_Store ?w1) = xs_Activations (wk_Store w)"
    by (simp_all add: on_store_def DeleteStableRouteBindingsForReference_def)
  have st: "st = (wk_Store ?w1)\<lparr>xs_Bindings := filter (\<lambda>r. rbr_ExecutionID r \<noteq> k) (xs_Bindings (wk_Store ?w1)) @
      binding_rows (\<lambda>i. wo_ID wo (n + 1 + i)) 0 k (wo_DB wo n) ?bs\<rparr>"
    by (rule replace_Inr[OF r assms(3)])
  show "xs_Executions (wk_Store w') = xs_Executions (wk_Store w)" "xs_Ready (wk_Store w') = xs_Ready (wk_Store w)"
    "xs_Activations (wk_Store w') = xs_Activations (wk_Store w)"
    using kept unfolding w' event_leaves st by simp_all
  have "xs_Bindings (wk_Store w') = filter (\<lambda>r. rbr_ExecutionID r \<noteq> k) (xs_Bindings (wk_Store ?w1)) @
      binding_rows (\<lambda>i. wo_ID wo (n + 1 + i)) 0 k (wo_DB wo n) ?bs"
    unfolding w' event_leaves st by (simp del: binding_rows.simps)
  then have "filter (\<lambda>r. rbr_ExecutionID r = k) (xs_Bindings (wk_Store w')) =
      binding_rows (\<lambda>i. wo_ID wo (n + 1 + i)) 0 k (wo_DB wo n) ?bs"
    by (simp only: rows_of_execution)
  then have "map route (filter (\<lambda>r. rbr_ExecutionID r = k) (xs_Bindings (wk_Store w'))) =
      map (\<lambda>i. (rbi_BindingKind i, trim_space (rbi_Subdomain i), trim_space (rbi_PathPrefix i), rbi_UpstreamAddr i)) ?bs"
    by (simp only: routes_of_rows)
  then show "map route (filter (\<lambda>r. rbr_ExecutionID r = k) (xs_Bindings (wk_Store w'))) =
      (''preview_path'', [], ls_PreviewPathPrefix spec, ls_UpstreamAddr spec) #
      (if is_active (ex_Reference x) k (wk_Store w) then stable_routes spec else [])"
    using assms(4-6)
    by (simp add: preview_path_trimmed preview_binding_def binding_input_def stable_bindings_def
        stable_routes_def)
qed


lemma scan_execution [simp]:
  "ex_ExecutionID (scanRealizationExecution r) = xr_ExecutionID r" "ex_Status (scanRealizationExecution r) = xr_Status r"
  "ex_Reference (scanRealizationExecution r) = xr_Reference r" "ex_HealthyAt (scanRealizationExecution r) = xr_HealthyAt r"
  "ex_UpstreamAddr (scanRealizationExecution r) = string_of_null (xr_UpstreamAddr r)"
  by (simp_all add: scanRealizationExecution_def)

lemma set_time_asked: "set_time given True dbnow old \<noteq> None"
  by (auto simp: set_time_def split: option.split)

lemma activate_first_leaves [simp]:
  "xs_Executions (wk_Store (activate_first wo n x w)) = xs_Executions (wk_Store w)"
  "xs_Ready (wk_Store (activate_first wo n x w)) = xs_Ready (wk_Store w)"
  by (auto simp: activate_first_def on_store_def ActivateRealization_def Let_def answer_def split: sum.split)

lemma cleared_lookup:
  assumes "xs_Ready st"
  shows "GetActiveRealizationSuspension ref (snd (ClearRealizationSuspension dbnow ref st)) = Inl runtime_error.ErrNotFound"
  using assms
  by (simp add: GetActiveRealizationSuspension_def latest_suspension_def latest_rows_def ClearRealizationSuspension_def
      cleared_gone)

lemma finish_launch_None:
  assumes "finish_launch wo k spec w = (None, w')" "trim_space k = k"
    and "ls_PreviewPathPrefix spec = PreviewPath k" "trim_space (ls_RouteSubdomain spec) = ls_RouteSubdomain spec"
    "trim_space (ls_RoutePathPrefix spec) = ls_RoutePathPrefix spec"
  shows "\<exists>x. GetRealizationExecution k (wk_Store w') = Inr x \<and> ex_Status x = ''healthy'' \<and> ex_HealthyAt x \<noteq> None \<and>
    GetActiveRealizationSuspension (ex_Reference x) (wk_Store w') = Inl runtime_error.ErrNotFound \<and>
    map route (filter (\<lambda>r. rbr_ExecutionID r = k) (xs_Bindings (wk_Store w'))) =
      (''preview_path'', [], PreviewPath k, ls_UpstreamAddr spec) #
      (if is_active (ex_Reference x) k (wk_Store w') then stable_routes spec else [])"
proof -
  let ?u = "empty_update\<lparr>ue_Status := ''healthy'', ue_UpstreamAddr := ls_UpstreamAddr spec,
             ue_PreviewPathPrefix := ls_PreviewPathPrefix spec, ue_HealthyAt := Some (wo_Now wo 12)\<rparr>"
  obtain x w1 where u: "update_exec wo 12 k ?u w = (Inr x, w1)"
    using assms(1) by (auto simp: finish_launch_def split: prod.splits sum.splits)
  let ?w3 = "activate_first wo 14 x (record_event wo 13 k ''health_passed'' [(''upstream_addr'', JString (ls_UpstreamAddr spec))] w1)"
  obtain w4 st where s: "syncBindings wo 15 x spec ?w3 = (None, w4)"
    and c: "ClearRealizationSuspension (wo_DB wo 19) (ex_Reference x) (wk_Store w4) = (None, st)" and w': "w' = w4\<lparr>wk_Store := st\<rparr>"
    using assms(1) u by (auto simp: finish_launch_def Let_def split: prod.splits option.splits)
  obtain r where r: "x = scanRealizationExecution (update_execution (wo_DB wo 12) ?u r)" "xs_Ready (wk_Store w)"
    "row_at xr_ExecutionID k (xs_Executions (wk_Store w1)) = Some (update_execution (wo_DB wo 12) ?u r)"
    "xs_Ready (wk_Store w1) = xs_Ready (wk_Store w)" "xr_ExecutionID r = k"
    using u assms(2) by (elim update_exec_Inr) (auto dest: row_at_SomeD)
  have k: "ex_ExecutionID x = k" using r(1,5) by simp
  note synced = syncBindings_None[OF s k assms(2-5)]
  have cleared: "xs_Executions st = xs_Executions (wk_Store w4)" "xs_Bindings st = xs_Bindings (wk_Store w4)"
    "xs_Activations st = xs_Activations (wk_Store w4)" "xs_Ready st = xs_Ready (wk_Store w4)"
    using c by (auto simp: ClearRealizationSuspension_def split: if_splits)
  have ready: "xs_Ready st" using cleared(4) synced(2) r(2,4) by simp
  have "GetRealizationExecution k st = Inr x"
    using ready cleared(1) synced(1) r(1,3) assms(2) by (simp add: GetRealizationExecution_def)
  moreover have "ex_Status x = ''healthy'' \<and> ex_HealthyAt x \<noteq> None"
    using r(1) set_time_asked by (simp add: update_execution_def Let_def plain_eval)
  moreover have "GetActiveRealizationSuspension (ex_Reference x) st = Inl runtime_error.ErrNotFound"
    using cleared_lookup[of "wk_Store w4" "ex_Reference x" "wo_DB wo 19"] c cleared(4) ready by simp
  moreover have "is_active (ex_Reference x) k st = is_active (ex_Reference x) k (wk_Store ?w3)"
    unfolding is_active_def using lookups_cong(2)[of st "wk_Store ?w3" "ex_Reference x"] cleared(3,4) synced(2,3) by simp
  ultimately show ?thesis using synced(4) cleared(2) assms(3) unfolding w' by auto
qed

subsection \<open>Killing, stopping, deactivating\<close>

text \<open>
  The process that the executor lists for the execution runs. A process of the execution that is not listed any
  more is not counted; \<open>late_exit_orphans_the_second_process\<close> shows how one comes about.
\<close>

definition process_alive :: "string \<Rightarrow> LocalWorker \<Rightarrow> bool" where
  "process_alive k w \<longleftrightarrow>
     (case lx_Processes (wk_Executor w) k of None \<Rightarrow> False | Some p \<Rightarrow> rpr_PID p \<in> lx_Alive (wk_Executor w))"

lemma kill_leaves [simp]:
  "wk_Store (kill k w) = wk_Store w" "wk_HasRuntime (kill k w) = wk_HasRuntime w"
  "wk_BreachCounts (kill k w) = wk_BreachCounts w" "wk_Budgets (kill k w) = wk_Budgets w"
  "lx_Processes (wk_Executor (kill k w)) = lx_Processes (wk_Executor w)"
  by (simp_all add: kill_def Stop_def split: option.split)

lemma kill_alive:
  "trim_space k = k \<Longrightarrow>
   lx_Alive (wk_Executor (kill k w)) = lx_Alive (wk_Executor w) - rpr_PID ` set_option (lx_Processes (wk_Executor w) k)"
  by (auto simp: kill_def Stop_def split: option.splits)

lemma kill_kills: "trim_space k = k \<Longrightarrow> \<not> process_alive k (kill k w)"
  by (auto simp: process_alive_def kill_def Stop_def split: option.splits)

lemma on_store_leaves [simp]:
  "wk_Executor (on_store f w) = wk_Executor w" "wk_BreachCounts (on_store f w) = wk_BreachCounts w"
  "wk_Budgets (on_store f w) = wk_Budgets w" "wk_Store (on_store f w) = snd (f (wk_Store w))"
  by (simp_all add: on_store_def)

lemma forget_leaves [simp]:
  "wk_Store (forget_breaches k w) = wk_Store w" "wk_Executor (forget_breaches k w) = wk_Executor w"
  "wk_Budgets (forget_breaches k w) = wk_Budgets w"
  by (simp_all add: forget_breaches_def)

lemma update_leaves [simp]:
  "update_exec wo n k i w = (r, w1) \<Longrightarrow> wk_Executor w1 = wk_Executor w \<and> xs_Bindings (wk_Store w1) = xs_Bindings (wk_Store w) \<and>
     xs_Activations (wk_Store w1) = xs_Activations (wk_Store w) \<and> xs_Ready (wk_Store w1) = xs_Ready (wk_Store w) \<and>
     os_Suspensions (wk_Store w1) = os_Suspensions (wk_Store w) \<and> wk_BreachCounts w1 = wk_BreachCounts w \<and>
     wk_Budgets w1 = wk_Budgets w"
  by (auto simp: update_exec_def UpdateRealizationExecution_def Let_def split: if_splits option.splits)

lemma unbind_eq:
  "xs_Ready st \<Longrightarrow> snd (DeleteRealizationRouteBindings k st) =
     st\<lparr>xs_Bindings := filter (\<lambda>r. rbr_ExecutionID r \<noteq> trim_space k) (xs_Bindings st)\<rparr>"
  "xs_Ready st \<Longrightarrow> snd (DeleteStableRouteBindingsForReference ref st) =
     st\<lparr>xs_Bindings := filter (\<lambda>r. \<not> (rbr_Reference r = trim_space ref \<and>
       rbr_BindingKind r \<in> {''stable_subdomain'', ''stable_path''})) (xs_Bindings st)\<rparr>"
  by (simp_all add: DeleteRealizationRouteBindings_def DeleteStableRouteBindingsForReference_def)

lemma deactivate_leaves [simp]:
  "xs_Executions (wk_Store (deactivate ref k b w)) = xs_Executions (wk_Store w)"
  "xs_Ready (wk_Store (deactivate ref k b w)) = xs_Ready (wk_Store w)"
  "os_Suspensions (wk_Store (deactivate ref k b w)) = os_Suspensions (wk_Store w)"
  "wk_Executor (deactivate ref k b w) = wk_Executor w"
  "wk_Budgets (deactivate ref k b w) = wk_Budgets w"
  "wk_BreachCounts (deactivate ref k b w) = wk_BreachCounts w"
  by (auto simp: deactivate_def Let_def DeleteRealizationActivation_def DeleteStableRouteBindingsForReference_def
      split: sum.split)

lemma is_active_iff:
  "xs_Ready st \<Longrightarrow> is_active ref k st \<longleftrightarrow>
     (\<exists>r. row_at actr_Reference (trim_space ref) (xs_Activations st) = Some r \<and> string_of_null (actr_ExecutionID r) = k)"
  by (auto simp: is_active_def GetRealizationActivation_def scanRealizationActivation_def split: option.split)

lemma row_at_filtered: "row_at key k (filter (\<lambda>r. key r \<noteq> k) t) = None"
  by (auto simp: row_at_None)

text \<open>After the deactivation the execution is not active, while another active execution stays so.\<close>

lemma deactivated:
  assumes "xs_Ready (wk_Store w)"
  shows "\<not> is_active ref k (wk_Store (deactivate ref k b w))"
proof (cases "GetRealizationActivation ref (wk_Store w)")
  case (Inl e)
  then have "deactivate ref k b w = w" by (simp add: deactivate_def)
  with Inl show ?thesis by (simp add: is_active_def)
next
  case (Inr a)
  show ?thesis
  proof (cases "act_ExecutionID a = k")
    case True
    with Inr have "xs_Activations (wk_Store (deactivate ref k b w)) =
        filter (\<lambda>r. actr_Reference r \<noteq> trim_space ref) (xs_Activations (wk_Store w))"
      using assms
      by (auto simp: deactivate_def Let_def DeleteRealizationActivation_def DeleteStableRouteBindingsForReference_def)
    then show ?thesis using assms by (simp add: is_active_iff row_at_filtered)
  next
    case False
    with Inr have "deactivate ref k b w = w" by (simp add: deactivate_def)
    with Inr False show ?thesis by (simp add: is_active_def)
  qed
qed

lemma deactivate_other: "is_active ref k' (wk_Store w) \<Longrightarrow> k' \<noteq> k \<Longrightarrow> deactivate ref k b w = w"
  by (auto simp: deactivate_def is_active_def split: sum.splits)

lemma is_active_cong:
  "xs_Ready st = xs_Ready st' \<Longrightarrow> xs_Activations st = xs_Activations st' \<Longrightarrow> is_active ref k st = is_active ref k st'"
  using lookups_cong(2)[of st st' ref] by (simp add: is_active_def)

lemma update_exec_stored:
  assumes "GetRealizationExecution k (wk_Store w) = Inr x" "trim_space k = k" "k \<noteq> []"
  shows "\<exists>x' w1. update_exec wo n k i w = (Inr x', w1)"
proof -
  from assms obtain r where "row_at xr_ExecutionID k (xs_Executions (wk_Store w)) = Some r" "xs_Ready (wk_Store w)"
    by (auto simp: GetRealizationExecution_def split: if_splits option.splits)
  moreover have "row_at xr_ExecutionID k (update_rows (\<lambda>r. xr_ExecutionID r = k) (update_execution (wo_DB wo n) i)
      (xs_Executions (wk_Store w))) =
    map_option (\<lambda>r. if xr_ExecutionID r = k then update_execution (wo_DB wo n) i r else r)
      (row_at xr_ExecutionID k (xs_Executions (wk_Store w)))"
    by (rule row_at_update_rows) simp
  ultimately show ?thesis unfolding update_exec_def UpdateRealizationExecution_def Let_def assms(2)
    using assms(3) by simp
qed

end
