(* ===== verification/Local_Properties.thy ===== *)
theory Local_Properties
  imports Local_Execution "HOL-Library.Multiset"
begin

text \<open>
  What a local launch promises: the output of a process is cut into the same log lines however it is
  chunked, the variables of the kernel cannot be forged, and no other variable of the host gets through
  by itself.
\<close>

subsection \<open>Log lines\<close>

lemma complete_lines_eq:
  "complete_lines raw = (butlast (split_on (CHR 0x0A) raw), last (split_on (CHR 0x0A) raw))"
proof (induction raw rule: complete_lines.induct)
  case (1 raw)
  show ?case
  proof (cases "CHR 0x0A \<in> set raw")
    case False
    then show ?thesis by (subst complete_lines.simps) (simp add: split_on_single)
  next
    case True
    let ?line = "takeWhile (\<lambda>c. c \<noteq> CHR 0x0A) raw" and ?rest = "tl (dropWhile (\<lambda>c. c \<noteq> CHR 0x0A) raw)"
    have "?line @ CHR 0x0A # ?rest = raw" using cut_at_found[OF True] by (simp add: cut_at_def)
    moreover have "CHR 0x0A \<notin> set ?line" by (auto dest: set_takeWhileD)
    ultimately have "split_on (CHR 0x0A) raw = ?line # split_on (CHR 0x0A) ?rest"
      by (metis split_on_append)
    with 1[OF _ refl] True show ?thesis by (subst complete_lines.simps) simp
  qed
qed

lemma split_on_resume: "split_on c (a @ b) = butlast (split_on c a) @ split_on c (last (split_on c a) @ b)"
proof (induction a)
  case (Cons x a)
  obtain y ys where ya: "split_on c a = y # ys" by (cases "split_on c a") auto
  show ?case
  proof (cases "x = c")
    case False
    show ?thesis
    proof (cases ys)
      case Nil
      with Cons ya False show ?thesis by simp
    next
      case (Cons z zs)
      with Cons.IH ya False show ?thesis by simp
    qed
  qed (use Cons ya in simp)
qed simp

definition log_line :: "string \<Rightarrow> string list" where
  "log_line l = emit (trim_right_set l [CHR 0x0D])"

definition log_lines_of :: "string \<Rightarrow> string list" where
  "log_lines_of out = concat (map log_line (split_on (CHR 0x0A) out))"

lemma trim_right_only:
  "CHR 0x0A \<notin> set s \<Longrightarrow> trim_right_set s [CHR 0x0D, CHR 0x0A] = trim_right_set s [CHR 0x0D]"
proof -
  assume "CHR 0x0A \<notin> set s"
  then have "dropWhile (\<lambda>c. c \<in> set [CHR 0x0D, CHR 0x0A]) (rev s) = dropWhile (\<lambda>c. c \<in> set [CHR 0x0D]) (rev s)"
    by (intro dropWhile_cong) auto
  then show ?thesis by (simp add: trim_right_set_def)
qed

lemma log_line_Nil [simp]: "log_line [] = []"
  by (simp add: log_line_def emit_def trim_right_set_def)

lemma line_Write_eq:
  assumes "CHR 0x0A \<notin> set buffer"
  shows "line_Write buffer p =
    (concat (map log_line (butlast (split_on (CHR 0x0A) (buffer @ p)))), last (split_on (CHR 0x0A) (buffer @ p)))"
  using assms
  by (simp add: line_Write_def flushCompleteLines_def complete_lines_eq split_on_single log_line_def[abs_def])

lemma write_chunks_eq:
  "CHR 0x0A \<notin> set buffer \<Longrightarrow> write_chunks buffer ps = log_lines_of (buffer @ concat ps)"
proof (induction ps arbitrary: buffer)
  case Nil
  have "line_Flush buffer = log_line buffer"
    by (cases "buffer = []") (simp_all add: line_Flush_def trim_right_only[OF Nil] log_line_def[of buffer])
  with Nil show ?case by (simp add: log_lines_of_def split_on_single)
next
  case (Cons p ps)
  let ?l = "last (split_on (CHR 0x0A) (buffer @ p))"
  have "CHR 0x0A \<notin> set ?l" by (metis last_in_set split_on_no_sep split_on_not_Nil)
  from Cons.IH[OF this] Cons.prems have
    "write_chunks buffer (p # ps) =
      concat (map log_line (butlast (split_on (CHR 0x0A) (buffer @ p)))) @ log_lines_of (?l @ concat ps)"
    by (simp add: line_Write_eq)
  also have "\<dots> = log_lines_of ((buffer @ p) @ concat ps)"
    unfolding log_lines_of_def by (subst (3) split_on_resume) simp
  finally show ?case by simp
qed

subsection \<open>The environment\<close>

lemma set_pairs_map_of: "map_of (foldl set_pair base kvs) = map_of base ++ map_of (rev kvs)"
proof (induction kvs arbitrary: base)
  case (Cons kv kvs)
  have kv: "map_of (set_pair base kv) = map_of base ++ map_of [kv]"
    by (cases kv) (simp add: set_pair_def map_of_upsert)
  show ?case by (simp only: foldl.simps Cons.IH kv rev.simps map_of_append map_add_assoc)
qed simp

lemma set_pairs_distinct: "distinct (map fst base) \<Longrightarrow> distinct (map fst (foldl set_pair base kvs))"
  by (rule foldl_inv[where I = "\<lambda>b. distinct (map fst b)"]) (auto simp: set_pair_def distinct_upsert)

lemma keep_pairs_props:
  "distinct (map fst (foldl keep_pair [] environ)) \<and>
   (\<forall>e\<in>set (foldl keep_pair [] environ). keepHostEnv (fst e) \<and> CHR ''='' \<notin> set (fst e))"
proof (rule foldl_inv)
  fix base :: "(string \<times> string) list" and pair
  assume I: "distinct (map fst base) \<and> (\<forall>e\<in>set base. keepHostEnv (fst e) \<and> CHR ''='' \<notin> set (fst e))"
  have no_eq: "CHR ''='' \<notin> set (takeWhile (\<lambda>x. x \<noteq> CHR ''='') pair)" by (auto dest: set_takeWhileD)
  show "distinct (map fst (keep_pair base pair)) \<and>
      (\<forall>e\<in>set (keep_pair base pair). keepHostEnv (fst e) \<and> CHR ''='' \<notin> set (fst e))"
  proof (cases "CHR ''='' \<in> set pair \<and> keepHostEnv (takeWhile (\<lambda>x. x \<noteq> CHR ''='') pair)")
    case True
    let ?k = "takeWhile (\<lambda>x. x \<noteq> CHR ''='') pair" and ?v = "tl (dropWhile (\<lambda>x. x \<noteq> CHR ''='') pair)"
    have e: "keep_pair base pair = upsert ?k [] (\<lambda>_. ?v) base" using True by (simp add: keep_pair_def cut_at_def)
    have "\<forall>e\<in>set (upsert ?k [] (\<lambda>_. ?v) base). keepHostEnv (fst e) \<and> CHR ''='' \<notin> set (fst e)"
      by (rule upsert_inv) (use I True no_eq in auto)
    with I show ?thesis unfolding e by (simp add: distinct_upsert)
  next
    case False
    then have "keep_pair base pair = base" by (auto simp: keep_pair_def cut_at_def)
    with I show ?thesis by simp
  qed
qed simp

lemma cut_pair: "CHR ''='' \<notin> set k \<Longrightarrow> cut_at (CHR ''='') (k @ ''='' @ v) = (k, v, True)"
proof -
  assume k: "CHR ''='' \<notin> set k"
  then have "takeWhile (\<lambda>x. x \<noteq> CHR ''='') (k @ CHR ''='' # v) = k"
    "dropWhile (\<lambda>x. x \<noteq> CHR ''='') (k @ CHR ''='' # v) = CHR ''='' # v"
    by (induction k) auto
  then show ?thesis by (simp add: cut_at_def)
qed

lemma lookup_env_pairs:
  "\<forall>e\<in>set m. CHR ''='' \<notin> set (fst e) \<Longrightarrow>
   lookup_env (map (\<lambda>(key, v). key @ ''='' @ v) m) name = map_of m name"
  by (induction m) (auto simp: cut_pair simp del: append.simps)

text \<open>The order of the pairs does not matter, since the keys are distinct.\<close>

lemma map_of_same_set:
  assumes "distinct (map fst m)" "set m' = set m"
  shows "map_of m' = map_of m"
proof
  fix k
  show "map_of m' k = map_of m k"
  proof (cases "map_of m' k")
    case None
    then have "k \<notin> fst ` set m" unfolding map_of_eq_None_iff assms(2) .
    with None show ?thesis by (metis map_of_eq_None_iff)
  next
    case (Some v)
    then have "(k, v) \<in> set m" using assms(2) map_of_SomeD by fastforce
    with Some assms(1) show ?thesis by simp
  qed
qed

lemma pair_inj:
  assumes "CHR ''='' \<notin> set k" "CHR ''='' \<notin> set k'" "k @ ''='' @ v = k' @ ''='' @ v'"
  shows "k = k' \<and> v = v'"
proof -
  have "(k, v, True) = cut_at (CHR ''='') (k @ ''='' @ v)" using assms(1) by (rule cut_pair[symmetric])
  also have "\<dots> = (k', v', True)" unfolding assms(3) using assms(2) by (rule cut_pair)
  finally show ?thesis by simp
qed

lemma lookup_env_any_order:
  assumes "distinct (map fst m)" "\<forall>e\<in>set m. CHR ''='' \<notin> set (fst e)"
    and "set env = set (map (\<lambda>(key, v). key @ ''='' @ v) m)"
  shows "lookup_env env name = map_of m name"
proof -
  let ?f = "\<lambda>(key, v). key @ ''='' @ v"
  have "\<forall>p\<in>set env. \<exists>e. e \<in> set m \<and> p = ?f e" using assms(3) by auto
  then obtain g where g: "\<forall>p\<in>set env. g p \<in> set m \<and> p = ?f (g p)" by metis
  let ?m = "map g env"
  have "map ?f ?m = map (\<lambda>p. p) env" unfolding map_map by (rule map_cong) (use g in auto)
  then have env: "env = map ?f ?m" by simp
  have "e \<in> set ?m" if "e \<in> set m" for e
  proof -
    have p: "?f e \<in> set env" using that assms(3) by auto
    with g have "g (?f e) \<in> set m" "?f e = ?f (g (?f e))" by auto
    moreover have "CHR ''='' \<notin> set (fst e)" "CHR ''='' \<notin> set (fst (g (?f e)))" using assms(2) that g p by auto
    ultimately have "g (?f e) = e"
      using pair_inj[of "fst e" "fst (g (?f e))" "snd e" "snd (g (?f e))"] by (simp add: case_prod_unfold prod_eq_iff)
    with p show ?thesis by force
  qed
  then have "set ?m = set m" using g by auto
  moreover have "\<forall>e\<in>set ?m. CHR ''='' \<notin> set (fst e)" using assms(2) calculation by simp
  ultimately show ?thesis using assms(1) env by (metis lookup_env_pairs map_of_same_set)
qed


subsection \<open>The environment of a launch\<close>

definition own_pairs :: "LocalSpec \<Rightarrow> string \<Rightarrow> CapabilityURLs \<Rightarrow> (string \<times> string) list" where
  "own_pairs spec executionID urls =
     [(''AS_ADDR'', ls_UpstreamAddr spec), (''AS_SEED_ID'', ls_SeedID spec),
      (''AS_REALIZATION_ID'', ls_RealizationID spec), (''AS_EXECUTION_ID'', executionID)] @
     url_pair ''AS_REGISTRY_URL'' (cu_RegistryBaseURL urls) @
     url_pair ''AS_PUBLIC_API_URL'' (cu_PublicAPIBaseURL urls) @
     url_pair ''AS_INTERNAL_API_URL'' (cu_InternalAPIBaseURL urls) @
     url_pair ''AS_RUNTIME_DATABASE_URL'' (cu_RuntimeDatabaseURL urls)"

lemma spec_cases:
  assumes "BuildLocalSpec ma repoRoot reference executionID urls = Inr spec"
  obtains entry :: LocalRealization and manifest :: RuntimeManifest where
    "ValidateLocalRuntimeManifest (ma_WorkingDir ma) repoRoot (lr_RootDir entry) manifest = None"
    "ls_WorkingDir spec = join_paths [lr_RootDir entry, trim_space (rt_WorkingDirectory manifest)]"
    "ls_ExecutionID spec = executionID"
    "ls_Environment spec = buildProcessEnvironment (ma_Environ ma)
       (launch_env_map (ma_Environ ma) manifest (own_pairs spec executionID urls))"
proof -
  show thesis using assms
    by (clarsimp simp: BuildLocalSpec_def and_then_def guard_err_def split: sum.splits option.splits prod.splits)
      (rule that, assumption, simp_all add: own_pairs_def kernel_pairs_def)
qed

lemma url_pair_key: "e \<in> set (url_pair key url) \<Longrightarrow> fst e = key"
  by (auto simp: url_pair_def split: if_splits)

lemma own_pairs_reserved: "fst ` set (own_pairs spec k urls) \<subseteq> reservedRuntimeEnv"
  by (auto simp: own_pairs_def reservedRuntimeEnv_def dest: url_pair_key)

lemma reserved_no_eq: "name \<in> reservedRuntimeEnv \<Longrightarrow> CHR ''='' \<notin> set name"
  by (auto simp: reservedRuntimeEnv_def)

lemma reserved_not_host: "name \<in> reservedRuntimeEnv \<Longrightarrow> \<not> keepHostEnv name"
  by (auto simp: reservedRuntimeEnv_def keepHostEnv_def host_kept_def)

lemma env_key_no_eq: "envKeyPattern k \<Longrightarrow> CHR ''='' \<notin> set k"
  by (auto simp: envKeyPattern_def upper_char_def digit_char_def less_eq_char_def split: list.splits)

lemma own_pairs_rev: "map_of (rev (own_pairs spec k urls)) = map_of (own_pairs spec k urls)"
proof -
  have "distinct (map fst (own_pairs spec k urls))" by (simp add: own_pairs_def url_pair_def)
  then show ?thesis by (intro map_of_same_set) simp_all
qed

lemma keys_foldl_set_pair: "fst ` set (foldl set_pair base kvs) = fst ` set base \<union> fst ` set kvs"
  by (induction kvs arbitrary: base) (auto simp: set_pair_def keys_upsert)

text \<open>The environment of a process, as a map: the host below the manifest below the kernel.\<close>

lemma process_env_lookup:
  assumes "ValidateLocalRuntimeManifest wd repo root manifest = None"
    and "fst ` set own \<subseteq> reservedRuntimeEnv"
    and "set env = set (buildProcessEnvironment environ (launch_env_map environ manifest own))"
  shows "lookup_env env name =
    (map_of (foldl keep_pair [] environ) ++ (map_of (rev (manifest_pairs environ manifest)) ++ map_of (rev own))) name"
proof -
  let ?host = "foldl keep_pair [] environ" and ?m = "process_environment environ (launch_env_map environ manifest own)"
  let ?pairs = "manifest_pairs environ manifest @ own"
  have host: "distinct (map fst ?host)" "\<forall>e\<in>set ?host. CHR ''='' \<notin> set (fst e)" using keep_pairs_props by auto
  have over: "distinct (map fst (launch_env_map environ manifest own))"
    unfolding launch_env_map_def by (rule set_pairs_distinct) simp
  have d: "distinct (map fst ?m)"
    unfolding process_environment_def by (rule set_pairs_distinct) (rule host(1))
  have keys: "fst ` set (manifest_pairs environ manifest) = (\<lambda>kv. trim_space (fst kv)) ` set (rt_Environment manifest)"
    by (force simp: manifest_pairs_def image_image case_prod_unfold)
  have ks: "CHR ''='' \<notin> set k" if "k \<in> fst ` set ?pairs" for k
  proof (cases "k \<in> fst ` set own")
    case True
    with assms(2) have "k \<in> reservedRuntimeEnv" by auto
    then show ?thesis by (rule reserved_no_eq)
  next
    case False
    with that have "k \<in> fst ` set (manifest_pairs environ manifest)" by auto
    with assms(1) have "envKeyPattern k" unfolding keys by (auto simp: ValidateLocalRuntimeManifest_None)
    then show ?thesis by (rule env_key_no_eq)
  qed
  have keys_m: "fst ` set ?m = fst ` set ?host \<union> fst ` set ?pairs"
    by (simp add: process_environment_def launch_env_map_def keys_foldl_set_pair image_Un)
  have e: "\<forall>e\<in>set ?m. CHR ''='' \<notin> set (fst e)"
  proof
    fix e assume "e \<in> set ?m"
    then have "fst e \<in> fst ` set ?host \<or> fst e \<in> fst ` set ?pairs" unfolding Un_iff[symmetric] keys_m[symmetric]
      by (rule imageI)
    then show "CHR ''='' \<notin> set (fst e)"
    proof
      assume "fst e \<in> fst ` set ?host"
      then obtain x where "x \<in> set ?host" "fst e = fst x" by (rule imageE)
      with host(2) show ?thesis by simp
    qed (rule ks)
  qed
  have "lookup_env env name = map_of ?m name"
    using lookup_env_any_order[OF d e assms(3)[unfolded buildProcessEnvironment_def]] .
  also have "map_of ?m = map_of ?host ++ map_of (rev (launch_env_map environ manifest own))"
    by (simp add: process_environment_def set_pairs_map_of)
  also have "map_of (rev (launch_env_map environ manifest own)) = map_of (launch_env_map environ manifest own)"
    using over by (intro map_of_same_set) simp_all
  also have "\<dots> = map_of (rev (manifest_pairs environ manifest)) ++ map_of (rev own)"
    by (simp add: launch_env_map_def set_pairs_map_of)
  finally show ?thesis .
qed

lemma manifest_not_reserved:
  assumes "ValidateLocalRuntimeManifest wd repo root manifest = None" "name \<in> reservedRuntimeEnv"
  shows "map_of (rev (manifest_pairs environ manifest)) name = None"
  using assms by (fastforce simp: map_of_eq_None_iff manifest_pairs_def ValidateLocalRuntimeManifest_None)

definition run_manifest :: Manifest where
  "run_manifest = sample_manifest\<lparr>mf_Artifacts := [''runtime.yaml'']\<rparr>"

definition run_runtime :: RuntimeManifest where
  "run_runtime =
     sample_runtime\<lparr>rt_Environment := [(''PORT_HINT'', ''8080''), (''SECRET'', ''${ AS_INTERNAL_API_TOKEN }'')]\<rparr>"

definition run_machine :: machine where
  "run_machine =
     \<lparr>ma_Files = \<lparr>fs_Read = (\<lambda>_. Inr []), fs_Stat = (\<lambda>_. True),
        fs_Walk = (\<lambda>root. if root = ''/r/seeds''
                          then [WEntry ''/r/s/x/realization.yaml'' ''realization.yaml'' False] else [])\<rparr>,
      ma_WorkingDir = None,
      ma_Decoders = \<lparr>dec_Seed = (\<lambda>_. None), dec_Contract = (\<lambda>_. None), dec_Runtime = (\<lambda>_. Some run_runtime),
        dec_Manifest = (\<lambda>_. Some run_manifest)\<rparr>,
      ma_Metadata = (\<lambda>_. None), ma_Artifacts = (\<lambda>_. None),
      ma_Environ = [''PATH=/bin'', ''AS_INTERNAL_API_TOKEN=t'', ''AS_ADDR=evil'', ''HOME=/h'', ''X=y''],
      ma_Address = Inr ''127.0.0.1:9''\<rparr>"

definition run_urls :: CapabilityURLs where
  "run_urls =
     \<lparr>cu_RegistryBaseURL = '' http://reg '', cu_PublicAPIBaseURL = [], cu_InternalAPIBaseURL = [],
      cu_RuntimeDatabaseURL = []\<rparr>"

lemma run_spec_values:
  "map_sum (\<lambda>_. ()) (\<lambda>s. (ls_UpstreamAddr s, ls_SeedID s, ls_RealizationID s, ls_Environment s))
     (BuildLocalSpec run_machine ''/r'' ''s/x'' ''e1'' run_urls) =
   Inr (''127.0.0.1:9'', ''s'', ''x'',
        [''PATH=/bin'', ''HOME=/h'', ''PORT_HINT=8080'', ''SECRET=t'', ''AS_ADDR=127.0.0.1:9'', ''AS_SEED_ID=s'',
         ''AS_REALIZATION_ID=x'', ''AS_EXECUTION_ID=e1'', ''AS_REGISTRY_URL=http://reg''])"
  by code_simp

subsection \<open>Properties\<close>

text \<open>C27: the output of a process is cut into the same log lines however the process chunks it: the lines
  of the whole output without their trailing carriage returns, blank ones left out, the last one
  with or without a line feed.\<close>

theorem log_lines_do_not_depend_on_chunks:
  "write_chunks [] chunks =
     concat (map (\<lambda>l. emit (trim_right_set l [CHR 0x0D])) (split_on (CHR 0x0A) (concat chunks)))"
  using write_chunks_eq[of "[]" chunks] by (simp add: log_lines_of_def log_line_def[abs_def])

text \<open>C28: the variables that the kernel reserves cannot be forged: whatever the manifest and the host
  say, and in whatever order Go lists the environment, a process finds under each reserved name what the kernel
  set for its launch, or nothing.\<close>

theorem reserved_variables_are_the_kernels:
  assumes "BuildLocalSpec ma repoRoot reference executionID urls = Inr spec"
    and "set env = set (ls_Environment spec)" "name \<in> reservedRuntimeEnv"
  shows "lookup_env env name =
    map_of ([(''AS_ADDR'', ls_UpstreamAddr spec), (''AS_SEED_ID'', ls_SeedID spec),
        (''AS_REALIZATION_ID'', ls_RealizationID spec), (''AS_EXECUTION_ID'', executionID)] @
      url_pair ''AS_REGISTRY_URL'' (cu_RegistryBaseURL urls) @
      url_pair ''AS_PUBLIC_API_URL'' (cu_PublicAPIBaseURL urls) @
      url_pair ''AS_INTERNAL_API_URL'' (cu_InternalAPIBaseURL urls) @
      url_pair ''AS_RUNTIME_DATABASE_URL'' (cu_RuntimeDatabaseURL urls)) name"
proof -
  obtain entry :: LocalRealization and manifest :: RuntimeManifest where v:
    "ValidateLocalRuntimeManifest (ma_WorkingDir ma) repoRoot (lr_RootDir entry) manifest = None" and
    env: "ls_Environment spec = buildProcessEnvironment (ma_Environ ma)
       (launch_env_map (ma_Environ ma) manifest (own_pairs spec executionID urls))"
    using assms(1) by (rule spec_cases)
  have "name \<notin> fst ` set (foldl keep_pair [] (ma_Environ ma))"
    using keep_pairs_props[of "ma_Environ ma"] reserved_not_host[OF assms(3)] by auto
  then have "map_of (foldl keep_pair [] (ma_Environ ma)) name = None" by (simp add: map_of_eq_None_iff)
  moreover have "map_of (rev (manifest_pairs (ma_Environ ma) manifest)) name = None"
    using v assms(3) by (rule manifest_not_reserved)
  ultimately have "lookup_env env name = map_of (own_pairs spec executionID urls) name"
    using process_env_lookup[OF v own_pairs_reserved, of env "ma_Environ ma"] assms(2) env
    by (simp add: map_add_def own_pairs_rev split: option.split)
  then show ?thesis by (simp only: own_pairs_def)
qed

theorem reserved_variables_are_the_kernels_witness:
  "\<exists>spec. BuildLocalSpec run_machine ''/r'' ''s/x'' ''e1'' run_urls = Inr spec \<and>
     lookup_env (rev (ls_Environment spec)) ''AS_ADDR'' = Some ''127.0.0.1:9'' \<and>
     lookup_env (rev (ls_Environment spec)) ''AS_REGISTRY_URL'' = Some ''http://reg'' \<and>
     lookup_env (rev (ls_Environment spec)) ''AS_INTERNAL_API_TOKEN'' = None"
proof -
  obtain spec where spec: "BuildLocalSpec run_machine ''/r'' ''s/x'' ''e1'' run_urls = Inr spec"
    "ls_UpstreamAddr spec = ''127.0.0.1:9''"
    using run_spec_values by (cases "BuildLocalSpec run_machine ''/r'' ''s/x'' ''e1'' run_urls") auto
  have url: "url_pair ''AS_REGISTRY_URL'' (cu_RegistryBaseURL run_urls) = [(''AS_REGISTRY_URL'', ''http://reg'')]"
    "url_pair ''AS_PUBLIC_API_URL'' (cu_PublicAPIBaseURL run_urls) = []"
    "url_pair ''AS_INTERNAL_API_URL'' (cu_InternalAPIBaseURL run_urls) = []"
    "url_pair ''AS_RUNTIME_DATABASE_URL'' (cu_RuntimeDatabaseURL run_urls) = []"
    by code_simp+
  have "set (rev (ls_Environment spec)) = set (ls_Environment spec)" by simp
  note found = reserved_variables_are_the_kernels[OF spec(1) this, unfolded url]
  show ?thesis
    using spec found[of "''AS_ADDR''"] found[of "''AS_REGISTRY_URL''"] found[of "''AS_INTERNAL_API_TOKEN''"]
    by (auto simp: reservedRuntimeEnv_def)
qed

end
