(* ===== verification/Worker_Behaviour.thy ===== *)
theory Worker_Behaviour
  imports Worker_Properties Local_Properties
begin

text \<open>
  The behaviour of the worker's handlers: what a launch, a failed health check, a stop, the exit of a
  process, a run of samples and a restart leave behind.
\<close>

subsection \<open>A sample worker\<close>

definition launch_worker :: "bool \<Rightarrow> LocalWorker" where
  "launch_worker auto =
     NewLocalWorker ''/r''
       (Some (snd (CreateRealizationExecution ''f'' 1
          \<lparr>ce_ExecutionID = ''e1'', ce_Reference = ''s/x'', ce_SeedID = ''s'', ce_RealizationID = ''x'',
           ce_Backend = ''localprocess'', ce_Mode = [], ce_Status = ''launch_requested'', ce_RouteSubdomain = [],
           ce_RoutePathPrefix = [], ce_PreviewPathPrefix = [], ce_UpstreamAddr = [], ce_ExecutionPackageRef = [],
           ce_LaunchedByPrincipalID = [], ce_LaunchedBySessionID = [], ce_RequestID = [], ce_Metadata = [],
           ce_StartedAt = None\<rparr> (no_operations True))))
       \<lparr>js_Ready = True, js_Jobs = [], js_Notified = []\<rparr> run_urls [] auto (no_operations False)"

definition launch_world :: world where
  "launch_world =
     \<lparr>wo_ID = (\<lambda>n. decimal n), wo_Now = int, wo_DB = int, wo_Say = (\<lambda>_. ''error''), wo_Sprint = (\<lambda>_. []),
      wo_Machine = run_machine, wo_Launch = Inr (7, ''/tmp/log''), wo_Health = None\<rparr>"

definition launch_job :: "json Job" where
  "launch_job =
     \<lparr>job_JobID = ''j'', job_Queue = executionQueueName, job_Kind = executionLaunchKind, job_DedupeKey = [],
      job_Status = ''running'', job_Priority = 100, job_RunAt = 1, job_LockedAt = None, job_LockedBy = [],
      job_Attempts = 0, job_MaxAttempts = 10,
      job_Payload = [''execution_id'' \<mapsto> JString '' e1 '', ''reference'' \<mapsto> JString ''s/x''],
      job_LastError = [], job_CreatedAt = 1, job_FinishedAt = None\<rparr>"

lemma launch_values:
  "trim_space (payload_string (wo_Sprint launch_world) (job_Payload launch_job) ''execution_id'') = ''e1''"
  "fst (handleLaunch launch_world launch_job (launch_worker True)) = None"
  by code_simp+

subsection \<open>Properties\<close>

text \<open>C29: a launch that succeeds leaves the execution healthy, its reference no longer suspended, and its
  routes exactly: the preview path, and the stable subdomain and path of the realization if the reference is
  activated for this execution. It succeeds only if the launch specification was built and the process passed its
  health check.\<close>

theorem launch_ends_healthy:
  assumes "handleLaunch wo job w = (None, w')"
    and "k = trim_space (payload_string (wo_Sprint wo) (job_Payload job) ''execution_id'')"
    and "ref = trim_space (payload_string (wo_Sprint wo) (job_Payload job) ''reference'')"
  shows "\<exists>spec x. BuildLocalSpec (wo_Machine wo) (wk_RepoRoot w) ref k (wk_Capabilities w) = Inr spec \<and>
    wo_Health wo = None \<and> GetRealizationExecution k (wk_Store w') = Inr x \<and> ex_Status x = ''healthy'' \<and> ex_HealthyAt x \<noteq> None \<and>
    GetActiveRealizationSuspension (ex_Reference x) (wk_Store w') = Inl runtime_error.ErrNotFound \<and>
    map route (filter (\<lambda>r. rbr_ExecutionID r = k) (xs_Bindings (wk_Store w'))) =
      (''preview_path'', [], PreviewPath k, ls_UpstreamAddr spec) #
      (if is_active (ex_Reference x) k (wk_Store w') then stable_routes spec else [])"
proof -
  have k: "trim_space k = k" by (simp add: assms(2))
  obtain x w1 where u: "update_exec wo 0 k (empty_update\<lparr>ue_Status := ''starting''\<rparr>) w = (Inr x, w1)"
    using assms by (auto simp: handleLaunch_def Let_def split: if_splits prod.splits sum.splits)
  have same: "wk_RepoRoot w1 = wk_RepoRoot w" "wk_Capabilities w1 = wk_Capabilities w" using u by (auto elim!: update_exec_Inr)
  obtain spec logPath w4 where b: "BuildLocalSpec (wo_Machine wo) (wk_RepoRoot w) ref k (wk_Capabilities w) = Inr spec"
    and a: "await_health wo k spec logPath w4 = (None, w')"
    using assms u same by (auto simp: handleLaunch_def Let_def split: if_splits prod.splits sum.splits)
  from a obtain w5 where h: "wo_Health wo = None" and f: "finish_launch wo k spec w5 = (None, w')"
    by (auto simp: await_health_def announce_start_def health_result_def Let_def split: prod.splits sum.splits option.splits)
  show ?thesis using finish_launch_None[OF f k spec_routes[OF b]] b h by (intro exI[of _ spec]) simp
qed

theorem launch_ends_healthy_witness:
  "\<exists>x. GetRealizationExecution ''e1'' (wk_Store (snd (handleLaunch launch_world launch_job (launch_worker True)))) = Inr x \<and>
     ex_Status x = ''healthy''"
proof -
  have "handleLaunch launch_world launch_job (launch_worker True) =
      (None, snd (handleLaunch launch_world launch_job (launch_worker True)))"
    using launch_values(2) by (simp add: prod_eq_iff)
  from launch_ends_healthy[OF this launch_values(1)[symmetric] refl] show ?thesis by blast
qed

subsection \<open>A stop\<close>

lemma stop_rest_None:
  assumes "stop_rest wo k ref w = (None, w')" "trim_space k = k"
  obtains r w2 where
    "xs_Ready (wk_Store w2)" "wk_Executor w2 = wk_Executor w" "xs_Activations (wk_Store w2) = xs_Activations (wk_Store w)"
    "xs_Ready (wk_Store w)"
    "row_at xr_ExecutionID k (xs_Executions (wk_Store w)) = Some r"
    "row_at xr_ExecutionID k (xs_Executions (wk_Store w2)) = Some (update_execution (wo_DB wo 2)
        (empty_update\<lparr>ue_Status := ''stopped'', ue_StoppedAt := Some (wo_Now wo 2)\<rparr>) r)"
    "w' = forget_breaches k (on_store (DeleteRealizationRouteBindings k)
        (on_store (DeleteStableRouteBindingsForReference ref) (deactivate ref k False w2)))"
proof -
  obtain x w2 where u: "update_exec wo 2 k (empty_update\<lparr>ue_Status := ''stopped'', ue_StoppedAt := Some (wo_Now wo 2)\<rparr>)
      (record_event wo 1 k ''stop_requested'' [] w) = (Inr x, w2)"
    and w': "w' = forget_breaches k (on_store (DeleteRealizationRouteBindings k)
        (on_store (DeleteStableRouteBindingsForReference ref) (deactivate ref k False w2)))"
    using assms(1) by (auto simp: stop_rest_def Let_def split: prod.splits sum.splits)
  from u obtain r where "row_at xr_ExecutionID k (xs_Executions (wk_Store w)) = Some r" "xs_Ready (wk_Store w)"
    "row_at xr_ExecutionID k (xs_Executions (wk_Store w2)) = Some (update_execution (wo_DB wo 2)
        (empty_update\<lparr>ue_Status := ''stopped'', ue_StoppedAt := Some (wo_Now wo 2)\<rparr>) r)"
    using assms(2) by (elim update_exec_Inr) auto
  with that[of w2 r] update_leaves[OF u] w' show thesis by simp
qed

lemma stop_values:
  "fst (handleStop launch_world launch_job (snd (handleLaunch launch_world launch_job (launch_worker True)))) = None"
  "map rbr_BindingID (xs_Bindings (wk_Store (snd (handleLaunch launch_world launch_job (launch_worker True))))) \<noteq> []"
  "let x = wk_Executor (snd (handleLaunch launch_world launch_job (launch_worker True)))
   in lx_Alive x \<noteq> {} \<and> lx_Alive x - rpr_PID ` set_option (lx_Processes x ''e1'') = {}"
  by code_simp+

text \<open>C31: a stop that succeeds leaves the execution stopped, no route of the execution, no activation of it and no
  stable route of its reference. Of the processes it kills exactly the one that the executor lists for the execution:
  a process that is not listed any more (after a second launch of the execution) is not touched.\<close>

theorem stop_unroutes_and_kills_the_listed_process:
  assumes "handleStop wo job w = (None, w')"
    and "k = trim_space (payload_string (wo_Sprint wo) (job_Payload job) ''execution_id'')"
  shows "\<exists>x. GetRealizationExecution k (wk_Store w') = Inr x \<and> ex_Status x = ''stopped'' \<and>
    lx_Alive (wk_Executor w') = lx_Alive (wk_Executor w) - rpr_PID ` set_option (lx_Processes (wk_Executor w) k) \<and>
    filter (\<lambda>r. rbr_ExecutionID r = k) (xs_Bindings (wk_Store w')) = [] \<and>
    \<not> is_active (ex_Reference x) k (wk_Store w') \<and>
    filter (\<lambda>r. rbr_Reference r = trim_space (ex_Reference x) \<and> rbr_BindingKind r \<in> {''stable_subdomain'', ''stable_path''})
      (xs_Bindings (wk_Store w')) = []"
proof -
  have k: "trim_space k = k" by (simp add: assms(2))
  obtain x0 where g: "GetRealizationExecution k (wk_Store w) = Inr x0"
    and s: "stop_rest wo k (ex_Reference x0) (kill k w) = (None, w')"
    using assms by (auto simp: handleStop_def Let_def split: if_splits sum.splits)
  from s k obtain r w2 where w2: "xs_Ready (wk_Store w2)" "wk_Executor w2 = wk_Executor (kill k w)"
    "row_at xr_ExecutionID k (xs_Executions (wk_Store (kill k w))) = Some r"
    "row_at xr_ExecutionID k (xs_Executions (wk_Store w2)) = Some (update_execution (wo_DB wo 2)
        (empty_update\<lparr>ue_Status := ''stopped'', ue_StoppedAt := Some (wo_Now wo 2)\<rparr>) r)"
    "w' = forget_breaches k (on_store (DeleteRealizationRouteBindings k)
        (on_store (DeleteStableRouteBindingsForReference (ex_Reference x0)) (deactivate (ex_Reference x0) k False w2)))"
    by (rule stop_rest_None)
  let ?r = "update_execution (wo_DB wo 2) (empty_update\<lparr>ue_Status := ''stopped'', ue_StoppedAt := Some (wo_Now wo 2)\<rparr>) r"
  have st: "wk_Store w' = (wk_Store (deactivate (ex_Reference x0) k False w2))\<lparr>xs_Bindings :=
      filter (\<lambda>r. rbr_ExecutionID r \<noteq> k) (filter (\<lambda>r. \<not> (rbr_Reference r = trim_space (ex_Reference x0) \<and>
        rbr_BindingKind r \<in> {''stable_subdomain'', ''stable_path''})) (xs_Bindings (wk_Store (deactivate (ex_Reference x0) k False w2))))\<rparr>"
    using w2(1,5) k by (simp add: unbind_eq)
  have ref: "ex_Reference (scanRealizationExecution ?r) = ex_Reference x0"
    using g w2(1,3) k by (auto simp: GetRealizationExecution_def update_execution_def Let_def split: if_splits)
  have "GetRealizationExecution k (wk_Store w') = Inr (scanRealizationExecution ?r)"
    using w2(1,4) k by (simp add: GetRealizationExecution_def st)
  moreover have "ex_Status (scanRealizationExecution ?r) = ''stopped''"
    by (simp add: update_execution_def Let_def plain_eval)
  moreover have "wk_Executor w' = wk_Executor (kill k w)" using w2(2) by (simp add: w2(5))
  then have "lx_Alive (wk_Executor w') = lx_Alive (wk_Executor w) - rpr_PID ` set_option (lx_Processes (wk_Executor w) k)"
    by (simp add: kill_alive[OF k])
  moreover have "\<not> is_active (ex_Reference x0) k (wk_Store w')"
    using deactivated[OF w2(1), of "ex_Reference x0" k False]
      is_active_cong[of "wk_Store w'" "wk_Store (deactivate (ex_Reference x0) k False w2)" "ex_Reference x0" k]
    by (simp add: st)
  moreover have "filter (\<lambda>r. rbr_ExecutionID r = k) (xs_Bindings (wk_Store w')) = []" by (simp add: st filter_empty_conv)
  moreover have "filter (\<lambda>r. rbr_Reference r = trim_space (ex_Reference x0) \<and>
      rbr_BindingKind r \<in> {''stable_subdomain'', ''stable_path''}) (xs_Bindings (wk_Store w')) = []"
    by (auto simp: st filter_empty_conv)
  ultimately show ?thesis unfolding ref[symmetric] by blast
qed


theorem stop_unroutes_and_kills_the_listed_process_witness:
  "map rbr_BindingID (xs_Bindings (wk_Store (snd (handleLaunch launch_world launch_job (launch_worker True))))) \<noteq> [] \<and>
   (let w' = snd (handleStop launch_world launch_job (snd (handleLaunch launch_world launch_job (launch_worker True))))
    in filter (\<lambda>r. rbr_ExecutionID r = ''e1'') (xs_Bindings (wk_Store w')) = [] \<and> lx_Alive (wk_Executor w') = {}) \<and>
   lx_Alive (wk_Executor (snd (handleLaunch launch_world launch_job (launch_worker True)))) \<noteq> {}"
proof -
  let ?w = "snd (handleLaunch launch_world launch_job (launch_worker True))"
  have "handleStop launch_world launch_job ?w = (None, snd (handleStop launch_world launch_job ?w))"
    using stop_values(1) by (simp add: prod_eq_iff)
  from stop_unroutes_and_kills_the_listed_process[OF this launch_values(1)[symmetric]] stop_values(2,3) show ?thesis by (auto simp: Let_def)
qed

text \<open>Stopping an execution that is not the active one of its reference takes the stable routes of the
  active one away: its activation stays, but no stable route of the reference is left.\<close>

theorem stop_unroutes_the_active_execution:
  assumes "handleStop wo job w = (None, w')"
    and "GetRealizationExecution (trim_space (payload_string (wo_Sprint wo) (job_Payload job) ''execution_id'')) (wk_Store w) = Inr x"
    and "is_active (ex_Reference x) active (wk_Store w)"
    and "active \<noteq> trim_space (payload_string (wo_Sprint wo) (job_Payload job) ''execution_id'')"
  shows "is_active (ex_Reference x) active (wk_Store w') \<and>
    filter (\<lambda>r. rbr_Reference r = trim_space (ex_Reference x) \<and> rbr_BindingKind r \<in> {''stable_subdomain'', ''stable_path''})
      (xs_Bindings (wk_Store w')) = []"
proof -
  define k where "k = trim_space (payload_string (wo_Sprint wo) (job_Payload job) ''execution_id'')"
  then have k: "trim_space k = k" by simp
  have s: "stop_rest wo k (ex_Reference x) (kill k w) = (None, w')"
    using assms(1,2) unfolding k_def by (auto simp: handleStop_def Let_def split: if_splits sum.splits)
  from s k obtain w2 where w2: "xs_Ready (wk_Store w2)" "xs_Activations (wk_Store w2) = xs_Activations (wk_Store (kill k w))"
    "xs_Ready (wk_Store (kill k w))"
    "w' = forget_breaches k (on_store (DeleteRealizationRouteBindings k)
        (on_store (DeleteStableRouteBindingsForReference (ex_Reference x)) (deactivate (ex_Reference x) k False w2)))"
    by (rule stop_rest_None)
  have active: "is_active (ex_Reference x) active (wk_Store w2)"
    using assms(3) is_active_cong[of "wk_Store w2" "wk_Store w"] w2(1-3) by simp
  then have d: "deactivate (ex_Reference x) k False w2 = w2" by (rule deactivate_other) (use assms(4) k_def in simp)
  have st: "wk_Store w' = (wk_Store w2)\<lparr>xs_Bindings :=
      filter (\<lambda>r. rbr_ExecutionID r \<noteq> k) (filter (\<lambda>r. \<not> (rbr_Reference r = trim_space (ex_Reference x) \<and>
        rbr_BindingKind r \<in> {''stable_subdomain'', ''stable_path''})) (xs_Bindings (wk_Store w2)))\<rparr>"
    using w2(1) k by (simp add: w2(4) d unbind_eq)
  have "is_active (ex_Reference x) active (wk_Store w')"
    using active is_active_cong[of "wk_Store w'" "wk_Store w2"] by (simp add: st)
  then show ?thesis by (auto simp: st filter_empty_conv)
qed


text \<open>Two executions of a reference: the first is active and has its stable route, the second is stopped.\<close>

definition new_launch :: "string \<Rightarrow> CreateRealizationExecutionInput" where
  "new_launch k =
     \<lparr>ce_ExecutionID = k, ce_Reference = ''s/x'', ce_SeedID = ''s'', ce_RealizationID = ''x'',
      ce_Backend = ''localprocess'', ce_Mode = [], ce_Status = ''healthy'', ce_RouteSubdomain = [],
      ce_RoutePathPrefix = [], ce_PreviewPathPrefix = [], ce_UpstreamAddr = [], ce_ExecutionPackageRef = [],
      ce_LaunchedByPrincipalID = [], ce_LaunchedBySessionID = [], ce_RequestID = [], ce_Metadata = [],
      ce_StartedAt = None\<rparr>"

definition two_launches :: ops_state where
  "two_launches =
     snd (ReplaceRealizationRouteBindings (\<lambda>n. decimal n) 4 ''e1''
       [\<lparr>rbi_BindingID = [], rbi_ExecutionID = ''e1'', rbi_SeedID = ''s'', rbi_Reference = ''s/x'',
         rbi_BindingKind = ''stable_subdomain'', rbi_Subdomain = ''x'', rbi_PathPrefix = [], rbi_UpstreamAddr = ''u'',
         rbi_Status = [], rbi_Metadata = []\<rparr>]
       (snd (ActivateRealization 3
         \<lparr>ain_SeedID = ''s'', ain_Reference = ''s/x'', ain_ExecutionID = ''e1'', ain_ActivatedByPrincipalID = [],
          ain_ActivatedBySessionID = [], ain_RequestID = [], ain_Metadata = []\<rparr>
         (snd (CreateRealizationExecution ''f'' 2 (new_launch ''e2'')
           (snd (CreateRealizationExecution ''f'' 1 (new_launch ''e1'') (no_operations True))))))))"

definition two_worker :: LocalWorker where
  "two_worker = (launch_worker True)\<lparr>wk_Store := two_launches\<rparr>"

definition stop_second :: "json Job" where
  "stop_second = launch_job\<lparr>job_Kind := executionStopKind, job_Payload := [''execution_id'' \<mapsto> JString ''e2'']\<rparr>"

lemma stop_second_values:
  "fst (handleStop launch_world stop_second two_worker) = None"
  "trim_space (payload_string (wo_Sprint launch_world) (job_Payload stop_second) ''execution_id'') = ''e2''"
  "map_sum id ex_Reference (GetRealizationExecution ''e2'' (wk_Store two_worker)) = Inr ''s/x''"
  "map_sum id act_ExecutionID (GetRealizationActivation ''s/x'' (wk_Store two_worker)) = Inr ''e1''"
  "map route (xs_Bindings (wk_Store two_worker)) = [(''stable_subdomain'', ''x'', [], ''u'')]"
  "trim_space ''s/x'' = ''s/x''"
  by code_simp+

theorem stop_unroutes_the_active_execution_witness:
  "map route (xs_Bindings (wk_Store two_worker)) = [(''stable_subdomain'', ''x'', [], ''u'')] \<and>
   (let w' = snd (handleStop launch_world stop_second two_worker)
    in is_active ''s/x'' ''e1'' (wk_Store w') \<and>
       filter (\<lambda>r. rbr_Reference r = ''s/x'' \<and> rbr_BindingKind r \<in> {''stable_subdomain'', ''stable_path''})
         (xs_Bindings (wk_Store w')) = [])"
proof -
  let ?w' = "snd (handleStop launch_world stop_second two_worker)"
  have h: "handleStop launch_world stop_second two_worker = (None, ?w')" using stop_second_values(1) by (simp add: prod_eq_iff)
  obtain x where x: "GetRealizationExecution ''e2'' (wk_Store two_worker) = Inr x" "ex_Reference x = ''s/x''"
    using stop_second_values(3) by (cases "GetRealizationExecution ''e2'' (wk_Store two_worker)") auto
  have "is_active (ex_Reference x) ''e1'' (wk_Store two_worker)" using stop_second_values(4) x(2) by (simp add: is_active_def)
  from stop_unroutes_the_active_execution[OF h x(1)[folded stop_second_values(2)] this] x(2) stop_second_values(2,5,6)
  show ?thesis by (simp add: Let_def)
qed

subsection \<open>A failed health check\<close>

text \<open>C30: a launch whose process does not become healthy leaves the execution failed, without a route, and the
  process killed, and it reports the failure.\<close>

theorem unhealthy_launch_is_cleaned_up:
  assumes "handleLaunch wo job w = (Some (WHealth e), w')"
    and "k = trim_space (payload_string (wo_Sprint wo) (job_Payload job) ''execution_id'')"
  shows "wo_Health wo = Some e \<and>
    map_sum id ex_Status (GetRealizationExecution k (wk_Store w')) = Inr ''failed'' \<and>
    filter (\<lambda>r. rbr_ExecutionID r = k) (xs_Bindings (wk_Store w')) = [] \<and> \<not> process_alive k w'"
proof -
  have k: "trim_space k = k" by (simp add: assms(2))
  obtain spec logPath w4 where a: "await_health wo k spec logPath w4 = (Some (WHealth e), w')"
    using assms by (auto simp: handleLaunch_def Let_def split: if_splits prod.splits sum.splits)
  have no_health: "fst (syncBindings wo n x spec v) \<noteq> Some (WHealth f)" for n x v f
    by (auto simp: syncBindings_def split: sum.splits prod.splits runtime_error.splits if_splits)
  have "fst (finish_launch wo k spec v) \<noteq> Some (WHealth f)" for v f
    using no_health by (auto simp: finish_launch_def Let_def split: sum.splits prod.splits option.splits) (metis fst_conv)
  then obtain w3 where h: "wo_Health wo = Some e" and
    w': "w' = on_store (DeleteRealizationRouteBindings k) (kill k (fail_launch wo 10 k ''health_failed'' e w3))" and
    g3: "\<exists>x. GetRealizationExecution k (wk_Store w3) = Inr x" "k \<noteq> []"
  proof -
    obtain x w1 where u: "update_exec wo 7 k (empty_update\<lparr>ue_Status := ''starting'', ue_UpstreamAddr := ls_UpstreamAddr spec,
             ue_PreviewPathPrefix := ls_PreviewPathPrefix spec,
             ue_Metadata := [(''log_file'', JString logPath), (''runtime_kind'', JString ''source_local'')]\<rparr>) w4 = (Inr x, w1)"
      using a by (auto simp: await_health_def announce_start_def health_result_def split: prod.splits sum.splits)
    then have "\<exists>x. GetRealizationExecution k (wk_Store w1) = Inr x" "k \<noteq> []"
      using k by (auto elim!: update_exec_Inr simp: GetRealizationExecution_def)
    moreover have "GetRealizationExecution k (wk_Store (record_event wo 9 k name2 d2 (record_event wo 8 k name1 d1 w1))) =
        GetRealizationExecution k (wk_Store w1)" for name1 d1 name2 d2
      by (rule lookups_cong(1)) simp_all
    ultimately show thesis
      using a u that \<open>\<And>v f. fst (finish_launch wo k spec v) \<noteq> Some (WHealth f)\<close>
      by (auto simp: await_health_def announce_start_def health_result_def health_failed_def Let_def split: option.splits) (metis fst_conv)
  qed
  then obtain x where x: "GetRealizationExecution k (wk_Store w3) = Inr x" by blast
  let ?u = "empty_update\<lparr>ue_Status := ''failed'', ue_StoppedAt := Some (wo_Now wo 10), ue_LastError := e\<rparr>"
  obtain x' w5 where u: "update_exec wo 10 k ?u w3 = (Inr x', w5)"
    using update_exec_stored[OF x k g3(2)] by blast
  then obtain r where r: "row_at xr_ExecutionID k (xs_Executions (wk_Store w5)) = Some (update_execution (wo_DB wo 10) ?u r)"
    "xs_Ready (wk_Store w3)" using k by (elim update_exec_Inr) auto
  let ?w6 = "kill k (record_event wo 11 k ''health_failed'' [(''error'', JString e)] w5)"
  have w6: "w' = on_store (DeleteRealizationRouteBindings k) ?w6" using u by (simp add: w' fail_launch_def)
  have ready: "xs_Ready (wk_Store ?w6)" using r(2) update_leaves[OF u] by simp
  have st: "wk_Store w' = (wk_Store ?w6)\<lparr>xs_Bindings := filter (\<lambda>r. rbr_ExecutionID r \<noteq> k) (xs_Bindings (wk_Store ?w6))\<rparr>"
    using ready k by (simp add: w6 unbind_eq)
  have "wk_Executor w' = wk_Executor ?w6" by (simp add: w6)
  then have "process_alive k w' = process_alive k ?w6" unfolding process_alive_def by (rule arg_cong)
  then have "\<not> process_alive k w'" using kill_kills[OF k] by simp
  moreover have "map_sum id ex_Status (GetRealizationExecution k (wk_Store w')) = Inr ''failed''"
    using r(1) ready k by (simp add: GetRealizationExecution_def st) (simp add: update_execution_def Let_def plain_eval)
  ultimately show ?thesis using h by (simp add: st filter_empty_conv)
qed


definition sick_world :: world where
  "sick_world = launch_world\<lparr>wo_Health := Some ''timeout''\<rparr>"

text \<open>The steps before the health check do not depend on its outcome.\<close>

lemma health_independent [simp]:
  "update_exec (wo\<lparr>wo_Health := h\<rparr>) n k i w = update_exec wo n k i w"
  "record_event (wo\<lparr>wo_Health := h\<rparr>) n k name d w = record_event wo n k name d w"
  by (simp_all add: update_exec_def record_event_def)

lemma sick_launch:
  assumes "handleLaunch wo job w = (None, w')"
  shows "fst (handleLaunch (wo\<lparr>wo_Health := Some e\<rparr>) job w) = Some (WHealth e)"
  using assms
  by (auto simp: handleLaunch_def await_health_def health_result_def Let_def
      split: prod.splits sum.splits if_splits option.splits)

theorem unhealthy_launch_is_cleaned_up_witness:
  "\<exists>w'. handleLaunch sick_world launch_job (launch_worker True) = (Some (WHealth ''timeout''), w') \<and>
     map_sum id ex_Status (GetRealizationExecution ''e1'' (wk_Store w')) = Inr ''failed'' \<and> \<not> process_alive ''e1'' w'"
proof -
  let ?w' = "snd (handleLaunch sick_world launch_job (launch_worker True))"
  have "handleLaunch launch_world launch_job (launch_worker True) =
      (None, snd (handleLaunch launch_world launch_job (launch_worker True)))"
    using launch_values(2) by (simp add: prod_eq_iff)
  from sick_launch[OF this, of "''timeout''"] have h: "handleLaunch sick_world launch_job (launch_worker True) =
      (Some (WHealth ''timeout''), ?w')"
    by (simp add: prod_eq_iff sick_world_def)
  have k: "''e1'' = trim_space (payload_string (wo_Sprint sick_world) (job_Payload launch_job) ''execution_id'')"
    using launch_values(1) by (simp add: sick_world_def)
  note c = unhealthy_launch_is_cleaned_up[OF h k]
  show ?thesis
    by (rule exI[of _ ?w'], rule conjI[OF h], rule conjI[OF c[THEN conjunct2, THEN conjunct1]])
      (rule c[THEN conjunct2, THEN conjunct2, THEN conjunct2])
qed

end
