(* ===== verification/Worker_Budgets.thy ===== *)
theory Worker_Budgets
  imports Worker_Properties Local_Properties
begin

text \<open>
  The enforcement of the budgets over time: the samples of one process are taken one after the other, and
  the process is terminated exactly when enough of them in a row are over a budget. What ends an execution by itself
  (its exit, a restart of the executor, a second launch) follows.
\<close>

subsection \<open>The samples of a process\<close>

text \<open>The loop of the ticks, seen by one process: an outcome of the sampling at a time.\<close>

fun watch :: "world \<Rightarrow> RunningProcess \<Rightarrow> (string + OSSample) list \<Rightarrow> LocalWorker \<Rightarrow> LocalWorker" where
  "watch wo p [] w = w"
| "watch wo p (s # ss) w = watch (shift_world 5 wo) p ss (snd (enforce_one wo (\<lambda>_ _. s) p w))"

text \<open>The breaches in a row after a list of samples; a failed sampling does not count.\<close>

fun breaches :: "ResourceBudgets \<Rightarrow> (string + OSSample) list \<Rightarrow> int \<Rightarrow> int" where
  "breaches b [] n = n"
| "breaches b (Inl e # ss) n = breaches b ss n"
| "breaches b (Inr s # ss) n = breaches b ss (if evaluateBudget b s = None then 0 else n + 1)"

definition limit_of :: "ResourceBudgets \<Rightarrow> int" where
  "limit_of b = maxInt (bu_ConsecutiveBreaches b) 1"

text \<open>No prefix of the samples reaches the limit.\<close>

fun within :: "ResourceBudgets \<Rightarrow> (string + OSSample) list \<Rightarrow> int \<Rightarrow> bool" where
  "within b [] n = True"
| "within b (Inl e # ss) n = within b ss n"
| "within b (Inr s # ss) n =
     (let m = (if evaluateBudget b s = None then 0 else n + 1) in m < limit_of b \<and> within b ss m)"

lemma limit_positive: "limit_of b \<ge> 1"
  by (simp add: limit_of_def maxInt_def)

text \<open>What the watching leaves alone as long as the limit is not reached.\<close>

definition untouched :: "LocalWorker \<Rightarrow> LocalWorker \<Rightarrow> bool" where
  "untouched w w' \<longleftrightarrow>
     wk_Executor w' = wk_Executor w \<and> wk_Budgets w' = wk_Budgets w \<and>
     xs_Ready (wk_Store w') = xs_Ready (wk_Store w) \<and>
     xs_Executions (wk_Store w') = xs_Executions (wk_Store w) \<and>
     xs_Activations (wk_Store w') = xs_Activations (wk_Store w) \<and>
     xs_Bindings (wk_Store w') = xs_Bindings (wk_Store w) \<and>
     os_Suspensions (wk_Store w') = os_Suspensions (wk_Store w)"

lemma sampled_leaves [simp]:
  "xs_Ready (snd (RecordProcessSample fresh now p st)) = xs_Ready st"
  "xs_Executions (snd (RecordProcessSample fresh now p st)) = xs_Executions st"
  "xs_Activations (snd (RecordProcessSample fresh now p st)) = xs_Activations st"
  "xs_Bindings (snd (RecordProcessSample fresh now p st)) = xs_Bindings st"
  "os_Suspensions (snd (RecordProcessSample fresh now p st)) = os_Suspensions st"
  by (auto simp: RecordProcessSample_def Let_def answer_def split: sum.split)

lemma get_execution_id: "GetRealizationExecution k st = Inr x \<Longrightarrow> ex_ExecutionID x = trim_space k"
  by (auto simp: GetRealizationExecution_def scanRealizationExecution_def dest: row_at_SomeD split: if_splits option.splits)

text \<open>One sample, for a process of a stored execution.\<close>

lemma enforce_failed:
  assumes "GetRealizationExecution (rpr_ExecutionID p) (wk_Store w) = Inr x"
  shows "untouched w (snd (enforce_one wo (\<lambda>_ _. Inl e) p w))"
    "wk_BreachCounts (snd (enforce_one wo (\<lambda>_ _. Inl e) p w)) = wk_BreachCounts w"
  using assms by (simp_all add: enforce_one_def untouched_def Let_def)

lemma enforce_fine:
  assumes "GetRealizationExecution (rpr_ExecutionID p) (wk_Store w) = Inr x"
    and "evaluateBudget (wk_Budgets w) s = None"
  shows "untouched w (snd (enforce_one wo (\<lambda>_ _. Inr s) p w))"
    "wk_BreachCounts (snd (enforce_one wo (\<lambda>_ _. Inr s) p w)) = (wk_BreachCounts w)(trim_space (rpr_ExecutionID p) := 0)"
  using assms get_execution_id[OF assms(1)]
  by (simp_all add: enforce_one_def untouched_def Let_def) (simp add: forget_breaches_def)

lemma enforce_breach:
  assumes "GetRealizationExecution (rpr_ExecutionID p) (wk_Store w) = Inr x"
    and "evaluateBudget (wk_Budgets w) s \<noteq> None"
    and "wk_BreachCounts w (trim_space (rpr_ExecutionID p)) + 1 < limit_of (wk_Budgets w)"
  shows "untouched w (snd (enforce_one wo (\<lambda>_ _. Inr s) p w))"
    "wk_BreachCounts (snd (enforce_one wo (\<lambda>_ _. Inr s) p w)) =
       (wk_BreachCounts w)(trim_space (rpr_ExecutionID p) := wk_BreachCounts w (trim_space (rpr_ExecutionID p)) + 1)"
  using assms get_execution_id[OF assms(1)]
  by (auto simp: enforce_one_def untouched_def Let_def limit_of_def split: option.splits)

lemma untouched_refl [simp]: "untouched w w"
  by (simp add: untouched_def)

lemma untouched_trans: "untouched w w1 \<Longrightarrow> untouched w1 w2 \<Longrightarrow> untouched w w2"
  by (simp add: untouched_def)

lemma untouched_get: "untouched w w' \<Longrightarrow> GetRealizationExecution k (wk_Store w') = GetRealizationExecution k (wk_Store w)"
  by (rule lookups_cong(1)) (simp_all add: untouched_def)

lemma watch_within:
  assumes "GetRealizationExecution (rpr_ExecutionID p) (wk_Store w) = Inr x"
    and "within (wk_Budgets w) ss (wk_BreachCounts w (trim_space (rpr_ExecutionID p)))"
  shows "untouched w (watch wo p ss w) \<and>
    wk_BreachCounts (watch wo p ss w) (trim_space (rpr_ExecutionID p)) =
      breaches (wk_Budgets w) ss (wk_BreachCounts w (trim_space (rpr_ExecutionID p)))"
  using assms
proof (induction ss arbitrary: wo w)
  case (Cons s ss)
  let ?k = "trim_space (rpr_ExecutionID p)" and ?w1 = "snd (enforce_one wo (\<lambda>_ _. s) p w)"
  have step: "untouched w ?w1 \<and> within (wk_Budgets w) ss (wk_BreachCounts ?w1 ?k) \<and>
      breaches (wk_Budgets w) ss (wk_BreachCounts ?w1 ?k) = breaches (wk_Budgets w) (s # ss) (wk_BreachCounts w ?k)"
  proof (cases s)
    case (Inl e)
    with Cons.prems enforce_failed[OF Cons.prems(1), of wo e] show ?thesis by simp
  next
    case (Inr s')
    show ?thesis
    proof (cases "evaluateBudget (wk_Budgets w) s'")
      case None
      with Inr Cons.prems enforce_fine[OF Cons.prems(1) None, of wo] show ?thesis by simp
    next
      case (Some v)
      with Inr Cons.prems enforce_breach[OF Cons.prems(1), of s' wo] show ?thesis by (simp add: Let_def)
    qed
  qed
  then have "wk_Budgets ?w1 = wk_Budgets w" by (simp add: untouched_def)
  with step Cons.prems(1) Cons.IH[of ?w1 "shift_world 5 wo"] show ?case
    by (auto simp: untouched_get intro: untouched_trans)
qed simp

subsection \<open>The termination\<close>

definition gone :: "string \<Rightarrow> string \<Rightarrow> LocalWorker \<Rightarrow> bool" where
  "gone k status w \<longleftrightarrow>
     (\<exists>x. GetRealizationExecution k (wk_Store w) = Inr x \<and> ex_Status x = status \<and>
        \<not> is_active (ex_Reference x) k (wk_Store w)) \<and>
     filter (\<lambda>r. rbr_ExecutionID r = k) (xs_Bindings (wk_Store w)) = [] \<and> \<not> process_alive k w"

lemma suspend_leaves [simp]:
  "xs_Ready (wk_Store (suspend wo n i w)) = xs_Ready (wk_Store w)"
  "xs_Executions (wk_Store (suspend wo n i w)) = xs_Executions (wk_Store w)"
  "xs_Activations (wk_Store (suspend wo n i w)) = xs_Activations (wk_Store w)"
  "xs_Bindings (wk_Store (suspend wo n i w)) = xs_Bindings (wk_Store w)"
  "wk_Executor (suspend wo n i w) = wk_Executor w"
  "wk_Budgets (suspend wo n i w) = wk_Budgets w"
  by (auto simp: suspend_def UpsertRealizationSuspension_def split: sum.split option.split)

lemma terminate_ends:
  assumes "GetRealizationExecution k (wk_Store w) = Inr x" "trim_space k = k" "k \<noteq> []"
  shows "gone k ''terminated'' (snd (terminateExecution wo x code text md w))"
    "fst (terminateExecution wo x code text md w) = None"
proof -
  let ?u = "empty_update\<lparr>ue_Status := ''terminated'', ue_StoppedAt := Some (wo_Now wo 2),
                ue_LastError := text, ue_Metadata := [(''termination_reason_code'', JString code)]\<rparr>"
  have id: "ex_ExecutionID x = k" using get_execution_id[OF assms(1)] assms(2) by simp
  have "GetRealizationExecution k (wk_Store (kill k w)) = Inr x" using assms(1) by simp
  then obtain x' w2 where u: "update_exec wo 2 k ?u (kill k w) = (Inr x', w2)"
    using update_exec_stored assms(2,3) by blast
  then obtain r where r: "row_at xr_ExecutionID k (xs_Executions (wk_Store w)) = Some r" "xs_Ready (wk_Store w)"
    "row_at xr_ExecutionID k (xs_Executions (wk_Store w2)) = Some (update_execution (wo_DB wo 2) ?u r)"
    using assms(2) by (elim update_exec_Inr) auto
  let ?r = "update_execution (wo_DB wo 2) ?u r"
  have ref: "ex_Reference (scanRealizationExecution ?r) = ex_Reference x"
    using assms(1,2) r(1,2) by (auto simp: GetRealizationExecution_def update_execution_def Let_def)
  obtain w4 where w4: "xs_Executions (wk_Store w4) = xs_Executions (wk_Store w2)" "xs_Ready (wk_Store w4)"
    "wk_Executor w4 = wk_Executor (kill k w)" and
    t: "terminateExecution wo x code text md w =
      (None, forget_breaches k (on_store (DeleteRealizationRouteBindings k) (deactivate (ex_Reference x) k True w4)))"
  proof -
    show thesis
      by (rule that[of "suspend wo 4 (suspend_input (wk_Budgets (record_event wo 3 k ''budget_terminated''
            [(''details'', JObject md), (''message'', JString text), (''reason_code'', JString code)] w2)) x code text md)
          (record_event wo 3 k ''budget_terminated''
            [(''details'', JObject md), (''message'', JString text), (''reason_code'', JString code)] w2)"])
        (use update_leaves[OF u] u r(2) id in \<open>simp_all add: terminateExecution_def Let_def\<close>)
  qed
  let ?w' = "snd (terminateExecution wo x code text md w)"
  have st: "wk_Store ?w' = (wk_Store (deactivate (ex_Reference x) k True w4))\<lparr>xs_Bindings :=
      filter (\<lambda>r. rbr_ExecutionID r \<noteq> k) (xs_Bindings (wk_Store (deactivate (ex_Reference x) k True w4)))\<rparr>"
    using w4(2) assms(2) by (simp add: t unbind_eq)
  have "GetRealizationExecution k (wk_Store ?w') = Inr (scanRealizationExecution ?r)"
    using w4(1,2) r(3) assms(2) by (simp add: st GetRealizationExecution_def)
  moreover have "ex_Status (scanRealizationExecution ?r) = ''terminated''"
    by (simp add: update_execution_def Let_def plain_eval)
  moreover have "wk_Executor ?w' = wk_Executor (kill k w)" using w4(3) by (simp add: t)
  then have "process_alive k ?w' = process_alive k (kill k w)" unfolding process_alive_def by (rule arg_cong)
  moreover have "is_active (ex_Reference x) k (wk_Store ?w') =
      is_active (ex_Reference x) k (wk_Store (deactivate (ex_Reference x) k True w4))"
    by (rule is_active_cong) (simp_all add: st)
  ultimately show "gone k ''terminated'' ?w'"
    using kill_kills[OF assms(2), of w] deactivated[OF w4(2), of "ex_Reference x" k True] ref
    by (simp add: gone_def st filter_empty_conv)
  show "fst (terminateExecution wo x code text md w) = None" by (simp add: t)
qed

lemma shift_shift: "shift_world d (shift_world e wo) = shift_world (e + d) wo"
  by (simp add: shift_world_def ac_simps)

lemma watch_append: "watch wo p (ss @ [s]) w =
    snd (enforce_one (shift_world (5 * length ss) wo) (\<lambda>_ _. s) p (watch wo p ss w))"
  by (induction ss arbitrary: wo w) (simp add: shift_world_def, simp add: shift_shift)

text \<open>C32: the process of an execution is terminated for its budget exactly at the sample that completes enough
  breaches in a row: before it nothing of the execution, its routes, its activation or its process changes, and with
  it the execution is terminated, its process dead, its routes and its activation gone.\<close>

theorem terminated_at_the_last_breach:
  assumes "GetRealizationExecution k (wk_Store w) = Inr x" "trim_space k = k" "k \<noteq> []" "rpr_ExecutionID p = k"
    and "wk_BreachCounts w k = 0" "within (wk_Budgets w) ss 0"
    and "evaluateBudget (wk_Budgets w) s = Some (code, text, md)"
    and "breaches (wk_Budgets w) ss 0 + 1 = limit_of (wk_Budgets w)"
  shows "untouched w (watch wo p ss w) \<and> gone k ''terminated'' (watch wo p (ss @ [Inr s]) w)"
proof -
  let ?w = "watch wo p ss w"
  have u: "untouched w ?w" and n: "wk_BreachCounts ?w k = breaches (wk_Budgets w) ss 0"
    using watch_within[of p w x ss wo] assms by simp_all
  have g: "GetRealizationExecution k (wk_Store ?w) = Inr x" using u assms(1) by (simp add: untouched_get)
  have bu: "wk_Budgets ?w = wk_Budgets w" using u by (simp add: untouched_def)
  have id: "ex_ExecutionID x = k" using get_execution_id[OF assms(1)] assms(2) by simp
  let ?wo = "shift_world (5 * length ss) wo"
  let ?w1 = "on_store (RecordProcessSample (wo_ID ?wo 1) (wo_Now ?wo 1) (sample_input x p s)) ?w"
  let ?w2 = "?w1\<lparr>wk_BreachCounts := (wk_BreachCounts ?w1)(k := wk_BreachCounts ?w1 k + 1)\<rparr>"
  have "watch wo p (ss @ [Inr s]) w = snd (terminateExecution ?wo x code text md ?w2)"
    unfolding watch_append
    using g assms(4,7,8) bu n id by (simp add: enforce_one_def Let_def limit_of_def)
  moreover have "GetRealizationExecution k (wk_Store ?w2) = Inr x"
    using g lookups_cong(1)[of "wk_Store ?w2" "wk_Store ?w" k] by simp
  ultimately show ?thesis using u terminate_ends(1)[of k ?w2 x] assms(2,3) by simp
qed

definition budget_worker :: LocalWorker where
  "budget_worker =
     (NewLocalWorker ''/r''
       (Some (snd (CreateRealizationExecution ''f'' 1
          \<lparr>ce_ExecutionID = ''e1'', ce_Reference = ''s/x'', ce_SeedID = ''s'', ce_RealizationID = ''x'',
           ce_Backend = ''localprocess'', ce_Mode = [], ce_Status = ''healthy'', ce_RouteSubdomain = [],
           ce_RoutePathPrefix = [], ce_PreviewPathPrefix = [], ce_UpstreamAddr = [], ce_ExecutionPackageRef = [],
           ce_LaunchedByPrincipalID = [], ce_LaunchedBySessionID = [], ce_RequestID = [], ce_Metadata = [],
           ce_StartedAt = None\<rparr> (no_operations True))))
       \<lparr>js_Ready = True, js_Jobs = [], js_Notified = []\<rparr>
       \<lparr>cu_RegistryBaseURL = [], cu_PublicAPIBaseURL = [], cu_InternalAPIBaseURL = [], cu_RuntimeDatabaseURL = []\<rparr>
       [] True (no_operations False))
     \<lparr>wk_Executor := \<lparr>lx_Processes = [''e1'' \<mapsto> \<lparr>rpr_ExecutionID = ''e1'', rpr_PID = 9, rpr_LogFile = ''l''\<rparr>], lx_Alive = {9}\<rparr>\<rparr>"

definition quiet_world :: world where
  "quiet_world =
     \<lparr>wo_ID = (\<lambda>_. []), wo_Now = int, wo_DB = int, wo_Say = (\<lambda>_. []), wo_Sprint = (\<lambda>_. []),
      wo_Machine = run_machine, wo_Launch = Inl [], wo_Health = None\<rparr>"

definition budget_sample :: "int \<Rightarrow> OSSample" where
  "budget_sample fds =
     \<lparr>sm_CPUPercent = 2500, sm_RSSBytes = 0, sm_VirtualBytes = 0, sm_OpenFDs = fds, sm_LogBytes = 0, sm_ObservedAt = 1\<rparr>"

definition budget_samples :: "(string + OSSample) list" where
  "budget_samples =
     [Inr (budget_sample 300), Inr (budget_sample 256), Inr (budget_sample 257), Inl ''gone'', Inr (budget_sample 257)]"

lemma budget_values:
  "map_sum id ex_ExecutionID (GetRealizationExecution ''e1'' (wk_Store budget_worker)) = Inr ''e1''"
  "map_sum id ex_Status (GetRealizationExecution ''e1'' (wk_Store budget_worker)) = Inr ''healthy''"
  "trim_space ''e1'' = ''e1''" "wk_BreachCounts budget_worker ''e1'' = 0"
  "within (wk_Budgets budget_worker) budget_samples 0"
  "map_option fst (evaluateBudget (wk_Budgets budget_worker) (budget_sample 300)) = Some ''fd_budget_exceeded''"
  "breaches (wk_Budgets budget_worker) budget_samples 0 + 1 = limit_of (wk_Budgets budget_worker)"
  "process_alive ''e1'' budget_worker" "wk_HasRuntime budget_worker"
  by code_simp+

theorem terminated_at_the_last_breach_witness:
  "process_alive ''e1'' (watch quiet_world \<lparr>rpr_ExecutionID = ''e1'', rpr_PID = 9, rpr_LogFile = ''l''\<rparr> budget_samples budget_worker) \<and>
   gone ''e1'' ''terminated'' (watch quiet_world \<lparr>rpr_ExecutionID = ''e1'', rpr_PID = 9, rpr_LogFile = ''l''\<rparr>
     (budget_samples @ [Inr (budget_sample 300)]) budget_worker)" (is "process_alive ''e1'' (watch quiet_world ?p _ _) \<and> _")
proof -
  obtain x where x: "GetRealizationExecution ''e1'' (wk_Store budget_worker) = Inr x"
    using budget_values(1) by (cases "GetRealizationExecution ''e1'' (wk_Store budget_worker)") auto
  obtain msg md where b: "evaluateBudget (wk_Budgets budget_worker) (budget_sample 300) = Some (''fd_budget_exceeded'', msg, md)"
    using budget_values(6) by auto
  have "untouched budget_worker (watch quiet_world ?p budget_samples budget_worker) \<and>
      gone ''e1'' ''terminated'' (watch quiet_world ?p (budget_samples @ [Inr (budget_sample 300)]) budget_worker)"
    by (rule terminated_at_the_last_breach[OF x budget_values(3) _ _ budget_values(4,5) b budget_values(7)]) simp_all
  moreover from this have "wk_Executor (watch quiet_world ?p budget_samples budget_worker) = wk_Executor budget_worker"
    by (simp add: untouched_def)
  then have "process_alive ''e1'' (watch quiet_world ?p budget_samples budget_worker) = process_alive ''e1'' budget_worker"
    unfolding process_alive_def by (rule arg_cong)
  ultimately show ?thesis using budget_values(8) by simp
qed

subsection \<open>Exits and restarts\<close>

lemma exit_ends:
  assumes "GetRealizationExecution k (wk_Store w) = Inr x" "trim_space k = k" "k \<noteq> []" "wk_HasRuntime w"
    and "ex_Status x \<notin> {''stopped'', ''failed'', ''terminated''}"
  shows "gone k ''terminated'' (process_ends wo k pid failure w)"
    "wk_Executor (process_ends wo k pid failure w) = process_exit k pid (wk_Executor w)"
proof -
  let ?w0 = "w\<lparr>wk_Executor := process_exit k pid (wk_Executor w)\<rparr>"
  define raw where "raw = (case failure of None \<Rightarrow> [] | Some e \<Rightarrow> e)"
  define msg where "msg = firstNonEmpty [raw, ''The realization process exited unexpectedly.'']"
  let ?u = "empty_update\<lparr>ue_Status := ''terminated'', ue_StoppedAt := Some (wo_Now wo 0), ue_LastError := msg\<rparr>"
  have "GetRealizationExecution k (wk_Store ?w0) = Inr x" using assms(1) by simp
  then obtain x' w1 where u: "update_exec wo 0 k ?u ?w0 = (Inr x', w1)"
    using update_exec_stored assms(2,3) by blast
  then obtain r where r: "row_at xr_ExecutionID k (xs_Executions (wk_Store w)) = Some r" "xs_Ready (wk_Store w)"
    "row_at xr_ExecutionID k (xs_Executions (wk_Store w1)) = Some (update_execution (wo_DB wo 0) ?u r)"
    using assms(2) by (elim update_exec_Inr) auto
  let ?r = "update_execution (wo_DB wo 0) ?u r"
  have ref: "ex_Reference (scanRealizationExecution ?r) = ex_Reference x"
    using assms(1,2) r(1,2) by (auto simp: GetRealizationExecution_def update_execution_def Let_def)
  let ?w2 = "record_event wo 1 k ''process_exited'' [(''error'', JString raw)] w1"
  let ?w4 = "deactivate (ex_Reference x) k True (on_store (DeleteRealizationRouteBindings k) ?w2)"
  obtain i where e: "process_ends wo k pid failure w = forget_breaches k (suspend wo 2 i ?w4)"
  proof -
    have "handleProcessExit wo k failure ?w0 = forget_breaches k (suspend wo 2 (suspend_input (wk_Budgets ?w4) x
        ''unexpected_process_exit'' msg [(''execution_status'', JString (ex_Status x))]) ?w4)"
      using assms u by (simp add: handleProcessExit_def raw_def[symmetric] msg_def[symmetric] Let_def del: firstNonEmpty.simps)
    then show thesis using that unfolding process_ends_def by blast
  qed
  have ready: "xs_Ready (wk_Store (on_store (DeleteRealizationRouteBindings k) ?w2))"
    using r(2) update_leaves[OF u] by (simp add: unbind_eq)
  have rows: "xs_Executions (wk_Store ?w4) = xs_Executions (wk_Store w1)" "xs_Ready (wk_Store ?w4)"
    using r(2) update_leaves[OF u] by (simp_all add: unbind_eq)
  have "set (xs_Bindings (wk_Store ?w4)) \<subseteq> set (xs_Bindings (wk_Store (on_store (DeleteRealizationRouteBindings k) ?w2)))"
    by (auto simp: deactivate_def Let_def DeleteRealizationActivation_def DeleteStableRouteBindingsForReference_def
        split: sum.splits if_splits)
  then have "filter (\<lambda>r. rbr_ExecutionID r = k) (xs_Bindings (wk_Store ?w4)) = []"
    using r(2) update_leaves[OF u] assms(2) by (auto simp: unbind_eq filter_empty_conv)
  moreover have "GetRealizationExecution k (wk_Store ?w4) = Inr (scanRealizationExecution ?r)"
    using rows r(3) assms(2) by (simp add: GetRealizationExecution_def)
  then have "GetRealizationExecution k (wk_Store (suspend wo 2 i ?w4)) = Inr (scanRealizationExecution ?r)"
    using lookups_cong(1)[of "wk_Store (suspend wo 2 i ?w4)" "wk_Store ?w4" k] by simp
  moreover have "ex_Status (scanRealizationExecution ?r) = ''terminated''"
    by (simp add: update_execution_def Let_def plain_eval)
  moreover have "\<not> is_active (ex_Reference x) k (wk_Store (suspend wo 2 i ?w4))"
    using deactivated[OF ready, of "ex_Reference x" k True]
      is_active_cong[of "wk_Store (suspend wo 2 i ?w4)" "wk_Store ?w4"] by simp
  moreover show x: "wk_Executor (process_ends wo k pid failure w) = process_exit k pid (wk_Executor w)"
    using update_leaves[OF u] by (simp add: e)
  then have "\<not> process_alive k (process_ends wo k pid failure w)"
    by (simp add: process_alive_def process_exit_def)
  ultimately show "gone k ''terminated'' (process_ends wo k pid failure w)"
    using ref by (simp add: gone_def e)
qed

text \<open>When a process ends by itself, its execution is terminated and loses its routes and its activation,
  whoever the process was: if the execution was launched a second time in the meantime, the process of the
  second launch goes on running, but no entry of the table leads to it any more and no stop finds it.\<close>

theorem late_exit_orphans_the_second_process:
  assumes "GetRealizationExecution k (wk_Store w) = Inr x" "trim_space k = k" "k \<noteq> []" "wk_HasRuntime w"
    and "ex_Status x \<notin> {''stopped'', ''failed'', ''terminated''}"
    and "lx_Processes (wk_Executor w) k = Some p" "rpr_PID p \<in> lx_Alive (wk_Executor w)" "rpr_PID p \<noteq> pid"
  shows "gone k ''terminated'' (process_ends wo k pid failure w) \<and>
    rpr_PID p \<in> lx_Alive (wk_Executor (process_ends wo k pid failure w)) \<and>
    Stop k (wk_Executor (process_ends wo k pid failure w)) = (False, wk_Executor (process_ends wo k pid failure w)) \<and>
    RunningProcesses order (wk_Executor (process_ends wo k pid failure w)) =
      RunningProcesses (filter (\<lambda>j. j \<noteq> k) order) (wk_Executor w)"
proof -
  note e = exit_ends[OF assms(1-5), of wo pid failure]
  have "RunningProcesses order (process_exit k pid (wk_Executor w)) =
      RunningProcesses (filter (\<lambda>j. j \<noteq> k) order) (wk_Executor w)"
    by (induction order) (auto simp: RunningProcesses_def process_exit_def List.map_filter_def)
  with e assms show ?thesis by (auto simp: process_exit_def Stop_def)
qed


theorem late_exit_orphans_the_second_process_witness:
  "process_alive ''e1'' budget_worker \<and>
   gone ''e1'' ''terminated'' (process_ends quiet_world ''e1'' 4 None budget_worker) \<and>
   9 \<in> lx_Alive (wk_Executor (process_ends quiet_world ''e1'' 4 None budget_worker)) \<and>
   RunningProcesses [''e1''] (wk_Executor (process_ends quiet_world ''e1'' 4 None budget_worker)) = []"
proof -
  obtain x where x: "GetRealizationExecution ''e1'' (wk_Store budget_worker) = Inr x" "ex_Status x = ''healthy''"
    using budget_values(2) by (cases "GetRealizationExecution ''e1'' (wk_Store budget_worker)") auto
  have p: "lx_Processes (wk_Executor budget_worker) ''e1'' = Some \<lparr>rpr_ExecutionID = ''e1'', rpr_PID = 9, rpr_LogFile = ''l''\<rparr>"
    "9 \<in> lx_Alive (wk_Executor budget_worker)"
    by (simp_all add: budget_worker_def)
  from late_exit_orphans_the_second_process[OF x(1) budget_values(3) _ budget_values(9) _ p(1), of 4 quiet_world None "[''e1'']"] p x(2)
    budget_values(8)
  show ?thesis by (simp add: RunningProcesses_def List.map_filter_def)
qed

text \<open>After the restart of the executor no execution of the local backend is running in the store, none of
  them has a route or is active, and no job of its queue is running; a job that was is pending again with the
  attempts it had.\<close>

theorem restart_leaves_nothing_running:
  assumes "ReconcileStartup wo w = (None, w')"
  shows "filter (\<lambda>r. xr_Backend r = LocalBackendName \<and> running r) (xs_Executions (wk_Store w')) = [] \<and>
    xr_ExecutionID ` {r \<in> set (xs_Executions (wk_Store w')). xr_Backend r = LocalBackendName} \<inter>
      (rbr_ExecutionID ` set (xs_Bindings (wk_Store w')) \<union>
       (\<Union>a\<in>set (xs_Activations (wk_Store w')). set_option (actr_ExecutionID a))) = {} \<and>
    filter (\<lambda>r. jr_Queue r = executionQueueName \<and> jr_Status r = ''running'') (js_Jobs (wk_Jobs w')) = [] \<and>
    map (\<lambda>r. (jr_JobID r, jr_Attempts r)) (js_Jobs (wk_Jobs w')) = map (\<lambda>r. (jr_JobID r, jr_Attempts r)) (js_Jobs (wk_Jobs w))"
proof -
  obtain st jobs where r: "ResetBackendExecutions (wo_DB wo 0) LocalBackendName ''local executor restarted'' (wk_Store w) = (None, st)"
    and j: "ResetRunningJobs executionQueueName ''local executor restarted before job completion'' (wk_Jobs w) = (None, jobs)"
    and w': "w' = w\<lparr>wk_Store := st, wk_Jobs := jobs\<rparr>"
    using assms by (auto simp: ReconcileStartup_def split: if_splits prod.splits option.splits)
  have b: "trim_space LocalBackendName = LocalBackendName" by code_simp
  have q: "trim_space executionQueueName = executionQueueName" by code_simp
  let ?p = "\<lambda>r. xr_Backend r = LocalBackendName \<and> running r"
  have st: "xs_Executions st = update_rows ?p (stop_execution (wo_DB wo 0) ''local executor restarted'') (xs_Executions (wk_Store w))"
    "xs_Bindings st = filter (\<lambda>r. \<not> of_backend LocalBackendName (wk_Store w) (rbr_ExecutionID r)) (xs_Bindings (wk_Store w))"
    "xs_Activations st = filter (\<lambda>r. case actr_ExecutionID r of None \<Rightarrow> True
       | Some k \<Rightarrow> \<not> of_backend LocalBackendName (wk_Store w) k) (xs_Activations (wk_Store w))"
    using r b by (auto simp: ResetBackendExecutions_def Let_def split: if_splits)
  have stopped: "\<not> running (stop_execution t reason r)" "xr_Backend (stop_execution t reason r) = xr_Backend r" for t reason r
    by (simp_all add: running_def stop_execution_def)
  have ids: "of_backend LocalBackendName (wk_Store w) (xr_ExecutionID r)"
    if "r \<in> set (xs_Executions st)" "xr_Backend r = LocalBackendName" for r
    using that stopped by (auto simp: st(1) in_update_rows of_backend_def split: if_splits)
  have jobs: "js_Jobs jobs = update_rows (\<lambda>r. jr_Queue r = executionQueueName \<and> jr_Status r = ''running'')
      (reset_job (trim_space ''local executor restarted before job completion'')) (js_Jobs (wk_Jobs w))"
    using j q by (auto simp: ResetRunningJobs_def split: if_splits)
  have reset: "jr_Status (reset_job t r) = ''pending''" "jr_JobID (reset_job t r) = jr_JobID r"
    "jr_Attempts (reset_job t r) = jr_Attempts r" for t and r :: "json job_row"
    by (simp_all add: reset_job_def)
  have "filter ?p (xs_Executions st) = []" using stopped by (auto simp: st(1) in_update_rows filter_empty_conv split: if_splits) (metis stopped(1))
  moreover have "xr_ExecutionID ` {r \<in> set (xs_Executions st). xr_Backend r = LocalBackendName} \<inter>
      (rbr_ExecutionID ` set (xs_Bindings st) \<union> (\<Union>a\<in>set (xs_Activations st). set_option (actr_ExecutionID a))) = {}"
    using ids by (fastforce simp: st(2,3) split: option.splits)
  moreover have "filter (\<lambda>r. jr_Queue r = executionQueueName \<and> jr_Status r = ''running'') (js_Jobs jobs) = []"
    proof -
    have "jr_Status (reset_job t r) \<noteq> ''running''" for t and r :: "json job_row" by (simp add: reset(1))
    then show ?thesis by (auto simp: jobs in_update_rows filter_empty_conv split: if_splits) metis
  qed
  moreover have "map (\<lambda>r. (jr_JobID r, jr_Attempts r)) (js_Jobs jobs) = map (\<lambda>r. (jr_JobID r, jr_Attempts r)) (js_Jobs (wk_Jobs w))"
    unfolding jobs by (rule keys_update_rows) (simp add: reset)
  ultimately show ?thesis by (simp add: w')
qed

definition restarted_jobs :: "json job_state" where
  "restarted_jobs =
     \<lparr>js_Ready = True,
      js_Jobs = [\<lparr>jr_JobID = ''j'', jr_Queue = executionQueueName, jr_Kind = executionStopKind, jr_DedupeKey = None,
        jr_Status = ''running'', jr_Priority = 100, jr_RunAt = 1, jr_LockedAt = Some 2, jr_LockedBy = Some ''w'',
        jr_Attempts = 2, jr_MaxAttempts = 10, jr_Payload = Map.empty, jr_LastError = None, jr_CreatedAt = 1,
        jr_FinishedAt = None\<rparr>], js_Notified = []\<rparr>"

lemma restart_values:
  "fst (ReconcileStartup quiet_world (budget_worker\<lparr>wk_Jobs := restarted_jobs\<rparr>)) = None"
  "map (\<lambda>r. (xr_Backend r, running r)) (xs_Executions (wk_Store budget_worker)) = [(LocalBackendName, True)]"
  by code_simp+

theorem restart_leaves_nothing_running_witness:
  "map (\<lambda>r. (xr_Backend r, running r)) (xs_Executions (wk_Store budget_worker)) = [(LocalBackendName, True)] \<and>
   (\<exists>w'. ReconcileStartup quiet_world (budget_worker\<lparr>wk_Jobs := restarted_jobs\<rparr>) = (None, w') \<and>
      filter (\<lambda>r. xr_Backend r = LocalBackendName \<and> running r) (xs_Executions (wk_Store w')) = [] \<and>
      map (\<lambda>r. (jr_JobID r, jr_Attempts r)) (js_Jobs (wk_Jobs w')) = [(''j'', 2)])"
proof -
  let ?r = "ReconcileStartup quiet_world (budget_worker\<lparr>wk_Jobs := restarted_jobs\<rparr>)"
  have "?r = (None, snd ?r)" using restart_values(1) by (simp add: prod_eq_iff)
  from restart_leaves_nothing_running[OF this] this restart_values(2) show ?thesis
    by (intro conjI exI[of _ "snd ?r"]) (simp_all add: restarted_jobs_def)
qed

subsection \<open>Suspensions and launches\<close>

text \<open>C33: a suspended realization stays suspended until one of its launches passes the health check or somebody else
  lifts the suspension: in any order of ticks whose launches fail their health check, of exits and logs of processes,
  of builds, of restarts of the worker, and of anything else that is done to the store and the queue, the look-up of
  the reference finds a suspension with the same identifier.\<close>

theorem suspension_outlives_unhealthy_launches:
  assumes "reachable (ops_step {}) (no_operations True) (wk_Store w)"
    and "GetActiveRealizationSuspension ref (wk_Store w) = Inr s" "trim_space ref = ref"
    and "(unhealthy_step {ref})\<^sup>*\<^sup>* w w'"
  shows "\<exists>s'. GetActiveRealizationSuspension ref (wk_Store w') = Inr s' \<and>
    su_SuspensionID s' = su_SuspensionID s \<and> su_Reference s' = ref"
proof -
  have run: "(ops_step {ref})\<^sup>*\<^sup>* (wk_Store w) (wk_Store w')"
    using unhealthy_steps_act[OF assms(4)] by (simp add: acts_def)
  obtain r where r: "r \<in> set (os_Suspensions (wk_Store w))" "suspended r" "sur_Reference r = ref" "s = scanRealizationSuspension r"
    and ready: "xs_Ready (wk_Store w)" using active_suspension_row[OF assms(2)] assms(3) by auto
  then have "suspended_as ref (su_SuspensionID s) (os_Suspensions (wk_Store w))"
    by (auto simp: suspended_as_def scanRealizationSuspension_def)
  with run ready have h: "suspended_as ref (su_SuspensionID s) (os_Suspensions (wk_Store w'))" "xs_Ready (wk_Store w')"
    using holds_until_cleared by blast+
  then obtain x where x: "x \<in> set (os_Suspensions (wk_Store w'))" "suspended x" "sur_Reference x = ref"
    "sur_SuspensionID x = su_SuspensionID s" by (auto simp: suspended_as_def)
  have "suspensions_ok (os_Suspensions (wk_Store w'))"
    using suspensions.holds_later[OF run] suspensions.holds[OF assms(1)] by blast
  from active_suspension[OF this h(2) x(1,2)] x assms(3) show ?thesis
    by (auto simp: scanRealizationSuspension_def)
qed

definition crashed_worker :: LocalWorker where
  "crashed_worker = process_ends quiet_world ''e1'' 9 (Some ''boom'') budget_worker"

lemma crashed_values:
  "map_sum id (\<lambda>s. (su_ExecutionID s, su_ReasonCode s)) (GetActiveRealizationSuspension ''s/x'' (wk_Store crashed_worker)) =
     Inr (''e1'', ''unexpected_process_exit'')"
  by code_simp

theorem suspension_outlives_unhealthy_launches_witness:
  "\<exists>s s'. GetActiveRealizationSuspension ''s/x'' (wk_Store crashed_worker) = Inr s \<and>
     su_ReasonCode s = ''unexpected_process_exit'' \<and>
     GetActiveRealizationSuspension ''s/x''
       (wk_Store (snd (Tick (quiet_world\<lparr>wo_Health := Some ''timeout''\<rparr>) {} [] (\<lambda>_ _. Inl ''gone'') crashed_worker))) = Inr s' \<and>
     su_SuspensionID s' = su_SuspensionID s"
proof -
  obtain s where s: "GetActiveRealizationSuspension ''s/x'' (wk_Store crashed_worker) = Inr s"
    "su_ReasonCode s = ''unexpected_process_exit''"
    using crashed_values by (cases "GetActiveRealizationSuspension ''s/x'' (wk_Store crashed_worker)") auto
  have "reachable (ops_step {}) (no_operations True) (wk_Store budget_worker)"
    unfolding budget_worker_def NewLocalWorker_def by (simp, rule reach_step[OF reach_start], rule store_create)
  moreover have "acts {} budget_worker crashed_worker"
    unfolding crashed_worker_def by (rule unhealthy_step_acts, rule work_exit)
  ultimately have reach: "reachable (ops_step {}) (no_operations True) (wk_Store crashed_worker)"
    unfolding acts_def by (rule reachable_later[rotated])
  have "(unhealthy_step {''s/x''})\<^sup>*\<^sup>* crashed_worker
      (snd (Tick (quiet_world\<lparr>wo_Health := Some ''timeout''\<rparr>) {} [] (\<lambda>_ _. Inl ''gone'') crashed_worker))"
    by (rule r_into_rtranclp, rule work_tick) simp
  from suspension_outlives_unhealthy_launches[OF reach s(1) _ this] s sample_suspended(2)
  show ?thesis by (auto simp: trim_space_plain plain_ends_def plain_char_def)
qed

end
