(* ===== verification/Registry_Locators.thy ===== *)
theory Registry_Locators
  imports Registry_Types Go_Sha256 Runtime_Helpers
begin

text \<open>
  internal/registry/locators.go: the browse address, the content hash and the permalink of everything the
  catalog shows, and internal/runtime/registry_hash_index.go: the table that leads from a hash or a prefix of
  one back to the address. The JSON of a resource and the parts of a parsed URL with a host are parameters;
  \<open>url.PathEscape\<close> and the scheme of a URL are modelled.
\<close>

subsection \<open>Parts of net/url\<close>

definition letter_char :: "char \<Rightarrow> bool" where
  "letter_char c \<longleftrightarrow> (CHR ''a'' \<le> c \<and> c \<le> CHR ''z'') \<or> (CHR ''A'' \<le> c \<and> c \<le> CHR ''Z'')"

definition decimal_char :: "char \<Rightarrow> bool" where
  "decimal_char c \<longleftrightarrow> CHR ''0'' \<le> c \<and> c \<le> CHR ''9''"

text \<open>A byte that a path segment keeps; every other one becomes a percent sign and two hexadecimal digits.\<close>

definition segment_char :: "char \<Rightarrow> bool" where
  "segment_char c \<longleftrightarrow> letter_char c \<or> decimal_char c \<or> c \<in> set ''-_.~$&+:=@''"

definition upper_hex :: "nat \<Rightarrow> char" where
  "upper_hex n = ''0123456789ABCDEF'' ! n"

definition escape_char :: "char \<Rightarrow> string" where
  "escape_char c =
     (if segment_char c then [c]
      else [CHR ''%'', upper_hex (of_char c div 16), upper_hex (of_char c mod 16)])"

definition PathEscape :: "string \<Rightarrow> string" where
  "PathEscape s = concat (map escape_char s)"

text \<open>\<open>getScheme\<close>; a missing scheme before a colon is an error, which gives no scheme either.\<close>

fun scheme_from :: "string \<Rightarrow> string \<Rightarrow> string" where
  "scheme_from seen [] = []"
| "scheme_from seen (c # cs) =
     (if letter_char c then scheme_from (seen @ [c]) cs
      else if decimal_char c \<or> c \<in> set ''+-.'' then (if seen = [] then [] else scheme_from (seen @ [c]) cs)
      else if c = CHR '':'' then seen
      else [])"

definition url_scheme :: "string \<Rightarrow> string" where
  "url_scheme s = scheme_from [] (fst (cut_at (CHR ''#'') s))"

text \<open>What \<open>url.Parse\<close> gives for a URL with a scheme, if it parses and has a host.\<close>

record url_parts =
  up_Text :: string
  up_EscapedPath :: string
  up_Path :: string
  up_RawQuery :: string

type_synonym url_library = "string \<Rightarrow> url_parts option"

definition parsed_url :: "url_library \<Rightarrow> string \<Rightarrow> url_parts option" where
  "parsed_url lib s = (if url_scheme s = [] then None else lib s)"

subsection \<open>Addresses\<close>

definition publicRegistryBaseURL :: string where
  "publicRegistryBaseURL = ''https://registry.autosoftware.app''"

definition ShortShareHashLength :: nat where "ShortShareHashLength = 16"

definition publicRegistryURL :: "url_library \<Rightarrow> string \<Rightarrow> string" where
  "publicRegistryURL lib path =
     (let p = trim_space path in
      if p = [] then publicRegistryBaseURL
      else case parsed_url lib p of
        Some u \<Rightarrow> up_Text u
      | None \<Rightarrow> publicRegistryBaseURL @ (if has_prefix p slash then p else slash @ p))"

definition registryPath :: "url_library \<Rightarrow> string \<Rightarrow> string" where
  "registryPath lib v =
     (let v = trim_space v in
      if v = [] then []
      else case parsed_url lib v of
        Some u \<Rightarrow>
          (let path = (if up_EscapedPath u = [] then up_Path u else up_EscapedPath u) in
           if path = [] then []
           else if up_RawQuery u \<noteq> [] then path @ ''?'' @ up_RawQuery u else path)
      | None \<Rightarrow> if has_prefix v slash then v else [])"

definition splitBrowseReference :: "string \<Rightarrow> (string \<times> string) option" where
  "splitBrowseReference reference =
     (let r = trim_set (trim_space reference) slash; parts = split_on (CHR ''/'') r in
      if r = [] then None
      else if length parts \<noteq> 2 \<or> blank (parts ! 0) \<or> blank (parts ! 1) then None
      else Some (trim_space (parts ! 0), trim_space (parts ! 1)))"

definition BrowseRealizationPath :: "url_library \<Rightarrow> string \<Rightarrow> string" where
  "BrowseRealizationPath lib reference =
     (case splitBrowseReference reference of
        None \<Rightarrow> publicRegistryURL lib (''/contracts/'' @ PathEscape reference)
      | Some (seedID, realizationID) \<Rightarrow>
          publicRegistryURL lib (''/contracts/'' @ PathEscape seedID @ ''/'' @ PathEscape realizationID))"

definition BrowseCommandPath :: "url_library \<Rightarrow> string \<Rightarrow> string \<Rightarrow> string" where
  "BrowseCommandPath lib reference name =
     (case splitBrowseReference reference of
        None \<Rightarrow> publicRegistryURL lib (''/actions/'' @ PathEscape reference @ ''/'' @ PathEscape name)
      | Some (seedID, realizationID) \<Rightarrow>
          publicRegistryURL lib
            (''/actions/'' @ PathEscape seedID @ ''/'' @ PathEscape realizationID @ ''/'' @ PathEscape name))"

definition BrowseProjectionPath :: "url_library \<Rightarrow> string \<Rightarrow> string \<Rightarrow> string" where
  "BrowseProjectionPath lib reference name =
     (case splitBrowseReference reference of
        None \<Rightarrow> publicRegistryURL lib (''/read-models/'' @ PathEscape reference @ ''/'' @ PathEscape name)
      | Some (seedID, realizationID) \<Rightarrow>
          publicRegistryURL lib
            (''/read-models/'' @ PathEscape seedID @ ''/'' @ PathEscape realizationID @ ''/'' @ PathEscape name))"

definition BrowseObjectPath :: "url_library \<Rightarrow> string \<Rightarrow> string \<Rightarrow> string" where
  "BrowseObjectPath lib seedID kind =
     publicRegistryURL lib (''/objects/'' @ PathEscape seedID @ ''/'' @ PathEscape kind)"

definition schema_segments :: "string \<Rightarrow> string list" where
  "schema_segments pathPart =
     filter (\<lambda>s. s \<noteq> []) (map trim_space (split_on (CHR ''/'') (trim_set pathPart slash)))"

definition BrowseSchemaPath :: "url_library \<Rightarrow> string \<Rightarrow> string" where
  "BrowseSchemaPath lib ref =
     (let ref = trim_space ref; (pathPart, anchorPart, found) = cut_at (CHR ''#'') ref; anchor = trim_space anchorPart in
      if ref = [] then publicRegistryURL lib ''/schemas''
      else publicRegistryURL lib
        (''/schemas/'' @ join_with slash (map PathEscape (schema_segments pathPart)) @
         (if anchor \<noteq> [] then ''/anchors/'' @ PathEscape anchor else [])))"

definition PermalinkBrowsePath :: "url_library \<Rightarrow> string \<Rightarrow> string" where
  "PermalinkBrowsePath lib contentHash =
     (let h = to_lower (trim_space contentHash) in if h = [] then [] else publicRegistryURL lib (''/reg/'' @ h))"

definition ShareBrowsePath :: "url_library \<Rightarrow> string \<Rightarrow> string" where
  "ShareBrowsePath lib contentHash =
     (let h = to_lower (trim_space contentHash) in
      if length h < ShortShareHashLength then []
      else publicRegistryURL lib (''/r/'' @ take ShortShareHashLength h))"

definition PermalinkResolvePath :: "url_library \<Rightarrow> string \<Rightarrow> string \<Rightarrow> string" where
  "PermalinkResolvePath lib canonicalURL contentHash =
     (let h = to_lower (trim_space contentHash); path = registryPath lib canonicalURL in
      if path = [] \<or> h = [] then [] else publicRegistryURL lib (''/@'' @ h @ path))"

definition hex_char :: "char \<Rightarrow> bool" where
  "hex_char c \<longleftrightarrow> decimal_char c \<or> (CHR ''a'' \<le> c \<and> c \<le> CHR ''f'') \<or> (CHR ''A'' \<le> c \<and> c \<le> CHR ''F'')"

definition IsSHA256Hex :: "string \<Rightarrow> bool" where
  "IsSHA256Hex v \<longleftrightarrow> length (trim_space v) = 64 \<and> (\<forall>c\<in>set v. hex_char c)"

subsection \<open>Locators\<close>

datatype catalog_item =
    RealizationItem CatalogRealization
  | CommandItem CatalogCommand
  | ProjectionItem CatalogProjection
  | ObjectItem CatalogObject
  | SchemaItem CatalogSchema

record ResourceLocator =
  rlo_ResourceKind :: string
  rlo_CanonicalURL :: string
  rlo_PermalinkURL :: string
  rlo_ContentHash :: string

text \<open>\<open>json.Marshal\<close> of the kind and the payload.\<close>

type_synonym marshaller = "string \<Rightarrow> catalog_item \<Rightarrow> string option"

definition ResourceContentHash :: "marshaller \<Rightarrow> string \<Rightarrow> catalog_item \<Rightarrow> string" where
  "ResourceContentHash marshal kind payload =
     (case marshal (trim_space kind) payload of None \<Rightarrow> [] | Some raw \<Rightarrow> hashToken raw)"

definition resourceLocator :: "url_library \<Rightarrow> marshaller \<Rightarrow> string \<Rightarrow> string \<Rightarrow> catalog_item \<Rightarrow> ResourceLocator" where
  "resourceLocator lib marshal kind canonicalURL payload =
     (let contentHash = ResourceContentHash marshal kind payload in
      \<lparr>rlo_ResourceKind = trim_space kind, rlo_CanonicalURL = canonicalURL,
       rlo_PermalinkURL = PermalinkBrowsePath lib contentHash, rlo_ContentHash = contentHash\<rparr>)"

fun item_locator :: "url_library \<Rightarrow> marshaller \<Rightarrow> catalog_item \<Rightarrow> ResourceLocator" where
  "item_locator lib marshal (RealizationItem i) =
     resourceLocator lib marshal ''realization'' (BrowseRealizationPath lib (cr_Reference i)) (RealizationItem i)"
| "item_locator lib marshal (CommandItem i) =
     resourceLocator lib marshal ''command'' (BrowseCommandPath lib (cc_Reference i) (cc_Name i)) (CommandItem i)"
| "item_locator lib marshal (ProjectionItem i) =
     resourceLocator lib marshal ''projection'' (BrowseProjectionPath lib (cp_Reference i) (cp_Name i)) (ProjectionItem i)"
| "item_locator lib marshal (ObjectItem i) =
     resourceLocator lib marshal ''object'' (BrowseObjectPath lib (co_SeedID i) (co_Kind i)) (ObjectItem i)"
| "item_locator lib marshal (SchemaItem i) =
     resourceLocator lib marshal ''schema'' (BrowseSchemaPath lib (csc_Ref i)) (SchemaItem i)"

subsection \<open>The hash index\<close>

record HashLookupRecord =
  hl_ContentHash :: string
  hl_ResourceKind :: string
  hl_CanonicalURL :: string
  hl_PermalinkURL :: string

record hash_row = HashLookupRecord +
  hl_UpdatedAt :: int

datatype hash_error = HashPoolRequired | HashCatalog discover_error | ErrHashLookupNotFound | ErrHashLookupAmbiguous

text \<open>\<open>None\<close> is an index without a pool.\<close>

type_synonym hash_index = "hash_row list option"

definition appendCatalogHashRecord :: "HashLookupRecord list \<Rightarrow> ResourceLocator \<Rightarrow> HashLookupRecord list" where
  "appendCatalogHashRecord records l =
     (if blank (rlo_ContentHash l) \<or> blank (rlo_CanonicalURL l) then records
      else records @
        [\<lparr>hl_ContentHash = rlo_ContentHash l, hl_ResourceKind = rlo_ResourceKind l,
          hl_CanonicalURL = rlo_CanonicalURL l, hl_PermalinkURL = rlo_PermalinkURL l\<rparr>])"

definition catalog_items :: "Catalog \<Rightarrow> catalog_item list" where
  "catalog_items c =
     map RealizationItem (cat_Realizations c) @ map CommandItem (cat_Commands c) @
     map ProjectionItem (cat_Projections c) @ map ObjectItem (cat_Objects c) @ map SchemaItem (cat_Schemas c)"

definition catalogHashRecords :: "url_library \<Rightarrow> marshaller \<Rightarrow> Catalog \<Rightarrow> HashLookupRecord list" where
  "catalogHashRecords lib marshal c =
     foldl (\<lambda>records i. appendCatalogHashRecord records (item_locator lib marshal i)) [] (catalog_items c)"

definition hash_row_of :: "int \<Rightarrow> HashLookupRecord \<Rightarrow> hash_row" where
  "hash_row_of dbnow r = HashLookupRecord.extend r \<lparr>hl_UpdatedAt = dbnow\<rparr>"

definition upsert_hash :: "int \<Rightarrow> hash_row list \<Rightarrow> HashLookupRecord \<Rightarrow> hash_row list" where
  "upsert_hash dbnow t r = upsert_row hl_ContentHash (hash_row_of dbnow r) (\<lambda>_. hash_row_of dbnow r) t"

definition SyncCatalog :: "url_library \<Rightarrow> marshaller \<Rightarrow> int \<Rightarrow> Catalog \<Rightarrow> hash_index \<Rightarrow> hash_error err \<times> hash_index" where
  "SyncCatalog lib marshal dbnow c idx =
     (case idx of
        None \<Rightarrow> (Some HashPoolRequired, None)
      | Some t \<Rightarrow> (None, Some (foldl (upsert_hash dbnow) t (catalogHashRecords lib marshal c))))"

definition SyncCatalogReader ::
  "url_library \<Rightarrow> marshaller \<Rightarrow> int \<Rightarrow> discover_error + Catalog \<Rightarrow> hash_index \<Rightarrow> hash_error err \<times> hash_index" where
  "SyncCatalogReader lib marshal dbnow loaded idx =
     (case loaded of Inl e \<Rightarrow> (Some (HashCatalog e), idx) | Inr c \<Rightarrow> SyncCatalog lib marshal dbnow c idx)"

definition Resolve :: "string \<Rightarrow> hash_index \<Rightarrow> hash_error + HashLookupRecord" where
  "Resolve contentHash idx =
     (case idx of
        None \<Rightarrow> Inl HashPoolRequired
      | Some t \<Rightarrow>
          (let h = to_lower (trim_space contentHash) in
           if \<not> IsSHA256Hex h then Inl ErrHashLookupNotFound
           else case row_at hl_ContentHash h t of
             None \<Rightarrow> Inl ErrHashLookupNotFound
           | Some r \<Rightarrow> Inr (HashLookupRecord.truncate r)))"

definition lower_hex_char :: "char \<Rightarrow> bool" where
  "lower_hex_char c \<longleftrightarrow> decimal_char c \<or> (CHR ''a'' \<le> c \<and> c \<le> CHR ''f'')"

text \<open>The pattern of the query has no wildcard but the last one, since the prefix consists of digits.\<close>

definition ResolvePrefix :: "string \<Rightarrow> hash_index \<Rightarrow> hash_error + HashLookupRecord" where
  "ResolvePrefix contentHashPrefix idx =
     (case idx of
        None \<Rightarrow> Inl HashPoolRequired
      | Some t \<Rightarrow>
          (let p = to_lower (trim_space contentHashPrefix) in
           if p = [] \<or> length p > 64 \<or> (\<exists>c\<in>set p. \<not> lower_hex_char c) then Inl ErrHashLookupNotFound
           else case take 2 (sort_key hl_ContentHash (filter (\<lambda>r. has_prefix (hl_ContentHash r) p) t)) of
             [] \<Rightarrow> Inl ErrHashLookupNotFound
           | [r] \<Rightarrow> Inr (HashLookupRecord.truncate r)
           | _ \<Rightarrow> Inl ErrHashLookupAmbiguous))"

end
