(* ===== verification/Locator_Properties.thy ===== *)
theory Locator_Properties
  imports Registry_Locators
begin

text \<open>
  What the locators promise: two resources of the catalog have the same browse address exactly if they have
  the same address key, every resource is found again by its content hash once the catalog has been
  synchronised, and a short share link finds its resource or says that it is ambiguous.
\<close>

subsection \<open>Escaped segments\<close>

lemma upper_hex_in: "n < 16 \<Longrightarrow> upper_hex n \<in> set ''0123456789ABCDEF''"
  unfolding upper_hex_def by (rule nth_mem) simp

lemma upper_hex_inject: "m < 16 \<Longrightarrow> n < 16 \<Longrightarrow> upper_hex m = upper_hex n \<longleftrightarrow> m = n"
  unfolding upper_hex_def by (subst nth_eq_iff_index_eq) simp_all

lemma of_char_hex [simp]: "(of_char c :: nat) div 16 < 16" "(of_char c :: nat) mod 16 < 16"
proof -
  have "(of_char c :: nat) < 256" by (rule nat_of_char_less_256)
  then show "(of_char c :: nat) div 16 < 16" by (simp only: less_mult_imp_div_less)
qed simp

lemma segment_char_plain: "segment_char c \<Longrightarrow> plain_char c \<and> c \<noteq> CHR ''/'' \<and> c \<noteq> CHR ''%''"
  by (auto simp: segment_char_def letter_char_def decimal_char_def plain_char_def less_eq_char_def)

lemma escape_char_plain: "d \<in> set (escape_char c) \<Longrightarrow> plain_char d \<and> d \<noteq> CHR ''/''"
proof -
  have hex: "plain_char (upper_hex n) \<and> upper_hex n \<noteq> CHR ''/''" if "n < 16" for n
    using upper_hex_in[OF that] by (auto simp: plain_char_def)
  assume "d \<in> set (escape_char c)"
  then show ?thesis
    using segment_char_plain hex[OF of_char_hex(1)] hex[OF of_char_hex(2)]
    by (auto simp: escape_char_def plain_char_def split: if_splits)
qed

lemma PathEscape_plain: "d \<in> set (PathEscape s) \<Longrightarrow> plain_char d \<and> d \<noteq> CHR ''/''"
  using escape_char_plain by (auto simp: PathEscape_def)

lemma PathEscape_Cons: "PathEscape (c # s) = escape_char c @ PathEscape s"
  by (simp add: PathEscape_def)

lemma escape_char_prefix: "escape_char c @ u = escape_char d @ v \<longleftrightarrow> c = d \<and> u = v"
proof
  assume eq: "escape_char c @ u = escape_char d @ v"
  show "c = d \<and> u = v"
  proof (cases "segment_char c = segment_char d")
    case True
    have "of_char c = (of_char d :: nat)"
      if "(of_char c :: nat) div 16 = of_char d div 16" "(of_char c :: nat) mod 16 = of_char d mod 16"
      using that by (metis div_mult_mod_eq)
    with eq True show ?thesis
      by (auto simp: escape_char_def upper_hex_inject split: if_splits)
  next
    case False
    with eq show ?thesis using segment_char_plain by (auto simp: escape_char_def split: if_splits)
  qed
qed simp

lemma PathEscape_inject [simp]: "PathEscape s = PathEscape t \<longleftrightarrow> s = t"
proof (induction s arbitrary: t)
  case Nil
  show ?case by (cases t) (simp_all add: PathEscape_def escape_char_def)
next
  case (Cons c s)
  show ?case
  proof (cases t)
    case Nil
    then show ?thesis by (simp add: PathEscape_def escape_char_def)
  next
    case t: (Cons d t')
    show ?thesis by (simp add: t PathEscape_Cons escape_char_prefix Cons.IH)
  qed
qed

lemma PathEscape_Nil [simp]: "PathEscape [] = []"
  by (simp add: PathEscape_def)

subsection \<open>Addresses\<close>

text \<open>The path of a list of raw segments.\<close>

definition segment_path :: "string list \<Rightarrow> string" where
  "segment_path ss = concat (map (\<lambda>s. slash @ PathEscape s) ss)"

lemma segment_path_simps [simp]:
  "segment_path [] = []" "segment_path (s # ss) = CHR ''/'' # PathEscape s @ segment_path ss"
  by (simp_all add: segment_path_def)

lemma segment_path_append: "segment_path (ss @ ts) = segment_path ss @ segment_path ts"
  by (simp add: segment_path_def)

lemma segment_path_join: "segment_path ss = join_with slash ([] # map PathEscape ss)"
proof (induction ss)
  case (Cons s ss)
  then show ?case by (cases ss) simp_all
qed simp

lemma segment_path_inject [simp]: "segment_path ss = segment_path ts \<longleftrightarrow> ss = ts"
proof
  assume "segment_path ss = segment_path ts"
  then have "split_on (CHR ''/'') (join_with slash ([] # map PathEscape ss)) =
      split_on (CHR ''/'') (join_with slash ([] # map PathEscape ts))"
    by (simp only: segment_path_join)
  moreover have "\<forall>x\<in>set ([] # map PathEscape us). CHR ''/'' \<notin> set x" for us
    using PathEscape_plain by auto
  ultimately have "[] # map PathEscape ss = [] # map PathEscape ts"
    by (metis split_join list.distinct(1))
  then have "map PathEscape ss = map PathEscape ts" by simp
  then show "ss = ts" by (rule map_injective) (simp add: inj_def)
qed simp

lemma segment_path_plain: "d \<in> set (segment_path ss) \<Longrightarrow> plain_char d"
proof (induction ss)
  case (Cons s ss)
  then show ?case using PathEscape_plain by (auto simp: plain_char_def)
qed simp

lemma publicRegistryURL_segments:
  assumes "ss \<noteq> []"
  shows "publicRegistryURL lib (segment_path ss) = publicRegistryBaseURL @ segment_path ss"
proof -
  obtain r where r: "segment_path ss = CHR ''/'' # r" using assms by (cases ss) auto
  have "plain_char (hd (segment_path ss))" by (rule segment_path_plain[of _ ss], simp add: r)
  moreover have "plain_char (last (segment_path ss))"
    by (rule segment_path_plain[of _ ss], rule last_in_set, simp add: r)
  ultimately have "plain_ends (segment_path ss)" by (simp add: plain_ends_def)
  then have t: "trim_space (segment_path ss) = segment_path ss" by (rule trim_space_plain)
  have "url_scheme (segment_path ss) = []"
    by (simp add: r url_scheme_def cut_at_def letter_char_def decimal_char_def)
  then have "parsed_url lib (segment_path ss) = None" by (simp add: parsed_url_def)
  moreover have "has_prefix (segment_path ss) slash" "segment_path ss \<noteq> []" by (simp_all add: r)
  ultimately show ?thesis by (simp add: publicRegistryURL_def t Let_def del: segment_path_simps)
qed

lemma PathEscape_plain_id: "\<forall>c\<in>set s. segment_char c \<Longrightarrow> PathEscape s = s"
  by (induction s) (simp_all add: PathEscape_def escape_char_def)

lemma collection_segments [simp]:
  "PathEscape ''contracts'' = ''contracts''" "PathEscape ''actions'' = ''actions''"
  "PathEscape ''read-models'' = ''read-models''" "PathEscape ''objects'' = ''objects''"
  "PathEscape ''schemas'' = ''schemas''" "PathEscape ''anchors'' = ''anchors''"
  by (simp_all add: PathEscape_plain_id segment_char_def letter_char_def less_eq_char_def)

text \<open>
  The address key of a resource: its collection and the raw names that its address shows. A reference
  counts with its two trimmed parts if it has two, and as it is otherwise; a schema reference with its
  trimmed non-empty segments and its anchor.
\<close>

definition reference_segments :: "string \<Rightarrow> string list" where
  "reference_segments r = (case splitBrowseReference r of None \<Rightarrow> [r] | Some (s, i) \<Rightarrow> [s, i])"

definition schema_key :: "string \<Rightarrow> string list" where
  "schema_key ref =
     (let r = trim_space ref; (p, a, found) = cut_at (CHR ''#'') r; ss = schema_segments p in
      if r = [] then []
      else (if ss = [] then [[]] else ss) @ (if blank a then [] else [''anchors'', trim_space a]))"

fun resource_key :: "catalog_item \<Rightarrow> string list" where
  "resource_key (RealizationItem i) = ''contracts'' # reference_segments (cr_Reference i)"
| "resource_key (CommandItem i) = ''actions'' # reference_segments (cc_Reference i) @ [cc_Name i]"
| "resource_key (ProjectionItem i) = ''read-models'' # reference_segments (cp_Reference i) @ [cp_Name i]"
| "resource_key (ObjectItem i) = [''objects'', co_SeedID i, co_Kind i]"
| "resource_key (SchemaItem i) = ''schemas'' # schema_key (csc_Ref i)"

lemma join_segments: "ss \<noteq> [] \<Longrightarrow> slash @ join_with slash (map PathEscape ss) = segment_path ss"
  by (cases ss) (simp_all add: segment_path_join)

lemma BrowseSchemaPath_segments:
  "BrowseSchemaPath lib ref = publicRegistryURL lib (segment_path (''schemas'' # schema_key ref))"
proof (cases "blank ref")
  case True
  then show ?thesis by (simp add: BrowseSchemaPath_def schema_key_def Let_def split_beta)
next
  case False
  obtain p a f where c: "cut_at (CHR ''#'') (trim_space ref) = (p, a, f)" by (cases "cut_at (CHR ''#'') (trim_space ref)")
  have "''/schemas/'' @ join_with slash (map PathEscape (schema_segments p)) @ rest =
      segment_path (''schemas'' # (if schema_segments p = [] then [[]] else schema_segments p)) @ rest" for rest
  proof (cases "schema_segments p = []")
    case False
    have "segment_path (''schemas'' # schema_segments p) = ''/schemas'' @ slash @ join_with slash (map PathEscape (schema_segments p))"
      by (simp only: join_segments[OF False]) simp
    with False show ?thesis by simp
  qed simp
  moreover have "''/anchors/'' @ PathEscape (trim_space a) = segment_path [''anchors'', trim_space a]" by simp
  ultimately show ?thesis using False c
    by (simp only: BrowseSchemaPath_def schema_key_def Let_def prod.case if_False if_True segment_path_append
        append_Cons[symmetric] append_Nil2 segment_path_simps(1) split: if_split) simp
qed

text \<open>The addresses as the source writes them, one literal after the other, are paths of segments.\<close>

lemma literal_paths:
  "''/contracts/'' @ PathEscape s = segment_path [''contracts'', s]"
  "''/contracts/'' @ PathEscape s @ ''/'' @ PathEscape t = segment_path [''contracts'', s, t]"
  "''/actions/'' @ PathEscape s @ ''/'' @ PathEscape t = segment_path [''actions'', s, t]"
  "''/actions/'' @ PathEscape s @ ''/'' @ PathEscape t @ ''/'' @ PathEscape u = segment_path [''actions'', s, t, u]"
  "''/read-models/'' @ PathEscape s @ ''/'' @ PathEscape t = segment_path [''read-models'', s, t]"
  "''/read-models/'' @ PathEscape s @ ''/'' @ PathEscape t @ ''/'' @ PathEscape u = segment_path [''read-models'', s, t, u]"
  "''/objects/'' @ PathEscape s @ ''/'' @ PathEscape t = segment_path [''objects'', s, t]"
  by simp_all

lemma item_address: "rlo_CanonicalURL (item_locator lib m i) = publicRegistryBaseURL @ segment_path (resource_key i)"
proof -
  have "rlo_CanonicalURL (item_locator lib m i) = publicRegistryURL lib (segment_path (resource_key i))"
  proof (cases i)
    case (SchemaItem x)
    then show ?thesis by (simp add: resourceLocator_def Let_def BrowseSchemaPath_segments del: segment_path_simps)
  qed (simp_all only: item_locator.simps resource_key.simps resourceLocator_def Let_def ResourceLocator.simps
      BrowseRealizationPath_def BrowseCommandPath_def BrowseProjectionPath_def BrowseObjectPath_def
      literal_paths reference_segments_def append.simps split: option.split prod.split, simp_all)
  moreover have "resource_key i \<noteq> []" by (cases i) simp_all
  ultimately show ?thesis by (metis publicRegistryURL_segments)
qed

text \<open>C34: The browse address of a resource identifies it: two resources of a catalog, of whatever kinds, have the
  same canonical address exactly if their address keys are the same, that is, if they are in the same
  collection and are shown under the same names. Escaping the names loses nothing.
\<close>

theorem canonical_address_identifies:
  "rlo_CanonicalURL (item_locator lib m i) = rlo_CanonicalURL (item_locator lib m j) \<longleftrightarrow>
     resource_key i = resource_key j"
  by (simp add: item_address)

subsection \<open>The hash index\<close>

definition stored_hash :: "string \<Rightarrow> bool" where
  "stored_hash h \<longleftrightarrow> length h = 64 \<and> (\<forall>c\<in>set h. lower_hex_char c)"

lemma lower_hex_char_iff: "lower_hex_char c \<longleftrightarrow> c \<in> set ''0123456789abcdef''"
proof -
  have "lower_hex_char c \<longleftrightarrow> (of_char c :: nat) \<in> {48..57} \<union> {97..102}"
    by (auto simp: lower_hex_char_def decimal_char_def less_eq_char_def)
  also have "\<dots> \<longleftrightarrow> (of_char c :: nat) \<in> of_char ` set ''0123456789abcdef''"
    by (simp add: atLeastAtMost_insertL numeral_eq_Suc atLeastAtMostSuc_conv) auto
  also have "\<dots> \<longleftrightarrow> c \<in> set ''0123456789abcdef''" by (auto simp del: list.set)
  finally show ?thesis .
qed

lemma stored_hashToken: "stored_hash (hashToken s)"
  using hashToken_chars[of s] by (auto simp: stored_hash_def length_hashToken lower_hex_char_iff simp del: list.set)

lemma lower_hex_char_facts: "lower_hex_char c \<Longrightarrow> plain_char c \<and> lower_char c = c \<and> hex_char c"
  by (auto simp: lower_hex_char_iff plain_char_def lower_char_def hex_char_def decimal_char_def less_eq_char_def)

lemma stored_hash_fixed:
  assumes "stored_hash h"
  shows "to_lower (trim_space (take n h)) = take n h" "IsSHA256Hex h"
proof -
  have cs: "\<forall>c\<in>set h. plain_char c \<and> lower_char c = c \<and> hex_char c"
    using assms lower_hex_char_facts by (auto simp: stored_hash_def)
  have t: "trim_space (take n h) = take n h" for n
  proof (rule trim_space_plain)
    show "plain_ends (take n h)"
    proof (cases "take n h = []")
      case False
      then have "hd (take n h) \<in> set h" "last (take n h) \<in> set h"
        by (meson hd_in_set last_in_set in_set_takeD)+
      with cs show ?thesis by (simp add: plain_ends_def)
    qed (simp add: plain_ends_def)
  qed
  have "map lower_char (take n h) = take n h" using cs by (intro map_idI) (auto dest: in_set_takeD)
  then show "to_lower (trim_space (take n h)) = take n h" by (simp only: t to_lower_def)
  show "IsSHA256Hex h" using t[of 64] assms cs by (simp add: IsSHA256Hex_def stored_hash_def)
qed

text \<open>What is stored of a locator.\<close>

definition locator_record :: "ResourceLocator \<Rightarrow> HashLookupRecord" where
  "locator_record l =
     \<lparr>hl_ContentHash = rlo_ContentHash l, hl_ResourceKind = rlo_ResourceKind l,
      hl_CanonicalURL = rlo_CanonicalURL l, hl_PermalinkURL = rlo_PermalinkURL l\<rparr>"

lemma item_hash: "rlo_ContentHash (item_locator lib m i) = [] \<or> stored_hash (rlo_ContentHash (item_locator lib m i))"
  by (cases i) (auto simp: resourceLocator_def Let_def ResourceContentHash_def stored_hashToken split: option.split)

lemma item_address_not_blank: "\<not> blank (rlo_CanonicalURL (item_locator lib m i))"
proof -
  let ?u = "publicRegistryBaseURL @ segment_path (resource_key i)"
  have "segment_path (resource_key i) \<noteq> []" by (cases i) simp_all
  then have "plain_char (last ?u)"
    using segment_path_plain[OF last_in_set] by simp
  moreover have "plain_char (hd ?u)" by (simp add: publicRegistryBaseURL_def plain_char_def)
  ultimately have "trim_space ?u = ?u" by (intro trim_space_plain) (simp add: plain_ends_def)
  then show ?thesis by (simp add: item_address publicRegistryBaseURL_def)
qed

lemma append_item_record:
  "appendCatalogHashRecord rs (item_locator lib m i) =
     rs @ (if rlo_ContentHash (item_locator lib m i) = [] then [] else [locator_record (item_locator lib m i)])"
proof (cases "rlo_ContentHash (item_locator lib m i) = []")
  case False
  with item_hash have "stored_hash (rlo_ContentHash (item_locator lib m i))" by auto
  from stored_hash_fixed(1)[OF this, of 64] this
  have "\<not> blank (rlo_ContentHash (item_locator lib m i))" by (auto simp: stored_hash_def)
  with False show ?thesis
    by (simp add: appendCatalogHashRecord_def item_address_not_blank locator_record_def)
qed (simp add: appendCatalogHashRecord_def)

lemma catalogHashRecords_eq:
  "catalogHashRecords lib m c =
     map (\<lambda>i. locator_record (item_locator lib m i))
       (filter (\<lambda>i. rlo_ContentHash (item_locator lib m i) \<noteq> []) (catalog_items c))"
proof -
  have "foldl (\<lambda>rs i. appendCatalogHashRecord rs (item_locator lib m i)) rs xs =
      rs @ map (\<lambda>i. locator_record (item_locator lib m i)) (filter (\<lambda>i. rlo_ContentHash (item_locator lib m i) \<noteq> []) xs)"
    for rs xs
    by (induction xs arbitrary: rs) (simp_all add: append_item_record)
  then show ?thesis by (simp add: catalogHashRecords_def)
qed

lemma hash_row_simps [simp]:
  "hl_ContentHash (hash_row_of now r) = hl_ContentHash r" "HashLookupRecord.truncate (hash_row_of now r) = r"
  by (simp_all add: hash_row_of_def HashLookupRecord.defs)

lemma row_at_sync:
  "row_at hl_ContentHash h (foldl (upsert_hash now) t rs) =
     (if filter (\<lambda>r. hl_ContentHash r = h) rs = [] then row_at hl_ContentHash h t
      else Some (hash_row_of now (last (filter (\<lambda>r. hl_ContentHash r = h) rs))))"
proof (induction rs rule: rev_induct)
  case (snoc r rs)
  have "row_at hl_ContentHash h (foldl (upsert_hash now) t (rs @ [r])) =
      (if h = hl_ContentHash r then Some (hash_row_of now r)
       else row_at hl_ContentHash h (foldl (upsert_hash now) t rs))"
    by (simp add: upsert_hash_def row_at_upsert_row split: option.split)
  with snoc.IH show ?case by simp
qed simp

text \<open>C35: Synchronising the hash index with a catalog makes every resource with a content hash resolvable:
  afterwards a hash leads to the locator of the last resource of the catalog that has it, and to what the
  table held before if the catalog has none with that hash.
\<close>

theorem synchronised_hash_resolves:
  "Resolve h (snd (SyncCatalog lib m now c (Some t))) =
     (case filter (\<lambda>i. rlo_ContentHash (item_locator lib m i) \<noteq> [] \<and>
                       rlo_ContentHash (item_locator lib m i) = to_lower (trim_space h)) (catalog_items c) of
        [] \<Rightarrow> Resolve h (Some t)
      | qs \<Rightarrow> Inr (locator_record (item_locator lib m (last qs))))"
proof -
  let ?h = "to_lower (trim_space h)" and ?loc = "item_locator lib m"
  let ?is = "filter (\<lambda>i. rlo_ContentHash (?loc i) \<noteq> [] \<and> rlo_ContentHash (?loc i) = ?h) (catalog_items c)"
  have qs: "filter (\<lambda>r. hl_ContentHash r = ?h) (catalogHashRecords lib m c) = map (\<lambda>i. locator_record (?loc i)) ?is"
    by (simp add: catalogHashRecords_eq filter_map comp_def locator_record_def conj_commute)
  show ?thesis
  proof (cases ?is)
    case Nil
    with qs show ?thesis by (simp add: Resolve_def SyncCatalog_def row_at_sync Let_def)
  next
    case (Cons i js)
    have i: "i \<in> set ?is" by (simp only: Cons list.set_intros)
    then have "stored_hash ?h" using item_hash[of lib m i] by auto
    with Cons qs show ?thesis
      by (auto simp: Resolve_def SyncCatalog_def row_at_sync stored_hash_fixed(2) Let_def last_map split: list.split)
  qed
qed

text \<open>The index after any number of synchronisations, each at its own time with its own catalog.\<close>

definition synchronised :: "url_library \<Rightarrow> marshaller \<Rightarrow> (int \<times> Catalog) list \<Rightarrow> hash_index" where
  "synchronised lib m syncs = foldl (\<lambda>idx (now, c). snd (SyncCatalog lib m now c idx)) (Some []) syncs"

lemma synchronised_table:
  assumes "synchronised lib m syncs = Some t"
  shows "distinct (map hl_ContentHash t) \<and> (\<forall>r\<in>set t. stored_hash (hl_ContentHash r))"
proof -
  let ?ok = "\<lambda>t. distinct (map hl_ContentHash t) \<and> (\<forall>h\<in>hl_ContentHash ` set t. stored_hash h)"
  have step: "?ok t \<Longrightarrow> \<forall>r\<in>set rs. stored_hash (hl_ContentHash r) \<Longrightarrow> ?ok (foldl (upsert_hash now) t rs)" for now t rs
  proof (induction rs arbitrary: t)
    case (Cons r rs)
    have "?ok (upsert_hash now t r)"
      using Cons.prems keys_upsert_row[of hl_ContentHash "hash_row_of now r" "\<lambda>_. hash_row_of now r" t]
        distinct_upsert_row[of hl_ContentHash "hash_row_of now r" "\<lambda>_. hash_row_of now r" t]
      by (simp add: upsert_hash_def)
    with Cons show ?case by simp
  qed simp
  have recs: "\<forall>r\<in>set (catalogHashRecords lib m c). stored_hash (hl_ContentHash r)" for c
    using item_hash[of lib m] by (auto simp: catalogHashRecords_eq locator_record_def)
  have "\<exists>t'. foldl (\<lambda>idx (now, c). snd (SyncCatalog lib m now c idx)) (Some t) syncs = Some t' \<and> ?ok t'" if "?ok t" for t
    using that
  proof (induction syncs arbitrary: t)
    case (Cons s syncs)
    obtain now c where s: "s = (now, c)" by (cases s)
    show ?case using Cons.IH[OF step[OF Cons.prems recs[of c], of now]] by (simp add: s SyncCatalog_def)
  qed simp
  from this[of "[]"] assms show ?thesis by (auto simp: synchronised_def)
qed

text \<open>The stored rows that a prefix, as a client may spell it, stands for.\<close>

definition prefix_matches :: "string \<Rightarrow> hash_row list \<Rightarrow> hash_row set" where
  "prefix_matches p t =
     (let q = to_lower (trim_space p) in {r \<in> set t. q \<noteq> [] \<and> take (length q) (hl_ContentHash r) = q})"

lemma has_prefix_take: "has_prefix h q \<longleftrightarrow> take (length q) h = q"
  by (auto simp: prefix_def) (metis append_take_drop_id)

text \<open>The tests of the prefix refuse nothing that a stored hash begins with.\<close>

lemma refused_prefix:
  assumes "stored_hash h" "take (length q) h = q"
  shows "length q \<le> 64 \<and> (\<forall>c\<in>set q. lower_hex_char c)"
proof
  have "length q = min (length h) (length q)" by (subst assms(2)[symmetric]) simp
  then show "length q \<le> 64" using assms(1) by (simp add: stored_hash_def)
  have "set q \<subseteq> set h" by (subst assms(2)[symmetric]) (rule set_take_subset)
  then show "\<forall>c\<in>set q. lower_hex_char c" using assms(1) by (auto simp: stored_hash_def)
qed

lemma take_two:
  assumes "distinct xs"
  shows "(case take 2 (sort_key f xs) of [] \<Rightarrow> Inl a | [x] \<Rightarrow> Inr (g x) | _ \<Rightarrow> Inl b) =
    (if set xs = {} then Inl a else if \<exists>x. set xs = {x} then Inr (g (the_elem (set xs))) else Inl b)"
proof (cases "sort_key f xs")
  case Nil
  then have "set xs = {}" by (metis set_empty set_sort)
  with Nil show ?thesis by simp
next
  case (Cons x ys)
  then have s: "set xs = insert x (set ys)" by (metis list.set(2) set_sort)
  have "distinct (x # ys)" using assms Cons by (metis distinct_sort)
  show ?thesis
  proof (cases ys)
    case Nil
    with s Cons show ?thesis by simp
  next
    case (Cons y zs)
    with \<open>distinct (x # ys)\<close> s have "\<not> (\<exists>x. set xs = {x})" by auto
    with Cons \<open>sort_key f xs = x # ys\<close> s show ?thesis by simp
  qed
qed

lemma ResolvePrefix_eq:
  assumes "synchronised lib m syncs = Some t"
  shows "ResolvePrefix p (Some t) =
    (if prefix_matches p t = {} then Inl ErrHashLookupNotFound
     else if \<exists>r. prefix_matches p t = {r} then Inr (HashLookupRecord.truncate (the_elem (prefix_matches p t)))
     else Inl ErrHashLookupAmbiguous)"
proof -
  let ?q = "to_lower (trim_space p)"
  from synchronised_table[OF assms] have d: "distinct t" and all: "\<And>r. r \<in> set t \<Longrightarrow> stored_hash (hl_ContentHash r)"
    by (auto simp: distinct_map)
  show ?thesis
  proof (cases "?q = [] \<or> length ?q > 64 \<or> (\<exists>c\<in>set ?q. \<not> lower_hex_char c)")
    case True
    then have "prefix_matches p t = {}"
      using all refused_prefix[of _ ?q] by (fastforce simp: prefix_matches_def Let_def)
    with True show ?thesis by (simp add: ResolvePrefix_def Let_def)
  next
    case False
    let ?qs = "filter (\<lambda>r. has_prefix (hl_ContentHash r) ?q) t"
    have "set ?qs = prefix_matches p t" using False by (auto simp: prefix_matches_def Let_def has_prefix_take)
    moreover have "ResolvePrefix p (Some t) = (case take 2 (sort_key hl_ContentHash ?qs) of
        [] \<Rightarrow> Inl ErrHashLookupNotFound | [r] \<Rightarrow> Inr (HashLookupRecord.truncate r) | _ \<Rightarrow> Inl ErrHashLookupAmbiguous)"
      using False by (simp only: ResolvePrefix_def option.case Let_def if_False)
    ultimately show ?thesis
      using take_two[OF distinct_filter[OF d], where f = hl_ContentHash and a = ErrHashLookupNotFound
        and b = ErrHashLookupAmbiguous and g = HashLookupRecord.truncate]
      by (simp only:)
  qed
qed

lemma share_path:
  assumes "stored_hash k"
  shows "ShareBrowsePath lib k = publicRegistryBaseURL @ ''/r/'' @ take ShortShareHashLength k"
proof -
  let ?p = "take ShortShareHashLength k"
  have "\<forall>c\<in>set ?p. lower_hex_char c" using assms by (auto simp: stored_hash_def dest: in_set_takeD)
  then have "\<forall>c\<in>set ?p. segment_char c"
    by (auto simp: lower_hex_char_def segment_char_def letter_char_def less_eq_char_def)
  then have "''/r/'' @ ?p = segment_path [''r'', ?p]"
    by (simp add: PathEscape_plain_id segment_char_def letter_char_def less_eq_char_def)
  moreover have "to_lower (trim_space k) = k" using stored_hash_fixed(1)[OF assms, of 64] assms by (simp add: stored_hash_def)
  ultimately show ?thesis using assms publicRegistryURL_segments[of "[''r'', ?p]" lib]
    by (simp add: ShareBrowsePath_def ShortShareHashLength_def stored_hash_def)
qed

text \<open>C36: Looking up a prefix in a synchronised table is exact for every text: it gives a resource exactly if the text,
  trimmed and in lower case, is not empty and one stored hash alone begins with it, and then that resource; it is
  ambiguous exactly if several stored hashes begin with it, and not found exactly if none does. The short share link
  of a stored resource carries the first sixteen digits of its hash.\<close>

theorem prefix_look_up_is_exact:
  assumes "synchronised lib m syncs = Some t"
  shows "(\<forall>x. ResolvePrefix p (Some t) = Inr x \<longleftrightarrow> (\<exists>r. prefix_matches p t = {r} \<and> x = HashLookupRecord.truncate r)) \<and>
    (ResolvePrefix p (Some t) = Inl ErrHashLookupNotFound \<longleftrightarrow> prefix_matches p t = {}) \<and>
    (ResolvePrefix p (Some t) = Inl ErrHashLookupAmbiguous \<longleftrightarrow>
       (\<exists>r\<in>prefix_matches p t. \<exists>s\<in>prefix_matches p t. hl_ContentHash r \<noteq> hl_ContentHash s)) \<and>
    (\<forall>r\<in>set t. ShareBrowsePath lib (hl_ContentHash r) =
       publicRegistryBaseURL @ ''/r/'' @ take ShortShareHashLength (hl_ContentHash r))"
proof -
  have sub: "prefix_matches p t \<subseteq> set t" by (auto simp: prefix_matches_def Let_def)
  have inj: "inj_on hl_ContentHash (set t)" using synchronised_table[OF assms] by (simp add: distinct_map)
  have key: "hl_ContentHash r \<noteq> hl_ContentHash s \<longleftrightarrow> r \<noteq> s" if "r \<in> prefix_matches p t" "s \<in> prefix_matches p t" for r s
    using sub that inj by (meson inj_onD subsetD)
  have "(\<exists>r\<in>M. \<exists>s\<in>M. r \<noteq> s) \<longleftrightarrow> M \<noteq> {} \<and> \<not> (\<exists>r. M = {r})" for M :: "hash_row set" by blast
  then have many: "(\<exists>r\<in>prefix_matches p t. \<exists>s\<in>prefix_matches p t. hl_ContentHash r \<noteq> hl_ContentHash s) \<longleftrightarrow>
      prefix_matches p t \<noteq> {} \<and> \<not> (\<exists>r. prefix_matches p t = {r})"
    by (simp add: key cong: bex_cong_simp)
  have share: "\<forall>r\<in>set t. ShareBrowsePath lib (hl_ContentHash r) =
      publicRegistryBaseURL @ ''/r/'' @ take ShortShareHashLength (hl_ContentHash r)"
    using synchronised_table[OF assms] share_path by blast
  note eq = ResolvePrefix_eq[OF assms, of p]
  consider "prefix_matches p t = {}" | r where "prefix_matches p t = {r}"
    | "prefix_matches p t \<noteq> {}" "\<not> (\<exists>r. prefix_matches p t = {r})" by blast
  then show ?thesis
  proof cases
    case 1
    with eq share show ?thesis by simp
  next
    case (2 r)
    then have "ResolvePrefix p (Some t) = Inr (HashLookupRecord.truncate r)" using eq by simp
    with 2 share show ?thesis by auto
  next
    case 3
    then have "ResolvePrefix p (Some t) = Inl ErrHashLookupAmbiguous" using eq by simp
    with 3 many share show ?thesis by simp
  qed
qed

text \<open>A catalog with one schema.\<close>

definition sample_library :: url_library where "sample_library = (\<lambda>_. None)"

definition sample_marshal :: marshaller where "sample_marshal kind i = Some kind"

definition sample_schema :: CatalogSchema where
  "sample_schema =
     \<lparr>csc_Ref = ''seeds/0004/object.yaml#event'', csc_Path = ''seeds/0004/object.yaml'', csc_Anchor = ''event'',
      csc_ObjectUses = [], csc_CommandInputs = [], csc_CommandResults = []\<rparr>"

definition sample_shown :: Catalog where
  "sample_shown =
     \<lparr>cat_Summary = \<lparr>su_Realizations = 0, su_Contracts = 0, su_Objects = 0, su_Relations = 0, su_Schemas = 1, su_Commands = 0, su_Projections = 0\<rparr>,
      cat_Realizations = [], cat_Commands = [], cat_Projections = [], cat_Objects = [], cat_Schemas = [sample_schema]\<rparr>"

definition sample_row :: hash_row where
  "sample_row = hash_row_of 7 (locator_record (item_locator sample_library sample_marshal (SchemaItem sample_schema)))"

lemma sample_synchronised: "synchronised sample_library sample_marshal [(7, sample_shown)] = Some [sample_row]"
proof -
  have "rlo_ContentHash (item_locator sample_library sample_marshal (SchemaItem sample_schema)) \<noteq> []"
    using length_hashToken[of "trim_space ''schema''"]
    by (auto simp: resourceLocator_def Let_def ResourceContentHash_def sample_marshal_def)
  then show ?thesis
    by (simp add: synchronised_def SyncCatalog_def catalogHashRecords_eq catalog_items_def sample_shown_def
        upsert_hash_def upsert_row_def row_at_def sample_row_def del: item_locator.simps)
qed

theorem prefix_look_up_is_exact_witness:
  "ResolvePrefix (take ShortShareHashLength (hl_ContentHash sample_row)) (Some [sample_row]) =
     Inr (HashLookupRecord.truncate sample_row) \<and>
   ResolvePrefix ''g'' (Some [sample_row]) = Inl ErrHashLookupNotFound"
proof -
  let ?p = "take ShortShareHashLength (hl_ContentHash sample_row)"
  have k: "stored_hash (hl_ContentHash sample_row)" using synchronised_table[OF sample_synchronised] by simp
  then have "to_lower (trim_space ?p) = ?p \<and> length ?p = 16"
    using stored_hash_fixed(1)[OF k] by (simp add: stored_hash_def ShortShareHashLength_def)
  then have "prefix_matches ?p [sample_row] = {sample_row}"
    by (auto simp: prefix_matches_def Let_def ShortShareHashLength_def)
  moreover have g: "to_lower (trim_space ''g'') = ''g'' \<and> \<not> lower_hex_char (CHR ''g'')" by code_simp
  have "prefix_matches ''g'' [sample_row] = {}"
    using refused_prefix[OF k, of "''g''"] g by (auto simp: prefix_matches_def Let_def)
  ultimately show ?thesis using prefix_look_up_is_exact[OF sample_synchronised] by blast
qed

end
