(* ===== verification/Materializer.thy ===== *)
theory Materializer
  imports Growth_Context Registry_Locators "HOL-Library.AList"
begin

text \<open>
  internal/materializer/service.go: the listing of local and remote realizations, and the materialization
  of one reference from both sources into one stored document. The file system, the clock, the answer of the
  remote registry to a URL, the JSON decoders and encoder, and the texts of errors are parameters; what lies
  below the output root is a map from paths to contents, which \<open>persist\<close> changes.
\<close>

subsection \<open>Types\<close>

record SourceFlags =
  sf_Local :: bool
  sf_Remote :: bool

record RealizationOption =
  ro_Reference :: string
  ro_SeedID :: string
  ro_SeedSummary :: string
  ro_SeedStatus :: string
  ro_RealizationID :: string
  ro_ApproachID :: string
  ro_Summary :: string
  ro_Status :: string
  ro_SurfaceKind :: string
  ro_ContractSummary :: string
  ro_ContractFile :: string
  ro_RuntimeArtifact :: string
  ro_Readiness :: ReadinessInfo
  ro_Sources :: SourceFlags
  ro_Subdomain :: string
  ro_PathPrefix :: string

record FilePreview =
  fp_Path :: string
  fp_Kind :: string
  fp_Preview :: string
  fp_Truncated :: bool
  fp_Source :: string
  fp_ByteLength :: nat

record LocalSource =
  ls_Reference :: string
  ls_SeedID :: string
  ls_SeedSummary :: string
  ls_SeedStatus :: string
  ls_RealizationID :: string
  ls_ApproachID :: string
  ls_Summary :: string
  ls_Status :: string
  ls_SurfaceKind :: string
  ls_ContractSummary :: string
  ls_ContractFile :: string
  ls_RuntimeArtifact :: string
  ls_Readiness :: ReadinessInfo
  ls_RootDir :: string
  ls_Files :: "FilePreview list"

record RemoteSource =
  rs_Reference :: string
  rs_SeedID :: string
  rs_RealizationID :: string
  rs_ApproachID :: string
  rs_Summary :: string
  rs_Status :: string
  rs_RegistryURL :: string
  rs_FetchedAt :: int
  rs_Metadata :: "string json_object"
  rs_Sources :: SourceFlags
  rs_Files :: "FilePreview list"
  rs_Warnings :: "string list"
  rs_Raw :: "string json_object"

record Materialization =
  mz_Reference :: string
  mz_SeedID :: string
  mz_RealizationID :: string
  mz_ApproachID :: string
  mz_Summary :: string
  mz_Status :: string
  mz_GeneratedAt :: int
  mz_Sources :: SourceFlags
  mz_Local :: "LocalSource option"
  mz_Remote :: "RemoteSource option"
  mz_Warnings :: "string list"
  mz_PersistedPath :: string

record RemoteRegistryClient =
  rc_BaseURL :: string

record Materializer_Service =
  sv_RepoRoot :: string
  sv_OutputRoot :: string
  sv_Remote :: "RemoteRegistryClient option"

datatype materialize_error =
    RepoRootRequired
  | ErrReferenceNotFound
  | MatLoad load_error
  | MatRead string io_error
  | RemoteNotConfigured
  | RemoteRequest string
  | RemoteTransport string
  | RemoteStatus nat string
  | RemoteDecode
  | LoadRemoteRealizations materialize_error
  | LoadRemoteMaterialization materialize_error
  | PathEscapesRoot
  | CreateDirectory io_error
  | MarshalFailed
  | WriteFailed io_error

text \<open>
  The parameters: the file system and the working directory, the decoders of the YAML files, the clock, the
  text of an error, the order in which a map is iterated, why no request can be made for a URL (if so), what the
  remote registry answers to it (a transport error, or a status and a body), the decoders of the two remote documents, the encoder of a materialization, and the
  outcome of the system calls that write (a failed write may leave something of the target behind).
\<close>

record materializer_env =
  me_FS :: file_system
  me_WD :: "string option"
  me_Decoders :: decoders
  me_Now :: int
  me_Say :: "materialize_error \<Rightarrow> string"
  me_Order :: "RealizationOption list \<Rightarrow> RealizationOption list"
  me_Request :: "string \<Rightarrow> string option"
  me_Get :: "string \<Rightarrow> string + nat \<times> string"
  me_Options :: "string \<Rightarrow> RealizationOption list option"
  me_Payload :: "string \<Rightarrow> Materialization option"
  me_Marshal :: "Materialization \<Rightarrow> string option"
  me_Mkdir :: "string \<Rightarrow> io_error option"
  me_Write :: "string \<Rightarrow> (io_error \<times> string option) option"

type_synonym disk = "string \<rightharpoonup> string"

definition NewService :: "string \<Rightarrow> RemoteRegistryClient option \<Rightarrow> materialize_error + Materializer_Service" where
  "NewService repoRoot remote =
     (if repoRoot = [] then Inl RepoRootRequired
      else Inr \<lparr>sv_RepoRoot = repoRoot, sv_OutputRoot = join_paths [repoRoot, ''materialized'', ''realizations''],
                sv_Remote = remote\<rparr>)"

subsection \<open>Previews\<close>

definition no_preview :: FilePreview where
  "no_preview =
     \<lparr>fp_Path = [], fp_Kind = [], fp_Preview = [], fp_Truncated = False, fp_Source = [], fp_ByteLength = 0\<rparr>"

definition readPreview ::
  "file_system \<Rightarrow> string \<Rightarrow> string \<Rightarrow> string \<Rightarrow> string \<Rightarrow> materialize_error + FilePreview" where
  "readPreview fs repoRoot path kind source =
     (case fs_Read fs path of
        Inl e \<Rightarrow> Inl (MatRead path e)
      | Inr raw \<Rightarrow>
          (let truncated = (700 < length raw);
               preview = (if truncated then trim_space (take 700 raw) @ [CHR 0x0A] @ ''...'' else raw)
           in Inr \<lparr>fp_Path = relativeOrOriginal repoRoot path, fp_Kind = kind, fp_Preview = trim_space preview,
                   fp_Truncated = truncated, fp_Source = source, fp_ByteLength = length raw\<rparr>))"

definition collectDocPreview ::
  "(materialize_error \<Rightarrow> string) \<Rightarrow> file_system \<Rightarrow> string \<Rightarrow> string \<Rightarrow> string \<Rightarrow> FilePreview" where
  "collectDocPreview say fs repoRoot relativePath kind =
     (if relativePath = [] then no_preview
      else case readPreview fs repoRoot (join_paths [repoRoot, relativePath]) kind ''repo'' of
        Inl e \<Rightarrow> no_preview\<lparr>fp_Path := relativePath, fp_Kind := kind, fp_Preview := say e, fp_Source := ''repo''\<rparr>
      | Inr preview \<Rightarrow> preview)"

definition compactFiles :: "FilePreview list \<Rightarrow> FilePreview list" where
  "compactFiles files = filter (\<lambda>f. \<not> (fp_Path f = [] \<and> fp_Preview f = [])) files"

definition collectRemoteFiles :: "Materialization \<Rightarrow> FilePreview list" where
  "collectRemoteFiles payload =
     compactFiles (map (\<lambda>f. f\<lparr>fp_Source := ''remote''\<rparr>)
       ((case mz_Local payload of None \<Rightarrow> [] | Some l \<Rightarrow> ls_Files l) @
        (case mz_Remote payload of None \<Rightarrow> [] | Some r \<Rightarrow> rs_Files r)))"

text \<open>The loop over the artifacts of the manifest.\<close>

fun artifact_previews ::
  "file_system \<Rightarrow> string option \<Rightarrow> string \<Rightarrow> string \<Rightarrow> string list \<Rightarrow> materialize_error + FilePreview list" where
  "artifact_previews fs wd repoRoot dir [] = Inr []"
| "artifact_previews fs wd repoRoot dir (artifact # artifacts) =
     (let path = join_paths [dir, artifact] in
      if \<not> pathContained wd repoRoot path then artifact_previews fs wd repoRoot dir artifacts
      else and_then (readPreview fs repoRoot path ''artifact'' ''repo'')
        (\<lambda>p. map_sum id (\<lambda>ps. p # ps) (artifact_previews fs wd repoRoot dir artifacts)))"

subsection \<open>The remote registry\<close>

definition query_char :: "char \<Rightarrow> bool" where
  "query_char c \<longleftrightarrow> letter_char c \<or> decimal_char c \<or> c \<in> set ''-_.~''"

definition QueryEscape :: "string \<Rightarrow> string" where
  "QueryEscape s =
     concat (map (\<lambda>c. if query_char c then [c]
                      else if c = CHR '' '' then ''+''
                      else [CHR ''%'', upper_hex (of_char c div 16), upper_hex (of_char c mod 16)]) s)"

definition doJSON ::
  "(string \<Rightarrow> string + nat \<times> string) \<Rightarrow> (string \<Rightarrow> 'a option) \<Rightarrow> string \<Rightarrow> materialize_error + 'a" where
  "doJSON get decode url =
     (case get url of
        Inl e \<Rightarrow> Inl (RemoteTransport e)
      | Inr (status, body) \<Rightarrow>
          if status = 404 then Inl ErrReferenceNotFound
          else if status < 200 \<or> 300 \<le> status then Inl (RemoteStatus status (trim_space (take 2048 body)))
          else (case decode body of None \<Rightarrow> Inl RemoteDecode | Some v \<Rightarrow> Inr v))"

definition remote_list :: "materializer_env \<Rightarrow> RemoteRegistryClient \<Rightarrow> materialize_error + RealizationOption list" where
  "remote_list env c =
     (let url = trim_right_set (rc_BaseURL c) slash @ ''/v1/realizations'' in
      if blank (rc_BaseURL c) then Inl RemoteNotConfigured
      else case me_Request env url of
        Some e \<Rightarrow> Inl (RemoteRequest e)
      | None \<Rightarrow>
          (case doJSON (me_Get env) (me_Options env) url of
             Inl e \<Rightarrow> Inl (LoadRemoteRealizations e)
           | Inr os \<Rightarrow>
               Inr (map (\<lambda>x. x\<lparr>ro_Sources := (ro_Sources x)\<lparr>sf_Remote := True\<rparr>,
                              ro_Reference := NormalizeReference (ro_Reference x)\<rparr>) os)))"

definition sTime :: "int \<Rightarrow> int \<Rightarrow> int" where
  "sTime now v = (if v = 0 then now else v)"

definition GetMaterialization :: "materializer_env \<Rightarrow> RemoteRegistryClient \<Rightarrow> string \<Rightarrow> materialize_error + RemoteSource" where
  "GetMaterialization env c reference =
     (let url = trim_right_set (rc_BaseURL c) slash @ ''/v1/materializations?reference='' @ QueryEscape reference in
      if blank (rc_BaseURL c) then Inl RemoteNotConfigured
      else case me_Request env url of
        Some e \<Rightarrow> Inl (RemoteRequest e)
      | None \<Rightarrow> case doJSON (me_Get env) (me_Payload env) url of
        Inl e \<Rightarrow> Inl (LoadRemoteMaterialization e)
      | Inr p \<Rightarrow>
          Inr \<lparr>rs_Reference = mz_Reference p, rs_SeedID = mz_SeedID p, rs_RealizationID = mz_RealizationID p,
               rs_ApproachID = mz_ApproachID p, rs_Summary = mz_Summary p, rs_Status = mz_Status p,
               rs_RegistryURL = [], rs_FetchedAt = sTime (me_Now env) (mz_GeneratedAt p), rs_Metadata = Map.empty,
               rs_Sources = mz_Sources p, rs_Files = collectRemoteFiles p, rs_Warnings = mz_Warnings p,
               rs_Raw = Map.empty\<rparr>)"

subsection \<open>The listing\<close>

definition fill :: "string \<Rightarrow> string \<Rightarrow> string" where
  "fill a b = (if a = [] then b else a)"

definition local_option :: "LocalRealization \<Rightarrow> RealizationMeta \<Rightarrow> RealizationOption" where
  "local_option entry meta =
     (let m = lr_Manifest entry in
      \<lparr>ro_Reference = lr_Reference entry, ro_SeedID = mf_SeedID m, ro_SeedSummary = rm_SeedSummary meta,
       ro_SeedStatus = rm_SeedStatus meta, ro_RealizationID = mf_RealizationID m, ro_ApproachID = mf_ApproachID m,
       ro_Summary = mf_Summary m, ro_Status = mf_Status m, ro_SurfaceKind = rm_SurfaceKind meta,
       ro_ContractSummary = rm_ContractSummary meta, ro_ContractFile = rm_ContractFile meta,
       ro_RuntimeArtifact = rm_RuntimeArtifact meta, ro_Readiness = rm_Readiness meta,
       ro_Sources = \<lparr>sf_Local = True, sf_Remote = False\<rparr>, ro_Subdomain = mf_Subdomain m,
       ro_PathPrefix = mf_PathPrefix m\<rparr>)"

type_synonym merged = "(string \<times> RealizationOption) list"

fun merge_locals ::
  "(LocalRealization \<Rightarrow> load_error + RealizationMeta) \<Rightarrow> merged \<Rightarrow> LocalRealization list \<Rightarrow> load_error + merged" where
  "merge_locals load merged [] = Inr merged"
| "merge_locals load merged (entry # entries) =
     (case load entry of
        Inl e \<Rightarrow> Inl e
      | Inr meta \<Rightarrow> merge_locals load (AList.update (lr_Reference entry) (local_option entry meta) merged) entries)"

definition merge_remote :: "merged \<Rightarrow> RealizationOption \<Rightarrow> merged" where
  "merge_remote merged entry =
     (let key = ro_Reference entry;
          found = (case map_of merged key of None \<Rightarrow> entry | Some x \<Rightarrow> if ro_Reference x = [] then entry else x)
      in AList.update key
           (found\<lparr>ro_SeedID := fill (ro_SeedID found) (ro_SeedID entry),
                  ro_RealizationID := fill (ro_RealizationID found) (ro_RealizationID entry),
                  ro_ApproachID := fill (ro_ApproachID found) (ro_ApproachID entry),
                  ro_Summary := fill (ro_Summary found) (ro_Summary entry),
                  ro_Status := fill (ro_Status found) (ro_Status entry),
                  ro_Reference := key,
                  ro_Sources := (ro_Sources found)\<lparr>sf_Remote := True\<rparr>\<rparr>) merged)"

definition option_key :: "RealizationOption \<Rightarrow> asc_asc" where
  "option_key x = AscAsc (ro_SeedID x) (ro_RealizationID x)"

definition ListRealizations :: "materializer_env \<Rightarrow> Materializer_Service \<Rightarrow> materialize_error + RealizationOption list" where
  "ListRealizations env s =
     (case Discover (me_FS env) (dec_Manifest (me_Decoders env)) (sv_RepoRoot s) of
        Inl e \<Rightarrow> Inl (MatLoad e)
      | Inr entries \<Rightarrow>
          (case merge_locals (LoadRealizationMeta (me_FS env) (me_WD env) (me_Decoders env) (sv_RepoRoot s)) [] entries of
             Inl e \<Rightarrow> Inl (MatLoad e)
           | Inr merged \<Rightarrow>
               (let merged = (case sv_Remote s of
                     None \<Rightarrow> merged
                   | Some c \<Rightarrow> (case remote_list env c of Inl _ \<Rightarrow> merged | Inr es \<Rightarrow> foldl merge_remote merged es))
                in Inr (sort_key option_key
                     (filter (\<lambda>x. ro_Reference x \<noteq> []) (me_Order env (map snd merged)))))))"

subsection \<open>One materialization\<close>

definition localSource :: "materializer_env \<Rightarrow> string \<Rightarrow> LocalRealization \<Rightarrow> materialize_error + LocalSource" where
  "localSource env repoRoot entry =
     (case LoadRealizationMeta (me_FS env) (me_WD env) (me_Decoders env) repoRoot entry of
        Inl e \<Rightarrow> Inl (MatLoad e)
      | Inr meta \<Rightarrow>
          (let m = lr_Manifest entry in
           map_sum id
             (\<lambda>artifacts.
                \<lparr>ls_Reference = lr_Reference entry, ls_SeedID = mf_SeedID m, ls_SeedSummary = rm_SeedSummary meta,
                 ls_SeedStatus = rm_SeedStatus meta, ls_RealizationID = mf_RealizationID m,
                 ls_ApproachID = mf_ApproachID m, ls_Summary = mf_Summary m, ls_Status = mf_Status m,
                 ls_SurfaceKind = rm_SurfaceKind meta, ls_ContractSummary = rm_ContractSummary meta,
                 ls_ContractFile = rm_ContractFile meta, ls_RuntimeArtifact = rm_RuntimeArtifact meta,
                 ls_Readiness = rm_Readiness meta, ls_RootDir = relativeOrOriginal repoRoot (lr_RootDir entry),
                 ls_Files = compactFiles
                   (collectDocPreview (me_Say env) (me_FS env) repoRoot (lr_Readme entry) ''readme'' #
                    collectDocPreview (me_Say env) (me_FS env) repoRoot (lr_Notes entry) ''notes'' # artifacts)\<rparr>)
             (artifact_previews (me_FS env) (me_WD env) repoRoot (lr_RootDir entry) (mf_Artifacts m))))"

definition adoptLocalSummary :: "Materialization \<Rightarrow> LocalSource \<Rightarrow> Materialization" where
  "adoptLocalSummary result source =
     result\<lparr>mz_SeedID := fill (mz_SeedID result) (ls_SeedID source),
            mz_RealizationID := fill (mz_RealizationID result) (ls_RealizationID source),
            mz_ApproachID := fill (mz_ApproachID result) (ls_ApproachID source),
            mz_Summary := fill (mz_Summary result) (ls_Summary source),
            mz_Status := fill (mz_Status result) (ls_Status source)\<rparr>"

definition adoptRemoteSummary :: "Materialization \<Rightarrow> RemoteSource \<Rightarrow> Materialization" where
  "adoptRemoteSummary result source =
     result\<lparr>mz_SeedID := fill (mz_SeedID result) (rs_SeedID source),
            mz_RealizationID := fill (mz_RealizationID result) (rs_RealizationID source),
            mz_ApproachID := fill (mz_ApproachID result) (rs_ApproachID source),
            mz_Summary := fill (mz_Summary result) (rs_Summary source),
            mz_Status := fill (mz_Status result) (rs_Status source)\<rparr>"

definition empty_materialization :: "string \<Rightarrow> int \<Rightarrow> Materialization" where
  "empty_materialization reference now =
     \<lparr>mz_Reference = reference, mz_SeedID = fst (SplitReference reference),
      mz_RealizationID = snd (SplitReference reference), mz_ApproachID = [], mz_Summary = [], mz_Status = [],
      mz_GeneratedAt = now, mz_Sources = \<lparr>sf_Local = False, sf_Remote = False\<rparr>, mz_Local = None, mz_Remote = None,
      mz_Warnings = [], mz_PersistedPath = []\<rparr>"

definition with_local :: "materializer_env \<Rightarrow> string \<Rightarrow> LocalRealization option \<Rightarrow> Materialization \<Rightarrow> Materialization" where
  "with_local env repoRoot found result =
     (case found of
        None \<Rightarrow> result
      | Some entry \<Rightarrow>
          (case localSource env repoRoot entry of
             Inl e \<Rightarrow> result\<lparr>mz_Warnings := mz_Warnings result @ [me_Say env e]\<rparr>
           | Inr source \<Rightarrow>
               adoptLocalSummary
                 (result\<lparr>mz_Local := Some source, mz_Sources := (mz_Sources result)\<lparr>sf_Local := True\<rparr>\<rparr>) source))"

definition with_remote :: "materializer_env \<Rightarrow> RemoteRegistryClient option \<Rightarrow> string \<Rightarrow> Materialization \<Rightarrow> Materialization" where
  "with_remote env remote reference result =
     (case remote of
        None \<Rightarrow> result
      | Some c \<Rightarrow>
          (case GetMaterialization env c reference of
             Inl e \<Rightarrow> result\<lparr>mz_Warnings := mz_Warnings result @ [me_Say env e]\<rparr>
           | Inr r \<Rightarrow>
               if rs_Reference r = [] then result
               else (let r = r\<lparr>rs_RegistryURL := rc_BaseURL c\<rparr> in
                     adoptRemoteSummary
                       (result\<lparr>mz_Remote := Some r, mz_Sources := (mz_Sources result)\<lparr>sf_Remote := True\<rparr>\<rparr>) r)))"

definition persist :: "materializer_env \<Rightarrow> Materializer_Service \<Rightarrow> Materialization \<Rightarrow> disk \<Rightarrow> (materialize_error + string) \<times> disk" where
  "persist env s m disk =
     (let dir = join_paths [sv_OutputRoot s, mz_SeedID m, mz_RealizationID m];
          target = join_paths [dir, ''materialization.json'']
      in if \<not> pathContained (me_WD env) (sv_OutputRoot s) dir then (Inl PathEscapesRoot, disk)
         else case me_Mkdir env dir of
           Some e \<Rightarrow> (Inl (CreateDirectory e), disk)
         | None \<Rightarrow>
             (case me_Marshal env m of
                None \<Rightarrow> (Inl MarshalFailed, disk)
              | Some payload \<Rightarrow>
                  (case me_Write env target of
                     Some (e, left) \<Rightarrow> (Inl (WriteFailed e), disk(target := left))
                   | None \<Rightarrow>
                       (Inr (relativeOrOriginal (sv_RepoRoot s) target), disk(target \<mapsto> payload @ [CHR 0x0A])))))"

definition Materialize ::
  "materializer_env \<Rightarrow> Materializer_Service \<Rightarrow> string \<Rightarrow> disk \<Rightarrow> (materialize_error + Materialization) \<times> disk" where
  "Materialize env s reference disk =
     (let reference = NormalizeReference reference in
      if reference = [] then (Inl ErrReferenceNotFound, disk)
      else case Discover (me_FS env) (dec_Manifest (me_Decoders env)) (sv_RepoRoot s) of
        Inl e \<Rightarrow> (Inl (MatLoad e), disk)
      | Inr entries \<Rightarrow>
          (let result = with_remote env (sv_Remote s) reference
                 (with_local env (sv_RepoRoot s) (ResolveByReference entries reference)
                   (empty_materialization reference (me_Now env)))
           in if \<not> sf_Local (mz_Sources result) \<and> \<not> sf_Remote (mz_Sources result)
              then (Inl ErrReferenceNotFound, disk)
              else case persist env s result disk of
                (Inl e, d) \<Rightarrow> (Inl e, d)
              | (Inr path, d) \<Rightarrow> (Inr (result\<lparr>mz_PersistedPath := path\<rparr>), d)))"

end
