(* ===== verification/Materializer_Properties.thy ===== *)
theory Materializer_Properties
  imports Materializer
begin

text \<open>
  What the materializer promises: what it writes lies below its output root and is what it returns; what the
  listing says of a local realization comes from the repository, whatever the remote registry says; and what
  it says of a realization that only the remote registry has.
\<close>

subsection \<open>Where a materialization is written\<close>

lemma join_abs: "is_abs r \<Longrightarrow> is_abs (join_paths (r # es))"
proof -
  assume "is_abs r"
  then obtain r' where r: "r = CHR ''/'' # r'" by (auto simp: is_abs_def prefix_def)
  have "\<exists>w. join_with slash (r # es) = CHR ''/'' # w" by (cases es) (simp_all add: r)
  then show ?thesis by (auto simp: join_paths_def r)
qed

definition persist_target :: "Materializer_Service \<Rightarrow> Materialization \<Rightarrow> string" where
  "persist_target s m =
     join_paths [join_paths [sv_OutputRoot s, mz_SeedID m, mz_RealizationID m], ''materialization.json'']"

lemma persist_cases:
  assumes "persist env s m disk = (r, disk')"
  shows "disk' = disk \<and> (\<exists>e. r = Inl e) \<or>
    pathContained (me_WD env) (sv_OutputRoot s) (join_paths [sv_OutputRoot s, mz_SeedID m, mz_RealizationID m]) \<and>
    ((\<exists>e left. r = Inl e \<and> disk' = disk(persist_target s m := left)) \<or>
     (\<exists>payload. me_Marshal env m = Some payload \<and> r = Inr (relativeOrOriginal (sv_RepoRoot s) (persist_target s m)) \<and>
        disk' = disk(persist_target s m \<mapsto> payload @ [CHR 0x0A])))"
  using assms
  by (auto simp: persist_def persist_target_def Let_def split: if_splits option.splits)

lemma persist_target_inside:
  assumes "is_abs (sv_OutputRoot s)" "clean_comps True (sv_OutputRoot s) \<noteq> []"
    and "pathContained wd (sv_OutputRoot s) (join_paths [sv_OutputRoot s, mz_SeedID m, mz_RealizationID m])"
  shows "PathContained wd (sv_OutputRoot s) (persist_target s m) \<and>
    last (clean_comps True (persist_target s m)) = ''materialization.json''"
proof -
  let ?out = "sv_OutputRoot s" and ?dir = "join_paths [sv_OutputRoot s, mz_SeedID m, mz_RealizationID m]"
  have d: "is_abs ?dir" by (rule join_abs[OF assms(1)])
  have t: "is_abs (persist_target s m)" unfolding persist_target_def by (rule join_abs[OF d])
  from assms have b: "below (clean_comps True ?out) (clean_comps True ?dir)"
    by (simp add: pathContained_eq PathContained_iff d)
  have c: "clean_comps True (persist_target s m) = clean_comps True ?dir @ [''materialization.json'']"
    unfolding persist_target_def using join_comps[OF d, of "[''materialization.json'']"]
    by (simp add: proper_comp_def)
  from b c assms(2) have "below (clean_comps True ?out) (clean_comps True (persist_target s m))"
    by (simp add: below_def)
  then show ?thesis by (simp add: PathContained_iff assms(1) t c)
qed

text \<open>The result before it is stored.\<close>

definition gathered :: "materializer_env \<Rightarrow> Materializer_Service \<Rightarrow> LocalRealization list \<Rightarrow> string \<Rightarrow> Materialization" where
  "gathered env s entries reference =
     with_remote env (sv_Remote s) (NormalizeReference reference)
       (with_local env (sv_RepoRoot s) (ResolveByReference entries (NormalizeReference reference))
          (empty_materialization (NormalizeReference reference) (me_Now env)))"

lemma Materialize_cases:
  assumes "Materialize env s reference disk = (r, disk')"
  shows "disk' = disk \<and> (\<exists>e. r = Inl e) \<or>
    (\<exists>entries. Discover (me_FS env) (dec_Manifest (me_Decoders env)) (sv_RepoRoot s) = Inr entries \<and>
       (sf_Local (mz_Sources (gathered env s entries reference)) \<or> sf_Remote (mz_Sources (gathered env s entries reference))) \<and>
       (\<exists>r'. persist env s (gathered env s entries reference) disk = (r', disk') \<and>
          r = map_sum id (\<lambda>path. (gathered env s entries reference)\<lparr>mz_PersistedPath := path\<rparr>) r'))"
  using assms
  by (auto simp: Materialize_def gathered_def Let_def split: if_splits sum.splits prod.splits)

lemma persist_writes:
  assumes "persist env s m disk = (r, disk')" "is_abs (sv_OutputRoot s)" "clean_comps True (sv_OutputRoot s) \<noteq> []"
  shows "disk' = disk \<or> (\<exists>target content. disk' = disk(target := content) \<and>
    PathContained (me_WD env) (sv_OutputRoot s) target \<and> last (clean_comps True target) = ''materialization.json'')"
  using persist_cases[OF assms(1)] persist_target_inside[OF assms(2,3), of "me_WD env" m] by auto

text \<open>C37: Whatever the reference, the remote registry and the failures of the system calls are, materializing changes
  at most one file: a \<open>materialization.json\<close> inside the directory \<open>materialized/realizations\<close> of the repository.\<close>

theorem materialization_stays_inside:
  assumes "NewService root remote = Inr s" "is_abs root"
  shows "snd (Materialize env s reference disk) = disk \<or>
    (\<exists>target content. snd (Materialize env s reference disk) = disk(target := content) \<and>
       PathContained (me_WD env) (join_paths [root, ''materialized'', ''realizations'']) target \<and>
       last (clean_comps True target) = ''materialization.json'')"
proof -
  have out: "sv_OutputRoot s = join_paths [root, ''materialized'', ''realizations'']"
    using assms(1) by (auto simp: NewService_def split: if_splits)
  have "root \<noteq> []" using assms(2) by (auto simp: is_abs_def)
  then have "sv_OutputRoot s = join_paths [root, ''materialized/realizations'']" by (simp add: out join_paths_def)
  then have "clean_comps True (sv_OutputRoot s) \<noteq> []"
    using join_comps[OF assms(2), of "[''materialized'', ''realizations'']"] by (simp add: proper_comp_def)
  moreover have "is_abs (sv_OutputRoot s)" unfolding out by (rule join_abs[OF assms(2)])
  moreover obtain r disk' where m: "Materialize env s reference disk = (r, disk')" by fastforce
  ultimately show ?thesis
    using Materialize_cases[OF m] persist_writes[of env s _ disk _ disk'] unfolding out[symmetric] by auto
qed

subsection \<open>What a materialization says\<close>

lemma with_local_fields:
  "mz_Reference (with_local env root found m) = mz_Reference m"
  "mz_Remote (with_local env root found m) = mz_Remote m"
  "sf_Remote (mz_Sources (with_local env root found m)) = sf_Remote (mz_Sources m)"
  "mz_GeneratedAt (with_local env root found m) = mz_GeneratedAt m"
  "mz_PersistedPath (with_local env root found m) = mz_PersistedPath m"
  by (auto simp: with_local_def adoptLocalSummary_def split: option.split sum.split)

lemma with_remote_fields:
  "mz_Reference (with_remote env c ref m) = mz_Reference m"
  "mz_Local (with_remote env c ref m) = mz_Local m"
  "sf_Local (mz_Sources (with_remote env c ref m)) = sf_Local (mz_Sources m)"
  "mz_GeneratedAt (with_remote env c ref m) = mz_GeneratedAt m"
  "mz_PersistedPath (with_remote env c ref m) = mz_PersistedPath m"
  by (auto simp: with_remote_def adoptRemoteSummary_def Let_def split: option.split sum.split)

text \<open>The local source of a reference, if there is one and its documents can be read.\<close>

definition local_of :: "materializer_env \<Rightarrow> string \<Rightarrow> LocalRealization list \<Rightarrow> string \<Rightarrow> LocalSource option" where
  "local_of env repoRoot entries reference =
     (case ResolveByReference entries (NormalizeReference reference) of
        None \<Rightarrow> None
      | Some entry \<Rightarrow> (case localSource env repoRoot entry of Inl _ \<Rightarrow> None | Inr l \<Rightarrow> Some l))"

lemma gathered_sources:
  "mz_Local (gathered env s entries reference) = local_of env (sv_RepoRoot s) entries reference"
  "sf_Local (mz_Sources (gathered env s entries reference)) \<longleftrightarrow> mz_Local (gathered env s entries reference) \<noteq> None"
  "sf_Remote (mz_Sources (gathered env s entries reference)) \<longleftrightarrow> mz_Remote (gathered env s entries reference) \<noteq> None"
proof -
  let ?l = "with_local env (sv_RepoRoot s) (ResolveByReference entries (NormalizeReference reference))
      (empty_materialization (NormalizeReference reference) (me_Now env))"
  have l: "mz_Local ?l = local_of env (sv_RepoRoot s) entries reference"
    "sf_Local (mz_Sources ?l) \<longleftrightarrow> mz_Local ?l \<noteq> None" "mz_Remote ?l = None" "\<not> sf_Remote (mz_Sources ?l)"
    by (auto simp: with_local_def empty_materialization_def adoptLocalSummary_def local_of_def split: option.split sum.split)
  then show "mz_Local (gathered env s entries reference) = local_of env (sv_RepoRoot s) entries reference"
    "sf_Local (mz_Sources (gathered env s entries reference)) \<longleftrightarrow> mz_Local (gathered env s entries reference) \<noteq> None"
    by (simp_all add: gathered_def with_remote_fields)
  from l(3,4) show "sf_Remote (mz_Sources (gathered env s entries reference)) \<longleftrightarrow> mz_Remote (gathered env s entries reference) \<noteq> None"
    by (auto simp: gathered_def with_remote_def adoptRemoteSummary_def Let_def split: option.split sum.split)
qed

text \<open>C38: A materialization that is returned is the one that is stored: the file of its seed and realization holds
  its encoding (without the path, which is only known afterwards) and a line feed, and no other file changes.
  It has at least one source, its flags say exactly which, and its local part is what the repository gives for
  the normalised reference.
\<close>

theorem materialization_is_stored:
  assumes "Materialize env s reference disk = (Inr m, disk')"
  shows "\<exists>entries payload.
    Discover (me_FS env) (dec_Manifest (me_Decoders env)) (sv_RepoRoot s) = Inr entries \<and>
    mz_Reference m = NormalizeReference reference \<and> mz_Local m = local_of env (sv_RepoRoot s) entries reference \<and>
    mz_Sources m = \<lparr>sf_Local = (mz_Local m \<noteq> None), sf_Remote = (mz_Remote m \<noteq> None)\<rparr> \<and>
    \<not> (mz_Local m = None \<and> mz_Remote m = None) \<and>
    me_Marshal env (m\<lparr>mz_PersistedPath := []\<rparr>) = Some payload \<and>
    disk' = disk(persist_target s m \<mapsto> payload @ [CHR 0x0A]) \<and>
    mz_PersistedPath m = relativeOrOriginal (sv_RepoRoot s) (persist_target s m)"
proof -
  from Materialize_cases[OF assms] obtain entries path where
    d: "Discover (me_FS env) (dec_Manifest (me_Decoders env)) (sv_RepoRoot s) = Inr entries" and
    src: "sf_Local (mz_Sources (gathered env s entries reference)) \<or> sf_Remote (mz_Sources (gathered env s entries reference))" and
    p: "persist env s (gathered env s entries reference) disk = (Inr path, disk')" and
    m: "m = (gathered env s entries reference)\<lparr>mz_PersistedPath := path\<rparr>"
    by (auto simp: map_sum_Inr dest!: sym[of "Inr m"])
  let ?g = "gathered env s entries reference"
  from persist_cases[OF p] obtain payload where
    j: "me_Marshal env ?g = Some payload" and path: "path = relativeOrOriginal (sv_RepoRoot s) (persist_target s ?g)" and
    disk: "disk' = disk(persist_target s ?g \<mapsto> payload @ [CHR 0x0A])" by auto
  have g: "mz_PersistedPath ?g = []" "mz_Reference ?g = NormalizeReference reference"
    by (simp_all add: gathered_def with_remote_fields with_local_fields empty_materialization_def)
  have eq: "m\<lparr>mz_PersistedPath := []\<rparr> = ?g" using m g(1) by simp
  have f: "mz_Local m = mz_Local ?g" "mz_Remote m = mz_Remote ?g" "mz_Sources m = mz_Sources ?g"
    "mz_Reference m = mz_Reference ?g" "mz_PersistedPath m = path" "persist_target s m = persist_target s ?g"
    by (simp_all add: m persist_target_def)
  have flags: "mz_Sources ?g = \<lparr>sf_Local = (mz_Local ?g \<noteq> None), sf_Remote = (mz_Remote ?g \<noteq> None)\<rparr>"
    using gathered_sources(2,3)[of env s entries reference] by (cases "mz_Sources ?g") simp
  have some: "\<not> (mz_Local ?g = None \<and> mz_Remote ?g = None)"
    using src gathered_sources(2,3)[of env s entries reference] by blast
  show ?thesis
    unfolding f eq using d g(2) gathered_sources(1)[of env s entries reference] flags some j disk path by blast
qed

subsection \<open>What the listing says\<close>

definition merged_ok :: "merged \<Rightarrow> bool" where
  "merged_ok merged \<longleftrightarrow> distinct (map fst merged) \<and> (\<forall>k x. map_of merged k = Some x \<longrightarrow> ro_Reference x = k)"

lemma merged_ok_update: "merged_ok merged \<Longrightarrow> ro_Reference x = k \<Longrightarrow> merged_ok (AList.update k x merged)"
  by (simp add: merged_ok_def distinct_update update_conv')

lemma merge_remote_ok: "merged_ok merged \<Longrightarrow> merged_ok (merge_remote merged entry)"
  by (simp add: merge_remote_def Let_def merged_ok_update)

lemma merged_member:
  assumes "merged_ok merged"
  shows "x \<in> set (map snd merged) \<longleftrightarrow> map_of merged (ro_Reference x) = Some x"
proof
  assume "x \<in> set (map snd merged)"
  then obtain k where "(k, x) \<in> set merged" by auto
  then have "map_of merged k = Some x" using assms by (simp add: merged_ok_def)
  with assms show "map_of merged (ro_Reference x) = Some x" by (simp add: merged_ok_def)
next
  assume "map_of merged (ro_Reference x) = Some x"
  from map_of_SomeD[OF this] show "x \<in> set (map snd merged)" by force
qed

lemma merged_references: "merged_ok merged \<Longrightarrow> map ro_Reference (map snd merged) = map fst merged"
  by (auto simp: merged_ok_def)

text \<open>What an option takes over from the entries of the remote registry with its reference: blanks, and the flag.\<close>

fun first_of :: "string list \<Rightarrow> string" where
  "first_of [] = []"
| "first_of (a # as) = (if a = [] then first_of as else a)"

definition filled :: "RealizationOption \<Rightarrow> RealizationOption list \<Rightarrow> RealizationOption" where
  "filled x rs =
     x\<lparr>ro_SeedID := first_of (ro_SeedID x # map ro_SeedID rs),
       ro_RealizationID := first_of (ro_RealizationID x # map ro_RealizationID rs),
       ro_ApproachID := first_of (ro_ApproachID x # map ro_ApproachID rs),
       ro_Summary := first_of (ro_Summary x # map ro_Summary rs),
       ro_Status := first_of (ro_Status x # map ro_Status rs),
       ro_Sources := (ro_Sources x)\<lparr>sf_Remote := sf_Remote (ro_Sources x) \<or> rs \<noteq> []\<rparr>\<rparr>"

text \<open>
  The option of a reference: the local one, the last if there are several, or else the first remote one, filled
  from all remote ones.
\<close>

definition listed_option :: "string \<Rightarrow> RealizationOption list \<Rightarrow> RealizationOption list \<Rightarrow> RealizationOption option" where
  "listed_option ref locals remotes =
     (let rs = filter (\<lambda>x. ro_Reference x = ref) remotes in
      case filter (\<lambda>x. ro_Reference x = ref) locals of
        [] \<Rightarrow> (case rs of [] \<Rightarrow> None | r # _ \<Rightarrow> Some (filled r rs))
      | ls \<Rightarrow> Some (filled (last ls) rs))"

lemma filled_Nil [simp]: "filled x [] = x"
  by (cases x; cases "ro_Sources x") (auto simp: filled_def)

text \<open>One entry of the remote registry, seen at one reference.\<close>

lemma filled_one:
  assumes "ro_Reference x = k"
  shows "x\<lparr>ro_SeedID := fill (ro_SeedID x) (ro_SeedID e), ro_RealizationID := fill (ro_RealizationID x) (ro_RealizationID e),
      ro_ApproachID := fill (ro_ApproachID x) (ro_ApproachID e), ro_Summary := fill (ro_Summary x) (ro_Summary e),
      ro_Status := fill (ro_Status x) (ro_Status e), ro_Reference := k, ro_Sources := (ro_Sources x)\<lparr>sf_Remote := True\<rparr>\<rparr> =
    filled x [e]"
  using assms by (cases x) (simp add: filled_def fill_def)

lemma merge_remote_at:
  assumes "merged_ok merged" "k \<noteq> []"
  shows "map_of (merge_remote merged e) k =
    (if ro_Reference e \<noteq> k then map_of merged k
     else Some (filled (case map_of merged k of None \<Rightarrow> e | Some x \<Rightarrow> x) [e]))"
proof (cases "ro_Reference e = k")
  case True
  show ?thesis
  proof (cases "map_of merged k")
    case None
    with True show ?thesis by (simp add: merge_remote_def Let_def update_conv' filled_one)
  next
    case (Some x)
    then have x: "ro_Reference x = k" using assms(1) by (simp add: merged_ok_def)
    with True Some assms(2) show ?thesis
      by (simp add: merge_remote_def Let_def update_conv' filled_one[OF x])
  qed
next
  case False
  then show ?thesis by (simp add: merge_remote_def Let_def update_conv')
qed

lemma filled_twice: "filled (filled x [e]) rs = filled x (e # rs)"
  by (simp add: filled_def)

lemma merge_remotes_at:
  assumes "merged_ok merged" "k \<noteq> []"
  shows "map_of (foldl merge_remote merged es) k =
    (let rs = filter (\<lambda>x. ro_Reference x = k) es in
     case map_of merged k of None \<Rightarrow> (case rs of [] \<Rightarrow> None | r # _ \<Rightarrow> Some (filled r rs)) | Some x \<Rightarrow> Some (filled x rs))"
  using assms
proof (induction es arbitrary: merged)
  case Nil
  then show ?case by (simp split: option.split)
next
  case (Cons e es)
  show ?case
    using Cons.IH[OF merge_remote_ok[OF Cons.prems(1), of e] Cons.prems(2)]
    by (auto simp: merge_remote_at[OF Cons.prems] filled_twice Let_def split: option.split)
qed

lemma merge_remotes_ok: "merged_ok merged \<Longrightarrow> merged_ok (foldl merge_remote merged es)"
  by (induction es arbitrary: merged) (simp_all add: merge_remote_ok)

lemma merge_locals_at:
  assumes "merge_locals load merged entries = Inr merged'" "merged_ok merged"
  shows "merged_ok merged' \<and> (\<forall>e\<in>set entries. \<exists>meta. load e = Inr meta) \<and>
    (\<forall>k. map_of merged' k =
      (case filter (\<lambda>x. ro_Reference x = k) (map (\<lambda>e. local_option e (projr (load e))) entries) of
         [] \<Rightarrow> map_of merged k | ls \<Rightarrow> Some (last ls)))"
  using assms
proof (induction entries arbitrary: merged)
  case (Cons e es)
  then obtain meta where l: "load e = Inr meta" by (auto split: sum.splits)
  have ref: "ro_Reference (local_option e meta) = lr_Reference e" by (simp add: local_option_def Let_def)
  have "merged_ok (AList.update (lr_Reference e) (local_option e meta) merged)"
    by (rule merged_ok_update[OF Cons.prems(2) ref])
  with Cons l ref show ?case by (auto simp: update_conv' split: list.splits)
qed simp

definition remote_entries :: "materializer_env \<Rightarrow> Materializer_Service \<Rightarrow> RealizationOption list" where
  "remote_entries env s =
     (case sv_Remote s of None \<Rightarrow> [] | Some c \<Rightarrow> (case remote_list env c of Inl _ \<Rightarrow> [] | Inr es \<Rightarrow> es))"

definition local_options :: "materializer_env \<Rightarrow> Materializer_Service \<Rightarrow> LocalRealization list \<Rightarrow> RealizationOption list" where
  "local_options env s entries =
     map (\<lambda>e. local_option e (projr
       (LoadRealizationMeta (me_FS env) (me_WD env) (me_Decoders env) (sv_RepoRoot s) e))) entries"

lemma listing:
  assumes "ListRealizations env s = Inr os" "\<forall>xs. mset (me_Order env xs) = mset xs"
    and "Discover (me_FS env) (dec_Manifest (me_Decoders env)) (sv_RepoRoot s) = Inr entries"
  shows "(\<forall>e\<in>set entries. \<exists>meta. LoadRealizationMeta (me_FS env) (me_WD env) (me_Decoders env) (sv_RepoRoot s) e = Inr meta) \<and>
    sorted (map option_key os) \<and> distinct (map ro_Reference os) \<and>
    (\<forall>x. x \<in> set os \<longleftrightarrow> ro_Reference x \<noteq> [] \<and>
       listed_option (ro_Reference x) (local_options env s entries) (remote_entries env s) = Some x)"
proof -
  let ?load = "LoadRealizationMeta (me_FS env) (me_WD env) (me_Decoders env) (sv_RepoRoot s)"
  from assms(1,3) obtain merged where ml: "merge_locals ?load [] entries = Inr merged"
    by (auto simp: ListRealizations_def split: sum.splits)
  let ?m = "foldl merge_remote merged (remote_entries env s)"
  have os: "os = sort_key option_key (filter (\<lambda>x. ro_Reference x \<noteq> []) (me_Order env (map snd ?m)))"
    using assms(1,3) ml by (auto simp: ListRealizations_def remote_entries_def Let_def split: option.splits sum.splits)
  have "merged_ok []" by (simp add: merged_ok_def)
  note locals = merge_locals_at[OF ml this]
  then have ok: "merged_ok merged" and okm: "merged_ok ?m" using merge_remotes_ok by blast+
  have at: "map_of ?m k = listed_option k (local_options env s entries) (remote_entries env s)" if "k \<noteq> []" for k
    using locals merge_remotes_at[OF ok that, of "remote_entries env s"]
    by (simp add: listed_option_def local_options_def Let_def split: list.split)
  have perm: "mset (me_Order env (map snd ?m)) = mset (map snd ?m)" using assms(2) by blast
  have "x \<in> set (map snd ?m) \<longleftrightarrow> map_of ?m (ro_Reference x) = Some x" for x
    using okm by (rule merged_member)
  moreover have "distinct (map ro_Reference os)"
  proof -
    have "mset (map ro_Reference (me_Order env (map snd ?m))) = mset (map fst ?m)"
      using perm merged_references[OF okm] by (metis mset_map)
    moreover have "distinct (map fst ?m)" using okm by (simp add: merged_ok_def)
    ultimately have "distinct (map ro_Reference (me_Order env (map snd ?m)))" by (metis mset_eq_imp_distinct_iff)
    then show ?thesis by (auto simp: os distinct_map intro: inj_on_subset)
  qed
  moreover have "set (me_Order env (map snd ?m)) = set (map snd ?m)" using perm by (rule mset_eq_setD)
  ultimately have "x \<in> set os \<longleftrightarrow> ro_Reference x \<noteq> [] \<and> map_of ?m (ro_Reference x) = Some x" for x
    by (auto simp: os)
  moreover have "sorted (map option_key os)" by (simp add: os)
  ultimately show ?thesis using locals at \<open>distinct (map ro_Reference os)\<close> by (simp cong: conj_cong)
qed

text \<open>C39: The listing is the merge of the two sources, and nothing else: it has one option for each non-empty reference
  that a local realization or an entry of the remote registry has, sorted by seed and realization. Where there is a
  local realization it is the option of the local one: the remote entries only fill its seed, realization, approach,
  summary and status where these are empty, the first non-empty value winning, and set the flag of the remote source.
  Where there is none it is the first remote entry with the reference, filled in the same way.\<close>

theorem listing_is_the_merge:
  assumes "ListRealizations env s = Inr os" "\<forall>xs. mset (me_Order env xs) = mset xs"
    and "Discover (me_FS env) (dec_Manifest (me_Decoders env)) (sv_RepoRoot s) = Inr entries"
  shows "(\<forall>e\<in>set entries. \<exists>meta. LoadRealizationMeta (me_FS env) (me_WD env) (me_Decoders env) (sv_RepoRoot s) e = Inr meta) \<and>
    sorted (map option_key os) \<and> distinct (map ro_Reference os) \<and>
    (\<forall>x. x \<in> set os \<longleftrightarrow> ro_Reference x \<noteq> [] \<and>
       listed_option (ro_Reference x) (local_options env s entries) (remote_entries env s) = Some x)"
  using assms by (rule listing)

text \<open>C40: What only the remote registry has is listed as local whenever the remote says so of itself: for every reference
  of a remote entry that no local realization has, whatever else is in the repository and in the remote listing, the
  option has the local flag of the first remote entry with that reference, and the remote flag.\<close>

theorem remote_entry_is_shown_as_local:
  assumes "ListRealizations env s = Inr os" "\<forall>xs. mset (me_Order env xs) = mset xs"
    and "Discover (me_FS env) (dec_Manifest (me_Decoders env)) (sv_RepoRoot s) = Inr entries"
    and "sv_Remote s = Some c" "remote_list env c = Inr es" "filter (\<lambda>x. ro_Reference x = ref) es = r # rs" "ref \<noteq> []"
    and "ref \<notin> lr_Reference ` set entries"
  shows "\<exists>x\<in>set os. ro_Reference x = ref \<and> sf_Local (ro_Sources x) = sf_Local (ro_Sources r) \<and> sf_Remote (ro_Sources x)"
proof -
  have "ro_Reference r = ref" using arg_cong[OF assms(6), of set] by auto
  then have ref: "ro_Reference (filled r (r # rs)) = ref" by (simp add: filled_def)
  have "filter (\<lambda>x. ro_Reference x = ref) (local_options env s entries) = []"
    using assms(8) by (auto simp: local_options_def local_option_def Let_def filter_empty_conv)
  then have "listed_option ref (local_options env s entries) (remote_entries env s) = Some (filled r (r # rs))"
    using assms(4-6) by (simp add: listed_option_def remote_entries_def)
  with listing[OF assms(1-3)] ref assms(7) have "filled r (r # rs) \<in> set os" by metis
  with ref show ?thesis by (intro bexI[of _ "filled r (r # rs)"]) (simp_all add: filled_def)
qed

subsection \<open>A repository with one realization\<close>

definition sample_materializer :: materializer_env where
  "sample_materializer =
     \<lparr>me_FS = growth_fs, me_WD = None, me_Decoders = growth_decoders, me_Now = 5, me_Say = (\<lambda>_. ''error''),
      me_Order = (\<lambda>xs. xs), me_Request = (\<lambda>_. None), me_Get = (\<lambda>_. Inl ''down''), me_Options = (\<lambda>_. None),
      me_Payload = (\<lambda>_. None), me_Marshal = (\<lambda>_. Some ''{}''), me_Mkdir = (\<lambda>_. None), me_Write = (\<lambda>_. None)\<rparr>"

definition sample_service :: Materializer_Service where
  "sample_service = \<lparr>sv_RepoRoot = ''/r'', sv_OutputRoot = ''/r/materialized/realizations'', sv_Remote = None\<rparr>"

definition sample_target :: string where
  "sample_target = ''/r/materialized/realizations/s/x/materialization.json''"

lemma sample_entry_source:
  assumes "lr_RootDir e = ''/r/s/x''" "lr_Manifest e = sample_manifest"
  shows "\<exists>meta l. LoadRealizationMeta growth_fs None growth_decoders ''/r'' e = Inr meta \<and>
    localSource sample_materializer ''/r'' e = Inr l \<and> ls_SeedID l = ''s''"
proof -
  have "findRuntimeArtifact e = []" by (simp add: findRuntimeArtifact_def assms sample_manifest_def)
  then obtain meta where m: "LoadRealizationMeta growth_fs None growth_decoders ''/r'' e = Inr meta"
    by (simp add: LoadRealizationMeta_def with_runtime_def and_then_def Let_def)
  then show ?thesis
    by (simp add: localSource_def sample_materializer_def assms Let_def) (simp add: sample_manifest_def)
qed

lemma sample_reference: "NormalizeReference ''s/x'' = ''s/x''" "SplitReference ''s/x'' = (''s'', ''x'')"
  by (simp_all add: SplitReference_def NormalizeReference_def plain_eval trim_set_def trim_right_set_def)

lemma sample_materialized:
  "\<exists>m. Materialize sample_materializer sample_service ''s/x'' Map.empty = (Inr m, [sample_target \<mapsto> ''{}'' @ [CHR 0x0A]])"
proof -
  obtain e where e: "Discover growth_fs (\<lambda>_. Some sample_manifest) ''/r'' = Inr [e]"
    "lr_RootDir e = ''/r/s/x''" "lr_Manifest e = sample_manifest" "lr_Reference e = ''s/x''"
    using growth_discover by blast
  obtain l where l: "localSource sample_materializer ''/r'' e = Inr l" using sample_entry_source[OF e(2,3)] by blast
  have r: "ResolveByReference [e] ''s/x'' = Some e"
    by (simp add: ResolveByReference_def sample_reference e)
  have t: "join_paths [join_paths [''/r/materialized/realizations'', ''s'', ''x''], ''materialization.json''] = sample_target"
    "pathContained None ''/r/materialized/realizations'' (join_paths [''/r/materialized/realizations'', ''s'', ''x''])"
    by (simp_all add: sample_target_def join_paths_def pathContained_def clean_def clean_comps_def clean_step.simps)
  let ?m = "with_local sample_materializer ''/r'' (Some e) (empty_materialization ''s/x'' 5)"
  have m: "mz_SeedID ?m = ''s''" "mz_RealizationID ?m = ''x''" "sf_Local (mz_Sources ?m)"
    by (simp_all add: with_local_def l adoptLocalSummary_def empty_materialization_def sample_reference fill_def)
  have "persist sample_materializer sample_service ?m Map.empty =
      (Inr (relativeOrOriginal ''/r'' sample_target), [sample_target \<mapsto> ''{}'' @ [CHR 0x0A]])"
    unfolding persist_def Let_def m sample_service_def
    by (simp add: t sample_materializer_def)
  moreover have "sv_Remote sample_service = None" "sv_RepoRoot sample_service = ''/r''" by (simp_all add: sample_service_def)
  moreover have "me_FS sample_materializer = growth_fs" "me_Now sample_materializer = 5"
    "dec_Manifest (me_Decoders sample_materializer) = (\<lambda>_. Some sample_manifest)"
    by (simp_all add: sample_materializer_def growth_decoders_def)
  ultimately show ?thesis
    by (simp add: Materialize_def sample_reference e(1) r with_remote_def m(3))
qed

theorem materialization_stays_inside_witness:
  "NewService ''/r'' None = Inr sample_service \<and>
   snd (Materialize sample_materializer sample_service ''s/x'' Map.empty) = [sample_target \<mapsto> ''{}'' @ [CHR 0x0A]] \<and>
   (\<exists>target content. snd (Materialize sample_materializer sample_service ''s/x'' Map.empty) = Map.empty(target := content) \<and>
      PathContained None (join_paths [''/r'', ''materialized'', ''realizations'']) target)"
proof -
  have n: "NewService ''/r'' None = Inr sample_service"
    by (simp add: NewService_def sample_service_def join_paths_def clean_def clean_comps_def clean_step.simps)
  have w: "snd (Materialize sample_materializer sample_service ''s/x'' Map.empty) = [sample_target \<mapsto> ''{}'' @ [CHR 0x0A]]"
    using sample_materialized by force
  then have "snd (Materialize sample_materializer sample_service ''s/x'' Map.empty) \<noteq> Map.empty" by simp
  with n w materialization_stays_inside[OF n, of sample_materializer "''s/x''" Map.empty] show ?thesis
    by (auto simp: sample_materializer_def)
qed

theorem materialization_is_stored_witness:
  "\<exists>m. Materialize sample_materializer sample_service ''s/x'' Map.empty = (Inr m, [sample_target \<mapsto> ''{}'' @ [CHR 0x0A]]) \<and>
     mz_Reference m = ''s/x''"
proof -
  obtain m where m: "Materialize sample_materializer sample_service ''s/x'' Map.empty =
      (Inr m, [sample_target \<mapsto> ''{}'' @ [CHR 0x0A]])"
    using sample_materialized by blast
  from materialization_is_stored[OF m] m show ?thesis by (auto simp: sample_reference)
qed

text \<open>The same repository beside a remote registry that knows its realization under another summary, and one more.\<close>

definition remote_option :: "string \<Rightarrow> RealizationOption" where
  "remote_option ref =
     \<lparr>ro_Reference = ref, ro_SeedID = ''t'', ro_SeedSummary = [], ro_SeedStatus = [], ro_RealizationID = ''b'',
      ro_ApproachID = [], ro_Summary = ''other'', ro_Status = [], ro_SurfaceKind = [], ro_ContractSummary = [],
      ro_ContractFile = [], ro_RuntimeArtifact = [], ro_Readiness = rm_Readiness initial_meta,
      ro_Sources = \<lparr>sf_Local = True, sf_Remote = False\<rparr>, ro_Subdomain = [], ro_PathPrefix = []\<rparr>"

definition shared_materializer :: materializer_env where
  "shared_materializer = sample_materializer
     \<lparr>me_Get := (\<lambda>_. Inr (200, ''body'')), me_Options := (\<lambda>_. Some [remote_option ''s/x'', remote_option ''a/b''])\<rparr>"

definition shared_service :: Materializer_Service where
  "shared_service = sample_service\<lparr>sv_Remote := Some \<lparr>rc_BaseURL = ''http://r''\<rparr>\<rparr>"

definition as_remote :: "RealizationOption \<Rightarrow> RealizationOption" where
  "as_remote x = x\<lparr>ro_Sources := (ro_Sources x)\<lparr>sf_Remote := True\<rparr>\<rparr>"

lemma shared_remote:
  "remote_list shared_materializer \<lparr>rc_BaseURL = ''http://r''\<rparr> =
     Inr [as_remote (remote_option ''s/x''), as_remote (remote_option ''a/b'')]"
proof -
  have n: "NormalizeReference ''a/b'' = ''a/b''"
    by (simp add: NormalizeReference_def plain_eval trim_set_def trim_right_set_def)
  show ?thesis
    by (simp add: remote_list_def doJSON_def shared_materializer_def sample_materializer_def plain_eval Let_def)
      (simp add: remote_option_def as_remote_def n sample_reference)
qed

lemma shared_listing:
  obtains e os where "ListRealizations shared_materializer shared_service = Inr os"
    "\<forall>xs. mset (me_Order shared_materializer xs) = mset xs"
    "Discover (me_FS shared_materializer) (dec_Manifest (me_Decoders shared_materializer)) (sv_RepoRoot shared_service) = Inr [e]"
    "lr_Reference e = ''s/x''" "lr_Manifest e = sample_manifest"
proof -
  obtain e where e: "Discover growth_fs (\<lambda>_. Some sample_manifest) ''/r'' = Inr [e]"
    "lr_RootDir e = ''/r/s/x''" "lr_Manifest e = sample_manifest" "lr_Reference e = ''s/x''"
    using growth_discover by blast
  obtain meta where m: "LoadRealizationMeta growth_fs None growth_decoders ''/r'' e = Inr meta"
    using sample_entry_source[OF e(2,3)] by blast
  have env: "me_FS shared_materializer = growth_fs" "me_Decoders shared_materializer = growth_decoders"
    "me_WD shared_materializer = None" "me_Order shared_materializer = (\<lambda>xs. xs)" "sv_RepoRoot shared_service = ''/r''"
    "dec_Manifest growth_decoders = (\<lambda>_. Some sample_manifest)"
    by (simp_all add: shared_materializer_def sample_materializer_def shared_service_def sample_service_def growth_decoders_def)
  have "\<exists>os. ListRealizations shared_materializer shared_service = Inr os"
    by (simp add: ListRealizations_def env e(1) m Let_def)
  with that show thesis using e by (auto simp: env)
qed

theorem listing_is_the_merge_witness:
  "\<exists>os x. ListRealizations shared_materializer shared_service = Inr os \<and> x \<in> set os \<and> ro_Reference x = ''s/x'' \<and>
     ro_Summary x = ''m'' \<and> ro_Sources x = \<lparr>sf_Local = True, sf_Remote = True\<rparr>"
proof -
  obtain e os where l: "ListRealizations shared_materializer shared_service = Inr os"
    "\<forall>xs. mset (me_Order shared_materializer xs) = mset xs"
    "Discover (me_FS shared_materializer) (dec_Manifest (me_Decoders shared_materializer)) (sv_RepoRoot shared_service) = Inr [e]"
    and e: "lr_Reference e = ''s/x''" "lr_Manifest e = sample_manifest"
    by (rule shared_listing)
  obtain o1 where o1: "local_options shared_materializer shared_service [e] = [o1]" "ro_Reference o1 = ''s/x''"
    "ro_Summary o1 = ''m''" "ro_Sources o1 = \<lparr>sf_Local = True, sf_Remote = False\<rparr>"
    by (simp add: local_options_def local_option_def e sample_manifest_def Let_def)
  have r: "remote_entries shared_materializer shared_service = [as_remote (remote_option ''s/x''), as_remote (remote_option ''a/b'')]"
    by (simp add: remote_entries_def shared_service_def shared_remote)
  let ?x = "filled o1 [as_remote (remote_option ''s/x'')]"
  have x: "ro_Reference ?x = ''s/x''" "ro_Summary ?x = ''m''" "ro_Sources ?x = \<lparr>sf_Local = True, sf_Remote = True\<rparr>"
    using o1 by (simp_all add: filled_def)
  have "ro_Reference (as_remote (remote_option ref)) = ref" for ref by (simp add: as_remote_def remote_option_def)
  then have "listed_option ''s/x'' (local_options shared_materializer shared_service [e])
      (remote_entries shared_materializer shared_service) = Some ?x"
    by (simp add: listed_option_def o1 r)
  then have "?x \<in> set os" using listing_is_the_merge[OF l] x(1) by auto
  with l(1) x show ?thesis by blast
qed

theorem remote_entry_is_shown_as_local_witness:
  "\<exists>os x. ListRealizations shared_materializer shared_service = Inr os \<and> x \<in> set os \<and> ro_Reference x = ''a/b'' \<and>
     sf_Local (ro_Sources x)"
proof -
  obtain e os where l: "ListRealizations shared_materializer shared_service = Inr os"
    "\<forall>xs. mset (me_Order shared_materializer xs) = mset xs"
    "Discover (me_FS shared_materializer) (dec_Manifest (me_Decoders shared_materializer)) (sv_RepoRoot shared_service) = Inr [e]"
    and e: "lr_Reference e = ''s/x''"
    by (rule shared_listing)
  have s: "sv_Remote shared_service = Some \<lparr>rc_BaseURL = ''http://r''\<rparr>" by (simp add: shared_service_def)
  have "filter (\<lambda>x. ro_Reference x = ''a/b'') [as_remote (remote_option ''s/x''), as_remote (remote_option ''a/b'')] =
      [as_remote (remote_option ''a/b'')]" by (simp add: as_remote_def remote_option_def)
  from remote_entry_is_shown_as_local[OF l s shared_remote this] e l(1) show ?thesis
    by (auto simp: as_remote_def remote_option_def)
qed

end
