(* ===== verification/Http_Handlers.thy ===== *)
theory Http_Handlers
  imports Rate_Limit_Policy Authority_Types Registry_Locators
begin

text \<open>
  What the JSON handlers of internal/http/json share: respond.go, \<open>decodeJSON\<close> and
  \<open>writeRuntimeResult\<close> of runtime.go, the numbers of strconv, and the error values of the runtime service as
  Go errors. A handler gets the request with its parsed query, its path values and its body; the JSON
  decoder is a parameter that reads one value off the body. The payload of a response is the Go value that
  is encoded.
\<close>

subsection \<open>Numbers of strconv\<close>

text \<open>
  \<open>ParseInt(s, 10, 64)\<close> and \<open>Atoi\<close>: the value, which is the nearest bound for a number out of range and
  zero for anything else that is not a number, and whether there was no error.
\<close>

definition digits_value :: "string \<Rightarrow> nat" where
  "digits_value s = foldl (\<lambda>n c. 10 * n + (of_char c - 48)) 0 s"

definition all_digits :: "string \<Rightarrow> bool" where
  "all_digits s \<longleftrightarrow> s \<noteq> [] \<and> (\<forall>c\<in>set s. decimal_char c)"

definition int64_clamp :: "int \<Rightarrow> int \<times> bool" where
  "int64_clamp n =
     (if n \<ge> 2 ^ 63 then (2 ^ 63 - 1, False) else if n < - (2 ^ 63) then (- (2 ^ 63), False) else (n, True))"

definition parse_int :: "string \<Rightarrow> int \<times> bool" where
  "parse_int s =
     (case s of
        [] \<Rightarrow> (0, False)
      | c # cs \<Rightarrow>
          if c = CHR ''-'' then (if all_digits cs then int64_clamp (- int (digits_value cs)) else (0, False))
          else if c = CHR ''+'' then (if all_digits cs then int64_clamp (int (digits_value cs)) else (0, False))
          else if all_digits s then int64_clamp (int (digits_value s)) else (0, False))"

definition parse_bool :: "string \<Rightarrow> bool option" where
  "parse_bool s =
     (if s \<in> {''1'', ''t'', ''T'', ''TRUE'', ''true'', ''True''} then Some True
      else if s \<in> {''0'', ''f'', ''F'', ''FALSE'', ''false'', ''False''} then Some False
      else None)"

lemma parse_int_range: "- (2 ^ 63) \<le> fst (parse_int s) \<and> fst (parse_int s) < 2 ^ 63"
  by (simp add: parse_int_def int64_clamp_def split: list.split)

subsection \<open>Requests and responses\<close>

record handler_call =
  hc_Context :: request_context
  hc_RequestID :: string
  hc_Query :: "string \<Rightarrow> string"
  hc_PathValue :: "string \<Rightarrow> string"
  hc_Body :: string

text \<open>\<open>hc_RequestID\<close> is the identifier that the correlation middleware has put into the response.\<close>

datatype 'p response_body = Payload 'p | ErrorPayload ErrorBody

record 'p response =
  rp_Status :: int
  rp_Headers :: "(string \<times> string) list"
  rp_Body :: "'p response_body"

definition respondJSON :: "int \<Rightarrow> 'p \<Rightarrow> 'p response" where
  "respondJSON status payload =
     \<lparr>rp_Status = status, rp_Headers = [(''Content-Type'', ''application/json'')], rp_Body = Payload payload\<rparr>"

definition respondError :: "handler_call \<Rightarrow> int \<Rightarrow> go_error \<Rightarrow> 'p response" where
  "respondError call status err =
     (let (st, headers, body) = WriteJSONError (hc_RequestID call) None status (Some err) in
      \<lparr>rp_Status = st, rp_Headers = headers, rp_Body = ErrorPayload body\<rparr>)"

text \<open>\<open>w.Header().Set("Cache-Control", "no-store")\<close> before the response is written.\<close>

definition no_store :: "'p response \<Rightarrow> 'p response" where
  "no_store r = r\<lparr>rp_Headers := (''Cache-Control'', ''no-store'') # rp_Headers r\<rparr>"

definition query_int :: "handler_call \<Rightarrow> string \<Rightarrow> int" where
  "query_int call key = fst (parse_int (hc_Query call key))"

definition trimmed_query :: "handler_call \<Rightarrow> string \<Rightarrow> string" where
  "trimmed_query call key = trim_space (hc_Query call key)"

definition trimmed_query_int :: "handler_call \<Rightarrow> string \<Rightarrow> int" where
  "trimmed_query_int call key = fst (parse_int (trimmed_query call key))"

subsection \<open>decodeJSON\<close>

text \<open>
  One step of the decoder: the end of the body, a body over the limit, an error, or a value and what is left
  of the body; and the conversion of a value to a Go type that rejects unknown fields.
\<close>

datatype json_step = StepEOF | StepTooLarge | StepError go_error | StepValue json string

type_synonym json_reader = "string \<Rightarrow> json_step"

definition io_EOF :: go_error where "io_EOF = Plain ''EOF''"

text \<open>What the decoder accepts for an empty struct: \<open>null\<close> or an object without fields.\<close>

definition empty_struct :: "json \<Rightarrow> bool" where
  "empty_struct v \<longleftrightarrow> v = JNull \<or> v = JObject []"

definition decodeJSON ::
  "json_reader \<Rightarrow> (json \<Rightarrow> go_error + 'i) \<Rightarrow> handler_call \<Rightarrow> 'p response + 'i" where
  "decodeJSON reader typed call =
     (case reader (hc_Body call) of
        StepEOF \<Rightarrow> Inl (respondError call 400 io_EOF)
      | StepTooLarge \<Rightarrow>
          Inl (respondError call 413 (NewHTTPError 413 ''payload_too_large'' ''request body is too large''))
      | StepError e \<Rightarrow> Inl (respondError call 400 e)
      | StepValue v rest \<Rightarrow>
          (case typed v of
             Inl e \<Rightarrow> Inl (respondError call 400 e)
           | Inr input \<Rightarrow>
               (case reader rest of
                  StepEOF \<Rightarrow> Inr input
                | StepValue v' _ \<Rightarrow>
                    if empty_struct v' then Inr input
                    else Inl (respondError call 400 (Plain ''request body must contain one JSON object''))
                | _ \<Rightarrow> Inl (respondError call 400 (Plain ''request body must contain one JSON object'')))))"

subsection \<open>Errors of the runtime service\<close>

text \<open>\<open>... is required\<close> or \<open>... are required\<close>.\<close>

definition required_text :: "string \<Rightarrow> string" where
  "required_text what =
     (if what = ''rows'' then ''at least one row is required''
      else what @ (if str_contains what '' and '' \<or> what = ''capabilities'' then '' are required'' else '' is required''))"

text \<open>The two errors that wrap an error of a library carry its text after a colon.\<close>

fun runtime_go_error :: "runtime_error \<Rightarrow> go_error" where
  "runtime_go_error NotConfigured = Plain ''runtime database is not configured''"
| "runtime_go_error (Required what) = Plain (required_text what)"
| "runtime_go_error LimitNotPositive = Plain ''limit must be greater than zero''"
| "runtime_go_error UniqueViolation = Wrapped ''unique violation'' (Plain [])"
| "runtime_go_error runtime_error.ErrNotFound = Sentinel sentinel.ErrNotFound"
| "runtime_go_error (runtime_error.ErrConflict constraint) = Detailed (Sentinel sentinel.ErrConflict) (trim_space constraint)"
| "runtime_go_error (Invalid what) =
     (if what = ''status'' then Plain ''status must be proposed, accepted, rejected, revoked, expired, or superseded''
      else if what = ''LIKE pattern must not end with escape character'' then Wrapped ''search documents'' (Plain what)
      else if what = ''decode authority registry payload'' then Wrapped what (Plain [])
      else Plain what)"

text \<open>\<open>resolvedSession, _ := SessionFromContext\<close>: the zero session if there is none.\<close>

definition no_session :: ResolvedSession where
  "no_session = \<lparr>ss_SessionID = [], ss_PrincipalID = [], ss_Status = []\<rparr>"

definition writeRuntimeResult :: "handler_call \<Rightarrow> ('a \<Rightarrow> 'p) \<Rightarrow> go_error + 'a \<Rightarrow> 'p response" where
  "writeRuntimeResult call payload result =
     (case result of
        Inr a \<Rightarrow> respondJSON 200 (payload a)
      | Inl e \<Rightarrow>
          if is_sentinel sentinel.ErrNotFound e then respondError call 404 e
          else if is_sentinel sentinel.ErrConflict e then respondError call 409 e
          else if is_sentinel sentinel.ErrUnauthorized e then respondError call 401 e
          else if is_sentinel sentinel.ErrForbidden e then respondError call 403 e
          else if is_sentinel sentinel.ErrRateLimited e then respondError call 429 e
          else if str_contains (to_lower (error_text e)) ''runtime database is not configured'' then respondError call 503 e
          else respondError call 400 e)"

abbreviation runtime_result :: "runtime_error + 'a \<Rightarrow> go_error + 'a" where
  "runtime_result \<equiv> map_sum runtime_go_error id"

subsection \<open>Lemmas\<close>

lemma respondError_status:
  "rp_Status (respondError call status err) = resolveHTTPStatus status (Some err)"
  by (simp add: respondError_def WriteJSONError_def Let_def)

lemma respondError_body: "\<exists>b. rp_Body (respondError call status err) = ErrorPayload b"
  by (simp add: respondError_def WriteJSONError_def Let_def)

lemma respondJSON_simps [simp]:
  "rp_Status (respondJSON status p) = status" "rp_Body (respondJSON status p) = Payload p"
  by (simp_all add: respondJSON_def)

lemma no_store_simps [simp]: "rp_Status (no_store r) = rp_Status r" "rp_Body (no_store r) = rp_Body r"
  by (simp_all add: no_store_def)

text \<open>The status of a result of the runtime service.\<close>

fun runtime_status :: "runtime_error \<Rightarrow> int" where
  "runtime_status NotConfigured = 503"
| "runtime_status runtime_error.ErrNotFound = 404"
| "runtime_status (runtime_error.ErrConflict _) = 409"
| "runtime_status _ = 400"

end
