(* ===== verification/Outbox.thy ===== *)
theory Outbox
  imports Runtime_Helpers
begin

text \<open>
  The outbox of internal/interactions/runtime_webstate.go: messages that wait to be sent, with their type, row
  and scan function. The payload is a JSON object of any type.
\<close>

record 'j OutboxMessage =
  om_MessageID :: string
  om_SubjectKind :: string
  om_SubjectID :: string
  om_RecipientPrincipalID :: string
  om_RecipientAddress :: string
  om_Channel :: string
  om_Template :: string
  om_DedupeKey :: string
  om_Status :: string
  om_EnqueueAfter :: int
  om_Payload :: "'j json_object"
  om_CreatedAt :: int
  om_SentAt :: "int option"
  om_CanceledAt :: "int option"

record 'j EnqueueOutboxMessageInput =
  eo_MessageID :: string
  eo_SubjectKind :: string
  eo_SubjectID :: string
  eo_RecipientPrincipalID :: string
  eo_RecipientAddress :: string
  eo_Channel :: string
  eo_Template :: string
  eo_DedupeKey :: string
  eo_Status :: string
  eo_EnqueueAfter :: "int option"
  eo_Payload :: "'j json_object"

record 'j outbox_row =
  obr_MessageID :: string
  obr_SubjectKind :: "string option"
  obr_SubjectID :: "string option"
  obr_RecipientPrincipalID :: "string option"
  obr_RecipientAddress :: "string option"
  obr_Channel :: string
  obr_Template :: string
  obr_DedupeKey :: "string option"
  obr_Status :: string
  obr_EnqueueAfter :: int
  obr_Payload :: "'j json_object"
  obr_CreatedAt :: int
  obr_SentAt :: "int option"
  obr_CanceledAt :: "int option"

record 'j outbox_state =
  ob_Ready :: bool
  ob_Messages :: "'j outbox_row list"

definition scanOutboxMessage :: "'j outbox_row \<Rightarrow> 'j OutboxMessage" where
  "scanOutboxMessage r =
     \<lparr>om_MessageID = obr_MessageID r, om_SubjectKind = string_of_null (obr_SubjectKind r),
      om_SubjectID = string_of_null (obr_SubjectID r),
      om_RecipientPrincipalID = string_of_null (obr_RecipientPrincipalID r),
      om_RecipientAddress = string_of_null (obr_RecipientAddress r), om_Channel = obr_Channel r,
      om_Template = obr_Template r, om_DedupeKey = string_of_null (obr_DedupeKey r), om_Status = obr_Status r,
      om_EnqueueAfter = obr_EnqueueAfter r, om_Payload = obr_Payload r, om_CreatedAt = obr_CreatedAt r,
      om_SentAt = obr_SentAt r, om_CanceledAt = obr_CanceledAt r\<rparr>"

definition new_outbox :: "string \<Rightarrow> int \<Rightarrow> int \<Rightarrow> 'j EnqueueOutboxMessageInput \<Rightarrow> 'j outbox_row" where
  "new_outbox fresh now dbnow i =
     \<lparr>obr_MessageID = id_or (eo_MessageID i) fresh, obr_SubjectKind = nullString (eo_SubjectKind i),
      obr_SubjectID = nullString (eo_SubjectID i), obr_RecipientPrincipalID = nullString (eo_RecipientPrincipalID i),
      obr_RecipientAddress = nullString (eo_RecipientAddress i), obr_Channel = eo_Channel i,
      obr_Template = eo_Template i, obr_DedupeKey = nullString (eo_DedupeKey i),
      obr_Status = statusOrDefault (eo_Status i) ''pending'', obr_EnqueueAfter = time_or (eo_EnqueueAfter i) now,
      obr_Payload = eo_Payload i, obr_CreatedAt = dbnow, obr_SentAt = None, obr_CanceledAt = None\<rparr>"

text \<open>The unique index on channel and dedupe key, which counts the rows with a dedupe key only.\<close>

definition outbox_clash :: "'j outbox_row \<Rightarrow> 'j outbox_row \<Rightarrow> bool" where
  "outbox_clash r r' \<longleftrightarrow>
     obr_DedupeKey r \<noteq> None \<and> obr_DedupeKey r' = obr_DedupeKey r \<and> obr_Channel r' = obr_Channel r"

definition EnqueueOutboxMessage ::
  "string \<Rightarrow> int \<Rightarrow> int \<Rightarrow> 'j EnqueueOutboxMessageInput \<Rightarrow> 'j outbox_state \<Rightarrow>
   (runtime_error + 'j OutboxMessage) \<times> 'j outbox_state" where
  "EnqueueOutboxMessage fresh now dbnow i st =
     (if \<not> ob_Ready st then (Inl NotConfigured, st)
      else if blank (eo_Channel i) \<or> blank (eo_Template i) then (Inl (Required ''channel and template''), st)
      else
        (let r = new_outbox fresh now dbnow i in
         if row_at obr_MessageID (obr_MessageID r) (ob_Messages st) \<noteq> None
           then (Inl (ErrConflict ''runtime_outbox_messages_pkey''), st)
         else if \<exists>r'\<in>set (ob_Messages st). outbox_clash r r'
           then (Inl (ErrConflict ''runtime_outbox_messages_dedupe_idx''), st)
         else (Inr (scanOutboxMessage r), st\<lparr>ob_Messages := ob_Messages st @ [r]\<rparr>)))"

end
