(* ===== verification/Kernel_State.thy ===== *)
theory Kernel_State
  imports Http_Handlers Identity Web_State Job_Queue Communications Operations Authority Outbox
begin

text \<open>
  The state that the daemons of the kernel share: the tables of the runtime database, one record per component
  of the runtime service, and the hash index. An operation of a component is lifted to the whole state; its
  error becomes a Go error.
\<close>

record kernel_state =
  ks_Identity :: identity_state
  ks_Web :: web_state
  ks_Jobs :: "json job_state"
  ks_Outbox :: "json outbox_state"
  ks_Comm :: comm_state
  ks_Store :: ops_state
  ks_Rates :: "string rate_state"
  ks_HashIndex :: hash_index

type_synonym 'a kernel_op = "kernel_state \<Rightarrow> (go_error + 'a) \<times> kernel_state"

subsection \<open>Lifting\<close>

definition lift ::
  "(kernel_state \<Rightarrow> 's) \<Rightarrow> ('s \<Rightarrow> kernel_state \<Rightarrow> kernel_state) \<Rightarrow> ('s \<Rightarrow> (runtime_error + 'a) \<times> 's) \<Rightarrow> 'a kernel_op" where
  "lift get put op ks = (let (r, s) = op (get ks) in (runtime_result r, put s ks))"

definition query_of :: "(kernel_state \<Rightarrow> 's) \<Rightarrow> ('s \<Rightarrow> runtime_error + 'a) \<Rightarrow> 'a kernel_op" where
  "query_of get op ks = (runtime_result (op (get ks)), ks)"

definition in_identity :: "(identity_state \<Rightarrow> (runtime_error + 'a) \<times> identity_state) \<Rightarrow> 'a kernel_op" where
  "in_identity = lift ks_Identity (\<lambda>s ks. ks\<lparr>ks_Identity := s\<rparr>)"

text \<open>The authority service works on the part of the identity tables that it shares with the ledger.\<close>

definition on_authority :: "(authority_state \<Rightarrow> 'r \<times> authority_state) \<Rightarrow> identity_state \<Rightarrow> 'r \<times> identity_state" where
  "on_authority op s =
     (let (r, a) = op (authority_state.truncate s)
      in (r, authority_state.extend a (authority_state.more s)))"

definition in_authority :: "(authority_state \<Rightarrow> (runtime_error + 'a) \<times> authority_state) \<Rightarrow> 'a kernel_op" where
  "in_authority op = in_identity (on_authority op)"

definition in_ledger :: "(json_map ledger \<Rightarrow> (runtime_error + 'a) \<times> json_map ledger) \<Rightarrow> 'a kernel_op" where
  "in_ledger = lift (\<lambda>ks. at_Ledger (ks_Identity ks)) (\<lambda>l ks. ks\<lparr>ks_Identity := (ks_Identity ks)\<lparr>at_Ledger := l\<rparr>\<rparr>)"

definition in_web :: "(web_state \<Rightarrow> (runtime_error + 'a) \<times> web_state) \<Rightarrow> 'a kernel_op" where
  "in_web = lift ks_Web (\<lambda>s ks. ks\<lparr>ks_Web := s\<rparr>)"

definition in_jobs :: "(json job_state \<Rightarrow> (runtime_error + 'a) \<times> json job_state) \<Rightarrow> 'a kernel_op" where
  "in_jobs = lift ks_Jobs (\<lambda>s ks. ks\<lparr>ks_Jobs := s\<rparr>)"

definition in_outbox :: "(json outbox_state \<Rightarrow> (runtime_error + 'a) \<times> json outbox_state) \<Rightarrow> 'a kernel_op" where
  "in_outbox = lift ks_Outbox (\<lambda>s ks. ks\<lparr>ks_Outbox := s\<rparr>)"

definition in_comm :: "(comm_state \<Rightarrow> (runtime_error + 'a) \<times> comm_state) \<Rightarrow> 'a kernel_op" where
  "in_comm = lift ks_Comm (\<lambda>s ks. ks\<lparr>ks_Comm := s\<rparr>)"

definition in_store :: "(ops_state \<Rightarrow> (runtime_error + 'a) \<times> ops_state) \<Rightarrow> 'a kernel_op" where
  "in_store = lift ks_Store (\<lambda>s ks. ks\<lparr>ks_Store := s\<rparr>)"

text \<open>An operation that returns only an error.\<close>

definition command_of :: "('s \<Rightarrow> runtime_error err \<times> 's) \<Rightarrow> 's \<Rightarrow> (runtime_error + unit) \<times> 's" where
  "command_of op s = (let (e, s') = op s in (case e of None \<Rightarrow> Inr () | Some x \<Rightarrow> Inl x, s'))"

definition in_rates :: "(string rate_state \<Rightarrow> (runtime_error + 'a) \<times> string rate_state) \<Rightarrow> 'a kernel_op" where
  "in_rates = lift ks_Rates (\<lambda>s ks. ks\<lparr>ks_Rates := s\<rparr>)"

lemmas in_defs = in_identity_def in_authority_def in_ledger_def in_web_def in_jobs_def in_outbox_def in_comm_def
  in_store_def in_rates_def lift_def query_of_def

subsection \<open>What a handler may draw and what it cannot know\<close>

text \<open>
  The identifiers drawn (by the position of the draw), a token, the clock of the service and of the database,
  the rows that other transactions have locked, and the reader of JSON bodies.
\<close>

record api_env =
  ae_Reader :: json_reader
  ae_Fresh :: "nat \<Rightarrow> string"
  ae_Token :: string
  ae_Now :: int
  ae_DB :: int
  ae_Locked :: "string set"

end
