(* ===== verification/Registry_Views.thy ===== *)
theory Registry_Views
  imports Registry_Queries Materializer
begin

text \<open>
  What internal/http/json/registry.go and contracts.go show of the catalog and the contracts: summaries, details and
  the links between them. A map literal with fixed keys is a record with a field for each key, a link is the pair of
  its two strings.
\<close>

subsection \<open>Addresses within the API\<close>

definition realizationSelfPath :: "string \<Rightarrow> string" where
  "realizationSelfPath reference = ''/v1/registry/realization?reference='' @ QueryEscape reference"

definition commandSelfPath :: "string \<Rightarrow> string \<Rightarrow> string" where
  "commandSelfPath reference name =
     ''/v1/registry/command?reference='' @ QueryEscape reference @ ''&name='' @ QueryEscape name"

definition projectionSelfPath :: "string \<Rightarrow> string \<Rightarrow> string" where
  "projectionSelfPath reference name =
     ''/v1/registry/projection?reference='' @ QueryEscape reference @ ''&name='' @ QueryEscape name"

definition objectSelfPath :: "string \<Rightarrow> string \<Rightarrow> string" where
  "objectSelfPath seedID kind = ''/v1/registry/object?seed_id='' @ QueryEscape seedID @ ''&kind='' @ QueryEscape kind"

definition schemaSelfPath :: "string \<Rightarrow> string" where
  "schemaSelfPath ref = ''/v1/registry/schema?ref='' @ QueryEscape ref"

definition contract_address :: "string \<Rightarrow> string \<Rightarrow> string" where
  "contract_address seedID realizationID = ''/v1/contracts/'' @ seedID @ ''/'' @ realizationID"

definition registryDiscoveryPaths :: "(string \<times> string) list" where
  "registryDiscoveryPaths =
     [(''catalog'', ''/v1/registry/catalog''), (''lookup'', ''/v1/registry/lookup?sha256={sha256}''),
      (''realizations'', ''/v1/registry/realizations''),
      (''realization'', ''/v1/registry/realization?reference={reference}''),
      (''commands'', ''/v1/registry/commands''),
      (''command'', ''/v1/registry/command?reference={reference}&name={name}''),
      (''projections'', ''/v1/registry/projections''),
      (''projection'', ''/v1/registry/projection?reference={reference}&name={name}''),
      (''objects'', ''/v1/registry/objects''), (''object'', ''/v1/registry/object?seed_id={seed_id}&kind={kind}''),
      (''schemas'', ''/v1/registry/schemas''), (''schema'', ''/v1/registry/schema?ref={ref}''),
      (''permalink'', ''https://registry.autosoftware.app/reg/{sha256}''),
      (''share'', ''https://registry.autosoftware.app/r/{sha256_prefix16}''), (''contracts'', ''/v1/contracts'')]"

subsection \<open>Types\<close>

record registryRealizationSummary =
  rrs_Reference :: string
  rrs_SeedID :: string
  rrs_RealizationID :: string
  rrs_ApproachID :: string
  rrs_Summary :: string
  rrs_Status :: string
  rrs_SurfaceKind :: string
  rrs_ObjectKinds :: "string list"
  rrs_RelationCount :: nat
  rrs_CommandCount :: nat
  rrs_ProjectionCount :: nat
  rrs_Self :: string
  rrs_CanonicalURL :: string
  rrs_PermalinkURL :: string
  rrs_ContentHash :: string

record registryCommandSummary =
  rcs_Reference :: string
  rcs_SeedID :: string
  rcs_RealizationID :: string
  rcs_Name :: string
  rcs_Path :: string
  rcs_InputSchemaRef :: string
  rcs_ResultSchemaRef :: string
  rcs_Self :: string
  rcs_CanonicalURL :: string
  rcs_PermalinkURL :: string
  rcs_ContentHash :: string

record registryProjectionSummary =
  rps_Reference :: string
  rps_SeedID :: string
  rps_RealizationID :: string
  rps_Name :: string
  rps_Path :: string
  rps_AuthModes :: "string list"
  rps_Freshness :: string
  rps_Self :: string
  rps_CanonicalURL :: string
  rps_PermalinkURL :: string
  rps_ContentHash :: string

record registryDataField =
  rdf_Name :: string
  rdf_Type :: string
  rdf_Summary :: string

record registryDataSection =
  rds_Summary :: string
  rds_Fields :: "registryDataField list"

record registryDataLayout =
  rdl_SharedMetadata :: "registryDataSection option"
  rdl_PublicPayload :: "registryDataSection option"
  rdl_PrivatePayload :: "registryDataSection option"
  rdl_RuntimeOnly :: "registryDataSection option"

record registryDataView =
  rdv_AuthModes :: "string list"
  rdv_Sections :: "string list"
  rdv_Summary :: string

record registryObjectSummary =
  ros_SeedID :: string
  ros_Kind :: string
  ros_Summary :: string
  ros_SchemaRefs :: "string list"
  ros_Capabilities :: "string list"
  ros_RealizationCount :: nat
  ros_CommandCount :: nat
  ros_ProjectionCount :: nat
  ros_OutgoingRelationCount :: nat
  ros_IncomingRelationCount :: nat
  ros_Self :: string
  ros_CanonicalURL :: string
  ros_PermalinkURL :: string
  ros_ContentHash :: string

record registryRelationSummary =
  rls_Reference :: string
  rls_SeedID :: string
  rls_RealizationID :: string
  rls_Kind :: string
  rls_Summary :: string
  rls_FromKinds :: "string list"
  rls_ToKinds :: "string list"
  rls_Cardinality :: string
  rls_Visibility :: string
  rls_SchemaRef :: string
  rls_Schema :: string
  rls_Capabilities :: "string list"
  rls_Attributes :: "registryDataField list"
  rls_FromObjects :: "(string \<times> string) list"
  rls_ToObjects :: "(string \<times> string) list"
  rls_Contract :: string

record registrySchemaSummary =
  rss_Ref :: string
  rss_Path :: string
  rss_Anchor :: string
  rss_ObjectUseCount :: nat
  rss_CommandInputCount :: nat
  rss_CommandResultCount :: nat
  rss_Self :: string
  rss_CanonicalURL :: string
  rss_PermalinkURL :: string
  rss_ContentHash :: string

record realization_detail =
  rzd_reference :: string
  rzd_seed_id :: string
  rzd_realization_id :: string
  rzd_approach_id :: string
  rzd_summary :: string
  rzd_status :: string
  rzd_surface_kind :: string
  rzd_contract_file :: string
  rzd_auth_modes :: "string list"
  rzd_capabilities :: "string list"
  rzd_object_kinds :: "string list"
  rzd_objects :: "(string \<times> string) list"
  rzd_relations :: "registryRelationSummary list"
  rzd_commands :: "(string \<times> string) list"
  rzd_projections :: "(string \<times> string) list"
  rzd_contract :: string
  rzd_self :: string
  rzd_canonical_url :: string
  rzd_permalink_url :: string
  rzd_content_hash :: string

record command_detail =
  cmd_reference :: string
  cmd_seed_id :: string
  cmd_realization_id :: string
  cmd_name :: string
  cmd_summary :: string
  cmd_path :: string
  cmd_auth_modes :: "string list"
  cmd_capabilities :: "string list"
  cmd_idempotency :: string
  cmd_input_schema_ref :: string
  cmd_result_schema_ref :: string
  cmd_input_schema :: string
  cmd_result_schema :: string
  cmd_projection :: string
  cmd_projection_self :: string
  cmd_consistency :: string
  cmd_contract_file :: string
  cmd_contract :: string
  cmd_self :: string
  cmd_canonical_url :: string
  cmd_permalink_url :: string
  cmd_content_hash :: string

record projection_detail =
  pjd_reference :: string
  pjd_seed_id :: string
  pjd_realization_id :: string
  pjd_name :: string
  pjd_summary :: string
  pjd_path :: string
  pjd_auth_modes :: "string list"
  pjd_capabilities :: "string list"
  pjd_freshness :: string
  pjd_data_views :: "registryDataView list"
  pjd_contract_file :: string
  pjd_contract :: string
  pjd_self :: string
  pjd_canonical_url :: string
  pjd_permalink_url :: string
  pjd_content_hash :: string

record object_realization =
  obr_reference :: string
  obr_seed_id :: string
  obr_realization_id :: string
  obr_approach_id :: string
  obr_summary :: string
  obr_status :: string
  obr_surface_kind :: string
  obr_contract_file :: string
  obr_schema_ref :: string
  obr_capabilities :: "string list"
  obr_contract :: string
  obr_realization :: string

record object_detail =
  obd_seed_id :: string
  obd_kind :: string
  obd_summary :: string
  obd_capabilities :: "string list"
  obd_schema_refs :: "string list"
  obd_schemas :: "(string \<times> string) list"
  obd_realizations :: "object_realization list"
  obd_outgoing_relations :: "registryRelationSummary list"
  obd_incoming_relations :: "registryRelationSummary list"
  obd_commands :: "command_detail list"
  obd_projections :: "projection_detail list"
  obd_self :: string
  obd_canonical_url :: string
  obd_permalink_url :: string
  obd_content_hash :: string
  obd_data_layout :: "registryDataLayout option"

record schema_object_use =
  sod_reference :: string
  sod_seed_id :: string
  sod_realization_id :: string
  sod_kind :: string
  sod_summary :: string
  sod_contract_file :: string
  sod_object :: string
  sod_realization :: string
  sod_contract :: string

record schema_command_use =
  scd_reference :: string
  scd_seed_id :: string
  scd_realization_id :: string
  scd_name :: string
  scd_summary :: string
  scd_path :: string
  scd_contract_file :: string
  scd_command :: string
  scd_realization :: string
  scd_contract :: string

record schema_detail =
  scmd_ref :: string
  scmd_path :: string
  scmd_anchor :: string
  scmd_object_uses :: "schema_object_use list"
  scmd_command_inputs :: "schema_command_use list"
  scmd_command_results :: "schema_command_use list"
  scmd_self :: string
  scmd_canonical_url :: string
  scmd_permalink_url :: string
  scmd_content_hash :: string

record contractSummary =
  cts_Reference :: string
  cts_SeedID :: string
  cts_RealizationID :: string
  cts_SurfaceKind :: string
  cts_Summary :: string
  cts_ContractFile :: string
  cts_Commands :: "string list"
  cts_Projections :: "string list"
  cts_Self :: string

record contract_detail =
  ctd_reference :: string
  ctd_seed_id :: string
  ctd_realization_id :: string
  ctd_contract_file :: string
  ctd_approach_id :: string
  ctd_summary :: string
  ctd_status :: string
  ctd_artifacts :: "string list"
  ctd_readme :: string
  ctd_notes :: string
  ctd_self :: string
  ctd_contract :: InteractionContract

record lookup_result =
  lkr_content_hash :: string
  lkr_resource_kind :: string
  lkr_canonical_url :: string
  lkr_permalink_url :: string
  lkr_redirect_url :: string

subsection \<open>Summaries\<close>

definition summarizeRealizations :: "url_library \<Rightarrow> marshaller \<Rightarrow> CatalogRealization list \<Rightarrow> registryRealizationSummary list" where
  "summarizeRealizations lib m items = map (\<lambda>item. let l = item_locator lib m (RealizationItem item) in
     \<lparr>rrs_Reference = cr_Reference item, rrs_SeedID = cr_SeedID item, rrs_RealizationID = cr_RealizationID item, rrs_ApproachID = cr_ApproachID item, rrs_Summary = cr_Summary item, rrs_Status = cr_Status item, rrs_SurfaceKind = cr_SurfaceKind item, rrs_ObjectKinds = cr_ObjectKinds item, rrs_RelationCount = length (cr_Relations item), rrs_CommandCount = length (cr_CommandNames item), rrs_ProjectionCount = length (cr_Projections item),
      rrs_Self = realizationSelfPath (cr_Reference item), rrs_CanonicalURL = rlo_CanonicalURL l, rrs_PermalinkURL = rlo_PermalinkURL l,
      rrs_ContentHash = rlo_ContentHash l\<rparr>) items"

definition summarizeCommands :: "url_library \<Rightarrow> marshaller \<Rightarrow> CatalogCommand list \<Rightarrow> registryCommandSummary list" where
  "summarizeCommands lib m items = map (\<lambda>item. let l = item_locator lib m (CommandItem item) in
     \<lparr>rcs_Reference = cc_Reference item, rcs_SeedID = cc_SeedID item, rcs_RealizationID = cc_RealizationID item, rcs_Name = cc_Name item, rcs_Path = cc_Path item, rcs_InputSchemaRef = cc_InputSchemaRef item, rcs_ResultSchemaRef = cc_ResultSchemaRef item,
      rcs_Self = commandSelfPath (cc_Reference item) (cc_Name item), rcs_CanonicalURL = rlo_CanonicalURL l, rcs_PermalinkURL = rlo_PermalinkURL l,
      rcs_ContentHash = rlo_ContentHash l\<rparr>) items"

definition summarizeProjections :: "url_library \<Rightarrow> marshaller \<Rightarrow> CatalogProjection list \<Rightarrow> registryProjectionSummary list" where
  "summarizeProjections lib m items = map (\<lambda>item. let l = item_locator lib m (ProjectionItem item) in
     \<lparr>rps_Reference = cp_Reference item, rps_SeedID = cp_SeedID item, rps_RealizationID = cp_RealizationID item, rps_Name = cp_Name item, rps_Path = cp_Path item, rps_AuthModes = cp_AuthModes item, rps_Freshness = cp_Freshness item,
      rps_Self = projectionSelfPath (cp_Reference item) (cp_Name item), rps_CanonicalURL = rlo_CanonicalURL l, rps_PermalinkURL = rlo_PermalinkURL l,
      rps_ContentHash = rlo_ContentHash l\<rparr>) items"

definition summarizeObjects :: "url_library \<Rightarrow> marshaller \<Rightarrow> CatalogObject list \<Rightarrow> registryObjectSummary list" where
  "summarizeObjects lib m items = map (\<lambda>item. let l = item_locator lib m (ObjectItem item) in
     \<lparr>ros_SeedID = co_SeedID item, ros_Kind = co_Kind item, ros_Summary = co_Summary item, ros_SchemaRefs = co_SchemaRefs item, ros_Capabilities = co_Capabilities item, ros_RealizationCount = length (co_Realizations item), ros_CommandCount = length (co_Commands item), ros_ProjectionCount = length (co_Projections item), ros_OutgoingRelationCount = length (co_OutgoingRelations item), ros_IncomingRelationCount = length (co_IncomingRelations item),
      ros_Self = objectSelfPath (co_SeedID item) (co_Kind item), ros_CanonicalURL = rlo_CanonicalURL l, ros_PermalinkURL = rlo_PermalinkURL l,
      ros_ContentHash = rlo_ContentHash l\<rparr>) items"

definition summarizeSchemas :: "url_library \<Rightarrow> marshaller \<Rightarrow> CatalogSchema list \<Rightarrow> registrySchemaSummary list" where
  "summarizeSchemas lib m items = map (\<lambda>item. let l = item_locator lib m (SchemaItem item) in
     \<lparr>rss_Ref = csc_Ref item, rss_Path = csc_Path item, rss_Anchor = csc_Anchor item, rss_ObjectUseCount = length (csc_ObjectUses item), rss_CommandInputCount = length (csc_CommandInputs item), rss_CommandResultCount = length (csc_CommandResults item),
      rss_Self = schemaSelfPath (csc_Ref item), rss_CanonicalURL = rlo_CanonicalURL l, rss_PermalinkURL = rlo_PermalinkURL l,
      rss_ContentHash = rlo_ContentHash l\<rparr>) items"

definition data_fields :: "CatalogDataField list \<Rightarrow> registryDataField list" where
  "data_fields fs = map (\<lambda>f. \<lparr>rdf_Name = cdf_Name f, rdf_Type = cdf_Type f, rdf_Summary = cdf_Summary f\<rparr>) fs"

definition summarizeDataSection :: "CatalogDataSection \<Rightarrow> registryDataSection option" where
  "summarizeDataSection section =
     (if cds_Fields section = [] \<and> blank (cds_Summary section) then None
      else Some \<lparr>rds_Summary = cds_Summary section, rds_Fields = data_fields (cds_Fields section)\<rparr>)"

definition summarizeDataLayout :: "CatalogDataLayout \<Rightarrow> registryDataLayout" where
  "summarizeDataLayout layout =
     \<lparr>rdl_SharedMetadata = summarizeDataSection (cdl_SharedMetadata layout),
      rdl_PublicPayload = summarizeDataSection (cdl_PublicPayload layout),
      rdl_PrivatePayload = summarizeDataSection (cdl_PrivatePayload layout),
      rdl_RuntimeOnly = summarizeDataSection (cdl_RuntimeOnly layout)\<rparr>"

definition hasCatalogDataLayout :: "CatalogDataLayout \<Rightarrow> bool" where
  "hasCatalogDataLayout layout \<longleftrightarrow>
     list_ex (\<lambda>s. cds_Fields s \<noteq> [])
       [cdl_SharedMetadata layout, cdl_PublicPayload layout, cdl_PrivatePayload layout, cdl_RuntimeOnly layout] \<or>
     list_ex (\<lambda>s. \<not> blank (cds_Summary s))
       [cdl_SharedMetadata layout, cdl_PublicPayload layout, cdl_PrivatePayload layout, cdl_RuntimeOnly layout]"

definition summarizeDataViews :: "CatalogDataView list \<Rightarrow> registryDataView list" where
  "summarizeDataViews items =
     map (\<lambda>v. \<lparr>rdv_AuthModes = cdv_AuthModes v, rdv_Sections = cdv_Sections v, rdv_Summary = cdv_Summary v\<rparr>) items"

definition summarizeRelationKinds :: "string \<Rightarrow> string list \<Rightarrow> (string \<times> string) list" where
  "summarizeRelationKinds seedID kinds = map (\<lambda>k. (k, objectSelfPath seedID k)) kinds"

definition schema_link :: "string \<Rightarrow> string" where
  "schema_link ref = (if ref = [] then [] else schemaSelfPath ref)"

definition summarizeRelations :: "CatalogRelation list \<Rightarrow> registryRelationSummary list" where
  "summarizeRelations items = map (\<lambda>item.
     \<lparr>rls_Reference = crel_Reference item, rls_SeedID = crel_SeedID item, rls_RealizationID = crel_RealizationID item,
      rls_Kind = crel_Kind item, rls_Summary = crel_Summary item, rls_FromKinds = crel_FromKinds item,
      rls_ToKinds = crel_ToKinds item, rls_Cardinality = crel_Cardinality item, rls_Visibility = crel_Visibility item,
      rls_SchemaRef = crel_SchemaRef item, rls_Schema = schema_link (crel_SchemaRef item),
      rls_Capabilities = crel_Capabilities item, rls_Attributes = data_fields (crel_Attributes item),
      rls_FromObjects = summarizeRelationKinds (crel_SeedID item) (crel_FromKinds item),
      rls_ToObjects = summarizeRelationKinds (crel_SeedID item) (crel_ToKinds item),
      rls_Contract = contract_address (crel_SeedID item) (crel_RealizationID item)\<rparr>) items"

subsection \<open>Details\<close>

definition detailRealization :: "url_library \<Rightarrow> marshaller \<Rightarrow> CatalogRealization \<Rightarrow> realization_detail" where
  "detailRealization lib m item =
     (let l = item_locator lib m (RealizationItem item) in
      \<lparr>rzd_reference = cr_Reference item, rzd_seed_id = cr_SeedID item,
       rzd_realization_id = cr_RealizationID item, rzd_approach_id = cr_ApproachID item,
       rzd_summary = cr_Summary item, rzd_status = cr_Status item, rzd_surface_kind = cr_SurfaceKind item,
       rzd_contract_file = cr_ContractFile item, rzd_auth_modes = cr_AuthModes item,
       rzd_capabilities = cr_Capabilities item, rzd_object_kinds = cr_ObjectKinds item,
       rzd_objects = map (\<lambda>k. (k, objectSelfPath (cr_SeedID item) k)) (cr_ObjectKinds item),
       rzd_relations = summarizeRelations (cr_Relations item),
       rzd_commands = map (\<lambda>n. (n, commandSelfPath (cr_Reference item) n)) (cr_CommandNames item),
       rzd_projections = map (\<lambda>n. (n, projectionSelfPath (cr_Reference item) n)) (cr_Projections item),
       rzd_contract = contract_address (cr_SeedID item) (cr_RealizationID item),
       rzd_self = realizationSelfPath (cr_Reference item), rzd_canonical_url = rlo_CanonicalURL l,
       rzd_permalink_url = rlo_PermalinkURL l, rzd_content_hash = rlo_ContentHash l\<rparr>)"

definition detailCommand :: "url_library \<Rightarrow> marshaller \<Rightarrow> CatalogCommand \<Rightarrow> command_detail" where
  "detailCommand lib m item =
     (let l = item_locator lib m (CommandItem item) in
      \<lparr>cmd_reference = cc_Reference item, cmd_seed_id = cc_SeedID item,
       cmd_realization_id = cc_RealizationID item, cmd_name = cc_Name item, cmd_summary = cc_Summary item,
       cmd_path = cc_Path item, cmd_auth_modes = cc_AuthModes item, cmd_capabilities = cc_Capabilities item,
       cmd_idempotency = cc_Idempotency item, cmd_input_schema_ref = cc_InputSchemaRef item,
       cmd_result_schema_ref = cc_ResultSchemaRef item,
       cmd_input_schema = schema_link (cc_InputSchemaRef item),
       cmd_result_schema = schema_link (cc_ResultSchemaRef item), cmd_projection = cc_Projection item,
       cmd_projection_self = (if cc_Projection item = [] then [] else projectionSelfPath (cc_Reference item) (cc_Projection item)),
       cmd_consistency = cc_Consistency item, cmd_contract_file = cc_ContractFile item,
       cmd_contract = contract_address (cc_SeedID item) (cc_RealizationID item),
       cmd_self = commandSelfPath (cc_Reference item) (cc_Name item), cmd_canonical_url = rlo_CanonicalURL l,
       cmd_permalink_url = rlo_PermalinkURL l, cmd_content_hash = rlo_ContentHash l\<rparr>)"

definition detailProjection :: "url_library \<Rightarrow> marshaller \<Rightarrow> CatalogProjection \<Rightarrow> projection_detail" where
  "detailProjection lib m item =
     (let l = item_locator lib m (ProjectionItem item) in
      \<lparr>pjd_reference = cp_Reference item, pjd_seed_id = cp_SeedID item,
       pjd_realization_id = cp_RealizationID item, pjd_name = cp_Name item, pjd_summary = cp_Summary item,
       pjd_path = cp_Path item, pjd_auth_modes = cp_AuthModes item, pjd_capabilities = cp_Capabilities item,
       pjd_freshness = cp_Freshness item, pjd_data_views = summarizeDataViews (cp_DataViews item),
       pjd_contract_file = cp_ContractFile item,
       pjd_contract = contract_address (cp_SeedID item) (cp_RealizationID item),
       pjd_self = projectionSelfPath (cp_Reference item) (cp_Name item),
       pjd_canonical_url = rlo_CanonicalURL l, pjd_permalink_url = rlo_PermalinkURL l,
       pjd_content_hash = rlo_ContentHash l\<rparr>)"

definition object_realization_of :: "CatalogObjectRealization \<Rightarrow> object_realization" where
  "object_realization_of item =
      \<lparr>obr_reference = cor_Reference item, obr_seed_id = cor_SeedID item,
       obr_realization_id = cor_RealizationID item, obr_approach_id = cor_ApproachID item,
       obr_summary = cor_Summary item, obr_status = cor_Status item, obr_surface_kind = cor_SurfaceKind item,
       obr_contract_file = cor_ContractFile item, obr_schema_ref = cor_SchemaRef item,
       obr_capabilities = cor_Capabilities item,
       obr_contract = contract_address (cor_SeedID item) (cor_RealizationID item),
       obr_realization = realizationSelfPath (cor_Reference item)\<rparr>"

definition detailObject :: "url_library \<Rightarrow> marshaller \<Rightarrow> CatalogObject \<Rightarrow> object_detail" where
  "detailObject lib m item =
     (let l = item_locator lib m (ObjectItem item) in
      \<lparr>obd_seed_id = co_SeedID item, obd_kind = co_Kind item, obd_summary = co_Summary item,
       obd_capabilities = co_Capabilities item, obd_schema_refs = co_SchemaRefs item,
       obd_schemas = map (\<lambda>r. (r, schemaSelfPath r)) (co_SchemaRefs item),
       obd_realizations = map object_realization_of (co_Realizations item),
       obd_outgoing_relations = summarizeRelations (co_OutgoingRelations item),
       obd_incoming_relations = summarizeRelations (co_IncomingRelations item),
       obd_commands = map (detailCommand lib m) (co_Commands item),
       obd_projections = map (detailProjection lib m) (co_Projections item),
       obd_self = objectSelfPath (co_SeedID item) (co_Kind item), obd_canonical_url = rlo_CanonicalURL l,
       obd_permalink_url = rlo_PermalinkURL l, obd_content_hash = rlo_ContentHash l,
       obd_data_layout = (if hasCatalogDataLayout (co_DataLayout item) then Some (summarizeDataLayout (co_DataLayout item)) else None)\<rparr>)"

definition schema_object_use_of :: "CatalogSchemaObjectUse \<Rightarrow> schema_object_use" where
  "schema_object_use_of item =
      \<lparr>sod_reference = sou_Reference item, sod_seed_id = sou_SeedID item,
       sod_realization_id = sou_RealizationID item, sod_kind = sou_Kind item, sod_summary = sou_Summary item,
       sod_contract_file = sou_ContractFile item,
       sod_object = objectSelfPath (sou_SeedID item) (sou_Kind item),
       sod_realization = realizationSelfPath (sou_Reference item),
       sod_contract = contract_address (sou_SeedID item) (sou_RealizationID item)\<rparr>"

definition detailSchemaCommandUse :: "CatalogSchemaCommandUse \<Rightarrow> schema_command_use" where
  "detailSchemaCommandUse item =
      \<lparr>scd_reference = scu_Reference item, scd_seed_id = scu_SeedID item,
       scd_realization_id = scu_RealizationID item, scd_name = scu_Name item, scd_summary = scu_Summary item,
       scd_path = scu_Path item, scd_contract_file = scu_ContractFile item,
       scd_command = commandSelfPath (scu_Reference item) (scu_Name item),
       scd_realization = realizationSelfPath (scu_Reference item),
       scd_contract = contract_address (scu_SeedID item) (scu_RealizationID item)\<rparr>"

definition detailSchema :: "url_library \<Rightarrow> marshaller \<Rightarrow> CatalogSchema \<Rightarrow> schema_detail" where
  "detailSchema lib m item =
     (let l = item_locator lib m (SchemaItem item) in
      \<lparr>scmd_ref = csc_Ref item, scmd_path = csc_Path item, scmd_anchor = csc_Anchor item,
       scmd_object_uses = map schema_object_use_of (csc_ObjectUses item),
       scmd_command_inputs = map detailSchemaCommandUse (csc_CommandInputs item),
       scmd_command_results = map detailSchemaCommandUse (csc_CommandResults item),
       scmd_self = schemaSelfPath (csc_Ref item), scmd_canonical_url = rlo_CanonicalURL l,
       scmd_permalink_url = rlo_PermalinkURL l, scmd_content_hash = rlo_ContentHash l\<rparr>)"

subsection \<open>Contracts\<close>

definition itemSelfPath :: "LoadedInteractionContract \<Rightarrow> string" where
  "itemSelfPath item =
     contract_address (mf_SeedID (lr_Manifest (lc_Realization item))) (mf_RealizationID (lr_Manifest (lc_Realization item)))"

definition summarizeContract :: "string \<Rightarrow> LoadedInteractionContract \<Rightarrow> contractSummary" where
  "summarizeContract repoRoot item =
     (let e = lc_Realization item; path = join_paths [lr_RootDir e, ''interaction_contract.yaml''];
          contractFile = (if lc_ContractFile item \<noteq> [] then lc_ContractFile item
            else if repoRoot = [] then path
            else case rel_path repoRoot path of None \<Rightarrow> path | Some rel \<Rightarrow> rel)
      in \<lparr>cts_Reference = lr_Reference e, cts_SeedID = mf_SeedID (lr_Manifest e),
          cts_RealizationID = mf_RealizationID (lr_Manifest e), cts_SurfaceKind = SurfaceKind (lc_Contract item),
          cts_Summary = ct_Summary (lc_Contract item), cts_ContractFile = contractFile,
          cts_Commands = map cmd_Name (Commands (lc_Contract item)),
          cts_Projections = map prj_Name (Projections (lc_Contract item)), cts_Self = itemSelfPath item\<rparr>)"

definition contract_detail_of :: "LoadedInteractionContract \<Rightarrow> contract_detail" where
  "contract_detail_of item =
     (let e = lc_Realization item; mf = lr_Manifest e in
      \<lparr>ctd_reference = lr_Reference e, ctd_seed_id = mf_SeedID mf, ctd_realization_id = mf_RealizationID mf,
       ctd_contract_file = lc_ContractFile item, ctd_approach_id = mf_ApproachID mf, ctd_summary = mf_Summary mf,
       ctd_status = mf_Status mf, ctd_artifacts = mf_Artifacts mf, ctd_readme = lr_Readme e, ctd_notes = lr_Notes e,
       ctd_self = itemSelfPath item, ctd_contract = lc_Contract item\<rparr>)"

end
