(* ===== verification/Registry_Api.thy ===== *)
theory Registry_Api
  imports Kernel_State Registry_Views
begin

text \<open>
  The handlers of internal/http/json/registry.go, contracts.go and registry_ledger.go: the read side of the registry
  over HTTP. The catalog is loaded afresh for every request by a parameter, and so are the contracts.
\<close>

datatype registry_payload =
    R_Catalog CatalogSummary "registryRealizationSummary list" "registryCommandSummary list"
      "registryProjectionSummary list" "registryObjectSummary list" "registrySchemaSummary list"
  | R_Lookup lookup_result
  | R_Realizations "(string \<times> string) list" "registryRealizationSummary list"
  | R_Realization realization_detail
  | R_Commands "(string \<times> string) list" "registryCommandSummary list"
  | R_Command command_detail
  | R_Projections "(string \<times> string) list" "registryProjectionSummary list"
  | R_Projection projection_detail
  | R_Objects "(string \<times> string) list" "registryObjectSummary list"
  | R_Object object_detail
  | R_Schemas "(string \<times> string) list" "registrySchemaSummary list"
  | R_Schema schema_detail
  | R_Contracts "contractSummary list"
  | R_Contract contract_detail
  | R_ChangeSets "json_map RegistryChangeSet list"
  | R_ChangeSet "json_map RegistryChangeSet"
  | R_Rows "json_map RegistryRow list"
  | R_Row "json_map RegistryRow"

text \<open>
  Every answer of the catalog handlers carries the mode \<open>catalog_projection\<close>, and those of \<open>handleCatalog\<close>,
  \<open>handleLookup\<close> and of the single resources the discovery paths, which are constants and not repeated here.
\<close>

subsection \<open>The handlers of registry.go\<close>

text \<open>
  What the API is built from: the reader and its loader, the hash index (whether there is one), and the
  parameters of the locators; the text of a failure of the catalog is a parameter.
\<close>

record registry_api =
  ra_Loader :: catalog_loader
  ra_Reader :: CatalogReader
  ra_HasIndex :: bool
  ra_Lib :: url_library
  ra_Marshal :: marshaller
  ra_Failure :: "reader_error \<Rightarrow> go_error"

type_synonym registry_handler = "registry_api \<Rightarrow> handler_call \<Rightarrow> kernel_state \<Rightarrow> registry_payload response"

definition answer_list ::
  "registry_api \<Rightarrow> handler_call \<Rightarrow> reader_error + 'a list \<Rightarrow> ('a list \<Rightarrow> registry_payload) \<Rightarrow> registry_payload response" where
  "answer_list api call result payload =
     (case result of Inl e \<Rightarrow> respondError call 500 (ra_Failure api e) | Inr items \<Rightarrow> respondJSON 200 (payload items))"

definition answer_one ::
  "registry_api \<Rightarrow> handler_call \<Rightarrow> reader_error \<Rightarrow> string \<Rightarrow> reader_error + 'a \<Rightarrow> ('a \<Rightarrow> registry_payload) \<Rightarrow>
   registry_payload response" where
  "answer_one api call missing text result payload =
     (case result of
        Inl e \<Rightarrow> if e = missing then respondError call 404 (Plain text) else respondError call 500 (ra_Failure api e)
      | Inr item \<Rightarrow> respondJSON 200 (payload item))"

definition handleLookup :: registry_handler where
  "handleLookup api call ks =
     (let contentHash = trimmed_query call ''sha256'' in
      if \<not> ra_HasIndex api then respondError call 503 (Plain ''registry hash lookup is unavailable'')
      else if \<not> IsSHA256Hex contentHash then respondError call 400 (Plain ''sha256 is required'')
      else case Resolve contentHash (ks_HashIndex ks) of
        Inl ErrHashLookupNotFound \<Rightarrow> respondError call 404 (Plain ''registry hash not found'')
      | Inl e \<Rightarrow> respondError call 500 (Plain ''registry hash index database pool is required'')
      | Inr r \<Rightarrow> respondJSON 200 (R_Lookup
          \<lparr>lkr_content_hash = hl_ContentHash r, lkr_resource_kind = hl_ResourceKind r,
           lkr_canonical_url = hl_CanonicalURL r, lkr_permalink_url = hl_PermalinkURL r,
           lkr_redirect_url = PermalinkResolvePath (ra_Lib api) (hl_CanonicalURL r) (hl_ContentHash r)\<rparr>))"

definition handleCatalog :: registry_handler where
  "handleCatalog api call ks =
     (case ra_Loader api (rd_RepoRoot (ra_Reader api)) of
        Inl e \<Rightarrow> respondError call 500 (ra_Failure api (CatalogFailed e))
      | Inr c \<Rightarrow> respondJSON 200
          (R_Catalog (cat_Summary c) (summarizeRealizations (ra_Lib api) (ra_Marshal api) (cat_Realizations c))
             (summarizeCommands (ra_Lib api) (ra_Marshal api) (cat_Commands c))
             (summarizeProjections (ra_Lib api) (ra_Marshal api) (cat_Projections c))
             (summarizeObjects (ra_Lib api) (ra_Marshal api) (cat_Objects c))
             (summarizeSchemas (ra_Lib api) (ra_Marshal api) (cat_Schemas c))))"

definition handleRealizations :: registry_handler where
  "handleRealizations api call ks =
     answer_list api call
       (Reader_ListRealizations (ra_Loader api) (ra_Reader api) (trimmed_query call ''seed_id'') (trimmed_query call ''q''))
       (\<lambda>items. R_Realizations [(''seed_id'', trimmed_query call ''seed_id''), (''q'', trimmed_query call ''q'')] (summarizeRealizations (ra_Lib api) (ra_Marshal api) items))"

definition handleRealization :: registry_handler where
  "handleRealization api call ks =
     (if trimmed_query call ''reference'' = [] then respondError call 400 (Plain ''reference is required'')
      else answer_one api call ErrCatalogRealizationNotFound ''realization not found''
        (Reader_GetRealization (ra_Loader api) (ra_Reader api) (trimmed_query call ''reference''))
        (\<lambda>item. R_Realization (detailRealization (ra_Lib api) (ra_Marshal api) item)))"

definition handleCommands :: registry_handler where
  "handleCommands api call ks =
     answer_list api call
       (Reader_ListCommands (ra_Loader api) (ra_Reader api) (trimmed_query call ''seed_id'') (trimmed_query call ''reference'') (trimmed_query call ''q''))
       (\<lambda>items. R_Commands [(''seed_id'', trimmed_query call ''seed_id''), (''reference'', trimmed_query call ''reference''), (''q'', trimmed_query call ''q'')] (summarizeCommands (ra_Lib api) (ra_Marshal api) items))"

definition handleCommand :: registry_handler where
  "handleCommand api call ks =
     (if trimmed_query call ''reference'' = [] \<or> trimmed_query call ''name'' = [] then respondError call 400 (Plain ''reference and name are required'')
      else answer_one api call ErrCatalogCommandNotFound ''command not found''
        (Reader_GetCommand (ra_Loader api) (ra_Reader api) (trimmed_query call ''reference'') (trimmed_query call ''name''))
        (\<lambda>item. R_Command (detailCommand (ra_Lib api) (ra_Marshal api) item)))"

definition handleProjections :: registry_handler where
  "handleProjections api call ks =
     answer_list api call
       (Reader_ListProjections (ra_Loader api) (ra_Reader api) (trimmed_query call ''seed_id'') (trimmed_query call ''reference'') (trimmed_query call ''q''))
       (\<lambda>items. R_Projections [(''seed_id'', trimmed_query call ''seed_id''), (''reference'', trimmed_query call ''reference''), (''q'', trimmed_query call ''q'')] (summarizeProjections (ra_Lib api) (ra_Marshal api) items))"

definition handleProjection :: registry_handler where
  "handleProjection api call ks =
     (if trimmed_query call ''reference'' = [] \<or> trimmed_query call ''name'' = [] then respondError call 400 (Plain ''reference and name are required'')
      else answer_one api call ErrCatalogProjectionNotFound ''projection not found''
        (Reader_GetProjection (ra_Loader api) (ra_Reader api) (trimmed_query call ''reference'') (trimmed_query call ''name''))
        (\<lambda>item. R_Projection (detailProjection (ra_Lib api) (ra_Marshal api) item)))"

definition handleObjects :: registry_handler where
  "handleObjects api call ks =
     answer_list api call
       (Reader_ListObjects (ra_Loader api) (ra_Reader api) (trimmed_query call ''seed_id'') (trimmed_query call ''schema_ref'') (trimmed_query call ''q''))
       (\<lambda>items. R_Objects [(''seed_id'', trimmed_query call ''seed_id''), (''schema_ref'', trimmed_query call ''schema_ref''), (''q'', trimmed_query call ''q'')] (summarizeObjects (ra_Lib api) (ra_Marshal api) items))"

definition handleObject :: registry_handler where
  "handleObject api call ks =
     (if trimmed_query call ''seed_id'' = [] \<or> trimmed_query call ''kind'' = [] then respondError call 400 (Plain ''seed_id and kind are required'')
      else answer_one api call ErrCatalogObjectNotFound ''object not found''
        (Reader_GetObject (ra_Loader api) (ra_Reader api) (trimmed_query call ''seed_id'') (trimmed_query call ''kind''))
        (\<lambda>item. R_Object (detailObject (ra_Lib api) (ra_Marshal api) item)))"

definition handleSchemas :: registry_handler where
  "handleSchemas api call ks =
     answer_list api call
       (Reader_ListSchemas (ra_Loader api) (ra_Reader api) (trimmed_query call ''seed_id'') (trimmed_query call ''q''))
       (\<lambda>items. R_Schemas [(''seed_id'', trimmed_query call ''seed_id''), (''q'', trimmed_query call ''q'')] (summarizeSchemas (ra_Lib api) (ra_Marshal api) items))"

definition handleSchema :: registry_handler where
  "handleSchema api call ks =
     (if trimmed_query call ''ref'' = [] then respondError call 400 (Plain ''ref is required'')
      else answer_one api call ErrCatalogSchemaNotFound ''schema not found''
        (Reader_GetSchema (ra_Loader api) (ra_Reader api) (trimmed_query call ''ref''))
        (\<lambda>item. R_Schema (detailSchema (ra_Lib api) (ra_Marshal api) item)))"

subsection \<open>contracts.go\<close>

definition handleListContracts ::
  "(discover_error \<Rightarrow> go_error) \<Rightarrow> discover_error + LoadedInteractionContract list \<Rightarrow> string \<Rightarrow> handler_call \<Rightarrow>
   registry_payload response" where
  "handleListContracts failure discovered repoRoot call =
     (case discovered of
        Inl e \<Rightarrow> respondError call 500 (failure e)
      | Inr contracts \<Rightarrow> respondJSON 200 (R_Contracts (map (summarizeContract repoRoot) contracts)))"

definition handleGetContract ::
  "(discover_error \<Rightarrow> go_error) \<Rightarrow> discover_error + LoadedInteractionContract list \<Rightarrow> handler_call \<Rightarrow>
   registry_payload response" where
  "handleGetContract failure discovered call =
     (case discovered of
        Inl e \<Rightarrow> respondError call 500 (failure e)
      | Inr contracts \<Rightarrow>
          (case find (\<lambda>item. mf_SeedID (lr_Manifest (lc_Realization item)) = hc_PathValue call ''seed_id'' \<and>
                             mf_RealizationID (lr_Manifest (lc_Realization item)) = hc_PathValue call ''realization_id'')
                  contracts of
             None \<Rightarrow> respondError call 404 (Plain ''contract not found'')
           | Some item \<Rightarrow> respondJSON 200 (R_Contract (contract_detail_of item))))"

subsection \<open>registry_ledger.go\<close>

text \<open>Unlike the handlers of runtime.go, these answer every error of the service with status 400, which
  \<open>WriteJSONError\<close> changes for the errors that have a status of their own.\<close>

definition ledger_answer ::
  "bool \<Rightarrow> handler_call \<Rightarrow> runtime_error + 'a \<Rightarrow> ('a \<Rightarrow> registry_payload) \<Rightarrow> registry_payload response" where
  "ledger_answer has_service call result payload =
     (if \<not> has_service then respondError call 503 (ServiceUnavailable ''runtime service unavailable'')
      else case result of
        Inl e \<Rightarrow> respondError call 400 (runtime_go_error e)
      | Inr x \<Rightarrow> respondJSON 200 (payload x))"

abbreviation the_ledger :: "kernel_state \<Rightarrow> json_map ledger" where
  "the_ledger ks \<equiv> at_Ledger (ks_Identity ks)"

definition ledger_handleListRegistryChangeSets :: "bool \<Rightarrow> handler_call \<Rightarrow> kernel_state \<Rightarrow> registry_payload response" where
  "ledger_handleListRegistryChangeSets has_service call ks =
     ledger_answer has_service call
       (ListRegistryChangeSets (trimmed_query call ''reference'') (trimmed_query_int call ''limit'') (the_ledger ks))
       R_ChangeSets"

definition ledger_handleGetRegistryChangeSet :: "bool \<Rightarrow> handler_call \<Rightarrow> kernel_state \<Rightarrow> registry_payload response" where
  "ledger_handleGetRegistryChangeSet has_service call ks =
     ledger_answer has_service call (GetRegistryChangeSet (hc_PathValue call ''change_set_id'') (the_ledger ks)) R_ChangeSet"

definition ledger_handleListRegistryRows :: "bool \<Rightarrow> handler_call \<Rightarrow> kernel_state \<Rightarrow> registry_payload response" where
  "ledger_handleListRegistryRows has_service call ks =
     ledger_answer has_service call
       (ListRegistryRows
          \<lparr>li_Reference = trimmed_query call ''reference'', li_SeedID = trimmed_query call ''seed_id'',
           li_RealizationID = trimmed_query call ''realization_id'', li_AfterRowID = trimmed_query_int call ''after'',
           li_Limit = trimmed_query_int call ''limit''\<rparr> (the_ledger ks))
       R_Rows"

definition ledger_handleGetRegistryRow :: "bool \<Rightarrow> handler_call \<Rightarrow> kernel_state \<Rightarrow> registry_payload response" where
  "ledger_handleGetRegistryRow has_service call ks =
     (let (rowID, ok) = parse_int (trim_space (hc_PathValue call ''row_id'')) in
      if has_service \<and> (\<not> ok \<or> rowID \<le> 0)
      then respondError call 400 (Plain ''row_id must be a positive integer'')
      else ledger_answer has_service call (GetRegistryRow rowID (the_ledger ks)) R_Row)"

end
