(* ===== verification/Runtime_Api.thy ===== *)
theory Runtime_Api
  imports Kernel_State
begin

text \<open>
  internal/http/json/runtime.go: the handlers of the runtime service. Each one decodes its input, or reads it
  off the path and the query, calls one operation of the service and answers with its result.
\<close>

text \<open>What the decoder makes of a JSON value for each input type.\<close>

record body_types =
  bt_CreatePrincipal :: "json \<Rightarrow> go_error + CreatePrincipalInput"
  bt_CreatePrincipalIdentifier :: "json \<Rightarrow> go_error + CreatePrincipalIdentifierInput"
  bt_BindAuthIdentity :: "json \<Rightarrow> go_error + BindAuthIdentityInput"
  bt_CreateSession :: "json \<Rightarrow> go_error + CreateSessionInput"
  bt_CreateAuthChallenge :: "json \<Rightarrow> go_error + CreateAuthChallengeInput"
  bt_Verifier :: "json \<Rightarrow> go_error + string"
  bt_UpsertAuthorityBundle :: "json \<Rightarrow> go_error + UpsertAuthorityBundleInput"
  bt_CreateAuthorityGrant :: "json \<Rightarrow> go_error + CreateAuthorityGrantInput"
  bt_AppendRegistryChangeSet :: "json \<Rightarrow> go_error + json_map AppendRegistryChangeSetInput"
  bt_AssignHandle :: "json \<Rightarrow> go_error + AssignHandleInput"
  bt_CreateAccessLink :: "json \<Rightarrow> go_error + CreateAccessLinkInput"
  bt_Token :: "json \<Rightarrow> go_error + string"
  bt_UpsertPublication :: "json \<Rightarrow> go_error + UpsertPublicationInput"
  bt_RecordStateTransition :: "json \<Rightarrow> go_error + RecordStateTransitionInput"
  bt_RecordActivityEvent :: "json \<Rightarrow> go_error + RecordActivityEventInput"
  bt_EnqueueJob :: "json \<Rightarrow> go_error + json EnqueueJobInput"
  bt_JobClaim :: "json \<Rightarrow> go_error + JobClaimInput"
  bt_JobComplete :: "json \<Rightarrow> go_error + JobCompleteInput"
  bt_JobFail :: "json \<Rightarrow> go_error + JobFailInput"
  bt_EnqueueOutboxMessage :: "json \<Rightarrow> go_error + json EnqueueOutboxMessageInput"
  bt_CreateThread :: "json \<Rightarrow> go_error + CreateThreadInput"
  bt_AddThreadParticipant :: "json \<Rightarrow> go_error + AddThreadParticipantInput"
  bt_PostMessage :: "json \<Rightarrow> go_error + PostMessageInput"
  bt_UpsertSearchDocument :: "json \<Rightarrow> go_error + UpsertSearchDocumentInput"
  bt_RecordGuardDecision :: "json \<Rightarrow> go_error + RecordGuardDecisionInput"
  bt_RecordRiskEvent :: "json \<Rightarrow> go_error + RecordRiskEventInput"

datatype runtime_payload =
    P_Status "(string \<times> string) list" "string list option" "Http_Requests.ResolvedSession option"
  | P_Principal principal_row
  | P_Identifier PrincipalIdentifier
  | P_Identity AuthIdentity
  | P_Session Session
  | P_ChallengeIssue AuthChallengeIssue
  | P_Challenge AuthChallenge
  | P_Bundle AuthorityBundle
  | P_Grant AuthorityGrant
  | P_Materialized AuthorityMaterializationResult
  | P_Grants "AuthorityGrant list"
  | P_Effective PrincipalEffectiveAuthority
  | P_Appended "json_map AppendedRegistryChangeSet"
  | P_ChangeSets "json_map RegistryChangeSet list"
  | P_ChangeSet "json_map RegistryChangeSet"
  | P_Rows "json_map RegistryRow list"
  | P_Row "json_map RegistryRow"
  | P_Handle Handle
  | P_LinkIssue AccessLinkIssue
  | P_Link AccessLink
  | P_Publication Publication
  | P_Transition StateTransition
  | P_Activity ActivityEvent
  | P_Job "json Job"
  | P_Jobs "json Job list"
  | P_Outbox "json OutboxMessage"
  | P_Thread Thread
  | P_Participant ThreadParticipant
  | P_Message Message
  | P_Messages "Message list"
  | P_Document SearchDocument
  | P_Documents "SearchDocument list"
  | P_Guard GuardDecision
  | P_Risk RiskEvent

type_synonym 'p handler = "api_env \<Rightarrow> handler_call \<Rightarrow> kernel_state \<Rightarrow> 'p response \<times> kernel_state"

subsection \<open>The two shapes of a handler\<close>

definition answer_with :: "('a \<Rightarrow> 'p) \<Rightarrow> (api_env \<Rightarrow> handler_call \<Rightarrow> 'a kernel_op) \<Rightarrow> 'p handler" where
  "answer_with payload op env call ks =
     (let (r, ks') = op env call ks in (writeRuntimeResult call payload r, ks'))"

definition decode_and ::
  "(json \<Rightarrow> go_error + 'i) \<Rightarrow> ('a \<Rightarrow> 'p) \<Rightarrow> (api_env \<Rightarrow> handler_call \<Rightarrow> 'i \<Rightarrow> 'a kernel_op) \<Rightarrow> 'p handler" where
  "decode_and typed payload op env call ks =
     (case decodeJSON (ae_Reader env) typed call of
        Inl refusal \<Rightarrow> (refusal, ks)
      | Inr input \<Rightarrow> answer_with payload (\<lambda>env call. op env call input) env call ks)"

subsection \<open>Health\<close>

definition handleHealthz :: "runtime_payload handler" where
  "handleHealthz env call ks = (respondJSON 200 (P_Status [(''status'', ''ok'')] None None), ks)"

text \<open>
  Whether there is a service, the outcome of its ping, and the reader of the applied migrations (if any) are
  arguments.
\<close>

definition handleRuntimeHealth ::
  "bool \<Rightarrow> go_error err \<Rightarrow> (go_error + string list) option \<Rightarrow> runtime_payload handler" where
  "handleRuntimeHealth has_service ping migrations env call ks =
     (if \<not> has_service \<or> ping \<noteq> None
      then (respondError call 503 (ServiceUnavailable ''runtime service unavailable''), ks)
      else
        (let status = [(''status'', ''ok''), (''runtime_db'', ''connected'')];
             session = SessionFromContext (hc_Context call)
         in case migrations of
           None \<Rightarrow> (respondJSON 200 (P_Status status None session), ks)
         | Some (Inl e) \<Rightarrow> (respondError call 500 e, ks)
         | Some (Inr ms) \<Rightarrow> (respondJSON 200 (P_Status status (Some ms) session), ks)))"

subsection \<open>The operations\<close>

definition handleCreatePrincipal :: "body_types \<Rightarrow> runtime_payload handler" where
  "handleCreatePrincipal ty = decode_and (bt_CreatePrincipal ty) P_Principal (\<lambda>env call i. in_identity (CreatePrincipal (ae_Fresh env 0) (ae_DB env) i))"

definition handleCreatePrincipalIdentifier :: "body_types \<Rightarrow> runtime_payload handler" where
  "handleCreatePrincipalIdentifier ty = decode_and (bt_CreatePrincipalIdentifier ty) P_Identifier (\<lambda>env call i. in_identity (CreatePrincipalIdentifier (ae_Fresh env 0) (ae_DB env) i))"

definition handleBindAuthIdentity :: "body_types \<Rightarrow> runtime_payload handler" where
  "handleBindAuthIdentity ty = decode_and (bt_BindAuthIdentity ty) P_Identity (\<lambda>env call i. in_authority (BindAuthIdentity (ae_Now env) i))"

definition handleResolveAuthIdentity :: "runtime_payload handler" where
  "handleResolveAuthIdentity = answer_with P_Identity (\<lambda>env call. query_of ks_Identity (\<lambda>s. ResolveAuthIdentity (hc_Query call ''provider_id'') (hc_Query call ''provider_subject'') (authority_state.truncate s)))"

definition handleCreateSession :: "body_types \<Rightarrow> runtime_payload handler" where
  "handleCreateSession ty = decode_and (bt_CreateSession ty) P_Session (\<lambda>env call i. in_identity (CreateSession (ae_Fresh env 0) (ae_Now env) i))"

definition handleGetSession :: "runtime_payload handler" where
  "handleGetSession = answer_with P_Session (\<lambda>env call. query_of ks_Identity (GetSession (hc_PathValue call ''session_id'')))"

definition handleCreateAuthChallenge :: "body_types \<Rightarrow> runtime_payload handler" where
  "handleCreateAuthChallenge ty = decode_and (bt_CreateAuthChallenge ty) P_ChallengeIssue (\<lambda>env call i. in_identity (CreateAuthChallenge (ae_Fresh env 0) (ae_Token env) (ae_DB env) i))"

definition handleConsumeAuthChallenge :: "body_types \<Rightarrow> runtime_payload handler" where
  "handleConsumeAuthChallenge ty = decode_and (bt_Verifier ty) P_Challenge (\<lambda>env call i. in_identity (ConsumeAuthChallenge (ae_Now env) (hc_PathValue call ''challenge_id'') i))"

definition handleUpsertAuthorityBundle :: "body_types \<Rightarrow> runtime_payload handler" where
  "handleUpsertAuthorityBundle ty = decode_and (bt_UpsertAuthorityBundle ty) P_Bundle (\<lambda>env call i. in_authority (UpsertAuthorityBundle (ae_Now env) i))"

definition handleCreateAuthorityGrant :: "body_types \<Rightarrow> runtime_payload handler" where
  "handleCreateAuthorityGrant ty = decode_and (bt_CreateAuthorityGrant ty) P_Grant (\<lambda>env call i. in_authority (CreateAuthorityGrant (ae_Now env) (ae_DB env) i))"

definition handleMaterializeAuthorityState :: "runtime_payload handler" where
  "handleMaterializeAuthorityState = answer_with P_Materialized (\<lambda>env call. in_authority (MaterializeAuthorityState (ae_Now env) (ae_DB env)))"

definition handleListAuthorityLedgerByPrincipal :: "runtime_payload handler" where
  "handleListAuthorityLedgerByPrincipal = answer_with P_Grants (\<lambda>env call. in_authority (ListAuthorityLedgerByPrincipal (ae_Now env) (ae_DB env) (hc_PathValue call ''principal_id'') (query_int call ''limit'')))"

definition handleGetEffectiveAuthorityByPrincipal :: "runtime_payload handler" where
  "handleGetEffectiveAuthorityByPrincipal = answer_with P_Effective (\<lambda>env call. in_authority (GetEffectiveAuthorityByPrincipal (ae_Now env) (ae_DB env) (hc_PathValue call ''principal_id'')))"

definition handleAppendRegistryChangeSet :: "body_types \<Rightarrow> runtime_payload handler" where
  "handleAppendRegistryChangeSet ty = decode_and (bt_AppendRegistryChangeSet ty) P_Appended (\<lambda>env call i. in_ledger (AppendRegistryChangeSet (ae_Fresh env 0) (ae_Now env) i))"

definition handleListRegistryChangeSets :: "runtime_payload handler" where
  "handleListRegistryChangeSets = answer_with P_ChangeSets (\<lambda>env call. query_of (\<lambda>ks. at_Ledger (ks_Identity ks)) (ListRegistryChangeSets (hc_Query call ''reference'') (query_int call ''limit'')))"

definition handleGetRegistryChangeSet :: "runtime_payload handler" where
  "handleGetRegistryChangeSet = answer_with P_ChangeSet (\<lambda>env call. query_of (\<lambda>ks. at_Ledger (ks_Identity ks)) (GetRegistryChangeSet (hc_PathValue call ''change_set_id'')))"

text \<open>Shared with the handlers of registry_ledger.go.\<close>

definition rows_input :: "handler_call \<Rightarrow> int \<Rightarrow> ListRegistryRowsInput" where
  "rows_input call limit =
     \<lparr>li_Reference = trimmed_query call ''reference'', li_SeedID = trimmed_query call ''seed_id'',
      li_RealizationID = trimmed_query call ''realization_id'',
      li_AfterRowID = trimmed_query_int call ''after'', li_Limit = limit\<rparr>"

definition handleListRegistryRows :: "runtime_payload handler" where
  "handleListRegistryRows = answer_with P_Rows (\<lambda>env call. query_of (\<lambda>ks. at_Ledger (ks_Identity ks)) (ListRegistryRows (rows_input call (query_int call ''limit''))))"

definition handleGetRegistryRow :: "runtime_payload handler" where
  "handleGetRegistryRow env call ks =
     (let (rowID, ok) = parse_int (trim_space (hc_PathValue call ''row_id'')) in
      if \<not> ok \<or> rowID \<le> 0 then (respondError call 400 (Plain ''row_id must be a positive integer''), ks)
      else answer_with P_Row (\<lambda>env call. query_of (\<lambda>ks. at_Ledger (ks_Identity ks)) (GetRegistryRow rowID)) env call ks)"

definition handleAssignHandle :: "body_types \<Rightarrow> runtime_payload handler" where
  "handleAssignHandle ty = decode_and (bt_AssignHandle ty) P_Handle (\<lambda>env call i. in_web (AssignHandle (ae_Fresh env 0) (ae_DB env) i))"

definition handleResolveHandle :: "runtime_payload handler" where
  "handleResolveHandle = answer_with P_Handle (\<lambda>env call. query_of ks_Web (ResolveHandle (hc_PathValue call ''namespace'') (hc_PathValue call ''handle'')))"

definition handleCreateAccessLink :: "body_types \<Rightarrow> runtime_payload handler" where
  "handleCreateAccessLink ty = decode_and (bt_CreateAccessLink ty) P_LinkIssue (\<lambda>env call i. in_web (CreateAccessLink (ae_Fresh env 0) (ae_Token env) (ae_DB env) i))"

definition handleConsumeAccessLink :: "body_types \<Rightarrow> runtime_payload handler" where
  "handleConsumeAccessLink ty = decode_and (bt_Token ty) P_Link (\<lambda>env call i. in_web (ConsumeAccessLink (ae_Now env) i))"

definition handleUpsertPublication :: "body_types \<Rightarrow> runtime_payload handler" where
  "handleUpsertPublication ty = decode_and (bt_UpsertPublication ty) P_Publication (\<lambda>env call i. in_web (UpsertPublication (ae_Fresh env 0) (ae_DB env) i))"

definition handleRecordStateTransition :: "body_types \<Rightarrow> runtime_payload handler" where
  "handleRecordStateTransition ty = decode_and (bt_RecordStateTransition ty) P_Transition (\<lambda>env call i. in_web (RecordStateTransition (ae_Fresh env 0) (ae_Now env) i))"

definition handleRecordActivityEvent :: "body_types \<Rightarrow> runtime_payload handler" where
  "handleRecordActivityEvent ty = decode_and (bt_RecordActivityEvent ty) P_Activity (\<lambda>env call i. in_web (RecordActivityEvent (ae_Fresh env 0) (ae_Now env) i))"

definition handleEnqueueJob :: "body_types \<Rightarrow> runtime_payload handler" where
  "handleEnqueueJob ty = decode_and (bt_EnqueueJob ty) P_Job (\<lambda>env call i. in_jobs (EnqueueJob (ae_Fresh env 0) (ae_Now env) (ae_DB env) i))"

definition handleGetJob :: "runtime_payload handler" where
  "handleGetJob = answer_with P_Job (\<lambda>env call. query_of ks_Jobs (GetJob (hc_PathValue call ''job_id'')))"

definition handleClaimJobs :: "body_types \<Rightarrow> runtime_payload handler" where
  "handleClaimJobs ty = decode_and (bt_JobClaim ty) P_Jobs (\<lambda>env call i. in_jobs (ClaimJobs (ae_Locked env) (ae_Now env) i))"

definition handleCompleteJob :: "body_types \<Rightarrow> runtime_payload handler" where
  "handleCompleteJob ty = decode_and (bt_JobComplete ty) P_Job (\<lambda>env call i. in_jobs (CompleteJob (ae_Now env) (hc_PathValue call ''job_id'') i))"

definition handleFailJob :: "body_types \<Rightarrow> runtime_payload handler" where
  "handleFailJob ty = decode_and (bt_JobFail ty) P_Job (\<lambda>env call i. in_jobs (FailJob (ae_Now env) (hc_PathValue call ''job_id'') i))"

definition handleEnqueueOutbox :: "body_types \<Rightarrow> runtime_payload handler" where
  "handleEnqueueOutbox ty = decode_and (bt_EnqueueOutboxMessage ty) P_Outbox (\<lambda>env call i. in_outbox (EnqueueOutboxMessage (ae_Fresh env 0) (ae_Now env) (ae_DB env) i))"

definition handleCreateThread :: "body_types \<Rightarrow> runtime_payload handler" where
  "handleCreateThread ty = decode_and (bt_CreateThread ty) P_Thread (\<lambda>env call i. in_comm (CreateThread (ae_Fresh env 0) (ae_DB env) i))"

definition handleAddThreadParticipant :: "body_types \<Rightarrow> runtime_payload handler" where
  "handleAddThreadParticipant ty = decode_and (bt_AddThreadParticipant ty) P_Participant (\<lambda>env call i. in_comm (AddThreadParticipant (ae_Fresh env 0) (ae_DB env) i))"

definition handlePostMessage :: "body_types \<Rightarrow> runtime_payload handler" where
  "handlePostMessage ty = decode_and (bt_PostMessage ty) P_Message (\<lambda>env call i. in_comm (PostMessage (ae_Fresh env 0) (ae_DB env) i))"

definition handleListMessages :: "runtime_payload handler" where
  "handleListMessages = answer_with P_Messages (\<lambda>env call. query_of ks_Comm (ListMessages (hc_PathValue call ''thread_id'') (query_int call ''limit'')))"

definition handleUpsertSearchDocument :: "body_types \<Rightarrow> runtime_payload handler" where
  "handleUpsertSearchDocument ty = decode_and (bt_UpsertSearchDocument ty) P_Document (\<lambda>env call i. in_comm (UpsertSearchDocument (ae_Fresh env 0) (ae_DB env) i))"

definition handleSearchDocuments :: "runtime_payload handler" where
  "handleSearchDocuments = answer_with P_Documents (\<lambda>env call. query_of ks_Comm (SearchDocuments \<lparr>sq_Scope = (hc_Query call ''scope''), sq_Query = (hc_Query call ''q''), sq_Limit = query_int call ''limit''\<rparr>))"

definition handleRecordGuardDecision :: "body_types \<Rightarrow> runtime_payload handler" where
  "handleRecordGuardDecision ty = decode_and (bt_RecordGuardDecision ty) P_Guard (\<lambda>env call i. in_rates (RecordGuardDecision (ae_Fresh env 0) i))"

definition handleRecordRiskEvent :: "body_types \<Rightarrow> runtime_payload handler" where
  "handleRecordRiskEvent ty = decode_and (bt_RecordRiskEvent ty) P_Risk (\<lambda>env call i. in_comm (RecordRiskEvent (ae_Fresh env 0) (ae_DB env) i))"

end
