(* ===== verification/Execution_Api.thy ===== *)
theory Execution_Api
  imports Runtime_Api Local_Execution Growth_Context
begin

text \<open>
  internal/http/json/execution.go and operations.go: the commands that launch, stop and activate executions, and
  the projections of executions, routes and operations. A map literal with fixed keys is a record.
\<close>

record execution_view =
  xv_execution_id :: string
  xv_reference :: string
  xv_seed_id :: string
  xv_realization_id :: string
  xv_backend :: string
  xv_mode :: string
  xv_status :: string
  xv_route_subdomain :: string
  xv_route_path_prefix :: string
  xv_preview_path_prefix :: string
  xv_upstream_addr :: string
  xv_started_at :: int
  xv_healthy_at :: "int option"
  xv_stopped_at :: "int option"
  xv_last_error :: string
  xv_metadata :: json_map
  xv_open_path :: string
  xv_self :: string

text \<open>
  The answers: command, job, execution and the two paths of a launch; command, job and path of a stop; and so on.
\<close>

datatype execution_payload =
    X_Launch "json Job" execution_view string string
  | X_Stop "json Job" string
  | X_Activate RealizationActivation execution_view
  | X_Sessions "execution_view list"
  | X_Session execution_view "RealizationExecutionEvent list"
  | X_Routes "RealizationRouteBinding list"
  | X_Samples "ProcessSample list"
  | X_Events "ServiceEvent list"
  | X_Suspensions "RealizationSuspension list"

text \<open>
  What the API is built from: whether there is a service, the prefix, the reader of the growth context of a
  reference, the decoders of the three inputs, and the clock reading for a request without an identifier.
\<close>

record execution_api =
  xa_HasService :: bool
  xa_Prefix :: string
  xa_Growth :: "string \<Rightarrow> growth_error + GrowthContext"
  xa_Launch :: "json \<Rightarrow> go_error + string"
  xa_Stop :: "json \<Rightarrow> go_error + string"
  xa_Activate :: "json \<Rightarrow> go_error + string"
  xa_UnixNano :: int

type_synonym execution_handler = "execution_api \<Rightarrow> execution_payload handler"

definition no_service :: "handler_call \<Rightarrow> 'p response" where
  "no_service call = respondError call 503 (ServiceUnavailable ''runtime service unavailable'')"

definition api_prefix :: "string \<Rightarrow> string" where
  "api_prefix given = (let p = trim_right_set (trim_space given) slash in if p = [] then ''/v1'' else p)"

definition api_path :: "execution_api \<Rightarrow> string \<Rightarrow> string" where
  "api_path api rest = api_prefix (xa_Prefix api) @ rest"

definition session_path :: "execution_api \<Rightarrow> string \<Rightarrow> string" where
  "session_path api k = api_path api (''/projections/realization-execution/sessions/'' @ k)"

definition executionProjection :: "execution_api \<Rightarrow> RealizationExecution \<Rightarrow> string \<Rightarrow> execution_view" where
  "executionProjection api item openPath =
     \<lparr>xv_execution_id = ex_ExecutionID item, xv_reference = ex_Reference item, xv_seed_id = ex_SeedID item,
      xv_realization_id = ex_RealizationID item, xv_backend = ex_Backend item, xv_mode = ex_Mode item,
      xv_status = ex_Status item, xv_route_subdomain = ex_RouteSubdomain item,
      xv_route_path_prefix = ex_RoutePathPrefix item, xv_preview_path_prefix = ex_PreviewPathPrefix item,
      xv_upstream_addr = ex_UpstreamAddr item, xv_started_at = ex_StartedAt item, xv_healthy_at = ex_HealthyAt item,
      xv_stopped_at = ex_StoppedAt item, xv_last_error = ex_LastError item, xv_metadata = ex_Metadata item,
      xv_open_path = trim_space openPath, xv_self = session_path api (ex_ExecutionID item)\<rparr>"

subsection \<open>The path under which an execution is opened\<close>

definition preferredExecutionOpenPath :: "RealizationRouteBinding \<Rightarrow> string \<times> nat" where
  "preferredExecutionOpenPath b =
     (let p0 = trim_space (rb_PathPrefix b);
          p1 = (if has_prefix p0 slash then p0 else slash @ p0);
          p2 = (if has_suffix p1 slash then p1 else p1 @ slash);
          kind = trim_space (rb_BindingKind b)
      in if p0 = [] then ([], 0)
         else (p2, if kind = ''stable_path'' then 30 else if kind = ''preview_path'' then 20 else 10))"

text \<open>The loop over the bindings: the path found for an execution and its priority.\<close>

definition prefer_route :: "(string \<rightharpoonup> string \<times> nat) \<Rightarrow> RealizationRouteBinding \<Rightarrow> string \<rightharpoonup> string \<times> nat" where
  "prefer_route found b =
     (let k = trim_space (rb_ExecutionID b); (candidate, priority) = preferredExecutionOpenPath b in
      if k = [] \<or> candidate = [] \<or> priority = 0 then found
      else case found k of
        Some (_, existing) \<Rightarrow> if existing \<ge> priority then found else found(k \<mapsto> (candidate, priority))
      | None \<Rightarrow> found(k \<mapsto> (candidate, priority)))"

definition activeRoutePathsByExecution :: "ops_state \<Rightarrow> string \<Rightarrow> string" where
  "activeRoutePathsByExecution st k =
     (case ListRealizationRouteBindings True st of
        Inl _ \<Rightarrow> []
      | Inr bindings \<Rightarrow> (case foldl prefer_route Map.empty bindings k of None \<Rightarrow> [] | Some (p, _) \<Rightarrow> p))"

subsection \<open>Launch\<close>

definition request_of :: "handler_call \<Rightarrow> RequestMetadata" where
  "request_of call = RequestMetadataFromContext (hc_Context call)"

definition session_of :: "handler_call \<Rightarrow> Http_Requests.ResolvedSession" where
  "session_of call =
     (case SessionFromContext (hc_Context call) of
        Some s \<Rightarrow> s | None \<Rightarrow> no_session)"

definition last_chars :: "nat \<Rightarrow> string \<Rightarrow> string" where
  "last_chars n s = (if length s > n then drop (length s - n) s else s)"

definition launch_id :: "string \<Rightarrow> string \<Rightarrow> int \<Rightarrow> string" where
  "launch_id reference requestID nanos =
     (let tail = last_chars 6 requestID;
          tail = (if blank tail then itoa (nanos mod 1000000) else tail)
      in ''exec_'' @ map (\<lambda>c. if c = CHR ''/'' \<or> c = CHR ''-'' then CHR ''_'' else c) reference @ ''_'' @ tail)"

definition launch_input :: "handler_call \<Rightarrow> GrowthContext \<Rightarrow> string \<Rightarrow> CreateRealizationExecutionInput" where
  "launch_input call packet executionID =
     \<lparr>ce_ExecutionID = executionID, ce_Reference = gc_Reference packet, ce_SeedID = gc_SeedID packet,
      ce_RealizationID = gc_RealizationID packet, ce_Backend = ''localprocess'', ce_Mode = ''preview'',
      ce_Status = ''launch_requested'', ce_RouteSubdomain = gc_Subdomain packet,
      ce_RoutePathPrefix = gc_PathPrefix packet, ce_PreviewPathPrefix = PreviewPath executionID,
      ce_UpstreamAddr = [], ce_ExecutionPackageRef = [],
      ce_LaunchedByPrincipalID = Http_Requests.ss_PrincipalID (session_of call),
      ce_LaunchedBySessionID = Http_Requests.ss_SessionID (session_of call),
      ce_RequestID = md_RequestID (request_of call), ce_Metadata = [], ce_StartedAt = None\<rparr>"

definition execution_job :: "string \<Rightarrow> int \<Rightarrow> (string \<rightharpoonup> json) \<Rightarrow> json EnqueueJobInput" where
  "execution_job kind priority payload =
     \<lparr>ej_JobID = [], ej_Queue = ''realization-execution'', ej_Kind = kind, ej_DedupeKey = [], ej_Status = [],
      ej_Priority = priority, ej_RunAt = None, ej_MaxAttempts = 0, ej_Payload = payload\<rparr>"

definition launch_job_input :: "GrowthContext \<Rightarrow> string \<Rightarrow> json EnqueueJobInput" where
  "launch_job_input packet executionID =
     execution_job ''realizations.launch'' 120
       [''execution_id'' \<mapsto> JString executionID, ''reference'' \<mapsto> JString (gc_Reference packet),
        ''seed_id'' \<mapsto> JString (gc_SeedID packet)]"

text \<open>
  The part of \<open>api_handleLaunch\<close> that writes: the execution, the job, and the event, whose failure is ignored. The
  draws are the identifiers of the job and of the event.
\<close>

definition request_launch ::
  "api_env \<Rightarrow> handler_call \<Rightarrow> GrowthContext \<Rightarrow> string \<Rightarrow> kernel_state \<Rightarrow>
   (go_error + RealizationExecution \<times> json Job) \<times> kernel_state" where
  "request_launch env call packet executionID ks =
     (case in_store (CreateRealizationExecution (ae_Fresh env 2) (ae_Now env) (launch_input call packet executionID)) ks of
        (Inl e, ks1) \<Rightarrow> (Inl e, ks1)
      | (Inr row, ks1) \<Rightarrow>
          (case in_jobs (EnqueueJob (ae_Fresh env 0) (ae_Now env) (ae_DB env) (launch_job_input packet executionID)) ks1 of
             (Inl e, ks2) \<Rightarrow> (Inl e, ks2)
           | (Inr job, ks2) \<Rightarrow>
               (Inr (row, job),
                snd (in_store (RecordRealizationExecutionEvent (ae_Fresh env 1) (ae_Now env)
                  \<lparr>ree_EventID = [], ree_ExecutionID = executionID, ree_Name = ''launch_requested'',
                   ree_Data = [(''job_id'', JString (job_JobID job))], ree_OccurredAt = None\<rparr>) ks2))))"

definition not_launchable :: "string \<Rightarrow> go_error" where
  "not_launchable reference =
     Plain (''realization '' @ reference @ '' is not launchable through the local execution backend'')"

definition api_handleLaunch :: execution_handler where
  "api_handleLaunch api env call ks =
     (if \<not> xa_HasService api then (no_service call, ks)
      else case decodeJSON (ae_Reader env) (xa_Launch api) call of
        Inl refusal \<Rightarrow> (no_store refusal, ks)
      | Inr given \<Rightarrow>
          (let reference = trim_space given in
           if reference = [] then (no_store (respondError call 400 (Plain ''reference is required'')), ks)
           else case xa_Growth api reference of
             Inl _ \<Rightarrow> (no_store (respondError call 400 (BadRequest ''realization reference could not be loaded'')), ks)
           | Inr packet \<Rightarrow>
               if \<not> ri_CanLaunchLocal (gc_Readiness packet)
               then (no_store (respondError call 400 (not_launchable reference)), ks)
               else
                 (let executionID = launch_id reference (md_RequestID (request_of call)) (xa_UnixNano api) in
                  case request_launch env call packet executionID ks of
                    (Inl e, ks') \<Rightarrow> (no_store (respondError call 400 e), ks')
                  | (Inr (row, job), ks') \<Rightarrow>
                      (no_store (respondJSON 200
                         (X_Launch job (executionProjection api row []) (session_path api executionID) (PreviewPath executionID))),
                       ks'))))"

subsection \<open>Stop and activate\<close>

definition api_handleStop :: execution_handler where
  "api_handleStop api env call ks =
     (if \<not> xa_HasService api then (no_service call, ks)
      else case decodeJSON (ae_Reader env) (xa_Stop api) call of
        Inl refusal \<Rightarrow> (refusal, ks)
      | Inr given \<Rightarrow>
          (let k = trim_space given in
           if k = [] then (respondError call 400 (Plain ''execution_id is required''), ks)
           else case in_jobs (EnqueueJob (ae_Fresh env 0) (ae_Now env) (ae_DB env)
                       (execution_job ''realizations.stop'' 140 [''execution_id'' \<mapsto> JString k])) ks of
             (Inl e, ks') \<Rightarrow> (respondError call 400 e, ks')
           | (Inr job, ks') \<Rightarrow> (respondJSON 200 (X_Stop job (session_path api k)), ks')))"

definition route_input :: "RealizationExecution \<Rightarrow> string \<Rightarrow> string \<Rightarrow> string \<Rightarrow> json_map \<Rightarrow> RealizationRouteBindingInput" where
  "route_input row kind subdomain pathPrefix metadata =
     \<lparr>rbi_BindingID = [], rbi_ExecutionID = ex_ExecutionID row, rbi_SeedID = ex_SeedID row,
      rbi_Reference = ex_Reference row, rbi_BindingKind = kind, rbi_Subdomain = subdomain,
      rbi_PathPrefix = pathPrefix, rbi_UpstreamAddr = ex_UpstreamAddr row, rbi_Status = [], rbi_Metadata = metadata\<rparr>"

definition active_routes :: "RealizationExecution \<Rightarrow> RealizationRouteBindingInput list" where
  "active_routes row =
     route_input row ''preview_path'' [] (ex_PreviewPathPrefix row) [(''preview'', JBool True)] #
     (if ex_RouteSubdomain row \<noteq> [] then [route_input row ''stable_subdomain'' (ex_RouteSubdomain row) [] []] else []) @
     (if ex_RoutePathPrefix row \<noteq> [] then [route_input row ''stable_path'' [] (ex_RoutePathPrefix row) []] else [])"

definition syncActiveRouteBindings :: "api_env \<Rightarrow> RealizationExecution \<Rightarrow> ops_state \<Rightarrow> runtime_error err \<times> ops_state" where
  "syncActiveRouteBindings env row st =
     (case DeleteStableRouteBindingsForReference (ex_Reference row) st of
        (Some e, st1) \<Rightarrow> (Some e, st1)
      | (None, st1) \<Rightarrow>
          (case ReplaceRealizationRouteBindings (ae_Fresh env) (ae_DB env) (ex_ExecutionID row) (active_routes row) st1 of
             (Inl e, st2) \<Rightarrow> (Some e, st2)
           | (Inr _, st2) \<Rightarrow> (None, st2)))"

text \<open>The activation and the routes of an execution that has been found healthy.\<close>

definition activate_input :: "handler_call \<Rightarrow> RealizationExecution \<Rightarrow> ActivateRealizationInput" where
  "activate_input call row =
     \<lparr>ain_SeedID = ex_SeedID row, ain_Reference = ex_Reference row, ain_ExecutionID = ex_ExecutionID row,
      ain_ActivatedByPrincipalID = Http_Requests.ss_PrincipalID (session_of call),
      ain_ActivatedBySessionID = Http_Requests.ss_SessionID (session_of call),
      ain_RequestID = md_RequestID (request_of call), ain_Metadata = []\<rparr>"

definition activate_and_route ::
  "api_env \<Rightarrow> handler_call \<Rightarrow> RealizationExecution \<Rightarrow> ops_state \<Rightarrow> (runtime_error + RealizationActivation) \<times> ops_state" where
  "activate_and_route env call row st =
     (case ActivateRealization (ae_DB env) (activate_input call row) st of
        (Inl e, st1) \<Rightarrow> (Inl e, st1)
      | (Inr activation, st1) \<Rightarrow>
          (case syncActiveRouteBindings env row st1 of
             (Some e, st2) \<Rightarrow> (Inl e, st2)
           | (None, st2) \<Rightarrow> (Inr activation, st2)))"

definition handleActivate :: execution_handler where
  "handleActivate api env call ks =
     (if \<not> xa_HasService api then (no_service call, ks)
      else case decodeJSON (ae_Reader env) (xa_Activate api) call of
        Inl refusal \<Rightarrow> (refusal, ks)
      | Inr k \<Rightarrow>
          (case GetRealizationExecution k (ks_Store ks) of
             Inl e \<Rightarrow> (writeRuntimeResult call id (Inl (runtime_go_error e)), ks)
           | Inr row \<Rightarrow>
               if ex_Status row \<noteq> ''healthy''
               then (respondError call 400 (Plain ''execution must be healthy before activation''), ks)
               else case in_store (activate_and_route env call row) ks of
                 (Inl e, ks') \<Rightarrow> (respondError call 400 e, ks')
               | (Inr activation, ks') \<Rightarrow>
                   (respondJSON 200 (X_Activate activation
                      (executionProjection api row (activeRoutePathsByExecution (ks_Store ks') (ex_ExecutionID row)))), ks')))"

subsection \<open>Projections\<close>

text \<open>A projection: without a service it is refused, an error of the service is answered with status 400.\<close>

definition project ::
  "bool \<Rightarrow> handler_call \<Rightarrow> runtime_error + 'a \<Rightarrow> ('a \<Rightarrow> 'p) \<Rightarrow> 'p response" where
  "project has_service call result payload =
     (if \<not> has_service then no_service call
      else case result of Inl e \<Rightarrow> respondError call 400 (runtime_go_error e) | Inr x \<Rightarrow> respondJSON 200 (payload x))"

definition uncached :: "bool \<Rightarrow> 'p response \<Rightarrow> 'p response" where
  "uncached has_service r = (if has_service then no_store r else r)"

definition handleSessions :: execution_handler where
  "handleSessions api env call ks =
     (uncached (xa_HasService api) (project (xa_HasService api) call
        (ListRealizationExecutions (trimmed_query call ''reference'') 50 (ks_Store ks))
        (\<lambda>items. X_Sessions (map (\<lambda>x. executionProjection api x
           (activeRoutePathsByExecution (ks_Store ks) (ex_ExecutionID x))) items))), ks)"

definition handleSession :: execution_handler where
  "handleSession api env call ks =
     (uncached (xa_HasService api)
        (if \<not> xa_HasService api then no_service call
         else case GetRealizationExecution (hc_PathValue call ''execution_id'') (ks_Store ks) of
           Inl e \<Rightarrow> writeRuntimeResult call id (Inl (runtime_go_error e))
         | Inr item \<Rightarrow>
             project True call (ListRealizationExecutionEvents (ex_ExecutionID item) 40 (ks_Store ks))
               (\<lambda>events. X_Session (executionProjection api item
                  (activeRoutePathsByExecution (ks_Store ks) (ex_ExecutionID item))) events)), ks)"

definition handleRoutes :: execution_handler where
  "handleRoutes api env call ks =
     (uncached (xa_HasService api)
        (project (xa_HasService api) call (ListRealizationRouteBindings True (ks_Store ks)) X_Routes), ks)"

subsection \<open>operations.go\<close>

definition handleProcessSamples :: execution_handler where
  "handleProcessSamples api env call ks =
     (project (xa_HasService api) call
        (ListProcessSamples
           \<lparr>lps_ScopeKind = trimmed_query call ''scope_kind'', lps_ServiceName = trimmed_query call ''service_name'',
            lps_ExecutionID = trimmed_query call ''execution_id'', lps_Reference = trimmed_query call ''reference'',
            lps_Limit = trimmed_query_int call ''limit''\<rparr> (ks_Store ks)) X_Samples, ks)"

definition handleServiceEvents :: execution_handler where
  "handleServiceEvents api env call ks =
     (project (xa_HasService api) call
        (ListServiceEvents
           \<lparr>lse_ServiceName = trimmed_query call ''service_name'', lse_EventName = trimmed_query call ''event_name'',
            lse_Limit = trimmed_query_int call ''limit''\<rparr> (ks_Store ks)) X_Events, ks)"

definition handleRealizationSuspensions :: execution_handler where
  "handleRealizationSuspensions api env call ks =
     (project (xa_HasService api) call
        (ListRealizationSuspensions
           \<lparr>lsu_Reference = trimmed_query call ''reference'', lsu_ExecutionID = trimmed_query call ''execution_id'',
            lsu_ActiveOnly = (to_lower (trimmed_query call ''active_only'') = ''true'' \<or> trimmed_query call ''active_only'' = ''1''),
            lsu_Limit = trimmed_query_int call ''limit''\<rparr> (ks_Store ks)) X_Suspensions, ks)"

end
