(* ===== verification/Spec2Isabelle.thy ===== *)
theory Spec2Isabelle
  imports Contract_Properties Realization_Properties Growth_Context Registry_Properties Rate_Limit_Policy
    Job_Retry Ledger_Properties Authority_History Identity_Properties
    Execution_Properties Operation_Properties Search_Properties Prebuilt_Properties Worker_Behaviour Worker_Budgets
    Locator_Properties Materializer_Properties Registry_Api Execution_Api
begin

text \<open>Kernel of Autosoftware.\<close>

end
